(* ===== verification/Prelude.thy ===== *)
theory Prelude
  imports Main "HOL-Library.Sublist" "HOL-Library.List_Lexorder" "HOL-Library.Char_ord"
    "HOL-Library.Multiset"
begin

text \<open>
  Shared vocabulary of the development: instants, thrown errors and operation results, the
  JavaScript array idioms the store is written with (find, in-place mutation of one or of every
  matching object, first-occurrence deduplication, stable sorting by a comparator), and the
  generic lemmas and collections the component theories use.

  Instants.  The code keeps every instant as a canonical ISO-8601 UTC string produced by
  \<open>toISOString\<close> and compares such strings with \<open><\<close>, \<open><=\<close> and \<open>localeCompare\<close>; the model keeps
  the number of milliseconds since the epoch.  Theory Instants defines \<open>toISOString\<close> and shows
  that the string order is the order of the numbers.
\<close>

section \<open>Collections of rules\<close>

named_theorems store_ops \<open>definitions of the store operations, unfolded by frame proofs\<close>
named_theorems guards \<open>definitions of the guards of the operations\<close>
named_theorems list_updates \<open>how in-place updates act on projections of a list\<close>

section \<open>Basic types\<close>

type_synonym instant = int \<comment> \<open>milliseconds since the epoch, a canonical UTC instant\<close>

datatype exn = TypeError string | RangeError string | GenericError string

text \<open>The value an operation settles with (a thrown error or a result) and the state it leaves.\<close>

type_synonym ('s, 'r) outcome = "(exn + 'r) \<times> 's"

section \<open>Whole seconds\<close>

text \<open>\<open>Math.ceil(ms / 1000)\<close>.\<close>

definition ceil_seconds :: "int \<Rightarrow> int" where
  "ceil_seconds ms = - ((- ms) div 1000)"

section \<open>Truthiness and defaults\<close>

text \<open>An optional string is truthy when it is present and not empty.\<close>

fun truthy :: "string option \<Rightarrow> bool" where
  "truthy None = False"
| "truthy (Some s) = (s \<noteq> [])"

text \<open>The spread \<open>...(x ? {k: x} : {})\<close>: the key is present when \<open>x\<close> is truthy.\<close>

definition when_truthy :: "string option \<Rightarrow> string option" where
  "when_truthy v = (if truthy v then v else None)"

text \<open>The operator \<open>??\<close> and the assignment \<open>??=\<close>.\<close>

fun or_default :: "'a option \<Rightarrow> 'a \<Rightarrow> 'a" where
  "or_default None d = d"
| "or_default (Some x) d = x"

definition assign_if_absent :: "'a option \<Rightarrow> 'a \<Rightarrow> 'a option" where
  "assign_if_absent v d = Some (or_default v d)"

lemma truthy_when_truthy [simp]: "truthy (when_truthy v) = truthy v"
  by (simp add: when_truthy_def)

lemma assign_if_absent_simps [simp]:
  "assign_if_absent None d = Some d"
  "assign_if_absent (Some x) d = Some x"
  by (simp_all add: assign_if_absent_def)

lemma assign_if_absent_not_None [simp]: "assign_if_absent v d \<noteq> None"
  by (simp add: assign_if_absent_def)

section \<open>Arrays of objects\<close>

text \<open>
  \<open>xs.find(P)\<close> is \<^theory_text>\<open>List.find\<close>.  A loop that mutates every object satisfying a condition is
  \<open>update_where\<close>; mutating the object that \<open>find\<close> returned is \<open>update_first\<close> with the same
  condition.
\<close>

definition update_where :: "('a \<Rightarrow> bool) \<Rightarrow> ('a \<Rightarrow> 'a) \<Rightarrow> 'a list \<Rightarrow> 'a list" where
  "update_where P f xs = map (\<lambda>x. if P x then f x else x) xs"

primrec update_first :: "('a \<Rightarrow> bool) \<Rightarrow> ('a \<Rightarrow> 'a) \<Rightarrow> 'a list \<Rightarrow> 'a list" where
  "update_first P f [] = []"
| "update_first P f (x # xs) = (if P x then f x # xs else x # update_first P f xs)"

text \<open>\<open>[...new Set(xs)]\<close> keeps the first occurrence of each value.\<close>

definition js_unique :: "'a list \<Rightarrow> 'a list" where
  "js_unique xs = rev (remdups (rev xs))"

lemma set_js_unique [simp]: "set (js_unique xs) = set xs"
  by (simp add: js_unique_def)

lemma distinct_js_unique [simp]: "distinct (js_unique xs)"
  by (simp add: js_unique_def)

lemma js_unique_id: "distinct xs \<Longrightarrow> js_unique xs = xs"
  by (simp add: js_unique_def distinct_remdups_id)

lemma distinct_singletonD: "distinct xs \<Longrightarrow> set xs = {a} \<Longrightarrow> xs = [a]"
  by (cases xs; cases "tl xs") auto

lemma js_unique_constant: "set xs = {a} \<Longrightarrow> js_unique xs = [a]"
  by (rule distinct_singletonD) simp_all

lemma find_SomeD: "List.find P xs = Some x \<Longrightarrow> x \<in> set xs \<and> P x"
  by (auto simp: find_Some_iff)

lemma find_None_all: "List.find P xs = None \<longleftrightarrow> (\<forall>x \<in> set xs. \<not> P x)"
  by (auto simp: find_None_iff)

lemma find_not_NoneI: "x \<in> set xs \<Longrightarrow> P x \<Longrightarrow> List.find P xs \<noteq> None"
  by (auto simp: find_None_iff)

lemma find_append:
  "List.find P (xs @ ys) = (case List.find P xs of None \<Rightarrow> List.find P ys | Some x \<Rightarrow> Some x)"
  by (induction xs) auto

lemma find_cong_on: "(\<And>x. x \<in> set xs \<Longrightarrow> P x = Q x) \<Longrightarrow> List.find P xs = List.find Q xs"
  by (induction xs) auto

lemma find_unique_key:
  assumes "distinct (map k xs)" "x \<in> set xs" "P x" "\<And>y. y \<in> set xs \<Longrightarrow> P y \<Longrightarrow> k y = k x"
  shows "List.find P xs = Some x"
proof -
  obtain y where y: "List.find P xs = Some y"
    using find_not_NoneI [of x xs P] assms(2,3) by blast
  then have "y \<in> set xs" "P y" by (auto dest: find_SomeD)
  with assms have "y = x" by (auto simp: distinct_map dest: inj_onD)
  with y show ?thesis by simp
qed

lemma set_update_where: "set (update_where P f xs) = (\<lambda>x. if P x then f x else x) ` set xs"
  by (simp add: update_where_def)

lemma length_update_where [simp]: "length (update_where P f xs) = length xs"
  by (simp add: update_where_def)

lemma in_update_whereE:
  assumes "x \<in> set (update_where P f xs)"
  obtains "x \<in> set xs" "\<not> P x" | y where "y \<in> set xs" "P y" "x = f y"
  using assms by (auto simp: set_update_where split: if_splits)

lemma map_update_where [list_updates]:
  "(\<And>x. g (f x) = g x) \<Longrightarrow> map g (update_where P f xs) = map g xs"
  by (simp add: update_where_def)

lemma length_update_first [simp]: "length (update_first P f xs) = length xs"
  by (induction xs) auto

lemma map_update_first [list_updates]:
  "(\<And>x. g (f x) = g x) \<Longrightarrow> map g (update_first P f xs) = map g xs"
  by (induction xs) auto

lemma in_update_firstE:
  assumes "x \<in> set (update_first P f xs)"
  obtains "x \<in> set xs" | y where "List.find P xs = Some y" "x = f y"
proof -
  have "x \<in> set xs \<or> (\<exists>y. List.find P xs = Some y \<and> x = f y)"
    using assms(1)
  proof (induction xs)
    case Nil
    then show ?case by simp
  next
    case (Cons z zs)
    show ?case
    proof (cases "P z")
      case True
      with Cons.prems show ?thesis by simp blast
    next
      case False
      with Cons.prems have "x = z \<or> x \<in> set (update_first P f zs)" by simp
      with Cons.IH False show ?thesis by (elim disjE) simp_all
    qed
  qed
  then show ?thesis using that by (elim disjE exE conjE)
qed

lemma update_first_find_None: "List.find P xs = None \<Longrightarrow> update_first P f xs = xs"
  by (induction xs) (auto split: if_splits)

lemma update_first_as_where:
  "distinct (map k xs) \<Longrightarrow> List.find P xs = Some y \<Longrightarrow>
    update_first P f xs = update_where (\<lambda>x. k x = k y) f xs"
proof (induction xs)
  case Nil
  then show ?case by simp
next
  case (Cons x xs)
  show ?case
  proof (cases "P x")
    case True
    with Cons.prems(2) have xy: "x = y" by simp
    with Cons.prems(1) have "\<forall>z \<in> set xs. k z \<noteq> k y" by (auto simp: image_iff)
    then have "map (\<lambda>x. if k x = k y then f x else x) xs = xs"
      by (intro map_idI) simp
    with True xy show ?thesis by (simp add: update_where_def)
  next
    case False
    with Cons.prems(2) have fnd: "List.find P xs = Some y" by simp
    then have "y \<in> set xs" by (auto dest: find_SomeD)
    with Cons.prems(1) have "k x \<noteq> k y" by (auto simp: image_iff)
    with False Cons.IH Cons.prems(1) fnd show ?thesis by (simp add: update_where_def)
  qed
qed

lemma find_update_where_same:
  "(\<And>x. P (f x) = P x) \<Longrightarrow>
    List.find P (update_where Q f xs) = map_option (\<lambda>x. if Q x then f x else x) (List.find P xs)"
  by (induction xs) (auto simp: update_where_def)

lemma distinct_key_inj:
  "distinct (map k xs) \<Longrightarrow> x \<in> set xs \<Longrightarrow> y \<in> set xs \<Longrightarrow> k x = k y \<Longrightarrow> x = y"
  by (auto simp: distinct_map dest: inj_onD)

section \<open>Sorting with a comparator\<close>

text \<open>
  \<open>Array.prototype.sort\<close> with a comparator is a stable sort; a stable insertion sort gives the
  same list.  \<open>a || b\<close> on comparison results is \<open>cmp_or\<close>.
\<close>

definition cmp_or :: "int \<Rightarrow> int \<Rightarrow> int" where
  "cmp_or a b = (if a \<noteq> 0 then a else b)"

definition cmp_instant :: "instant \<Rightarrow> instant \<Rightarrow> int" where
  "cmp_instant a b = sgn (a - b)"

primrec insert_by :: "('a \<Rightarrow> 'a \<Rightarrow> int) \<Rightarrow> 'a \<Rightarrow> 'a list \<Rightarrow> 'a list" where
  "insert_by cmp x [] = [x]"
| "insert_by cmp x (y # ys) = (if cmp x y \<le> 0 then x # y # ys else y # insert_by cmp x ys)"

definition sort_by :: "('a \<Rightarrow> 'a \<Rightarrow> int) \<Rightarrow> 'a list \<Rightarrow> 'a list" where
  "sort_by cmp xs = foldr (insert_by cmp) xs []"

lemma mset_insert_by [simp]: "mset (insert_by cmp x xs) = add_mset x (mset xs)"
  by (induction xs) auto

lemma mset_sort_by [simp]: "mset (sort_by cmp xs) = mset xs"
proof -
  have "mset (foldr (insert_by cmp) xs []) = mset xs" by (induction xs) auto
  then show ?thesis by (simp add: sort_by_def)
qed

lemma set_sort_by [simp]: "set (sort_by cmp xs) = set xs"
  by (metis mset_sort_by set_mset_mset)

lemma length_sort_by [simp]: "length (sort_by cmp xs) = length xs"
  by (metis mset_sort_by size_mset)

lemma distinct_sort_by [simp]: "distinct (sort_by cmp xs) = distinct xs"
  by (metis mset_sort_by mset_eq_imp_distinct_iff)

text \<open>A comparator that is a total preorder: what \<open>sort\<close> needs to sort.\<close>

locale comparator =
  fixes cmp :: "'a \<Rightarrow> 'a \<Rightarrow> int"
  assumes total: "cmp x y \<le> 0 \<or> cmp y x \<le> 0"
    and trans: "cmp x y \<le> 0 \<Longrightarrow> cmp y z \<le> 0 \<Longrightarrow> cmp x z \<le> 0"
begin

lemma sorted_insert_by:
  "sorted_wrt (\<lambda>a b. cmp a b \<le> 0) xs \<Longrightarrow> sorted_wrt (\<lambda>a b. cmp a b \<le> 0) (insert_by cmp x xs)"
proof (induction xs)
  case Nil
  then show ?case by simp
next
  case (Cons y ys)
  have set_ins: "set (insert_by cmp x ys) = insert x (set ys)"
    by (metis mset_insert_by set_mset_add_mset_insert set_mset_mset)
  show ?case
  proof (cases "cmp x y \<le> 0")
    case True
    with Cons.prems show ?thesis by (auto dest: trans)
  next
    case False
    then have "cmp y x \<le> 0" using total by blast
    with False Cons show ?thesis by (auto simp: set_ins)
  qed
qed

lemma sorted_sort_by: "sorted_wrt (\<lambda>a b. cmp a b \<le> 0) (sort_by cmp xs)"
proof -
  have "sorted_wrt (\<lambda>a b. cmp a b \<le> 0) (foldr (insert_by cmp) xs [])"
    by (induction xs) (auto intro: sorted_insert_by)
  then show ?thesis by (simp add: sort_by_def)
qed

text \<open>The first element of the sorted array is a least one: what \<open>sort(...)[0]\<close> selects.\<close>

lemma sort_by_hd_least:
  assumes "sort_by cmp xs = y # ys" "x \<in> set xs"
  shows "cmp y x \<le> 0"
proof -
  have "sorted_wrt (\<lambda>a b. cmp a b \<le> 0) (y # ys)"
    using sorted_sort_by [of xs] assms(1) by simp
  moreover have "x \<in> set (y # ys)" using assms by (metis set_sort_by)
  ultimately show ?thesis using total [of y y] by auto
qed

end

section \<open>Batches\<close>

lemma set_take_sort_by: "set (take n (sort_by cmp xs)) \<subseteq> set xs"
  by (metis set_sort_by set_take_subset)

lemma length_take_le: "length (take n xs) \<le> n"
  by simp

lemma comparator_map:
  assumes "comparator g"
  shows "comparator (\<lambda>x y. g (k x) (k y))"
  by (rule comparator.intro [OF comparator.total [OF assms] comparator.trans [OF assms]])

text \<open>A sorted list is determined by its elements when the order tells them apart.\<close>

lemma sorted_wrt_unique:
  assumes "sorted_wrt R xs" "sorted_wrt R ys" "mset xs = mset ys"
    and "\<And>x y. x \<in> set xs \<Longrightarrow> y \<in> set xs \<Longrightarrow> R x y \<Longrightarrow> R y x \<Longrightarrow> x = y"
  shows "xs = ys"
  using assms
proof (induction xs arbitrary: ys)
  case Nil
  then show ?case by simp
next
  case (Cons x xs)
  then obtain y zs where ys: "ys = y # zs" by (cases ys) auto
  have s: "set ys = set (x # xs)" using Cons.prems(3) by (metis set_mset_mset)
  have "x = y"
  proof (rule ccontr)
    assume n: "x \<noteq> y"
    then have "x \<in> set zs" "y \<in> set xs" using s ys by auto
    with Cons.prems ys have "R y x" "R x y" by auto
    with Cons.prems(4) [of x y] \<open>y \<in> set xs\<close> n show False by auto
  qed
  with Cons ys show ?case by auto
qed

lemma sort_by_unique:
  assumes "comparator cmp" "mset xs = mset ys"
    and "\<And>x y. x \<in> set xs \<Longrightarrow> y \<in> set xs \<Longrightarrow> cmp x y \<le> 0 \<Longrightarrow> cmp y x \<le> 0 \<Longrightarrow> x = y"
  shows "sort_by cmp xs = sort_by cmp ys"
  using assms(2,3) comparator.sorted_sort_by [OF assms(1)]
  by (intro sorted_wrt_unique [where R = "\<lambda>a b. cmp a b \<le> 0"]) simp_all

lemma replicate_numeral: "replicate (numeral n) x = x # replicate (pred_numeral n) x"
  by (simp add: numeral_eq_Suc)

end
