(* ===== verification/Instants.thy ===== *)
theory Instants
  imports Prelude
begin

text \<open>
  The part of the JavaScript \<open>Date\<close> library the code relies on: the proleptic Gregorian calendar
  of ECMA-262 (day numbers, years, months), \<open>Date.UTC\<close>, the \<open>getUTC*\<close> readers and
  \<open>toISOString\<close>.  The main facts: the calendar readers invert \<open>Date.UTC\<close>, and for the years
  0 to 9999 the canonical strings are ordered like the instants, which is why the model can
  keep instants as numbers where the code compares strings.
\<close>

section \<open>Calendar\<close>

definition leap_year :: "int \<Rightarrow> bool" where
  "leap_year y \<longleftrightarrow> (y mod 4 = 0 \<and> y mod 100 \<noteq> 0) \<or> y mod 400 = 0"

definition day_from_year :: "int \<Rightarrow> int" where
  "day_from_year y =
     365 * (y - 1970) + (y - 1969) div 4 - (y - 1901) div 100 + (y - 1601) div 400"

text \<open>Days before the month \<open>m\<close> (0 to 12) of a year.\<close>

definition month_start :: "bool \<Rightarrow> int \<Rightarrow> int" where
  "month_start l m =
     (let k = (if l then 1 else 0) in
      if m \<le> 0 then 0 else if m = 1 then 31 else if m = 2 then 59 + k else if m = 3 then 90 + k
      else if m = 4 then 120 + k else if m = 5 then 151 + k else if m = 6 then 181 + k
      else if m = 7 then 212 + k else if m = 8 then 243 + k else if m = 9 then 273 + k
      else if m = 10 then 304 + k else if m = 11 then 334 + k else 365 + k)"

definition year_from_day :: "int \<Rightarrow> int" where
  "year_from_day z =
     (let y = 1970 + (400 * z) div 146097 in
      if z < day_from_year y then y - 1
      else if day_from_year (y + 1) \<le> z then y + 1 else y)"

text \<open>The month (0 to 11) of a day of the year.\<close>

definition month_from_day_in_year :: "bool \<Rightarrow> int \<Rightarrow> int" where
  "month_from_day_in_year l d =
     (if d < month_start l 1 then 0 else if d < month_start l 2 then 1
      else if d < month_start l 3 then 2 else if d < month_start l 4 then 3
      else if d < month_start l 5 then 4 else if d < month_start l 6 then 5
      else if d < month_start l 7 then 6 else if d < month_start l 8 then 7
      else if d < month_start l 9 then 8 else if d < month_start l 10 then 9
      else if d < month_start l 11 then 10 else 11)"

text \<open>Year, month (1 to 12) and day of month of a day number.\<close>

definition civil_from_day :: "int \<Rightarrow> int \<times> int \<times> int" where
  "civil_from_day z =
     (let y = year_from_day z; d = z - day_from_year y;
          m = month_from_day_in_year (leap_year y) d
      in (y, m + 1, d - month_start (leap_year y) m + 1))"

definition ms_per_day :: int where "ms_per_day = 86400000"

text \<open>\<open>Date.UTC(year, month, day, hours, minutes)\<close>, months from 0, two-digit years in the 1900s.\<close>

definition date_utc :: "int \<Rightarrow> int \<Rightarrow> int \<Rightarrow> int \<Rightarrow> int \<Rightarrow> instant" where
  "date_utc year month day hours minutes =
     (let y = (if 0 \<le> year \<and> year \<le> 99 then 1900 + year else year);
          ym = y + month div 12
      in (day_from_year ym + month_start (leap_year ym) (month mod 12) + day - 1) * ms_per_day
         + hours * 3600000 + minutes * 60000)"

lemma div_Suc_int:
  fixes x k :: int
  assumes "0 < k"
  shows "(x + 1) div k = x div k + (if (x + 1) mod k = 0 then 1 else 0)"
proof (cases "x mod k + 1 = k")
  case True
  then have "x + 1 = k * (x div k) + k"
    using mult_div_mod_eq [of k x] by linarith
  then have e: "x + 1 = k * (x div k + 1) + 0"
    by (simp add: algebra_simps)
  then have "(x + 1) div k = x div k + 1" "(x + 1) mod k = 0"
    using assms by (auto intro: int_div_pos_eq simp: e)
  then show ?thesis by simp
next
  case False
  then have r: "0 \<le> x mod k + 1" "x mod k + 1 < k"
    using pos_mod_bound [OF assms, of x] pos_mod_sign [OF assms, of x] by linarith+
  have e: "x + 1 = k * (x div k) + (x mod k + 1)"
    using mult_div_mod_eq [of k x] by simp
  then have "(x + 1) div k = x div k" "(x + 1) mod k = x mod k + 1"
    using r by (blast intro: int_div_pos_eq int_mod_pos_eq)+
  then show ?thesis using pos_mod_sign [OF assms, of x] by simp
qed

lemma day_from_year_Suc:
  "day_from_year (y + 1) = day_from_year y + (if leap_year y then 366 else 365)"
proof -
  have m4: "(y - 1969 + 1) mod 4 = y mod 4"
    using mod_mult_self2 [of y 4 "-492"] by simp
  have m100: "(y - 1901 + 1) mod 100 = y mod 100"
    using mod_mult_self2 [of y 100 "-19"] by simp
  have m400: "(y - 1601 + 1) mod 400 = y mod 400"
    using mod_mult_self2 [of y 400 "-4"] by simp
  have a: "(y + 1 - 1969) div 4 = (y - 1969) div 4 + (if y mod 4 = 0 then 1 else 0)"
    using div_Suc_int [of 4 "y - 1969"] unfolding m4 by (simp add: algebra_simps)
  have b: "(y + 1 - 1901) div 100 = (y - 1901) div 100 + (if y mod 100 = 0 then 1 else 0)"
    using div_Suc_int [of 100 "y - 1901"] unfolding m100 by (simp add: algebra_simps)
  have c: "(y + 1 - 1601) div 400 = (y - 1601) div 400 + (if y mod 400 = 0 then 1 else 0)"
    using div_Suc_int [of 400 "y - 1601"] unfolding m400 by (simp add: algebra_simps)
  have d: "y mod 400 = 0 \<Longrightarrow> y mod 100 = 0" "y mod 100 = 0 \<Longrightarrow> y mod 4 = 0"
    using dvd_trans [of 100 400 y] dvd_trans [of 4 100 y]
    by (simp_all add: mod_eq_0_iff_dvd)
  show ?thesis
    unfolding day_from_year_def a b c leap_year_def using d by auto
qed

lemma day_from_year_mono: "y < y' \<Longrightarrow> day_from_year y < day_from_year y'"
proof (induction "nat (y' - y - 1)" arbitrary: y')
  case 0
  then have "y' = y + 1" by simp
  then show ?case by (simp add: day_from_year_Suc)
next
  case (Suc n)
  then have "day_from_year y < day_from_year (y' - 1)" by simp
  also have "\<dots> < day_from_year y'"
    using day_from_year_Suc [of "y' - 1"] by (simp split: if_splits)
  finally show ?case .
qed

lemma div_times_bounds:
  fixes x k :: int
  assumes "0 < k"
  shows "x - (k - 1) \<le> k * (x div k)" "k * (x div k) \<le> x"
  using mult_div_mod_eq [of k x] pos_mod_bound [OF assms, of x] pos_mod_sign [OF assms, of x]
  by linarith+

lemma day_from_year_bounds:
  "400 * day_from_year (1970 + q) \<le> 146097 * q + 589"
  "146097 * q - 506 \<le> 400 * day_from_year (1970 + q)"
proof -
  have a: "q + 1 - 3 \<le> 4 * ((q + 1) div 4)" "4 * ((q + 1) div 4) \<le> q + 1"
    using div_times_bounds [of 4 "q + 1"] by simp_all
  have b: "q + 69 - 99 \<le> 100 * ((q + 69) div 100)" "100 * ((q + 69) div 100) \<le> q + 69"
    using div_times_bounds [of 100 "q + 69"] by simp_all
  have c: "q + 369 - 399 \<le> 400 * ((q + 369) div 400)" "400 * ((q + 369) div 400) \<le> q + 369"
    using div_times_bounds [of 400 "q + 369"] by simp_all
  have e: "day_from_year (1970 + q) =
      365 * q + (q + 1) div 4 - (q + 69) div 100 + (q + 369) div 400"
    by (simp add: day_from_year_def algebra_simps)
  define A B C where "A = (q + 1) div 4" and "B = (q + 69) div 100" and "C = (q + 369) div 400"
  note abs = a [folded A_def] b [folded B_def] c [folded C_def]
  show "400 * day_from_year (1970 + q) \<le> 146097 * q + 589"
    unfolding e A_def [symmetric] B_def [symmetric] C_def [symmetric] using abs by (simp add: algebra_simps)
  show "146097 * q - 506 \<le> 400 * day_from_year (1970 + q)"
    unfolding e A_def [symmetric] B_def [symmetric] C_def [symmetric] using abs by (simp add: algebra_simps)
qed

lemma year_from_day_bracket:
  "day_from_year (year_from_day z) \<le> z" "z < day_from_year (year_from_day z + 1)"
proof -
  define q where "q = (400 * z) div 146097"
  have q: "146097 * q \<le> 400 * z" "400 * z < 146097 * (q + 1)"
    using div_times_bounds [of 146097 "400 * z"] unfolding q_def by simp_all
  have lo: "day_from_year (1970 + q - 1) \<le> z"
    using day_from_year_bounds(1) [of "q - 1"] q by (simp add: algebra_simps)
  have hi: "z < day_from_year (1970 + q + 1 + 1)"
    using day_from_year_bounds(2) [of "q + 2"] q by (simp add: algebra_simps)
  show "day_from_year (year_from_day z) \<le> z" "z < day_from_year (year_from_day z + 1)"
    using lo hi by (auto simp: year_from_day_def Let_def q_def [symmetric])
qed

lemma year_from_day_unique:
  assumes "day_from_year y \<le> z" "z < day_from_year (y + 1)"
  shows "year_from_day z = y"
proof (rule ccontr)
  assume "year_from_day z \<noteq> y"
  then consider "year_from_day z + 1 \<le> y" | "y + 1 \<le> year_from_day z" by linarith
  then show False
  proof cases
    case 1
    then have "day_from_year (year_from_day z + 1) \<le> day_from_year y"
      using day_from_year_mono [of "year_from_day z + 1" y] by (cases "year_from_day z + 1 = y") auto
    with assms(1) year_from_day_bracket(2) [of z] show False by linarith
  next
    case 2
    then have "day_from_year (y + 1) \<le> day_from_year (year_from_day z)"
      using day_from_year_mono [of "y + 1" "year_from_day z"]
      by (cases "y + 1 = year_from_day z") auto
    with assms(2) year_from_day_bracket(1) [of z] show False by linarith
  qed
qed

lemma twelve_cases:
  fixes m :: int
  assumes "0 \<le> m" "m \<le> 11"
  obtains "m = 0" | "m = 1" | "m = 2" | "m = 3" | "m = 4" | "m = 5" | "m = 6" | "m = 7" | "m = 8"
    | "m = 9" | "m = 10" | "m = 11"
proof -
  have "m = 0 \<or> m = 1 \<or> m = 2 \<or> m = 3 \<or> m = 4 \<or> m = 5 \<or> m = 6 \<or> m = 7 \<or> m = 8
    \<or> m = 9 \<or> m = 10 \<or> m = 11"
    using assms by presburger
  with that show ?thesis by (elim disjE)
qed

lemma month_start_12: "month_start l 12 = (if l then 366 else 365)"
  by (simp add: month_start_def)

lemma month_start_step:
  assumes "0 \<le> m" "m \<le> 11"
  shows "month_start l m + 28 \<le> month_start l (m + 1)"
  using assms by (cases m rule: twelve_cases) (simp_all add: month_start_def)

lemma month_start_mono:
  assumes "0 \<le> m" "m \<le> m'" "m' \<le> 12"
  shows "month_start l m \<le> month_start l m'"
  using assms(2,3)
proof (induction m' rule: int_ge_induct)
  case base
  then show ?case by simp
next
  case (step i)
  then show ?case using month_start_step [of i l] assms(1) by simp
qed

lemma month_in_year_unique:
  assumes "0 \<le> m" "m \<le> 11" "month_start l m \<le> d" "d < month_start l (m + 1)"
  shows "month_from_day_in_year l d = m"
proof -
  have lo: "\<not> d < month_start l k" if "0 \<le> k" "k \<le> m" for k
    using month_start_mono [of k m l] that assms by simp
  have hi: "d < month_start l k" if "m < k" "k \<le> 12" for k
    using month_start_mono [of "m + 1" k l] that assms by simp
  show ?thesis
    unfolding month_from_day_in_year_def
    by (rule twelve_cases [OF assms(1,2)]) (simp_all add: lo hi del: not_less)
qed

lemma month_in_year_exists:
  assumes "0 \<le> d" "d < month_start l 12"
  obtains m where "0 \<le> m" "m \<le> 11" "month_start l m \<le> d" "d < month_start l (m + 1)"
proof -
  have "month_start l 0 \<le> d" using assms(1) by (simp add: month_start_def)
  moreover have "\<exists>m \<ge> 0. m \<le> 11 \<and> month_start l m \<le> d \<and> d < month_start l (m + 1)"
    if "month_start l 0 \<le> d" "d < month_start l k" "0 \<le> k" "k \<le> 12" for k
    using that(3,2,4)
  proof (induction k rule: int_ge_induct)
    case base
    then show ?case using that(1) by simp
  next
    case (step i)
    then show ?case by (cases "d < month_start l i") auto
  qed
  ultimately show ?thesis using that assms(2) by (metis order.refl zero_le_numeral)
qed

lemma month_in_year_bracket:
  assumes "0 \<le> d" "d < (if l then 366 else 365)"
  shows "0 \<le> month_from_day_in_year l d" "month_from_day_in_year l d \<le> 11"
    "month_start l (month_from_day_in_year l d) \<le> d"
    "d < month_start l (month_from_day_in_year l d + 1)"
proof -
  obtain m where "0 \<le> m" "m \<le> 11" "month_start l m \<le> d" "d < month_start l (m + 1)"
    using month_in_year_exists [of d l] assms month_start_12 [of l] by auto
  moreover from this have "month_from_day_in_year l d = m" by (rule month_in_year_unique)
  ultimately show "0 \<le> month_from_day_in_year l d" "month_from_day_in_year l d \<le> 11"
    "month_start l (month_from_day_in_year l d) \<le> d"
    "d < month_start l (month_from_day_in_year l d + 1)"
    by simp_all
qed

text \<open>The readers invert the day number: a day is its year, month and day of month.\<close>

lemma civil_from_day_of:
  assumes "0 \<le> m" "m \<le> 11" "1 \<le> d"
    "d \<le> month_start (leap_year y) (m + 1) - month_start (leap_year y) m"
  shows "civil_from_day (day_from_year y + month_start (leap_year y) m + d - 1) = (y, m + 1, d)"
proof -
  let ?l = "leap_year y"
  let ?z = "day_from_year y + month_start ?l m + d - 1"
  have lo: "0 \<le> month_start ?l m" using month_start_mono [of 0 m ?l] assms
    by (simp add: month_start_def)
  have hi: "month_start ?l (m + 1) \<le> month_start ?l 12"
    using month_start_mono [of "m + 1" 12 ?l] assms by simp
  have yz: "year_from_day ?z = y"
    using lo hi assms month_start_12 [of ?l]
    by (intro year_from_day_unique) (auto simp: day_from_year_Suc split: if_splits)
  have mz: "month_from_day_in_year ?l (month_start ?l m + d - 1) = m"
    using assms by (intro month_in_year_unique) auto
  have sub: "?z - day_from_year y = month_start ?l m + d - 1" by simp
  show ?thesis unfolding civil_from_day_def Let_def yz sub mz by simp
qed

lemma civil_from_day_fields:
  assumes "civil_from_day z = (y, m, d)"
  shows "1 \<le> m" "m \<le> 12" "1 \<le> d" "d \<le> 31" "y = year_from_day z"
    "z = day_from_year y + month_start (leap_year y) (m - 1) + d - 1"
    "d \<le> month_start (leap_year y) m - month_start (leap_year y) (m - 1)"
proof -
  define Y where "Y = year_from_day z"
  define L where "L = leap_year Y"
  define D where "D = z - day_from_year Y"
  define M where "M = month_from_day_in_year L D"
  have D: "0 \<le> D" "D < (if L then 366 else 365)"
    using year_from_day_bracket [of z]
    by (auto simp: D_def L_def Y_def day_from_year_Suc split: if_splits)
  note br = month_in_year_bracket [OF D, folded M_def]
  have len: "month_start l (k + 1) - month_start l k \<le> 31" if "0 \<le> k" "k \<le> 11" for l k
    by (rule twelve_cases [OF that]) (simp_all add: month_start_def)
  have e: "y = Y" "m = M + 1" "d = D - month_start L M + 1"
    using assms by (auto simp: civil_from_day_def Let_def Y_def L_def D_def M_def)
  have le: "leap_year y = L" by (simp add: e(1) L_def)
  show "1 \<le> m" "m \<le> 12" using br(1,2) e(2) by simp_all
  show "1 \<le> d" using br(3) e(3) by simp
  show "d \<le> 31" using br(4) e(3) len [OF br(1,2), of L] by linarith
  show "y = year_from_day z" by (simp add: e(1) Y_def)
  show "z = day_from_year y + month_start (leap_year y) (m - 1) + d - 1"
    unfolding le using e by (simp add: D_def)
  show "d \<le> month_start (leap_year y) m - month_start (leap_year y) (m - 1)"
    unfolding le using e br(4) by simp
qed

section \<open>Canonical strings\<close>

primrec pad :: "nat \<Rightarrow> int \<Rightarrow> string" where
  "pad 0 n = []"
| "pad (Suc k) n = pad k (n div 10) @ [char_of (48 + nat (n mod 10))]"

definition iso_date :: "int \<Rightarrow> string" where
  "iso_date z =
     (case civil_from_day z of (y, m, d) \<Rightarrow>
        (if 0 \<le> y \<and> y \<le> 9999 then pad 4 y
         else if y < 0 then ''-'' @ pad 6 (- y) else ''+'' @ pad 6 y)
        @ ''-'' @ pad 2 m @ ''-'' @ pad 2 d)"

definition iso_time :: "int \<Rightarrow> string" where
  "iso_time r =
     pad 2 (r div 3600000) @ '':'' @ pad 2 (r mod 3600000 div 60000) @ '':''
     @ pad 2 (r mod 60000 div 1000) @ ''.'' @ pad 3 (r mod 1000)"

definition toISOString :: "instant \<Rightarrow> string" where
  "toISOString t = iso_date (t div ms_per_day) @ ''T'' @ iso_time (t mod ms_per_day) @ ''Z''"

text \<open>Instants of the years 0 to 9999, those with a four-digit year.\<close>

definition four_digit_year :: "instant \<Rightarrow> bool" where
  "four_digit_year t \<longleftrightarrow>
     0 \<le> year_from_day (t div ms_per_day) \<and> year_from_day (t div ms_per_day) \<le> 9999"

lemma append_less_append:
  fixes xs :: "'a::linorder list"
  assumes "length xs = length xs'"
  shows "xs @ ys < xs' @ ys' \<longleftrightarrow> xs < xs' \<or> (xs = xs' \<and> ys < ys')"
  using assms by (induction xs xs' rule: list_induct2) auto

lemma length_pad [simp]: "length (pad k n) = k"
  by (induction k arbitrary: n) auto

lemma digit_less:
  assumes "0 \<le> a" "a < 10" "0 \<le> b" "b < (10 :: int)"
  shows "(char_of (48 + nat a) < (char_of (48 + nat b) :: char)) \<longleftrightarrow> a < b"
    "(char_of (48 + nat a) = (char_of (48 + nat b) :: char)) \<longleftrightarrow> a = b"
proof -
  have o: "of_char (char_of (48 + nat c) :: char) = 48 + nat c" if "0 \<le> c" "c < 10" for c
    using that by (simp add: of_char_of)
  show "(char_of (48 + nat a) < (char_of (48 + nat b) :: char)) \<longleftrightarrow> a < b"
    using assms by (auto simp: less_char_def o nat_less_eq_zless)
  show "(char_of (48 + nat a) = (char_of (48 + nat b) :: char)) \<longleftrightarrow> a = b"
  proof
    assume "char_of (48 + nat a) = (char_of (48 + nat b) :: char)"
    then have "48 + nat a = 48 + nat b"
      using o [OF assms(1,2)] o [OF assms(3,4)] by metis
    then show "a = b" using assms by simp
  qed simp
qed

lemma less_by_div_mod:
  fixes a b k :: int
  assumes "0 < k"
  shows "a < b \<longleftrightarrow> a div k < b div k \<or> (a div k = b div k \<and> a mod k < b mod k)"
proof
  assume "a < b"
  then have "a div k \<le> b div k" using assms by (intro zdiv_mono1) auto
  moreover have "a mod k < b mod k" if "a div k = b div k"
    using \<open>a < b\<close> mult_div_mod_eq [of k a] mult_div_mod_eq [of k b] unfolding that by linarith
  ultimately show "a div k < b div k \<or> (a div k = b div k \<and> a mod k < b mod k)" by auto
next
  assume r: "a div k < b div k \<or> (a div k = b div k \<and> a mod k < b mod k)"
  show "a < b"
  proof (rule ccontr)
    assume "\<not> a < b"
    then have "b div k \<le> a div k" using assms by (intro zdiv_mono1) auto
    with r have e: "a div k = b div k" "a mod k < b mod k" by auto
    with \<open>\<not> a < b\<close> show False
      using mult_div_mod_eq [of k a] mult_div_mod_eq [of k b] by simp
  qed
qed

lemma pad_order:
  "0 \<le> a \<Longrightarrow> a < 10 ^ k \<Longrightarrow> 0 \<le> b \<Longrightarrow> b < 10 ^ k \<Longrightarrow>
    (pad k a < pad k b \<longleftrightarrow> a < b) \<and> (pad k a = pad k b \<longleftrightarrow> a = b)"
proof (induction k arbitrary: a b)
  case 0
  then show ?case by simp
next
  case (Suc k)
  have bnd: "x < 10 * K \<Longrightarrow> x div 10 < K" for x K :: int by presburger
  have ih: "(pad k (a div 10) < pad k (b div 10) \<longleftrightarrow> a div 10 < b div 10) \<and>
      (pad k (a div 10) = pad k (b div 10) \<longleftrightarrow> a div 10 = b div 10)"
    using Suc.prems by (intro Suc.IH) (auto intro!: bnd simp: pos_imp_zdiv_nonneg_iff)
  have dl: "0 \<le> x mod 10" "x mod 10 < 10" for x :: int by simp_all
  note dg = digit_less [OF dl [of a] dl [of b]]
  have "a = b \<longleftrightarrow> a div 10 = b div 10 \<and> a mod 10 = b mod 10"
    by (metis mult_div_mod_eq)
  moreover have "a < b \<longleftrightarrow> a div 10 < b div 10 \<or> (a div 10 = b div 10 \<and> a mod 10 < b mod 10)"
    by (rule less_by_div_mod) simp
  ultimately show ?case
    using ih dg by (simp add: append_less_append)
qed

lemma civil_from_day_less:
  assumes "z < z'" "civil_from_day z = (y, m, d)" "civil_from_day z' = (y', m', d')"
  shows "y < y' \<or> (y = y' \<and> (m < m' \<or> (m = m' \<and> d < d')))"
proof -
  note f = civil_from_day_fields [OF assms(2)] and f' = civil_from_day_fields [OF assms(3)]
  have yy: "y \<le> y'"
  proof (rule ccontr)
    assume "\<not> y \<le> y'"
    then have "day_from_year (y' + 1) \<le> day_from_year y"
      using day_from_year_mono [of "y' + 1" y] by (cases "y' + 1 = y") auto
    then show False
      using year_from_day_bracket [of z] year_from_day_bracket [of z'] f(5) f'(5) assms(1) by simp
  qed
  have mm: "m \<le> m'" if "y = y'"
  proof (rule ccontr)
    assume "\<not> m \<le> m'"
    then have "month_start (leap_year y) m' \<le> month_start (leap_year y) (m - 1)"
      using f(2) f'(1) by (intro month_start_mono) auto
    then show False using f(3,6) f'(6,7) assms(1) that by simp
  qed
  have "d < d'" if "y = y'" "m = m'"
    using f(6) f'(6) assms(1) that by simp
  with yy mm show ?thesis by force
qed

lemma iso_date_less:
  assumes "z < z'" "0 \<le> year_from_day z" "year_from_day z' \<le> 9999"
  shows "iso_date z < iso_date z'" "length (iso_date z) = 10" "length (iso_date z') = 10"
proof -
  obtain y m d y' m' d' where c: "civil_from_day z = (y, m, d)" "civil_from_day z' = (y', m', d')"
    by (metis prod_cases3)
  note f = civil_from_day_fields [OF c(1)] and f' = civil_from_day_fields [OF c(2)]
  note lex = civil_from_day_less [OF assms(1) c]
  then have y: "0 \<le> y" "y \<le> 9999" "0 \<le> y'" "y' \<le> 9999"
    using assms(2,3) f(5) f'(5) by auto
  have s: "iso_date z = pad 4 y @ ''-'' @ pad 2 m @ ''-'' @ pad 2 d"
    "iso_date z' = pad 4 y' @ ''-'' @ pad 2 m' @ ''-'' @ pad 2 d'"
    using c y by (simp_all add: iso_date_def)
  have p: "(pad 4 y < pad 4 y' \<longleftrightarrow> y < y') \<and> (pad 4 y = pad 4 y' \<longleftrightarrow> y = y')"
    using y by (intro pad_order) auto
  have q: "(pad 2 m < pad 2 m' \<longleftrightarrow> m < m') \<and> (pad 2 m = pad 2 m' \<longleftrightarrow> m = m')"
    using f f' by (intro pad_order) auto
  have r: "(pad 2 d < pad 2 d' \<longleftrightarrow> d < d') \<and> (pad 2 d = pad 2 d' \<longleftrightarrow> d = d')"
    using f f' by (intro pad_order) auto
  show "iso_date z < iso_date z'"
    unfolding s using lex p q r by (auto simp: append_less_append simp del: pad.simps)
  show "length (iso_date z) = 10" "length (iso_date z') = 10"
    unfolding s by (simp_all del: pad.simps)
qed

lemma iso_time_less:
  assumes "r < r'" "0 \<le> r" "r' < ms_per_day"
  shows "iso_time r < iso_time r'" "length (iso_time r) = length (iso_time r')"
proof -
  have mm: "x mod 3600000 mod 60000 = x mod 60000" "x mod 60000 mod 1000 = x mod 1000" for x :: int
    by (simp_all add: mod_mod_cancel)
  have b: "0 \<le> x mod 3600000 div 60000 \<and> x mod 3600000 div 60000 < 100"
    "0 \<le> x mod 60000 div 1000 \<and> x mod 60000 div 1000 < 100" for x :: int
    using pos_mod_bound [of 3600000 x] pos_mod_bound [of 60000 x]
    by (simp_all add: pos_imp_zdiv_nonneg_iff div_less_iff_less_mult)
  have h: "0 \<le> x div 3600000 \<and> x div 3600000 < 100" if "0 \<le> x" "x < ms_per_day" for x
    using that by (simp add: pos_imp_zdiv_nonneg_iff div_less_iff_less_mult ms_per_day_def)
  have e: "r < r' \<longleftrightarrow> r div 3600000 < r' div 3600000 \<or> (r div 3600000 = r' div 3600000 \<and>
      (r mod 3600000 div 60000 < r' mod 3600000 div 60000 \<or>
       (r mod 3600000 div 60000 = r' mod 3600000 div 60000 \<and>
        (r mod 60000 div 1000 < r' mod 60000 div 1000 \<or>
         (r mod 60000 div 1000 = r' mod 60000 div 1000 \<and> r mod 1000 < r' mod 1000)))))"
    using less_by_div_mod [of 3600000 r r'] less_by_div_mod [of 60000 "r mod 3600000" "r' mod 3600000"]
      less_by_div_mod [of 1000 "r mod 60000" "r' mod 60000"] by (simp add: mm)
  have p2: "(pad 2 a < pad 2 a' \<longleftrightarrow> a < a') \<and> (pad 2 a = pad 2 a' \<longleftrightarrow> a = a')"
    if "0 \<le> a \<and> a < 100" "0 \<le> a' \<and> a' < 100" for a a'
    using that by (intro pad_order) auto
  have p3: "pad 3 (r mod 1000) < pad 3 (r' mod 1000) \<longleftrightarrow> r mod 1000 < r' mod 1000"
    using pad_order [of "r mod 1000" 3 "r' mod 1000"] by simp
  have rb: "0 \<le> r' \<and> r' < ms_per_day" "0 \<le> r \<and> r < ms_per_day" using assms by auto
  show "iso_time r < iso_time r'"
    unfolding iso_time_def
    using assms(1) [unfolded e] p2 [OF h h, of r r'] p2 [OF b(1) b(1), of r r']
      p2 [OF b(2) b(2), of r r'] p3 rb
    by (auto simp: append_less_append simp del: pad.simps)
  show "length (iso_time r) = length (iso_time r')" by (simp add: iso_time_def del: pad.simps)
qed

lemma toISOString_strict:
  assumes "a < b" "four_digit_year a" "four_digit_year b"
  shows "toISOString a < toISOString b"
proof -
  have d: "0 < ms_per_day" by (simp add: ms_per_day_def)
  note y = assms(2,3) [unfolded four_digit_year_def]
  have rb: "0 \<le> a mod ms_per_day" "b mod ms_per_day < ms_per_day"
    using d by simp_all
  show ?thesis
  proof (cases "a div ms_per_day < b div ms_per_day")
    case True
    with y have "iso_date (a div ms_per_day) < iso_date (b div ms_per_day)"
      "length (iso_date (a div ms_per_day)) = length (iso_date (b div ms_per_day))"
      by (simp_all add: iso_date_less)
    then show ?thesis by (simp add: toISOString_def append_less_append)
  next
    case False
    with assms(1) less_by_div_mod [OF d, of a b]
    have "a div ms_per_day = b div ms_per_day" "a mod ms_per_day < b mod ms_per_day" by auto
    with rb show ?thesis
      by (simp add: toISOString_def append_less_append iso_time_less)
  qed
qed

lemma toISOString_le_iff:
  assumes "four_digit_year a" "four_digit_year b"
  shows "toISOString a \<le> toISOString b \<longleftrightarrow> a \<le> b"
proof (cases a b rule: linorder_cases)
  case less
  then show ?thesis using toISOString_strict [OF less assms] by auto
next
  case equal
  then show ?thesis by simp
next
  case greater
  then show ?thesis using toISOString_strict [OF greater assms(2,1)] by auto
qed

end
