(* ===== verification/Json.thy ===== *)
theory Json
  imports Instants
begin

text \<open>
  JSON values and their texts: the values the audit metadata and the digest snapshots are made
  of, \<open>JSON.stringify\<close> as ECMA-262 defines it (escapes, well-formed surrogates, dropped
  undefined properties), UTF-8 lengths as \<open>Buffer.byteLength\<close> counts them, and the contracts
  package's \<open>canonicalJson\<close> with recursively sorted keys.  Texts are lists of UTF-16 code units.
\<close>

section \<open>Texts\<close>

type_synonym utext = "nat list" \<comment> \<open>UTF-16 code units\<close>

definition js :: "string \<Rightarrow> utext" where
  "js s = map of_char s"

lemma js_eq_iff [simp]: "js s = js t \<longleftrightarrow> s = t"
  unfolding js_def by (rule inj_map_eq_map) (simp add: inj_def)

lemma length_js [simp]: "length (js s) = length s"
  by (simp add: js_def)

lemma js_append: "js (s @ t) = js s @ js t"
  by (simp add: js_def)

definition high_surrogate :: "nat \<Rightarrow> bool" where
  "high_surrogate u \<longleftrightarrow> 55296 \<le> u \<and> u \<le> 56319"

definition low_surrogate :: "nat \<Rightarrow> bool" where
  "low_surrogate u \<longleftrightarrow> 56320 \<le> u \<and> u \<le> 57343"

text \<open>Bytes of the UTF-8 encoding; an unpaired surrogate is encoded as U+FFFD, three bytes.\<close>

fun utf8_length :: "utext \<Rightarrow> nat" where
  "utf8_length [] = 0"
| "utf8_length [u] = (if u < 128 then 1 else if u < 2048 then 2 else 3)"
| "utf8_length (u # v # us) =
     (if u < 128 then 1 + utf8_length (v # us)
      else if u < 2048 then 2 + utf8_length (v # us)
      else if high_surrogate u \<and> low_surrogate v then 4 + utf8_length us
      else 3 + utf8_length (v # us))"

section \<open>JSON values\<close>

text \<open>
  \<open>JUndefined\<close> and \<open>JNonFinite\<close> (NaN, infinities) are JavaScript values that are not JSON.
  Numbers are integers: every number the program stores in metadata or hashes is one.
\<close>

datatype json =
    JUndefined
  | JNull
  | JBool bool
  | JNum int
  | JNonFinite
  | JStr utext
  | JArr "json list"
  | JObj "(utext \<times> json) list"

abbreviation jstr :: "string \<Rightarrow> json" where
  "jstr s \<equiv> JStr (js s)"

abbreviation jinstant :: "instant \<Rightarrow> json" where
  "jinstant t \<equiv> JStr (js (toISOString t))"

section \<open>JSON.stringify\<close>

definition hex_digit :: "nat \<Rightarrow> nat" where
  "hex_digit d = (if d < 10 then 48 + d else 87 + d)"

definition unicode_escape :: "nat \<Rightarrow> utext" where
  "unicode_escape u =
     [92, 117, hex_digit (u div 4096 mod 16), hex_digit (u div 256 mod 16),
      hex_digit (u div 16 mod 16), hex_digit (u mod 16)]"

definition quote_unit :: "nat \<Rightarrow> utext" where
  "quote_unit u =
     (if u = 8 then [92, 98] else if u = 9 then [92, 116] else if u = 10 then [92, 110]
      else if u = 12 then [92, 102] else if u = 13 then [92, 114]
      else if u = 34 then [92, 34] else if u = 92 then [92, 92]
      else if u < 32 then unicode_escape u else [u])"

fun quote_units :: "utext \<Rightarrow> utext" where
  "quote_units [] = []"
| "quote_units [u] =
     (if high_surrogate u \<or> low_surrogate u then unicode_escape u else quote_unit u)"
| "quote_units (u # v # us) =
     (if high_surrogate u \<and> low_surrogate v then u # v # quote_units us
      else (if high_surrogate u \<or> low_surrogate u then unicode_escape u else quote_unit u)
           @ quote_units (v # us))"

definition quote_json :: "utext \<Rightarrow> utext" where
  "quote_json s = 34 # quote_units s @ [34]"

fun decimal_nat :: "nat \<Rightarrow> utext" where
  "decimal_nat n = (if n < 10 then [48 + n] else decimal_nat (n div 10) @ [48 + n mod 10])"

declare decimal_nat.simps [simp del]

definition decimal :: "int \<Rightarrow> utext" where
  "decimal i = (if i < 0 then 45 # decimal_nat (nat (- i)) else decimal_nat (nat i))"

fun join_with :: "utext \<Rightarrow> utext list \<Rightarrow> utext" where
  "join_with sep [] = []"
| "join_with sep [x] = x"
| "join_with sep (x # y # xs) = x @ sep @ join_with sep (y # xs)"

text \<open>
  \<open>JSON.stringify\<close> without indentation: undefined properties are dropped, undefined array
  items and non-finite numbers become \<open>null\<close>.
\<close>

fun stringify :: "json \<Rightarrow> utext" where
  "stringify JUndefined = js ''null''"
| "stringify JNull = js ''null''"
| "stringify (JBool b) = js (if b then ''true'' else ''false'')"
| "stringify (JNum i) = decimal i"
| "stringify JNonFinite = js ''null''"
| "stringify (JStr s) = quote_json s"
| "stringify (JArr xs) = [91] @ join_with [44] (map stringify xs) @ [93]"
| "stringify (JObj kvs) =
     [123] @ join_with [44] (map (\<lambda>(k, v). quote_json k @ [58] @ stringify v)
       (filter (\<lambda>(k, v). v \<noteq> JUndefined) kvs)) @ [125]"

section \<open>canonicalJson\<close>

text \<open>
  \<open>canonicalJson\<close> of the contracts package: object keys sorted by code units at every level,
  values that are not JSON rejected with a TypeError.  Object keys are distinct, as they are
  in a JavaScript object.
\<close>

definition key_less :: "utext \<times> 'a \<Rightarrow> utext \<times> 'b \<Rightarrow> int" where
  "key_less a b = (if fst a = fst b then 0 else if fst a < fst b then - 1 else 1)"

fun collect_texts :: "(exn + utext) list \<Rightarrow> exn + utext list" where
  "collect_texts [] = Inr []"
| "collect_texts (r # rs) =
     (case r of Inl x \<Rightarrow> Inl x
      | Inr t \<Rightarrow> (case collect_texts rs of Inl x \<Rightarrow> Inl x | Inr ts \<Rightarrow> Inr (t # ts)))"

fun prefix_key :: "utext \<Rightarrow> exn + utext \<Rightarrow> exn + utext" where
  "prefix_key k (Inl x) = Inl x"
| "prefix_key k (Inr t) = Inr (quote_json k @ [58] @ t)"

fun wrap_texts :: "nat \<Rightarrow> nat \<Rightarrow> exn + utext list \<Rightarrow> exn + utext" where
  "wrap_texts l r (Inl x) = Inl x"
| "wrap_texts l r (Inr ts) = Inr ([l] @ join_with [44] ts @ [r])"

fun canonicalJson :: "json \<Rightarrow> exn + utext" where
  "canonicalJson JUndefined = Inl (TypeError ''Value is not representable as canonical JSON'')"
| "canonicalJson JNull = Inr (stringify JNull)"
| "canonicalJson (JBool b) = Inr (stringify (JBool b))"
| "canonicalJson (JNum i) = Inr (stringify (JNum i))"
| "canonicalJson JNonFinite = Inl (TypeError ''Canonical JSON requires finite numbers'')"
| "canonicalJson (JStr s) = Inr (stringify (JStr s))"
| "canonicalJson (JArr xs) = wrap_texts 91 93 (collect_texts (map canonicalJson xs))"
| "canonicalJson (JObj kvs) =
     wrap_texts 123 125 (collect_texts (map (\<lambda>(k, r). prefix_key k r)
       (sort_by key_less (map (\<lambda>(k, v). (k, canonicalJson v)) kvs))))"

interpretation key_order: comparator "key_less :: utext \<times> 'a \<Rightarrow> utext \<times> 'a \<Rightarrow> int"
  by unfold_locales (auto simp: key_less_def split: if_splits)

lemma map_of_keys_id:
  "distinct (map fst xs) \<Longrightarrow> map (\<lambda>k. (k, the (map_of xs k))) (map fst xs) = xs"
  by (auto intro!: map_idI)

text \<open>Two sorted lists with the same entries and distinct keys are the same list.\<close>

lemma sort_by_key_less_unique:
  fixes xs ys :: "(utext \<times> 'a) list"
  assumes "mset xs = mset ys" "distinct (map fst xs)"
  shows "sort_by key_less xs = sort_by key_less ys"
proof -
  have strict: "sorted_wrt (<) (map fst (sort_by key_less zs))"
    if "distinct (map fst zs)" for zs :: "(utext \<times> 'a) list"
  proof -
    have d: "distinct (map fst (sort_by key_less zs))"
      using that by (metis mset_eq_imp_distinct_iff mset_map mset_sort_by)
    have "sorted_wrt (\<lambda>a b. fst a \<le> fst b) (sort_by key_less zs)"
      by (rule sorted_wrt_mono_rel [OF _ key_order.sorted_sort_by])
        (auto simp: key_less_def split: if_splits)
    then have "sorted (map fst (sort_by key_less zs))"
      by (simp add: sorted_map)
    with d show ?thesis by (simp add: strict_sorted_iff)
  qed
  let ?xs = "sort_by key_less xs" and ?ys = "sort_by key_less ys"
  have "distinct (map fst ys)"
    using assms by (metis mset_eq_imp_distinct_iff mset_map)
  with assms have s: "sorted_wrt (<) (map fst ?xs)" "sorted_wrt (<) (map fst ?ys)"
    by (simp_all add: strict)
  then have d: "distinct (map fst ?xs)" "distinct (map fst ?ys)"
    by (simp_all add: strict_sorted_iff)
  have m: "mset ?xs = mset ?ys" using assms(1) by simp
  then have "mset (map fst ?xs) = mset (map fst ?ys)" by (metis mset_map)
  with s have k: "map fst ?xs = map fst ?ys"
    by (metis properties_for_sort sorted_sort_id strict_sorted_imp_sorted)
  have "set ?xs = set ?ys" using m by (metis set_mset_mset)
  with d have "map_of ?xs = map_of ?ys" by (simp add: map_of_inject_set)
  with k show ?thesis
    using map_of_keys_id [OF d(1)] map_of_keys_id [OF d(2)] by metis
qed

end
