(* ===== verification/Domain.thy ===== *)
theory Domain
  imports Json
begin

text \<open>
  The data of \<open>apps/api/src/domain/types.ts\<close> and the state of the in-memory store
  (\<open>apps/api/src/store/memory.ts\<close>, class MemoryStore), field by field, with the code's names
  behind a prefix per record.  An optional field is an option; instants are numbers (theory
  Instants).  The environment record holds what the platform supplies to an operation: the
  instant its calls of \<open>now()\<close> read, the identifiers its calls of \<open>id()\<close> and \<open>randomToken()\<close>
  draw, in order, SHA-256, \<open>localeCompare\<close> and the time-zone database behind
  \<open>Intl.DateTimeFormat\<close>.
\<close>

section \<open>Platform\<close>

record zoned_parts =
  zp_year :: int
  zp_month :: int
  zp_day :: int
  zp_weekday :: "int option" \<comment> \<open>None where the code has NaN\<close>
  zp_hour :: int
  zp_minute :: int

text \<open>The components of a parsed WHATWG URL the code reads.\<close>

record url =
  url_username :: string
  url_password :: string
  url_protocol :: string
  url_hostname :: string
  url_origin :: string

record env =
  now :: instant
  new_id :: "nat \<Rightarrow> string"
  sha256 :: "utext \<Rightarrow> string" \<comment> \<open>hexadecimal digest of the UTF-8 text\<close>
  localeCompare :: "string \<Rightarrow> string \<Rightarrow> int"
  intl :: "string \<Rightarrow> (instant \<Rightarrow> zoned_parts) option"
    \<comment> \<open>the formatter of a time zone; None where its construction throws a RangeError\<close>
  parse_url :: "string \<Rightarrow> url option" \<comment> \<open>the URL constructor; None where it throws\<close>

text \<open>Collation is a total preorder on strings, as ECMA-402 requires.\<close>

definition collation :: "(string \<Rightarrow> string \<Rightarrow> int) \<Rightarrow> bool" where
  "collation lc \<longleftrightarrow> comparator lc"

definition code_unit_compare :: "string \<Rightarrow> string \<Rightarrow> int" where
  "code_unit_compare a b = (if a = b then 0 else if a < b then - 1 else 1)"

lemma collation_code_unit_compare: "collation code_unit_compare"
  unfolding collation_def by unfold_locales (auto simp: code_unit_compare_def split: if_splits)

section \<open>Identity\<close>

datatype role = OWNER | ADMIN | PUBLISHER | VIEWER

datatype session_purpose = FULL | BOOTSTRAP_PASSWORD_ROTATION

record session_user =
  u_id :: string
  u_email :: string
  u_name :: string
  u_passwordHash :: string
  u_organizationId :: string
  u_role :: role
  u_authenticationEpoch :: int
  u_authorizationEpoch :: int
  u_membershipId :: "string option"
  u_bootstrapPasswordExpiresAt :: "instant option"
  u_disabledAt :: "instant option"

datatype login_failure_reason = INVALID_CREDENTIALS | RATE_LIMITED

record login_failure_input =
  lf_accountKey :: string
  lf_sourceKey :: string
  lf_reason :: login_failure_reason

record login_failure = login_failure_input +
  lf_id :: string
  lf_occurredAt :: instant

record user_session =
  us_id :: string
  us_organizationId :: string
  us_userId :: string
  us_tokenHash :: string
  us_authenticationEpoch :: int
  us_authorizationEpoch :: int
  us_purpose :: "session_purpose option"
  us_expiresAt :: instant
  us_revokedAt :: "instant option"
  us_createdAt :: instant

text \<open>
  The requested expiry of a session is caller-supplied text: \<open>None\<close> is a text that
  \<open>Date.parse\<close> cannot read.
\<close>

record session_create_input =
  si_tokenHash :: string
  si_expiresAt :: "instant option"
  si_expectedPasswordHash :: string
  si_expectedRole :: role
  si_expectedAuthenticationEpoch :: int
  si_expectedAuthorizationEpoch :: int
  si_purpose :: "session_purpose option"
  si_expectedBootstrapPasswordExpiresAt :: "instant option"

record bootstrap_rotation_input =
  bi_tokenHash :: string
  bi_expectedPasswordHash :: string
  bi_expectedBootstrapPasswordExpiresAt :: instant
  bi_expectedAuthenticationEpoch :: int
  bi_expectedAuthorizationEpoch :: int
  bi_passwordHash :: string

record audit_context =
  ac_actorUserId :: string
  ac_ipAddress :: "string option"
  ac_requestId :: "string option"

record system_audit_context =
  sy_reason :: string
  sy_requestId :: "string option"

datatype denial = FORBIDDEN | NOT_FOUND | DUPLICATE | IN_USE | INVALID_LOCATION | INVALID_ASSET
  | INVALID_SCREEN | OWNER_CONTINUITY_REQUIRED | CODE_COLLISION | SCREEN_NOT_ELIGIBLE
  | IDEMPOTENCY_KEY_REUSED | IDEMPOTENCY_KEY_EXPIRED | STALE | FINGERPRINT_MISMATCH
  | ALREADY_REVOKED | ALREADY_WITHDRAWN

section \<open>Locations, screens, media, playlists\<close>

record location =
  lo_id :: string
  lo_organizationId :: string
  lo_name :: string
  lo_createdAt :: instant
  lo_updatedAt :: instant

datatype screen_status = online | warning | offline | fallback
datatype orientation = landscape | portrait

record screen =
  sc_id :: string
  sc_organizationId :: string
  sc_name :: string
  sc_location :: string
  sc_locationId :: "string option"
  sc_locationName :: "string option"
  sc_status :: screen_status
  sc_orientation :: orientation
  sc_resolution :: string
  sc_tags :: "string list"
  sc_installationId :: "string option"
  sc_deviceTokenHash :: "string option"
  sc_model :: "string option"
  sc_osVersion :: "string option"
  sc_playerVersion :: "string option"
  sc_manifestVersion :: "string option"
  sc_nowPlayingAssetId :: "string option"
  sc_uptimeSeconds :: "int option"
  sc_freeStorageBytes :: "int option"
  sc_networkType :: "string option"
  sc_lastSeenAt :: "instant option"
  sc_credentialRevokedAt :: "instant option"
  sc_credentialGeneration :: "int option"
  sc_createdAt :: instant
  sc_updatedAt :: instant

record screen_input =
  mi_name :: string
  mi_location :: string
  mi_orientation :: orientation
  mi_resolution :: string
  mi_tags :: "string list"
  mi_locationId :: "string option" \<comment> \<open>null and undefined act alike on creation\<close>

text \<open>A patch: \<open>None\<close> is an absent key; the location is absent, null or a string.\<close>

datatype location_patch = Keep_location | Clear_location | Set_location string

record screen_patch =
  pt_name :: "string option"
  pt_location :: "string option"
  pt_orientation :: "orientation option"
  pt_resolution :: "string option"
  pt_tags :: "string list option"
  pt_locationId :: location_patch

record heartbeat_input =
  hb_playerVersion :: string
  hb_manifestVersion :: "string option"
  hb_nowPlayingAssetId :: "string option"
  hb_uptimeSeconds :: int
  hb_freeStorageBytes :: int
  hb_networkType :: string

datatype media_kind = image_kind | video_kind | web_kind | template_kind

record media_data =
  md_name :: string
  md_kind :: media_kind
  md_mimeType :: string
  md_url :: string
  md_checksumSha256 :: string
  md_sizeBytes :: int
  md_durationSeconds :: "int option"
  md_expiresAt :: "instant option"

record media = media_data +
  md_id :: string
  md_organizationId :: string
  md_storageKey :: "string option"
  md_createdAt :: instant
  md_updatedAt :: instant

record playlist_item =
  pi_id :: string
  pi_assetId :: string
  pi_position :: int
  pi_durationSeconds :: int

record playlist_data =
  pl_name :: string
  pl_description :: string
  pl_items :: "playlist_item list"

record playlist = playlist_data +
  pl_id :: string
  pl_organizationId :: string
  pl_createdAt :: instant
  pl_updatedAt :: instant

section \<open>Schedules, releases, assignments, candidates\<close>

datatype priority = normal | campaign | priority | emergency

record schedule_window =
  sw_endsAt :: "instant option"
  sw_timezone :: string
  sw_daysOfWeek :: "int list"
  sw_dailyStartMinutes :: "int option"
  sw_dailyEndMinutes :: "int option"

text \<open>\<open>FrozenScheduleSnapshot\<close>; a schedule record carries the same fields.\<close>

record frozen_schedule = schedule_window +
  fs_name :: string
  fs_priority :: priority
  fs_startsAt :: instant
  fs_enabled :: bool

record schedule_input = frozen_schedule +
  sd_playlistId :: string
  sd_screenIds :: "string list"

record schedule = schedule_input +
  sd_id :: string
  sd_organizationId :: string
  sd_withdrawable :: "bool option"
  sd_releaseId :: "string option"
  sd_assignmentId :: "string option"
  sd_createdAt :: instant
  sd_updatedAt :: instant

record frozen_asset =
  fa_id :: string
  fa_name :: string
  fa_kind :: media_kind
  fa_mimeType :: string
  fa_url :: string
  fa_storageKey :: "string option"
  fa_checksumSha256 :: string
  fa_sizeBytes :: int
  fa_createdAt :: instant
  fa_expiresAt :: "instant option"

record frozen_item =
  fi_id :: string
  fi_asset :: frozen_asset
  fi_position :: int
  fi_durationSeconds :: int

record release =
  rl_id :: string
  rl_organizationId :: string
  rl_sourcePlaylistId :: string
  rl_sourcePlaylistUpdatedAt :: instant
  rl_playlistName :: string
  rl_playlistDescription :: string
  rl_digestSha256 :: string
  rl_items :: "frozen_item list"
  rl_createdById :: string
  rl_createdAt :: instant

datatype assignment_state = ASSIGNED | WITHDRAWN

record assignment =
  ra_id :: string
  ra_organizationId :: string
  ra_releaseId :: string
  ra_scheduleId :: string
  ra_screenIds :: "string list"
  ra_state :: assignment_state
  ra_schedule :: frozen_schedule
  ra_digestSha256 :: string
  ra_previousAssignmentId :: "string option"
  ra_createdById :: string
  ra_createdAt :: instant

record media_delivery_input =
  mv_organizationId :: string
  mv_screenId :: string
  mv_assignmentId :: string
  mv_assignmentDigestSha256 :: string
  mv_assetId :: string
  mv_storageKey :: string
  mv_checksumSha256 :: string
  mv_sizeBytes :: int
  mv_at :: "instant option" \<comment> \<open>None: a text that Date cannot read\<close>

datatype candidate_state = DRAFT | IN_REVIEW | APPROVED | PUBLISHED

record release_approval =
  ap_id :: string
  ap_organizationId :: string
  ap_candidateId :: string
  ap_candidateDigestSha256 :: string
  ap_approverUserId :: string
  ap_authenticationEpoch :: int
  ap_authorizationEpoch :: int
  ap_approvedAt :: instant

record release_candidate =
  cd_id :: string
  cd_organizationId :: string
  cd_releaseId :: string
  cd_releaseDigestSha256 :: string
  cd_sourcePlaylistId :: string
  cd_state :: candidate_state
  cd_digestSha256 :: string
  cd_authorUserId :: string
  cd_items :: "frozen_item list"
  cd_schedule :: frozen_schedule
  cd_screenIds :: "string list"
  cd_policyVersion :: int
  cd_expiresAt :: instant
  cd_submittedAt :: "instant option"
  cd_approvedAt :: "instant option"
  cd_publishedAt :: "instant option"
  cd_scheduleId :: "string option"
  cd_assignmentId :: "string option"
  cd_approval :: "release_approval option"
  cd_createdAt :: instant

record idempotency_input =
  ii_keyHash :: string
  ii_requestDigestSha256 :: string

datatype candidate_failure = CF_NOT_FOUND | CF_FORBIDDEN | INVALID_STATE | STALE_DIGEST
  | AUTHOR_CANNOT_APPROVE | APPROVAL_STALE | EXPIRED_CANDIDATE | CF_KEY_REUSED | CF_KEY_EXPIRED
  | PLAYLIST_NOT_FOUND | SCREEN_NOT_FOUND | ASSET_NOT_FOUND | ASSET_NOT_ALLOWED
  | ASSET_UNSUPPORTED | ASSET_EXPIRED | RELEASE_TOO_LARGE | NO_PLAYABLE_ITEMS

datatype candidate_result =
    Completed release_candidate bool \<comment> \<open>the candidate, and whether it is a replay\<close>
  | Not_completed candidate_failure

datatype candidate_operation = Op_create | Op_submit | Op_approve | Op_publish

record candidate_idempotency =
  ci_organizationId :: string
  ci_operation :: candidate_operation
  ci_keyHash :: string
  ci_actorUserId :: string
  ci_requestDigestSha256 :: string
  ci_expiresAt :: instant
  ci_response :: "release_candidate option"

record schedule_idempotency =
  sg_organizationId :: string
  sg_keyHash :: string
  sg_actorUserId :: string
  sg_requestDigestSha256 :: string
  sg_response :: "schedule option"
  sg_createdAt :: instant
  sg_expiresAt :: instant

record emergency_data =
  em_title :: string
  em_message :: string
  em_backgroundColor :: string
  em_targetScreenIds :: "string list"
  em_expiresAt :: instant

record emergency_record = emergency_data +
  em_id :: string
  em_organizationId :: string
  em_startsAt :: instant
  em_clearedAt :: "instant option"
  em_createdById :: string
  em_createdAt :: instant

section \<open>Audit records\<close>

record audit_event =
  au_organizationId :: string
  au_actorUserId :: "string option"
  au_actorType :: string
  au_action :: string
  au_entityType :: string
  au_entityId :: "string option"
  au_ipAddress :: "string option"
  au_requestId :: "string option"
  au_metadata :: json

record audit_record = audit_event +
  au_id :: string
  au_createdAt :: instant

section \<open>Pairing, enrollment, device credentials\<close>

datatype pairing_status = PENDING | CLAIMED | EXPIRED | REVOKED

datatype pairing_purpose = NEW_SCREEN | REENROLL

record pairing =
  pr_id :: string
  pr_organizationId :: string
  pr_codeHash :: string
  pr_expiresAt :: instant
  pr_claimedAt :: "instant option"
  pr_status :: pairing_status
  pr_screenId :: "string option"
  pr_purpose :: "pairing_purpose option"
  pr_targetScreenId :: "string option"
  pr_targetScreenReferenceId :: "string option"
  pr_expectedGeneration :: "int option"
  pr_authorizedByUserId :: "string option"
  pr_authorizedByMembershipId :: "string option"
  pr_authorizedByAuthenticationEpoch :: "int option"
  pr_authorizedByAuthorizationEpoch :: "int option"
  pr_priorCredentialId :: "string option"
  pr_requestReason :: "string option"
  pr_createdAt :: "instant option"

record claim_audit_context =
  ca_ipAddress :: "string option"
  ca_requestId :: "string option"
  ca_metadata :: "(utext \<times> json) list"

datatype security_level = strongbox | trusted_environment | software | unknown_secure | unknown

record credential_enrollment =
  dc_keyId :: string
  dc_publicKeySpki :: string
  dc_securityLevel :: security_level
  dc_expiresAt :: "instant option"

record device_credential = credential_enrollment +
  dc_id :: string
  dc_organizationId :: string
  dc_screenId :: string
  dc_detached :: bool
  dc_revokedAt :: "instant option"
  dc_createdAt :: instant

record device_metadata =
  dm_installationId :: string
  dm_model :: string
  dm_osVersion :: string
  dm_playerVersion :: string

record pairing_attempt =
  pa_id :: string
  pa_organizationId :: string
  pa_pairingCodeId :: string
  pa_keyId :: string
  pa_publicKeySpki :: string
  pa_securityLevel :: security_level
  pa_credentialExpiresAt :: "instant option"
  pa_challengeHashSha256 :: string
  pa_transcriptDigestSha256 :: string
  pa_expiresAt :: instant
  pa_consumedAt :: "instant option"
  pa_provedAt :: "instant option"
  pa_activatedAt :: "instant option"
  pa_cancelledAt :: "instant option"
  pa_installationId :: "string option"
  pa_model :: "string option"
  pa_osVersion :: "string option"
  pa_playerVersion :: "string option"
  pa_boundCredentialId :: "string option"
  pa_createdAt :: instant

record reenrollment_candidate =
  rc_id :: string
  rc_grantId :: string
  rc_screenId :: string
  rc_keyId :: string
  rc_fingerprint :: string
  rc_securityLevel :: security_level
  rc_installationId :: "string option"
  rc_model :: "string option"
  rc_osVersion :: "string option"
  rc_playerVersion :: "string option"
  rc_provedAt :: "instant option"
  rc_expiresAt :: instant

datatype auth_operation = Op_heartbeat | Op_manifest

record device_challenge =
  ch_id :: string
  ch_organizationId :: string
  ch_credentialId :: string
  ch_challengeHashSha256 :: string
  ch_operation :: auth_operation
  ch_requestDigestSha256 :: string
  ch_expiresAt :: instant
  ch_consumedAt :: "instant option"
  ch_createdAt :: instant

record device_proof_input =
  dp_credentialId :: string
  dp_challengeId :: string
  dp_challengeHashSha256 :: string
  dp_operation :: auth_operation
  dp_requestDigestSha256 :: string

datatype proof_result = Authenticated device_credential screen | INVALID_PROOF

datatype enrollment_operation = Enroll_create | Enroll_activate

text \<open>The remembered response: grant and code counter of a creation, credential of an activation.\<close>

datatype enrollment_response = Grant_response string int | Credential_response string

record enrollment_idempotency =
  eg_operation :: enrollment_operation
  eg_organizationId :: string
  eg_keyHash :: string
  eg_actorUserId :: string
  eg_requestDigestSha256 :: string
  eg_expiresAt :: instant
  eg_response :: "enrollment_response option"

record code_candidate =
  cc_counter :: int
  cc_codeHash :: string

record enrollment_idempotency_input =
  ei_keyHash :: string
  ei_requestDigestSha256 :: string
  ei_codeCandidates :: "code_candidate list"

section \<open>Retention constants\<close>

definition LOGIN_FAILURE_RETENTION_MS :: int where
  "LOGIN_FAILURE_RETENTION_MS = 30 * 24 * 60 * 60 * 1000"
definition LOGIN_FAILURE_MAX_RECORDS :: nat where
  "LOGIN_FAILURE_MAX_RECORDS = 10000"
definition CANDIDATE_RESPONSE_RETENTION_MS :: int where
  "CANDIDATE_RESPONSE_RETENTION_MS = 30 * 24 * 60 * 60 * 1000"
definition DEVICE_AUTH_CHALLENGE_RETENTION_MS :: int where
  "DEVICE_AUTH_CHALLENGE_RETENTION_MS = 24 * 60 * 60 * 1000"
definition DATABASE_MAINTENANCE_BATCH_SIZE :: nat where
  "DATABASE_MAINTENANCE_BATCH_SIZE = 100"
definition ENROLLMENT_AUTHORITY_RETENTION_MS :: int where
  "ENROLLMENT_AUTHORITY_RETENTION_MS = 30 * 24 * 60 * 60000"

section \<open>The store\<close>

record store =
  users :: "session_user list"
  userSessions :: "user_session list"
  loginFailures :: "login_failure list"
  locations :: "location list"
  screens :: "screen list"
  medias :: "media list"
  playlists :: "playlist list"
  schedules :: "schedule list"
  releases :: "release list"
  releaseAssignments :: "assignment list"
  releaseCandidates :: "release_candidate list"
  candidateIdempotency :: "candidate_idempotency list"
  idempotencyRecords :: "schedule_idempotency list"
  enrollmentIdempotency :: "enrollment_idempotency list"
  emergencies :: "emergency_record list"
  auditRecords :: "audit_record list"
  pairings :: "pairing list"
  deviceCredentials :: "device_credential list"
  deviceAuthChallenges :: "device_challenge list"
  pairingAttempts :: "pairing_attempt list"
  usedDeviceKeyIds :: "string list"

definition empty_store :: store where
  "empty_store = \<lparr>users = [], userSessions = [], loginFailures = [], locations = [], screens = [],
     medias = [], playlists = [], schedules = [], releases = [], releaseAssignments = [],
     releaseCandidates = [], candidateIdempotency = [], idempotencyRecords = [],
     enrollmentIdempotency = [], emergencies = [], auditRecords = [], pairings = [],
     deviceCredentials = [], deviceAuthChallenges = [], pairingAttempts = [],
     usedDeviceKeyIds = []\<rparr>"

end
