(* ===== verification/Audit_Log.thy ===== *)
theory Audit_Log
  imports Domain
begin

text \<open>
  \<open>apps/api/src/audit/integrity.ts\<close>: the validation every audit event passes before it is
  recorded, and the record built from it.  Object identity, prototypes, symbols and property
  descriptors of a metadata value have no counterpart here: metadata is a JSON tree, so the
  checks that reject cycles, shared references, exotic objects and accessors cannot fire.
\<close>

section \<open>Limits\<close>

definition AUDIT_ACTOR_TYPE_MAX_LENGTH :: nat where "AUDIT_ACTOR_TYPE_MAX_LENGTH = 32"
definition AUDIT_ACTION_MAX_LENGTH :: nat where "AUDIT_ACTION_MAX_LENGTH = 96"
definition AUDIT_ENTITY_TYPE_MAX_LENGTH :: nat where "AUDIT_ENTITY_TYPE_MAX_LENGTH = 64"
definition AUDIT_ENTITY_ID_MAX_LENGTH :: nat where "AUDIT_ENTITY_ID_MAX_LENGTH = 256"
definition AUDIT_IP_ADDRESS_MAX_LENGTH :: nat where "AUDIT_IP_ADDRESS_MAX_LENGTH = 64"
definition AUDIT_REQUEST_ID_MAX_LENGTH :: nat where "AUDIT_REQUEST_ID_MAX_LENGTH = 128"
definition AUDIT_METADATA_MAX_BYTES :: nat where "AUDIT_METADATA_MAX_BYTES = 16 * 1024"
definition AUDIT_METADATA_MAX_DEPTH :: nat where "AUDIT_METADATA_MAX_DEPTH = 8"
definition AUDIT_METADATA_MAX_OBJECT_KEYS :: nat where "AUDIT_METADATA_MAX_OBJECT_KEYS = 64"
definition AUDIT_METADATA_MAX_ARRAY_ITEMS :: nat where "AUDIT_METADATA_MAX_ARRAY_ITEMS = 256"
definition AUDIT_METADATA_MAX_STRING_BYTES :: nat where
  "AUDIT_METADATA_MAX_STRING_BYTES = 2 * 1024"

lemmas audit_limits = AUDIT_ACTOR_TYPE_MAX_LENGTH_def AUDIT_ACTION_MAX_LENGTH_def
  AUDIT_ENTITY_TYPE_MAX_LENGTH_def AUDIT_ENTITY_ID_MAX_LENGTH_def AUDIT_IP_ADDRESS_MAX_LENGTH_def
  AUDIT_REQUEST_ID_MAX_LENGTH_def AUDIT_METADATA_MAX_BYTES_def AUDIT_METADATA_MAX_DEPTH_def
  AUDIT_METADATA_MAX_OBJECT_KEYS_def AUDIT_METADATA_MAX_ARRAY_ITEMS_def
  AUDIT_METADATA_MAX_STRING_BYTES_def

section \<open>Texts PostgreSQL can store\<close>

text \<open>The loop of \<open>assertPostgresTextCompatible\<close>; \<open>None\<close> is a normal return.\<close>

fun assertPostgresTextCompatible :: "utext \<Rightarrow> exn option" where
  "assertPostgresTextCompatible [] = None"
| "assertPostgresTextCompatible [u] =
     (if u = 0 then Some (TypeError ''cannot contain the U+0000 character'')
      else if high_surrogate u \<or> low_surrogate u
      then Some (TypeError ''cannot contain unpaired UTF-16 surrogates'') else None)"
| "assertPostgresTextCompatible (u # v # us) =
     (if u = 0 then Some (TypeError ''cannot contain the U+0000 character'')
      else if high_surrogate u then
        (if low_surrogate v then assertPostgresTextCompatible us
         else Some (TypeError ''cannot contain unpaired UTF-16 surrogates''))
      else if low_surrogate u
      then Some (TypeError ''cannot contain unpaired UTF-16 surrogates'')
      else assertPostgresTextCompatible (v # us))"

definition assertBoundedString :: "string option \<Rightarrow> nat \<Rightarrow> bool \<Rightarrow> exn option" where
  "assertBoundedString value maximum optional =
     (case value of
        None \<Rightarrow> if optional then None else Some (RangeError ''must contain 1 to maximum characters'')
      | Some s \<Rightarrow>
          if length s = 0 \<or> length s > maximum
          then Some (RangeError ''must contain 1 to maximum characters'')
          else assertPostgresTextCompatible (js s))"

section \<open>Metadata\<close>

text \<open>
  \<open>validateJsonValue\<close> returns an upper estimate of the bytes PostgreSQL needs to print the
  value.  \<open>validate_items\<close> and \<open>validate_entries\<close> are its two loops, with the running total.
\<close>

fun validateJsonValue :: "nat \<Rightarrow> json \<Rightarrow> exn + nat"
  and validate_items :: "nat \<Rightarrow> nat \<Rightarrow> nat \<Rightarrow> json list \<Rightarrow> exn + nat"
  and validate_entries :: "nat \<Rightarrow> nat \<Rightarrow> nat \<Rightarrow> (utext \<times> json) list \<Rightarrow> exn + nat" where
  "validateJsonValue depth v =
     (if depth > AUDIT_METADATA_MAX_DEPTH then Inl (RangeError ''nested levels'')
      else case v of
        JNull \<Rightarrow> Inr 4
      | JBool b \<Rightarrow> Inr (if b then 4 else 5)
      | JStr s \<Rightarrow>
          (case assertPostgresTextCompatible s of
             Some x \<Rightarrow> Inl x
           | None \<Rightarrow>
               if utf8_length s > AUDIT_METADATA_MAX_STRING_BYTES
               then Inl (RangeError ''string bytes'') else Inr (utf8_length (quote_json s)))
      | JNonFinite \<Rightarrow> Inl (TypeError ''Audit metadata numbers must be finite'')
      | JNum i \<Rightarrow> Inr 330
      | JUndefined \<Rightarrow> Inl (TypeError ''Audit metadata must contain only JSON values'')
      | JArr xs \<Rightarrow>
          if length xs > AUDIT_METADATA_MAX_ARRAY_ITEMS then Inl (RangeError ''array items'')
          else validate_items depth 0 2 xs
      | JObj kvs \<Rightarrow>
          if length kvs > AUDIT_METADATA_MAX_OBJECT_KEYS then Inl (RangeError ''object keys'')
          else validate_entries depth 0 2 kvs)"
| "validate_items depth index bytes [] = Inr bytes"
| "validate_items depth index bytes (x # xs) =
     (case validateJsonValue (depth + 1) x of
        Inl e \<Rightarrow> Inl e
      | Inr n \<Rightarrow>
          (let total = bytes + (if index > 0 then 2 else 0) + n
           in if total > AUDIT_METADATA_MAX_BYTES then Inl (RangeError ''metadata bytes'')
              else validate_items depth (index + 1) total xs))"
| "validate_entries depth index bytes [] = Inr bytes"
| "validate_entries depth index bytes ((k, x) # kvs) =
     (case assertPostgresTextCompatible k of
        Some e \<Rightarrow> Inl e
      | None \<Rightarrow>
          (case validateJsonValue (depth + 1) x of
             Inl e \<Rightarrow> Inl e
           | Inr n \<Rightarrow>
               (let total = bytes + (if index > 0 then 2 else 0)
                      + (utf8_length (quote_json k) + 2) + n
                in if total > AUDIT_METADATA_MAX_BYTES then Inl (RangeError ''metadata bytes'')
                   else validate_entries depth (index + 1) total kvs)))"

declare validateJsonValue.simps [simp del]

section \<open>Events and records\<close>

definition is_json_object :: "json \<Rightarrow> bool" where
  "is_json_object v = (case v of JObj kvs \<Rightarrow> True | _ \<Rightarrow> False)"

text \<open>The first check that fails decides; \<open>None\<close> is an accepted event.\<close>

fun first_error :: "exn option list \<Rightarrow> exn option" where
  "first_error [] = None"
| "first_error (Some x # xs) = Some x"
| "first_error (None # xs) = first_error xs"

definition assertAuditEventIntegrity :: "audit_event \<Rightarrow> exn option" where
  "assertAuditEventIntegrity event =
     (case first_error
        [assertBoundedString (Some (au_actorType event)) AUDIT_ACTOR_TYPE_MAX_LENGTH False,
         assertBoundedString (Some (au_action event)) AUDIT_ACTION_MAX_LENGTH False,
         assertBoundedString (Some (au_entityType event)) AUDIT_ENTITY_TYPE_MAX_LENGTH False,
         assertBoundedString (au_entityId event) AUDIT_ENTITY_ID_MAX_LENGTH True,
         assertBoundedString (au_ipAddress event) AUDIT_IP_ADDRESS_MAX_LENGTH True,
         assertBoundedString (au_requestId event) AUDIT_REQUEST_ID_MAX_LENGTH True] of
        Some x \<Rightarrow> Some x
      | None \<Rightarrow>
          if \<not> is_json_object (au_metadata event)
          then Some (TypeError ''Audit metadata must be a JSON object'')
          else case validateJsonValue 0 (au_metadata event) of
            Inl x \<Rightarrow> Some x
          | Inr estimatedBytes \<Rightarrow>
              if estimatedBytes > AUDIT_METADATA_MAX_BYTES
              then Some (RangeError ''metadata bytes'') else None)"

text \<open>\<open>immutableAuditRecord\<close>; values are immutable here, so freezing is the identity.\<close>

definition immutableAuditRecord :: "audit_event \<Rightarrow> string \<Rightarrow> instant \<Rightarrow> exn + audit_record" where
  "immutableAuditRecord event i createdAt =
     (case assertAuditEventIntegrity event of
        Some x \<Rightarrow> Inl x
      | None \<Rightarrow> Inr (audit_event.extend event (audit_record.fields i createdAt)))"

text \<open>
  \<open>MemoryStore.buildAuditRecord\<close>, with the position of its \<open>id()\<close> among the calls of the
  operation.
\<close>

definition buildAuditRecord :: "env \<Rightarrow> nat \<Rightarrow> audit_event \<Rightarrow> exn + audit_record" where
  "buildAuditRecord e k event = immutableAuditRecord event (new_id e k) (now e)"

text \<open>
  Continue with the audit record, or throw and leave the state as it is at that point: the
  shape every audited operation has from the point where it builds its record.
\<close>

definition with_audit ::
  "env \<Rightarrow> nat \<Rightarrow> audit_event \<Rightarrow> 's \<Rightarrow> (audit_record \<Rightarrow> ('s, 'r) outcome) \<Rightarrow> ('s, 'r) outcome" where
  "with_audit e k event s f =
     (case buildAuditRecord e k event of Inl x \<Rightarrow> (Inl x, s) | Inr r \<Rightarrow> f r)"

text \<open>Several records in the order of the events; the first one that is refused throws.\<close>

fun buildAuditRecords :: "env \<Rightarrow> nat \<Rightarrow> audit_event list \<Rightarrow> exn + audit_record list" where
  "buildAuditRecords e k [] = Inr []"
| "buildAuditRecords e k (ev # evs) =
     (case buildAuditRecord e k ev of
        Inl x \<Rightarrow> Inl x
      | Inr r \<Rightarrow> (case buildAuditRecords e (k + 1) evs of Inl x \<Rightarrow> Inl x | Inr rs \<Rightarrow> Inr (r # rs)))"

text \<open>The answer of an operation: done with a value, or denied for a reason.\<close>

datatype 'a answer = Done 'a | Denied denial

text \<open>The audit of a user's operation, as the store writes it at each operation.\<close>

definition user_event ::
  "string \<Rightarrow> audit_context \<Rightarrow> string \<Rightarrow> string \<Rightarrow> string option \<Rightarrow> (utext \<times> json) list \<Rightarrow> audit_event" where
  "user_event org audit action entityType entityId metadata =
     \<lparr>au_organizationId = org, au_actorUserId = Some (ac_actorUserId audit), au_actorType = ''user'',
      au_action = action, au_entityType = entityType, au_entityId = entityId,
      au_ipAddress = when_truthy (ac_ipAddress audit),
      au_requestId = when_truthy (ac_requestId audit), au_metadata = JObj metadata\<rparr>"

text \<open>An optional text as a metadata value; an undefined one is refused by the validation.\<close>

definition jopt :: "string option \<Rightarrow> json" where
  "jopt v = (case v of None \<Rightarrow> JUndefined | Some s \<Rightarrow> jstr s)"

section \<open>Facts\<close>

lemma buildAuditRecord_fields:
  "buildAuditRecord e k ev = Inr r \<Longrightarrow>
    r = audit_event.extend ev (audit_record.fields (new_id e k) (now e)) \<and>
    assertAuditEventIntegrity ev = None"
  by (auto simp: buildAuditRecord_def immutableAuditRecord_def split: option.splits)

lemma extended_record_fields [simp]:
  "au_organizationId (audit_event.extend ev (audit_record.fields i t)) = au_organizationId ev"
  "au_actorUserId (audit_event.extend ev (audit_record.fields i t)) = au_actorUserId ev"
  "au_action (audit_event.extend ev (audit_record.fields i t)) = au_action ev"
  "au_entityId (audit_event.extend ev (audit_record.fields i t)) = au_entityId ev"
  "au_metadata (audit_event.extend ev (audit_record.fields i t)) = au_metadata ev"
  "au_id (audit_event.extend ev (audit_record.fields i t)) = i"
  "au_createdAt (audit_event.extend ev (audit_record.fields i t)) = t"
  by (simp_all add: audit_event.defs audit_record.defs)

lemma with_audit_cases:
  "with_audit e k ev s f = out \<Longrightarrow>
    (\<exists>x. out = (Inl x, s)) \<or> (\<exists>r. buildAuditRecord e k ev = Inr r \<and> out = f r)"
  by (auto simp: with_audit_def split: sum.splits)

lemma with_audit_Inr:
  "with_audit e k ev s f = (Inr v, s') \<longleftrightarrow>
    (\<exists>r. buildAuditRecord e k ev = Inr r \<and> f r = (Inr v, s'))"
  by (auto simp: with_audit_def split: sum.splits)

text \<open>The state part of an audited continuation is the old state or the continuation's.\<close>

lemma with_audit_split:
  "P (with_audit e k ev s f) \<longleftrightarrow>
    (\<forall>x. buildAuditRecord e k ev = Inl x \<longrightarrow> P (Inl x, s)) \<and>
    (\<forall>r. buildAuditRecord e k ev = Inr r \<longrightarrow> P (f r))"
  by (auto simp: with_audit_def split: sum.splits)

lemma with_audit_split_asm:
  "P (with_audit e k ev s f) \<longleftrightarrow>
    \<not> ((\<exists>x. buildAuditRecord e k ev = Inl x \<and> \<not> P (Inl x, s)) \<or>
       (\<exists>r. buildAuditRecord e k ev = Inr r \<and> \<not> P (f r)))"
  by (auto simp: with_audit_def split: sum.splits)

lemmas with_audit_splits = with_audit_split with_audit_split_asm

lemma buildAuditRecords_length:
  "buildAuditRecords e k evs = Inr rs \<Longrightarrow> length rs = length evs"
  by (induction evs arbitrary: k rs) (auto split: sum.splits)

lemma buildAuditRecords_orgs:
  "buildAuditRecords e k evs = Inr rs \<Longrightarrow> map au_organizationId rs = map au_organizationId evs"
  by (induction evs arbitrary: k rs) (auto split: sum.splits dest: buildAuditRecord_fields)

section \<open>Contracts of the operations\<close>

text \<open>
  What the store promises about its audit log, from the weakest contract to the strongest.  A
  logged operation only appends to the log.  An atomic operation moreover leaves the store as it
  was when it throws or denies.  An audited operation moreover records every completed change.
\<close>

locale logged_operation =
  fixes op :: "store \<Rightarrow> (store, 'r) outcome"
  assumes extends: "op s = (res, s') \<Longrightarrow> \<exists>rs. auditRecords s' = auditRecords s @ rs"
begin

lemma audit_prefix: "op s = (res, s') \<Longrightarrow> prefix (auditRecords s) (auditRecords s')"
  by (auto simp: prefix_def dest: extends)

lemma audit_kept: "op s = (res, s') \<Longrightarrow> r \<in> set (auditRecords s) \<Longrightarrow> r \<in> set (auditRecords s')"
  by (auto dest: extends)

end

locale atomic_operation = logged_operation op
  for op :: "store \<Rightarrow> (store, 'r answer) outcome" +
  assumes thrown: "op s = (Inl x, s') \<Longrightarrow> s' = s"
    and denied: "op s = (Inr (Denied d), s') \<Longrightarrow> s' = s"
begin

lemma changed_only_if_done:
  assumes "op s = (res, s')" "s' \<noteq> s"
  obtains v where "res = Inr (Done v)"
  using assms thrown denied by (cases res; cases "projr res") (force+)

end

locale audited_operation = atomic_operation op
  for op :: "store \<Rightarrow> (store, 'r answer) outcome" +
  assumes recorded: "op s = (Inr (Done v), s') \<Longrightarrow> auditRecords s' \<noteq> auditRecords s"
begin

lemma change_is_recorded:
  assumes "op s = (res, s')" "s' \<noteq> s"
  shows "length (auditRecords s) < length (auditRecords s')"
proof -
  obtain v where "res = Inr (Done v)" using changed_only_if_done assms by blast
  with assms(1) have "auditRecords s' \<noteq> auditRecords s" using recorded by blast
  moreover obtain rs where "auditRecords s' = auditRecords s @ rs" using extends assms(1) by blast
  ultimately show ?thesis by (cases rs) auto
qed

end

end
