(* ===== verification/Media_Policy.thy ===== *)
theory Media_Policy
  imports Domain
begin

text \<open>
  Text formats the store checks with regular expressions, the media publication policy
  (\<open>apps/api/src/utils/media-policy.ts\<close>, \<open>media-url.ts\<close>) and the private storage identity of
  an asset (\<open>apps/api/src/media/delivery.ts\<close>).
\<close>

section \<open>Character classes\<close>

definition is_digit :: "char \<Rightarrow> bool" where
  "is_digit c \<longleftrightarrow> 48 \<le> (of_char c :: nat) \<and> (of_char c :: nat) \<le> 57"
definition is_lower :: "char \<Rightarrow> bool" where
  "is_lower c \<longleftrightarrow> 97 \<le> (of_char c :: nat) \<and> (of_char c :: nat) \<le> 122"
definition is_upper :: "char \<Rightarrow> bool" where
  "is_upper c \<longleftrightarrow> 65 \<le> (of_char c :: nat) \<and> (of_char c :: nat) \<le> 90"
definition is_lower_hex :: "char \<Rightarrow> bool" where
  "is_lower_hex c \<longleftrightarrow> is_digit c \<or> (97 \<le> (of_char c :: nat) \<and> (of_char c :: nat) \<le> 102)"
definition is_any_hex :: "char \<Rightarrow> bool" where
  "is_any_hex c \<longleftrightarrow> is_lower_hex c \<or> (65 \<le> (of_char c :: nat) \<and> (of_char c :: nat) \<le> 70)"

text \<open>\<open>/^[0-9a-f]{64}$/\<close> and its case-insensitive variant.\<close>

definition is_sha256_hex :: "string \<Rightarrow> bool" where
  "is_sha256_hex s \<longleftrightarrow> length s = 64 \<and> list_all is_lower_hex s"
definition is_sha256_hex_any_case :: "string \<Rightarrow> bool" where
  "is_sha256_hex_any_case s \<longleftrightarrow> length s = 64 \<and> list_all is_any_hex s"

text \<open>\<open>/^[A-Za-z0-9_-]{43}$/\<close>: an unpadded base64url SHA-256.\<close>

definition is_key_id :: "string \<Rightarrow> bool" where
  "is_key_id s \<longleftrightarrow> length s = 43 \<and>
     list_all (\<lambda>c. is_digit c \<or> is_lower c \<or> is_upper c \<or> c = CHR ''_'' \<or> c = CHR ''-'') s"

text \<open>\<open>isApprovedPasswordHash\<close>: a bcrypt hash of cost 12 to 31.\<close>

definition approved_cost :: "char \<Rightarrow> char \<Rightarrow> bool" where
  "approved_cost a b \<longleftrightarrow>
     (a = CHR ''1'' \<and> b \<in> set ''23456789'') \<or> (a = CHR ''2'' \<and> is_digit b) \<or>
     (a = CHR ''3'' \<and> b \<in> set ''01'')"

fun isApprovedPasswordHash :: "string \<Rightarrow> bool" where
  "isApprovedPasswordHash (p # two # v # q # a # b # r # rest) \<longleftrightarrow>
     p = CHR ''$'' \<and> two = CHR ''2'' \<and> v \<in> set ''aby'' \<and> q = CHR ''$'' \<and> approved_cost a b \<and>
     r = CHR ''$'' \<and> length rest = 53 \<and>
     list_all (\<lambda>c. is_digit c \<or> is_lower c \<or> is_upper c \<or> c = CHR ''.'' \<or> c = CHR ''/'') rest"
| "isApprovedPasswordHash _ \<longleftrightarrow> False"

text \<open>\<open>String.prototype.toLowerCase\<close> on code units below 256.\<close>

definition lower_char :: "char \<Rightarrow> char" where
  "lower_char c =
     (let n = of_char c :: nat in
      if (65 \<le> n \<and> n \<le> 90) \<or> (192 \<le> n \<and> n \<le> 222 \<and> n \<noteq> 215) then char_of (n + 32) else c)"

definition toLowerCase :: "string \<Rightarrow> string" where
  "toLowerCase s = map lower_char s"

section \<open>Publication policy\<close>

definition MEDIA_MAX_ASSET_BYTES :: int where "MEDIA_MAX_ASSET_BYTES = 128 * 1024 * 1024"
definition MEDIA_MAX_RELEASE_BYTES :: int where "MEDIA_MAX_RELEASE_BYTES = 512 * 1024 * 1024"
definition MAX_SAFE_INTEGER :: int where "MAX_SAFE_INTEGER = 2 ^ 53 - 1"

fun supported_mime_types :: "media_kind \<Rightarrow> string list" where
  "supported_mime_types image_kind = [''image/jpeg'', ''image/png'']"
| "supported_mime_types video_kind = [''video/mp4'']"
| "supported_mime_types template_kind = [''application/json'']"
| "supported_mime_types web_kind = []"

definition isSupportedMedia :: "media_kind \<Rightarrow> string \<Rightarrow> bool" where
  "isSupportedMedia kind mimeType \<longleftrightarrow> mimeType \<in> set (supported_mime_types kind)"

text \<open>What the policy reads of an asset, live or frozen.\<close>

record policy_asset =
  po_kind :: media_kind
  po_mimeType :: string
  po_checksumSha256 :: string
  po_sizeBytes :: int
  po_expiresAt :: "instant option"

definition asset_supported :: "policy_asset \<Rightarrow> bool" where
  "asset_supported a \<longleftrightarrow>
     isSupportedMedia (po_kind a) (po_mimeType a) \<and>
     \<bar>po_sizeBytes a\<bar> \<le> MAX_SAFE_INTEGER \<and> 1 \<le> po_sizeBytes a \<and>
     po_sizeBytes a \<le> MEDIA_MAX_ASSET_BYTES \<and> is_sha256_hex_any_case (po_checksumSha256 a)"

definition asset_expired :: "policy_asset \<Rightarrow> instant \<Rightarrow> bool" where
  "asset_expired a at \<longleftrightarrow> (case po_expiresAt a of None \<Rightarrow> False | Some t \<Rightarrow> t \<le> at)"

fun media_failure_from :: "int \<Rightarrow> policy_asset list \<Rightarrow> instant \<Rightarrow> candidate_failure option" where
  "media_failure_from aggregateBytes [] at = None"
| "media_failure_from aggregateBytes (a # as) at =
     (if \<not> asset_supported a then Some ASSET_UNSUPPORTED
      else if asset_expired a at then Some ASSET_EXPIRED
      else if aggregateBytes + po_sizeBytes a > MEDIA_MAX_RELEASE_BYTES then Some RELEASE_TOO_LARGE
      else media_failure_from (aggregateBytes + po_sizeBytes a) as at)"

definition mediaPublicationFailure :: "policy_asset list \<Rightarrow> instant \<Rightarrow> candidate_failure option" where
  "mediaPublicationFailure assets at = media_failure_from 0 assets at"

definition policy_of_media :: "'a media_data_scheme \<Rightarrow> policy_asset" where
  "policy_of_media m = \<lparr>po_kind = md_kind m, po_mimeType = md_mimeType m,
     po_checksumSha256 = md_checksumSha256 m, po_sizeBytes = md_sizeBytes m,
     po_expiresAt = md_expiresAt m\<rparr>"

definition policy_of_frozen :: "frozen_asset \<Rightarrow> policy_asset" where
  "policy_of_frozen a = \<lparr>po_kind = fa_kind a, po_mimeType = fa_mimeType a,
     po_checksumSha256 = fa_checksumSha256 a, po_sizeBytes = fa_sizeBytes a,
     po_expiresAt = fa_expiresAt a\<rparr>"

section \<open>Media URLs\<close>

definition hasMediaUrlCredentials :: "url \<Rightarrow> bool" where
  "hasMediaUrlCredentials u \<longleftrightarrow> url_username u \<noteq> [] \<or> url_password u \<noteq> []"

definition usesAllowedMediaScheme :: "url \<Rightarrow> bool" where
  "usesAllowedMediaScheme u \<longleftrightarrow>
     url_protocol u = ''https:'' \<or>
     (url_protocol u = ''http:'' \<and> url_hostname u \<in> set [''localhost'', ''127.0.0.1'', ''[::1]''])"

definition mediaUrlMatchesAllowedOrigin :: "env \<Rightarrow> string \<Rightarrow> string list \<Rightarrow> bool" where
  "mediaUrlMatchesAllowedOrigin e value allowedOrigins =
     (case parse_url e value of
        None \<Rightarrow> False
      | Some u \<Rightarrow> \<not> hasMediaUrlCredentials u \<and> usesAllowedMediaScheme u \<and>
          url_origin u \<in> set allowedOrigins)"

section \<open>Storage identity\<close>

text \<open>\<open>/^[A-Za-z0-9._-]{1,256}$/\<close>\<close>

definition safe_segment :: "string \<Rightarrow> bool" where
  "safe_segment s \<longleftrightarrow> 1 \<le> length s \<and> length s \<le> 256 \<and>
     list_all (\<lambda>c. is_digit c \<or> is_lower c \<or> is_upper c \<or> c \<in> set ''._-'') s"

definition mediaStorageKey :: "string \<Rightarrow> string \<Rightarrow> string \<Rightarrow> exn + string" where
  "mediaStorageKey organizationId assetId checksum =
     (if \<not> safe_segment organizationId \<or> \<not> safe_segment assetId \<or> \<not> is_sha256_hex checksum
      then Inl (GenericError ''Invalid media storage identity'')
      else Inr (''organizations/'' @ organizationId @ ''/assets/'' @ assetId @ ''/'' @ checksum))"

section \<open>Facts\<close>

lemma media_failure_from_None:
  "media_failure_from b as at = None \<Longrightarrow>
    (\<forall>a \<in> set as. asset_supported a \<and> \<not> asset_expired a at) \<and>
    (as \<noteq> [] \<longrightarrow> b + sum_list (map po_sizeBytes as) \<le> MEDIA_MAX_RELEASE_BYTES)"
proof (induction as arbitrary: b)
  case Nil
  then show ?case by simp
next
  case (Cons a as)
  then have a: "asset_supported a" "\<not> asset_expired a at"
      "b + po_sizeBytes a \<le> MEDIA_MAX_RELEASE_BYTES"
    and rest: "media_failure_from (b + po_sizeBytes a) as at = None"
    by (simp_all split: if_splits)
  show ?case using a Cons.IH [OF rest] by (cases "as = []") (simp_all add: add.assoc)
qed

lemma media_failure_from_complete:
  assumes "\<forall>a \<in> set as. asset_supported a \<and> \<not> asset_expired a at"
    and "b + sum_list (map po_sizeBytes as) \<le> MEDIA_MAX_RELEASE_BYTES"
  shows "media_failure_from b as at = None"
  using assms
proof (induction as arbitrary: b)
  case Nil
  then show ?case by simp
next
  case (Cons a as)
  have "0 \<le> sum_list (map po_sizeBytes as)"
    using Cons.prems(1) by (intro sum_list_nonneg) (auto simp: asset_supported_def)
  with Cons show ?case by (auto simp: add.assoc)
qed

text \<open>A segment that the pattern admits has no slash, so a storage key determines its parts.\<close>

lemma safe_segment_no_slash: "safe_segment s \<Longrightarrow> CHR ''/'' \<notin> set s"
  by (auto simp: safe_segment_def list_all_iff is_digit_def is_lower_def is_upper_def)

lemma split_at_slash:
  "CHR ''/'' \<notin> set a \<Longrightarrow> CHR ''/'' \<notin> set b \<Longrightarrow>
    a @ CHR ''/'' # x = b @ CHR ''/'' # y \<longleftrightarrow> a = b \<and> x = y"
  by (auto simp: append_eq_append_conv2 append_eq_Cons_conv Cons_eq_append_conv)

lemma mediaStorageKey_inj:
  assumes "mediaStorageKey o1 a1 c1 = Inr k" "mediaStorageKey o2 a2 c2 = Inr k"
  shows "o1 = o2 \<and> a1 = a2 \<and> c1 = c2"
proof -
  from assms have s: "safe_segment o1" "safe_segment a1" "safe_segment o2" "safe_segment a2"
    and k: "o1 @ ''/assets/'' @ a1 @ ''/'' @ c1 = o2 @ ''/assets/'' @ a2 @ ''/'' @ c2"
    by (auto simp: mediaStorageKey_def split: if_splits)
  have "o1 = o2 \<and> a1 @ ''/'' @ c1 = a2 @ ''/'' @ c2"
    using k split_at_slash [OF safe_segment_no_slash [OF s(1)] safe_segment_no_slash [OF s(3)]]
    by simp
  then show ?thesis
    using split_at_slash [OF safe_segment_no_slash [OF s(2)] safe_segment_no_slash [OF s(4)]]
    by simp
qed

end
