(* ===== verification/Identity.thy ===== *)
theory Identity
  imports Audit_Log Media_Policy
begin

text \<open>
  Users, memberships and sessions of the store (\<open>memory.ts\<close>, from \<open>revokePendingIssuerGrants\<close>
  and \<open>findUserByEmail\<close> to \<open>removeMembershipAndAudit\<close>).  A user with memberships in several
  organizations is one record per membership with the same identifier, as in the code.  The
  facts say which sessions and grants survive an operation, that an organization keeps an
  active owner, and how the log grows.
\<close>

section \<open>Looking users up\<close>

definition findSessionUser :: "store \<Rightarrow> string \<Rightarrow> string \<Rightarrow> session_user option" where
  "findSessionUser s userId organizationId =
     List.find (\<lambda>u. u_id u = userId \<and> u_organizationId u = organizationId \<and> u_disabledAt u = None)
       (users s)"

definition activeActor :: "store \<Rightarrow> string \<Rightarrow> string \<Rightarrow> role list \<Rightarrow> session_user option" where
  "activeActor s org actorUserId roles =
     List.find (\<lambda>u. u_id u = actorUserId \<and> u_organizationId u = org \<and> u_disabledAt u = None \<and>
       u_role u \<in> set roles) (users s)"

text \<open>The actor of the enrollment operations: found first, then checked for its role.\<close>

definition adminActor :: "store \<Rightarrow> string \<Rightarrow> string \<Rightarrow> session_user option" where
  "adminActor s org actorUserId =
     (case findSessionUser s actorUserId org of
        None \<Rightarrow> None
      | Some u \<Rightarrow> if u_role u = OWNER \<or> u_role u = ADMIN then Some u else None)"

definition same_identity :: "session_user \<Rightarrow> session_user \<Rightarrow> bool" where
  "same_identity u v \<longleftrightarrow> u_email u = u_email v \<and> u_name u = u_name v \<and>
     u_passwordHash u = u_passwordHash v \<and> u_authenticationEpoch u = u_authenticationEpoch v \<and>
     u_bootstrapPasswordExpiresAt u = u_bootstrapPasswordExpiresAt v"

definition findUserByEmail :: "env \<Rightarrow> store \<Rightarrow> string \<Rightarrow> session_user option" where
  "findUserByEmail e s email =
     (let matches = filter (\<lambda>u. toLowerCase (u_email u) = toLowerCase email) (users s) in
      case matches of
        [] \<Rightarrow> None
      | identity # _ \<Rightarrow>
          if length (js_unique (map u_id matches)) \<noteq> 1 \<or> list_ex (\<lambda>u. u_disabledAt u \<noteq> None) matches
          then None
          else if list_ex (\<lambda>u. \<not> same_identity u identity) matches \<or>
            length (js_unique (map u_organizationId matches)) \<noteq> length matches
          then None
          else Some (hd (sort_by (\<lambda>a b. localeCompare e (u_organizationId a) (u_organizationId b))
                 matches)))"

section \<open>Login failures\<close>

definition compare_login_failures :: "env \<Rightarrow> login_failure \<Rightarrow> login_failure \<Rightarrow> int" where
  "compare_login_failures e l r =
     cmp_or (cmp_instant (lf_occurredAt l) (lf_occurredAt r)) (localeCompare e (lf_id l) (lf_id r))"

text \<open>\<open>xs.slice(-n)\<close> for a positive \<open>n\<close>.\<close>

definition slice_last :: "nat \<Rightarrow> 'a list \<Rightarrow> 'a list" where
  "slice_last n xs = drop (length xs - n) xs"

definition recordLoginFailure :: "env \<Rightarrow> login_failure_input \<Rightarrow> store \<Rightarrow> (store, unit) outcome" where
  "recordLoginFailure e input s =
     (if \<not> is_sha256_hex (lf_accountKey input) \<or> \<not> is_sha256_hex (lf_sourceKey input)
      then (Inl (GenericError ''Login failure identifiers must be opaque SHA-256 HMACs''), s)
      else
        (let cutoff = now e - LOGIN_FAILURE_RETENTION_MS;
             retained = slice_last (LOGIN_FAILURE_MAX_RECORDS - 1)
               (sort_by (compare_login_failures e)
                 (filter (\<lambda>ev. lf_occurredAt ev \<ge> cutoff) (loginFailures s)));
             event = login_failure_input.extend input (login_failure.fields (new_id e 0) (now e))
         in (Inr (), s\<lparr>loginFailures := retained @ [event]\<rparr>)))"

section \<open>Sessions\<close>

fun purpose_text :: "session_purpose \<Rightarrow> string" where
  "purpose_text FULL = ''FULL''"
| "purpose_text BOOTSTRAP_PASSWORD_ROTATION = ''BOOTSTRAP_PASSWORD_ROTATION''"

text \<open>Why a new session is refused; comparisons with an unreadable expiry (NaN) are false.\<close>

definition session_refused :: "session_user \<Rightarrow> session_create_input \<Rightarrow> session_purpose \<Rightarrow> instant \<Rightarrow> bool" where
  "session_refused user input purpose t \<longleftrightarrow>
     u_passwordHash user \<noteq> si_expectedPasswordHash input \<or>
     u_role user \<noteq> si_expectedRole input \<or>
     u_authenticationEpoch user \<noteq> si_expectedAuthenticationEpoch input \<or>
     u_authorizationEpoch user \<noteq> si_expectedAuthorizationEpoch input \<or>
     u_bootstrapPasswordExpiresAt user \<noteq> si_expectedBootstrapPasswordExpiresAt input \<or>
     (purpose = FULL \<and> u_bootstrapPasswordExpiresAt user \<noteq> None) \<or>
     (purpose = BOOTSTRAP_PASSWORD_ROTATION \<and>
        (case u_bootstrapPasswordExpiresAt user of
           None \<Rightarrow> True
         | Some b \<Rightarrow> b \<le> t \<or> (case si_expiresAt input of
             None \<Rightarrow> False | Some x \<Rightarrow> x > b \<or> x - t > 10 * 60 * 1000))) \<or>
     (case si_expiresAt input of None \<Rightarrow> True | Some x \<Rightarrow> x \<le> t)"

definition createUserSessionAndAudit ::
  "env \<Rightarrow> string \<Rightarrow> session_create_input \<Rightarrow> audit_context \<Rightarrow> store
    \<Rightarrow> (store, user_session answer) outcome" where
  "createUserSessionAndAudit e organizationId input audit s =
     (let purpose = or_default (si_purpose input) FULL in
      case (findSessionUser s (ac_actorUserId audit) organizationId, si_expiresAt input) of
        (Some user, Some expiresAt) \<Rightarrow>
          if session_refused user input purpose (now e) then (Inr (Denied FORBIDDEN), s)
          else
            (let session = \<lparr>us_id = new_id e 0, us_organizationId = organizationId,
                   us_userId = u_id user, us_tokenHash = si_tokenHash input,
                   us_authenticationEpoch = u_authenticationEpoch user,
                   us_authorizationEpoch = u_authorizationEpoch user, us_purpose = Some purpose,
                   us_expiresAt = expiresAt, us_revokedAt = None, us_createdAt = now e\<rparr>
             in with_audit e 1
                  ((user_event organizationId audit ''auth.login_succeeded'' ''session''
                     (Some (us_id session))
                     [(js ''expiresAt'', jinstant expiresAt),
                      (js ''purpose'', jstr (purpose_text purpose))])
                   \<lparr>au_actorUserId := Some (u_id user)\<rparr>) s
                  (\<lambda>r. (Inr (Done session),
                     s\<lparr>userSessions := filter (\<lambda>c. us_expiresAt c > now e) (userSessions s)
                          @ [session],
                       auditRecords := auditRecords s @ [r]\<rparr>)))
      | _ \<Rightarrow> (Inr (Denied FORBIDDEN), s))"

definition live_session :: "instant \<Rightarrow> string \<Rightarrow> string \<Rightarrow> string \<Rightarrow> user_session \<Rightarrow> bool" where
  "live_session t userId organizationId tokenHash c \<longleftrightarrow>
     us_userId c = userId \<and> us_organizationId c = organizationId \<and> us_tokenHash c = tokenHash \<and>
     us_revokedAt c = None \<and> us_expiresAt c > t"

definition findActiveUserSession ::
  "env \<Rightarrow> store \<Rightarrow> string \<Rightarrow> string \<Rightarrow> string \<Rightarrow> (session_user \<times> session_purpose) option" where
  "findActiveUserSession e s userId organizationId tokenHash =
     (case List.find (live_session (now e) userId organizationId tokenHash) (userSessions s) of
        None \<Rightarrow> None
      | Some session \<Rightarrow>
          (case findSessionUser s userId organizationId of
             None \<Rightarrow> None
           | Some user \<Rightarrow>
               if u_authenticationEpoch user = us_authenticationEpoch session \<and>
                  u_authorizationEpoch user = us_authorizationEpoch session \<and>
                  (if or_default (us_purpose session) FULL = FULL
                   then u_bootstrapPasswordExpiresAt user = None
                   else (case u_bootstrapPasswordExpiresAt user of
                       None \<Rightarrow> False
                     | Some b \<Rightarrow> b > now e \<and> us_expiresAt session \<le> b))
               then Some (user, or_default (us_purpose session) FULL) else None))"

definition revokeUserSessionAndAudit ::
  "env \<Rightarrow> string \<Rightarrow> string \<Rightarrow> string \<Rightarrow> audit_context \<Rightarrow> store \<Rightarrow> (store, unit answer) outcome" where
  "revokeUserSessionAndAudit e userId organizationId tokenHash audit s =
     (let live = live_session (now e) userId organizationId tokenHash in
      case (findSessionUser s userId organizationId, List.find live (userSessions s)) of
        (Some user, Some session) \<Rightarrow>
          if ac_actorUserId audit \<noteq> userId then (Inr (Denied NOT_FOUND), s)
          else with_audit e 0
            (user_event organizationId audit ''auth.logout'' ''session'' (Some (us_id session)) []) s
            (\<lambda>r. (Inr (Done ()),
               s\<lparr>userSessions := update_first live (\<lambda>c. c\<lparr>us_revokedAt := Some (now e)\<rparr>)
                    (userSessions s),
                 auditRecords := auditRecords s @ [r]\<rparr>))
      | _ \<Rightarrow> (Inr (Denied NOT_FOUND), s))"

section \<open>Pending grants of an issuer\<close>

text \<open>
  \<open>revokePendingIssuerGrants\<close>: every pending grant the user authorized in the organizations is
  revoked, and its attempts without a bound credential are cancelled.
\<close>

definition issuer_grant :: "string \<Rightarrow> string list \<Rightarrow> pairing \<Rightarrow> bool" where
  "issuer_grant userId organizationIds g \<longleftrightarrow>
     pr_organizationId g \<in> set organizationIds \<and> pr_authorizedByUserId g = Some userId \<and>
     pr_status g = PENDING"

definition cancel_unbound_attempts ::
  "instant \<Rightarrow> string list \<Rightarrow> pairing_attempt list \<Rightarrow> pairing_attempt list" where
  "cancel_unbound_attempts t grantIds =
     update_where (\<lambda>a. pa_pairingCodeId a \<in> set grantIds \<and> \<not> truthy (pa_boundCredentialId a))
       (\<lambda>a. a\<lparr>pa_cancelledAt := assign_if_absent (pa_cancelledAt a) t\<rparr>)"

definition revokePendingIssuerGrants :: "string \<Rightarrow> string list \<Rightarrow> instant \<Rightarrow> store \<Rightarrow> store" where
  "revokePendingIssuerGrants userId organizationIds t s =
     s\<lparr>pairings := update_where (issuer_grant userId organizationIds)
          (\<lambda>g. g\<lparr>pr_status := REVOKED\<rparr>) (pairings s),
       pairingAttempts := cancel_unbound_attempts t
          (map pr_id (filter (issuer_grant userId organizationIds) (pairings s)))
          (pairingAttempts s)\<rparr>"

section \<open>Identity mutations\<close>

definition is_js_space :: "char \<Rightarrow> bool" where
  "is_js_space c \<longleftrightarrow> (of_char c :: nat) \<in> {9, 10, 11, 12, 13, 32, 160}"

definition trim :: "string \<Rightarrow> string" where
  "trim s = rev (dropWhile is_js_space (rev (dropWhile is_js_space s)))"

text \<open>The trimmed reason, or the error thrown for an empty or overlong one.\<close>

definition identityMutationReason :: "system_audit_context \<Rightarrow> exn + string" where
  "identityMutationReason audit =
     (let reason = trim (sy_reason audit) in
      if reason = [] \<or> length reason > 500
      then Inl (GenericError ''Identity mutation reason must contain 1 to 500 characters'')
      else Inr reason)"

definition identity_event ::
  "string \<Rightarrow> string \<Rightarrow> string \<Rightarrow> string \<Rightarrow> system_audit_context \<Rightarrow> string \<Rightarrow> (utext \<times> json) list
    \<Rightarrow> audit_event" where
  "identity_event organizationId action entityType entityId audit reason metadata =
     \<lparr>au_organizationId = organizationId, au_actorUserId = None, au_actorType = ''system'',
      au_action = action, au_entityType = entityType, au_entityId = Some entityId,
      au_ipAddress = None, au_requestId = when_truthy (sy_requestId audit),
      au_metadata = JObj ((js ''reason'', jstr reason) # metadata)\<rparr>"

definition hasOtherActiveOwner :: "store \<Rightarrow> string \<Rightarrow> string \<Rightarrow> bool" where
  "hasOtherActiveOwner s organizationId userId \<longleftrightarrow>
     list_ex (\<lambda>c. u_organizationId c = organizationId \<and> u_id c \<noteq> userId \<and> u_role c = OWNER \<and>
       u_disabledAt c = None) (users s)"

definition memberships_of :: "store \<Rightarrow> string \<Rightarrow> session_user list" where
  "memberships_of s userId = filter (\<lambda>u. u_id u = userId) (users s)"

definition organization_ids :: "session_user list \<Rightarrow> string list" where
  "organization_ids ms = sort (js_unique (map u_organizationId ms))"

definition revoke_sessions :: "instant \<Rightarrow> (user_session \<Rightarrow> bool) \<Rightarrow> user_session list \<Rightarrow> user_session list" where
  "revoke_sessions t P =
     update_where (\<lambda>c. P c \<and> us_revokedAt c = None) (\<lambda>c. c\<lparr>us_revokedAt := Some t\<rparr>)"

text \<open>The checks of the bootstrap rotation, in one condition as in the code.\<close>

definition rotation_session :: "instant \<Rightarrow> string \<Rightarrow> string \<Rightarrow> string \<Rightarrow> user_session \<Rightarrow> bool" where
  "rotation_session t userId organizationId tokenHash c \<longleftrightarrow>
     us_userId c = userId \<and> us_organizationId c = organizationId \<and> us_tokenHash c = tokenHash \<and>
     us_purpose c = Some BOOTSTRAP_PASSWORD_ROTATION \<and> us_revokedAt c = None \<and> us_expiresAt c > t"

definition membership_as_expected :: "bootstrap_rotation_input \<Rightarrow> session_user \<Rightarrow> bool" where
  "membership_as_expected input m \<longleftrightarrow>
     u_disabledAt m = None \<and> u_passwordHash m = bi_expectedPasswordHash input \<and>
     u_bootstrapPasswordExpiresAt m = Some (bi_expectedBootstrapPasswordExpiresAt input) \<and>
     u_authenticationEpoch m = bi_expectedAuthenticationEpoch input"

definition rotation_allowed ::
  "instant \<Rightarrow> bootstrap_rotation_input \<Rightarrow> session_user list \<Rightarrow> session_user \<Rightarrow> user_session \<Rightarrow> bool" where
  "rotation_allowed t input memberships current session \<longleftrightarrow>
     list_all (membership_as_expected input) memberships \<and> membership_as_expected input current \<and>
     bi_expectedBootstrapPasswordExpiresAt input > t \<and>
     u_authorizationEpoch current = bi_expectedAuthorizationEpoch input \<and>
     us_authenticationEpoch session = bi_expectedAuthenticationEpoch input \<and>
     us_authorizationEpoch session = bi_expectedAuthorizationEpoch input"

text \<open>
  \<open>rotateBootstrapPasswordAndAudit\<close>.  The audit records are built after the grants, users and
  sessions have been replaced: a refused record throws with those changes in place.
\<close>

definition rotateBootstrapPasswordAndAudit ::
  "env \<Rightarrow> string \<Rightarrow> string \<Rightarrow> bootstrap_rotation_input \<Rightarrow> audit_context \<Rightarrow> store
    \<Rightarrow> (store, string list answer) outcome" where
  "rotateBootstrapPasswordAndAudit e userId organizationId input audit s =
     (if \<not> isApprovedPasswordHash (bi_passwordHash input)
      then (Inl (GenericError ''An approved bcrypt password hash is required''), s)
      else
        (let memberships = memberships_of s userId;
             current = List.find (\<lambda>u. u_organizationId u = organizationId) memberships;
             session = List.find
               (rotation_session (now e) userId organizationId (bi_tokenHash input)) (userSessions s)
         in case (current, session) of
           (Some cur, Some ses) \<Rightarrow>
             if ac_actorUserId audit \<noteq> userId \<or> \<not> rotation_allowed (now e) input memberships cur ses
             then (Inr (Denied FORBIDDEN), s)
             else
               (let orgs = organization_ids memberships;
                    epoch = u_authenticationEpoch cur + 1;
                    s1 = revokePendingIssuerGrants userId orgs (now e) s;
                    s2 = s1\<lparr>users := update_where (\<lambda>u. u_id u = userId)
                           (\<lambda>u. u\<lparr>u_bootstrapPasswordExpiresAt := None,
                                  u_passwordHash := bi_passwordHash input,
                                  u_authenticationEpoch := epoch\<rparr>) (users s1),
                         userSessions := revoke_sessions (now e) (\<lambda>c. us_userId c = userId)
                           (userSessions s1)\<rparr>
                in case buildAuditRecords e 0
                     (map (\<lambda>org. user_event org (audit\<lparr>ac_actorUserId := userId\<rparr>)
                        ''auth.bootstrap_password_rotated'' ''user'' (Some userId) []) orgs) of
                     Inl x \<Rightarrow> (Inl x, s2)
                   | Inr rs \<Rightarrow> (Inr (Done orgs), s2\<lparr>auditRecords := auditRecords s2 @ rs\<rparr>))
         | _ \<Rightarrow> (Inr (Denied FORBIDDEN), s)))"

text \<open>
  What \<open>rotateUserPasswordAndAudit\<close> and \<open>disableUserAndAudit\<close> do once they are allowed: build
  one audit record per organization, then revoke the user's pending grants, update every
  membership and revoke every session.
\<close>

definition mutate_all_memberships ::
  "env \<Rightarrow> string \<Rightarrow> string list \<Rightarrow> (session_user \<Rightarrow> session_user) \<Rightarrow> string \<Rightarrow> string
    \<Rightarrow> system_audit_context \<Rightarrow> store \<Rightarrow> (store, string list answer) outcome" where
  "mutate_all_memberships e userId orgs f action reason audit s =
     (case buildAuditRecords e 0
        (map (\<lambda>org. identity_event org action ''user'' userId audit reason []) orgs) of
        Inl x \<Rightarrow> (Inl x, s)
      | Inr rs \<Rightarrow>
          (let s1 = revokePendingIssuerGrants userId orgs (now e) s in
           (Inr (Done orgs),
            s1\<lparr>users := update_where (\<lambda>u. u_id u = userId) f (users s1),
               userSessions := revoke_sessions (now e) (\<lambda>c. us_userId c = userId) (userSessions s1),
               auditRecords := auditRecords s1 @ rs\<rparr>)))"

definition epochs_of :: "session_user list \<Rightarrow> int list" where
  "epochs_of ms = js_unique (map u_authenticationEpoch ms)"

definition rotateUserPasswordAndAudit ::
  "env \<Rightarrow> string \<Rightarrow> string \<Rightarrow> system_audit_context \<Rightarrow> store \<Rightarrow> (store, string list answer) outcome" where
  "rotateUserPasswordAndAudit e userId passwordHash audit s =
     (if \<not> isApprovedPasswordHash passwordHash
      then (Inl (GenericError ''An approved bcrypt password hash is required''), s)
      else case identityMutationReason audit of
        Inl x \<Rightarrow> (Inl x, s)
      | Inr reason \<Rightarrow>
          (case memberships_of s userId of
             [] \<Rightarrow> (Inr (Denied NOT_FOUND), s)
           | m # ms \<Rightarrow>
               if length (epochs_of (m # ms)) \<noteq> 1 then (Inr (Denied NOT_FOUND), s)
               else mutate_all_memberships e userId (organization_ids (m # ms))
                 (\<lambda>u. u\<lparr>u_passwordHash := passwordHash,
                        u_authenticationEpoch := u_authenticationEpoch m + 1\<rparr>)
                 ''identity.password_rotated'' reason audit s))"

definition disableUserAndAudit ::
  "env \<Rightarrow> string \<Rightarrow> system_audit_context \<Rightarrow> store \<Rightarrow> (store, string list answer) outcome" where
  "disableUserAndAudit e userId audit s =
     (case identityMutationReason audit of
        Inl x \<Rightarrow> (Inl x, s)
      | Inr reason \<Rightarrow>
          (case memberships_of s userId of
             [] \<Rightarrow> (Inr (Denied NOT_FOUND), s)
           | m # ms \<Rightarrow>
               if length (epochs_of (m # ms)) \<noteq> 1 then (Inr (Denied NOT_FOUND), s)
               else if list_ex (\<lambda>x. u_disabledAt x = None \<and> u_role x = OWNER \<and>
                   \<not> hasOtherActiveOwner s (u_organizationId x) userId) (m # ms)
               then (Inr (Denied OWNER_CONTINUITY_REQUIRED), s)
               else mutate_all_memberships e userId (organization_ids (m # ms))
                 (\<lambda>u. u\<lparr>u_authenticationEpoch := u_authenticationEpoch m + 1,
                        u_disabledAt := Some (now e)\<rparr>)
                 ''identity.user_disabled'' reason audit s))"

definition is_membership :: "string \<Rightarrow> string \<Rightarrow> session_user \<Rightarrow> bool" where
  "is_membership organizationId userId u \<longleftrightarrow> u_id u = userId \<and> u_organizationId u = organizationId"

definition role_json :: "role \<Rightarrow> json" where
  "role_json r = jstr (case r of OWNER \<Rightarrow> ''OWNER'' | ADMIN \<Rightarrow> ''ADMIN'' | PUBLISHER \<Rightarrow> ''PUBLISHER''
     | VIEWER \<Rightarrow> ''VIEWER'')"

definition changeMembershipRoleAndAudit ::
  "env \<Rightarrow> string \<Rightarrow> string \<Rightarrow> role \<Rightarrow> system_audit_context \<Rightarrow> store \<Rightarrow> (store, unit answer) outcome" where
  "changeMembershipRoleAndAudit e organizationId userId role audit s =
     (case identityMutationReason audit of
        Inl x \<Rightarrow> (Inl x, s)
      | Inr reason \<Rightarrow>
          (case List.find (is_membership organizationId userId) (users s) of
             None \<Rightarrow> (Inr (Denied NOT_FOUND), s)
           | Some membership \<Rightarrow>
               if u_role membership = OWNER \<and> role \<noteq> OWNER \<and> u_disabledAt membership = None \<and>
                 \<not> hasOtherActiveOwner s organizationId userId
               then (Inr (Denied OWNER_CONTINUITY_REQUIRED), s)
               else with_audit e 0
                 (identity_event organizationId ''identity.membership_role_changed'' ''membership''
                    (organizationId @ '':'' @ userId) audit reason
                    [(js ''previousRole'', role_json (u_role membership)),
                     (js ''role'', role_json role)]) s
                 (\<lambda>r. (let s1 = revokePendingIssuerGrants userId [organizationId] (now e) s in
                    (Inr (Done ()),
                     s1\<lparr>users := update_where (is_membership organizationId userId)
                          (\<lambda>u. u\<lparr>u_role := role,
                                 u_authorizationEpoch := u_authorizationEpoch u + 1\<rparr>) (users s1),
                        userSessions := revoke_sessions (now e)
                          (\<lambda>c. us_userId c = userId \<and> us_organizationId c = organizationId)
                          (userSessions s1),
                        auditRecords := auditRecords s1 @ [r]\<rparr>)))))"

definition removeMembershipAndAudit ::
  "env \<Rightarrow> string \<Rightarrow> string \<Rightarrow> system_audit_context \<Rightarrow> store \<Rightarrow> (store, unit answer) outcome" where
  "removeMembershipAndAudit e organizationId userId audit s =
     (case identityMutationReason audit of
        Inl x \<Rightarrow> (Inl x, s)
      | Inr reason \<Rightarrow>
          (case List.find (is_membership organizationId userId) (users s) of
             None \<Rightarrow> (Inr (Denied NOT_FOUND), s)
           | Some membership \<Rightarrow>
               if u_role membership = OWNER \<and> u_disabledAt membership = None \<and>
                 \<not> hasOtherActiveOwner s organizationId userId
               then (Inr (Denied OWNER_CONTINUITY_REQUIRED), s)
               else with_audit e 0
                 (identity_event organizationId ''identity.membership_removed'' ''membership''
                    (organizationId @ '':'' @ userId) audit reason
                    [(js ''previousRole'', role_json (u_role membership))]) s
                 (\<lambda>r. (let s1 = revokePendingIssuerGrants userId [organizationId] (now e) s in
                    (Inr (Done ()),
                     s1\<lparr>userSessions := revoke_sessions (now e)
                          (\<lambda>c. us_userId c = userId \<and> us_organizationId c = organizationId)
                          (userSessions s1),
                        users := filter (\<lambda>u. \<not> is_membership organizationId userId u) (users s1),
                        auditRecords := auditRecords s1 @ [r]\<rparr>)))))"

section \<open>Facts\<close>

subsection \<open>The log\<close>

lemma revokePendingIssuerGrants_frame [simp]:
  "users (revokePendingIssuerGrants i os t s) = users s"
  "userSessions (revokePendingIssuerGrants i os t s) = userSessions s"
  "auditRecords (revokePendingIssuerGrants i os t s) = auditRecords s"
  by (simp_all add: revokePendingIssuerGrants_def)

lemma mutate_all_memberships_cases:
  assumes "mutate_all_memberships e i os f action reason audit s = (res, s')"
  obtains (Thrown) x where "res = Inl x" "s' = s"
  | (Done) rs where "res = Inr (Done os)" "length rs = length os"
      "s' = (revokePendingIssuerGrants i os (now e) s)
         \<lparr>users := update_where (\<lambda>u. u_id u = i) f (users s),
          userSessions := revoke_sessions (now e) (\<lambda>c. us_userId c = i) (userSessions s),
          auditRecords := auditRecords s @ rs\<rparr>"
proof (cases "buildAuditRecords e 0
    (map (\<lambda>org. identity_event org action ''user'' i audit reason []) os)")
  case (Inl x)
  with assms show ?thesis by (intro Thrown [of x]) (simp_all add: mutate_all_memberships_def)
next
  case (Inr rs)
  with assms show ?thesis
    by (intro Done [of rs])
      (simp_all add: mutate_all_memberships_def buildAuditRecords_length [OF Inr])
qed

interpretation create_session:
  audited_operation "createUserSessionAndAudit e org input audit" for e org input audit
  by unfold_locales
    (auto simp: createUserSessionAndAudit_def Let_def split: option.splits if_splits with_audit_splits)

interpretation revoke_session:
  audited_operation "revokeUserSessionAndAudit e i org token audit" for e i org token audit
  by unfold_locales
    (auto simp: revokeUserSessionAndAudit_def Let_def split: option.splits if_splits with_audit_splits)

lemma organization_ids_nonempty: "ms \<noteq> [] \<Longrightarrow> organization_ids ms \<noteq> []"
  by (metis (no_types, lifting) map_is_Nil_conv organization_ids_def set_empty set_js_unique set_sort)

text \<open>What a completed rotation or disabling of a user leaves.\<close>

definition memberships_mutated ::
  "env \<Rightarrow> string \<Rightarrow> (session_user \<Rightarrow> session_user) \<Rightarrow> store \<Rightarrow> store \<Rightarrow> bool" where
  "memberships_mutated e i f s s' \<longleftrightarrow> (\<exists>rs. rs \<noteq> [] \<and>
     s' = (revokePendingIssuerGrants i (organization_ids (memberships_of s i)) (now e) s)
       \<lparr>users := update_where (\<lambda>u. u_id u = i) f (users s),
        userSessions := revoke_sessions (now e) (\<lambda>c. us_userId c = i) (userSessions s),
        auditRecords := auditRecords s @ rs\<rparr>)"

lemma mutate_all_memberships_Done:
  assumes "mutate_all_memberships e i (organization_ids (memberships_of s i)) f action reason audit s
      = (Inr v, s')"
    and "memberships_of s i \<noteq> []"
  shows "memberships_mutated e i f s s'"
  using assms(1)
proof (cases rule: mutate_all_memberships_cases)
  case (Done rs)
  with organization_ids_nonempty [OF assms(2)] show ?thesis
    unfolding memberships_mutated_def by (intro exI [of _ rs]) auto
qed simp

lemma rotateUserPassword_Done:
  assumes "rotateUserPasswordAndAudit e i hash audit s = (Inr (Done v), s')"
  shows "\<exists>epoch. memberships_mutated e i
    (\<lambda>u. u\<lparr>u_passwordHash := hash, u_authenticationEpoch := epoch\<rparr>) s s'"
proof -
  obtain reason m ms where ms: "memberships_of s i = m # ms" and
    "mutate_all_memberships e i (organization_ids (m # ms))
       (\<lambda>u. u\<lparr>u_passwordHash := hash, u_authenticationEpoch := u_authenticationEpoch m + 1\<rparr>)
       ''identity.password_rotated'' reason audit s = (Inr (Done v), s')"
    using assms by (auto simp: rotateUserPasswordAndAudit_def split: if_splits sum.splits list.splits)
  then have "memberships_mutated e i
      (\<lambda>u. u\<lparr>u_passwordHash := hash, u_authenticationEpoch := u_authenticationEpoch m + 1\<rparr>) s s'"
    by (intro mutate_all_memberships_Done) (simp_all add: ms [symmetric], simp add: ms)
  then show ?thesis by blast
qed

lemma mutate_all_memberships_unchanged:
  "mutate_all_memberships e i os f action reason audit s = (res, s') \<Longrightarrow>
    (\<exists>v. res = Inr (Done v)) \<or> (\<exists>x. res = Inl x) \<and> s' = s"
  by (erule mutate_all_memberships_cases) auto

lemma rotateUserPassword_unchanged:
  assumes "rotateUserPasswordAndAudit e i hash audit s = (res, s')"
  shows "(\<exists>v. res = Inr (Done v)) \<or> s' = s"
  using assms
  by (auto simp: rotateUserPasswordAndAudit_def dest: mutate_all_memberships_unchanged
      split: if_splits sum.splits list.splits)

interpretation rotate_password:
  audited_operation "rotateUserPasswordAndAudit e i hash audit" for e i hash audit
proof unfold_locales
  fix s s' res
  assume op: "rotateUserPasswordAndAudit e i hash audit s = (res, s')"
  from rotateUserPassword_unchanged [OF op] show "\<exists>rs. auditRecords s' = auditRecords s @ rs"
    using op by (auto dest!: rotateUserPassword_Done simp: memberships_mutated_def)
next
  fix s s' v
  assume "rotateUserPasswordAndAudit e i hash audit s = (Inr (Done v), s')"
  then show "auditRecords s' \<noteq> auditRecords s"
    by (auto dest!: rotateUserPassword_Done simp: memberships_mutated_def)
qed (auto dest: rotateUserPassword_unchanged)

lemma disableUser_Done:
  assumes "disableUserAndAudit e i audit s = (Inr (Done v), s')"
  shows "\<exists>epoch. memberships_mutated e i
      (\<lambda>u. u\<lparr>u_authenticationEpoch := epoch, u_disabledAt := Some (now e)\<rparr>) s s'"
    and "x \<in> set (memberships_of s i) \<Longrightarrow> u_disabledAt x = None \<Longrightarrow> u_role x = OWNER \<Longrightarrow>
      hasOtherActiveOwner s (u_organizationId x) i"
proof -
  obtain reason m ms where ms: "memberships_of s i = m # ms" and
    owners: "\<not> list_ex (\<lambda>x. u_disabledAt x = None \<and> u_role x = OWNER \<and>
       \<not> hasOtherActiveOwner s (u_organizationId x) i) (m # ms)" and
    "mutate_all_memberships e i (organization_ids (m # ms))
       (\<lambda>u. u\<lparr>u_authenticationEpoch := u_authenticationEpoch m + 1, u_disabledAt := Some (now e)\<rparr>)
       ''identity.user_disabled'' reason audit s = (Inr (Done v), s')"
    using assms by (auto simp: disableUserAndAudit_def split: if_splits sum.splits list.splits)
  then have "memberships_mutated e i
      (\<lambda>u. u\<lparr>u_authenticationEpoch := u_authenticationEpoch m + 1, u_disabledAt := Some (now e)\<rparr>) s s'"
    by (intro mutate_all_memberships_Done) (simp_all add: ms [symmetric], simp add: ms)
  then show "\<exists>epoch. memberships_mutated e i
      (\<lambda>u. u\<lparr>u_authenticationEpoch := epoch, u_disabledAt := Some (now e)\<rparr>) s s'"
    by blast
  show "x \<in> set (memberships_of s i) \<Longrightarrow> u_disabledAt x = None \<Longrightarrow> u_role x = OWNER \<Longrightarrow>
      hasOtherActiveOwner s (u_organizationId x) i"
    using owners ms by (auto simp: list_ex_iff)
qed

lemma disableUser_unchanged:
  assumes "disableUserAndAudit e i audit s = (res, s')"
  shows "(\<exists>v. res = Inr (Done v)) \<or> s' = s"
  using assms
  by (auto simp: disableUserAndAudit_def dest: mutate_all_memberships_unchanged
      split: if_splits sum.splits list.splits)

interpretation disable_user:
  audited_operation "disableUserAndAudit e i audit" for e i audit
proof unfold_locales
  fix s s' res
  assume op: "disableUserAndAudit e i audit s = (res, s')"
  from disableUser_unchanged [OF op] show "\<exists>rs. auditRecords s' = auditRecords s @ rs"
    using op by (auto dest!: disableUser_Done(1) simp: memberships_mutated_def)
next
  fix s s' v
  assume "disableUserAndAudit e i audit s = (Inr (Done v), s')"
  then show "auditRecords s' \<noteq> auditRecords s"
    by (auto dest!: disableUser_Done(1) simp: memberships_mutated_def)
qed (auto dest: disableUser_unchanged)

subsection \<open>Roles and memberships\<close>

definition membership_mutated ::
  "env \<Rightarrow> string \<Rightarrow> string \<Rightarrow> (session_user list \<Rightarrow> session_user list) \<Rightarrow> store \<Rightarrow> store \<Rightarrow> bool" where
  "membership_mutated e org i f s s' \<longleftrightarrow> (\<exists>r.
     s' = (revokePendingIssuerGrants i [org] (now e) s)
       \<lparr>users := f (users s),
        userSessions := revoke_sessions (now e)
          (\<lambda>c. us_userId c = i \<and> us_organizationId c = org) (userSessions s),
        auditRecords := auditRecords s @ [r]\<rparr>)"

lemma users_sessions_commute:
  "s\<lparr>userSessions := a, users := b\<rparr> = s\<lparr>users := b, userSessions := a\<rparr>"
  by simp

lemma changeMembershipRole_cases:
  assumes "changeMembershipRoleAndAudit e org i role audit s = (res, s')"
  shows "s' = s \<and> (\<forall>v. res \<noteq> Inr (Done v)) \<or>
    (\<exists>m. List.find (is_membership org i) (users s) = Some m \<and> res = Inr (Done ()) \<and>
      (u_role m = OWNER \<and> role \<noteq> OWNER \<and> u_disabledAt m = None \<longrightarrow> hasOtherActiveOwner s org i) \<and>
      membership_mutated e org i (update_where (is_membership org i)
        (\<lambda>u. u\<lparr>u_role := role, u_authorizationEpoch := u_authorizationEpoch u + 1\<rparr>)) s s')"
  using assms
  by (auto simp: changeMembershipRoleAndAudit_def membership_mutated_def Let_def
      split: sum.splits option.splits if_splits with_audit_splits)

lemma removeMembership_cases:
  assumes "removeMembershipAndAudit e org i audit s = (res, s')"
  shows "s' = s \<and> (\<forall>v. res \<noteq> Inr (Done v)) \<or>
    (\<exists>m. List.find (is_membership org i) (users s) = Some m \<and> res = Inr (Done ()) \<and>
      (u_role m = OWNER \<and> u_disabledAt m = None \<longrightarrow> hasOtherActiveOwner s org i) \<and>
      membership_mutated e org i (filter (\<lambda>u. \<not> is_membership org i u)) s s')"
  using assms
  by (auto simp: removeMembershipAndAudit_def membership_mutated_def Let_def users_sessions_commute
      split: sum.splits option.splits if_splits with_audit_splits)

lemma membership_mutated_log: "membership_mutated e org i f s s' \<Longrightarrow>
    \<exists>r. auditRecords s' = auditRecords s @ [r]"
  by (auto simp: membership_mutated_def)

interpretation change_role:
  audited_operation "changeMembershipRoleAndAudit e org i role audit" for e org i role audit
  by unfold_locales
    (fastforce dest: changeMembershipRole_cases membership_mutated_log)+

interpretation remove_membership:
  audited_operation "removeMembershipAndAudit e org i audit" for e org i audit
  by unfold_locales
    (fastforce dest: removeMembership_cases membership_mutated_log)+

subsection \<open>The bootstrap rotation\<close>

definition rotated_store ::
  "env \<Rightarrow> string \<Rightarrow> string list \<Rightarrow> int \<Rightarrow> string \<Rightarrow> store \<Rightarrow> store" where
  "rotated_store e i orgs epoch hash s =
     (revokePendingIssuerGrants i orgs (now e) s)
       \<lparr>users := update_where (\<lambda>u. u_id u = i)
          (\<lambda>u. u\<lparr>u_bootstrapPasswordExpiresAt := None, u_passwordHash := hash,
                 u_authenticationEpoch := epoch\<rparr>) (users s),
        userSessions := revoke_sessions (now e) (\<lambda>c. us_userId c = i) (userSessions s)\<rparr>"

lemma rotateBootstrap_cases:
  assumes "rotateBootstrapPasswordAndAudit e i org input audit s = (res, s')"
  shows "s' = s \<and> (\<forall>v. res \<noteq> Inr (Done v)) \<or>
    (\<exists>orgs epoch. s' = rotated_store e i orgs epoch (bi_passwordHash input) s) \<or>
    (\<exists>orgs epoch rs. s' = (rotated_store e i orgs epoch (bi_passwordHash input) s)
       \<lparr>auditRecords := auditRecords s @ rs\<rparr>)"
  using assms
  by (auto simp: rotateBootstrapPasswordAndAudit_def rotated_store_def Let_def
      split: sum.splits option.splits if_splits) 

interpretation rotate_bootstrap:
  logged_operation "rotateBootstrapPasswordAndAudit e i org input audit" for e i org input audit
proof unfold_locales
  fix s s' res
  assume "rotateBootstrapPasswordAndAudit e i org input audit s = (res, s')"
  from rotateBootstrap_cases [OF this] show "\<exists>rs. auditRecords s' = auditRecords s @ rs"
    by (auto simp: rotated_store_def)
qed

subsection \<open>Sessions\<close>

text \<open>A session that was issued is found again while its token is not used twice.\<close>

lemma findSessionUser_SomeD:
  "findSessionUser s i org = Some u \<Longrightarrow>
    u \<in> set (users s) \<and> u_id u = i \<and> u_organizationId u = org \<and> u_disabledAt u = None"
  unfolding findSessionUser_def by (auto dest: find_SomeD)

lemma createUserSession_Done:
  assumes "createUserSessionAndAudit e org input audit s = (Inr (Done session), s')"
  obtains user expiresAt r where "findSessionUser s (ac_actorUserId audit) org = Some user"
    "si_expiresAt input = Some expiresAt"
    "\<not> session_refused user input (or_default (si_purpose input) FULL) (now e)"
    "session = \<lparr>us_id = new_id e 0, us_organizationId = org, us_userId = u_id user,
       us_tokenHash = si_tokenHash input, us_authenticationEpoch = u_authenticationEpoch user,
       us_authorizationEpoch = u_authorizationEpoch user,
       us_purpose = Some (or_default (si_purpose input) FULL), us_expiresAt = expiresAt,
       us_revokedAt = None, us_createdAt = now e\<rparr>"
    "s' = s\<lparr>userSessions := filter (\<lambda>c. us_expiresAt c > now e) (userSessions s) @ [session],
            auditRecords := auditRecords s @ [r]\<rparr>"
  using assms
  by (auto simp: createUserSessionAndAudit_def Let_def
      split: option.splits if_splits with_audit_splits)

lemma find_filter_append_singleton:
  "\<lbrakk>\<forall>c \<in> set xs. \<not> P c; P x\<rbrakk> \<Longrightarrow> List.find P (filter Q xs @ [x]) = Some x"
  by (induction xs) auto

lemma session_usable:
  assumes "createUserSessionAndAudit e org input audit s = (Inr (Done session), s')"
    and fresh: "\<forall>c \<in> set (userSessions s). us_tokenHash c \<noteq> si_tokenHash input"
  shows "\<exists>user. findActiveUserSession e s' (us_userId session) org (si_tokenHash input) =
      Some (user, or_default (si_purpose input) FULL) \<and> u_id user = ac_actorUserId audit \<and>
      u_role user = si_expectedRole input"
  using assms(1)
proof (rule createUserSession_Done)
  fix user expiresAt r
  assume user: "findSessionUser s (ac_actorUserId audit) org = Some user"
    and exp: "si_expiresAt input = Some expiresAt"
    and ok: "\<not> session_refused user input (or_default (si_purpose input) FULL) (now e)"
    and ses: "session = \<lparr>us_id = new_id e 0, us_organizationId = org, us_userId = u_id user,
       us_tokenHash = si_tokenHash input, us_authenticationEpoch = u_authenticationEpoch user,
       us_authorizationEpoch = u_authorizationEpoch user,
       us_purpose = Some (or_default (si_purpose input) FULL), us_expiresAt = expiresAt,
       us_revokedAt = None, us_createdAt = now e\<rparr>"
    and s': "s' = s\<lparr>userSessions := filter (\<lambda>c. us_expiresAt c > now e) (userSessions s) @ [session],
            auditRecords := auditRecords s @ [r]\<rparr>"
  from ok exp have late: "expiresAt > now e" by (auto simp: session_refused_def)
  have found: "List.find (live_session (now e) (u_id user) org (si_tokenHash input))
      (userSessions s') = Some session"
    unfolding s' using fresh late
    by (simp add: find_filter_append_singleton live_session_def ses)
  have same: "findSessionUser s' (u_id user) org = Some user"
    using user findSessionUser_SomeD [OF user] by (simp add: s' findSessionUser_def)
  have "findActiveUserSession e s' (us_userId session) org (si_tokenHash input) =
      Some (user, or_default (si_purpose input) FULL)"
    using found same ok exp late
    by (cases "or_default (si_purpose input) FULL"; cases "si_expectedBootstrapPasswordExpiresAt input")
      (auto simp: findActiveUserSession_def ses session_refused_def)
  moreover have "u_role user = si_expectedRole input" using ok by (auto simp: session_refused_def)
  ultimately show ?thesis using findSessionUser_SomeD [OF user] by blast
qed

text \<open>Revoked sessions authenticate nobody, at any later clock.\<close>

lemma revoke_sessions_none:
  assumes "\<And>c. us_userId c = i \<and> us_organizationId c = org \<Longrightarrow> P c"
  shows "List.find (live_session t' i org token) (revoke_sessions t P cs) = None"
  unfolding find_None_all revoke_sessions_def
  by (auto simp: set_update_where live_session_def assms)

lemma no_active_session:
  assumes "userSessions s' = revoke_sessions t P cs"
    and "\<And>c. us_userId c = i \<and> us_organizationId c = org \<Longrightarrow> P c"
  shows "findActiveUserSession e' s' i org token = None"
  unfolding findActiveUserSession_def assms(1) using revoke_sessions_none [of i org P] assms(2)
  by simp

lemma memberships_mutated_sessions:
  "memberships_mutated e i f s s' \<Longrightarrow> findActiveUserSession e' s' i org token = None"
  by (auto simp: memberships_mutated_def intro: no_active_session)

lemma membership_mutated_sessions:
  "membership_mutated e org i f s s' \<Longrightarrow> findActiveUserSession e' s' i org token = None"
  by (auto simp: membership_mutated_def intro: no_active_session)

lemma rotated_store_sessions:
  "findActiveUserSession e' ((rotated_store e i orgs epoch hash s)\<lparr>auditRecords := rs\<rparr>) i org token
     = None"
  "findActiveUserSession e' (rotated_store e i orgs epoch hash s) i org token = None"
  by (auto simp: rotated_store_def intro: no_active_session)

text \<open>Nor does a pending grant of the user survive in the organizations concerned.\<close>

definition grants_pending_for :: "store \<Rightarrow> string \<Rightarrow> string \<Rightarrow> pairing list" where
  "grants_pending_for s org i = filter (issuer_grant i [org]) (pairings s)"

lemma revokePendingIssuerGrants_none:
  "org \<in> set orgs \<Longrightarrow> grants_pending_for (revokePendingIssuerGrants i orgs t s) org i = []"
  by (auto simp: grants_pending_for_def revokePendingIssuerGrants_def filter_empty_conv
      set_update_where issuer_grant_def)

lemma membership_mutated_grants:
  "membership_mutated e org i f s s' \<Longrightarrow> grants_pending_for s' org i = []"
  using revokePendingIssuerGrants_none [of org "[org]" i "now e" s]
  by (auto simp: membership_mutated_def grants_pending_for_def)

lemma organization_ids_of: "u \<in> set ms \<Longrightarrow> u_organizationId u \<in> set (organization_ids ms)"
  by (auto simp: organization_ids_def)

lemma memberships_mutated_grants:
  assumes "memberships_mutated e i f s s'" "u \<in> set (memberships_of s i)"
  shows "grants_pending_for s' (u_organizationId u) i = []"
  using revokePendingIssuerGrants_none [OF organization_ids_of [OF assms(2)], of i "now e" s] assms(1)
  by (auto simp: memberships_mutated_def grants_pending_for_def)

subsection \<open>Owner continuity\<close>

definition active_owner :: "string \<Rightarrow> session_user \<Rightarrow> bool" where
  "active_owner org u \<longleftrightarrow> u_organizationId u = org \<and> u_role u = OWNER \<and> u_disabledAt u = None"

definition owned :: "store \<Rightarrow> string \<Rightarrow> bool" where
  "owned s org \<longleftrightarrow> (\<exists>u \<in> set (users s). active_owner org u)"

lemma hasOtherActiveOwner_iff:
  "hasOtherActiveOwner s org i \<longleftrightarrow> (\<exists>u \<in> set (users s). active_owner org u \<and> u_id u \<noteq> i)"
  by (auto simp: hasOtherActiveOwner_def active_owner_def list_ex_iff)

lemma owned_by_other:
  assumes "hasOtherActiveOwner s org i"
    and "\<And>u. u \<in> set (users s) \<Longrightarrow> u_id u \<noteq> i \<Longrightarrow> u \<in> set (users s')"
  shows "owned s' org"
  using assms by (auto simp: hasOtherActiveOwner_iff owned_def)

lemma update_where_other: "u \<in> set xs \<Longrightarrow> \<not> P u \<Longrightarrow> u \<in> set (update_where P f xs)"
  by (force simp: set_update_where)

lemma owned_disable:
  assumes "disableUserAndAudit e i audit s = (Inr (Done v), s')" "owned s org"
  shows "owned s' org"
proof -
  obtain epoch where m: "memberships_mutated e i
      (\<lambda>u. u\<lparr>u_authenticationEpoch := epoch, u_disabledAt := Some (now e)\<rparr>) s s'"
    using disableUser_Done(1) [OF assms(1)] by blast
  then have users: "users s' = update_where (\<lambda>u. u_id u = i)
      (\<lambda>u. u\<lparr>u_authenticationEpoch := epoch, u_disabledAt := Some (now e)\<rparr>) (users s)"
    by (auto simp: memberships_mutated_def)
  have keep: "u \<in> set (users s')" if "u \<in> set (users s)" "u_id u \<noteq> i" for u
    unfolding users using that by (rule update_where_other)
  obtain u where u: "u \<in> set (users s)" "active_owner org u" using assms(2) by (auto simp: owned_def)
  show ?thesis
  proof (cases "u_id u = i")
    case True
    with u have "hasOtherActiveOwner s org i"
      using disableUser_Done(2) [OF assms(1), of u] by (auto simp: memberships_of_def active_owner_def)
    then show ?thesis using keep by (rule owned_by_other)
  next
    case False
    with u keep show ?thesis by (auto simp: owned_def)
  qed
qed

text \<open>One record per user and organization, as the database's key makes it.\<close>

definition memberships_unique :: "store \<Rightarrow> bool" where
  "memberships_unique s \<longleftrightarrow> distinct (map (\<lambda>u. (u_organizationId u, u_id u)) (users s))"

lemma find_membership:
  assumes "memberships_unique s" "u \<in> set (users s)" "is_membership org i u"
  shows "List.find (is_membership org i) (users s) = Some u"
  using assms unfolding memberships_unique_def
  by (intro find_unique_key [where k = "\<lambda>u. (u_organizationId u, u_id u)"])
    (auto simp: is_membership_def)

lemma owned_change_membership:
  assumes m: "membership_mutated e org' i f s s'"
    and other: "\<And>u. u \<in> set (users s) \<Longrightarrow> \<not> is_membership org' i u \<Longrightarrow> u \<in> set (f (users s))"
    and owner: "\<And>u. u \<in> set (users s) \<Longrightarrow> is_membership org' i u \<Longrightarrow> active_owner org' u \<Longrightarrow>
      hasOtherActiveOwner s org' i \<or> (\<exists>u' \<in> set (f (users s)). active_owner org' u')"
    and "owned s org"
  shows "owned s' org"
proof -
  have users: "users s' = f (users s)" using m by (auto simp: membership_mutated_def)
  obtain u where u: "u \<in> set (users s)" "active_owner org u" using assms(4) by (auto simp: owned_def)
  show ?thesis
  proof (cases "is_membership org' i u")
    case True
    with u have org: "org = org'" by (auto simp: is_membership_def active_owner_def)
    from owner [OF u(1) True] u(2) org consider "hasOtherActiveOwner s org' i"
      | "\<exists>u' \<in> set (f (users s)). active_owner org' u'" by blast
    then show ?thesis
    proof cases
      case 1
      then show ?thesis unfolding org using other
        by (intro owned_by_other) (auto simp: users is_membership_def)
    next
      case 2
      then show ?thesis by (simp add: owned_def users org)
    qed
  next
    case False
    with u other show ?thesis by (auto simp: owned_def users)
  qed
qed

lemma owned_change_role:
  assumes "changeMembershipRoleAndAudit e org' i role audit s = (Inr (Done v), s')"
    and "memberships_unique s" "owned s org"
  shows "owned s' org"
proof -
  let ?f = "update_where (is_membership org' i)
        (\<lambda>u. u\<lparr>u_role := role, u_authorizationEpoch := u_authorizationEpoch u + 1\<rparr>)"
  from changeMembershipRole_cases [OF assms(1)] obtain m where
    found: "List.find (is_membership org' i) (users s) = Some m" and
    guard: "u_role m = OWNER \<and> role \<noteq> OWNER \<and> u_disabledAt m = None \<longrightarrow> hasOtherActiveOwner s org' i" and
    mut: "membership_mutated e org' i ?f s s'"
    by auto
  show ?thesis using mut
  proof (rule owned_change_membership)
    fix u assume u: "u \<in> set (users s)" "is_membership org' i u" "active_owner org' u"
    then have m: "m = u" using find_membership [OF assms(2) u(1,2)] found by simp
    show "hasOtherActiveOwner s org' i \<or> (\<exists>u' \<in> set (?f (users s)). active_owner org' u')"
    proof (cases "role = OWNER")
      case True
      with u show ?thesis
        by (intro disjI2 bexI [of _ "u\<lparr>u_role := role,
              u_authorizationEpoch := u_authorizationEpoch u + 1\<rparr>"])
          (auto simp: active_owner_def set_update_where)
    next
      case False
      with guard u(3) m show ?thesis by (auto simp: active_owner_def)
    qed
  qed (auto intro: update_where_other assms(3))
qed

lemma owned_remove_membership:
  assumes "removeMembershipAndAudit e org' i audit s = (Inr (Done v), s')"
    and "memberships_unique s" "owned s org"
  shows "owned s' org"
proof -
  from removeMembership_cases [OF assms(1)] obtain m where
    found: "List.find (is_membership org' i) (users s) = Some m" and
    guard: "u_role m = OWNER \<and> u_disabledAt m = None \<longrightarrow> hasOtherActiveOwner s org' i" and
    mut: "membership_mutated e org' i (filter (\<lambda>u. \<not> is_membership org' i u)) s s'"
    by auto
  show ?thesis using mut
  proof (rule owned_change_membership)
    fix u assume u: "u \<in> set (users s)" "is_membership org' i u" "active_owner org' u"
    then have "m = u" using find_membership [OF assms(2) u(1,2)] found by simp
    with guard u(3) show "hasOtherActiveOwner s org' i \<or>
        (\<exists>u' \<in> set (filter (\<lambda>u. \<not> is_membership org' i u) (users s)). active_owner org' u')"
      by (auto simp: active_owner_def)
  qed (auto intro: assms(3))
qed

subsection \<open>Login failures\<close>

lemma length_slice_last: "length (slice_last n xs) \<le> n"
  by (simp add: slice_last_def)

lemma recordLoginFailure_bounded:
  assumes "recordLoginFailure e input s = (res, s')"
    and "length (loginFailures s) \<le> LOGIN_FAILURE_MAX_RECORDS"
  shows "length (loginFailures s') \<le> LOGIN_FAILURE_MAX_RECORDS"
  using assms
  by (auto simp: recordLoginFailure_def Let_def LOGIN_FAILURE_MAX_RECORDS_def length_slice_last
      split: if_splits)

section \<open>Steps\<close>

text \<open>The operations of this component that a request or a recovery command can run.\<close>

inductive identity_step :: "env \<Rightarrow> store \<Rightarrow> store \<Rightarrow> bool" for e s where
  login_failed: "recordLoginFailure e input s = (res, s') \<Longrightarrow> identity_step e s s'"
| session_created: "createUserSessionAndAudit e org sinput audit s = (sres, s') \<Longrightarrow> identity_step e s s'"
| session_revoked: "revokeUserSessionAndAudit e i org token audit s = (ures, s') \<Longrightarrow> identity_step e s s'"
| bootstrap_rotated:
    "rotateBootstrapPasswordAndAudit e i org binput audit s = (ores, s') \<Longrightarrow> identity_step e s s'"
| password_rotated: "rotateUserPasswordAndAudit e i hash sys s = (ores, s') \<Longrightarrow> identity_step e s s'"
| user_disabled: "disableUserAndAudit e i sys s = (ores, s') \<Longrightarrow> identity_step e s s'"
| role_changed: "changeMembershipRoleAndAudit e org i r sys s = (ures, s') \<Longrightarrow> identity_step e s s'"
| membership_removed: "removeMembershipAndAudit e org i sys s = (ures, s') \<Longrightarrow> identity_step e s s'"

text \<open>The fields the component owns, and what it does to pending grants.\<close>

definition identity_frame :: "store \<Rightarrow> store \<Rightarrow> bool" where
  "identity_frame s s' \<longleftrightarrow>
     s' = s\<lparr>users := users s', userSessions := userSessions s', loginFailures := loginFailures s',
            pairings := pairings s', pairingAttempts := pairingAttempts s',
            auditRecords := auditRecords s'\<rparr>"

lemma identity_frame_refl [simp]: "identity_frame s s"
  by (simp add: identity_frame_def)

lemma identity_frame_fields:
  assumes "identity_frame s s'"
  shows "locations s' = locations s"
    "screens s' = screens s"
    "medias s' = medias s"
    "playlists s' = playlists s"
    "schedules s' = schedules s"
    "releases s' = releases s"
    "releaseAssignments s' = releaseAssignments s"
    "releaseCandidates s' = releaseCandidates s"
    "candidateIdempotency s' = candidateIdempotency s"
    "idempotencyRecords s' = idempotencyRecords s"
    "enrollmentIdempotency s' = enrollmentIdempotency s"
    "emergencies s' = emergencies s"
    "deviceCredentials s' = deviceCredentials s"
    "deviceAuthChallenges s' = deviceAuthChallenges s"
    "usedDeviceKeyIds s' = usedDeviceKeyIds s"
  using arg_cong [OF assms [unfolded identity_frame_def], of locations]
    arg_cong [OF assms [unfolded identity_frame_def], of screens]
    arg_cong [OF assms [unfolded identity_frame_def], of medias]
    arg_cong [OF assms [unfolded identity_frame_def], of playlists]
    arg_cong [OF assms [unfolded identity_frame_def], of schedules]
    arg_cong [OF assms [unfolded identity_frame_def], of releases]
    arg_cong [OF assms [unfolded identity_frame_def], of releaseAssignments]
    arg_cong [OF assms [unfolded identity_frame_def], of releaseCandidates]
    arg_cong [OF assms [unfolded identity_frame_def], of candidateIdempotency]
    arg_cong [OF assms [unfolded identity_frame_def], of idempotencyRecords]
    arg_cong [OF assms [unfolded identity_frame_def], of enrollmentIdempotency]
    arg_cong [OF assms [unfolded identity_frame_def], of emergencies]
    arg_cong [OF assms [unfolded identity_frame_def], of deviceCredentials]
    arg_cong [OF assms [unfolded identity_frame_def], of deviceAuthChallenges]
    arg_cong [OF assms [unfolded identity_frame_def], of usedDeviceKeyIds]
  by simp_all

lemma identity_step_frame:
  assumes "identity_step e s s'"
  shows "identity_frame s s'"
  using assms
proof cases
  case (login_failed input res)
  then show ?thesis
    by (auto simp: recordLoginFailure_def identity_frame_def Let_def split: if_splits)
next
  case (session_created org sinput audit sres)
  then show ?thesis
    by (auto simp: createUserSessionAndAudit_def identity_frame_def Let_def
        split: option.splits if_splits with_audit_splits)
next
  case (session_revoked i org token audit ures)
  then show ?thesis
    by (auto simp: revokeUserSessionAndAudit_def identity_frame_def Let_def
        split: option.splits if_splits with_audit_splits)
next
  case (bootstrap_rotated i org binput audit ores)
  from rotateBootstrap_cases [OF this] show ?thesis
    by (auto simp: rotated_store_def revokePendingIssuerGrants_def identity_frame_def)
next
  case (password_rotated i hash sys ores)
  from rotateUserPassword_unchanged [OF this] password_rotated show ?thesis
    by (auto dest!: rotateUserPassword_Done
        simp: memberships_mutated_def revokePendingIssuerGrants_def identity_frame_def)
next
  case (user_disabled i sys ores)
  from disableUser_unchanged [OF this] user_disabled show ?thesis
    by (auto dest!: disableUser_Done(1)
        simp: memberships_mutated_def revokePendingIssuerGrants_def identity_frame_def)
next
  case (role_changed org i r sys ures)
  from changeMembershipRole_cases [OF this] show ?thesis
    by (auto simp: membership_mutated_def revokePendingIssuerGrants_def identity_frame_def)
next
  case (membership_removed org i sys ures)
  from removeMembership_cases [OF this] show ?thesis
    by (auto simp: membership_mutated_def revokePendingIssuerGrants_def identity_frame_def)
qed

text \<open>A grant that is pending after a step was pending before, unchanged.\<close>

definition pending_from :: "pairing list \<Rightarrow> pairing list \<Rightarrow> bool" where
  "pending_from ps' ps \<longleftrightarrow> (\<forall>p \<in> set ps'. pr_status p = PENDING \<longrightarrow> p \<in> set ps)"

lemma pending_from_refl [simp]: "pending_from ps ps"
  by (simp add: pending_from_def)

lemma pending_from_trans: "pending_from qs ps \<Longrightarrow> pending_from ps os \<Longrightarrow> pending_from qs os"
  by (auto simp: pending_from_def)

lemma pending_from_update_where:
  "(\<And>p. P p \<Longrightarrow> pr_status (f p) \<noteq> PENDING) \<Longrightarrow> pending_from (update_where P f ps) ps"
  by (auto simp: pending_from_def set_update_where)

lemma pending_from_update_first:
  "(\<And>p. pr_status (f p) \<noteq> PENDING) \<Longrightarrow> pending_from (update_first P f ps) ps"
  by (auto simp: pending_from_def elim: in_update_firstE)

lemma pending_from_filter: "pending_from (filter P ps) ps"
  by (auto simp: pending_from_def)

lemmas pending_from_intros = pending_from_update_where pending_from_update_first pending_from_filter

lemma pending_from_issuer [simp]:
  "pending_from (pairings (revokePendingIssuerGrants i orgs t s)) (pairings s)"
  unfolding revokePendingIssuerGrants_def by (simp add: pending_from_update_where)

lemma identity_step_pending:
  assumes "identity_step e s s'"
  shows "pending_from (pairings s') (pairings s)"
  using assms
proof cases
  case (login_failed input res)
  then show ?thesis
    by (auto simp: recordLoginFailure_def Let_def split: if_splits)
next
  case (session_created org sinput audit sres)
  then show ?thesis
    by (auto simp: createUserSessionAndAudit_def Let_def
        split: option.splits if_splits with_audit_splits)
next
  case (session_revoked i org token audit ures)
  then show ?thesis
    by (auto simp: revokeUserSessionAndAudit_def Let_def
        split: option.splits if_splits with_audit_splits)
next
  case (bootstrap_rotated i org binput audit ores)
  from rotateBootstrap_cases [OF this] show ?thesis by (auto simp: rotated_store_def)
next
  case (password_rotated i hash sys ores)
  from rotateUserPassword_unchanged [OF this] password_rotated show ?thesis
    by (auto dest!: rotateUserPassword_Done simp: memberships_mutated_def)
next
  case (user_disabled i sys ores)
  from disableUser_unchanged [OF this] user_disabled show ?thesis
    by (auto dest!: disableUser_Done(1) simp: memberships_mutated_def)
next
  case (role_changed org i r sys ures)
  from changeMembershipRole_cases [OF this] show ?thesis by (auto simp: membership_mutated_def)
next
  case (membership_removed org i sys ures)
  from removeMembership_cases [OF this] show ?thesis by (auto simp: membership_mutated_def)
qed

lemma identity_step_log:
  assumes "identity_step e s s'"
  shows "prefix (auditRecords s) (auditRecords s')"
  using assms
proof cases
  case (login_failed input res)
  then show ?thesis by (auto simp: recordLoginFailure_def Let_def split: if_splits)
qed (rule create_session.audit_prefix revoke_session.audit_prefix rotate_bootstrap.audit_prefix
    rotate_password.audit_prefix disable_user.audit_prefix change_role.audit_prefix
    remove_membership.audit_prefix; assumption)+

end
