(* ===== verification/Screens.thy ===== *)
theory Screens
  imports Identity
begin

text \<open>
  Locations and screens of the store (\<open>memory.ts\<close>, \<open>publicScreen\<close> to \<open>deleteScreenAndAudit\<close>,
  and the heartbeat).  An audited operation checks the actor, then the target, then builds the
  audit record, and only then changes the store.
\<close>

section \<open>Selecting by tenant and identifier\<close>

definition is_location :: "string \<Rightarrow> string \<Rightarrow> location \<Rightarrow> bool" where
  "is_location org i l \<longleftrightarrow> lo_organizationId l = org \<and> lo_id l = i"

definition is_screen :: "string \<Rightarrow> string \<Rightarrow> screen \<Rightarrow> bool" where
  "is_screen org i x \<longleftrightarrow> sc_organizationId x = org \<and> sc_id x = i"

definition publicScreen :: "store \<Rightarrow> screen \<Rightarrow> screen" where
  "publicScreen s x =
     (let location = (if truthy (sc_locationId x) then
            List.find (\<lambda>l. Some (lo_id l) = sc_locationId x \<and>
              lo_organizationId l = sc_organizationId x) (locations s)
          else None)
      in x\<lparr>sc_deviceTokenHash := None, sc_locationName := map_option lo_name location\<rparr>)"

section \<open>Locations\<close>

definition listLocations :: "env \<Rightarrow> store \<Rightarrow> string \<Rightarrow> location list" where
  "listLocations e s org =
     sort_by (\<lambda>a b. localeCompare e (lo_name a) (lo_name b))
       (filter (\<lambda>l. lo_organizationId l = org) (locations s))"

definition createLocationAndAudit ::
  "env \<Rightarrow> string \<Rightarrow> string \<Rightarrow> audit_context \<Rightarrow> store \<Rightarrow> (store, location answer) outcome" where
  "createLocationAndAudit e org name audit s =
     (if activeActor s org (ac_actorUserId audit) [OWNER, ADMIN] = None
      then (Inr (Denied FORBIDDEN), s)
      else if list_ex (\<lambda>l. lo_organizationId l = org \<and> lo_name l = name) (locations s)
      then (Inr (Denied DUPLICATE), s)
      else
        (let l = \<lparr>lo_id = new_id e 0, lo_organizationId = org, lo_name = name,
                  lo_createdAt = now e, lo_updatedAt = now e\<rparr>
         in with_audit e 1
              (user_event org audit ''location.created'' ''location'' (Some (lo_id l))
                 [(js ''name'', jstr name)]) s
              (\<lambda>r. (Inr (Done l), s\<lparr>locations := locations s @ [l],
                                   auditRecords := auditRecords s @ [r]\<rparr>))))"

definition updateLocationAndAudit ::
  "env \<Rightarrow> string \<Rightarrow> string \<Rightarrow> string \<Rightarrow> audit_context \<Rightarrow> store \<Rightarrow> (store, location answer) outcome" where
  "updateLocationAndAudit e org locationId name audit s =
     (if activeActor s org (ac_actorUserId audit) [OWNER, ADMIN] = None
      then (Inr (Denied FORBIDDEN), s)
      else case List.find (is_location org locationId) (locations s) of
        None \<Rightarrow> (Inr (Denied NOT_FOUND), s)
      | Some l \<Rightarrow>
          if list_ex (\<lambda>c. lo_organizationId c = org \<and> lo_id c \<noteq> locationId \<and> lo_name c = name)
               (locations s)
          then (Inr (Denied DUPLICATE), s)
          else with_audit e 0
            (user_event org audit ''location.updated'' ''location'' (Some locationId)
               [(js ''previousName'', jstr (lo_name l)), (js ''name'', jstr name)]) s
            (\<lambda>r. (Inr (Done (l\<lparr>lo_name := name, lo_updatedAt := now e\<rparr>)),
               s\<lparr>locations := update_first (is_location org locationId)
                    (\<lambda>l. l\<lparr>lo_name := name, lo_updatedAt := now e\<rparr>) (locations s),
                 auditRecords := auditRecords s @ [r]\<rparr>)))"

text \<open>\<open>array.splice(index, 1)\<close> at the first match.\<close>

fun remove_first :: "('a \<Rightarrow> bool) \<Rightarrow> 'a list \<Rightarrow> 'a list" where
  "remove_first P [] = []"
| "remove_first P (x # xs) = (if P x then xs else x # remove_first P xs)"

definition deleteLocationAndAudit ::
  "env \<Rightarrow> string \<Rightarrow> string \<Rightarrow> audit_context \<Rightarrow> store \<Rightarrow> (store, unit answer) outcome" where
  "deleteLocationAndAudit e org locationId audit s =
     (if activeActor s org (ac_actorUserId audit) [OWNER, ADMIN] = None
      then (Inr (Denied FORBIDDEN), s)
      else case List.find (is_location org locationId) (locations s) of
        None \<Rightarrow> (Inr (Denied NOT_FOUND), s)
      | Some l \<Rightarrow>
          if list_ex (\<lambda>x. sc_organizationId x = org \<and> sc_locationId x = Some locationId) (screens s)
          then (Inr (Denied IN_USE), s)
          else with_audit e 0
            (user_event org audit ''location.deleted'' ''location'' (Some locationId)
               [(js ''name'', jstr (lo_name l))]) s
            (\<lambda>r. (Inr (Done ()),
               s\<lparr>locations := remove_first (is_location org locationId) (locations s),
                 auditRecords := auditRecords s @ [r]\<rparr>)))"

section \<open>Screens\<close>

definition listScreens :: "store \<Rightarrow> string \<Rightarrow> screen list" where
  "listScreens s org = map (publicScreen s) (filter (\<lambda>x. sc_organizationId x = org) (screens s))"

definition getScreen :: "store \<Rightarrow> string \<Rightarrow> string \<Rightarrow> screen option" where
  "getScreen s org screenId =
     (case map (publicScreen s) (filter (is_screen org screenId) (screens s)) of
        [] \<Rightarrow> None | x # _ \<Rightarrow> Some x)"

text \<open>A screen record before any device is paired with it.\<close>

definition new_screen :: "string \<Rightarrow> string \<Rightarrow> screen_input \<Rightarrow> string list \<Rightarrow> instant \<Rightarrow> screen" where
  "new_screen i org data tags t =
     \<lparr>sc_id = i, sc_organizationId = org, sc_name = mi_name data, sc_location = mi_location data,
      sc_locationId = when_truthy (mi_locationId data), sc_locationName = None,
      sc_status = offline, sc_orientation = mi_orientation data,
      sc_resolution = mi_resolution data, sc_tags = tags, sc_installationId = None,
      sc_deviceTokenHash = None, sc_model = None, sc_osVersion = None, sc_playerVersion = None,
      sc_manifestVersion = None, sc_nowPlayingAssetId = None, sc_uptimeSeconds = None,
      sc_freeStorageBytes = None, sc_networkType = None, sc_lastSeenAt = None,
      sc_credentialRevokedAt = None, sc_credentialGeneration = None, sc_createdAt = t,
      sc_updatedAt = t\<rparr>"

definition createScreen :: "env \<Rightarrow> string \<Rightarrow> screen_input \<Rightarrow> store \<Rightarrow> screen \<times> store" where
  "createScreen e org data s =
     (let x = new_screen (new_id e 0) org data (mi_tags data) (now e)
      in (x, s\<lparr>screens := screens s @ [x]\<rparr>))"

definition known_location :: "store \<Rightarrow> string \<Rightarrow> string option \<Rightarrow> bool" where
  "known_location s org l \<longleftrightarrow>
     \<not> truthy l \<or> list_ex (\<lambda>x. lo_organizationId x = org \<and> Some (lo_id x) = l) (locations s)"

definition createScreenAndAudit ::
  "env \<Rightarrow> string \<Rightarrow> screen_input \<Rightarrow> audit_context \<Rightarrow> store \<Rightarrow> (store, screen answer) outcome" where
  "createScreenAndAudit e org data audit s =
     (if activeActor s org (ac_actorUserId audit) [OWNER, ADMIN] = None
      then (Inr (Denied FORBIDDEN), s)
      else if \<not> known_location s org (mi_locationId data)
      then (Inr (Denied INVALID_LOCATION), s)
      else
        (let x = new_screen (new_id e 0) org data (js_unique (mi_tags data)) (now e)
         in with_audit e 1
              (user_event org audit ''screen.created'' ''screen'' (Some (sc_id x))
                 [(js ''name'', jstr (sc_name x))]) s
              (\<lambda>r. (Inr (Done (publicScreen s x)),
                 s\<lparr>screens := screens s @ [x], auditRecords := auditRecords s @ [r]\<rparr>))))"

text \<open>\<open>Object.assign(screen, changes, tags, {updatedAt})\<close> and the location of the patch.\<close>

definition apply_patch :: "screen_patch \<Rightarrow> string list option \<Rightarrow> instant \<Rightarrow> screen \<Rightarrow> screen" where
  "apply_patch p tags t x =
     x\<lparr>sc_name := or_default (pt_name p) (sc_name x),
       sc_location := or_default (pt_location p) (sc_location x),
       sc_orientation := or_default (pt_orientation p) (sc_orientation x),
       sc_resolution := or_default (pt_resolution p) (sc_resolution x),
       sc_tags := or_default tags (sc_tags x),
       sc_updatedAt := t,
       sc_locationId := (case pt_locationId p of Keep_location \<Rightarrow> sc_locationId x
          | Clear_location \<Rightarrow> None | Set_location l \<Rightarrow> Some l)\<rparr>"

definition updateScreen ::
  "env \<Rightarrow> string \<Rightarrow> string \<Rightarrow> screen_patch \<Rightarrow> store \<Rightarrow> screen option \<times> store" where
  "updateScreen e org screenId data s =
     (case List.find (is_screen org screenId) (screens s) of
        None \<Rightarrow> (None, s)
      | Some x \<Rightarrow>
          (Some (apply_patch data (pt_tags data) (now e) x),
           s\<lparr>screens := update_first (is_screen org screenId)
                (apply_patch data (pt_tags data) (now e)) (screens s)\<rparr>))"

definition patch_location :: "screen_patch \<Rightarrow> string option" where
  "patch_location p = (case pt_locationId p of Set_location l \<Rightarrow> Some l | _ \<Rightarrow> None)"

definition updateScreenAndAudit ::
  "env \<Rightarrow> string \<Rightarrow> string \<Rightarrow> screen_patch \<Rightarrow> audit_context \<Rightarrow> store \<Rightarrow> (store, screen answer) outcome" where
  "updateScreenAndAudit e org screenId data audit s =
     (if activeActor s org (ac_actorUserId audit) [OWNER, ADMIN] = None
      then (Inr (Denied FORBIDDEN), s)
      else case List.find (is_screen org screenId) (screens s) of
        None \<Rightarrow> (Inr (Denied NOT_FOUND), s)
      | Some x \<Rightarrow>
          if \<not> known_location s org (patch_location data) then (Inr (Denied INVALID_LOCATION), s)
          else with_audit e 0
            (user_event org audit ''screen.updated'' ''screen'' (Some screenId) []) s
            (\<lambda>r. (let f = apply_patch data (map_option js_unique (pt_tags data)) (now e);
                      s' = s\<lparr>screens := update_first (is_screen org screenId) f (screens s),
                             auditRecords := auditRecords s @ [r]\<rparr>
                  in (Inr (Done (publicScreen s' (f x))), s'))))"

definition deleteScreen :: "string \<Rightarrow> string \<Rightarrow> store \<Rightarrow> bool \<times> store" where
  "deleteScreen org screenId s =
     (let kept = filter (\<lambda>x. \<not> is_screen org screenId x) (screens s) in
      (length (screens s) \<noteq> length kept,
       s\<lparr>screens := kept,
         deviceCredentials := update_where
           (\<lambda>c. dc_organizationId c = org \<and> dc_screenId c = screenId)
           (\<lambda>c. c\<lparr>dc_detached := True\<rparr>) (deviceCredentials s)\<rparr>))"

text \<open>Consuming the live challenges of a set of credentials.\<close>

definition consume_challenges ::
  "instant \<Rightarrow> string list \<Rightarrow> device_challenge list \<Rightarrow> device_challenge list" where
  "consume_challenges t credentialIds =
     update_where (\<lambda>c. ch_credentialId c \<in> set credentialIds \<and> ch_consumedAt c = None \<and>
         ch_expiresAt c > t)
       (\<lambda>c. c\<lparr>ch_consumedAt := Some t\<rparr>)"

definition credential_of_screen :: "string \<Rightarrow> string \<Rightarrow> device_credential \<Rightarrow> bool" where
  "credential_of_screen org screenId c \<longleftrightarrow> dc_organizationId c = org \<and> dc_screenId c = screenId"

definition pending_for :: "string \<Rightarrow> pairing \<Rightarrow> bool" where
  "pending_for screenId g \<longleftrightarrow> pr_targetScreenId g = Some screenId \<and> pr_status g = PENDING"

definition deleteScreenAndAudit ::
  "env \<Rightarrow> string \<Rightarrow> string \<Rightarrow> audit_context \<Rightarrow> store \<Rightarrow> (store, unit answer) outcome" where
  "deleteScreenAndAudit e org screenId audit s =
     (if adminActor s org (ac_actorUserId audit) = None then (Inr (Denied FORBIDDEN), s)
      else case List.find (is_screen org screenId) (screens s) of
        None \<Rightarrow> (Inr (Denied NOT_FOUND), s)
      | Some x \<Rightarrow> with_audit e 0
          (user_event org audit ''screen.decommissioned'' ''screen'' (Some screenId) []) s
          (\<lambda>r. (Inr (Done ()),
             s\<lparr>deviceCredentials := update_where (credential_of_screen org screenId)
                  (\<lambda>c. c\<lparr>dc_detached := True,
                         dc_revokedAt := assign_if_absent (dc_revokedAt c) (now e)\<rparr>)
                  (deviceCredentials s),
               deviceAuthChallenges := consume_challenges (now e)
                  (map dc_id (filter (credential_of_screen org screenId) (deviceCredentials s)))
                  (deviceAuthChallenges s),
               pairings := update_where (pending_for screenId) (\<lambda>g. g\<lparr>pr_status := REVOKED\<rparr>)
                  (pairings s),
               screens := remove_first (is_screen org screenId) (screens s),
               auditRecords := auditRecords s @ [r]\<rparr>)))"

section \<open>Telemetry\<close>

text \<open>What a heartbeat writes into the screen record.\<close>

definition apply_heartbeat :: "heartbeat_input \<Rightarrow> instant \<Rightarrow> screen \<Rightarrow> screen" where
  "apply_heartbeat data t x =
     x\<lparr>sc_playerVersion := Some (hb_playerVersion data),
       sc_uptimeSeconds := Some (hb_uptimeSeconds data),
       sc_freeStorageBytes := Some (hb_freeStorageBytes data),
       sc_networkType := Some (hb_networkType data), sc_status := online,
       sc_lastSeenAt := Some t, sc_updatedAt := t,
       sc_manifestVersion := hb_manifestVersion data,
       sc_nowPlayingAssetId := hb_nowPlayingAssetId data\<rparr>"

definition heartbeat :: "env \<Rightarrow> string \<Rightarrow> heartbeat_input \<Rightarrow> store \<Rightarrow> screen option \<times> store" where
  "heartbeat e screenId data s =
     (case List.find (\<lambda>x. sc_id x = screenId) (screens s) of
        None \<Rightarrow> (None, s)
      | Some x \<Rightarrow>
          (Some (apply_heartbeat data (now e) x),
           s\<lparr>screens := update_first (\<lambda>x. sc_id x = screenId) (apply_heartbeat data (now e))
                (screens s)\<rparr>))"

text \<open>Taking a screen offline: its telemetry and legacy token are cleared.\<close>

definition clear_telemetry :: "screen \<Rightarrow> screen" where
  "clear_telemetry x =
     x\<lparr>sc_deviceTokenHash := None, sc_status := offline, sc_lastSeenAt := None,
       sc_manifestVersion := None, sc_nowPlayingAssetId := None, sc_uptimeSeconds := None,
       sc_freeStorageBytes := None, sc_networkType := None\<rparr>"

definition authenticateDevice :: "store \<Rightarrow> string \<Rightarrow> screen option" where
  "authenticateDevice s screenId =
     (case List.find (\<lambda>x. sc_id x = screenId \<and> sc_credentialRevokedAt x = None) (screens s) of
        None \<Rightarrow> None
      | Some x \<Rightarrow> if truthy (sc_deviceTokenHash x) then Some x else None)"

section \<open>Facts\<close>

lemmas split_cases = option.splits if_splits sum.splits prod.splits answer.splits with_audit_splits

interpretation create_location:
  audited_operation "createLocationAndAudit e org name audit" for e org name audit
  by unfold_locales (auto simp: createLocationAndAudit_def Let_def split: split_cases)

interpretation update_location:
  audited_operation "updateLocationAndAudit e org i name audit" for e org i name audit
  by unfold_locales (auto simp: updateLocationAndAudit_def split: split_cases)

interpretation delete_location:
  audited_operation "deleteLocationAndAudit e org i audit" for e org i audit
  by unfold_locales (auto simp: deleteLocationAndAudit_def split: split_cases)

interpretation create_screen:
  audited_operation "createScreenAndAudit e org data audit" for e org data audit
  by unfold_locales (auto simp: createScreenAndAudit_def Let_def split: split_cases)

interpretation update_screen:
  audited_operation "updateScreenAndAudit e org i data audit" for e org i data audit
  by unfold_locales (auto simp: updateScreenAndAudit_def Let_def split: split_cases)

interpretation delete_screen:
  audited_operation "deleteScreenAndAudit e org i audit" for e org i audit
  by unfold_locales (auto simp: deleteScreenAndAudit_def split: split_cases)

subsection \<open>Names and references of locations\<close>

text \<open>Two locations of an organization have different names; identifiers are unique.\<close>

definition locations_unique :: "store \<Rightarrow> bool" where
  "locations_unique s \<longleftrightarrow>
     distinct (map (\<lambda>l. (lo_organizationId l, lo_name l)) (locations s)) \<and>
     distinct (map lo_id (locations s))"

text \<open>The location a screen names exists in the screen's organization.\<close>

definition locations_resolve :: "store \<Rightarrow> bool" where
  "locations_resolve s \<longleftrightarrow> (\<forall>x \<in> set (screens s). truthy (sc_locationId x) \<longrightarrow>
     (\<exists>l \<in> set (locations s). lo_organizationId l = sc_organizationId x \<and>
        Some (lo_id l) = sc_locationId x))"

lemma update_first_distinct:
  assumes "distinct (map k xs)"
    and "\<And>x. List.find P xs = Some x \<Longrightarrow> \<forall>y \<in> set xs. k y = k (f x) \<longrightarrow> \<not> (y \<noteq> x)"
  shows "distinct (map k (update_first P f xs))"
  using assms
proof (induction xs)
  case Nil
  then show ?case by simp
next
  case (Cons x xs)
  have keys: "k ` set (update_first P f xs) \<subseteq> k ` set xs \<union> {k (f y) | y. List.find P xs = Some y}"
    by (auto elim!: in_update_firstE)
  show ?case
  proof (cases "P x")
    case True
    with Cons.prems show ?thesis by (auto simp: image_iff)
  next
    case False
    have "k x \<noteq> k (f y)" if "List.find P xs = Some y" for y
      using Cons.prems(2) [of y] Cons.prems(1) that False find_SomeD [OF that] by (auto simp: image_iff)
    with False Cons keys show ?thesis by (auto simp: image_iff)
  qed
qed

lemma updateLocation_unique:
  assumes "updateLocationAndAudit e org i name audit s = (res, s')" "locations_unique s"
  shows "locations_unique s'"
proof -
  let ?f = "\<lambda>l. l\<lparr>lo_name := name, lo_updatedAt := now e\<rparr>"
  have "distinct (map (\<lambda>l. (lo_organizationId l, lo_name l)) (update_first (is_location org i) ?f (locations s)))"
    if free: "\<not> list_ex (\<lambda>c. lo_organizationId c = org \<and> lo_id c \<noteq> i \<and> lo_name c = name) (locations s)"
  proof (rule update_first_distinct)
    fix l assume "List.find (is_location org i) (locations s) = Some l"
    then have l: "l \<in> set (locations s)" "lo_organizationId l = org" "lo_id l = i"
      by (auto dest: find_SomeD simp: is_location_def)
    show "\<forall>y \<in> set (locations s).
        (lo_organizationId y, lo_name y) = (lo_organizationId (?f l), lo_name (?f l)) \<longrightarrow> \<not> y \<noteq> l"
      using free l assms(2) by (auto simp: list_ex_iff locations_unique_def dest: distinct_key_inj)
  qed (use assms(2) in \<open>simp add: locations_unique_def\<close>)
  moreover have "map lo_id (update_first (is_location org i) ?f (locations s)) = map lo_id (locations s)"
    by (simp add: list_updates)
  ultimately show ?thesis using assms
    by (auto simp: updateLocationAndAudit_def locations_unique_def split: split_cases)
qed

lemma in_remove_first: "x \<in> set (remove_first P xs) \<Longrightarrow> x \<in> set xs"
  by (induction xs) (auto split: if_splits)

lemma distinct_map_remove_first: "distinct (map k xs) \<Longrightarrow> distinct (map k (remove_first P xs))"
  by (induction xs) (auto dest: in_remove_first)

lemma remove_first_other: "x \<in> set xs \<Longrightarrow> \<not> P x \<Longrightarrow> x \<in> set (remove_first P xs)"
  by (induction xs) auto

text \<open>What the location of a screen refers to, as a relation between the two lists.\<close>

definition resolves :: "location list \<Rightarrow> screen \<Rightarrow> bool" where
  "resolves ls x \<longleftrightarrow> (truthy (sc_locationId x) \<longrightarrow>
     (\<exists>l \<in> set ls. lo_organizationId l = sc_organizationId x \<and> Some (lo_id l) = sc_locationId x))"

lemma locations_resolve_iff: "locations_resolve s \<longleftrightarrow> (\<forall>x \<in> set (screens s). resolves (locations s) x)"
  by (simp add: locations_resolve_def resolves_def)

lemma resolves_append: "resolves ls x \<Longrightarrow> resolves (ls @ ms) x"
  by (auto simp: resolves_def)

lemma resolves_update_location:
  assumes "resolves ls x" "\<And>l. lo_id (f l) = lo_id l \<and> lo_organizationId (f l) = lo_organizationId l"
  shows "resolves (update_first P f ls) x"
proof -
  have "map (\<lambda>l. (lo_organizationId l, lo_id l)) (update_first P f ls) =
      map (\<lambda>l. (lo_organizationId l, lo_id l)) ls"
    by (rule map_update_first) (simp add: assms(2))
  then have keys: "(\<lambda>l. (lo_organizationId l, lo_id l)) ` set (update_first P f ls) =
      (\<lambda>l. (lo_organizationId l, lo_id l)) ` set ls"
    by (metis list.set_map)
  have "resolves ls' x \<longleftrightarrow> (truthy (sc_locationId x) \<longrightarrow> (sc_organizationId x, the (sc_locationId x)) \<in>
      (\<lambda>l. (lo_organizationId l, lo_id l)) ` set ls')" for ls'
    by (cases "sc_locationId x") (simp_all add: resolves_def image_iff, metis)
  with keys assms(1) show ?thesis by simp
qed

lemma resolves_delete_location:
  assumes "resolves ls x" "\<not> (sc_organizationId x = org \<and> sc_locationId x = Some i)"
  shows "resolves (remove_first (is_location org i) ls) x"
  unfolding resolves_def
proof
  assume "truthy (sc_locationId x)"
  with assms(1) obtain l where l: "l \<in> set ls" "lo_organizationId l = sc_organizationId x"
    "Some (lo_id l) = sc_locationId x" unfolding resolves_def by blast
  with assms(2) have "\<not> is_location org i l" by (auto simp: is_location_def)
  with l show "\<exists>l \<in> set (remove_first (is_location org i) ls).
      lo_organizationId l = sc_organizationId x \<and> Some (lo_id l) = sc_locationId x"
    by (blast intro: remove_first_other)
qed

lemma known_location_resolves:
  "known_location s (sc_organizationId x) (sc_locationId x) \<Longrightarrow> resolves (locations s) x"
  by (auto simp: known_location_def resolves_def list_ex_iff)

lemma known_when_truthy [simp]: "known_location s org (when_truthy l) = known_location s org l"
  by (auto simp: known_location_def when_truthy_def)

section \<open>Steps\<close>

inductive screen_step :: "env \<Rightarrow> store \<Rightarrow> store \<Rightarrow> bool" for e s where
  location_created: "createLocationAndAudit e org name audit s = (lres, s') \<Longrightarrow> screen_step e s s'"
| location_updated: "updateLocationAndAudit e org i name audit s = (lres, s') \<Longrightarrow> screen_step e s s'"
| location_deleted: "deleteLocationAndAudit e org i audit s = (ures, s') \<Longrightarrow> screen_step e s s'"
| screen_created: "createScreenAndAudit e org data audit s = (xres, s') \<Longrightarrow> screen_step e s s'"
| screen_updated: "updateScreenAndAudit e org i patch audit s = (xres, s') \<Longrightarrow> screen_step e s s'"
| screen_deleted: "deleteScreenAndAudit e org i audit s = (ures, s') \<Longrightarrow> screen_step e s s'"
| heartbeat: "heartbeat e i beat s = (hres, s') \<Longrightarrow> screen_step e s s'"

lemmas screen_ops = createLocationAndAudit_def updateLocationAndAudit_def deleteLocationAndAudit_def
  createScreenAndAudit_def updateScreenAndAudit_def deleteScreenAndAudit_def heartbeat_def

definition screen_frame :: "store \<Rightarrow> store \<Rightarrow> bool" where
  "screen_frame s s' \<longleftrightarrow>
     s' = s\<lparr>locations := locations s', screens := screens s', pairings := pairings s',
            deviceCredentials := deviceCredentials s',
            deviceAuthChallenges := deviceAuthChallenges s', auditRecords := auditRecords s'\<rparr>"

lemma screen_frame_fields:
  assumes "screen_frame s s'"
  shows "users s' = users s"
    "userSessions s' = userSessions s"
    "loginFailures s' = loginFailures s"
    "medias s' = medias s"
    "playlists s' = playlists s"
    "schedules s' = schedules s"
    "releases s' = releases s"
    "releaseAssignments s' = releaseAssignments s"
    "releaseCandidates s' = releaseCandidates s"
    "candidateIdempotency s' = candidateIdempotency s"
    "idempotencyRecords s' = idempotencyRecords s"
    "enrollmentIdempotency s' = enrollmentIdempotency s"
    "emergencies s' = emergencies s"
    "pairingAttempts s' = pairingAttempts s"
    "usedDeviceKeyIds s' = usedDeviceKeyIds s"
  using arg_cong [OF assms [unfolded screen_frame_def], of users]
    arg_cong [OF assms [unfolded screen_frame_def], of userSessions]
    arg_cong [OF assms [unfolded screen_frame_def], of loginFailures]
    arg_cong [OF assms [unfolded screen_frame_def], of medias]
    arg_cong [OF assms [unfolded screen_frame_def], of playlists]
    arg_cong [OF assms [unfolded screen_frame_def], of schedules]
    arg_cong [OF assms [unfolded screen_frame_def], of releases]
    arg_cong [OF assms [unfolded screen_frame_def], of releaseAssignments]
    arg_cong [OF assms [unfolded screen_frame_def], of releaseCandidates]
    arg_cong [OF assms [unfolded screen_frame_def], of candidateIdempotency]
    arg_cong [OF assms [unfolded screen_frame_def], of idempotencyRecords]
    arg_cong [OF assms [unfolded screen_frame_def], of enrollmentIdempotency]
    arg_cong [OF assms [unfolded screen_frame_def], of emergencies]
    arg_cong [OF assms [unfolded screen_frame_def], of pairingAttempts]
    arg_cong [OF assms [unfolded screen_frame_def], of usedDeviceKeyIds]
  by simp_all

lemma screen_step_frame: "screen_step e s s' \<Longrightarrow> screen_frame s s'"
  by (induction rule: screen_step.induct)
    (auto simp: screen_ops screen_frame_def Let_def split: split_cases)

lemma screen_step_pending: "screen_step e s s' \<Longrightarrow> pending_from (pairings s') (pairings s)"
  by (induction rule: screen_step.induct)
    (auto simp: screen_ops Let_def pending_from_intros split: split_cases)

lemma screen_step_log: "screen_step e s s' \<Longrightarrow> prefix (auditRecords s) (auditRecords s')"
  by (induction rule: screen_step.induct)
    (auto simp: screen_ops Let_def split: split_cases)


text \<open>No step leaves a screen at a location that does not exist.\<close>

lemma screen_step_resolve:
  assumes "screen_step e s s'" "locations_resolve s"
  shows "locations_resolve s'"
  using assms(1)
proof cases
  case (location_created org name audit lres)
  then show ?thesis using assms(2)
    by (auto simp: createLocationAndAudit_def locations_resolve_iff Let_def split: split_cases
        intro!: resolves_append)
next
  case (location_updated org i name audit lres)
  then show ?thesis using assms(2)
    by (auto simp: updateLocationAndAudit_def locations_resolve_iff split: split_cases
        intro!: resolves_update_location)
next
  case (location_deleted org i audit ures)
  then show ?thesis using assms(2)
    by (auto simp: deleteLocationAndAudit_def locations_resolve_iff list_ex_iff split: split_cases
        intro!: resolves_delete_location)
next
  case (screen_created org data audit xres)
  have "resolves (locations s) (new_screen i org data tags t)"
    if "known_location s org (mi_locationId data)" for i tags t
    using that by (intro known_location_resolves) (simp add: new_screen_def)
  with screen_created assms(2) show ?thesis
    by (auto simp: createScreenAndAudit_def locations_resolve_iff Let_def split: split_cases)
next
  case (screen_updated org i patch audit xres)
  have patched: "resolves (locations s) (apply_patch patch tags t x)"
    if "resolves (locations s) x" "sc_organizationId x = org"
      "known_location s org (patch_location patch)" for x tags t
    using that known_location_resolves [of s "apply_patch patch tags t x"]
    by (cases "pt_locationId patch")
      (auto simp: patch_location_def apply_patch_def resolves_def)
  have "\<forall>y \<in> set (update_first (is_screen org i) (apply_patch patch tags t) (screens s)).
      resolves (locations s) y" if "known_location s org (patch_location patch)" for tags t
    using assms(2) that
    by (auto simp: locations_resolve_iff is_screen_def elim!: in_update_firstE
        dest!: find_SomeD intro: patched)
  with screen_updated assms(2) show ?thesis
    by (auto simp: updateScreenAndAudit_def locations_resolve_iff Let_def split: split_cases)
next
  case (screen_deleted org i audit ures)
  then show ?thesis using assms(2)
    by (auto simp: deleteScreenAndAudit_def locations_resolve_iff split: split_cases
        dest!: in_remove_first)
next
  case (heartbeat i beat hres)
  have "resolves ls (apply_heartbeat beat t x) = resolves ls x" for ls t x
    by (simp add: resolves_def apply_heartbeat_def)
  with heartbeat assms(2) show ?thesis
    by (auto simp: heartbeat_def locations_resolve_iff split: split_cases
        elim!: in_update_firstE dest!: find_SomeD)
qed

end
