(* ===== verification/Pairing.thy ===== *)
theory Pairing
  imports Screens
begin

text \<open>
  Pairing codes and enrollment grants of the store (\<open>memory.ts\<close>,
  \<open>pruneOldDeviceAuthChallenges\<close>, \<open>pruneDeviceEnrollmentAuthority\<close>, and \<open>createPairing\<close> to
  \<open>getReenrollmentStatus\<close>).  A pairing record without a purpose is a plain code; a record with
  a purpose is a grant an administrator issued for one screen, bound to the issuer's membership
  and epochs.
\<close>

section \<open>Bounded maintenance\<close>

text \<open>
  The maintenance loops select the oldest records that qualify, at most a batch.  The selected
  objects are identified by their values.
\<close>

definition by_expiry :: "env \<Rightarrow> ('a \<Rightarrow> instant) \<Rightarrow> ('a \<Rightarrow> string) \<Rightarrow> 'a \<Rightarrow> 'a \<Rightarrow> int" where
  "by_expiry e expiry key a b =
     cmp_or (cmp_instant (expiry a) (expiry b)) (localeCompare e (key a) (key b))"

definition batch :: "('a \<Rightarrow> 'a \<Rightarrow> int) \<Rightarrow> ('a \<Rightarrow> bool) \<Rightarrow> 'a list \<Rightarrow> 'a list" where
  "batch cmp P xs = take DATABASE_MAINTENANCE_BATCH_SIZE (sort_by cmp (filter P xs))"

definition pruneOldDeviceAuthChallenges :: "env \<Rightarrow> store \<Rightarrow> store" where
  "pruneOldDeviceAuthChallenges e s =
     (let cutoff = now e - DEVICE_AUTH_CHALLENGE_RETENTION_MS;
          removable = batch (by_expiry e ch_expiresAt ch_id) (\<lambda>c. ch_expiresAt c \<le> cutoff)
            (deviceAuthChallenges s)
      in if removable = [] then s
         else s\<lparr>deviceAuthChallenges :=
                filter (\<lambda>c. ch_id c \<notin> ch_id ` set removable) (deviceAuthChallenges s)\<rparr>)"

definition compactExpiredIdempotencyResponses :: "env \<Rightarrow> store \<Rightarrow> store" where
  "compactExpiredIdempotencyResponses e s =
     (let old = batch (by_expiry e sg_expiresAt sg_keyHash)
            (\<lambda>r. sg_response r \<noteq> None \<and> sg_expiresAt r \<le> now e) (idempotencyRecords s);
          oldCandidates = batch (by_expiry e ci_expiresAt ci_keyHash)
            (\<lambda>r. ci_response r \<noteq> None \<and> ci_expiresAt r \<le> now e) (candidateIdempotency s)
      in s\<lparr>idempotencyRecords := update_where (\<lambda>r. r \<in> set old) (\<lambda>r. r\<lparr>sg_response := None\<rparr>)
             (idempotencyRecords s),
           candidateIdempotency := update_where (\<lambda>r. r \<in> set oldCandidates)
             (\<lambda>r. r\<lparr>ci_response := None\<rparr>) (candidateIdempotency s)\<rparr>)"

text \<open>The three steps of \<open>pruneDeviceEnrollmentAuthority\<close>: expire, remove, compact.\<close>

definition expire_grants :: "env \<Rightarrow> string \<Rightarrow> pairing list \<Rightarrow> pairing list" where
  "expire_grants e org ps =
     (let due = batch (by_expiry e pr_expiresAt pr_id)
            (\<lambda>g. pr_organizationId g = org \<and> pr_status g = PENDING \<and> pr_expiresAt g \<le> now e) ps
      in update_where (\<lambda>g. g \<in> set due) (\<lambda>g. g\<lparr>pr_status := EXPIRED\<rparr>) ps)"

definition removable_grant_ids :: "env \<Rightarrow> string \<Rightarrow> pairing list \<Rightarrow> string list" where
  "removable_grant_ids e org ps =
     map pr_id (batch (by_expiry e pr_expiresAt pr_id)
       (\<lambda>g. pr_organizationId g = org \<and> pr_status g \<noteq> PENDING \<and>
          pr_expiresAt g \<le> now e - ENROLLMENT_AUTHORITY_RETENTION_MS) ps)"

definition compact_enrollment_responses ::
  "env \<Rightarrow> string \<Rightarrow> string option \<Rightarrow> enrollment_idempotency list \<Rightarrow> enrollment_idempotency list" where
  "compact_enrollment_responses e org preserveKeyHash rs =
     (let old = batch (by_expiry e eg_expiresAt eg_keyHash)
            (\<lambda>r. eg_organizationId r = org \<and> Some (eg_keyHash r) \<noteq> preserveKeyHash \<and>
               eg_response r \<noteq> None \<and> eg_expiresAt r \<le> now e) rs
      in update_where (\<lambda>r. r \<in> set old) (\<lambda>r. r\<lparr>eg_response := None\<rparr>) rs)"

definition pruneDeviceEnrollmentAuthority ::
  "env \<Rightarrow> string \<Rightarrow> string option \<Rightarrow> store \<Rightarrow> store" where
  "pruneDeviceEnrollmentAuthority e org preserveKeyHash s =
     (let ps = expire_grants e org (pairings s);
          removed = removable_grant_ids e org ps
      in s\<lparr>pairings := filter (\<lambda>g. pr_id g \<notin> set removed) ps,
           pairingAttempts := filter (\<lambda>a. pa_pairingCodeId a \<notin> set removed) (pairingAttempts s),
           enrollmentIdempotency := compact_enrollment_responses e org preserveKeyHash
             (enrollmentIdempotency s)\<rparr>)"

section \<open>Plain pairing codes\<close>

text \<open>A pairing record with none of the optional fields.\<close>

definition plain_pairing :: "string \<Rightarrow> string \<Rightarrow> string \<Rightarrow> instant \<Rightarrow> pairing" where
  "plain_pairing i org codeHash expiresAt =
     \<lparr>pr_id = i, pr_organizationId = org, pr_codeHash = codeHash, pr_expiresAt = expiresAt,
      pr_claimedAt = None, pr_status = PENDING, pr_screenId = None, pr_purpose = None,
      pr_targetScreenId = None, pr_targetScreenReferenceId = None, pr_expectedGeneration = None,
      pr_authorizedByUserId = None, pr_authorizedByMembershipId = None,
      pr_authorizedByAuthenticationEpoch = None, pr_authorizedByAuthorizationEpoch = None,
      pr_priorCredentialId = None, pr_requestReason = None, pr_createdAt = None\<rparr>"

definition expired_code :: "instant \<Rightarrow> string \<Rightarrow> pairing \<Rightarrow> bool" where
  "expired_code t codeHash g \<longleftrightarrow>
     pr_codeHash g = codeHash \<and> pr_status g = PENDING \<and> pr_expiresAt g \<le> t"

definition live_code :: "instant \<Rightarrow> string \<Rightarrow> pairing \<Rightarrow> bool" where
  "live_code t codeHash g \<longleftrightarrow>
     pr_codeHash g = codeHash \<and> pr_status g = PENDING \<and> pr_expiresAt g > t"

definition tryCreatePairing ::
  "env \<Rightarrow> string \<Rightarrow> string \<Rightarrow> instant \<Rightarrow> store \<Rightarrow> pairing answer \<times> store" where
  "tryCreatePairing e org codeHash expiresAt s =
     (let s1 = s\<lparr>pairings := update_where (expired_code (now e) codeHash)
                 (\<lambda>g. g\<lparr>pr_status := EXPIRED\<rparr>) (pairings s)\<rparr>
      in if list_ex (\<lambda>g. pr_codeHash g = codeHash \<and> pr_status g = PENDING) (pairings s1)
         then (Denied CODE_COLLISION, s1)
         else (let x = plain_pairing (new_id e 0) org codeHash expiresAt
               in (Done x, s1\<lparr>pairings := pairings s1 @ [x]\<rparr>)))"

definition createPairing ::
  "env \<Rightarrow> string \<Rightarrow> string \<Rightarrow> instant \<Rightarrow> store \<Rightarrow> (store, pairing) outcome" where
  "createPairing e org codeHash expiresAt s =
     (case tryCreatePairing e org codeHash expiresAt s of
        (Done x, s') \<Rightarrow> (Inr x, s')
      | (Denied _, s') \<Rightarrow> (Inl (GenericError ''Pairing code collision''), s'))"

definition tryCreatePairingAndAudit ::
  "env \<Rightarrow> string \<Rightarrow> string \<Rightarrow> instant \<Rightarrow> audit_context \<Rightarrow> store \<Rightarrow> (store, pairing answer) outcome" where
  "tryCreatePairingAndAudit e org codeHash expiresAt audit s =
     (if activeActor s org (ac_actorUserId audit) [OWNER, ADMIN] = None
      then (Inr (Denied FORBIDDEN), s)
      else if list_ex (live_code (now e) codeHash) (pairings s)
      then (Inr (Denied CODE_COLLISION), s)
      else
        (let x = plain_pairing (new_id e 0) org codeHash expiresAt
         in with_audit e 1
              (user_event org audit ''pairing.created'' ''pairing'' (Some (pr_id x))
                 [(js ''expiresAt'', jinstant expiresAt)]) s
              (\<lambda>r. (Inr (Done x),
                 s\<lparr>pairings := update_where (expired_code (now e) codeHash)
                      (\<lambda>g. g\<lparr>pr_status := EXPIRED\<rparr>) (pairings s) @ [x],
                   auditRecords := auditRecords s @ [r]\<rparr>))))"

section \<open>Grants\<close>

text \<open>\<open>actor.membershipId ?? `${actor.organizationId}:${actor.id}`\<close>.\<close>

definition membership_key :: "session_user \<Rightarrow> string" where
  "membership_key u = or_default (u_membershipId u) (u_organizationId u @ '':'' @ u_id u)"

text \<open>A grant for one screen, bound to the actor that requests it.\<close>

definition new_grant ::
  "string \<Rightarrow> string \<Rightarrow> string \<Rightarrow> instant \<Rightarrow> pairing_purpose \<Rightarrow> string \<Rightarrow> int \<Rightarrow> session_user \<Rightarrow> string
    \<Rightarrow> instant \<Rightarrow> pairing" where
  "new_grant i org codeHash expiresAt purpose screenId generation actor reason t =
     (plain_pairing i org codeHash expiresAt)
       \<lparr>pr_purpose := Some purpose, pr_targetScreenId := Some screenId,
        pr_targetScreenReferenceId := Some screenId, pr_expectedGeneration := Some generation,
        pr_authorizedByUserId := Some (u_id actor),
        pr_authorizedByMembershipId := Some (membership_key actor),
        pr_authorizedByAuthenticationEpoch := Some (u_authenticationEpoch actor),
        pr_authorizedByAuthorizationEpoch := Some (u_authorizationEpoch actor),
        pr_requestReason := Some reason, pr_createdAt := Some t\<rparr>"

text \<open>Revoking a set of grants together with some of their attempts.\<close>

definition revoke_grants ::
  "(pairing \<Rightarrow> bool) \<Rightarrow> (pairing_attempt \<Rightarrow> bool) \<Rightarrow> (pairing_attempt \<Rightarrow> pairing_attempt) \<Rightarrow> store \<Rightarrow> store" where
  "revoke_grants P Q f s =
     s\<lparr>pairings := update_where P (\<lambda>g. g\<lparr>pr_status := REVOKED\<rparr>) (pairings s),
       pairingAttempts := update_where
         (\<lambda>a. pa_pairingCodeId a \<in> set (map pr_id (filter P (pairings s))) \<and> Q a) f
         (pairingAttempts s)\<rparr>"

definition unbound :: "pairing_attempt \<Rightarrow> bool" where
  "unbound a \<longleftrightarrow> \<not> truthy (pa_boundCredentialId a)"

definition cancel_at :: "instant \<Rightarrow> pairing_attempt \<Rightarrow> pairing_attempt" where
  "cancel_at t a = a\<lparr>pa_cancelledAt := Some t\<rparr>"

definition cancel_if_open :: "instant \<Rightarrow> pairing_attempt \<Rightarrow> pairing_attempt" where
  "cancel_if_open t a = a\<lparr>pa_cancelledAt := assign_if_absent (pa_cancelledAt a) t\<rparr>"

definition attached :: "string \<Rightarrow> string \<Rightarrow> device_credential \<Rightarrow> bool" where
  "attached org screenId c \<longleftrightarrow> credential_of_screen org screenId c \<and> \<not> dc_detached c"

text \<open>Detaching every attached credential of a screen and consuming their live challenges.\<close>

definition detach_credentials :: "instant \<Rightarrow> string \<Rightarrow> string \<Rightarrow> store \<Rightarrow> store" where
  "detach_credentials t org screenId s =
     s\<lparr>deviceCredentials := update_where (attached org screenId)
          (\<lambda>c. c\<lparr>dc_revokedAt := assign_if_absent (dc_revokedAt c) t, dc_detached := True\<rparr>)
          (deviceCredentials s),
       deviceAuthChallenges := consume_challenges t
          (map dc_id (filter (attached org screenId) (deviceCredentials s)))
          (deviceAuthChallenges s)\<rparr>"

text \<open>Taking a screen offline with a given credential generation.\<close>

definition revoke_screen :: "instant \<Rightarrow> int \<Rightarrow> screen \<Rightarrow> screen" where
  "revoke_screen t generation x =
     (clear_telemetry x)\<lparr>sc_credentialRevokedAt := Some t,
                         sc_credentialGeneration := Some generation\<rparr>"

definition generation_of :: "screen \<Rightarrow> int" where
  "generation_of x = or_default (sc_credentialGeneration x) 0"

text \<open>
  What a reenrollment request writes: old grants of the screen are revoked, its credentials
  detached, the screen advances to the grant's generation, the grant is stored.
\<close>

definition grant_reenrollment ::
  "env \<Rightarrow> string \<Rightarrow> string \<Rightarrow> int \<Rightarrow> pairing \<Rightarrow> store \<Rightarrow> store" where
  "grant_reenrollment e org screenId generation grant s =
     (let s1 = pruneDeviceEnrollmentAuthority e org None s;
          s2 = revoke_grants (pending_for screenId) unbound (cancel_at (now e)) s1;
          s3 = detach_credentials (now e) org screenId s2
      in s3\<lparr>screens := update_first (is_screen org screenId)
              (revoke_screen (now e) generation) (screens s3),
            pairings := pairings s3 @ [grant]\<rparr>)"

definition requestScreenReenrollmentAndAudit ::
  "env \<Rightarrow> string \<Rightarrow> string \<Rightarrow> string \<Rightarrow> instant \<Rightarrow> string \<Rightarrow> audit_context \<Rightarrow> store
    \<Rightarrow> (store, pairing answer) outcome" where
  "requestScreenReenrollmentAndAudit e org screenId codeHash expiresAt reason audit s =
     (case adminActor s org (ac_actorUserId audit) of
        None \<Rightarrow> (Inr (Denied FORBIDDEN), s)
      | Some actor \<Rightarrow>
     (case List.find (is_screen org screenId) (screens s) of
        None \<Rightarrow> (Inr (Denied NOT_FOUND), s)
      | Some x \<Rightarrow>
     if list_ex (live_code (now e) codeHash) (pairings s)
     then (Inr (Denied CODE_COLLISION), s)
     else
       (let prior = List.find (attached org screenId) (deviceCredentials s);
            generation = generation_of x + 1;
            grant = (new_grant (new_id e 0) org codeHash expiresAt REENROLL screenId generation
                       actor reason (now e))\<lparr>pr_priorCredentialId := map_option dc_id prior\<rparr>
        in with_audit e 1
             (user_event org audit ''device.reenrollment.requested'' ''screen'' (Some screenId)
                [(js ''grantId'', jstr (pr_id grant)),
                 (js ''expectedGeneration'', JNum generation), (js ''reason'', jstr reason)]) s
             (\<lambda>r. (Inr (Done grant),
                (grant_reenrollment e org screenId generation grant s)
                  \<lparr>auditRecords := auditRecords s @ [r]\<rparr>)))))"

section \<open>Enrollment of a screen that never had a device\<close>

text \<open>The remembered command a key names.\<close>

definition remembered ::
  "enrollment_operation \<Rightarrow> string \<Rightarrow> string \<Rightarrow> store \<Rightarrow> enrollment_idempotency option" where
  "remembered op org keyHash s =
     List.find (\<lambda>r. eg_operation r = op \<and> eg_organizationId r = org \<and> eg_keyHash r = keyHash)
       (enrollmentIdempotency s)"

text \<open>The grant, the counter of its code and whether the answer is a replay.\<close>

definition replay_enrollment_request ::
  "env \<Rightarrow> string \<Rightarrow> string \<Rightarrow> enrollment_idempotency_input \<Rightarrow> enrollment_idempotency \<Rightarrow> store
    \<Rightarrow> (store, (pairing \<times> int \<times> bool) answer) outcome" where
  "replay_enrollment_request e org actorUserId idempotency existing s =
     (if eg_actorUserId existing \<noteq> actorUserId \<or>
        eg_requestDigestSha256 existing \<noteq> ei_requestDigestSha256 idempotency
      then (Inr (Denied IDEMPOTENCY_KEY_REUSED), s)
      else if eg_expiresAt existing \<le> now e then (Inr (Denied IDEMPOTENCY_KEY_EXPIRED), s)
      else case eg_response existing of
        Some (Grant_response grantId codeCounter) \<Rightarrow>
          (case List.find (\<lambda>p. pr_id p = grantId) (pairings s) of
             None \<Rightarrow> (Inr (Denied IDEMPOTENCY_KEY_EXPIRED), s)
           | Some p \<Rightarrow>
               (let s' = pruneDeviceEnrollmentAuthority e org (Some (ei_keyHash idempotency)) s
                in (Inr (Done (or_default (List.find (\<lambda>g. pr_id g = grantId)
                         (expire_grants e org (pairings s))) p, codeCounter, True)), s')))
      | _ \<Rightarrow> (Inr (Denied IDEMPOTENCY_KEY_EXPIRED), s))"

text \<open>A screen is eligible while no device was ever bound to it.\<close>

definition never_enrolled :: "store \<Rightarrow> string \<Rightarrow> screen \<Rightarrow> bool" where
  "never_enrolled s org x \<longleftrightarrow>
     \<not> truthy (sc_installationId x) \<and> \<not> truthy (sc_deviceTokenHash x) \<and>
     \<not> list_ex (credential_of_screen org (sc_id x)) (deviceCredentials s)"

definition pending_new_screen :: "string \<Rightarrow> string \<Rightarrow> pairing \<Rightarrow> bool" where
  "pending_new_screen org screenId g \<longleftrightarrow>
     pr_organizationId g = org \<and> pr_targetScreenId g = Some screenId \<and>
     pr_purpose g = Some NEW_SCREEN \<and> pr_status g = PENDING"

definition remember_enrollment ::
  "env \<Rightarrow> enrollment_operation \<Rightarrow> string \<Rightarrow> string \<Rightarrow> string \<Rightarrow> string \<Rightarrow> enrollment_response \<Rightarrow> store
    \<Rightarrow> store" where
  "remember_enrollment e op org keyHash actorUserId digest response s =
     s\<lparr>enrollmentIdempotency := enrollmentIdempotency s @
         [\<lparr>eg_operation = op, eg_organizationId = org, eg_keyHash = keyHash,
           eg_actorUserId = actorUserId, eg_requestDigestSha256 = digest,
           eg_expiresAt = now e + ENROLLMENT_AUTHORITY_RETENTION_MS,
           eg_response = Some response\<rparr>]\<rparr>"

definition requestScreenEnrollmentAndAudit ::
  "env \<Rightarrow> string \<Rightarrow> string \<Rightarrow> string \<Rightarrow> audit_context \<Rightarrow> enrollment_idempotency_input \<Rightarrow> store
    \<Rightarrow> (store, (pairing \<times> int \<times> bool) answer) outcome" where
  "requestScreenEnrollmentAndAudit e org screenId reason audit idempotency s =
     (case adminActor s org (ac_actorUserId audit) of
        None \<Rightarrow> (Inr (Denied FORBIDDEN), s)
      | Some actor \<Rightarrow>
     (case remembered Enroll_create org (ei_keyHash idempotency) s of
        Some existing \<Rightarrow>
          replay_enrollment_request e org (ac_actorUserId audit) idempotency existing s
      | None \<Rightarrow>
     (case List.find (is_screen org screenId) (screens s) of
        None \<Rightarrow> (Inr (Denied NOT_FOUND), s)
      | Some target \<Rightarrow>
     if generation_of target \<noteq> 0 \<or> \<not> never_enrolled s org target
     then (Inr (Denied SCREEN_NOT_ELIGIBLE), s)
     else
     (case List.find (\<lambda>c. \<not> list_ex (live_code (now e) (cc_codeHash c)) (pairings s))
             (ei_codeCandidates idempotency) of
        None \<Rightarrow> (Inr (Denied CODE_COLLISION), s)
      | Some selected \<Rightarrow>
       (let grant = new_grant (new_id e 0) org (cc_codeHash selected) (now e + 10 * 60000)
              NEW_SCREEN screenId 0 actor reason (now e)
        in with_audit e 1
             (user_event org audit ''device.enrollment.requested'' ''screen'' (Some screenId)
                [(js ''grantId'', jstr (pr_id grant)), (js ''expectedGeneration'', JNum 0),
                 (js ''reason'', jstr reason)]) s
             (\<lambda>r.
               (let s1 = pruneDeviceEnrollmentAuthority e org (Some (ei_keyHash idempotency)) s;
                    s2 = revoke_grants (pending_new_screen org screenId) unbound
                      (cancel_if_open (now e)) s1
                in (Inr (Done (grant, cc_counter selected, False)),
                    remember_enrollment e Enroll_create org (ei_keyHash idempotency) (u_id actor)
                      (ei_requestDigestSha256 idempotency)
                      (Grant_response (pr_id grant) (cc_counter selected))
                      (s2\<lparr>pairings := pairings s2 @ [grant],
                          auditRecords := auditRecords s2 @ [r]\<rparr>)))))))))"

section \<open>The status of a grant\<close>

record grant_status =
  gs_grantId :: string
  gs_screenId :: string
  gs_status :: pairing_status
  gs_expiresAt :: instant
  gs_candidates :: "reenrollment_candidate list"

definition candidate_of_attempt :: "string \<Rightarrow> pairing_attempt \<Rightarrow> reenrollment_candidate" where
  "candidate_of_attempt screenId a =
     \<lparr>rc_id = pa_id a, rc_grantId = pa_pairingCodeId a, rc_screenId = screenId,
      rc_keyId = pa_keyId a, rc_fingerprint = pa_keyId a, rc_securityLevel = pa_securityLevel a,
      rc_installationId = pa_installationId a, rc_model = pa_model a,
      rc_osVersion = pa_osVersion a, rc_playerVersion = pa_playerVersion a,
      rc_provedAt = pa_provedAt a, rc_expiresAt = pa_expiresAt a\<rparr>"

definition proved_attempt :: "string \<Rightarrow> pairing_attempt \<Rightarrow> bool" where
  "proved_attempt grantId a \<longleftrightarrow>
     pa_pairingCodeId a = grantId \<and> pa_provedAt a \<noteq> None \<and> pa_cancelledAt a = None"

definition getReenrollmentStatus ::
  "env \<Rightarrow> store \<Rightarrow> string \<Rightarrow> string \<Rightarrow> string \<Rightarrow> string \<Rightarrow> pairing_purpose \<Rightarrow> grant_status option" where
  "getReenrollmentStatus e s org screenId grantId actorUserId purpose =
     (if adminActor s org actorUserId = None then None
      else case List.find (\<lambda>p. pr_id p = grantId \<and> pr_organizationId p = org \<and>
              pr_targetScreenId p = Some screenId \<and> pr_purpose p = Some purpose) (pairings s) of
        None \<Rightarrow> None
      | Some grant \<Rightarrow>
          Some \<lparr>gs_grantId = grantId, gs_screenId = screenId,
                gs_status = (if pr_status grant = PENDING \<and> pr_expiresAt grant \<le> now e
                             then EXPIRED else pr_status grant),
                gs_expiresAt = pr_expiresAt grant,
                gs_candidates = map (candidate_of_attempt screenId)
                  (filter (proved_attempt grantId) (pairingAttempts s))\<rparr>)"

section \<open>Facts\<close>

subsection \<open>What the helpers leave alone\<close>

lemma prune_authority_frame [simp]:
  "screens (pruneDeviceEnrollmentAuthority e org k s) = screens s"
  "deviceCredentials (pruneDeviceEnrollmentAuthority e org k s) = deviceCredentials s"
  "usedDeviceKeyIds (pruneDeviceEnrollmentAuthority e org k s) = usedDeviceKeyIds s"
  "deviceAuthChallenges (pruneDeviceEnrollmentAuthority e org k s) = deviceAuthChallenges s"
  "auditRecords (pruneDeviceEnrollmentAuthority e org k s) = auditRecords s"
  by (simp_all add: pruneDeviceEnrollmentAuthority_def Let_def)

lemma revoke_grants_frame [simp]:
  "screens (revoke_grants P Q f s) = screens s"
  "deviceCredentials (revoke_grants P Q f s) = deviceCredentials s"
  "usedDeviceKeyIds (revoke_grants P Q f s) = usedDeviceKeyIds s"
  "deviceAuthChallenges (revoke_grants P Q f s) = deviceAuthChallenges s"
  "auditRecords (revoke_grants P Q f s) = auditRecords s"
  "enrollmentIdempotency (revoke_grants P Q f s) = enrollmentIdempotency s"
  by (simp_all add: revoke_grants_def)

lemma detach_credentials_frame [simp]:
  "screens (detach_credentials t org i s) = screens s"
  "usedDeviceKeyIds (detach_credentials t org i s) = usedDeviceKeyIds s"
  "pairings (detach_credentials t org i s) = pairings s"
  "pairingAttempts (detach_credentials t org i s) = pairingAttempts s"
  "auditRecords (detach_credentials t org i s) = auditRecords s"
  by (simp_all add: detach_credentials_def)

lemma remember_enrollment_frame [simp]:
  "screens (remember_enrollment e op org k a d r s) = screens s"
  "deviceCredentials (remember_enrollment e op org k a d r s) = deviceCredentials s"
  "usedDeviceKeyIds (remember_enrollment e op org k a d r s) = usedDeviceKeyIds s"
  "pairings (remember_enrollment e op org k a d r s) = pairings s"
  "auditRecords (remember_enrollment e op org k a d r s) = auditRecords s"
  by (simp_all add: remember_enrollment_def)

lemma expire_grants_pending: "pending_from (expire_grants e org ps) ps"
  by (simp add: expire_grants_def Let_def pending_from_update_where)

lemma prune_authority_pending:
  "pending_from (pairings (pruneDeviceEnrollmentAuthority e org k s)) (pairings s)"
  unfolding pruneDeviceEnrollmentAuthority_def Let_def
  by simp (rule pending_from_trans [OF pending_from_filter expire_grants_pending])

lemma revoke_grants_pending: "pending_from (pairings (revoke_grants P Q f s)) (pairings s)"
  by (simp add: revoke_grants_def pending_from_update_where)

text \<open>After the revocation no pending grant satisfies the condition.\<close>

lemma revoke_grants_none:
  "g \<in> set (pairings (revoke_grants P Q f s)) \<Longrightarrow> pr_status g = PENDING \<Longrightarrow> \<not> P g"
  by (auto simp: revoke_grants_def set_update_where split: if_splits)

subsection \<open>The log\<close>

interpretation create_pairing:
  audited_operation "tryCreatePairingAndAudit e org codeHash expiresAt audit"
  for e org codeHash expiresAt audit
  by unfold_locales (auto simp: tryCreatePairingAndAudit_def Let_def split: split_cases)

lemma request_reenrollment_cases:
  assumes "requestScreenReenrollmentAndAudit e org i codeHash expiresAt reason audit s = (res, s')"
  shows "s' = s \<and> (\<forall>v. res \<noteq> Inr (Done v)) \<or> (\<exists>x grant r. List.find (is_screen org i) (screens s) = Some x \<and>
    pr_targetScreenId grant = Some i \<and> pr_purpose grant = Some REENROLL \<and>
    pr_expectedGeneration grant = Some (generation_of x + 1) \<and> res = Inr (Done grant) \<and>
    s' = (grant_reenrollment e org i (generation_of x + 1) grant s)\<lparr>auditRecords := auditRecords s @ [r]\<rparr>)"
  using assms
  by (auto simp: requestScreenReenrollmentAndAudit_def Let_def new_grant_def split: split_cases)

interpretation request_reenrollment:
  audited_operation "requestScreenReenrollmentAndAudit e org i codeHash expiresAt reason audit"
  for e org i codeHash expiresAt reason audit
  by unfold_locales (auto dest!: request_reenrollment_cases)

lemma replay_enrollment_request_cases:
  assumes "replay_enrollment_request e org actor idem existing s = (res, s')"
  shows "s' = s \<and> (\<exists>d. res = Inr (Denied d)) \<or>
    s' = pruneDeviceEnrollmentAuthority e org (Some (ei_keyHash idem)) s \<and>
    (\<exists>p n. res = Inr (Done (p, n, True)))"
  using assms
  by (auto simp: replay_enrollment_request_def Let_def
      split: if_splits option.splits enrollment_response.splits)

interpretation request_enrollment:
  atomic_operation "requestScreenEnrollmentAndAudit e org i reason audit idem"
  for e org i reason audit idem
  by unfold_locales
    (auto simp: requestScreenEnrollmentAndAudit_def Let_def
      dest!: replay_enrollment_request_cases split: split_cases)

end
