(* ===== verification/Enrollment.thy ===== *)
theory Enrollment
  imports Pairing
begin

text \<open>
  From a proved key to a bound credential (\<open>memory.ts\<close>, \<open>activateReenrollmentCandidateAndAudit\<close>
  to \<open>claimPairingWithCredentialAndAudit\<close>).  The proof verifier of a claim is a parameter; a
  claim is one step of the model, without another operation between the verification and the
  checks that follow it.
\<close>

section \<open>The issuer of a grant\<close>

text \<open>
  The issuer still holds the membership and the epochs the grant was authorized with, in the
  strict form the two activations use.
\<close>

definition find_issuer :: "store \<Rightarrow> string \<Rightarrow> string option \<Rightarrow> session_user option" where
  "find_issuer s org userId =
     List.find (\<lambda>u. Some (u_id u) = userId \<and> u_organizationId u = org \<and> u_disabledAt u = None)
       (users s)"

definition administers :: "session_user \<Rightarrow> bool" where
  "administers u \<longleftrightarrow> u_role u = OWNER \<or> u_role u = ADMIN"

definition issuer_current :: "store \<Rightarrow> string \<Rightarrow> pairing \<Rightarrow> bool" where
  "issuer_current s org grant \<longleftrightarrow>
     (case find_issuer s org (pr_authorizedByUserId grant) of
        None \<Rightarrow> False
      | Some u \<Rightarrow> administers u \<and>
          Some (or_default (u_membershipId u) (org @ '':'' @ u_id u)) =
            pr_authorizedByMembershipId grant \<and>
          Some (u_authenticationEpoch u) = pr_authorizedByAuthenticationEpoch grant \<and>
          Some (u_authorizationEpoch u) = pr_authorizedByAuthorizationEpoch grant)"

section \<open>Activation\<close>

definition key_used :: "store \<Rightarrow> string \<Rightarrow> bool" where
  "key_used s keyId \<longleftrightarrow> list_ex (\<lambda>c. dc_keyId c = keyId) (deviceCredentials s) \<or>
     keyId \<in> set (usedDeviceKeyIds s)"

definition new_credential ::
  "string \<Rightarrow> string \<Rightarrow> string \<Rightarrow> pairing_attempt \<Rightarrow> instant \<Rightarrow> device_credential" where
  "new_credential i org screenId a t =
     \<lparr>dc_keyId = pa_keyId a, dc_publicKeySpki = pa_publicKeySpki a,
      dc_securityLevel = pa_securityLevel a, dc_expiresAt = pa_credentialExpiresAt a,
      dc_id = i, dc_organizationId = org, dc_screenId = screenId, dc_detached = False,
      dc_revokedAt = None, dc_createdAt = t\<rparr>"

text \<open>The screen record takes the device's data and a new generation.\<close>

definition install_device :: "pairing_attempt \<Rightarrow> int \<Rightarrow> instant \<Rightarrow> screen \<Rightarrow> screen" where
  "install_device a generation t x =
     (clear_telemetry x)
       \<lparr>sc_installationId := pa_installationId a, sc_model := pa_model a,
        sc_osVersion := pa_osVersion a, sc_playerVersion := pa_playerVersion a,
        sc_credentialRevokedAt := None, sc_credentialGeneration := Some generation,
        sc_updatedAt := t\<rparr>"

text \<open>
  What both activations write for the screen, the credential and the activated attempt; the
  competing attempts of the grant are cancelled.
\<close>

definition bind_candidate ::
  "(screen \<Rightarrow> bool) \<Rightarrow> (pairing_attempt \<Rightarrow> bool) \<Rightarrow> pairing_attempt \<Rightarrow> string \<Rightarrow> int \<Rightarrow> device_credential
    \<Rightarrow> instant \<Rightarrow> store \<Rightarrow> store" where
  "bind_candidate is_target is_attempt attempt grantId generation credential t s =
     s\<lparr>screens := update_first is_target (install_device attempt generation t) (screens s),
       deviceCredentials := deviceCredentials s @ [credential],
       usedDeviceKeyIds := List.insert (dc_keyId credential) (usedDeviceKeyIds s),
       pairingAttempts :=
         update_where (\<lambda>a. pa_pairingCodeId a = grantId \<and> pa_id a \<noteq> pa_id attempt)
           (cancel_if_open t)
           (update_first is_attempt
             (\<lambda>a. a\<lparr>pa_activatedAt := Some t, pa_boundCredentialId := Some (dc_id credential)\<rparr>)
             (pairingAttempts s))\<rparr>"

definition screen_of :: "store \<Rightarrow> string \<Rightarrow> string \<Rightarrow> screen option" where
  "screen_of s org screenId = List.find (is_screen org screenId) (screens s)"

text \<open>The screen as the caller sees it after the step; it exists where the code reaches this point.\<close>

definition public_after :: "store \<Rightarrow> string \<Rightarrow> string \<Rightarrow> screen \<Rightarrow> screen" where
  "public_after s org screenId x = publicScreen s (or_default (screen_of s org screenId) x)"

subsection \<open>Reenrollment\<close>

definition is_attempt :: "string \<Rightarrow> string \<Rightarrow> pairing_attempt \<Rightarrow> bool" where
  "is_attempt org candidateId a \<longleftrightarrow> pa_id a = candidateId \<and> pa_organizationId a = org"

definition reenroll_grant :: "string \<Rightarrow> string \<Rightarrow> pairing_attempt option \<Rightarrow> pairing \<Rightarrow> bool" where
  "reenroll_grant screenId grantId attempt p \<longleftrightarrow>
     pr_id p = grantId \<and> Some (pr_id p) = map_option pa_pairingCodeId attempt \<and>
     pr_targetScreenId p = Some screenId \<and> pr_purpose p = Some REENROLL"

definition already_bound :: "pairing_attempt \<Rightarrow> bool" where
  "already_bound a \<longleftrightarrow> (pa_consumedAt a \<noteq> None \<or> pa_activatedAt a \<noteq> None) \<and>
     truthy (pa_boundCredentialId a)"

text \<open>The answer for an attempt that is bound already.\<close>

definition reenroll_replay ::
  "store \<Rightarrow> string \<Rightarrow> string \<Rightarrow> pairing_attempt \<Rightarrow> pairing option
    \<Rightarrow> (device_credential \<times> screen) answer" where
  "reenroll_replay s org screenId a grant =
     (case (List.find (\<lambda>c. Some (dc_id c) = pa_boundCredentialId a) (deviceCredentials s),
            screen_of s org screenId) of
        (Some c, Some x) \<Rightarrow>
          if dc_revokedAt c = None \<and> \<not> dc_detached c \<and>
             sc_credentialGeneration x =
               Some (or_default (case grant of None \<Rightarrow> None | Some g \<Rightarrow> pr_expectedGeneration g)
                       (- 2) + 1)
          then Done (c, publicScreen s x) else Denied STALE
      | _ \<Rightarrow> Denied STALE)"

text \<open>A grant that can be activated on the screen now.\<close>

definition reenroll_ready :: "instant \<Rightarrow> pairing \<Rightarrow> screen \<Rightarrow> bool" where
  "reenroll_ready t g x \<longleftrightarrow>
     pr_status g = PENDING \<and> pr_expiresAt g > t \<and> pr_expectedGeneration g = Some (generation_of x)"

definition activation_metadata ::
  "string \<Rightarrow> string \<Rightarrow> device_credential \<Rightarrow> pairing \<Rightarrow> (utext \<times> json) list" where
  "activation_metadata grantId candidateId credential g =
     [(js ''grantId'', jstr grantId), (js ''candidateId'', jstr candidateId),
      (js ''credentialId'', jstr (dc_id credential)), (js ''keyId'', jstr (dc_keyId credential)),
      (js ''reason'', jopt (pr_requestReason g))]"

text \<open>
  The store with the candidate bound: the grant is claimed and every other pending grant for the
  screen is revoked.
\<close>

definition reenroll_screen ::
  "env \<Rightarrow> string \<Rightarrow> string \<Rightarrow> string \<Rightarrow> string \<Rightarrow> pairing_attempt \<Rightarrow> int \<Rightarrow> device_credential
    \<Rightarrow> store \<Rightarrow> store" where
  "reenroll_screen e org screenId grantId candidateId a generation credential s =
     (let s1 = bind_candidate (is_screen org screenId) (is_attempt org candidateId) a grantId
            generation credential (now e) s
      in s1\<lparr>pairings := update_where (pending_for screenId) (\<lambda>p. p\<lparr>pr_status := REVOKED\<rparr>)
              (update_first (reenroll_grant screenId grantId (Some a))
                (\<lambda>p. p\<lparr>pr_status := CLAIMED, pr_screenId := Some screenId\<rparr>) (pairings s1))\<rparr>)"

definition activate_reenrollment ::
  "env \<Rightarrow> string \<Rightarrow> string \<Rightarrow> string \<Rightarrow> string \<Rightarrow> audit_context \<Rightarrow> pairing_attempt \<Rightarrow> pairing
    \<Rightarrow> screen \<Rightarrow> store \<Rightarrow> (store, (device_credential \<times> screen) answer) outcome" where
  "activate_reenrollment e org screenId grantId candidateId audit a g x s =
     (let credential = new_credential (new_id e 0) org screenId a (now e) in
      with_audit e 1
        (user_event org audit ''device.reenrollment.activated'' ''screen'' (Some screenId)
           (activation_metadata (pr_id g) candidateId credential g)) s
        (\<lambda>r.
          (let s' = (reenroll_screen e org screenId grantId candidateId a (generation_of x + 1)
                 credential s)\<lparr>auditRecords := auditRecords s @ [r]\<rparr>
           in (Inr (Done (credential, public_after s' org screenId x)), s'))))"

definition activateReenrollmentCandidateAndAudit ::
  "env \<Rightarrow> string \<Rightarrow> string \<Rightarrow> string \<Rightarrow> string \<Rightarrow> audit_context \<Rightarrow> store
    \<Rightarrow> (store, (device_credential \<times> screen) answer) outcome" where
  "activateReenrollmentCandidateAndAudit e org screenId grantId candidateId audit s =
     (if adminActor s org (ac_actorUserId audit) = None then (Inr (Denied FORBIDDEN), s)
      else
        (let attempt = List.find (is_attempt org candidateId) (pairingAttempts s);
             grant = List.find (reenroll_grant screenId grantId attempt) (pairings s)
         in if (case grant of None \<Rightarrow> False | Some g \<Rightarrow> \<not> issuer_current s org g)
            then (Inr (Denied STALE), s)
            else case (attempt, grant) of
              (None, _) \<Rightarrow> (Inr (Denied NOT_FOUND), s)
            | (Some a, _) \<Rightarrow>
                if already_bound a then (Inr (reenroll_replay s org screenId a grant), s)
                else case grant of
                  None \<Rightarrow> (Inr (Denied NOT_FOUND), s)
                | Some g \<Rightarrow>
                    if pa_provedAt a = None \<or> pa_cancelledAt a \<noteq> None
                    then (Inr (Denied NOT_FOUND), s)
                    else case screen_of s org screenId of
                      None \<Rightarrow> (Inr (Denied STALE), s)
                    | Some x \<Rightarrow>
                        if \<not> reenroll_ready (now e) g x \<or> key_used s (pa_keyId a)
                        then (Inr (Denied STALE), s)
                        else activate_reenrollment e org screenId grantId candidateId audit a g x s))"

subsection \<open>First enrollment\<close>

definition enrollment_grant :: "string \<Rightarrow> string \<Rightarrow> string \<Rightarrow> pairing \<Rightarrow> bool" where
  "enrollment_grant org screenId grantId p \<longleftrightarrow>
     pr_id p = grantId \<and> pr_organizationId p = org \<and> pr_targetScreenId p = Some screenId \<and>
     pr_purpose p = Some NEW_SCREEN"

definition enrollment_attempt :: "string \<Rightarrow> string \<Rightarrow> string \<Rightarrow> pairing_attempt \<Rightarrow> bool" where
  "enrollment_attempt org grantId candidateId a \<longleftrightarrow>
     pa_id a = candidateId \<and> pa_organizationId a = org \<and> pa_pairingCodeId a = grantId"

definition enrollment_ready :: "env \<Rightarrow> store \<Rightarrow> string \<Rightarrow> pairing \<Rightarrow> pairing_attempt \<Rightarrow> screen \<Rightarrow> bool" where
  "enrollment_ready e s org g a x \<longleftrightarrow>
     issuer_current s org g \<and> pr_status g = PENDING \<and> pr_expiresAt g > now e \<and>
     pa_provedAt a \<noteq> None \<and> pa_cancelledAt a = None \<and> pa_activatedAt a = None \<and>
     Some (generation_of x) = pr_expectedGeneration g \<and> pr_expectedGeneration g = Some 0 \<and>
     never_enrolled s org x \<and> pa_keyId a \<notin> set (usedDeviceKeyIds s)"

definition replay_enrollment_activation ::
  "env \<Rightarrow> string \<Rightarrow> string \<Rightarrow> string \<Rightarrow> string \<Rightarrow> string \<Rightarrow> enrollment_idempotency \<Rightarrow> store
    \<Rightarrow> (store, (device_credential \<times> screen \<times> bool) answer) outcome" where
  "replay_enrollment_activation e org screenId actorUserId keyHash digest existing s =
     (if eg_actorUserId existing \<noteq> actorUserId \<or> eg_requestDigestSha256 existing \<noteq> digest
      then (Inr (Denied IDEMPOTENCY_KEY_REUSED), s)
      else if eg_expiresAt existing \<le> now e \<or> eg_response existing = None
      then (Inr (Denied IDEMPOTENCY_KEY_EXPIRED), s)
      else case (List.find (\<lambda>c. eg_response existing = Some (Credential_response (dc_id c)))
                   (deviceCredentials s), screen_of s org screenId) of
        (Some c, Some x) \<Rightarrow>
          (Inr (Done (c, publicScreen s x, True)),
           pruneDeviceEnrollmentAuthority e org (Some keyHash) s)
      | _ \<Rightarrow> (Inr (Denied STALE), s))"

definition competing :: "string \<Rightarrow> string \<Rightarrow> string \<Rightarrow> pairing \<Rightarrow> bool" where
  "competing org screenId grantId p \<longleftrightarrow>
     pr_id p \<noteq> grantId \<and> pr_organizationId p = org \<and> pending_for screenId p"

definition enroll_screen ::
  "env \<Rightarrow> string \<Rightarrow> string \<Rightarrow> string \<Rightarrow> string \<Rightarrow> string \<Rightarrow> pairing_attempt \<Rightarrow> device_credential
    \<Rightarrow> store \<Rightarrow> store" where
  "enroll_screen e org screenId grantId candidateId keyHash a credential s =
     (let s1 = pruneDeviceEnrollmentAuthority e org (Some keyHash) s;
          s2 = bind_candidate (is_screen org screenId)
            (enrollment_attempt org grantId candidateId) a grantId 1 credential (now e) s1;
          s3 = s2\<lparr>pairings := update_first (enrollment_grant org screenId grantId)
                (\<lambda>p. p\<lparr>pr_status := CLAIMED, pr_claimedAt := Some (now e),
                       pr_screenId := Some screenId\<rparr>) (pairings s2)\<rparr>
      in revoke_grants (competing org screenId grantId) unbound (cancel_if_open (now e)) s3)"

definition activate_enrollment ::
  "env \<Rightarrow> string \<Rightarrow> string \<Rightarrow> string \<Rightarrow> string \<Rightarrow> audit_context \<Rightarrow> string \<Rightarrow> string
    \<Rightarrow> pairing_attempt \<Rightarrow> pairing \<Rightarrow> screen \<Rightarrow> store
    \<Rightarrow> (store, (device_credential \<times> screen \<times> bool) answer) outcome" where
  "activate_enrollment e org screenId grantId candidateId audit keyHash digest a g x s =
     (let credential = new_credential (new_id e 0) org screenId a (now e) in
      with_audit e 1
        (user_event org audit ''device.enrollment.activated'' ''screen'' (Some screenId)
           (activation_metadata grantId candidateId credential g)) s
        (\<lambda>r.
          (let s' = remember_enrollment e Enroll_activate org keyHash (ac_actorUserId audit) digest
                 (Credential_response (dc_id credential))
                 ((enroll_screen e org screenId grantId candidateId keyHash a credential s)
                    \<lparr>auditRecords := auditRecords s @ [r]\<rparr>)
           in (Inr (Done (credential, public_after s' org screenId x, False)), s'))))"

definition activateScreenEnrollmentCandidateAndAudit ::
  "env \<Rightarrow> string \<Rightarrow> string \<Rightarrow> string \<Rightarrow> string \<Rightarrow> string \<Rightarrow> audit_context \<Rightarrow> string \<Rightarrow> string
    \<Rightarrow> store \<Rightarrow> (store, (device_credential \<times> screen \<times> bool) answer) outcome" where
  "activateScreenEnrollmentCandidateAndAudit e org screenId grantId candidateId fingerprint audit
       keyHash digest s =
     (if adminActor s org (ac_actorUserId audit) = None then (Inr (Denied FORBIDDEN), s)
      else case remembered Enroll_activate org keyHash s of
        Some existing \<Rightarrow>
          replay_enrollment_activation e org screenId (ac_actorUserId audit) keyHash digest existing s
      | None \<Rightarrow>
          (case (screen_of s org screenId,
                 List.find (enrollment_grant org screenId grantId) (pairings s),
                 List.find (enrollment_attempt org grantId candidateId) (pairingAttempts s)) of
             (Some x, Some g, Some a) \<Rightarrow>
               if pa_keyId a \<noteq> fingerprint then (Inr (Denied FINGERPRINT_MISMATCH), s)
               else if \<not> enrollment_ready e s org g a x then (Inr (Denied STALE), s)
               else activate_enrollment e org screenId grantId candidateId audit keyHash digest
                 a g x s
           | _ \<Rightarrow> (Inr (Denied NOT_FOUND), s)))"

subsection \<open>Cancellation\<close>

definition cancelScreenReenrollmentAndAudit ::
  "env \<Rightarrow> string \<Rightarrow> string \<Rightarrow> string \<Rightarrow> audit_context \<Rightarrow> pairing_purpose \<Rightarrow> store
    \<Rightarrow> (store, unit answer) outcome" where
  "cancelScreenReenrollmentAndAudit e org screenId grantId audit purpose s =
     (if adminActor s org (ac_actorUserId audit) = None then (Inr (Denied FORBIDDEN), s)
      else
        (let is_grant = (\<lambda>p. pr_id p = grantId \<and> pr_organizationId p = org \<and>
               pr_targetScreenId p = Some screenId \<and> pr_purpose p = Some purpose \<and>
               pr_status p = PENDING)
         in case List.find is_grant (pairings s) of
           None \<Rightarrow> (Inr (Denied NOT_FOUND), s)
         | Some g \<Rightarrow> with_audit e 0
             ((user_event org audit
                 (if purpose = REENROLL then ''device.reenrollment.cancelled''
                  else ''device.enrollment.cancelled'') ''screen'' (Some screenId)
                 [(js ''grantId'', jstr (pr_id g))])
                \<lparr>au_ipAddress := None, au_requestId := None\<rparr>) s
             (\<lambda>r. (Inr (Done ()),
                s\<lparr>pairings := update_first is_grant (\<lambda>p. p\<lparr>pr_status := REVOKED\<rparr>) (pairings s),
                  pairingAttempts := update_where
                    (\<lambda>a. pa_pairingCodeId a = pr_id g \<and> pa_consumedAt a = None)
                    (cancel_at (now e)) (pairingAttempts s),
                  auditRecords := auditRecords s @ [r]\<rparr>))))"

section \<open>Claiming\<close>

text \<open>A legacy code: no purpose but a new screen, no target and no issuer.\<close>

definition claimable :: "instant \<Rightarrow> string \<Rightarrow> pairing \<Rightarrow> bool" where
  "claimable t codeHash p \<longleftrightarrow>
     pr_codeHash p = codeHash \<and> or_default (pr_purpose p) NEW_SCREEN = NEW_SCREEN \<and>
     \<not> truthy (pr_targetScreenId p) \<and> \<not> truthy (pr_authorizedByUserId p) \<and>
     pr_status p = PENDING \<and> pr_expiresAt p > t"

definition claimablePairing :: "env \<Rightarrow> store \<Rightarrow> string \<Rightarrow> pairing option" where
  "claimablePairing e s codeHash = List.find (claimable (now e) codeHash) (pairings s)"

text \<open>The record of a screen a device creates by claiming a code.\<close>

definition device_screen ::
  "string \<Rightarrow> string \<Rightarrow> device_metadata \<Rightarrow> string option \<Rightarrow> instant \<Rightarrow> screen" where
  "device_screen i org device tokenHash t =
     \<lparr>sc_id = i, sc_organizationId = org,
      sc_name = ''New screen '' @ slice_last 6 (dm_installationId device),
      sc_location = ''Unassigned'', sc_locationId = None, sc_locationName = None,
      sc_status = online, sc_orientation = landscape, sc_resolution = ''1920x1080'',
      sc_tags = [], sc_installationId = Some (dm_installationId device),
      sc_deviceTokenHash = tokenHash, sc_model = Some (dm_model device),
      sc_osVersion = Some (dm_osVersion device),
      sc_playerVersion = Some (dm_playerVersion device), sc_manifestVersion = None,
      sc_nowPlayingAssetId = None, sc_uptimeSeconds = None, sc_freeStorageBytes = None,
      sc_networkType = None, sc_lastSeenAt = Some t, sc_credentialRevokedAt = None,
      sc_credentialGeneration = None, sc_createdAt = t, sc_updatedAt = t\<rparr>"

definition claimPairingRecord ::
  "env \<Rightarrow> string \<Rightarrow> string \<Rightarrow> device_metadata \<Rightarrow> string \<Rightarrow> store \<Rightarrow> screen option \<times> store" where
  "claimPairingRecord e screenId codeHash device tokenHash s =
     (case claimablePairing e s codeHash of
        None \<Rightarrow> (None, s)
      | Some p \<Rightarrow>
          (let x = device_screen screenId (pr_organizationId p) device (Some tokenHash) (now e)
           in (Some x,
               s\<lparr>screens := screens s @ [x],
                 pairings := update_first (claimable (now e) codeHash)
                   (\<lambda>p. p\<lparr>pr_status := CLAIMED, pr_screenId := Some (sc_id x)\<rparr>) (pairings s)\<rparr>)))"

definition claimPairing ::
  "env \<Rightarrow> string \<Rightarrow> device_metadata \<Rightarrow> string \<Rightarrow> store \<Rightarrow> screen option \<times> store" where
  "claimPairing e codeHash device tokenHash s =
     claimPairingRecord e (new_id e 0) codeHash device tokenHash s"

text \<open>\<open>{...entries, [k]: v}\<close>: an existing key keeps its place and takes the new value.\<close>

fun set_entry :: "utext \<Rightarrow> json \<Rightarrow> (utext \<times> json) list \<Rightarrow> (utext \<times> json) list" where
  "set_entry k v [] = [(k, v)]"
| "set_entry k v ((k', v') # kvs) =
     (if k' = k then (k, v) # kvs else (k', v') # set_entry k v kvs)"

definition device_event ::
  "string \<Rightarrow> claim_audit_context \<Rightarrow> string \<Rightarrow> string \<Rightarrow> (utext \<times> json) list \<Rightarrow> audit_event" where
  "device_event org audit action screenId metadata =
     \<lparr>au_organizationId = org, au_actorUserId = None, au_actorType = ''device'',
      au_action = action, au_entityType = ''screen'', au_entityId = Some screenId,
      au_ipAddress = when_truthy (ca_ipAddress audit),
      au_requestId = when_truthy (ca_requestId audit), au_metadata = JObj metadata\<rparr>"

definition claimPairingAndAudit ::
  "env \<Rightarrow> string \<Rightarrow> device_metadata \<Rightarrow> string \<Rightarrow> claim_audit_context \<Rightarrow> store
    \<Rightarrow> (store, screen option) outcome" where
  "claimPairingAndAudit e codeHash device tokenHash audit s =
     (case claimablePairing e s codeHash of
        None \<Rightarrow> (Inr None, s)
      | Some p \<Rightarrow>
          with_audit e 1
            (device_event (pr_organizationId p) audit ''device.paired'' (new_id e 0)
               (set_entry (js ''installationId'') (jstr (dm_installationId device))
                 (ca_metadata audit))) s
            (\<lambda>r. case claimPairingRecord e (new_id e 0) codeHash device tokenHash s of
               (None, s') \<Rightarrow> (Inr None, s')
             | (Some x, s') \<Rightarrow> (Inr (Some x), s'\<lparr>auditRecords := auditRecords s' @ [r]\<rparr>)))"

section \<open>Pairing challenges\<close>

record pairing_challenge_input =
  pc_codeHash :: string
  pc_credential :: credential_enrollment
  pc_challengeHashSha256 :: string
  pc_transcriptDigestSha256 :: string
  pc_expiresAt :: instant

text \<open>
  Whether the issuer a record names is current; fields the record lacks are not compared, and a
  record without an issuer must have no target.
\<close>

definition challenge_issuer_current :: "store \<Rightarrow> pairing \<Rightarrow> bool" where
  "challenge_issuer_current s p \<longleftrightarrow>
     (if truthy (pr_authorizedByUserId p) then
        (case find_issuer s (pr_organizationId p) (pr_authorizedByUserId p) of
           None \<Rightarrow> False
         | Some u \<Rightarrow> administers u \<and>
             (\<not> truthy (pr_authorizedByMembershipId p) \<or>
                Some (membership_key u) = pr_authorizedByMembershipId p) \<and>
             (pr_authorizedByAuthenticationEpoch p = None \<or>
                Some (u_authenticationEpoch u) = pr_authorizedByAuthenticationEpoch p) \<and>
             (pr_authorizedByAuthorizationEpoch p = None \<or>
                Some (u_authorizationEpoch u) = pr_authorizedByAuthorizationEpoch p))
      else \<not> truthy (pr_targetScreenId p))"

definition open_attempt :: "instant \<Rightarrow> string \<Rightarrow> string \<Rightarrow> pairing_attempt \<Rightarrow> bool" where
  "open_attempt t pairingId keyId a \<longleftrightarrow>
     pa_pairingCodeId a = pairingId \<and> pa_keyId a = keyId \<and> pa_consumedAt a = None \<and>
     pa_expiresAt a > t"

definition challenge_refused :: "env \<Rightarrow> store \<Rightarrow> pairing_challenge_input \<Rightarrow> pairing \<Rightarrow> bool" where
  "challenge_refused e s input p \<longleftrightarrow>
     (let keyId = dc_keyId (pc_credential input);
          lifetime = pc_expiresAt input - now e
      in \<not> challenge_issuer_current s p \<or> lifetime \<le> 0 \<or> lifetime > 45000 \<or>
         \<not> is_key_id keyId \<or> \<not> is_sha256_hex (pc_challengeHashSha256 input) \<or>
         \<not> is_sha256_hex (pc_transcriptDigestSha256 input) \<or> key_used s keyId \<or>
         list_ex (\<lambda>a. pa_challengeHashSha256 a = pc_challengeHashSha256 input)
           (pairingAttempts s) \<or>
         length (filter (open_attempt (now e) (pr_id p) keyId) (pairingAttempts s)) \<ge> 4)"

definition issuePairingChallenge ::
  "env \<Rightarrow> pairing_challenge_input \<Rightarrow> store \<Rightarrow> pairing_attempt option \<times> store" where
  "issuePairingChallenge e input s =
     (case List.find (live_code (now e) (pc_codeHash input)) (pairings s) of
        None \<Rightarrow> (None, s)
      | Some p \<Rightarrow>
          if challenge_refused e s input p then (None, s)
          else
            (let a = \<lparr>pa_id = new_id e 0, pa_organizationId = pr_organizationId p,
                   pa_pairingCodeId = pr_id p, pa_keyId = dc_keyId (pc_credential input),
                   pa_publicKeySpki = dc_publicKeySpki (pc_credential input),
                   pa_securityLevel = dc_securityLevel (pc_credential input),
                   pa_credentialExpiresAt = dc_expiresAt (pc_credential input),
                   pa_challengeHashSha256 = pc_challengeHashSha256 input,
                   pa_transcriptDigestSha256 = pc_transcriptDigestSha256 input,
                   pa_expiresAt = pc_expiresAt input, pa_consumedAt = None, pa_provedAt = None,
                   pa_activatedAt = None, pa_cancelledAt = None, pa_installationId = None,
                   pa_model = None, pa_osVersion = None, pa_playerVersion = None,
                   pa_boundCredentialId = None, pa_createdAt = now e\<rparr>
             in (Some a, s\<lparr>pairingAttempts := pairingAttempts s @ [a]\<rparr>)))"

section \<open>Claiming with a credential\<close>

record claim_input =
  cl_codeHash :: string
  cl_pairingAttemptId :: string
  cl_challengeHashSha256 :: string
  cl_transcriptDigestSha256 :: string
  cl_keyId :: string
  cl_device :: device_metadata

text \<open>Paired with a credential, waiting for an approval, or invalid.\<close>

datatype claim_result =
    Paired device_credential screen
  | Pending_approval string string string instant \<comment> \<open>grant, candidate, key and expiry\<close>
  | Invalid_claim

definition enrollment_of_attempt :: "pairing_attempt \<Rightarrow> credential_enrollment" where
  "enrollment_of_attempt a =
     \<lparr>dc_keyId = pa_keyId a, dc_publicKeySpki = pa_publicKeySpki a,
      dc_securityLevel = pa_securityLevel a, dc_expiresAt = pa_credentialExpiresAt a\<rparr>"

definition claim_pairing_of :: "claim_input \<Rightarrow> pairing_attempt \<Rightarrow> pairing \<Rightarrow> bool" where
  "claim_pairing_of input a p \<longleftrightarrow>
     pr_id p = pa_pairingCodeId a \<and> pr_organizationId p = pa_organizationId a \<and>
     pr_codeHash p = cl_codeHash input"

definition claim_matches :: "claim_input \<Rightarrow> pairing_attempt \<Rightarrow> bool" where
  "claim_matches input a \<longleftrightarrow>
     pa_challengeHashSha256 a = cl_challengeHashSha256 input \<and>
     pa_transcriptDigestSha256 a = cl_transcriptDigestSha256 input \<and> pa_keyId a = cl_keyId input"

definition bound_claim :: "env \<Rightarrow> store \<Rightarrow> pairing_attempt \<Rightarrow> claim_result" where
  "bound_claim e s a =
     (case List.find (\<lambda>c. Some (dc_id c) = pa_boundCredentialId a \<and> dc_revokedAt c = None \<and>
              (case dc_expiresAt c of None \<Rightarrow> True | Some x \<Rightarrow> x > now e)) (deviceCredentials s) of
        None \<Rightarrow> Invalid_claim
      | Some c \<Rightarrow>
          (case screen_of s (dc_organizationId c) (dc_screenId c) of
             None \<Rightarrow> Invalid_claim
           | Some x \<Rightarrow> Paired c (publicScreen s x)))"

text \<open>
  A grant's attempt: the issuer must be current, and at most four attempts of a grant may be
  proved and open.
\<close>

definition claim_issuer_current :: "store \<Rightarrow> pairing \<Rightarrow> bool" where
  "claim_issuer_current s p \<longleftrightarrow>
     (case find_issuer s (pr_organizationId p) (pr_authorizedByUserId p) of
        None \<Rightarrow> False
      | Some u \<Rightarrow> administers u \<and>
          (pr_authorizedByMembershipId p = None \<or>
             Some (membership_key u) = pr_authorizedByMembershipId p \<and>
             Some (u_authenticationEpoch u) = pr_authorizedByAuthenticationEpoch p \<and>
             Some (u_authorizationEpoch u) = pr_authorizedByAuthorizationEpoch p))"

definition pending_approval :: "pairing \<Rightarrow> pairing_attempt \<Rightarrow> claim_result" where
  "pending_approval p a = Pending_approval (pr_id p) (pa_id a) (pa_keyId a) (pr_expiresAt p)"

definition prove_candidate ::
  "env \<Rightarrow> claim_input \<Rightarrow> claim_audit_context \<Rightarrow> pairing_attempt \<Rightarrow> pairing \<Rightarrow> store
    \<Rightarrow> (store, claim_result) outcome" where
  "prove_candidate e input audit a p s =
     (if \<not> truthy (pr_targetScreenId p) \<or> \<not> claim_issuer_current s p \<or>
        length (filter (proved_attempt (pr_id p)) (pairingAttempts s)) \<ge> 4
      then (Inr Invalid_claim, s)
      else with_audit e 0
        (device_event (pr_organizationId p) audit
           (if pr_purpose p = Some REENROLL then ''device.reenrollment.candidate_proved''
            else ''device.enrollment.candidate_proved'')
           (or_default (pr_targetScreenId p) [])
           [(js ''grantId'', jstr (pr_id p)), (js ''candidateId'', jstr (pa_id a)),
            (js ''keyId'', jstr (pa_keyId a)),
            (js ''installationId'', jstr (dm_installationId (cl_device input)))]) s
        (\<lambda>r. (Inr (pending_approval p a),
           s\<lparr>pairingAttempts := update_first (\<lambda>c. pa_id c = cl_pairingAttemptId input)
                (\<lambda>c. c\<lparr>pa_provedAt := Some (now e),
                       pa_installationId := Some (dm_installationId (cl_device input)),
                       pa_model := Some (dm_model (cl_device input)),
                       pa_osVersion := Some (dm_osVersion (cl_device input)),
                       pa_playerVersion := Some (dm_playerVersion (cl_device input))\<rparr>)
                (pairingAttempts s),
             auditRecords := auditRecords s @ [r]\<rparr>)))"

text \<open>A plain code: the claim creates the screen and its credential.\<close>

definition pair_new_screen ::
  "env \<Rightarrow> claim_input \<Rightarrow> claim_audit_context \<Rightarrow> pairing_attempt \<Rightarrow> pairing \<Rightarrow> store
    \<Rightarrow> (store, claim_result) outcome" where
  "pair_new_screen e input audit a p s =
     (let x = device_screen (new_id e 0) (pr_organizationId p) (cl_device input) None (now e);
          credential = new_credential (new_id e 1) (pr_organizationId p) (sc_id x) a (now e)
      in with_audit e 2
           (device_event (pr_organizationId p) audit ''device.paired'' (sc_id x)
              (set_entry (js ''keyId'') (jstr (dc_keyId credential))
                (set_entry (js ''credentialId'') (jstr (dc_id credential))
                  (set_entry (js ''installationId'')
                    (jstr (dm_installationId (cl_device input))) (ca_metadata audit))))) s
           (\<lambda>r.
             (let s' = s\<lparr>screens := screens s @ [x],
                    deviceCredentials := deviceCredentials s @ [credential],
                    usedDeviceKeyIds := List.insert (dc_keyId credential) (usedDeviceKeyIds s),
                    pairings := update_first (claim_pairing_of input a)
                      (\<lambda>p. p\<lparr>pr_status := CLAIMED, pr_screenId := Some (sc_id x)\<rparr>) (pairings s),
                    pairingAttempts := update_first (\<lambda>c. pa_id c = cl_pairingAttemptId input)
                      (\<lambda>c. c\<lparr>pa_consumedAt := Some (now e),
                             pa_boundCredentialId := Some (dc_id credential)\<rparr>)
                      (pairingAttempts s),
                    auditRecords := auditRecords s @ [r]\<rparr>
              in (Inr (Paired credential (publicScreen s' x)), s'))))"

definition claimPairingWithCredentialAndAudit ::
  "env \<Rightarrow> claim_input \<Rightarrow> (credential_enrollment \<Rightarrow> bool) \<Rightarrow> claim_audit_context \<Rightarrow> store
    \<Rightarrow> (store, claim_result) outcome" where
  "claimPairingWithCredentialAndAudit e input verify audit s =
     (case List.find (\<lambda>c. pa_id c = cl_pairingAttemptId input) (pairingAttempts s) of
        None \<Rightarrow> (Inr Invalid_claim, s)
      | Some a \<Rightarrow>
     (case List.find (claim_pairing_of input a) (pairings s) of
        None \<Rightarrow> (Inr Invalid_claim, s)
      | Some p \<Rightarrow>
     if \<not> claim_matches input a \<or> \<not> verify (enrollment_of_attempt a) then (Inr Invalid_claim, s)
     else if already_bound a then (Inr (bound_claim e s a), s)
     else if pr_purpose p \<noteq> None \<and> pa_provedAt a \<noteq> None \<and> pa_cancelledAt a = None \<and>
       pr_status p = PENDING \<and> pr_expiresAt p > now e
     then (Inr (pending_approval p a), s)
     else if pa_expiresAt a \<le> now e \<or> pr_expiresAt p \<le> now e \<or> pr_status p \<noteq> PENDING \<or>
       list_ex (\<lambda>c. dc_keyId c = pa_keyId a) (deviceCredentials s)
     then (Inr Invalid_claim, s)
     else if pr_purpose p \<noteq> None then prove_candidate e input audit a p s
     else pair_new_screen e input audit a p s))"

section \<open>Facts\<close>

lemma bind_candidate_frame [simp]:
  "pairings (bind_candidate P Q a g n c t s) = pairings s"
  "auditRecords (bind_candidate P Q a g n c t s) = auditRecords s"
  "deviceAuthChallenges (bind_candidate P Q a g n c t s) = deviceAuthChallenges s"
  by (simp_all add: bind_candidate_def)

subsection \<open>The log\<close>

text \<open>Either nothing changes, or a ready candidate of a current issuer's grant is bound.\<close>

lemma activate_reenroll_cases:
  assumes "activateReenrollmentCandidateAndAudit e org i grantId candidateId audit s = (res, s')"
  shows "s' = s \<or> (\<exists>a g x credential r.
    List.find (is_attempt org candidateId) (pairingAttempts s) = Some a \<and>
    List.find (reenroll_grant i grantId (Some a)) (pairings s) = Some g \<and>
    issuer_current s org g \<and> pa_provedAt a \<noteq> None \<and> pa_cancelledAt a = None \<and>
    screen_of s org i = Some x \<and> reenroll_ready (now e) g x \<and> \<not> key_used s (pa_keyId a) \<and>
    credential = new_credential (new_id e 0) org i a (now e) \<and>
    (\<exists>y. res = Inr (Done (credential, y))) \<and>
    s' = (reenroll_screen e org i grantId candidateId a (generation_of x + 1) credential s)
      \<lparr>auditRecords := auditRecords s @ [r]\<rparr>)"
  using assms
  by (auto simp: activateReenrollmentCandidateAndAudit_def activate_reenrollment_def Let_def
      split: split_cases)

interpretation activate_reenroll:
  atomic_operation "activateReenrollmentCandidateAndAudit e org i g c audit" for e org i g c audit
proof unfold_locales
  fix s s' res
  assume "activateReenrollmentCandidateAndAudit e org i g c audit s = (res, s')"
  from activate_reenroll_cases [OF this] show "\<exists>rs. auditRecords s' = auditRecords s @ rs" by auto
qed (auto dest!: activate_reenroll_cases)

lemma replay_enrollment_activation_cases:
  assumes "replay_enrollment_activation e org i actor keyHash digest existing s = (res, s')"
  shows "s' = s \<and> (\<exists>d. res = Inr (Denied d)) \<or>
    s' = pruneDeviceEnrollmentAuthority e org (Some keyHash) s \<and>
    (\<exists>c x. res = Inr (Done (c, x, True)))"
  using assms
  by (auto simp: replay_enrollment_activation_def split: if_splits option.splits)

lemma activate_enroll_cases:
  assumes "activateScreenEnrollmentCandidateAndAudit e org i grantId candidateId fingerprint audit
      keyHash digest s = (res, s')"
  shows "s' = s \<and> (\<forall>c x. res \<noteq> Inr (Done (c, x, False))) \<or>
    s' = pruneDeviceEnrollmentAuthority e org (Some keyHash) s \<and>
      (\<exists>c x. res = Inr (Done (c, x, True))) \<or>
    (\<exists>a g x credential r. screen_of s org i = Some x \<and>
      List.find (enrollment_grant org i grantId) (pairings s) = Some g \<and>
      List.find (enrollment_attempt org grantId candidateId) (pairingAttempts s) = Some a \<and>
      pa_keyId a = fingerprint \<and> enrollment_ready e s org g a x \<and>
      credential = new_credential (new_id e 0) org i a (now e) \<and>
      (\<exists>y. res = Inr (Done (credential, y, False))) \<and>
      s' = remember_enrollment e Enroll_activate org keyHash (ac_actorUserId audit) digest
        (Credential_response (dc_id credential))
        ((enroll_screen e org i grantId candidateId keyHash a credential s)
          \<lparr>auditRecords := auditRecords s @ [r]\<rparr>))"
  using assms
  by (auto simp: activateScreenEnrollmentCandidateAndAudit_def activate_enrollment_def Let_def
      dest!: replay_enrollment_activation_cases split: split_cases)

interpretation activate_enroll:
  atomic_operation
    "activateScreenEnrollmentCandidateAndAudit e org i g c fingerprint audit keyHash digest"
  for e org i g c fingerprint audit keyHash digest
proof unfold_locales
  fix s s' res
  assume "activateScreenEnrollmentCandidateAndAudit e org i g c fingerprint audit keyHash digest s
      = (res, s')"
  from activate_enroll_cases [OF this] show "\<exists>rs. auditRecords s' = auditRecords s @ rs" by auto
qed (auto dest!: activate_enroll_cases)

interpretation cancel_reenroll:
  audited_operation "cancelScreenReenrollmentAndAudit e org i g audit purpose"
  for e org i g audit purpose
  by unfold_locales (auto simp: cancelScreenReenrollmentAndAudit_def Let_def split: split_cases)

lemma claimPairingRecord_log [simp]:
  "claimPairingRecord e i h d tok s = (res, s') \<Longrightarrow> auditRecords s' = auditRecords s"
  by (auto simp: claimPairingRecord_def Let_def split: option.splits)

interpretation claim_code:
  logged_operation "claimPairingAndAudit e codeHash device tokenHash audit"
  for e codeHash device tokenHash audit
  by unfold_locales
    (auto simp: claimPairingAndAudit_def dest: claimPairingRecord_log split: split_cases)

lemma prove_candidate_cases:
  assumes "prove_candidate e input audit a p s = (res, s')"
  shows "s' = s \<or> (\<exists>r f. s' = s\<lparr>pairingAttempts := f, auditRecords := auditRecords s @ [r]\<rparr>)"
  using assms by (auto simp: prove_candidate_def split: split_cases)

text \<open>Every way a claim can end: nothing changes, a candidate is proved, or a screen is paired.\<close>

lemma claim_cases:
  assumes "claimPairingWithCredentialAndAudit e input verify audit s = (res, s')"
  obtains (Same) "s' = s"
  | (Proved) a p where "prove_candidate e input audit a p s = (res, s')"
  | (Pair) a p where "List.find (\<lambda>c. pa_id c = cl_pairingAttemptId input) (pairingAttempts s) = Some a"
      "List.find (claim_pairing_of input a) (pairings s) = Some p"
      "claim_matches input a" "verify (enrollment_of_attempt a)" "pa_expiresAt a > now e"
      "pr_expiresAt p > now e" "pr_status p = PENDING" "pr_purpose p = None"
      "\<not> list_ex (\<lambda>c. dc_keyId c = pa_keyId a) (deviceCredentials s)"
      "pair_new_screen e input audit a p s = (res, s')"
  using assms that
  unfolding claimPairingWithCredentialAndAudit_def
  by (simp split: option.splits if_splits)

interpretation claim_credential:
  logged_operation "claimPairingWithCredentialAndAudit e input verify audit"
  for e input verify audit
proof unfold_locales
  fix s s' res
  assume "claimPairingWithCredentialAndAudit e input verify audit s = (res, s')"
  then show "\<exists>rs. auditRecords s' = auditRecords s @ rs"
  proof (cases rule: claim_cases)
    case (Proved a p)
    then show ?thesis by (auto dest!: prove_candidate_cases)
  next
    case (Pair a p)
    then show ?thesis by (auto simp: pair_new_screen_def Let_def split: split_cases)
  qed simp
qed

end
