(* ===== verification/DeviceProof.thy ===== *)
theory DeviceProof
  imports Enrollment
begin

text \<open>
  Device credentials at work (\<open>memory.ts\<close>, \<open>activeDeviceCredential\<close> to
  \<open>revokeDeviceCredentialAndAudit\<close>): challenges, the consumption of a proof and revocation.

  \<open>consumeDeviceProof\<close> awaits the signature check between two looks at the store.  The model
  gives the two looks their own clocks, and the operations that run in between are an arbitrary
  function on the store.  The code compares object references across the wait; here two records
  are the same object when the fields that no operation changes agree.
\<close>

section \<open>Active credentials\<close>

definition credential_live :: "instant \<Rightarrow> device_credential \<Rightarrow> bool" where
  "credential_live t c \<longleftrightarrow>
     \<not> dc_detached c \<and> dc_revokedAt c = None \<and>
     (case dc_expiresAt c of None \<Rightarrow> True | Some x \<Rightarrow> x > t)"

definition activeDeviceCredential ::
  "env \<Rightarrow> store \<Rightarrow> string \<Rightarrow> (device_credential \<times> screen) option" where
  "activeDeviceCredential e s credentialId =
     (case List.find (\<lambda>c. dc_id c = credentialId \<and> credential_live (now e) c)
             (deviceCredentials s) of
        None \<Rightarrow> None
      | Some c \<Rightarrow> map_option (\<lambda>x. (c, x)) (screen_of s (dc_organizationId c) (dc_screenId c)))"

definition authenticateDeviceCredential :: "env \<Rightarrow> store \<Rightarrow> string \<Rightarrow> string \<Rightarrow> proof_result" where
  "authenticateDeviceCredential e s screenId keyId =
     (case List.find (\<lambda>c. dc_screenId c = screenId \<and> dc_keyId c = keyId) (deviceCredentials s) of
        None \<Rightarrow> INVALID_PROOF
      | Some c \<Rightarrow>
          (case activeDeviceCredential e s (dc_id c) of
             None \<Rightarrow> INVALID_PROOF
           | Some (a, x) \<Rightarrow> Authenticated a (publicScreen s x)))"

section \<open>Challenges\<close>

record challenge_input =
  ic_screenId :: string
  ic_keyId :: string
  ic_challengeHashSha256 :: string
  ic_operation :: auth_operation
  ic_requestDigestSha256 :: string
  ic_expiresAt :: instant

definition open_challenge :: "instant \<Rightarrow> string \<Rightarrow> auth_operation \<Rightarrow> device_challenge \<Rightarrow> bool" where
  "open_challenge t credentialId op c \<longleftrightarrow>
     ch_credentialId c = credentialId \<and> ch_operation c = op \<and> ch_consumedAt c = None \<and>
     ch_expiresAt c > t"

definition auth_challenge_refused :: "env \<Rightarrow> store \<Rightarrow> challenge_input \<Rightarrow> device_credential \<Rightarrow> bool" where
  "auth_challenge_refused e s input credential \<longleftrightarrow>
     (let lifetime = ic_expiresAt input - now e
      in lifetime \<le> 0 \<or> lifetime > 60000 \<or>
         \<not> is_sha256_hex (ic_challengeHashSha256 input) \<or>
         \<not> is_sha256_hex (ic_requestDigestSha256 input) \<or>
         list_ex (\<lambda>c. ch_challengeHashSha256 c = ic_challengeHashSha256 input)
           (deviceAuthChallenges s) \<or>
         length (filter (open_challenge (now e) (dc_id credential) (ic_operation input))
           (deviceAuthChallenges s)) \<ge> 4)"

definition issueDeviceAuthChallenge ::
  "env \<Rightarrow> challenge_input \<Rightarrow> store \<Rightarrow> device_challenge option \<times> store" where
  "issueDeviceAuthChallenge e input s =
     (case authenticateDeviceCredential e s (ic_screenId input) (ic_keyId input) of
        INVALID_PROOF \<Rightarrow> (None, s)
      | Authenticated credential _ \<Rightarrow>
          if auth_challenge_refused e s input credential then (None, s)
          else
            (let c = \<lparr>ch_id = new_id e 0, ch_organizationId = dc_organizationId credential,
                   ch_credentialId = dc_id credential,
                   ch_challengeHashSha256 = ic_challengeHashSha256 input,
                   ch_operation = ic_operation input,
                   ch_requestDigestSha256 = ic_requestDigestSha256 input,
                   ch_expiresAt = ic_expiresAt input, ch_consumedAt = None,
                   ch_createdAt = now e\<rparr>;
                 s' = pruneOldDeviceAuthChallenges e s
             in (Some c, s'\<lparr>deviceAuthChallenges := deviceAuthChallenges s' @ [c]\<rparr>)))"

section \<open>Consuming a proof\<close>

definition challenge_matches :: "device_proof_input \<Rightarrow> instant \<Rightarrow> device_challenge \<Rightarrow> bool" where
  "challenge_matches input t c \<longleftrightarrow>
     ch_consumedAt c = None \<and> ch_expiresAt c > t \<and>
     ch_challengeHashSha256 c = dp_challengeHashSha256 input \<and>
     ch_operation c = dp_operation input \<and>
     ch_requestDigestSha256 c = dp_requestDigestSha256 input"

text \<open>The first look: the credential, screen and challenge the proof is about.\<close>

definition begin_proof ::
  "env \<Rightarrow> device_proof_input \<Rightarrow> store \<Rightarrow> (device_credential \<times> screen \<times> device_challenge) option" where
  "begin_proof e input s =
     (case activeDeviceCredential e s (dp_credentialId input) of
        None \<Rightarrow> None
      | Some (c, x) \<Rightarrow>
          (case List.find (\<lambda>h. ch_id h = dp_challengeId input \<and>
                  ch_credentialId h = dp_credentialId input \<and>
                  ch_organizationId h = dc_organizationId c) (deviceAuthChallenges s) of
             None \<Rightarrow> None
           | Some h \<Rightarrow> if challenge_matches input (now e) h then Some (c, x, h) else None))"

definition same_credential :: "device_credential \<Rightarrow> device_credential \<Rightarrow> bool" where
  "same_credential c d \<longleftrightarrow>
     c\<lparr>dc_detached := False, dc_revokedAt := None\<rparr> = d\<lparr>dc_detached := False, dc_revokedAt := None\<rparr>"

definition same_screen :: "screen \<Rightarrow> screen \<Rightarrow> bool" where
  "same_screen x y \<longleftrightarrow> sc_id x = sc_id y \<and> sc_organizationId x = sc_organizationId y"

definition same_challenge :: "device_challenge \<Rightarrow> device_challenge \<Rightarrow> bool" where
  "same_challenge h k \<longleftrightarrow> h\<lparr>ch_consumedAt := None\<rparr> = k\<lparr>ch_consumedAt := None\<rparr>"

text \<open>The second look, after the wait, and the consumption.\<close>

definition finish_proof ::
  "env \<Rightarrow> device_proof_input \<Rightarrow> device_credential \<times> screen \<times> device_challenge \<Rightarrow> store
    \<Rightarrow> (device_credential \<times> screen) option \<times> store" where
  "finish_proof e input active s =
     (case active of (c, x, h) \<Rightarrow>
       (case (activeDeviceCredential e s (dp_credentialId input),
              List.find (\<lambda>k. ch_id k = dp_challengeId input) (deviceAuthChallenges s)) of
          (Some (c', x'), Some h') \<Rightarrow>
            if \<not> same_credential c' c \<or> \<not> same_screen x' x \<or> generation_of x' \<noteq> generation_of x \<or>
               \<not> same_challenge h' h \<or>
               (case dc_expiresAt c' of None \<Rightarrow> False | Some t \<Rightarrow> t \<le> now e) \<or>
               ch_credentialId h' \<noteq> dp_credentialId input \<or>
               ch_organizationId h' \<noteq> dc_organizationId c' \<or>
               \<not> challenge_matches input (now e) h'
            then (None, s)
            else (Some (c', x'),
                  s\<lparr>deviceAuthChallenges := update_first (\<lambda>k. ch_id k = dp_challengeId input)
                       (\<lambda>k. k\<lparr>ch_consumedAt := Some (now e)\<rparr>) (deviceAuthChallenges s)\<rparr>)
        | _ \<Rightarrow> (None, s)))"

definition consumeDeviceProof ::
  "env \<Rightarrow> env \<Rightarrow> (store \<Rightarrow> store) \<Rightarrow> device_proof_input \<Rightarrow> (device_credential \<Rightarrow> bool) \<Rightarrow> store
    \<Rightarrow> (device_credential \<times> screen) option \<times> store" where
  "consumeDeviceProof e1 e2 interfere input verify s =
     (case begin_proof e1 input s of
        None \<Rightarrow> (None, s)
      | Some (c, x, h) \<Rightarrow>
          if verify c then finish_proof e2 input (c, x, h) (interfere s) else (None, interfere s))"

definition consumeDeviceAuthChallenge ::
  "env \<Rightarrow> env \<Rightarrow> (store \<Rightarrow> store) \<Rightarrow> device_proof_input \<Rightarrow> (device_credential \<Rightarrow> bool) \<Rightarrow> store
    \<Rightarrow> proof_result \<times> store" where
  "consumeDeviceAuthChallenge e1 e2 interfere input verify s =
     (case consumeDeviceProof e1 e2 interfere input verify s of
        (None, s') \<Rightarrow> (INVALID_PROOF, s')
      | (Some (c, x), s') \<Rightarrow> (Authenticated c (publicScreen s' x), s'))"

text \<open>The screen of a consumed proof takes the heartbeat.\<close>

definition record_heartbeat :: "env \<Rightarrow> heartbeat_input \<Rightarrow> screen \<Rightarrow> store \<Rightarrow> store" where
  "record_heartbeat e data x s =
     s\<lparr>screens := update_first (is_screen (sc_organizationId x) (sc_id x))
          (apply_heartbeat data (now e)) (screens s)\<rparr>"

definition heartbeatWithDeviceProof ::
  "env \<Rightarrow> env \<Rightarrow> (store \<Rightarrow> store) \<Rightarrow> device_proof_input \<Rightarrow> heartbeat_input
    \<Rightarrow> (device_credential \<Rightarrow> bool) \<Rightarrow> store \<Rightarrow> proof_result \<times> store" where
  "heartbeatWithDeviceProof e1 e2 interfere input data verify s =
     (case consumeDeviceProof e1 e2 interfere input verify s of
        (None, s') \<Rightarrow> (INVALID_PROOF, s')
      | (Some (c, x), s') \<Rightarrow>
          (let s'' = record_heartbeat e2 data x s'
           in (Authenticated c (publicScreen s'' (apply_heartbeat data (now e2) x)), s'')))"

section \<open>Revocation\<close>

definition pending_in :: "string \<Rightarrow> string \<Rightarrow> pairing \<Rightarrow> bool" where
  "pending_in org screenId g \<longleftrightarrow> pr_organizationId g = org \<and> pending_for screenId g"

definition not_consumed :: "pairing_attempt \<Rightarrow> bool" where
  "not_consumed a \<longleftrightarrow> pa_consumedAt a = None"

text \<open>The attached credential of the screen, or else a revoked one.\<close>

definition credential_to_revoke :: "store \<Rightarrow> string \<Rightarrow> string \<Rightarrow> device_credential option" where
  "credential_to_revoke s org screenId =
     (case List.find (attached org screenId) (deviceCredentials s) of
        Some c \<Rightarrow> Some c
      | None \<Rightarrow> List.find (\<lambda>c. credential_of_screen org screenId c \<and> dc_revokedAt c \<noteq> None)
          (deviceCredentials s))"

text \<open>No credential left to revoke: the pending grants of the screen are withdrawn.\<close>

definition reassert_revocation ::
  "env \<Rightarrow> string \<Rightarrow> string \<Rightarrow> audit_context \<Rightarrow> device_credential option \<Rightarrow> screen \<Rightarrow> store
    \<Rightarrow> (store, device_credential option answer) outcome" where
  "reassert_revocation e org screenId audit credential x s =
     (let pending = filter (pending_in org screenId) (pairings s) in
      if pending = []
      then (Inr (Denied (if credential = None then NOT_FOUND else ALREADY_REVOKED)), s)
      else with_audit e 0
        (user_event org audit ''device.credential.revocation_reasserted''
           (if credential = None then ''screen'' else ''device_credential'')
           (Some (case credential of None \<Rightarrow> screenId | Some c \<Rightarrow> dc_id c))
           [(js ''screenId'', jstr screenId),
            (js ''cancelledGrantIds'', JArr (map (\<lambda>g. jstr (pr_id g)) pending))]) s
        (\<lambda>r.
          (let s1 = revoke_grants (pending_in org screenId) not_consumed (cancel_at (now e)) s
           in (Inr (Done credential),
               s1\<lparr>screens := update_first (is_screen org screenId)
                    (revoke_screen (now e) (generation_of x + 1)) (screens s1),
                  auditRecords := auditRecords s1 @ [r]\<rparr>))))"

definition revoke_credential ::
  "env \<Rightarrow> string \<Rightarrow> string \<Rightarrow> audit_context \<Rightarrow> device_credential \<Rightarrow> screen \<Rightarrow> store
    \<Rightarrow> (store, device_credential option answer) outcome" where
  "revoke_credential e org screenId audit c x s =
     with_audit e 0
       (user_event org audit ''device.credential.revoked'' ''device_credential'' (Some (dc_id c))
          [(js ''screenId'', jstr (dc_screenId c)), (js ''keyId'', jstr (dc_keyId c))]) s
       (\<lambda>r.
         (let f = (\<lambda>c. c\<lparr>dc_revokedAt := Some (now e), dc_detached := True\<rparr>);
              s1 = revoke_grants (pending_for screenId) not_consumed (cancel_at (now e)) s
          in (Inr (Done (Some (f c))),
              s1\<lparr>deviceCredentials := update_first (attached org screenId) f (deviceCredentials s1),
                 screens := update_first (is_screen org screenId)
                   (revoke_screen (now e) (generation_of x + 1)) (screens s1),
                 deviceAuthChallenges := consume_challenges (now e) [dc_id c]
                   (deviceAuthChallenges s1),
                 auditRecords := auditRecords s1 @ [r]\<rparr>)))"

definition revokeDeviceCredentialAndAudit ::
  "env \<Rightarrow> string \<Rightarrow> string \<Rightarrow> audit_context \<Rightarrow> store
    \<Rightarrow> (store, device_credential option answer) outcome" where
  "revokeDeviceCredentialAndAudit e org screenId audit s =
     (if adminActor s org (ac_actorUserId audit) = None then (Inr (Denied FORBIDDEN), s)
      else case screen_of s org screenId of
        None \<Rightarrow> (Inr (Denied NOT_FOUND), s)
      | Some x \<Rightarrow>
          (case credential_to_revoke s org screenId of
             None \<Rightarrow> reassert_revocation e org screenId audit None x s
           | Some c \<Rightarrow>
               if dc_revokedAt c \<noteq> None then reassert_revocation e org screenId audit (Some c) x s
               else revoke_credential e org screenId audit c x s))"

section \<open>Facts\<close>

interpretation revoke_device:
  audited_operation "revokeDeviceCredentialAndAudit e org i audit" for e org i audit
  by unfold_locales
    (auto simp: revokeDeviceCredentialAndAudit_def reassert_revocation_def revoke_credential_def
      Let_def split: split_cases)

subsection \<open>Active credentials\<close>

lemma activeDeviceCredential_SomeD:
  assumes "activeDeviceCredential e s i = Some (c, x)"
  shows "c \<in> set (deviceCredentials s)" "dc_id c = i" "credential_live (now e) c"
    "x \<in> set (screens s)" "sc_id x = dc_screenId c" "sc_organizationId x = dc_organizationId c"
  using assms
  by (auto simp: activeDeviceCredential_def screen_of_def is_screen_def
      split: option.splits dest!: find_SomeD)

lemma credential_live_attached:
  "credential_live t c \<Longrightarrow> attached (dc_organizationId c) (dc_screenId c) c \<and> dc_revokedAt c = None"
  by (auto simp: credential_live_def attached_def credential_of_screen_def)

subsection \<open>A proof is consumed once\<close>

text \<open>
  A challenge identifier is spent when no proof can use it any more: the record is consumed, or
  gone.
\<close>

definition spent :: "store \<Rightarrow> string \<Rightarrow> bool" where
  "spent s i \<longleftrightarrow> (case List.find (\<lambda>k. ch_id k = i) (deviceAuthChallenges s) of
     None \<Rightarrow> True | Some h \<Rightarrow> ch_consumedAt h \<noteq> None)"

lemma finish_proof_spent:
  "spent s (dp_challengeId input) \<Longrightarrow> finish_proof e input active s = (None, s)"
  by (auto simp: finish_proof_def spent_def challenge_matches_def split: prod.splits option.splits)

lemma finish_proof_None: "finish_proof e input active s = (None, s') \<Longrightarrow> s' = s"
  by (auto simp: finish_proof_def split: prod.splits option.splits if_splits)

lemma find_update_first_same:
  "(\<And>x. P (f x) = P x) \<Longrightarrow>
    List.find P (update_first P f xs) = map_option f (List.find P xs)"
  by (induction xs) auto

lemma finish_proof_Some:
  assumes "finish_proof e input (c, x, h) s = (Some (c', x'), s')"
  shows "activeDeviceCredential e s (dp_credentialId input) = Some (c', x')"
    "same_credential c' c" "same_screen x' x" "generation_of x' = generation_of x"
    "\<exists>h'. List.find (\<lambda>k. ch_id k = dp_challengeId input) (deviceAuthChallenges s) = Some h' \<and>
       same_challenge h' h \<and> challenge_matches input (now e) h' \<and>
       ch_credentialId h' = dp_credentialId input \<and> ch_organizationId h' = dc_organizationId c'"
    "s' = s\<lparr>deviceAuthChallenges := update_first (\<lambda>k. ch_id k = dp_challengeId input)
       (\<lambda>k. k\<lparr>ch_consumedAt := Some (now e)\<rparr>) (deviceAuthChallenges s)\<rparr>"
  using assms unfolding finish_proof_def
  by (auto split: option.splits if_splits)

lemma finish_proof_spends:
  assumes "finish_proof e input (c, x, h) s = (Some r, s')"
  shows "spent s' (dp_challengeId input)"
proof -
  obtain c' x' where r: "r = (c', x')" by fastforce
  from finish_proof_Some(5,6) [OF assms [unfolded r]] show ?thesis
    by (auto simp: spent_def find_update_first_same)
qed

lemma consumeDeviceProof_Some:
  assumes "consumeDeviceProof e1 e2 interfere input verify s = (Some (c', x'), s')"
  obtains c x h where "begin_proof e1 input s = Some (c, x, h)" "verify c"
    "finish_proof e2 input (c, x, h) (interfere s) = (Some (c', x'), s')"
  using assms unfolding consumeDeviceProof_def
  by (auto split: option.splits if_splits)

lemma begin_proof_SomeD:
  assumes "begin_proof e input s = Some (c, x, h)"
  shows "activeDeviceCredential e s (dp_credentialId input) = Some (c, x)"
    "h \<in> set (deviceAuthChallenges s)" "ch_id h = dp_challengeId input"
    "ch_credentialId h = dp_credentialId input" "challenge_matches input (now e) h"
  using assms unfolding begin_proof_def
  by (auto split: option.splits if_splits dest: find_SomeD)

subsection \<open>Open challenges\<close>

lemma pruneOldDeviceAuthChallenges_frame [simp]:
  "screens (pruneOldDeviceAuthChallenges e s) = screens s"
  "deviceCredentials (pruneOldDeviceAuthChallenges e s) = deviceCredentials s"
  "usedDeviceKeyIds (pruneOldDeviceAuthChallenges e s) = usedDeviceKeyIds s"
  "pairings (pruneOldDeviceAuthChallenges e s) = pairings s"
  "auditRecords (pruneOldDeviceAuthChallenges e s) = auditRecords s"
  by (simp_all add: pruneOldDeviceAuthChallenges_def Let_def)

lemma prune_challenges_filter:
  "\<exists>P. deviceAuthChallenges (pruneOldDeviceAuthChallenges e s) = filter P (deviceAuthChallenges s)"
  by (auto simp: pruneOldDeviceAuthChallenges_def Let_def intro: exI [of _ "\<lambda>_. True"])

lemma length_filter_filter: "length (filter P (filter Q xs)) \<le> length (filter P xs)"
  by (induction xs) auto

definition open_count :: "store \<Rightarrow> instant \<Rightarrow> string \<Rightarrow> auth_operation \<Rightarrow> nat" where
  "open_count s t credentialId op =
     length (filter (open_challenge t credentialId op) (deviceAuthChallenges s))"

lemma issue_challenge_cases:
  assumes "issueDeviceAuthChallenge e input s = (res, s')"
  obtains (Refused) "res = None" "s' = s"
  | (Issued) c where "res = Some c" "ch_id c = new_id e 0" "ch_consumedAt c = None"
      "now e < ch_expiresAt c" "ch_expiresAt c \<le> now e + 60000"
      "open_count s (now e) (ch_credentialId c) (ch_operation c) < 4"
      "s' = (pruneOldDeviceAuthChallenges e s)\<lparr>deviceAuthChallenges :=
         deviceAuthChallenges (pruneOldDeviceAuthChallenges e s) @ [c]\<rparr>"
proof (cases "authenticateDeviceCredential e s (ic_screenId input) (ic_keyId input)")
  case INVALID_PROOF
  with assms show ?thesis by (intro Refused) (simp_all add: issueDeviceAuthChallenge_def)
next
  case (Authenticated credential x)
  show ?thesis
  proof (cases "auth_challenge_refused e s input credential")
    case True
    with Authenticated assms show ?thesis
      by (intro Refused) (simp_all add: issueDeviceAuthChallenge_def)
  next
    case False
    let ?c = "\<lparr>ch_id = new_id e 0, ch_organizationId = dc_organizationId credential,
                   ch_credentialId = dc_id credential,
                   ch_challengeHashSha256 = ic_challengeHashSha256 input,
                   ch_operation = ic_operation input,
                   ch_requestDigestSha256 = ic_requestDigestSha256 input,
                   ch_expiresAt = ic_expiresAt input, ch_consumedAt = None,
                   ch_createdAt = now e\<rparr>"
    from False Authenticated assms show ?thesis
      by (intro Issued [of ?c])
        (simp_all add: issueDeviceAuthChallenge_def Let_def auth_challenge_refused_def
          open_count_def)
  qed
qed

lemma issue_challenge_bound:
  assumes "issueDeviceAuthChallenge e input s = (res, s')"
    and "open_count s (now e) i op \<le> 4"
  shows "open_count s' (now e) i op \<le> 4"
  using assms(1)
proof (cases rule: issue_challenge_cases)
  case Refused
  with assms(2) show ?thesis by simp
next
  case (Issued c)
  obtain P where P: "deviceAuthChallenges (pruneOldDeviceAuthChallenges e s) =
      filter P (deviceAuthChallenges s)" using prune_challenges_filter by blast
  have le: "length (filter (open_challenge (now e) i op) (filter P (deviceAuthChallenges s)))
      \<le> open_count s (now e) i op" unfolding open_count_def by (rule length_filter_filter)
  show ?thesis
  proof (cases "ch_credentialId c = i \<and> ch_operation c = op")
    case True
    with Issued(6) have "open_count s (now e) i op < 4" by simp
    with le show ?thesis unfolding Issued(7) by (simp add: open_count_def P)
  next
    case False
    then have "\<not> open_challenge (now e) i op c" by (auto simp: open_challenge_def)
    with le assms(2) show ?thesis unfolding Issued(7) by (simp add: open_count_def P)
  qed
qed

end
