(* ===== verification/Device_Authority.thy ===== *)
theory Device_Authority
  imports DeviceProof
begin

text \<open>
  What the pairing, enrollment and proof operations keep of the device authority: keys are used
  once, a screen has at most one attached credential, and a pending reenrollment grant can only
  be activated while its screen has none.  The steps of the device component and their
  invariant.
\<close>

section \<open>The invariant\<close>

text \<open>A pending reenrollment grant, and what it may assume of the screen it targets.\<close>

definition grant_sound :: "screen list \<Rightarrow> device_credential list \<Rightarrow> pairing \<Rightarrow> bool" where
  "grant_sound xs cs g \<longleftrightarrow> (pr_status g = PENDING \<and> pr_purpose g = Some REENROLL \<longrightarrow>
     (\<forall>x \<in> set xs. pr_targetScreenId g = Some (sc_id x) \<longrightarrow>
        (\<exists>n. pr_expectedGeneration g = Some n \<and> 1 \<le> n \<and> n \<le> generation_of x \<and>
           (n = generation_of x \<longrightarrow>
              \<not> (\<exists>c \<in> set cs. attached (sc_organizationId x) (sc_id x) c)))))"

definition single_attached :: "device_credential list \<Rightarrow> bool" where
  "single_attached cs \<longleftrightarrow> (\<forall>org i. \<forall>c \<in> set cs. \<forall>d \<in> set cs.
     attached org i c \<longrightarrow> attached org i d \<longrightarrow> c = d)"

definition authority ::
  "screen list \<Rightarrow> device_credential list \<Rightarrow> string list \<Rightarrow> pairing list \<Rightarrow> bool" where
  "authority xs cs keys ps \<longleftrightarrow>
     distinct (map sc_id xs) \<and> (\<forall>x \<in> set xs. 0 \<le> generation_of x) \<and>
     distinct (map dc_id cs) \<and> distinct (map dc_keyId cs) \<and> set keys = dc_keyId ` set cs \<and>
     (\<forall>c \<in> set cs. \<not> dc_detached c \<longrightarrow> dc_revokedAt c = None) \<and>
     single_attached cs \<and> (\<forall>g \<in> set ps. grant_sound xs cs g)"

definition device_inv :: "store \<Rightarrow> bool" where
  "device_inv s \<longleftrightarrow>
     authority (screens s) (deviceCredentials s) (usedDeviceKeyIds s) (pairings s)"

lemma device_inv_empty [simp]: "device_inv (empty_store\<lparr>users := us\<rparr>)"
  by (simp add: device_inv_def authority_def empty_store_def single_attached_def)

section \<open>Changes that only take authority away\<close>

text \<open>Screens that may have gone or advanced their generation.\<close>

definition screens_advance :: "screen list \<Rightarrow> screen list \<Rightarrow> bool" where
  "screens_advance xs' xs \<longleftrightarrow> (\<forall>x' \<in> set xs'. \<exists>x \<in> set xs.
     sc_id x' = sc_id x \<and> sc_organizationId x' = sc_organizationId x \<and>
     generation_of x \<le> generation_of x')"

text \<open>Credentials that may have been detached, and are otherwise the same.\<close>

definition only_detaches :: "(device_credential \<Rightarrow> device_credential) \<Rightarrow> bool" where
  "only_detaches f \<longleftrightarrow> (\<forall>c. dc_id (f c) = dc_id c \<and> dc_keyId (f c) = dc_keyId c \<and>
     dc_organizationId (f c) = dc_organizationId c \<and> dc_screenId (f c) = dc_screenId c \<and>
     (\<not> dc_detached (f c) \<longrightarrow> f c = c))"

lemma attached_after_detach:
  "only_detaches f \<Longrightarrow> attached org i (f c) \<Longrightarrow> f c = c \<and> attached org i c"
  by (metis attached_def only_detaches_def)

lemma authority_weaken:
  assumes auth: "authority xs cs keys ps"
    and xs: "distinct (map sc_id xs')" "screens_advance xs' xs"
    and cs: "only_detaches f"
    and ps: "pending_from ps' ps"
  shows "authority xs' (map f cs) keys ps'"
proof -
  have ids: "map dc_id (map f cs) = map dc_id cs" "map dc_keyId (map f cs) = map dc_keyId cs"
    using cs by (simp_all add: only_detaches_def)
  have gens: "\<forall>x \<in> set xs'. 0 \<le> generation_of x"
    using auth xs(2) by (fastforce simp: authority_def screens_advance_def)
  have live: "\<forall>c \<in> set (map f cs). \<not> dc_detached c \<longrightarrow> dc_revokedAt c = None"
    using auth cs by (fastforce simp: authority_def only_detaches_def)
  have att: "c \<in> set cs \<and> attached org i c" if "c \<in> set (map f cs)" "attached org i c" for c org i
    using that attached_after_detach [OF cs] by force
  have single: "single_attached (map f cs)"
    using auth att unfolding authority_def single_attached_def by blast
  have "grant_sound xs' (map f cs) g" if g: "g \<in> set ps'" for g
    unfolding grant_sound_def
  proof (intro impI ballI)
    fix x' assume pend: "pr_status g = PENDING \<and> pr_purpose g = Some REENROLL"
      and x': "x' \<in> set xs'" "pr_targetScreenId g = Some (sc_id x')"
    obtain x where x: "x \<in> set xs" "sc_id x' = sc_id x"
      "sc_organizationId x' = sc_organizationId x" "generation_of x \<le> generation_of x'"
      using xs(2) x'(1) unfolding screens_advance_def by blast
    have "grant_sound xs cs g"
      using auth ps g pend by (auto simp: authority_def pending_from_def)
    then obtain n where n: "pr_expectedGeneration g = Some n" "1 \<le> n" "n \<le> generation_of x"
      "n = generation_of x \<Longrightarrow> \<not> (\<exists>c \<in> set cs. attached (sc_organizationId x) (sc_id x) c)"
      using pend x x'(2) unfolding grant_sound_def by auto
    show "\<exists>n. pr_expectedGeneration g = Some n \<and> 1 \<le> n \<and> n \<le> generation_of x' \<and>
        (n = generation_of x' \<longrightarrow>
          \<not> (\<exists>c \<in> set (map f cs). attached (sc_organizationId x') (sc_id x') c))"
    proof (intro exI [of _ n] conjI impI)
      assume "n = generation_of x'"
      with n(3) x(4) have "n = generation_of x" by simp
      from n(4) [OF this] show "\<not> (\<exists>c \<in> set (map f cs). attached (sc_organizationId x') (sc_id x') c)"
        unfolding x(2,3) using att by blast
    qed (use n x(4) in auto)
  qed
  moreover have "dc_keyId ` set (map f cs) = dc_keyId ` set cs" by (metis ids(2) list.set_map)
  ultimately show ?thesis
    using auth gens live single xs(1) unfolding authority_def ids
    by (intro conjI ballI) (simp_all del: set_map list.set_map)
qed

lemma screens_advance_refl [simp]: "screens_advance xs xs"
  by (auto simp: screens_advance_def)

lemma screens_advance_subset: "set xs' \<subseteq> set xs \<Longrightarrow> screens_advance xs' xs"
  by (auto simp: screens_advance_def)

lemma screens_advance_update_first:
  assumes "\<And>x. List.find P xs = Some x \<Longrightarrow> sc_id (f x) = sc_id x \<and>
    sc_organizationId (f x) = sc_organizationId x \<and> generation_of x \<le> generation_of (f x)"
  shows "screens_advance (update_first P f xs) xs"
  unfolding screens_advance_def
proof
  fix x' assume "x' \<in> set (update_first P f xs)"
  then show "\<exists>x \<in> set xs. sc_id x' = sc_id x \<and> sc_organizationId x' = sc_organizationId x \<and>
      generation_of x \<le> generation_of x'"
  proof (rule in_update_firstE)
    fix y assume y: "List.find P xs = Some y" "x' = f y"
    with assms [OF y(1)] find_SomeD [OF y(1)] show ?thesis by (intro bexI [of _ y]) auto
  qed auto
qed

lemma only_detaches_id [simp]: "only_detaches (\<lambda>c. c)"
  by (simp add: only_detaches_def)

section \<open>Changes that give authority\<close>

lemma authority_add_grant:
  assumes "authority xs cs keys ps" "grant_sound xs cs g"
  shows "authority xs cs keys (ps @ [g])"
  using assms by (auto simp: authority_def)

lemma authority_add_screen:
  assumes auth: "authority xs cs keys ps"
    and fresh: "sc_id x \<notin> sc_id ` set xs"
      "\<forall>g \<in> set ps. pr_status g = PENDING \<longrightarrow> pr_targetScreenId g \<noteq> Some (sc_id x)"
    and gen: "0 \<le> generation_of x"
  shows "authority (xs @ [x]) cs keys ps"
  using auth fresh(1) gen unfolding authority_def
  by (auto simp: grant_sound_def fresh(2))

text \<open>
  A credential with a new key may be attached to a screen that has none, provided no grant for
  the screen expects the generation the screen has now.
\<close>

lemma authority_add_credential:
  assumes auth: "authority xs cs keys ps"
    and new: "dc_id c \<notin> dc_id ` set cs" "dc_keyId c \<notin> dc_keyId ` set cs"
    and live: "dc_revokedAt c = None"
    and none: "\<not> (\<exists>d \<in> set cs. attached (dc_organizationId c) (dc_screenId c) d)"
    and grants: "\<And>g x. g \<in> set ps \<Longrightarrow> pr_status g = PENDING \<Longrightarrow> pr_purpose g = Some REENROLL \<Longrightarrow>
      x \<in> set xs \<Longrightarrow> sc_id x = dc_screenId c \<Longrightarrow> pr_targetScreenId g = Some (sc_id x) \<Longrightarrow>
      pr_expectedGeneration g \<noteq> Some (generation_of x)"
  shows "authority xs (cs @ [c]) (List.insert (dc_keyId c) keys) ps"
proof -
  have single: "single_attached (cs @ [c])"
    using auth none unfolding authority_def single_attached_def
    by (auto simp: attached_def credential_of_screen_def)
  have sound: "grant_sound xs (cs @ [c]) g" if g: "g \<in> set ps" for g
  proof -
    have old: "grant_sound xs cs g" using auth g by (simp add: authority_def)
    show ?thesis unfolding grant_sound_def
    proof (intro impI ballI)
      fix x assume a: "pr_status g = PENDING \<and> pr_purpose g = Some REENROLL" "x \<in> set xs"
        "pr_targetScreenId g = Some (sc_id x)"
      then obtain n where n: "pr_expectedGeneration g = Some n" "1 \<le> n" "n \<le> generation_of x"
        "n = generation_of x \<Longrightarrow> \<not> (\<exists>c \<in> set cs. attached (sc_organizationId x) (sc_id x) c)"
        using old unfolding grant_sound_def by blast
      have "sc_id x \<noteq> dc_screenId c" if "n = generation_of x"
        using grants [OF g] a n(1) that by auto
      with n show "\<exists>n. pr_expectedGeneration g = Some n \<and> 1 \<le> n \<and> n \<le> generation_of x \<and>
          (n = generation_of x \<longrightarrow>
            \<not> (\<exists>d \<in> set (cs @ [c]). attached (sc_organizationId x) (sc_id x) d))"
        by (intro exI [of _ n]) (auto simp: attached_def credential_of_screen_def)
    qed
  qed
  from auth new live single sound show ?thesis
    by (auto simp: authority_def)
qed

section \<open>Preservation, operation by operation\<close>

definition fresh_device_ids :: "env \<Rightarrow> store \<Rightarrow> bool" where
  "fresh_device_ids e s \<longleftrightarrow> (\<forall>k.
     new_id e k \<notin> sc_id ` set (screens s) \<and> new_id e k \<notin> dc_id ` set (deviceCredentials s) \<and>
     new_id e k \<notin> dc_screenId ` set (deviceCredentials s) \<and>
     (\<forall>g \<in> set (pairings s). pr_status g = PENDING \<longrightarrow> pr_targetScreenId g \<noteq> Some (new_id e k)))"

lemma fresh_device_idsD:
  assumes "fresh_device_ids e s"
  shows "x \<in> set (screens s) \<Longrightarrow> new_id e k \<noteq> sc_id x"
    "c \<in> set (deviceCredentials s) \<Longrightarrow> new_id e k \<noteq> dc_id c"
    "c \<in> set (deviceCredentials s) \<Longrightarrow> new_id e k \<noteq> dc_screenId c"
    "g \<in> set (pairings s) \<Longrightarrow> pr_status g = PENDING \<Longrightarrow> pr_targetScreenId g \<noteq> Some (new_id e k)"
  using assms by (auto simp: fresh_device_ids_def)

text \<open>The common case: nothing is given, some authority may be taken.\<close>

lemma device_inv_weaken:
  assumes "device_inv s" "distinct (map sc_id (screens s'))" "screens_advance (screens s') (screens s)"
    and "deviceCredentials s' = map f (deviceCredentials s)" "only_detaches f"
    and "usedDeviceKeyIds s' = usedDeviceKeyIds s" "pending_from (pairings s') (pairings s)"
  shows "device_inv s'"
  using assms unfolding device_inv_def by (simp add: authority_weaken)

lemma device_inv_same_screens:
  assumes "device_inv s" "screens s' = screens s"
    and "deviceCredentials s' = map f (deviceCredentials s)" "only_detaches f"
    and "usedDeviceKeyIds s' = usedDeviceKeyIds s" "pending_from (pairings s') (pairings s)"
  shows "device_inv s'"
  using assms by (intro device_inv_weaken [OF assms(1)]) (auto simp: device_inv_def authority_def)

lemma device_inv_frame:
  assumes "device_inv s" "screens s' = screens s" "deviceCredentials s' = deviceCredentials s"
    and "usedDeviceKeyIds s' = usedDeviceKeyIds s" "pending_from (pairings s') (pairings s)"
  shows "device_inv s'"
  using assms by (intro device_inv_same_screens [OF assms(1), where f = "\<lambda>c. c"]) auto

lemma identity_step_device:
  assumes "identity_step e s s'" "device_inv s"
  shows "device_inv s'"
  using assms(2) identity_frame_fields [OF identity_step_frame [OF assms(1)]]
    identity_step_pending [OF assms(1)]
  by (intro device_inv_frame [OF assms(2)]) simp_all

text \<open>The screens of a store that satisfies the invariant have different identifiers.\<close>

lemma device_inv_distinct: "device_inv s \<Longrightarrow> distinct (map sc_id (screens s))"
  by (simp add: device_inv_def authority_def)

lemma device_inv_screen_update:
  assumes "device_inv s" "screens s' = update_first P f (screens s)"
    and "\<And>x. sc_id (f x) = sc_id x \<and> sc_organizationId (f x) = sc_organizationId x"
    and "\<And>x. List.find P (screens s) = Some x \<Longrightarrow> generation_of x \<le> generation_of (f x)"
    and "deviceCredentials s' = map g (deviceCredentials s)" "only_detaches g"
    and "usedDeviceKeyIds s' = usedDeviceKeyIds s" "pending_from (pairings s') (pairings s)"
  shows "device_inv s'"
proof (rule device_inv_weaken [OF assms(1) _ _ assms(5,6,7,8)])
  show "distinct (map sc_id (screens s'))"
    using device_inv_distinct [OF assms(1)] assms(3) by (simp add: assms(2) map_update_first)
  show "screens_advance (screens s') (screens s)"
    unfolding assms(2) using assms(3,4) by (intro screens_advance_update_first) auto
qed

lemma screen_update_credentials:
  assumes "device_inv s" "screens s' = update_first P f (screens s)"
    and "\<And>x. sc_id (f x) = sc_id x \<and> sc_organizationId (f x) = sc_organizationId x"
    and "\<And>x. List.find P (screens s) = Some x \<Longrightarrow> generation_of x \<le> generation_of (f x)"
    and "deviceCredentials s' = deviceCredentials s"
    and "usedDeviceKeyIds s' = usedDeviceKeyIds s" "pending_from (pairings s') (pairings s)"
  shows "device_inv s'"
  using device_inv_screen_update [OF assms(1-4), where g = "\<lambda>c. c"] assms(5-) by simp

lemma device_inv_add_screen:
  assumes "device_inv s" "screens s' = screens s @ [x]" "generation_of x = 0"
    and "sc_id x \<notin> sc_id ` set (screens s)"
      "\<forall>g \<in> set (pairings s). pr_status g = PENDING \<longrightarrow> pr_targetScreenId g \<noteq> Some (sc_id x)"
    and "deviceCredentials s' = deviceCredentials s"
    and "usedDeviceKeyIds s' = usedDeviceKeyIds s" "pending_from (pairings s') (pairings s)"
  shows "device_inv s'"
proof -
  have "authority (screens s) (map (\<lambda>c. c) (deviceCredentials s)) (usedDeviceKeyIds s) (pairings s)"
    using assms(1) by (simp add: device_inv_def)
  then have "authority (screens s @ [x]) (deviceCredentials s) (usedDeviceKeyIds s) (pairings s)"
    using assms(3-5) by (intro authority_add_screen) simp_all
  then have "authority (screens s @ [x]) (map (\<lambda>c. c) (deviceCredentials s)) (usedDeviceKeyIds s) (pairings s')"
    using assms(8) by (intro authority_weaken [where xs = "screens s @ [x]"]) (auto simp: authority_def)
  then show ?thesis by (simp add: device_inv_def assms(2,6,7))
qed

text \<open>Detaching the credentials that satisfy a condition.\<close>

definition detach_by ::
  "(device_credential \<Rightarrow> bool) \<Rightarrow> (device_credential \<Rightarrow> instant option) \<Rightarrow> device_credential
    \<Rightarrow> device_credential" where
  "detach_by P r c = (if P c then c\<lparr>dc_revokedAt := r c, dc_detached := True\<rparr> else c)"

lemma only_detaches_detach_by [simp]: "only_detaches (detach_by P r)"
  by (simp add: only_detaches_def detach_by_def)

lemma detach_by_where:
  "update_where P (\<lambda>c. c\<lparr>dc_revokedAt := r c, dc_detached := True\<rparr>) cs = map (detach_by P r) cs"
  "update_where P (\<lambda>c. c\<lparr>dc_detached := True, dc_revokedAt := r c\<rparr>) cs = map (detach_by P r) cs"
  by (simp_all add: update_where_def detach_by_def)

lemma not_attached_detach_by [simp]: "\<not> attached org i (detach_by (attached org i) r c)"
  by (simp add: detach_by_def attached_def)

lemma attached_none_after_detach:
  "c \<in> set (map (detach_by (attached org i) r) cs) \<Longrightarrow> \<not> attached org i c"
  by (metis (no_types, lifting) ex_map_conv not_attached_detach_by)

lemma generation_preserved [simp]:
  "generation_of (apply_heartbeat d t x) = generation_of x"
  "generation_of (apply_patch p tags t x) = generation_of x"
  "sc_id (apply_heartbeat d t x) = sc_id x"
  "sc_id (apply_patch p tags t x) = sc_id x"
  "sc_organizationId (apply_heartbeat d t x) = sc_organizationId x"
  "sc_organizationId (apply_patch p tags t x) = sc_organizationId x"
  "sc_id (revoke_screen t n x) = sc_id x"
  "sc_organizationId (revoke_screen t n x) = sc_organizationId x"
  "generation_of (revoke_screen t n x) = n"
  "sc_id (install_device a n t x) = sc_id x"
  "sc_organizationId (install_device a n t x) = sc_organizationId x"
  "generation_of (install_device a n t x) = n"
  by (simp_all add: generation_of_def apply_heartbeat_def apply_patch_def revoke_screen_def
      install_device_def clear_telemetry_def)

lemma new_screen_key [simp]:
  "sc_id (new_screen i org d tags t) = i" "generation_of (new_screen i org d tags t) = 0"
  "sc_id (device_screen i org dev tok t) = i" "generation_of (device_screen i org dev tok t) = 0"
  by (simp_all add: new_screen_def device_screen_def generation_of_def)

lemma heartbeat_device:
  "heartbeat e i beat s = (res, s') \<Longrightarrow> device_inv s \<Longrightarrow> device_inv s'"
  by (auto simp: heartbeat_def split: option.splits intro: screen_update_credentials)

lemma updateScreen_device:
  "updateScreenAndAudit e org i patch audit s = (res, s') \<Longrightarrow> device_inv s \<Longrightarrow> device_inv s'"
  by (auto simp: updateScreenAndAudit_def Let_def split: split_cases intro: screen_update_credentials)

lemma createScreen_device:
  "createScreenAndAudit e org data audit s = (res, s') \<Longrightarrow> device_inv s \<Longrightarrow> fresh_device_ids e s \<Longrightarrow>
    device_inv s'"
  by (auto simp: createScreenAndAudit_def Let_def split: split_cases
      intro!: device_inv_add_screen [of s] dest: fresh_device_idsD)

lemma deleteScreen_device:
  assumes "deleteScreenAndAudit e org i audit s = (res, s')" "device_inv s"
  shows "device_inv s'"
proof -
  have "s' = s \<or> screens s' = remove_first (is_screen org i) (screens s) \<and>
      deviceCredentials s' = update_where (credential_of_screen org i)
        (\<lambda>c. c\<lparr>dc_detached := True, dc_revokedAt := assign_if_absent (dc_revokedAt c) (now e)\<rparr>)
        (deviceCredentials s) \<and> usedDeviceKeyIds s' = usedDeviceKeyIds s \<and>
      pending_from (pairings s') (pairings s)"
    using assms(1) by (auto simp: deleteScreenAndAudit_def pending_from_intros split: split_cases)
  then consider "s' = s" | "screens s' = remove_first (is_screen org i) (screens s)"
    "deviceCredentials s' = map (detach_by (credential_of_screen org i)
       (\<lambda>c. assign_if_absent (dc_revokedAt c) (now e))) (deviceCredentials s)"
    "usedDeviceKeyIds s' = usedDeviceKeyIds s" "pending_from (pairings s') (pairings s)"
    unfolding detach_by_where by blast
  then show ?thesis
  proof cases
    case 2
    show ?thesis
    proof (rule device_inv_weaken [OF assms(2) _ _ 2(2) only_detaches_detach_by 2(3,4)])
      show "distinct (map sc_id (screens s'))"
        unfolding 2(1) using device_inv_distinct [OF assms(2)] by (rule distinct_map_remove_first)
      show "screens_advance (screens s') (screens s)"
        unfolding 2(1) by (intro screens_advance_subset) (auto dest: in_remove_first)
    qed
  qed (use assms(2) in simp)
qed

lemma screen_step_device:
  assumes "screen_step e s s'" "device_inv s" "fresh_device_ids e s"
  shows "device_inv s'"
  using assms(1)
proof cases
  case (location_created org name audit lres)
  then show ?thesis using assms(2)
    by (auto simp: createLocationAndAudit_def Let_def split: split_cases intro: device_inv_frame)
next
  case (location_updated org i name audit lres)
  then show ?thesis using assms(2)
    by (auto simp: updateLocationAndAudit_def split: split_cases intro: device_inv_frame)
next
  case (location_deleted org i audit ures)
  then show ?thesis using assms(2)
    by (auto simp: deleteLocationAndAudit_def split: split_cases intro: device_inv_frame)
qed (use assms in \<open>blast intro: createScreen_device updateScreen_device deleteScreen_device
    heartbeat_device\<close>)+

subsection \<open>Grants and codes\<close>

lemma createPairing_device:
  assumes "tryCreatePairingAndAudit e org codeHash expiresAt audit s = (res, s')" "device_inv s"
  shows "device_inv s'"
proof -
  have "authority (screens s) (map (\<lambda>c. c) (deviceCredentials s)) (usedDeviceKeyIds s)
      (update_where (expired_code t codeHash) (\<lambda>g. g\<lparr>pr_status := EXPIRED\<rparr>) (pairings s))" for t
    using assms(2) unfolding device_inv_def
    by (rule authority_weaken) (auto simp: device_inv_distinct [OF assms(2)] pending_from_update_where)
  then have "authority (screens s) (deviceCredentials s) (usedDeviceKeyIds s)
      (update_where (expired_code t codeHash) (\<lambda>g. g\<lparr>pr_status := EXPIRED\<rparr>) (pairings s) @
       [plain_pairing i org codeHash expiresAt])" for t i
    by (intro authority_add_grant) (simp_all add: grant_sound_def plain_pairing_def)
  with assms show ?thesis
    by (auto simp: tryCreatePairingAndAudit_def device_inv_def Let_def split: split_cases)
qed

lemma updated_screen:
  assumes "distinct (map sc_id xs)" "List.find (is_screen org i) xs = Some x"
    and "\<And>y. sc_id (f y) = sc_id y"
    and "x' \<in> set (update_first (is_screen org i) f xs)" "sc_id x' = i"
  shows "x' = f x"
proof -
  have x: "x \<in> set xs" "sc_id x = i" using assms(2) by (auto dest: find_SomeD simp: is_screen_def)
  have "update_first (is_screen org i) f xs = update_where (\<lambda>y. sc_id y = sc_id x) f xs"
    using assms(1,2) by (rule update_first_as_where)
  with assms(4) have "x' \<in> set (update_where (\<lambda>y. sc_id y = sc_id x) f xs)" by simp
  then show ?thesis
  proof (rule in_update_whereE)
    fix y assume "y \<in> set xs" "sc_id y = sc_id x" "x' = f y"
    with distinct_key_inj [OF assms(1) _ x(1)] show ?thesis by auto
  qed (use x assms(5) in simp)
qed

lemma grant_reenrollment_effect:
  "screens (grant_reenrollment e org i n g s) =
     update_first (is_screen org i) (revoke_screen (now e) n) (screens s)"
  "deviceCredentials (grant_reenrollment e org i n g s) =
     map (detach_by (attached org i) (\<lambda>c. assign_if_absent (dc_revokedAt c) (now e)))
       (deviceCredentials s)"
  "usedDeviceKeyIds (grant_reenrollment e org i n g s) = usedDeviceKeyIds s"
  "\<exists>ps. pairings (grant_reenrollment e org i n g s) = ps @ [g] \<and> pending_from ps (pairings s)"
  using pending_from_trans [OF revoke_grants_pending prune_authority_pending]
  by (auto simp: grant_reenrollment_def Let_def detach_credentials_def detach_by_where)

lemma requestReenrollment_device:
  assumes "requestScreenReenrollmentAndAudit e org i codeHash expiresAt reason audit s = (res, s')"
    and inv: "device_inv s"
  shows "device_inv s'"
  using request_reenrollment_cases [OF assms(1)]
proof (elim disjE exE conjE)
  fix x grant r
  let ?n = "generation_of x + 1"
  let ?f = "revoke_screen (now e) ?n"
  let ?s = "grant_reenrollment e org i ?n grant s"
  assume x: "List.find (is_screen org i) (screens s) = Some x"
    and grant: "pr_targetScreenId grant = Some i" "pr_expectedGeneration grant = Some ?n"
    and s': "s' = ?s\<lparr>auditRecords := auditRecords s @ [r]\<rparr>"
  obtain ps where ps: "pairings ?s = ps @ [grant]" "pending_from ps (pairings s)"
    using grant_reenrollment_effect(4) by blast
  have xin: "x \<in> set (screens s)" "sc_organizationId x = org" "sc_id x = i"
    using x by (auto dest: find_SomeD simp: is_screen_def)
  have pos: "0 \<le> generation_of x" using inv xin(1) by (simp add: device_inv_def authority_def)
  have "device_inv (?s\<lparr>pairings := ps\<rparr>)"
    by (rule device_inv_screen_update [OF inv, where f = ?f and P = "is_screen org i"])
      (use ps(2) x in \<open>auto simp: grant_reenrollment_effect intro: only_detaches_detach_by\<close>)
  then have "authority (screens ?s) (deviceCredentials ?s) (usedDeviceKeyIds ?s) ps"
    by (simp add: device_inv_def)
  moreover have "grant_sound (screens ?s) (deviceCredentials ?s) grant"
    unfolding grant_sound_def
  proof (intro impI ballI)
    fix x' assume "x' \<in> set (screens ?s)" "pr_targetScreenId grant = Some (sc_id x')"
    then have x': "x' = ?f x"
      using updated_screen [OF device_inv_distinct [OF inv] x] grant(1)
      by (simp add: grant_reenrollment_effect)
    have "\<not> (\<exists>c \<in> set (deviceCredentials ?s). attached org i c)"
      unfolding grant_reenrollment_effect using attached_none_after_detach by blast
    with grant(2) pos xin x' show "\<exists>n. pr_expectedGeneration grant = Some n \<and> 1 \<le> n \<and>
        n \<le> generation_of x' \<and> (n = generation_of x' \<longrightarrow>
          \<not> (\<exists>c \<in> set (deviceCredentials ?s). attached (sc_organizationId x') (sc_id x') c))"
      by (intro exI [of _ ?n]) simp
  qed
  ultimately show ?thesis unfolding s' device_inv_def using ps(1) by (simp add: authority_add_grant)
qed (use inv in simp)

lemma requestEnrollment_device:
  assumes "requestScreenEnrollmentAndAudit e org i reason audit idem s = (res, s')"
    and inv: "device_inv s"
  shows "device_inv s'"
proof -
  have "screens s' = screens s \<and> deviceCredentials s' = deviceCredentials s \<and>
      usedDeviceKeyIds s' = usedDeviceKeyIds s \<and>
      (pending_from (pairings s') (pairings s) \<or>
       (\<exists>ps g. pairings s' = ps @ [g] \<and> pending_from ps (pairings s) \<and> pr_purpose g = Some NEW_SCREEN))"
    using assms(1) pending_from_trans [OF revoke_grants_pending prune_authority_pending]
    by (auto simp: requestScreenEnrollmentAndAudit_def Let_def new_grant_def remember_enrollment_def
        prune_authority_pending dest!: replay_enrollment_request_cases split: split_cases)
  then consider "screens s' = screens s" "deviceCredentials s' = deviceCredentials s"
      "usedDeviceKeyIds s' = usedDeviceKeyIds s" "pending_from (pairings s') (pairings s)"
    | ps g where "screens s' = screens s" "deviceCredentials s' = deviceCredentials s"
      "usedDeviceKeyIds s' = usedDeviceKeyIds s" "pairings s' = ps @ [g]"
      "pending_from ps (pairings s)" "pr_purpose g = Some NEW_SCREEN" by blast
  then show ?thesis
  proof cases
    case 1
    then show ?thesis by (rule device_inv_frame [OF inv])
  next
    case (2 ps g)
    have "device_inv (s'\<lparr>pairings := ps\<rparr>)" by (rule device_inv_frame [OF inv]) (simp_all add: 2)
    moreover have "grant_sound (screens s') (deviceCredentials s') g"
      by (simp add: grant_sound_def 2(6))
    ultimately show ?thesis unfolding device_inv_def 2(4)
      by (intro authority_add_grant) simp_all
  qed
qed

subsection \<open>Activation\<close>

text \<open>Binding a new key to a screen without an attached credential, at a higher generation.\<close>

lemma device_inv_bind:
  assumes inv: "device_inv s" and fresh: "fresh_device_ids e s"
    and x: "List.find (is_screen org i) (screens s) = Some x"
    and xs: "screens s' = update_first (is_screen org i) (install_device a n t) (screens s)"
    and n: "generation_of x \<le> n"
    and c: "dc_id c = new_id e k" "dc_organizationId c = org" "dc_screenId c = i"
      "dc_revokedAt c = None"
    and key: "dc_keyId c \<notin> dc_keyId ` set (deviceCredentials s)"
    and none: "\<not> (\<exists>d \<in> set (deviceCredentials s). attached org i d)"
    and cs: "deviceCredentials s' = deviceCredentials s @ [c]"
    and us: "usedDeviceKeyIds s' = List.insert (dc_keyId c) (usedDeviceKeyIds s)"
    and ps: "pending_from (pairings s') (pairings s)"
    and grants: "\<And>g. g \<in> set (pairings s') \<Longrightarrow> pr_status g = PENDING \<Longrightarrow> pr_purpose g = Some REENROLL \<Longrightarrow>
      pr_targetScreenId g \<noteq> Some i"
  shows "device_inv s'"
proof -
  have "device_inv (s'\<lparr>deviceCredentials := deviceCredentials s, usedDeviceKeyIds := usedDeviceKeyIds s\<rparr>)"
    by (rule screen_update_credentials [OF inv, where f = "install_device a n t" and P = "is_screen org i"])
      (use xs x n ps in auto)
  then have base: "authority (screens s') (deviceCredentials s) (usedDeviceKeyIds s) (pairings s')"
    by (simp add: device_inv_def)
  show ?thesis unfolding device_inv_def cs us
  proof (rule authority_add_credential [OF base])
    show "dc_id c \<notin> dc_id ` set (deviceCredentials s)"
      using fresh c(1) by (auto dest: fresh_device_idsD)
    show "\<not> (\<exists>d \<in> set (deviceCredentials s). attached (dc_organizationId c) (dc_screenId c) d)"
      using none c by simp
    show "pr_expectedGeneration g \<noteq> Some (generation_of x')"
      if "g \<in> set (pairings s')" "pr_status g = PENDING" "pr_purpose g = Some REENROLL"
        "x' \<in> set (screens s')" "sc_id x' = dc_screenId c" "pr_targetScreenId g = Some (sc_id x')" for g x'
      using grants [OF that(1-3)] that(5,6) c(3) by simp
  qed (use key c in simp_all)
qed

lemma new_credential_fields [simp]:
  "dc_id (new_credential i org x a t) = i" "dc_organizationId (new_credential i org x a t) = org"
  "dc_screenId (new_credential i org x a t) = x" "dc_revokedAt (new_credential i org x a t) = None"
  "dc_keyId (new_credential i org x a t) = pa_keyId a"
  "dc_detached (new_credential i org x a t) = False"
  by (simp_all add: new_credential_def)

lemma bind_candidate_effect:
  "screens (bind_candidate P Q a g n c t s) = update_first P (install_device a n t) (screens s)"
  "deviceCredentials (bind_candidate P Q a g n c t s) = deviceCredentials s @ [c]"
  "usedDeviceKeyIds (bind_candidate P Q a g n c t s) = List.insert (dc_keyId c) (usedDeviceKeyIds s)"
  by (simp_all add: bind_candidate_def)

lemma reenroll_screen_effect:
  "screens (reenroll_screen e org i g k a n c s) =
     update_first (is_screen org i) (install_device a n (now e)) (screens s)"
  "deviceCredentials (reenroll_screen e org i g k a n c s) = deviceCredentials s @ [c]"
  "usedDeviceKeyIds (reenroll_screen e org i g k a n c s) =
     List.insert (dc_keyId c) (usedDeviceKeyIds s)"
  "pending_from (pairings (reenroll_screen e org i g k a n c s)) (pairings s)"
  by (auto simp: reenroll_screen_def Let_def bind_candidate_effect
      intro!: pending_from_trans [OF pending_from_update_where pending_from_update_first])

lemma reenroll_screen_none_pending:
  "p \<in> set (pairings (reenroll_screen e org i g k a n c s)) \<Longrightarrow> \<not> pending_for i p"
  by (auto simp: reenroll_screen_def Let_def pending_for_def elim!: in_update_whereE)

lemma enroll_screen_effect:
  "screens (enroll_screen e org i g k h a c s) =
     update_first (is_screen org i) (install_device a 1 (now e)) (screens s)"
  "deviceCredentials (enroll_screen e org i g k h a c s) = deviceCredentials s @ [c]"
  "usedDeviceKeyIds (enroll_screen e org i g k h a c s) =
     List.insert (dc_keyId c) (usedDeviceKeyIds s)"
  "pending_from (pairings (enroll_screen e org i g k h a c s)) (pairings s)"
proof -
  show "pending_from (pairings (enroll_screen e org i g k h a c s)) (pairings s)"
    unfolding enroll_screen_def Let_def
    by (rule pending_from_trans [OF revoke_grants_pending])
      (auto intro!: pending_from_trans [OF pending_from_update_first prune_authority_pending])
qed (simp_all add: enroll_screen_def Let_def bind_candidate_effect)

lemma grant_of_screen:
  assumes "device_inv s" "g \<in> set (pairings s)" "pr_status g = PENDING" "pr_purpose g = Some REENROLL"
    and "List.find (is_screen org i) (screens s) = Some x" "pr_targetScreenId g = Some i"
  obtains n where "pr_expectedGeneration g = Some n" "1 \<le> n" "n \<le> generation_of x"
    "n = generation_of x \<Longrightarrow> \<not> (\<exists>c \<in> set (deviceCredentials s). attached org i c)"
proof -
  have x: "x \<in> set (screens s)" "sc_id x = i" "sc_organizationId x = org"
    using assms(5) by (auto dest: find_SomeD simp: is_screen_def)
  have "grant_sound (screens s) (deviceCredentials s) g"
    using assms(1,2) by (simp add: device_inv_def authority_def)
  with assms(3,4,6) x show ?thesis using that unfolding grant_sound_def by fastforce
qed

lemma used_keys: "device_inv s \<Longrightarrow> set (usedDeviceKeyIds s) = dc_keyId ` set (deviceCredentials s)"
  by (simp add: device_inv_def authority_def)

lemma key_used_iff:
  "device_inv s \<Longrightarrow> key_used s k \<longleftrightarrow> k \<in> dc_keyId ` set (deviceCredentials s)"
  by (auto simp: key_used_def used_keys list_ex_iff)

lemma activateReenrollment_device:
  assumes "activateReenrollmentCandidateAndAudit e org i grantId candidateId audit s = (res, s')"
    and inv: "device_inv s" and fresh: "fresh_device_ids e s"
  shows "device_inv s'"
  using activate_reenroll_cases [OF assms(1)]
proof (elim disjE exE conjE)
  fix a g x credential r
  let ?s = "reenroll_screen e org i grantId candidateId a (generation_of x + 1) credential s"
  assume g: "List.find (reenroll_grant i grantId (Some a)) (pairings s) = Some g"
    and x: "screen_of s org i = Some x" and ready: "reenroll_ready (now e) g x"
    and key: "\<not> key_used s (pa_keyId a)"
    and cred: "credential = new_credential (new_id e 0) org i a (now e)"
    and s': "s' = ?s\<lparr>auditRecords := auditRecords s @ [r]\<rparr>"
  have x': "List.find (is_screen org i) (screens s) = Some x" using x by (simp add: screen_of_def)
  have gin: "g \<in> set (pairings s)" "pr_targetScreenId g = Some i" "pr_purpose g = Some REENROLL"
    using g by (auto dest!: find_SomeD simp: reenroll_grant_def)
  have none: "\<not> (\<exists>c \<in> set (deviceCredentials s). attached org i c)"
    using grant_of_screen [OF inv gin(1) _ gin(3) x' gin(2)] ready
    by (auto simp: reenroll_ready_def)
  have "device_inv ?s"
    by (rule device_inv_bind [OF inv fresh x', where n = "generation_of x + 1" and c = credential])
      (use cred key none reenroll_screen_none_pending in
        \<open>auto simp: reenroll_screen_effect key_used_iff [OF inv] pending_for_def\<close>)
  then show ?thesis by (simp add: s' device_inv_def)
qed (use inv in simp)

lemma activateEnrollment_device:
  assumes "activateScreenEnrollmentCandidateAndAudit e org i grantId candidateId fingerprint audit
      keyHash digest s = (res, s')"
    and inv: "device_inv s" and fresh: "fresh_device_ids e s"
  shows "device_inv s'"
  using activate_enroll_cases [OF assms(1)]
proof (elim disjE exE conjE)
  fix a g x credential r
  let ?s = "enroll_screen e org i grantId candidateId keyHash a credential s"
  assume x: "screen_of s org i = Some x" and ready: "enrollment_ready e s org g a x"
    and cred: "credential = new_credential (new_id e 0) org i a (now e)"
    and s': "s' = remember_enrollment e Enroll_activate org keyHash (ac_actorUserId audit) digest
        (Credential_response (dc_id credential)) (?s\<lparr>auditRecords := auditRecords s @ [r]\<rparr>)"
  have x': "List.find (is_screen org i) (screens s) = Some x" using x by (simp add: screen_of_def)
  then have id: "sc_id x = i" by (auto dest: find_SomeD simp: is_screen_def)
  have gen: "generation_of x = 0" using ready by (auto simp: enrollment_ready_def)
  have none: "\<not> (\<exists>c \<in> set (deviceCredentials s). attached org i c)"
    using ready id by (auto simp: enrollment_ready_def never_enrolled_def list_ex_iff attached_def)
  have key: "pa_keyId a \<notin> dc_keyId ` set (deviceCredentials s)"
    using ready used_keys [OF inv] by (auto simp: enrollment_ready_def)
  have "device_inv ?s"
  proof (rule device_inv_bind [OF inv fresh x', where n = 1 and c = credential])
    show "pr_targetScreenId p \<noteq> Some i"
      if p: "p \<in> set (pairings ?s)" "pr_status p = PENDING" "pr_purpose p = Some REENROLL" for p
    proof
      assume "pr_targetScreenId p = Some i"
      moreover have "p \<in> set (pairings s)"
        using enroll_screen_effect(4) p unfolding pending_from_def by blast
      ultimately show False using grant_of_screen [OF inv _ p(2,3) x'] gen by auto
    qed
  qed (use cred key none gen in \<open>auto simp: enroll_screen_effect\<close>)
  then show ?thesis by (simp add: s' device_inv_def)
qed (use inv in \<open>auto intro: device_inv_frame simp: prune_authority_pending\<close>)

subsection \<open>Cancellation, challenges and claims\<close>

lemma cancel_device:
  "cancelScreenReenrollmentAndAudit e org i g audit purpose s = (res, s') \<Longrightarrow> device_inv s \<Longrightarrow>
    device_inv s'"
  by (auto simp: cancelScreenReenrollmentAndAudit_def Let_def split: split_cases
      intro!: device_inv_frame [of s] pending_from_update_first)

lemma claimRecord_effect:
  assumes "claimPairingRecord e i h dev tok s = (res, s')"
  shows "s' = s \<or> (\<exists>org. screens s' = screens s @ [device_screen i org dev (Some tok) (now e)] \<and>
    deviceCredentials s' = deviceCredentials s \<and> usedDeviceKeyIds s' = usedDeviceKeyIds s \<and>
    pending_from (pairings s') (pairings s))"
  using assms
  by (auto simp: claimPairingRecord_def Let_def pending_from_update_first split: option.splits)

lemma claimRecord_device:
  assumes "claimPairingRecord e (new_id e k) h dev tok s = (res, s')"
    and inv: "device_inv s" and fresh: "fresh_device_ids e s"
  shows "device_inv s'"
  using claimRecord_effect [OF assms(1)]
proof (elim disjE exE conjE)
  fix org
  assume fs: "screens s' = screens s @ [device_screen (new_id e k) org dev (Some tok) (now e)]"
    "deviceCredentials s' = deviceCredentials s" "usedDeviceKeyIds s' = usedDeviceKeyIds s"
    "pending_from (pairings s') (pairings s)"
  show ?thesis
    by (rule device_inv_add_screen [OF inv fs(1) _ _ _ fs(2-4)])
      (use fresh in \<open>auto dest: fresh_device_idsD\<close>)
qed (use inv in simp)

lemma claimCode_device:
  assumes "claimPairingAndAudit e codeHash device tokenHash audit s = (res, s')"
    and inv: "device_inv s" and fresh: "fresh_device_ids e s"
  shows "device_inv s'"
proof -
  obtain res1 s1 where c: "claimPairingRecord e (new_id e 0) codeHash device tokenHash s = (res1, s1)"
    by fastforce
  have "s' = s \<or> s' = s1 \<or> (\<exists>rs. s' = s1\<lparr>auditRecords := rs\<rparr>)"
    using assms(1) c by (auto simp: claimPairingAndAudit_def split: split_cases)
  then show ?thesis using claimRecord_device [OF c inv fresh] inv
    by (elim disjE exE) (simp_all add: device_inv_def)
qed

lemma issuePairing_device:
  "issuePairingChallenge e input s = (res, s') \<Longrightarrow> device_inv s \<Longrightarrow> device_inv s'"
  by (auto simp: issuePairingChallenge_def Let_def split: split_cases intro!: device_inv_frame [of s])

lemma pairNewScreen_effect:
  assumes "pair_new_screen e input audit a p s = (res, s')"
  shows "s' = s \<or> (let c = new_credential (new_id e 1) (pr_organizationId p) (new_id e 0) a (now e) in
    screens s' = screens s @ [device_screen (new_id e 0) (pr_organizationId p) (cl_device input) None (now e)] \<and>
    deviceCredentials s' = deviceCredentials s @ [c] \<and>
    usedDeviceKeyIds s' = List.insert (dc_keyId c) (usedDeviceKeyIds s) \<and>
    pending_from (pairings s') (pairings s) \<and> (\<exists>y. res = Inr (Paired c y)))"
  using assms
  by (auto simp: pair_new_screen_def Let_def pending_from_update_first split: split_cases)

lemma pairNewScreen_device:
  assumes "pair_new_screen e input audit a p s = (res, s')"
    and key: "\<not> list_ex (\<lambda>c. dc_keyId c = pa_keyId a) (deviceCredentials s)"
    and inv: "device_inv s" and fresh: "fresh_device_ids e s"
  shows "device_inv s'"
  using pairNewScreen_effect [OF assms(1)] unfolding Let_def
proof (elim disjE conjE)
  let ?x = "device_screen (new_id e 0) (pr_organizationId p) (cl_device input) None (now e)"
  let ?c = "new_credential (new_id e 1) (pr_organizationId p) (new_id e 0) a (now e)"
  assume xs: "screens s' = screens s @ [?x]" and cs: "deviceCredentials s' = deviceCredentials s @ [?c]"
    and us: "usedDeviceKeyIds s' = List.insert (dc_keyId ?c) (usedDeviceKeyIds s)"
    and ps: "pending_from (pairings s') (pairings s)"
  have "device_inv (s'\<lparr>deviceCredentials := deviceCredentials s, usedDeviceKeyIds := usedDeviceKeyIds s\<rparr>)"
    by (rule device_inv_add_screen [OF inv, where x = ?x])
      (use xs ps fresh in \<open>auto dest: fresh_device_idsD\<close>)
  then have base: "authority (screens s') (deviceCredentials s) (usedDeviceKeyIds s) (pairings s')"
    by (simp add: device_inv_def)
  show ?thesis unfolding device_inv_def cs us
  proof (rule authority_add_credential [OF base])
    show "dc_id ?c \<notin> dc_id ` set (deviceCredentials s)"
      using fresh by (auto dest: fresh_device_idsD)
    show "dc_keyId ?c \<notin> dc_keyId ` set (deviceCredentials s)" using key by (auto simp: list_ex_iff)
    show "\<not> (\<exists>d \<in> set (deviceCredentials s). attached (dc_organizationId ?c) (dc_screenId ?c) d)"
      using fresh by (auto simp: attached_def credential_of_screen_def dest: fresh_device_idsD)
    show "pr_expectedGeneration g \<noteq> Some (generation_of x')"
      if "g \<in> set (pairings s')" "pr_status g = PENDING" "pr_purpose g = Some REENROLL"
        "x' \<in> set (screens s')" "sc_id x' = dc_screenId ?c" "pr_targetScreenId g = Some (sc_id x')" for g x'
      using that ps fresh_device_idsD(4) [OF fresh, of g 0] by (auto simp: pending_from_def)
  qed simp
qed (use inv in simp)

lemma claimCredential_device:
  assumes "claimPairingWithCredentialAndAudit e input verify audit s = (res, s')"
    and inv: "device_inv s" and fresh: "fresh_device_ids e s"
  shows "device_inv s'"
  using assms(1)
proof (cases rule: claim_cases)
  case (Proved a p)
  with inv show ?thesis by (auto dest!: prove_candidate_cases intro!: device_inv_frame [of s])
next
  case (Pair a p)
  then show ?thesis using pairNewScreen_device inv fresh by blast
qed (use inv in simp)

lemma issueChallenge_device:
  assumes "issueDeviceAuthChallenge e input s = (res, s')" "device_inv s"
  shows "device_inv s'"
  using assms(1) by (cases rule: issue_challenge_cases) (auto intro: device_inv_frame assms(2))

lemma finishProof_device:
  assumes "finish_proof e input active s = (res, s')" "device_inv s"
  shows "device_inv s'"
  using assms
  by (auto simp: finish_proof_def split: prod.splits split_cases intro!: device_inv_frame [of s])

lemma recordHeartbeat_device:
  "device_inv s \<Longrightarrow> device_inv (record_heartbeat e data x s)"
  by (rule screen_update_credentials [where f = "apply_heartbeat data (now e)"])
    (auto simp: record_heartbeat_def)

subsection \<open>Revocation\<close>

lemma detach_first:
  assumes "device_inv s" "List.find (attached org i) (deviceCredentials s) = Some c"
  shows "update_first (attached org i) (\<lambda>c. c\<lparr>dc_revokedAt := r, dc_detached := True\<rparr>)
      (deviceCredentials s) = map (detach_by (attached org i) (\<lambda>_. r)) (deviceCredentials s)"
proof -
  have c: "c \<in> set (deviceCredentials s)" "attached org i c" using assms(2) by (auto dest: find_SomeD)
  have ids: "distinct (map dc_id (deviceCredentials s))" and single: "single_attached (deviceCredentials s)"
    using assms(1) by (simp_all add: device_inv_def authority_def)
  have "(dc_id d = dc_id c) = attached org i d" if "d \<in> set (deviceCredentials s)" for d
    using single that c distinct_key_inj [OF ids that c(1)] unfolding single_attached_def by blast
  then have "update_where (\<lambda>d. dc_id d = dc_id c) (\<lambda>c. c\<lparr>dc_revokedAt := r, dc_detached := True\<rparr>)
      (deviceCredentials s) = map (detach_by (attached org i) (\<lambda>_. r)) (deviceCredentials s)"
    by (simp add: update_where_def detach_by_def)
  with update_first_as_where [OF ids assms(2)] show ?thesis by simp
qed

text \<open>The two outcomes of a completed revocation, on the parts that carry authority.\<close>

lemma revoke_effect:
  assumes "revokeDeviceCredentialAndAudit e org i audit s = (res, s')" and inv: "device_inv s"
  shows "s' = s \<and> (\<forall>v. res \<noteq> Inr (Done v)) \<or>
    (\<exists>x r. List.find (is_screen org i) (screens s) = Some x \<and>
      screens s' = update_first (is_screen org i) (revoke_screen (now e) (generation_of x + 1)) (screens s) \<and>
      deviceCredentials s' = map (detach_by (attached org i) r) (deviceCredentials s) \<and>
      usedDeviceKeyIds s' = usedDeviceKeyIds s \<and> pending_from (pairings s') (pairings s) \<and>
      (\<forall>g \<in> set (pairings s'). \<not> pending_in org i g))"
proof (cases "screen_of s org i")
  case None
  with assms show ?thesis
    by (auto simp: revokeDeviceCredentialAndAudit_def split: split_cases)
next
  case (Some x)
  have nopend: "\<not> pending_in org i g" if "g \<in> set (pairings (revoke_grants (pending_for i) Q f s))" for g Q f
    using revoke_grants_none [OF that] by (auto simp: pending_in_def pending_for_def)
  have nopend': "\<not> pending_in org i g" if "g \<in> set (pairings (revoke_grants (pending_in org i) Q f s))" for g Q f
    using revoke_grants_none [OF that] by (auto simp: pending_in_def pending_for_def)
  show ?thesis
  proof (cases "credential_to_revoke s org i")
    case None
    then have "\<forall>c \<in> set (deviceCredentials s). \<not> attached org i c"
      by (auto simp: credential_to_revoke_def find_None_all split: option.splits)
    then have id: "map (detach_by (attached org i) r) (deviceCredentials s) = deviceCredentials s" for r
      by (intro map_idI) (simp add: detach_by_def)
    with None Some assms(1) show ?thesis
      by (auto simp: revokeDeviceCredentialAndAudit_def reassert_revocation_def screen_of_def Let_def
          revoke_grants_pending nopend' split: split_cases)
  next
    case (Some c)
    note c = this
    show ?thesis
    proof (cases "List.find (attached org i) (deviceCredentials s)")
      case None
      with c have revoked: "dc_revokedAt c \<noteq> None"
        by (auto simp: credential_to_revoke_def dest: find_SomeD)
      have "\<forall>c \<in> set (deviceCredentials s). \<not> attached org i c" using None by (simp add: find_None_all)
      then have id: "map (detach_by (attached org i) r) (deviceCredentials s) = deviceCredentials s" for r
        by (intro map_idI) (simp add: detach_by_def)
      with c revoked \<open>screen_of s org i = Some x\<close> assms(1) show ?thesis
        by (auto simp: revokeDeviceCredentialAndAudit_def reassert_revocation_def screen_of_def Let_def
            revoke_grants_pending nopend' split: split_cases)
    next
      case (Some d)
      with c have d: "d = c" by (simp add: credential_to_revoke_def)
      then have "\<not> dc_detached c" "c \<in> set (deviceCredentials s)"
        using find_SomeD [OF Some] by (auto simp: attached_def)
      then have live: "dc_revokedAt c = None" using inv by (auto simp: device_inv_def authority_def)
      from detach_first [OF inv Some] have
        "update_first (attached org i) (\<lambda>c. c\<lparr>dc_revokedAt := Some (now e), dc_detached := True\<rparr>)
          (deviceCredentials s) = map (detach_by (attached org i) (\<lambda>_. Some (now e))) (deviceCredentials s)" .
      with c live \<open>screen_of s org i = Some x\<close> assms(1) show ?thesis
        by (auto simp: revokeDeviceCredentialAndAudit_def revoke_credential_def screen_of_def Let_def
            revoke_grants_pending nopend split: split_cases)
    qed
  qed
qed

lemma revoke_device:
  assumes "revokeDeviceCredentialAndAudit e org i audit s = (res, s')" and inv: "device_inv s"
  shows "device_inv s'"
  using revoke_effect [OF assms]
proof (elim disjE exE conjE)
  fix x r
  assume x: "List.find (is_screen org i) (screens s) = Some x"
    and fs: "screens s' = update_first (is_screen org i) (revoke_screen (now e) (generation_of x + 1)) (screens s)"
      "deviceCredentials s' = map (detach_by (attached org i) r) (deviceCredentials s)"
      "usedDeviceKeyIds s' = usedDeviceKeyIds s" "pending_from (pairings s') (pairings s)"
  show ?thesis
    by (rule device_inv_screen_update [OF inv fs(1) _ _ fs(2) only_detaches_detach_by fs(3,4)])
      (use x in auto)
qed (use inv in simp)

section \<open>Steps\<close>

text \<open>
  The steps of the device operations.  A proof takes two steps of the store: its first look
  changes nothing, so only the second one appears, with whatever the first look returned.
\<close>

inductive device_step :: "env \<Rightarrow> store \<Rightarrow> store \<Rightarrow> bool" for e s where
  code_created:
    "tryCreatePairingAndAudit e org h t audit s = (pres, s') \<Longrightarrow> device_step e s s'"
| reenrollment_requested:
    "requestScreenReenrollmentAndAudit e org i h t reason audit s = (pres, s') \<Longrightarrow> device_step e s s'"
| enrollment_requested:
    "requestScreenEnrollmentAndAudit e org i reason audit idem s = (eres, s') \<Longrightarrow> device_step e s s'"
| reenrollment_activated:
    "activateReenrollmentCandidateAndAudit e org i g c audit s = (ares, s') \<Longrightarrow> device_step e s s'"
| enrollment_activated:
    "activateScreenEnrollmentCandidateAndAudit e org i g c f audit h d s = (bres, s') \<Longrightarrow>
      device_step e s s'"
| grant_cancelled:
    "cancelScreenReenrollmentAndAudit e org i g audit purpose s = (ures, s') \<Longrightarrow> device_step e s s'"
| code_claimed: "claimPairingAndAudit e h dev tok caudit s = (xres, s') \<Longrightarrow> device_step e s s'"
| pairing_challenged: "issuePairingChallenge e pinput s = (hres, s') \<Longrightarrow> device_step e s s'"
| credential_claimed:
    "claimPairingWithCredentialAndAudit e cinput verify caudit s = (cres, s') \<Longrightarrow> device_step e s s'"
| device_challenged: "issueDeviceAuthChallenge e iinput s = (ires, s') \<Longrightarrow> device_step e s s'"
| proof_finished: "finish_proof e dinput active s = (fres, s') \<Longrightarrow> device_step e s s'"
| heartbeat_recorded: "s' = record_heartbeat e data x s \<Longrightarrow> device_step e s s'"
| credential_revoked:
    "revokeDeviceCredentialAndAudit e org i audit s = (rres, s') \<Longrightarrow> device_step e s s'"

lemma device_step_inv:
  assumes "device_step e s s'" and inv: "device_inv s" and fresh: "fresh_device_ids e s"
  shows "device_inv s'"
  using assms(1)
proof cases
  case (heartbeat_recorded data x)
  then show ?thesis using recordHeartbeat_device [OF inv] by simp
qed (use inv fresh in \<open>blast intro: createPairing_device requestReenrollment_device requestEnrollment_device
    activateReenrollment_device activateEnrollment_device cancel_device claimCode_device
    issuePairing_device claimCredential_device issueChallenge_device finishProof_device revoke_device\<close>)+

text \<open>The fields the component owns.\<close>

definition device_frame :: "store \<Rightarrow> store \<Rightarrow> bool" where
  "device_frame s s' \<longleftrightarrow>
     s' = s\<lparr>screens := screens s', pairings := pairings s', pairingAttempts := pairingAttempts s',
            deviceCredentials := deviceCredentials s',
            deviceAuthChallenges := deviceAuthChallenges s',
            usedDeviceKeyIds := usedDeviceKeyIds s',
            enrollmentIdempotency := enrollmentIdempotency s', auditRecords := auditRecords s'\<rparr>"

lemma device_frame_fields:
  assumes "device_frame s s'"
  shows "users s' = users s"
    "userSessions s' = userSessions s"
    "loginFailures s' = loginFailures s"
    "locations s' = locations s"
    "medias s' = medias s"
    "playlists s' = playlists s"
    "schedules s' = schedules s"
    "releases s' = releases s"
    "releaseAssignments s' = releaseAssignments s"
    "releaseCandidates s' = releaseCandidates s"
    "candidateIdempotency s' = candidateIdempotency s"
    "idempotencyRecords s' = idempotencyRecords s"
    "emergencies s' = emergencies s"
  using arg_cong [OF assms [unfolded device_frame_def], of users]
    arg_cong [OF assms [unfolded device_frame_def], of userSessions]
    arg_cong [OF assms [unfolded device_frame_def], of loginFailures]
    arg_cong [OF assms [unfolded device_frame_def], of locations]
    arg_cong [OF assms [unfolded device_frame_def], of medias]
    arg_cong [OF assms [unfolded device_frame_def], of playlists]
    arg_cong [OF assms [unfolded device_frame_def], of schedules]
    arg_cong [OF assms [unfolded device_frame_def], of releases]
    arg_cong [OF assms [unfolded device_frame_def], of releaseAssignments]
    arg_cong [OF assms [unfolded device_frame_def], of releaseCandidates]
    arg_cong [OF assms [unfolded device_frame_def], of candidateIdempotency]
    arg_cong [OF assms [unfolded device_frame_def], of idempotencyRecords]
    arg_cong [OF assms [unfolded device_frame_def], of emergencies]
  by simp_all

lemma device_frame_refl [simp]: "device_frame s s"
  by (simp add: device_frame_def)

lemmas device_helpers = pruneDeviceEnrollmentAuthority_def revoke_grants_def detach_credentials_def
  remember_enrollment_def bind_candidate_def pruneOldDeviceAuthChallenges_def

lemma claimRecord_writes:
  assumes "claimPairingRecord e i h dev tok s = (res, s')"
  obtains xs ps where "s' = s\<lparr>screens := xs, pairings := ps\<rparr>"
proof (cases "claimablePairing e s h")
  case None
  with assms have "s' = s\<lparr>screens := screens s, pairings := pairings s\<rparr>"
    by (simp add: claimPairingRecord_def)
  then show ?thesis by (rule that)
next
  case (Some p)
  with assms have "s' = s\<lparr>screens := screens s @ [device_screen i (pr_organizationId p) dev (Some tok) (now e)],
      pairings := update_first (claimable (now e) h)
        (\<lambda>q. q\<lparr>pr_status := CLAIMED, pr_screenId := Some i\<rparr>) (pairings s)\<rparr>"
    by (simp add: claimPairingRecord_def Let_def)
  then show ?thesis by (rule that)
qed

lemma device_step_frame:
  assumes "device_step e s s'"
  shows "device_frame s s'"
  using assms
proof cases
  case (code_created org h t audit pres)
  then show ?thesis
    by (auto simp: tryCreatePairingAndAudit_def device_frame_def Let_def split: split_cases)
next
  case (reenrollment_requested org i h t reason audit pres)
  from request_reenrollment_cases [OF this] show ?thesis
    by (auto simp: device_frame_def grant_reenrollment_def device_helpers Let_def)
next
  case (enrollment_requested org i reason audit idem eres)
  then show ?thesis
    by (auto simp: requestScreenEnrollmentAndAudit_def device_frame_def device_helpers Let_def
        dest!: replay_enrollment_request_cases split: split_cases)
next
  case (reenrollment_activated org i g c audit ares)
  from activate_reenroll_cases [OF this] show ?thesis
    by (auto simp: device_frame_def reenroll_screen_def device_helpers Let_def)
next
  case (enrollment_activated org i g c f audit h d bres)
  from activate_enroll_cases [OF this] show ?thesis
    by (auto simp: device_frame_def enroll_screen_def device_helpers Let_def)
next
  case (grant_cancelled org i g audit purpose ures)
  then show ?thesis
    by (auto simp: cancelScreenReenrollmentAndAudit_def device_frame_def Let_def split: split_cases)
next
  case (code_claimed h dev tok caudit xres)
  obtain res1 s1 where c: "claimPairingRecord e (new_id e 0) h dev tok s = (res1, s1)" by fastforce
  then obtain xs ps where s1: "s1 = s\<lparr>screens := xs, pairings := ps\<rparr>"
    by (rule claimRecord_writes)
  have "s' = s \<or> s' = s1 \<or> (\<exists>rs. s' = s1\<lparr>auditRecords := rs\<rparr>)"
    using code_claimed c by (auto simp: claimPairingAndAudit_def split: split_cases)
  then show ?thesis by (elim disjE exE) (simp_all add: s1 device_frame_def)
next
  case (pairing_challenged pinput hres)
  then show ?thesis
    by (auto simp: issuePairingChallenge_def device_frame_def Let_def split: split_cases)
next
  case (credential_claimed cinput verify caudit cres)
  then show ?thesis
  proof (cases rule: claim_cases)
    case (Proved a p)
    then show ?thesis by (auto dest!: prove_candidate_cases simp: device_frame_def)
  next
    case (Pair a p)
    then show ?thesis by (auto simp: pair_new_screen_def device_frame_def Let_def split: split_cases)
  qed simp
next
  case (device_challenged iinput ires)
  then show ?thesis
    by (cases rule: issue_challenge_cases) (auto simp: device_frame_def device_helpers Let_def)
next
  case (proof_finished dinput active fres)
  then show ?thesis
    by (auto simp: finish_proof_def device_frame_def split: prod.splits split_cases)
next
  case (heartbeat_recorded data x)
  then show ?thesis by (simp add: record_heartbeat_def device_frame_def)
next
  case (credential_revoked org i audit rres)
  then show ?thesis
    by (auto simp: revokeDeviceCredentialAndAudit_def reassert_revocation_def revoke_credential_def
        device_frame_def device_helpers Let_def split: split_cases)
qed

lemma device_step_log:
  assumes "device_step e s s'"
  shows "prefix (auditRecords s) (auditRecords s')"
  using assms
proof cases
  case (device_challenged iinput ires)
  then show ?thesis by (cases rule: issue_challenge_cases) auto
next
  case (pairing_challenged pinput hres)
  then show ?thesis by (auto simp: issuePairingChallenge_def Let_def split: split_cases)
next
  case (proof_finished dinput active fres)
  then show ?thesis by (auto simp: finish_proof_def split: prod.splits split_cases)
next
  case (heartbeat_recorded data x)
  then show ?thesis by (simp add: record_heartbeat_def)
qed (rule create_pairing.audit_prefix request_reenrollment.audit_prefix
    request_enrollment.audit_prefix activate_reenroll.audit_prefix activate_enroll.audit_prefix
    cancel_reenroll.audit_prefix claim_code.audit_prefix claim_credential.audit_prefix
    revoke_device.audit_prefix; assumption)+

section \<open>What the invariant gives\<close>

text \<open>After a completed revocation no credential of the screen is active, at any clock.\<close>

lemma revoked_is_inactive:
  assumes "revokeDeviceCredentialAndAudit e org i audit s = (Inr (Done v), s')" "device_inv s"
    and "c \<in> set (deviceCredentials s')" "dc_organizationId c = org" "dc_screenId c = i"
  shows "activeDeviceCredential e' s' (dc_id c) = None"
proof -
  have inv': "device_inv s'" by (rule revoke_device [OF assms(1,2)])
  obtain r where cs: "deviceCredentials s' = map (detach_by (attached org i) r) (deviceCredentials s)"
    using revoke_effect [OF assms(1,2)] by blast
  have "\<not> attached org i c" using attached_none_after_detach assms(3) unfolding cs by blast
  with assms(4,5) have detached: "dc_detached c" by (simp add: attached_def credential_of_screen_def)
  show ?thesis
  proof (rule ccontr)
    assume "activeDeviceCredential e' s' (dc_id c) \<noteq> None"
    then obtain d x where a: "activeDeviceCredential e' s' (dc_id c) = Some (d, x)" by auto
    have "d = c" using inv' activeDeviceCredential_SomeD(1,2) [OF a] assms(3)
      by (auto simp: device_inv_def authority_def dest: distinct_key_inj)
    with activeDeviceCredential_SomeD(3) [OF a] detached show False by (simp add: credential_live_def)
  qed
qed

text \<open>
  So a proof whose first look came before the revocation is refused by its second look.
\<close>

lemma proof_across_revocation:
  assumes "revokeDeviceCredentialAndAudit e org i audit s = (Inr (Done v), s')" "device_inv s"
    and "begin_proof e1 input s = Some (c, x, h)" "dc_organizationId c = org" "dc_screenId c = i"
  shows "finish_proof e2 input (c, x, h) s' = (None, s')"
proof -
  have c: "c \<in> set (deviceCredentials s)" "dc_id c = dp_credentialId input"
    using activeDeviceCredential_SomeD(1,2) [OF begin_proof_SomeD(1) [OF assms(3)]] by auto
  obtain r where cs: "deviceCredentials s' = map (detach_by (attached org i) r) (deviceCredentials s)"
    using revoke_effect [OF assms(1,2)] by blast
  have same: "dc_id (detach_by P r c) = dc_id c \<and> dc_organizationId (detach_by P r c) = dc_organizationId c \<and>
      dc_screenId (detach_by P r c) = dc_screenId c" for P
    by (simp add: detach_by_def)
  have "detach_by (attached org i) r c \<in> set (deviceCredentials s')" using c(1) cs by simp
  from revoked_is_inactive [OF assms(1,2) this, of e2] same assms(4,5) c(2)
  have "activeDeviceCredential e2 s' (dp_credentialId input) = None" by simp
  then show ?thesis by (simp add: finish_proof_def)
qed

end
