(* ===== verification/Device_Challenges.thy ===== *)
theory Device_Challenges
  imports Device_Authority
begin

text \<open>
  What the steps of the store do to the challenges and to the identifiers in use: a challenge
  is consumed, dropped or newly issued, never reopened; an identifier is only ever a fresh one
  or one that was in use before.
\<close>

section \<open>Challenges only get consumed\<close>

definition consumed_or_same :: "device_challenge \<Rightarrow> device_challenge \<Rightarrow> bool" where
  "consumed_or_same h h' \<longleftrightarrow> h' = h \<or> (\<exists>t. h' = h\<lparr>ch_consumedAt := Some t\<rparr>)"

text \<open>Some challenges are dropped, the others are the same up to consumption.\<close>

definition challenges_decay :: "device_challenge list \<Rightarrow> device_challenge list \<Rightarrow> bool" where
  "challenges_decay hs hs' \<longleftrightarrow> (\<exists>P. list_all2 consumed_or_same (filter P hs) hs')"

lemma consumed_or_same_fields:
  "consumed_or_same h h' \<Longrightarrow> ch_id h' = ch_id h \<and> (ch_consumedAt h \<noteq> None \<longrightarrow> ch_consumedAt h' \<noteq> None) \<and>
     (open_challenge t i op h' \<longrightarrow> open_challenge t i op h)"
  by (auto simp: consumed_or_same_def open_challenge_def)

lemma consumed_or_same_refl [simp]: "consumed_or_same h h"
  by (simp add: consumed_or_same_def)

lemma consumed_or_same_consume [simp]: "consumed_or_same h (h\<lparr>ch_consumedAt := Some t\<rparr>)"
  by (auto simp: consumed_or_same_def)

lemma all2_same: "list_all2 consumed_or_same hs hs"
  by (rule list.rel_refl) simp

lemma decay_refl [simp]: "challenges_decay hs hs"
  unfolding challenges_decay_def by (rule exI [of _ "\<lambda>_. True"]) (simp add: all2_same)

lemma decay_filter: "challenges_decay hs (filter P hs)"
  unfolding challenges_decay_def by (rule exI [of _ P]) (rule all2_same)

lemma decay_all2: "list_all2 consumed_or_same hs hs' \<Longrightarrow> challenges_decay hs hs'"
  unfolding challenges_decay_def by (rule exI [of _ "\<lambda>_. True"]) simp

lemma decay_consume [simp]: "challenges_decay hs (consume_challenges t ids hs)"
  by (rule decay_all2)
    (auto simp: consume_challenges_def update_where_def list_all2_map2 consumed_or_same_def
      intro: list.rel_refl_strong)

lemma decay_update_first:
  "challenges_decay hs (update_first P (\<lambda>h. h\<lparr>ch_consumedAt := Some t\<rparr>) hs)"
  by (rule decay_all2, induction hs) (simp_all add: all2_same)

lemma all2_in: "list_all2 R xs ys \<Longrightarrow> y \<in> set ys \<Longrightarrow> \<exists>x \<in> set xs. R x y"
  by (induction rule: list_all2_induct) auto

lemma decay_in:
  "challenges_decay hs hs' \<Longrightarrow> h' \<in> set hs' \<Longrightarrow> \<exists>h \<in> set hs. consumed_or_same h h'"
  by (force simp: challenges_decay_def dest!: all2_in)

lemma decay_id_in:
  "challenges_decay hs hs' \<Longrightarrow> h' \<in> set hs' \<Longrightarrow> ch_id h' \<in> ch_id ` set hs"
  using decay_in consumed_or_same_fields by (metis imageI)

lemma decay_ids:
  assumes "challenges_decay hs hs'"
  shows "\<exists>P. map ch_id hs' = map ch_id (filter P hs)"
proof -
  obtain P where P: "list_all2 consumed_or_same (filter P hs) hs'"
    using assms by (auto simp: challenges_decay_def)
  then have "list_all2 (\<lambda>x y. ch_id x = ch_id y) (filter P hs) hs'"
    by (rule list.rel_mono_strong) (simp add: consumed_or_same_fields)
  then have "map ch_id (filter P hs) = map ch_id hs'"
    by (simp add: list.rel_map flip: list.rel_eq)
  then show ?thesis by metis
qed

lemma decay_distinct:
  assumes "challenges_decay hs hs'" "distinct (map ch_id hs)"
  shows "distinct (map ch_id hs')"
  using decay_ids [OF assms(1)] assms(2) by (metis distinct_map_filter)

lemma decay_open:
  assumes "challenges_decay hs hs'"
  shows "length (filter (open_challenge t i op) hs') \<le> length (filter (open_challenge t i op) hs)"
proof -
  obtain P where P: "list_all2 consumed_or_same (filter P hs) hs'"
    using assms by (auto simp: challenges_decay_def)
  from P have "length (filter (open_challenge t i op) hs')
      \<le> length (filter (open_challenge t i op) (filter P hs))"
    by (induction rule: list_all2_induct) (auto dest: consumed_or_same_fields [of _ _ t i op])
  also have "\<dots> \<le> length (filter (open_challenge t i op) hs)" by (rule length_filter_filter)
  finally show ?thesis .
qed

section \<open>What a step does to the challenges\<close>

text \<open>At most one challenge is added, for a credential with fewer than four open ones.\<close>

definition challenges_step :: "env \<Rightarrow> store \<Rightarrow> store \<Rightarrow> bool" where
  "challenges_step e s s' \<longleftrightarrow>
     challenges_decay (deviceAuthChallenges s) (deviceAuthChallenges s') \<or>
     (\<exists>hs c. deviceAuthChallenges s' = hs @ [c] \<and> challenges_decay (deviceAuthChallenges s) hs \<and>
        ch_id c = new_id e 0 \<and>
        open_count s (now e) (ch_credentialId c) (ch_operation c) < 4)"

lemma challenges_step_same: "deviceAuthChallenges s' = deviceAuthChallenges s \<Longrightarrow> challenges_step e s s'"
  by (simp add: challenges_step_def)

lemma screen_step_challenges: "screen_step e s s' \<Longrightarrow> challenges_step e s s'"
  by (induction rule: screen_step.induct)
    (auto simp: screen_ops challenges_step_def Let_def split: split_cases)

lemma issue_challenges:
  assumes "issueDeviceAuthChallenge e input s = (res, s')"
  shows "challenges_step e s s'"
  using assms
proof (cases rule: issue_challenge_cases)
  case Refused
  then show ?thesis by (simp add: challenges_step_same)
next
  case (Issued c)
  then show ?thesis
    using prune_challenges_filter [of e s] by (auto simp: challenges_step_def decay_filter)
qed

lemma claimRecord_challenges:
  "claimPairingRecord e i h dev tok s = (res, s') \<Longrightarrow> deviceAuthChallenges s' = deviceAuthChallenges s"
  by (auto elim!: claimRecord_writes)

lemma device_step_challenges:
  assumes "device_step e s s'"
  shows "challenges_step e s s'"
  using assms
proof cases
  case (code_created org h t audit pres)
  then show ?thesis
    by (auto simp: tryCreatePairingAndAudit_def challenges_step_def Let_def split: split_cases)
next
  case (reenrollment_requested org i h t reason audit pres)
  from request_reenrollment_cases [OF this] show ?thesis
    by (auto simp: challenges_step_def grant_reenrollment_def detach_credentials_def Let_def)
next
  case (enrollment_requested org i reason audit idem eres)
  then show ?thesis
    by (auto simp: requestScreenEnrollmentAndAudit_def challenges_step_def remember_enrollment_def Let_def
        dest!: replay_enrollment_request_cases split: split_cases)
next
  case (reenrollment_activated org i g c audit ares)
  from activate_reenroll_cases [OF this] show ?thesis
    by (auto simp: challenges_step_def reenroll_screen_def Let_def)
next
  case (enrollment_activated org i g c f audit h d bres)
  from activate_enroll_cases [OF this] show ?thesis
    by (auto simp: challenges_step_def enroll_screen_def remember_enrollment_def Let_def)
next
  case (grant_cancelled org i g audit purpose ures)
  then show ?thesis
    by (auto simp: cancelScreenReenrollmentAndAudit_def challenges_step_def Let_def split: split_cases)
next
  case (code_claimed h dev tok caudit xres)
  then show ?thesis
    by (auto simp: claimPairingAndAudit_def challenges_step_def dest!: claimRecord_challenges
        split: split_cases)
next
  case (pairing_challenged pinput hres)
  then show ?thesis
    by (auto simp: issuePairingChallenge_def challenges_step_def Let_def split: split_cases)
next
  case (credential_claimed cinput verify caudit cres)
  then show ?thesis
  proof (cases rule: claim_cases)
    case (Proved a p)
    then show ?thesis by (auto dest!: prove_candidate_cases simp: challenges_step_def)
  next
    case (Pair a p)
    then show ?thesis
      by (auto simp: pair_new_screen_def challenges_step_def Let_def split: split_cases)
  qed (simp add: challenges_step_same)
next
  case (device_challenged iinput ires)
  then show ?thesis by (rule issue_challenges)
next
  case (proof_finished dinput active fres)
  then show ?thesis
    by (auto simp: finish_proof_def challenges_step_def decay_update_first
        split: prod.splits split_cases)
next
  case (heartbeat_recorded data x)
  then show ?thesis by (simp add: record_heartbeat_def challenges_step_same)
next
  case (credential_revoked org i audit rres)
  then show ?thesis
    by (auto simp: revokeDeviceCredentialAndAudit_def reassert_revocation_def revoke_credential_def
        challenges_step_def Let_def split: split_cases)
qed

text \<open>Challenge identifiers are unique, and at most four challenges of a credential are open.\<close>

definition challenge_inv :: "instant \<Rightarrow> store \<Rightarrow> bool" where
  "challenge_inv t s \<longleftrightarrow> distinct (map ch_id (deviceAuthChallenges s)) \<and>
     (\<forall>i op. open_count s t i op \<le> 4)"

lemma challenge_inv_empty [simp]: "challenge_inv t (empty_store\<lparr>users := us\<rparr>)"
  by (simp add: challenge_inv_def open_count_def empty_store_def)

lemma open_later: "t \<le> t' \<Longrightarrow> open_challenge t' i op h \<Longrightarrow> open_challenge t i op h"
  by (simp add: open_challenge_def)

lemma length_filter_le_filter:
  "(\<And>x. Q x \<Longrightarrow> P x) \<Longrightarrow> length (filter Q xs) \<le> length (filter P xs)"
  by (induction xs) (auto simp: le_SucI)

lemma open_count_later: "t \<le> t' \<Longrightarrow> open_count s t' i op \<le> open_count s t i op"
  unfolding open_count_def by (rule length_filter_le_filter) (rule open_later)

lemma challenges_step_inv:
  assumes "challenges_step e s s'" "challenge_inv t s" "t \<le> now e"
    and fresh: "new_id e 0 \<notin> ch_id ` set (deviceAuthChallenges s)"
  shows "challenge_inv (now e) s'"
proof -
  let ?n = "\<lambda>hs i op. length (filter (open_challenge (now e) i op) hs)"
  have four: "?n (deviceAuthChallenges s) i op \<le> 4" for i op
    using assms(2) open_count_later [OF assms(3), of s i op]
    unfolding challenge_inv_def open_count_def by (meson order_trans)
  have uniq: "distinct (map ch_id (deviceAuthChallenges s))" using assms(2) by (simp add: challenge_inv_def)
  from assms(1) show ?thesis unfolding challenges_step_def
  proof (elim disjE exE conjE)
    assume d: "challenges_decay (deviceAuthChallenges s) (deviceAuthChallenges s')"
    show ?thesis using decay_distinct [OF d uniq] order_trans [OF decay_open [OF d] four]
      by (simp add: challenge_inv_def open_count_def)
  next
    fix hs c
    assume hs: "deviceAuthChallenges s' = hs @ [c]" "challenges_decay (deviceAuthChallenges s) hs"
      and c: "ch_id c = new_id e 0" "open_count s (now e) (ch_credentialId c) (ch_operation c) < 4"
    have "ch_id c \<notin> set (map ch_id hs)"
      using decay_id_in [OF hs(2)] fresh c(1) by auto
    moreover have "?n (hs @ [c]) i op \<le> 4" for i op
    proof (cases "open_challenge (now e) i op c")
      case True
      then have "ch_credentialId c = i \<and> ch_operation c = op" by (simp add: open_challenge_def)
      with c(2) decay_open [OF hs(2), of "now e" i op] True show ?thesis by (simp add: open_count_def)
    next
      case False
      with order_trans [OF decay_open [OF hs(2)] four] show ?thesis by simp
    qed
    ultimately show ?thesis using decay_distinct [OF hs(2) uniq] hs(1)
      by (simp add: challenge_inv_def open_count_def)
  qed
qed

text \<open>A challenge identifier all of whose records are consumed stays so.\<close>

definition used_up :: "store \<Rightarrow> string \<Rightarrow> bool" where
  "used_up s i \<longleftrightarrow> (\<forall>h \<in> set (deviceAuthChallenges s). ch_id h = i \<longrightarrow> ch_consumedAt h \<noteq> None)"

lemma used_up_spent: "used_up s i \<Longrightarrow> spent s i"
  by (auto simp: used_up_def spent_def split: option.splits dest: find_SomeD)

lemma decay_used_up:
  assumes "challenges_decay hs hs'" "\<forall>h \<in> set hs. ch_id h = i \<longrightarrow> ch_consumedAt h \<noteq> None"
  shows "\<forall>h \<in> set hs'. ch_id h = i \<longrightarrow> ch_consumedAt h \<noteq> None"
proof (intro ballI impI)
  fix h' assume "h' \<in> set hs'" "ch_id h' = i"
  with decay_in [OF assms(1)] obtain h where "h \<in> set hs" "consumed_or_same h h'" by blast
  with assms(2) \<open>ch_id h' = i\<close> show "ch_consumedAt h' \<noteq> None"
    by (metis consumed_or_same_fields)
qed

lemma challenges_step_used_up:
  assumes "challenges_step e s s'" "used_up s i" "new_id e 0 \<noteq> i"
  shows "used_up s' i"
  using assms decay_used_up [of "deviceAuthChallenges s"]
  unfolding challenges_step_def used_up_def by fastforce

lemma finish_proof_uses_up:
  assumes "finish_proof e input (c, x, h) s = (Some r, s')" "challenge_inv t s"
  shows "used_up s' (dp_challengeId input)"
proof -
  obtain c' x' where r: "r = (c', x')" by fastforce
  note fin = finish_proof_Some(5,6) [OF assms(1) [unfolded r]]
  from fin(1) obtain k where k: "List.find (\<lambda>k. ch_id k = dp_challengeId input) (deviceAuthChallenges s) = Some k"
    by blast
  have uniq: "distinct (map ch_id (deviceAuthChallenges s))" using assms(2) by (simp add: challenge_inv_def)
  from update_first_as_where [OF uniq k] fin(2) find_SomeD [OF k] show ?thesis
    by (auto simp: used_up_def elim!: in_update_whereE)
qed

section \<open>Identifiers in use\<close>

definition grant_targets :: "pairing list \<Rightarrow> string set" where
  "grant_targets ps = {i. \<exists>g \<in> set ps. pr_status g = PENDING \<and> pr_targetScreenId g = Some i}"

definition credential_ids :: "device_credential list \<Rightarrow> string set" where
  "credential_ids cs = dc_id ` set cs \<union> dc_screenId ` set cs"

definition device_ids :: "store \<Rightarrow> string set" where
  "device_ids s = sc_id ` set (screens s) \<union> credential_ids (deviceCredentials s) \<union>
     grant_targets (pairings s) \<union> ch_id ` set (deviceAuthChallenges s)"

lemma fresh_from_device_ids:
  "(\<And>k. new_id e k \<notin> device_ids s) \<Longrightarrow> fresh_device_ids e s"
  by (auto simp: device_ids_def fresh_device_ids_def credential_ids_def grant_targets_def)

lemma device_ids_empty [simp]: "device_ids (empty_store\<lparr>users := us\<rparr>) = {}"
  by (simp add: device_ids_def empty_store_def credential_ids_def grant_targets_def)

lemma grant_targets_pending: "pending_from ps' ps \<Longrightarrow> grant_targets ps' \<subseteq> grant_targets ps"
  by (auto simp: grant_targets_def pending_from_def)

lemma grant_targets_append [simp]: "grant_targets (ps @ qs) = grant_targets ps \<union> grant_targets qs"
  by (auto simp: grant_targets_def)

lemma credential_ids_append [simp]:
  "credential_ids (cs @ ds) = credential_ids cs \<union> credential_ids ds"
  by (auto simp: credential_ids_def)

lemma detach_by_ids:
  "dc_id (detach_by P r c) = dc_id c" "dc_screenId (detach_by P r c) = dc_screenId c"
  by (simp_all add: detach_by_def)

lemma credential_ids_detach [simp]: "credential_ids (map (detach_by P r) cs) = credential_ids cs"
proof -
  have "dc_id ` set (map (detach_by P r) cs) = dc_id ` set cs"
    "dc_screenId ` set (map (detach_by P r) cs) = dc_screenId ` set cs"
    by (simp_all only: set_map image_image detach_by_ids)
  then show ?thesis by (simp add: credential_ids_def)
qed

lemma challenges_step_ids:
  assumes "challenges_step e s s'"
  shows "ch_id ` set (deviceAuthChallenges s') \<subseteq> ch_id ` set (deviceAuthChallenges s) \<union> range (new_id e)"
proof -
  have "ch_id ` set hs' \<subseteq> ch_id ` set hs" if "challenges_decay hs hs'" for hs hs'
    using decay_id_in [OF that] by auto
  then show ?thesis using assms by (fastforce simp: challenges_step_def)
qed

text \<open>The rule a step's proof uses: each of the other three parts only gains fresh identifiers.\<close>

lemma device_ids_step:
  assumes "challenges_step e s s'"
    and "sc_id ` set (screens s') \<subseteq> sc_id ` set (screens s) \<union> range (new_id e)"
    and "credential_ids (deviceCredentials s') \<subseteq>
      credential_ids (deviceCredentials s) \<union> sc_id ` set (screens s) \<union> range (new_id e)"
    and "grant_targets (pairings s') \<subseteq> grant_targets (pairings s) \<union> sc_id ` set (screens s)"
  shows "device_ids s' \<subseteq> device_ids s \<union> range (new_id e)"
  using challenges_step_ids [OF assms(1)] assms(2-4) unfolding device_ids_def by blast

text \<open>The other components.\<close>

lemma update_first_image: "(\<And>x. g (f x) = g x) \<Longrightarrow> g ` set (update_first P f xs) = g ` set xs"
  using map_update_first [of g f P xs] by (metis list.set_map)

lemma remove_first_image: "g ` set (remove_first P xs) \<subseteq> g ` set xs"
  by (auto dest: in_remove_first)

lemma credential_ids_where:
  "credential_ids (update_where P (\<lambda>c. c\<lparr>dc_detached := True, dc_revokedAt := r c\<rparr>) cs) = credential_ids cs"
  by (simp only: detach_by_where credential_ids_detach)

lemma device_ids_frame:
  fixes e :: env
  assumes "screens s' = screens s" "deviceCredentials s' = deviceCredentials s"
    "pending_from (pairings s') (pairings s)" "deviceAuthChallenges s' = deviceAuthChallenges s"
  shows "device_ids s' \<subseteq> device_ids s \<union> range (new_id e)"
  using assms grant_targets_pending [OF assms(3)]
  by (intro device_ids_step [OF challenges_step_same]) auto

lemma identity_step_device_ids:
  fixes e' :: env
  assumes "identity_step e s s'"
  shows "device_ids s' \<subseteq> device_ids s \<union> range (new_id e')"
  using identity_frame_fields [OF identity_step_frame [OF assms]] identity_step_pending [OF assms]
  by (intro device_ids_frame) simp_all

lemma screen_ops_screens:
  assumes "screen_step e s s'"
  shows "sc_id ` set (screens s') \<subseteq> sc_id ` set (screens s) \<union> range (new_id e)"
  using assms
  by (induction rule: screen_step.induct)
    (auto simp: screen_ops Let_def update_first_image split: split_cases
      dest!: subsetD [OF remove_first_image])

lemma screen_step_device_ids:
  assumes "screen_step e s s'"
  shows "device_ids s' \<subseteq> device_ids s \<union> range (new_id e)"
proof (rule device_ids_step [OF screen_step_challenges [OF assms] screen_ops_screens [OF assms]])
  show "credential_ids (deviceCredentials s') \<subseteq>
      credential_ids (deviceCredentials s) \<union> sc_id ` set (screens s) \<union> range (new_id e)"
    using assms
    by (induction rule: screen_step.induct)
      (auto simp: screen_ops Let_def credential_ids_where split: split_cases)
  show "grant_targets (pairings s') \<subseteq> grant_targets (pairings s) \<union> sc_id ` set (screens s)"
    using grant_targets_pending [OF screen_step_pending [OF assms]] by blast
qed

subsection \<open>Device operations\<close>

text \<open>A screen keeps its identifier whatever a device operation writes into it.\<close>

lemma grant_targets_plain [simp]: "grant_targets [plain_pairing i org h t] = {}"
  by (simp add: grant_targets_def plain_pairing_def)

lemma grant_targets_expired:
  "i \<in> grant_targets (update_where P (\<lambda>g. g\<lparr>pr_status := EXPIRED\<rparr>) ps) \<Longrightarrow> i \<in> grant_targets ps"
  by (auto simp: grant_targets_def elim!: in_update_whereE)

lemma first_id_in:
  assumes "x \<in> set (update_first P f xs)" "\<And>x. g (f x) = g x"
  shows "g x \<in> g ` set xs"
  using assms update_first_image [of g f P xs] by blast

lemma grant_targets_one: "grant_targets [g] \<subseteq> {i. pr_targetScreenId g = Some i}"
  by (auto simp: grant_targets_def)

lemma found_screen_id: "List.find (is_screen org i) xs = Some x \<Longrightarrow> i \<in> sc_id ` set xs"
  by (auto dest!: find_SomeD simp: is_screen_def)

lemma requestEnrollment_grants:
  assumes "requestScreenEnrollmentAndAudit e org i reason audit idem s = (res, s')"
  shows "pending_from (pairings s') (pairings s) \<or>
    (\<exists>ps g. pairings s' = ps @ [g] \<and> pending_from ps (pairings s) \<and> pr_targetScreenId g = Some i \<and>
       i \<in> sc_id ` set (screens s))"
  using assms pending_from_trans [OF revoke_grants_pending prune_authority_pending]
  by (auto simp: requestScreenEnrollmentAndAudit_def Let_def new_grant_def remember_enrollment_def
      prune_authority_pending screen_of_def dest!: replay_enrollment_request_cases
      dest: found_screen_id split: split_cases)

lemma device_step_grants:
  assumes "device_step e s s'"
  shows "grant_targets (pairings s') \<subseteq> grant_targets (pairings s) \<union> sc_id ` set (screens s)"
proof -
  have pend: ?thesis if "pending_from (pairings s') (pairings s)"
    using grant_targets_pending [OF that] by blast
  from assms show ?thesis
  proof cases
    case (code_created org h t audit pres)
    then show ?thesis
      by (auto simp: tryCreatePairingAndAudit_def Let_def split: split_cases
          dest!: grant_targets_expired)
  next
    case (reenrollment_requested org i h t reason audit pres)
    from request_reenrollment_cases [OF this] show ?thesis
    proof (elim disjE exE conjE)
      fix x g r
      assume x: "List.find (is_screen org i) (screens s) = Some x" and g: "pr_targetScreenId g = Some i"
        and s': "s' = (grant_reenrollment e org i (generation_of x + 1) g s)\<lparr>auditRecords := auditRecords s @ [r]\<rparr>"
      obtain ps where "pairings s' = ps @ [g]" "pending_from ps (pairings s)"
        using grant_reenrollment_effect(4) s' by fastforce
      with grant_targets_pending grant_targets_one [of g] found_screen_id [OF x] g show ?thesis by force
    qed simp
  next
    case (enrollment_requested org i reason audit idem eres)
    from requestEnrollment_grants [OF this] show ?thesis
    proof (elim disjE exE conjE)
      fix ps g
      assume "pairings s' = ps @ [g]" "pending_from ps (pairings s)" "pr_targetScreenId g = Some i"
        "i \<in> sc_id ` set (screens s)"
      with grant_targets_pending grant_targets_one [of g] show ?thesis by force
    qed (rule pend)
  next
    case (reenrollment_activated org i g c audit ares)
    from activate_reenroll_cases [OF this] show ?thesis
      by (auto intro!: pend simp: reenroll_screen_effect)
  next
    case (enrollment_activated org i g c f audit h d bres)
    from activate_enroll_cases [OF this] show ?thesis
      by (auto intro!: pend simp: enroll_screen_effect prune_authority_pending)
  next
    case (grant_cancelled org i g audit purpose ures)
    then show ?thesis
      by (intro pend) (auto simp: cancelScreenReenrollmentAndAudit_def Let_def pending_from_intros
          split: split_cases)
  next
    case (code_claimed h dev tok caudit xres)
    obtain res1 s1 where c: "claimPairingRecord e (new_id e 0) h dev tok s = (res1, s1)" by fastforce
    have "s' = s \<or> s' = s1 \<or> (\<exists>rs. s' = s1\<lparr>auditRecords := rs\<rparr>)"
      using code_claimed c by (auto simp: claimPairingAndAudit_def split: split_cases)
    with claimRecord_effect [OF c] show ?thesis by (intro pend) auto
  next
    case (pairing_challenged pinput hres)
    then show ?thesis
      by (intro pend) (auto simp: issuePairingChallenge_def Let_def split: split_cases)
  next
    case (credential_claimed cinput verify caudit cres)
    then show ?thesis
    proof (cases rule: claim_cases)
      case (Proved a p)
      then show ?thesis by (auto dest!: prove_candidate_cases)
    next
      case (Pair a p)
      from pairNewScreen_effect [OF Pair(10)] show ?thesis by (intro pend) (auto simp: Let_def)
    qed simp
  next
    case (device_challenged iinput ires)
    then show ?thesis by (cases rule: issue_challenge_cases) auto
  next
    case (proof_finished dinput active fres)
    then show ?thesis by (auto simp: finish_proof_def split: prod.splits split_cases)
  next
    case (heartbeat_recorded data x)
    then show ?thesis by (auto simp: record_heartbeat_def)
  next
    case (credential_revoked org i audit rres)
    then show ?thesis
      by (intro pend) (auto simp: revokeDeviceCredentialAndAudit_def reassert_revocation_def
          revoke_credential_def Let_def revoke_grants_pending split: split_cases)
  qed
qed

text \<open>What of a screen the other components rely on.\<close>

definition site :: "screen \<Rightarrow> string \<times> string \<times> string option" where
  "site x = (sc_id x, sc_organizationId x, sc_locationId x)"

lemma site_kept [simp]:
  "site (install_device a n t x) = site x" "site (revoke_screen t n x) = site x"
  "site (apply_heartbeat d t x) = site x"
  "site (device_screen i org dev tok t) = (i, org, None)"
  by (simp_all add: site_def install_device_def revoke_screen_def clear_telemetry_def
      apply_heartbeat_def device_screen_def)

definition new_sites :: "env \<Rightarrow> (string \<times> string \<times> string option) set" where
  "new_sites e = range (new_id e) \<times> UNIV \<times> {None}"

lemma site_update_first [simp]:
  "site ` set (update_first P (install_device a n t) xs) = site ` set xs"
  "site ` set (update_first P (revoke_screen t n) xs) = site ` set xs"
  "site ` set (update_first P (apply_heartbeat d t) xs) = site ` set xs"
  by (simp_all add: update_first_image)

lemma site_revoked_in:
  "x \<in> set (update_first P (revoke_screen t n) xs) \<Longrightarrow> site x \<in> site ` set xs"
  using site_update_first(2) by blast

lemma device_step_sites:
  assumes "device_step e s s'"
  shows "site ` set (screens s') \<subseteq> site ` set (screens s) \<union> new_sites e"
  using assms
proof cases
  case (code_created org h t audit pres)
  then show ?thesis by (auto simp: tryCreatePairingAndAudit_def Let_def split: split_cases)
next
  case (reenrollment_requested org i h t reason audit pres)
  from request_reenrollment_cases [OF this] show ?thesis
    by (elim disjE exE conjE) (simp_all add: grant_reenrollment_effect)
next
  case (enrollment_requested org i reason audit idem eres)
  then show ?thesis
    by (auto simp: requestScreenEnrollmentAndAudit_def Let_def
        dest!: replay_enrollment_request_cases split: split_cases)
next
  case (reenrollment_activated org i g c audit ares)
  from activate_reenroll_cases [OF this] show ?thesis
    by (elim disjE exE conjE) (simp_all add: reenroll_screen_effect)
next
  case (enrollment_activated org i g c f audit h d bres)
  from activate_enroll_cases [OF this] show ?thesis
    by (elim disjE exE conjE) (simp_all add: enroll_screen_effect)
next
  case (grant_cancelled org i g audit purpose ures)
  then show ?thesis by (auto simp: cancelScreenReenrollmentAndAudit_def Let_def split: split_cases)
next
  case (code_claimed h dev tok caudit xres)
  obtain res1 s1 where c: "claimPairingRecord e (new_id e 0) h dev tok s = (res1, s1)" by fastforce
  have "s' = s \<or> s' = s1 \<or> (\<exists>rs. s' = s1\<lparr>auditRecords := rs\<rparr>)"
    using code_claimed c by (auto simp: claimPairingAndAudit_def split: split_cases)
  with claimRecord_effect [OF c] show ?thesis by (auto simp: new_sites_def)
next
  case (pairing_challenged pinput hres)
  then show ?thesis by (auto simp: issuePairingChallenge_def Let_def split: split_cases)
next
  case (credential_claimed cinput verify caudit cres)
  then show ?thesis
  proof (cases rule: claim_cases)
    case (Proved a p)
    then show ?thesis by (auto dest!: prove_candidate_cases)
  next
    case (Pair a p)
    from pairNewScreen_effect [OF Pair(10)] show ?thesis by (auto simp: Let_def new_sites_def)
  qed auto
next
  case (device_challenged iinput ires)
  then show ?thesis by (cases rule: issue_challenge_cases) auto
next
  case (proof_finished dinput active fres)
  then show ?thesis by (auto simp: finish_proof_def split: prod.splits split_cases)
next
  case (heartbeat_recorded data x)
  then show ?thesis by (simp add: record_heartbeat_def)
next
  case (credential_revoked org i audit rres)
  then show ?thesis
    by (auto simp: revokeDeviceCredentialAndAudit_def reassert_revocation_def revoke_credential_def
        Let_def split: split_cases dest!: site_revoked_in)
qed

lemma device_step_screens:
  assumes "device_step e s s'"
  shows "sc_id ` set (screens s') \<subseteq> sc_id ` set (screens s) \<union> range (new_id e)"
proof -
  have "fst ` site ` set (screens s') \<subseteq> fst ` (site ` set (screens s) \<union> new_sites e)"
    using device_step_sites [OF assms] by (rule image_mono)
  then show ?thesis by (auto simp: site_def new_sites_def image_Un image_image)
qed

text \<open>So a device operation leaves no screen at a location that does not exist.\<close>

lemma device_step_resolve:
  assumes "device_step e s s'" "locations_resolve s"
  shows "locations_resolve s'"
proof -
  have ls: "locations s' = locations s" using device_frame_fields [OF device_step_frame [OF assms(1)]] by simp
  have by_site: "resolves ls x = resolves ls y" if "site x = site y" for ls x y
    using that by (simp add: resolves_def site_def)
  have "resolves (locations s') x'" if x': "x' \<in> set (screens s')" for x'
  proof -
    have "site x' \<in> site ` set (screens s) \<union> new_sites e"
      using device_step_sites [OF assms(1)] x' by blast
    then show ?thesis
    proof
      assume "site x' \<in> site ` set (screens s)"
      then obtain x where x: "x \<in> set (screens s)" "site x' = site x" by blast
      with assms(2) by_site [OF x(2)] show ?thesis by (simp add: locations_resolve_iff ls)
    next
      assume "site x' \<in> new_sites e"
      then show ?thesis by (auto simp: site_def new_sites_def resolves_def)
    qed
  qed
  then show ?thesis by (simp add: locations_resolve_iff)
qed

lemma credential_ids_new [simp]: "credential_ids [new_credential i org x a t] = {i, x}"
  by (auto simp: credential_ids_def)

lemma credential_ids_first:
  "credential_ids (update_first P (\<lambda>c. c\<lparr>dc_revokedAt := r, dc_detached := True\<rparr>) cs) = credential_ids cs"
  unfolding credential_ids_def by (simp add: update_first_image)

lemma device_step_credentials:
  assumes "device_step e s s'"
  shows "credential_ids (deviceCredentials s') \<subseteq>
    credential_ids (deviceCredentials s) \<union> sc_id ` set (screens s) \<union> range (new_id e)"
  using assms
proof cases
  case (code_created org h t audit pres)
  then show ?thesis by (auto simp: tryCreatePairingAndAudit_def Let_def split: split_cases)
next
  case (reenrollment_requested org i h t reason audit pres)
  from request_reenrollment_cases [OF this] show ?thesis
    by (auto simp: grant_reenrollment_effect)
next
  case (enrollment_requested org i reason audit idem eres)
  then show ?thesis
    by (auto simp: requestScreenEnrollmentAndAudit_def Let_def
        dest!: replay_enrollment_request_cases split: split_cases)
next
  case (reenrollment_activated org i g c audit ares)
  from activate_reenroll_cases [OF this] show ?thesis
    by (auto simp: reenroll_screen_effect screen_of_def dest: found_screen_id)
next
  case (enrollment_activated org i g c f audit h d bres)
  from activate_enroll_cases [OF this] show ?thesis
    by (auto simp: enroll_screen_effect screen_of_def dest: found_screen_id)
next
  case (grant_cancelled org i g audit purpose ures)
  then show ?thesis by (auto simp: cancelScreenReenrollmentAndAudit_def Let_def split: split_cases)
next
  case (code_claimed h dev tok caudit xres)
  obtain res1 s1 where c: "claimPairingRecord e (new_id e 0) h dev tok s = (res1, s1)" by fastforce
  have "s' = s \<or> s' = s1 \<or> (\<exists>rs. s' = s1\<lparr>auditRecords := rs\<rparr>)"
    using code_claimed c by (auto simp: claimPairingAndAudit_def split: split_cases)
  with claimRecord_effect [OF c] show ?thesis by auto
next
  case (pairing_challenged pinput hres)
  then show ?thesis by (auto simp: issuePairingChallenge_def Let_def split: split_cases)
next
  case (credential_claimed cinput verify caudit cres)
  then show ?thesis
  proof (cases rule: claim_cases)
    case (Proved a p)
    then show ?thesis by (auto dest!: prove_candidate_cases)
  next
    case (Pair a p)
    from pairNewScreen_effect [OF Pair(10)] show ?thesis by (auto simp: Let_def)
  qed auto
next
  case (device_challenged iinput ires)
  then show ?thesis by (cases rule: issue_challenge_cases) auto
next
  case (proof_finished dinput active fres)
  then show ?thesis by (auto simp: finish_proof_def split: prod.splits split_cases)
next
  case (heartbeat_recorded data x)
  then show ?thesis by (auto simp: record_heartbeat_def)
next
  case (credential_revoked org i audit rres)
  then show ?thesis
    by (auto simp: revokeDeviceCredentialAndAudit_def reassert_revocation_def revoke_credential_def
        Let_def credential_ids_first split: split_cases)
qed

lemma device_step_ids:
  "device_step e s s' \<Longrightarrow> device_ids s' \<subseteq> device_ids s \<union> range (new_id e)"
  by (intro device_ids_step device_step_challenges device_step_screens device_step_credentials
      device_step_grants)

end
