(* ===== verification/Policy.thy ===== *)
theory Policy
  imports Domain
begin

text \<open>
  The role policy: the capabilities of \<open>packages/contracts/src/index.ts\<close>, the compatibility
  grants of \<open>apps/api/src/authorization/compatibility.ts\<close> and \<open>hasCapability\<close> of
  \<open>apps/api/src/authorization/policy.ts\<close>.
\<close>

datatype capability = authorizationManage | screenRead | locationRead | mediaRead | playlistRead
  | scheduleRead | releaseCandidateRead | releaseCandidateCreate | releaseCandidateSubmit
  | releaseApprove | releasePublish | releaseWithdraw | screenCredentialRevoke
  | screenCredentialReenroll | emergencyActivate | emergencyClear

text \<open>The strings of \<open>CAPABILITIES\<close>.\<close>

fun capability_text :: "capability \<Rightarrow> string" where
  "capability_text authorizationManage = ''authorization.manage''"
| "capability_text screenRead = ''screen.read''"
| "capability_text locationRead = ''location.read''"
| "capability_text mediaRead = ''media.read''"
| "capability_text playlistRead = ''playlist.read''"
| "capability_text scheduleRead = ''schedule.read''"
| "capability_text releaseCandidateRead = ''release.candidate.read''"
| "capability_text releaseCandidateCreate = ''release.candidate.create''"
| "capability_text releaseCandidateSubmit = ''release.candidate.submit''"
| "capability_text releaseApprove = ''release.approve''"
| "capability_text releasePublish = ''release.publish''"
| "capability_text releaseWithdraw = ''release.withdraw''"
| "capability_text screenCredentialRevoke = ''screen.credential.revoke''"
| "capability_text screenCredentialReenroll = ''screen.credential.reenroll''"
| "capability_text emergencyActivate = ''emergency.activate''"
| "capability_text emergencyClear = ''emergency.clear''"

fun role_text :: "role \<Rightarrow> string" where
  "role_text OWNER = ''OWNER''"
| "role_text ADMIN = ''ADMIN''"
| "role_text PUBLISHER = ''PUBLISHER''"
| "role_text VIEWER = ''VIEWER''"

fun compatibilityGrantCapabilities :: "role \<Rightarrow> capability list" where
  "compatibilityGrantCapabilities OWNER =
     [screenRead, locationRead, mediaRead, playlistRead, scheduleRead, releaseCandidateRead,
      releaseCandidateCreate, releaseCandidateSubmit, releaseApprove, releasePublish,
      releaseWithdraw, screenCredentialRevoke, screenCredentialReenroll]"
| "compatibilityGrantCapabilities ADMIN =
     [screenRead, locationRead, mediaRead, playlistRead, scheduleRead, releaseCandidateRead,
      releaseCandidateCreate, releaseCandidateSubmit, releaseApprove, releasePublish,
      releaseWithdraw, screenCredentialRevoke, screenCredentialReenroll]"
| "compatibilityGrantCapabilities PUBLISHER =
     [screenRead, locationRead, mediaRead, playlistRead, scheduleRead, releaseCandidateRead,
      releaseCandidateCreate, releaseCandidateSubmit, releasePublish, releaseWithdraw]"
| "compatibilityGrantCapabilities VIEWER =
     [screenRead, locationRead, mediaRead, playlistRead, scheduleRead, releaseCandidateRead]"

fun role_capabilities :: "role \<Rightarrow> capability list" where
  "role_capabilities OWNER = authorizationManage # compatibilityGrantCapabilities OWNER"
| "role_capabilities r = compatibilityGrantCapabilities r"

text \<open>
  \<open>hasCapability(role, capability)\<close> on a role that may be undefined (\<open>actor?.role\<close>) and a
  capability of the type: the run-time checks for unknown strings are the type's.
\<close>

definition hasCapability :: "role option \<Rightarrow> capability \<Rightarrow> bool" where
  "hasCapability r c = (case r of None \<Rightarrow> False | Some r' \<Rightarrow> c \<in> set (role_capabilities r'))"

lemma hasCapability_None [simp]: "\<not> hasCapability None c"
  by (simp add: hasCapability_def)

lemma hasCapability_approve:
  "hasCapability r releaseApprove \<longleftrightarrow> r = Some OWNER \<or> r = Some ADMIN"
  by (cases r; cases "the r") (auto simp: hasCapability_def)

lemma hasCapability_emergency:
  "\<not> hasCapability r emergencyActivate" "\<not> hasCapability r emergencyClear"
  by (cases r; cases "the r"; simp add: hasCapability_def)+

section \<open>The order of the roles\<close>

fun role_rank :: "role \<Rightarrow> nat" where
  "role_rank VIEWER = 0"
| "role_rank PUBLISHER = 1"
| "role_rank ADMIN = 2"
| "role_rank OWNER = 3"

lemma role_rank_inj: "role_rank a = role_rank b \<Longrightarrow> a = b"
  by (cases a; cases b) simp_all

instantiation role :: linorder
begin

definition less_eq_role :: "role \<Rightarrow> role \<Rightarrow> bool" where
  "less_eq_role a b \<longleftrightarrow> role_rank a \<le> role_rank b"

definition less_role :: "role \<Rightarrow> role \<Rightarrow> bool" where
  "less_role a b \<longleftrightarrow> role_rank a < role_rank b"

instance
  by standard (auto simp: less_eq_role_def less_role_def intro: role_rank_inj)

end

text \<open>A narrower role never holds a capability that the wider one lacks.\<close>

lemma role_capabilities_chain:
  "set (role_capabilities VIEWER) \<subseteq> set (role_capabilities PUBLISHER)"
  "set (role_capabilities PUBLISHER) \<subseteq> set (role_capabilities ADMIN)"
  "set (role_capabilities ADMIN) \<subseteq> set (role_capabilities OWNER)"
  by auto

lemma role_capabilities_mono: "a \<le> b \<Longrightarrow> set (role_capabilities a) \<subseteq> set (role_capabilities b)"
  using role_capabilities_chain by (cases a; cases b) (auto simp: less_eq_role_def)

end
