(* ===== verification/Emergencies.thy ===== *)
theory Emergencies
  imports Screens Policy
begin

text \<open>
  Emergency overrides and the audit log of the store (\<open>memory.ts\<close>, \<open>activeEmergency\<close> to
  \<open>audit\<close>).
\<close>

section \<open>Emergencies\<close>

definition emergency_active :: "string \<Rightarrow> string \<Rightarrow> instant \<Rightarrow> emergency_record \<Rightarrow> bool" where
  "emergency_active org screenId at x \<longleftrightarrow>
     em_organizationId x = org \<and> screenId \<in> set (em_targetScreenIds x) \<and> em_startsAt x \<le> at \<and>
     em_expiresAt x > at \<and> em_clearedAt x = None"

definition activeEmergency :: "store \<Rightarrow> string \<Rightarrow> string \<Rightarrow> instant \<Rightarrow> emergency_record option" where
  "activeEmergency s org screenId at = List.find (emergency_active org screenId at) (emergencies s)"

definition activateEmergencyAndAudit ::
  "env \<Rightarrow> string \<Rightarrow> emergency_data \<Rightarrow> audit_context \<Rightarrow> store
    \<Rightarrow> (store, emergency_record answer) outcome" where
  "activateEmergencyAndAudit e org data audit s =
     (let actor = activeActor s org (ac_actorUserId audit) [OWNER, ADMIN] in
      if \<not> hasCapability (map_option u_role actor) emergencyActivate
      then (Inr (Denied FORBIDDEN), s)
      else
        (let targets = sort (js_unique (em_targetScreenIds data)) in
         if list_ex (\<lambda>i. \<not> list_ex (is_screen org i) (screens s)) targets
         then (Inr (Denied INVALID_SCREEN), s)
         else
           (let x = emergency_data.extend (data\<lparr>em_targetScreenIds := targets\<rparr>)
                  (emergency_record.fields (new_id e 0) org (now e) None (ac_actorUserId audit)
                     (now e))
            in with_audit e 1
                 (user_event org audit ''emergency.activated'' ''emergency'' (Some (em_id x))
                    [(js ''targetCount'', JNum (int (length targets))),
                     (js ''expiresAt'', jinstant (em_expiresAt x))]) s
                 (\<lambda>r. (Inr (Done x),
                    s\<lparr>emergencies := emergencies s @ [x],
                      auditRecords := auditRecords s @ [r]\<rparr>)))))"

definition is_emergency :: "string \<Rightarrow> string \<Rightarrow> emergency_record \<Rightarrow> bool" where
  "is_emergency org i x \<longleftrightarrow> em_organizationId x = org \<and> em_id x = i"

definition clearEmergencyAndAudit ::
  "env \<Rightarrow> string \<Rightarrow> string \<Rightarrow> audit_context \<Rightarrow> store \<Rightarrow> (store, emergency_record answer) outcome" where
  "clearEmergencyAndAudit e org overrideId audit s =
     (let actor = activeActor s org (ac_actorUserId audit) [OWNER, ADMIN] in
      if \<not> hasCapability (map_option u_role actor) emergencyClear
      then (Inr (Denied FORBIDDEN), s)
      else case List.find (is_emergency org overrideId) (emergencies s) of
        None \<Rightarrow> (Inr (Denied NOT_FOUND), s)
      | Some x \<Rightarrow> with_audit e 0
          (user_event org audit ''emergency.cleared'' ''emergency'' (Some overrideId) []) s
          (\<lambda>r. (Inr (Done (x\<lparr>em_clearedAt := Some (now e)\<rparr>)),
             s\<lparr>emergencies := update_first (is_emergency org overrideId)
                  (\<lambda>x. x\<lparr>em_clearedAt := Some (now e)\<rparr>) (emergencies s),
               auditRecords := auditRecords s @ [r]\<rparr>)))"

section \<open>The audit log\<close>

definition listAudits :: "env \<Rightarrow> store \<Rightarrow> string \<Rightarrow> nat \<Rightarrow> audit_record list" where
  "listAudits e s org limit =
     take limit (sort_by (\<lambda>a b. cmp_or (cmp_instant (au_createdAt b) (au_createdAt a))
         (localeCompare e (au_id b) (au_id a)))
       (filter (\<lambda>r. au_organizationId r = org) (auditRecords s)))"

definition audit_op :: "env \<Rightarrow> audit_event \<Rightarrow> store \<Rightarrow> (store, unit) outcome" where
  "audit_op e event s =
     (case buildAuditRecord e 0 event of
        Inl x \<Rightarrow> (Inl x, s)
      | Inr r \<Rightarrow> (Inr (), s\<lparr>auditRecords := auditRecords s @ [r]\<rparr>))"

section \<open>Facts\<close>

interpretation activate_emergency:
  audited_operation "activateEmergencyAndAudit e org data audit" for e org data audit
  by unfold_locales (auto simp: activateEmergencyAndAudit_def Let_def split: split_cases)

interpretation clear_emergency:
  audited_operation "clearEmergencyAndAudit e org i audit" for e org i audit
  by unfold_locales (auto simp: clearEmergencyAndAudit_def Let_def split: split_cases)

text \<open>No role holds the capabilities, so both operations are switched off.\<close>

lemma emergencies_off:
  "activateEmergencyAndAudit e org data audit s = (Inr (Denied FORBIDDEN), s)"
  "clearEmergencyAndAudit e org i audit s = (Inr (Denied FORBIDDEN), s)"
  by (simp_all add: activateEmergencyAndAudit_def clearEmergencyAndAudit_def Let_def
      hasCapability_emergency)

interpretation audit_log: logged_operation "audit_op e event" for e event
  by unfold_locales (auto simp: audit_op_def split: sum.splits)

section \<open>Steps\<close>

inductive emergency_step :: "env \<Rightarrow> store \<Rightarrow> store \<Rightarrow> bool" for e s where
  emergency_activated: "activateEmergencyAndAudit e org data audit s = (res, s') \<Longrightarrow> emergency_step e s s'"
| emergency_cleared: "clearEmergencyAndAudit e org i audit s = (res, s') \<Longrightarrow> emergency_step e s s'"
| audited: "audit_op e event s = (ures, s') \<Longrightarrow> emergency_step e s s'"

text \<open>All that such a step can do is extend the log.\<close>

lemma emergency_step_effect:
  "emergency_step e s s' \<Longrightarrow> \<exists>rs. s' = s\<lparr>auditRecords := auditRecords s @ rs\<rparr>"
  by (induction rule: emergency_step.induct)
    (auto simp: emergencies_off audit_op_def split: sum.splits intro: exI [of _ "[]"])

end
