(* ===== verification/Content.thy ===== *)
theory Content
  imports DeviceProof
begin

text \<open>
  Media and playlists of the store (\<open>memory.ts\<close>, \<open>listMedia\<close> to \<open>deletePlaylistAndAudit\<close>).
  An asset stays while a playlist or a release of its organization uses it; a playlist stays
  while a schedule or a release was made from it.
\<close>

section \<open>Media\<close>

definition is_media :: "string \<Rightarrow> string \<Rightarrow> media \<Rightarrow> bool" where
  "is_media org i m \<longleftrightarrow> md_organizationId m = org \<and> md_id m = i"

definition listMedia :: "store \<Rightarrow> string \<Rightarrow> media list" where
  "listMedia s org = filter (\<lambda>m. md_organizationId m = org) (medias s)"

definition getMedia :: "store \<Rightarrow> string \<Rightarrow> string \<Rightarrow> media option" where
  "getMedia s org assetId = List.find (is_media org assetId) (medias s)"

text \<open>The new asset, or the error of \<open>mediaStorageKey\<close>.\<close>

definition new_media :: "env \<Rightarrow> string \<Rightarrow> media_data \<Rightarrow> exn + media" where
  "new_media e org data =
     (case mediaStorageKey org (new_id e 0) (md_checksumSha256 data) of
        Inl x \<Rightarrow> Inl x
      | Inr key \<Rightarrow> Inr (media_data.extend data
          (media.fields (new_id e 0) org (Some key) (now e) (now e))))"

definition createMedia :: "env \<Rightarrow> string \<Rightarrow> media_data \<Rightarrow> store \<Rightarrow> (store, media) outcome" where
  "createMedia e org data s =
     (case new_media e org data of
        Inl x \<Rightarrow> (Inl x, s)
      | Inr m \<Rightarrow> (Inr m, s\<lparr>medias := medias s @ [m]\<rparr>))"

definition createMediaAndAudit ::
  "env \<Rightarrow> string \<Rightarrow> media_data \<Rightarrow> audit_context \<Rightarrow> store \<Rightarrow> (store, media answer) outcome" where
  "createMediaAndAudit e org data audit s =
     (if activeActor s org (ac_actorUserId audit) [OWNER, ADMIN, PUBLISHER] = None
      then (Inr (Denied FORBIDDEN), s)
      else case new_media e org data of
        Inl x \<Rightarrow> (Inl x, s)
      | Inr m \<Rightarrow> with_audit e 1
          (user_event org audit ''media.created'' ''media'' (Some (md_id m))
             [(js ''name'', jstr (md_name m))]) s
          (\<lambda>r. (Inr (Done m), s\<lparr>medias := medias s @ [m], auditRecords := auditRecords s @ [r]\<rparr>)))"

definition media_in_use :: "store \<Rightarrow> string \<Rightarrow> string \<Rightarrow> bool" where
  "media_in_use s org assetId \<longleftrightarrow>
     list_ex (\<lambda>p. pl_organizationId p = org \<and> list_ex (\<lambda>i. pi_assetId i = assetId) (pl_items p))
       (playlists s) \<or>
     list_ex (\<lambda>r. rl_organizationId r = org \<and> list_ex (\<lambda>i. fa_id (fi_asset i) = assetId) (rl_items r))
       (releases s)"

definition deleteMedia :: "string \<Rightarrow> string \<Rightarrow> store \<Rightarrow> unit answer \<times> store" where
  "deleteMedia org assetId s =
     (if \<not> list_ex (is_media org assetId) (medias s) then (Denied NOT_FOUND, s)
      else if media_in_use s org assetId then (Denied IN_USE, s)
      else (Done (), s\<lparr>medias := filter (\<lambda>m. \<not> is_media org assetId m) (medias s)\<rparr>))"

definition deleteMediaAndAudit ::
  "env \<Rightarrow> string \<Rightarrow> string \<Rightarrow> audit_context \<Rightarrow> store \<Rightarrow> (store, unit answer) outcome" where
  "deleteMediaAndAudit e org assetId audit s =
     (if activeActor s org (ac_actorUserId audit) [OWNER, ADMIN, PUBLISHER] = None
      then (Inr (Denied FORBIDDEN), s)
      else if \<not> list_ex (is_media org assetId) (medias s) then (Inr (Denied NOT_FOUND), s)
      else if media_in_use s org assetId then (Inr (Denied IN_USE), s)
      else with_audit e 0
        (user_event org audit ''media.deleted'' ''media'' (Some assetId) []) s
        (\<lambda>r. (Inr (Done ()),
           s\<lparr>medias := filter (\<lambda>m. \<not> is_media org assetId m) (medias s),
             auditRecords := auditRecords s @ [r]\<rparr>)))"

section \<open>Playlists\<close>

definition is_playlist :: "string \<Rightarrow> string \<Rightarrow> playlist \<Rightarrow> bool" where
  "is_playlist org i p \<longleftrightarrow> pl_organizationId p = org \<and> pl_id p = i"

definition listPlaylists :: "store \<Rightarrow> string \<Rightarrow> playlist list" where
  "listPlaylists s org = filter (\<lambda>p. pl_organizationId p = org) (playlists s)"

definition getPlaylist :: "store \<Rightarrow> string \<Rightarrow> string \<Rightarrow> playlist option" where
  "getPlaylist s org playlistId = List.find (is_playlist org playlistId) (playlists s)"

text \<open>The playlist takes the first identifier, its items the next ones in order.\<close>

fun with_item_ids :: "env \<Rightarrow> nat \<Rightarrow> playlist_item list \<Rightarrow> playlist_item list" where
  "with_item_ids e k [] = []"
| "with_item_ids e k (i # is) = i\<lparr>pi_id := new_id e k\<rparr> # with_item_ids e (k + 1) is"

definition new_playlist :: "env \<Rightarrow> string \<Rightarrow> playlist_data \<Rightarrow> playlist" where
  "new_playlist e org data =
     playlist_data.extend (data\<lparr>pl_items := with_item_ids e 1 (pl_items data)\<rparr>)
       (playlist.fields (new_id e 0) org (now e) (now e))"

definition createPlaylist :: "env \<Rightarrow> string \<Rightarrow> playlist_data \<Rightarrow> store \<Rightarrow> playlist \<times> store" where
  "createPlaylist e org data s =
     (let p = new_playlist e org data in (p, s\<lparr>playlists := playlists s @ [p]\<rparr>))"

definition createPlaylistAndAudit ::
  "env \<Rightarrow> string \<Rightarrow> playlist_data \<Rightarrow> audit_context \<Rightarrow> store \<Rightarrow> (store, playlist answer) outcome" where
  "createPlaylistAndAudit e org data audit s =
     (if activeActor s org (ac_actorUserId audit) [OWNER, ADMIN, PUBLISHER] = None
      then (Inr (Denied FORBIDDEN), s)
      else if list_ex (\<lambda>i. \<not> list_ex (is_media org (pi_assetId i)) (medias s)) (pl_items data)
      then (Inr (Denied INVALID_ASSET), s)
      else
        (let p = new_playlist e org data
         in with_audit e (1 + length (pl_items data))
              (user_event org audit ''playlist.created'' ''playlist'' (Some (pl_id p))
                 [(js ''itemCount'', JNum (int (length (pl_items p))))]) s
              (\<lambda>r. (Inr (Done p),
                 s\<lparr>playlists := playlists s @ [p], auditRecords := auditRecords s @ [r]\<rparr>))))"

definition playlist_in_use :: "store \<Rightarrow> string \<Rightarrow> string \<Rightarrow> bool" where
  "playlist_in_use s org playlistId \<longleftrightarrow>
     list_ex (\<lambda>x. sd_organizationId x = org \<and> sd_playlistId x = playlistId) (schedules s) \<or>
     list_ex (\<lambda>r. rl_organizationId r = org \<and> rl_sourcePlaylistId r = playlistId) (releases s)"

definition deletePlaylist :: "string \<Rightarrow> string \<Rightarrow> store \<Rightarrow> unit answer \<times> store" where
  "deletePlaylist org playlistId s =
     (if \<not> list_ex (is_playlist org playlistId) (playlists s) then (Denied NOT_FOUND, s)
      else if playlist_in_use s org playlistId then (Denied IN_USE, s)
      else (Done (), s\<lparr>playlists := filter (\<lambda>p. \<not> is_playlist org playlistId p) (playlists s)\<rparr>))"

definition deletePlaylistAndAudit ::
  "env \<Rightarrow> string \<Rightarrow> string \<Rightarrow> audit_context \<Rightarrow> store \<Rightarrow> (store, unit answer) outcome" where
  "deletePlaylistAndAudit e org playlistId audit s =
     (if activeActor s org (ac_actorUserId audit) [OWNER, ADMIN, PUBLISHER] = None
      then (Inr (Denied FORBIDDEN), s)
      else if \<not> list_ex (is_playlist org playlistId) (playlists s)
      then (Inr (Denied NOT_FOUND), s)
      else if playlist_in_use s org playlistId then (Inr (Denied IN_USE), s)
      else with_audit e 0
        (user_event org audit ''playlist.deleted'' ''playlist'' (Some playlistId) []) s
        (\<lambda>r. (Inr (Done ()),
           s\<lparr>playlists := filter (\<lambda>p. \<not> is_playlist org playlistId p) (playlists s),
             auditRecords := auditRecords s @ [r]\<rparr>)))"

section \<open>Facts\<close>

interpretation create_media:
  audited_operation "createMediaAndAudit e org data audit" for e org data audit
  by unfold_locales (auto simp: createMediaAndAudit_def split: split_cases)

interpretation delete_media:
  audited_operation "deleteMediaAndAudit e org i audit" for e org i audit
  by unfold_locales (auto simp: deleteMediaAndAudit_def split: split_cases)

interpretation create_playlist:
  audited_operation "createPlaylistAndAudit e org data audit" for e org data audit
  by unfold_locales (auto simp: createPlaylistAndAudit_def Let_def split: split_cases)

interpretation delete_playlist:
  audited_operation "deletePlaylistAndAudit e org i audit" for e org i audit
  by unfold_locales (auto simp: deletePlaylistAndAudit_def split: split_cases)

subsection \<open>References\<close>

text \<open>
  Every asset a playlist or a release uses exists in its organization, and so do the playlist a
  release was made from and the release an assignment plays.
\<close>

definition has_media :: "store \<Rightarrow> string \<Rightarrow> string \<Rightarrow> bool" where
  "has_media s org i \<longleftrightarrow> (\<exists>m \<in> set (medias s). is_media org i m)"

definition has_playlist :: "store \<Rightarrow> string \<Rightarrow> string \<Rightarrow> bool" where
  "has_playlist s org i \<longleftrightarrow> (\<exists>p \<in> set (playlists s). is_playlist org i p)"

definition content_resolves :: "store \<Rightarrow> bool" where
  "content_resolves s \<longleftrightarrow>
     (\<forall>p \<in> set (playlists s). \<forall>i \<in> set (pl_items p). has_media s (pl_organizationId p) (pi_assetId i)) \<and>
     (\<forall>r \<in> set (releases s). has_playlist s (rl_organizationId r) (rl_sourcePlaylistId r) \<and>
        (\<forall>i \<in> set (rl_items r). has_media s (rl_organizationId r) (fa_id (fi_asset i)))) \<and>
     (\<forall>a \<in> set (releaseAssignments s). \<exists>r \<in> set (releases s).
        rl_organizationId r = ra_organizationId a \<and> rl_id r = ra_releaseId a)"

lemma content_resolves_mono:
  assumes "content_resolves s" "set (medias s) \<subseteq> set (medias s')" "set (playlists s) \<subseteq> set (playlists s')"
    and "releases s' = releases s" "releaseAssignments s' = releaseAssignments s"
    and "\<And>p i. p \<in> set (playlists s') \<Longrightarrow> p \<notin> set (playlists s) \<Longrightarrow> i \<in> set (pl_items p) \<Longrightarrow>
      has_media s (pl_organizationId p) (pi_assetId i)"
  shows "content_resolves s'"
proof -
  have m: "has_media s org i \<Longrightarrow> has_media s' org i" for org i
    using assms(2) by (auto simp: has_media_def)
  have p: "has_playlist s org i \<Longrightarrow> has_playlist s' org i" for org i
    using assms(3) by (auto simp: has_playlist_def)
  show ?thesis using assms(1,6) m p unfolding content_resolves_def assms(4,5) by blast
qed

lemma deleteMedia_cases:
  assumes "deleteMediaAndAudit e org i audit s = (res, s')"
  shows "s' = s \<or> (\<not> media_in_use s org i \<and>
    (\<exists>r. s' = s\<lparr>medias := filter (\<lambda>m. \<not> is_media org i m) (medias s), auditRecords := auditRecords s @ [r]\<rparr>))"
  using assms by (auto simp: deleteMediaAndAudit_def split: split_cases)

lemma deletePlaylist_cases:
  assumes "deletePlaylistAndAudit e org i audit s = (res, s')"
  shows "s' = s \<or> (\<not> playlist_in_use s org i \<and>
    (\<exists>r. s' = s\<lparr>playlists := filter (\<lambda>p. \<not> is_playlist org i p) (playlists s),
              auditRecords := auditRecords s @ [r]\<rparr>))"
  using assms by (auto simp: deletePlaylistAndAudit_def split: split_cases)

lemma deleteMedia_resolves:
  assumes "deleteMediaAndAudit e org i audit s = (res, s')" "content_resolves s"
  shows "content_resolves s'"
  using deleteMedia_cases [OF assms(1)]
proof (elim disjE exE conjE)
  fix r assume free: "\<not> media_in_use s org i" and
    s': "s' = s\<lparr>medias := filter (\<lambda>m. \<not> is_media org i m) (medias s), auditRecords := auditRecords s @ [r]\<rparr>"
  have keep: "has_media s' org' j" if "has_media s org' j" "\<not> (org' = org \<and> j = i)" for org' j
    using that by (auto simp: has_media_def s' is_media_def)
  have p: "\<not> (pl_organizationId p = org \<and> pi_assetId j = i)"
    if "p \<in> set (playlists s)" "j \<in> set (pl_items p)" for p j
    using free that by (auto simp: media_in_use_def list_ex_iff)
  have q: "\<not> (rl_organizationId x = org \<and> fa_id (fi_asset j) = i)"
    if "x \<in> set (releases s)" "j \<in> set (rl_items x)" for x j
    using free that by (auto simp: media_in_use_def list_ex_iff)
  have same: "playlists s' = playlists s" "releases s' = releases s" "releaseAssignments s' = releaseAssignments s"
    "\<And>org j. has_playlist s' org j = has_playlist s org j"
    by (simp_all add: s' has_playlist_def)
  show ?thesis using assms(2) keep p q unfolding content_resolves_def same by blast
qed (use assms(2) in simp)

lemma deletePlaylist_resolves:
  assumes "deletePlaylistAndAudit e org i audit s = (res, s')" "content_resolves s"
  shows "content_resolves s'"
  using deletePlaylist_cases [OF assms(1)]
proof (elim disjE exE conjE)
  fix r assume free: "\<not> playlist_in_use s org i" and
    s': "s' = s\<lparr>playlists := filter (\<lambda>p. \<not> is_playlist org i p) (playlists s),
              auditRecords := auditRecords s @ [r]\<rparr>"
  have keep: "has_playlist s' org' j" if "has_playlist s org' j" "\<not> (org' = org \<and> j = i)" for org' j
    using that by (auto simp: has_playlist_def s' is_playlist_def)
  have p: "\<not> (rl_organizationId x = org \<and> rl_sourcePlaylistId x = i)" if "x \<in> set (releases s)" for x
    using free that by (auto simp: playlist_in_use_def list_ex_iff)
  have q: "\<not> (sd_organizationId x = org \<and> sd_playlistId x = i)" if "x \<in> set (schedules s)" for x
    using free that by (auto simp: playlist_in_use_def list_ex_iff)
  have same: "set (playlists s') \<subseteq> set (playlists s)" "releases s' = releases s"
    "releaseAssignments s' = releaseAssignments s" "\<And>org j. has_media s' org j = has_media s org j"
    by (auto simp: s' has_media_def)
  show ?thesis using assms(2) keep p q same(1) unfolding content_resolves_def same(2-4) by blast
qed (use assms(2) in simp)

lemma pi_assetId_with_item_ids: "map pi_assetId (with_item_ids e k is) = map pi_assetId is"
  by (induction "is" arbitrary: k) auto

lemma new_playlist_org: "pl_organizationId (new_playlist e org data) = org"
  by (simp add: new_playlist_def playlist_data.defs playlist.defs)

lemma new_playlist_assets:
  "pi_assetId ` set (pl_items (new_playlist e org data)) = pi_assetId ` set (pl_items data)"
proof -
  have "map pi_assetId (pl_items (new_playlist e org data)) = map pi_assetId (pl_items data)"
    by (simp add: new_playlist_def playlist_data.defs playlist.defs pi_assetId_with_item_ids)
  from arg_cong [OF this, of set] show ?thesis by simp
qed

lemma createPlaylist_cases:
  assumes "createPlaylistAndAudit e org data audit s = (res, s')"
  shows "s' = s \<or> ((\<forall>i \<in> set (pl_items data). has_media s org (pi_assetId i)) \<and>
    (\<exists>r. s' = s\<lparr>playlists := playlists s @ [new_playlist e org data],
              auditRecords := auditRecords s @ [r]\<rparr>))"
  using assms
  by (auto simp: createPlaylistAndAudit_def Let_def has_media_def list_ex_iff split: split_cases)

lemma createPlaylist_resolves:
  assumes "createPlaylistAndAudit e org data audit s = (res, s')" "content_resolves s"
  shows "content_resolves s'"
  using createPlaylist_cases [OF assms(1)]
proof (elim disjE exE conjE)
  fix r assume ok: "\<forall>i \<in> set (pl_items data). has_media s org (pi_assetId i)" and
    s': "s' = s\<lparr>playlists := playlists s @ [new_playlist e org data],
              auditRecords := auditRecords s @ [r]\<rparr>"
  show ?thesis
  proof (rule content_resolves_mono [OF assms(2)])
    fix p i assume "p \<in> set (playlists s')" "p \<notin> set (playlists s)" "i \<in> set (pl_items p)"
    then have "p = new_playlist e org data" and i: "pi_assetId i \<in> pi_assetId ` set (pl_items data)"
      using new_playlist_assets [of e org data] by (auto simp: s')
    then obtain j where "j \<in> set (pl_items data)" "pi_assetId i = pi_assetId j" by blast
    with ok \<open>p = _\<close> show "has_media s (pl_organizationId p) (pi_assetId i)"
      by (simp add: new_playlist_org)
  qed (auto simp: s')
qed (use assms(2) in simp)

lemma createMedia_cases:
  assumes "createMediaAndAudit e org data audit s = (res, s')"
  shows "s' = s \<or> (\<exists>m r. s' = s\<lparr>medias := medias s @ [m], auditRecords := auditRecords s @ [r]\<rparr>)"
  using assms by (auto simp: createMediaAndAudit_def split: split_cases)

lemma createMedia_resolves:
  assumes "createMediaAndAudit e org data audit s = (res, s')" "content_resolves s"
  shows "content_resolves s'"
  using assms(1)
  by (auto simp: createMediaAndAudit_def split: split_cases
      intro!: content_resolves_mono [OF assms(2)] assms(2))

section \<open>Steps\<close>

inductive content_step :: "env \<Rightarrow> store \<Rightarrow> store \<Rightarrow> bool" for e s where
  media_created: "createMediaAndAudit e org mdata audit s = (mres, s') \<Longrightarrow> content_step e s s'"
| media_deleted: "deleteMediaAndAudit e org i audit s = (ures, s') \<Longrightarrow> content_step e s s'"
| playlist_created: "createPlaylistAndAudit e org pdata audit s = (pres, s') \<Longrightarrow> content_step e s s'"
| playlist_deleted: "deletePlaylistAndAudit e org i audit s = (ures, s') \<Longrightarrow> content_step e s s'"

lemma content_step_resolves: "content_step e s s' \<Longrightarrow> content_resolves s \<Longrightarrow> content_resolves s'"
  by (induction rule: content_step.induct)
    (blast intro: createMedia_resolves deleteMedia_resolves createPlaylist_resolves
      deletePlaylist_resolves)+

definition content_frame :: "store \<Rightarrow> store \<Rightarrow> bool" where
  "content_frame s s' \<longleftrightarrow>
     s' = s\<lparr>medias := medias s', playlists := playlists s', auditRecords := auditRecords s'\<rparr>"

lemma content_frame_fields:
  assumes "content_frame s s'"
  shows "users s' = users s"
    "userSessions s' = userSessions s"
    "loginFailures s' = loginFailures s"
    "locations s' = locations s"
    "screens s' = screens s"
    "schedules s' = schedules s"
    "releases s' = releases s"
    "releaseAssignments s' = releaseAssignments s"
    "releaseCandidates s' = releaseCandidates s"
    "candidateIdempotency s' = candidateIdempotency s"
    "idempotencyRecords s' = idempotencyRecords s"
    "enrollmentIdempotency s' = enrollmentIdempotency s"
    "emergencies s' = emergencies s"
    "pairings s' = pairings s"
    "deviceCredentials s' = deviceCredentials s"
    "deviceAuthChallenges s' = deviceAuthChallenges s"
    "pairingAttempts s' = pairingAttempts s"
    "usedDeviceKeyIds s' = usedDeviceKeyIds s"
  using arg_cong [OF assms [unfolded content_frame_def], of users]
    arg_cong [OF assms [unfolded content_frame_def], of userSessions]
    arg_cong [OF assms [unfolded content_frame_def], of loginFailures]
    arg_cong [OF assms [unfolded content_frame_def], of locations]
    arg_cong [OF assms [unfolded content_frame_def], of screens]
    arg_cong [OF assms [unfolded content_frame_def], of schedules]
    arg_cong [OF assms [unfolded content_frame_def], of releases]
    arg_cong [OF assms [unfolded content_frame_def], of releaseAssignments]
    arg_cong [OF assms [unfolded content_frame_def], of releaseCandidates]
    arg_cong [OF assms [unfolded content_frame_def], of candidateIdempotency]
    arg_cong [OF assms [unfolded content_frame_def], of idempotencyRecords]
    arg_cong [OF assms [unfolded content_frame_def], of enrollmentIdempotency]
    arg_cong [OF assms [unfolded content_frame_def], of emergencies]
    arg_cong [OF assms [unfolded content_frame_def], of pairings]
    arg_cong [OF assms [unfolded content_frame_def], of deviceCredentials]
    arg_cong [OF assms [unfolded content_frame_def], of deviceAuthChallenges]
    arg_cong [OF assms [unfolded content_frame_def], of pairingAttempts]
    arg_cong [OF assms [unfolded content_frame_def], of usedDeviceKeyIds]
  by simp_all

lemma content_step_frame:
  assumes "content_step e s s'"
  shows "content_frame s s'"
  using assms
proof cases
  case (media_created org mdata audit mres)
  from createMedia_cases [OF this] show ?thesis by (auto simp: content_frame_def)
next
  case (media_deleted org i audit ures)
  from deleteMedia_cases [OF this] show ?thesis by (auto simp: content_frame_def)
next
  case (playlist_created org pdata audit pres)
  from createPlaylist_cases [OF this] show ?thesis by (auto simp: content_frame_def)
next
  case (playlist_deleted org i audit ures)
  from deletePlaylist_cases [OF this] show ?thesis by (auto simp: content_frame_def)
qed

lemma content_step_log: "content_step e s s' \<Longrightarrow> prefix (auditRecords s) (auditRecords s')"
  by (induction rule: content_step.induct)
    (blast intro: create_media.audit_prefix delete_media.audit_prefix create_playlist.audit_prefix
      delete_playlist.audit_prefix)+

end
