(* ===== verification/Schedule.thy ===== *)
theory Schedule
  imports Domain
begin

text \<open>
  \<open>apps/api/src/utils/schedule.ts\<close>: resolving a local wall-clock minute in a time zone without
  assuming a fixed offset, the daily windows of a schedule, the instant its playback ends and
  the precedence of two schedules.  The formatter of a zone (\<open>Intl.DateTimeFormat\<close>) is the
  function \<open>f\<close> from instants to calendar fields.
\<close>

section \<open>Wall clock\<close>

definition wallClockValue :: "zoned_parts \<Rightarrow> instant" where
  "wallClockValue p = date_utc (zp_year p) (zp_month p - 1) (zp_day p) (zp_hour p) (zp_minute p)"

text \<open>The UTC fields of an instant: \<open>getUTCFullYear\<close> and its siblings.\<close>

definition utc_fields :: "instant \<Rightarrow> zoned_parts" where
  "utc_fields t =
     (case civil_from_day (t div ms_per_day) of (y, m, d) \<Rightarrow>
        \<lparr>zp_year = y, zp_month = m, zp_day = d, zp_weekday = Some ((t div ms_per_day + 4) mod 7),
         zp_hour = t mod ms_per_day div 3600000, zp_minute = t mod 3600000 div 60000\<rparr>)"

definition zoned_offset :: "(instant \<Rightarrow> zoned_parts) \<Rightarrow> instant \<Rightarrow> int" where
  "zoned_offset f t = wallClockValue (f t) - t"

section \<open>resolveZonedWallMinute\<close>

datatype boundary = Start_boundary | End_boundary

text \<open>The local minute asked for, as if it were UTC (\<open>desired\<close>).\<close>

definition desired_wall :: "zoned_parts \<Rightarrow> int \<Rightarrow> instant" where
  "desired_wall date minuteOfDay =
     wallClockValue (utc_fields
       (date_utc (zp_year date) (zp_month date - 1) (zp_day date) 0 minuteOfDay))"

definition delta_hours :: "int list" where
  "delta_hours = [-36, -30, -24, -18, -12, -6, 0, 6, 12, 18, 24, 30, 36]"

definition offset_samples :: "(instant \<Rightarrow> zoned_parts) \<Rightarrow> instant \<Rightarrow> (instant \<times> int) list" where
  "offset_samples f desired =
     map (\<lambda>h. let t = desired + h * 60 * 60000 in (t, zoned_offset f t)) delta_hours"

definition exact_instants :: "(instant \<Rightarrow> zoned_parts) \<Rightarrow> instant \<Rightarrow> instant list" where
  "exact_instants f desired =
     sort (filter (\<lambda>t. wallClockValue (f t) = desired)
       (map (\<lambda>offset. desired - offset) (js_unique (map snd (offset_samples f desired)))))"

text \<open>The bisection for the first minute whose offset differs from \<open>before\<close>.\<close>

function bisect_transition :: "(instant \<Rightarrow> zoned_parts) \<Rightarrow> int \<Rightarrow> int \<Rightarrow> int \<Rightarrow> int" where
  "bisect_transition f before low high =
     (if low + 1 < high then
        (let middle = (low + high) div 2 in
         if zoned_offset f (middle * 60000) = before
         then bisect_transition f before middle high
         else bisect_transition f before low middle)
      else high)"
  by pat_completeness auto
termination
  by (relation "measure (\<lambda>(f, before, low, high). nat (high - low))") (auto simp: Let_def)

declare bisect_transition.simps [simp del]

definition floor_minute :: "instant \<Rightarrow> int" where "floor_minute t = t div 60000"
definition ceil_minute :: "instant \<Rightarrow> int" where "ceil_minute t = - ((- t) div 60000)"

text \<open>The loop over neighbouring samples; \<open>None\<close> is falling through to the final throw.\<close>

fun find_gap :: "(instant \<Rightarrow> zoned_parts) \<Rightarrow> instant \<Rightarrow> (instant \<times> int) list \<Rightarrow> instant option" where
  "find_gap f desired (before # after # rest) =
     (if snd before = snd after then find_gap f desired (after # rest)
      else
        (let high = bisect_transition f (snd before) (floor_minute (fst before))
                      (ceil_minute (fst after));
             transition = high * 60000;
             priorWall = wallClockValue (f ((high - 1) * 60000));
             nextWall = wallClockValue (f transition)
         in if priorWall < desired \<and> nextWall > desired then Some transition
            else find_gap f desired (after # rest)))"
| "find_gap f desired _ = None"

definition resolveZonedWallMinute ::
  "(instant \<Rightarrow> zoned_parts) \<Rightarrow> zoned_parts \<Rightarrow> int \<Rightarrow> boundary \<Rightarrow> exn + instant" where
  "resolveZonedWallMinute f date minuteOfDay boundary =
     (let desired = desired_wall date minuteOfDay; exact = exact_instants f desired in
      if exact \<noteq> [] then
        Inr (case boundary of Start_boundary \<Rightarrow> last exact | End_boundary \<Rightarrow> hd exact)
      else case find_gap f desired (offset_samples f desired) of
        Some t \<Rightarrow> Inr t
      | None \<Rightarrow> Inl (RangeError ''Could not resolve wall-clock boundary''))"

section \<open>The cache of resolved minutes\<close>

type_synonym wall_key = "string \<times> int \<times> int \<times> int \<times> int \<times> boundary"

definition MAX_WALL_MINUTE_CACHE_ENTRIES :: nat where
  "MAX_WALL_MINUTE_CACHE_ENTRIES = 4096"

definition remember_wall :: "wall_key \<Rightarrow> instant \<Rightarrow> (wall_key \<times> instant) list \<Rightarrow> (wall_key \<times> instant) list" where
  "remember_wall k t cache =
     (if length cache \<ge> MAX_WALL_MINUTE_CACHE_ENTRIES then [(k, t)] else (k, t) # cache)"

definition resolve_cached ::
  "(string \<Rightarrow> instant \<Rightarrow> zoned_parts) \<Rightarrow> string \<Rightarrow> zoned_parts \<Rightarrow> int \<Rightarrow> boundary
    \<Rightarrow> (wall_key \<times> instant) list \<Rightarrow> (exn + instant) \<times> (wall_key \<times> instant) list" where
  "resolve_cached zone tz date minuteOfDay boundary cache =
     (let k = (tz, zp_year date, zp_month date, zp_day date, minuteOfDay, boundary) in
      case map_of cache k of
        Some t \<Rightarrow> (Inr t, cache)
      | None \<Rightarrow>
          (case resolveZonedWallMinute (zone tz) date minuteOfDay boundary of
             Inl x \<Rightarrow> (Inl x, cache)
           | Inr t \<Rightarrow> (Inr t, remember_wall k t cache)))"

section \<open>Windows\<close>

definition zone_error :: exn where
  "zone_error = RangeError ''Invalid time zone specified''"

definition validTimeZone :: "env \<Rightarrow> string \<Rightarrow> bool" where
  "validTimeZone e tz \<longleftrightarrow> intl e tz \<noteq> None"

text \<open>\<open>schedulePlaybackEndsAt\<close>: the earlier of the end of the schedule and of today's window.\<close>

definition schedulePlaybackEndsAt ::
  "env \<Rightarrow> 'a schedule_window_scheme \<Rightarrow> instant \<Rightarrow> exn + instant option" where
  "schedulePlaybackEndsAt e schedule at =
     (case sw_dailyEndMinutes schedule of
        None \<Rightarrow> Inr (sw_endsAt schedule)
      | Some m \<Rightarrow>
          (case intl e (sw_timezone schedule) of
             None \<Rightarrow> Inl zone_error
           | Some f \<Rightarrow>
               (case resolveZonedWallMinute f (f at) m End_boundary of
                  Inl x \<Rightarrow> Inl x
                | Inr dailyBoundary \<Rightarrow>
                    Inr (let daily = (if dailyBoundary > at then Some dailyBoundary else None) in
                         case (sw_endsAt schedule, daily) of
                           (None, None) \<Rightarrow> None
                         | (Some t, None) \<Rightarrow> Some t
                         | (None, Some d) \<Rightarrow> Some d
                         | (Some t, Some d) \<Rightarrow> Some (min t d)))))"

text \<open>The two daily bounds: is the instant past the start, and not past the end.\<close>

definition after_daily_start :: "(instant \<Rightarrow> zoned_parts) \<Rightarrow> int option \<Rightarrow> instant \<Rightarrow> exn + bool" where
  "after_daily_start f m at =
     (case m of None \<Rightarrow> Inr True
      | Some m' \<Rightarrow> (case resolveZonedWallMinute f (f at) m' Start_boundary of
          Inl x \<Rightarrow> Inl x | Inr start \<Rightarrow> Inr (\<not> at < start)))"

definition before_daily_end :: "(instant \<Rightarrow> zoned_parts) \<Rightarrow> int option \<Rightarrow> instant \<Rightarrow> exn + bool" where
  "before_daily_end f m at =
     (case m of None \<Rightarrow> Inr True
      | Some m' \<Rightarrow> (case resolveZonedWallMinute f (f at) m' End_boundary of
          Inl x \<Rightarrow> Inl x | Inr end' \<Rightarrow> Inr (\<not> at \<ge> end')))"

definition matchesScheduleWindow ::
  "env \<Rightarrow> 'a schedule_window_scheme \<Rightarrow> instant \<Rightarrow> exn + bool" where
  "matchesScheduleWindow e schedule at =
     (case intl e (sw_timezone schedule) of
        None \<Rightarrow> Inl zone_error
      | Some f \<Rightarrow>
          (case zp_weekday (f at) of
             None \<Rightarrow> Inr False
           | Some weekday \<Rightarrow>
               if sw_daysOfWeek schedule \<noteq> [] \<and> weekday \<notin> set (sw_daysOfWeek schedule)
               then Inr False
               else (case after_daily_start f (sw_dailyStartMinutes schedule) at of
                   Inl x \<Rightarrow> Inl x
                 | Inr False \<Rightarrow> Inr False
                 | Inr True \<Rightarrow> before_daily_end f (sw_dailyEndMinutes schedule) at)))"

section \<open>Precedence\<close>

fun priority_weight :: "priority \<Rightarrow> int" where
  "priority_weight normal = 0"
| "priority_weight campaign = 1"
| "priority_weight priority = 2"
| "priority_weight emergency = 3"

record precedence_key =
  pk_id :: string
  pk_priority :: priority
  pk_startsAt :: instant

definition compareSchedulePrecedence ::
  "env \<Rightarrow> precedence_key \<Rightarrow> precedence_key \<Rightarrow> int" where
  "compareSchedulePrecedence e l r =
     cmp_or (priority_weight (pk_priority r) - priority_weight (pk_priority l))
       (cmp_or (cmp_instant (pk_startsAt r) (pk_startsAt l))
          (localeCompare e (pk_id l) (pk_id r)))"

section \<open>Facts\<close>

subsection \<open>The bisection\<close>

lemma bisect_transition_spec:
  assumes "low < high" "zoned_offset f (low * 60000) = before"
    "zoned_offset f (high * 60000) \<noteq> before"
  shows "low < bisect_transition f before low high \<and> bisect_transition f before low high \<le> high \<and>
    zoned_offset f (bisect_transition f before low high * 60000) \<noteq> before \<and>
    zoned_offset f ((bisect_transition f before low high - 1) * 60000) = before"
  using assms
proof (induction f before low high rule: bisect_transition.induct)
  case (1 f before low high)
  show ?case
  proof (cases "low + 1 < high")
    case True
    define mid where "mid = (low + high) div 2"
    have mid: "low < mid" "mid < high" using True unfolding mid_def by linarith+
    show ?thesis
    proof (cases "zoned_offset f (mid * 60000) = before")
      case t: True
      have e: "bisect_transition f before low high = bisect_transition f before mid high"
        using True t by (subst bisect_transition.simps) (simp add: Let_def mid_def)
      show ?thesis
        unfolding e using "1.IH"(1) [OF True mid_def] t mid "1.prems" by fastforce
    next
      case f: False
      have e: "bisect_transition f before low high = bisect_transition f before low mid"
        using True f by (subst bisect_transition.simps) (simp add: Let_def mid_def)
      show ?thesis
        unfolding e using "1.IH"(2) [OF True mid_def] f mid "1.prems" by fastforce
    qed
  next
    case False
    then have "high = low + 1" "bisect_transition f before low high = high"
      using "1.prems"(1) by (simp_all add: bisect_transition.simps [of f before low high])
    then show ?thesis using "1.prems" by simp
  qed
qed

lemma find_gap_Some:
  "find_gap f desired samples = Some t \<Longrightarrow>
    wallClockValue (f (t - 60000)) < desired \<and> desired < wallClockValue (f t)"
proof (induction f desired samples rule: find_gap.induct)
  case (1 f desired before after rest)
  then show ?case
    by (auto simp: Let_def algebra_simps split: if_splits)
qed auto

subsection \<open>Exact representations\<close>

lemma exact_instants_wall: "t \<in> set (exact_instants f desired) \<Longrightarrow> wallClockValue (f t) = desired"
  by (simp add: exact_instants_def)

lemma sorted_exact_instants: "sorted (exact_instants f desired)"
  by (simp add: exact_instants_def)

lemma sorted_hd_last: "sorted xs \<Longrightarrow> xs \<noteq> [] \<Longrightarrow> hd xs \<le> (last xs :: int)"
  by (cases xs) auto

lemma resolve_end_le_start:
  assumes "resolveZonedWallMinute f d m Start_boundary = Inr s"
    "resolveZonedWallMinute f d m End_boundary = Inr t"
  shows "t \<le> s"
  using assms sorted_hd_last [OF sorted_exact_instants, of f "desired_wall d m"]
  by (auto simp: resolveZonedWallMinute_def Let_def split: if_splits option.splits)

lemma resolve_sound:
  assumes "resolveZonedWallMinute f d m b = Inr t"
  shows "wallClockValue (f t) = desired_wall d m \<or>
    (exact_instants f (desired_wall d m) = [] \<and>
     wallClockValue (f (t - 60000)) < desired_wall d m \<and> desired_wall d m < wallClockValue (f t))"
proof (cases "exact_instants f (desired_wall d m) = []")
  case True
  with assms show ?thesis
    by (auto simp: resolveZonedWallMinute_def Let_def dest: find_gap_Some split: option.splits)
next
  case False
  then have "t \<in> set (exact_instants f (desired_wall d m))"
    using assms by (auto simp: resolveZonedWallMinute_def Let_def split: boundary.splits)
  then show ?thesis by (simp add: exact_instants_wall)
qed

subsection \<open>Calendar fields of an instant\<close>

lemma year_at_least_100: "- 600000 \<le> z \<Longrightarrow> 100 \<le> year_from_day z"
proof (rule ccontr)
  assume z: "- 600000 \<le> z" and "\<not> 100 \<le> year_from_day z"
  then have "day_from_year (year_from_day z + 1) \<le> day_from_year 100"
    using day_from_year_mono [of "year_from_day z + 1" 100]
    by (cases "year_from_day z + 1 = 100") auto
  moreover have "day_from_year 100 < - 600000" by (simp add: day_from_year_def)
  ultimately show False using year_from_day_bracket(2) [of z] z by linarith
qed

lemma date_utc_of_day:
  assumes "civil_from_day z = (y, m, d)" "- 600000 \<le> z"
  shows "date_utc y (m - 1) d h mi = z * ms_per_day + h * 3600000 + mi * 60000"
proof -
  note f = civil_from_day_fields [OF assms(1)]
  have "100 \<le> y" using year_at_least_100 [OF assms(2)] f(5) by simp
  moreover have "(m - 1) div 12 = 0" "(m - 1) mod 12 = m - 1" using f(1,2) by auto
  ultimately show ?thesis using f(6) by (simp add: date_utc_def Let_def)
qed

lemma minute_aligned: "(z * ms_per_day + m * 60000) mod 60000 = 0"
proof -
  have "z * ms_per_day + m * 60000 = (z * 1440 + m) * 60000" by (simp add: ms_per_day_def)
  then show ?thesis by (metis mod_mult_self2_is_0)
qed

lemma wall_utc_fields:
  assumes "- 600000 \<le> t div ms_per_day"
  shows "wallClockValue (utc_fields t) = t - t mod 60000"
proof -
  obtain y m d where c: "civil_from_day (t div ms_per_day) = (y, m, d)" by (metis prod_cases3)
  have "t mod 3600000 div 60000 * 60000 + t mod 60000 = t mod 3600000"
    using mod_mod_cancel [of 60000 3600000 t] div_mult_mod_eq [of "t mod 3600000" 60000] by simp
  moreover have "t mod ms_per_day div 3600000 * 3600000 + t mod 3600000 = t mod ms_per_day"
    using mod_mod_cancel [of 3600000 ms_per_day t] div_mult_mod_eq [of "t mod ms_per_day" 3600000]
    by (simp add: ms_per_day_def)
  moreover have "t div ms_per_day * ms_per_day + t mod ms_per_day = t" by simp
  moreover have "wallClockValue (utc_fields t) = t div ms_per_day * ms_per_day
      + t mod ms_per_day div 3600000 * 3600000 + t mod 3600000 div 60000 * 60000"
    using date_utc_of_day [OF c assms] c by (simp add: wallClockValue_def utc_fields_def)
  ultimately show ?thesis by linarith
qed

lemma desired_wall_utc_fields:
  assumes "- 500000 \<le> u div ms_per_day" "0 \<le> m" "m \<le> 1440"
  shows "desired_wall (utc_fields u) m = u div ms_per_day * ms_per_day + m * 60000"
proof -
  define z where "z = u div ms_per_day"
  obtain y mo d where c: "civil_from_day z = (y, mo, d)" by (metis prod_cases3)
  have e: "date_utc (zp_year (utc_fields u)) (zp_month (utc_fields u) - 1) (zp_day (utc_fields u)) 0 m
      = z * ms_per_day + m * 60000"
    using date_utc_of_day [OF c, of 0 m] assms(1) c by (simp add: utc_fields_def z_def)
  note a = minute_aligned [of z m]
  have "z \<le> (z * ms_per_day + m * 60000) div ms_per_day"
    using assms(2) by (simp add: ms_per_day_def div_add1_eq pos_imp_zdiv_nonneg_iff)
  then have "- 600000 \<le> (z * ms_per_day + m * 60000) div ms_per_day"
    using assms(1) unfolding z_def by linarith
  from wall_utc_fields [OF this] a show ?thesis
    unfolding desired_wall_def e by (simp add: z_def)
qed

subsection \<open>Zones with a constant offset\<close>

text \<open>
  What the resolver relies on for a zone without transitions: the formatter shows the fields of
  the instant shifted by a whole number of minutes, at most a day.
\<close>

locale constant_offset_zone =
  fixes f :: "instant \<Rightarrow> zoned_parts" and off :: int
  assumes fields: "f t = utc_fields (t + off)"
    and minutes: "off mod 60000 = 0"
    and small: "- ms_per_day \<le> off" "off \<le> ms_per_day"
begin

lemma offset_at:
  assumes "- 500000 * ms_per_day \<le> t" "t mod 60000 = 0"
  shows "zoned_offset f t = off"
proof -
  have "- 500001 * ms_per_day \<le> t + off" using assms small by linarith
  then have "- 500001 \<le> (t + off) div ms_per_day"
    by (simp add: ms_per_day_def)
  then have "wallClockValue (f t) = t + off - (t + off) mod 60000"
    unfolding fields by (intro wall_utc_fields) simp
  moreover have "(t + off) mod 60000 = 0" using assms(2) minutes by (simp add: mod_add_eq [symmetric])
  ultimately show ?thesis by (simp add: zoned_offset_def)
qed

lemma resolve_shift:
  assumes "- 400000 * ms_per_day \<le> desired_wall d m" "desired_wall d m mod 60000 = 0"
  shows "resolveZonedWallMinute f d m b = Inr (desired_wall d m - off)"
proof -
  define D where "D = desired_wall d m"
  have al: "(D + h * 60 * 60000) mod 60000 = 0" for h
    using assms(2) by (simp add: D_def mod_add_eq [symmetric])
  have lo: "- 500000 * ms_per_day \<le> D + h * 60 * 60000" if "-36 \<le> h" for h
    using assms(1) that by (simp add: D_def ms_per_day_def)
  have "zoned_offset f (D + h * 60 * 60000) = off" if "h \<in> set delta_hours" for h
    by (rule offset_at [OF lo al]) (use that in \<open>auto simp: delta_hours_def\<close>)
  then have "snd ` set (offset_samples f D) = (\<lambda>h. off) ` set delta_hours"
    unfolding offset_samples_def Let_def set_map image_image by (intro image_cong) auto
  then have "snd ` set (offset_samples f D) = {off}" by (simp add: delta_hours_def)
  then have u: "js_unique (map snd (offset_samples f D)) = [off]"
    by (intro js_unique_constant) simp
  have "(D - off) mod 60000 = 0"
    using assms(2) minutes by (simp add: D_def mod_diff_eq [symmetric])
  moreover have "- 500000 * ms_per_day \<le> D - off"
    using assms(1) small by (simp add: D_def ms_per_day_def)
  ultimately have "zoned_offset f (D - off) = off" by (intro offset_at)
  then have "wallClockValue (f (D - off)) = D" by (simp add: zoned_offset_def)
  then have "exact_instants f D = [D - off]" by (simp add: exact_instants_def u)
  then show ?thesis
    by (simp add: resolveZonedWallMinute_def Let_def D_def [symmetric] split: boundary.splits)
qed

lemma resolve_local:
  assumes "0 \<le> at" "0 \<le> m" "m \<le> 1440"
  shows "resolveZonedWallMinute f (f at) m b =
    Inr ((at + off) div ms_per_day * ms_per_day + m * 60000 - off)"
proof -
  define z where "z = (at + off) div ms_per_day"
  have "- 1 * ms_per_day \<le> at + off" using assms(1) small by linarith
  then have z: "- 1 \<le> z" unfolding z_def by (simp add: ms_per_day_def)
  then have d: "desired_wall (f at) m = z * ms_per_day + m * 60000"
    unfolding fields z_def by (intro desired_wall_utc_fields) (use assms in simp_all)
  have "desired_wall (f at) m mod 60000 = 0" unfolding d by (rule minute_aligned)
  moreover have "- 400000 * ms_per_day \<le> desired_wall (f at) m"
    unfolding d using z assms(2) by (simp add: ms_per_day_def)
  ultimately show ?thesis using resolve_shift d z_def by simp
qed

lemma daily_bounds:
  assumes "0 \<le> at" "0 \<le> m" "m \<le> 1440"
  shows "after_daily_start f (Some m) at = Inr (m * 60000 \<le> (at + off) mod ms_per_day)"
    and "before_daily_end f (Some m) at = Inr ((at + off) mod ms_per_day < m * 60000)"
proof -
  define Q R where "Q = (at + off) div ms_per_day * ms_per_day" and "R = (at + off) mod ms_per_day"
  have "at + off = Q + R" by (simp add: Q_def R_def)
  then have "(m * 60000 \<le> R \<longleftrightarrow> \<not> at < Q + m * 60000 - off)"
    "(R < m * 60000 \<longleftrightarrow> \<not> Q + m * 60000 - off \<le> at)" by linarith+
  then show "after_daily_start f (Some m) at = Inr (m * 60000 \<le> (at + off) mod ms_per_day)"
    "before_daily_end f (Some m) at = Inr ((at + off) mod ms_per_day < m * 60000)"
    using resolve_local [OF assms]
    by (simp_all add: after_daily_start_def before_daily_end_def Q_def R_def)
qed

end

text \<open>The UTC formatter and the formatters of whole-minute shifts of it are such zones.\<close>

interpretation utc_zone: constant_offset_zone utc_fields 0
  by unfold_locales (simp_all add: ms_per_day_def)

lemma constant_offset_zone_shift:
  "off mod 60000 = 0 \<Longrightarrow> - ms_per_day \<le> off \<Longrightarrow> off \<le> ms_per_day \<Longrightarrow>
    constant_offset_zone (\<lambda>t. utc_fields (t + off)) off"
  by unfold_locales simp_all

subsection \<open>The cache\<close>

text \<open>A cache is coherent when each entry is what the resolver computes for its key.\<close>

definition wall_cache_ok :: "(string \<Rightarrow> instant \<Rightarrow> zoned_parts) \<Rightarrow> (wall_key \<times> instant) list \<Rightarrow> bool" where
  "wall_cache_ok zone cache \<longleftrightarrow>
     length cache \<le> MAX_WALL_MINUTE_CACHE_ENTRIES \<and>
     (\<forall>((tz, y, mo, d, m, b), t) \<in> set cache. \<forall>date.
        zp_year date = y \<and> zp_month date = mo \<and> zp_day date = d \<longrightarrow>
        resolveZonedWallMinute (zone tz) date m b = Inr t)"

lemma resolve_date_only:
  assumes "zp_year p = zp_year q" "zp_month p = zp_month q" "zp_day p = zp_day q"
  shows "resolveZonedWallMinute f p m b = resolveZonedWallMinute f q m b"
  using assms by (simp add: resolveZonedWallMinute_def desired_wall_def)

lemma resolve_cached_correct:
  assumes "wall_cache_ok zone cache"
  shows "fst (resolve_cached zone tz date m b cache) = resolveZonedWallMinute (zone tz) date m b"
    and "wall_cache_ok zone (snd (resolve_cached zone tz date m b cache))"
proof -
  let ?k = "(tz, zp_year date, zp_month date, zp_day date, m, b)"
  let ?r = "resolveZonedWallMinute (zone tz) date m b"
  have hit: "?r = Inr t" if "map_of cache ?k = Some t" for t
    using assms map_of_SomeD [OF that] by (fastforce simp: wall_cache_ok_def)
  show "fst (resolve_cached zone tz date m b cache) = ?r"
    using hit by (auto simp: resolve_cached_def Let_def split: option.splits sum.splits)
  have fresh: "resolveZonedWallMinute (zone tz) date' m b = Inr t"
    if "?r = Inr t" "zp_year date' = zp_year date" "zp_month date' = zp_month date"
      "zp_day date' = zp_day date" for date' t
    using that resolve_date_only [of date' date] by metis
  have "wall_cache_ok zone (remember_wall ?k t cache)" if "?r = Inr t" for t
    using assms fresh [OF that]
    by (auto simp: wall_cache_ok_def remember_wall_def MAX_WALL_MINUTE_CACHE_ENTRIES_def)
  then show "wall_cache_ok zone (snd (resolve_cached zone tz date m b cache))"
    using assms by (auto simp: resolve_cached_def Let_def split: option.splits sum.splits)
qed

end
