(* ===== verification/Canonical.thy ===== *)
theory Canonical
  imports Media_Policy Schedule
begin

text \<open>
  \<open>apps/api/src/releases/canonical.ts\<close> and \<open>apps/api/src/device-enrollment/canonical.ts\<close>: the
  canonical snapshots of releases, candidates and assignments, the JSON texts their SHA-256
  digests are taken of, the idempotency keys and command digests, and the derivation of
  six-digit enrollment codes.  Instants are canonical already, so \<open>canonicalUtcInstant\<close> on a
  stored instant is the identity and is not written.
\<close>

section \<open>Release snapshots\<close>

record release_snapshot =
  rs_sourcePlaylistId :: string
  rs_sourcePlaylistUpdatedAt :: instant
  rs_playlistName :: string
  rs_playlistDescription :: string
  rs_items :: "frozen_item list"

definition freeze_asset :: "media \<Rightarrow> frozen_asset" where
  "freeze_asset asset =
     \<lparr>fa_id = md_id asset, fa_name = md_name asset, fa_kind = md_kind asset,
      fa_mimeType = md_mimeType asset, fa_url = md_url asset,
      fa_storageKey = when_truthy (md_storageKey asset),
      fa_checksumSha256 = toLowerCase (md_checksumSha256 asset),
      fa_sizeBytes = md_sizeBytes asset, fa_createdAt = md_createdAt asset,
      fa_expiresAt = md_expiresAt asset\<rparr>"

definition compare_items :: "env \<Rightarrow> playlist_item \<Rightarrow> playlist_item \<Rightarrow> int" where
  "compare_items e l r =
     cmp_or (pi_position l - pi_position r) (localeCompare e (pi_id l) (pi_id r))"

text \<open>
  \<open>new Map(assets.map(asset => [asset.id, asset])).get(id)\<close>: the last asset with the id.
\<close>

definition asset_by_id :: "media list \<Rightarrow> string \<Rightarrow> media option" where
  "asset_by_id assets i = List.find (\<lambda>a. md_id a = i) (rev assets)"

fun freeze_items ::
  "media list \<Rightarrow> int list \<Rightarrow> playlist_item list \<Rightarrow> candidate_failure + frozen_item list" where
  "freeze_items assets positions [] = Inr []"
| "freeze_items assets positions (item # rest) =
     (if pi_position item \<in> set positions then Inl NO_PLAYABLE_ITEMS
      else case asset_by_id assets (pi_assetId item) of
        None \<Rightarrow> Inl ASSET_NOT_FOUND
      | Some asset \<Rightarrow>
          (case freeze_items assets (pi_position item # positions) rest of
             Inl r \<Rightarrow> Inl r
           | Inr items \<Rightarrow> Inr (\<lparr>fi_id = pi_id item, fi_asset = freeze_asset asset,
               fi_position = pi_position item,
               fi_durationSeconds = pi_durationSeconds item\<rparr> # items)))"

definition canonicalReleaseSnapshot ::
  "env \<Rightarrow> playlist \<Rightarrow> media list \<Rightarrow> candidate_failure + release_snapshot" where
  "canonicalReleaseSnapshot e playlist assets =
     (let orderedItems = sort_by (compare_items e) (pl_items playlist) in
      if orderedItems = [] then Inl NO_PLAYABLE_ITEMS
      else case freeze_items assets [] orderedItems of
        Inl r \<Rightarrow> Inl r
      | Inr items \<Rightarrow> Inr \<lparr>rs_sourcePlaylistId = pl_id playlist,
          rs_sourcePlaylistUpdatedAt = pl_updatedAt playlist, rs_playlistName = pl_name playlist,
          rs_playlistDescription = pl_description playlist, rs_items = items\<rparr>)"

fun media_kind_text :: "media_kind \<Rightarrow> string" where
  "media_kind_text image_kind = ''image''"
| "media_kind_text video_kind = ''video''"
| "media_kind_text web_kind = ''web''"
| "media_kind_text template_kind = ''template''"

fun priority_text :: "priority \<Rightarrow> string" where
  "priority_text normal = ''normal''"
| "priority_text campaign = ''campaign''"
| "priority_text priority = ''priority''"
| "priority_text emergency = ''emergency''"

definition opt_entry :: "string \<Rightarrow> json option \<Rightarrow> (utext \<times> json) list" where
  "opt_entry k v = (case v of None \<Rightarrow> [] | Some j \<Rightarrow> [(js k, j)])"

definition asset_json :: "frozen_asset \<Rightarrow> json" where
  "asset_json a = JObj (
     [(js ''id'', jstr (fa_id a)), (js ''name'', jstr (fa_name a)),
      (js ''kind'', jstr (media_kind_text (fa_kind a))), (js ''mimeType'', jstr (fa_mimeType a)),
      (js ''url'', jstr (fa_url a))]
     @ opt_entry ''storageKey'' (map_option jstr (fa_storageKey a))
     @ [(js ''checksumSha256'', jstr (fa_checksumSha256 a)),
        (js ''sizeBytes'', JNum (fa_sizeBytes a)),
        (js ''createdAt'', jinstant (fa_createdAt a))]
     @ opt_entry ''expiresAt'' (map_option (\<lambda>t. jinstant t) (fa_expiresAt a)))"

definition item_json :: "frozen_item \<Rightarrow> json" where
  "item_json i = JObj
     [(js ''id'', jstr (fi_id i)), (js ''asset'', asset_json (fi_asset i)),
      (js ''position'', JNum (fi_position i)),
      (js ''durationSeconds'', JNum (fi_durationSeconds i))]"

definition release_snapshot_json :: "release_snapshot \<Rightarrow> json" where
  "release_snapshot_json s = JObj
     [(js ''schemaVersion'', JNum 1),
      (js ''sourcePlaylistId'', jstr (rs_sourcePlaylistId s)),
      (js ''sourcePlaylistUpdatedAt'', jinstant (rs_sourcePlaylistUpdatedAt s)),
      (js ''playlistName'', jstr (rs_playlistName s)),
      (js ''playlistDescription'', jstr (rs_playlistDescription s)),
      (js ''items'', JArr (map item_json (rs_items s)))]"

definition releaseSnapshotDigest :: "env \<Rightarrow> release_snapshot \<Rightarrow> string" where
  "releaseSnapshotDigest e s = sha256 e (stringify (release_snapshot_json s))"

definition canonicalStoredReleaseSnapshot :: "release \<Rightarrow> release_snapshot" where
  "canonicalStoredReleaseSnapshot r = \<lparr>rs_sourcePlaylistId = rl_sourcePlaylistId r,
     rs_sourcePlaylistUpdatedAt = rl_sourcePlaylistUpdatedAt r,
     rs_playlistName = rl_playlistName r, rs_playlistDescription = rl_playlistDescription r,
     rs_items = rl_items r\<rparr>"

definition hasValidStoredReleaseDigest :: "env \<Rightarrow> release \<Rightarrow> bool" where
  "hasValidStoredReleaseDigest e r \<longleftrightarrow>
     rl_digestSha256 r = releaseSnapshotDigest e (canonicalStoredReleaseSnapshot r)"

section \<open>Schedules inside snapshots\<close>

text \<open>The frozen schedule every snapshot holds: weekdays sorted and without duplicates.\<close>

definition canonical_schedule :: "frozen_schedule \<Rightarrow> frozen_schedule" where
  "canonical_schedule s = s\<lparr>sw_daysOfWeek := sort (js_unique (sw_daysOfWeek s))\<rparr>"

definition canonical_screen_ids :: "string list \<Rightarrow> string list" where
  "canonical_screen_ids ids = sort (js_unique ids)"

definition schedule_fields_json :: "frozen_schedule \<Rightarrow> (utext \<times> json) list" where
  "schedule_fields_json s =
     [(js ''name'', jstr (fs_name s)), (js ''priority'', jstr (priority_text (fs_priority s))),
      (js ''startsAt'', jinstant (fs_startsAt s))]
     @ opt_entry ''endsAt'' (map_option (\<lambda>t. jinstant t) (sw_endsAt s))
     @ [(js ''timezone'', jstr (sw_timezone s)),
        (js ''daysOfWeek'', JArr (map JNum (sw_daysOfWeek s)))]
     @ opt_entry ''dailyStartMinutes'' (map_option JNum (sw_dailyStartMinutes s))
     @ opt_entry ''dailyEndMinutes'' (map_option JNum (sw_dailyEndMinutes s))
     @ [(js ''enabled'', JBool (fs_enabled s))]"

section \<open>Candidate snapshots\<close>

record candidate_snapshot =
  cs_releaseDigestSha256 :: string
  cs_schedule :: frozen_schedule
  cs_screenIds :: "string list"
  cs_policyVersion :: int
  cs_expiresAt :: instant

definition canonicalReleaseCandidateSnapshot ::
  "string \<Rightarrow> frozen_schedule \<Rightarrow> string list \<Rightarrow> instant \<Rightarrow> candidate_snapshot" where
  "canonicalReleaseCandidateSnapshot releaseDigest schedule screenIds expiresAt =
     \<lparr>cs_releaseDigestSha256 = releaseDigest, cs_schedule = canonical_schedule schedule,
      cs_screenIds = canonical_screen_ids screenIds, cs_policyVersion = 1,
      cs_expiresAt = expiresAt\<rparr>"

definition candidate_snapshot_json :: "candidate_snapshot \<Rightarrow> json" where
  "candidate_snapshot_json s = JObj
     [(js ''schemaVersion'', JNum 1), (js ''releaseDigestSha256'', jstr (cs_releaseDigestSha256 s)),
      (js ''schedule'', JObj (schedule_fields_json (cs_schedule s))),
      (js ''screenIds'', JArr (map (\<lambda>x. jstr x) (cs_screenIds s))),
      (js ''policyVersion'', JNum (cs_policyVersion s)),
      (js ''expiresAt'', jinstant (cs_expiresAt s))]"

definition releaseCandidateDigest :: "env \<Rightarrow> candidate_snapshot \<Rightarrow> string" where
  "releaseCandidateDigest e s = sha256 e (stringify (candidate_snapshot_json s))"

section \<open>Assignment snapshots\<close>

record assignment_snapshot =
  as_releaseDigestSha256 :: string
  as_state :: assignment_state
  as_schedule :: frozen_schedule
  as_screenIds :: "string list"
  as_previousAssignmentId :: "string option"

definition canonicalAssignmentSnapshot ::
  "string \<Rightarrow> assignment_state \<Rightarrow> frozen_schedule \<Rightarrow> string list \<Rightarrow> string option
    \<Rightarrow> assignment_snapshot" where
  "canonicalAssignmentSnapshot releaseDigest state schedule screenIds previous =
     \<lparr>as_releaseDigestSha256 = releaseDigest, as_state = state,
      as_schedule = canonical_schedule schedule, as_screenIds = canonical_screen_ids screenIds,
      as_previousAssignmentId = when_truthy previous\<rparr>"

fun assignment_state_text :: "assignment_state \<Rightarrow> string" where
  "assignment_state_text ASSIGNED = ''ASSIGNED''"
| "assignment_state_text WITHDRAWN = ''WITHDRAWN''"

definition assignment_snapshot_json :: "assignment_snapshot \<Rightarrow> json" where
  "assignment_snapshot_json s = JObj (
     [(js ''schemaVersion'', JNum 1), (js ''releaseDigestSha256'', jstr (as_releaseDigestSha256 s)),
      (js ''state'', jstr (assignment_state_text (as_state s))),
      (js ''schedule'', JObj (schedule_fields_json (as_schedule s))),
      (js ''screenIds'', JArr (map (\<lambda>x. jstr x) (as_screenIds s)))]
     @ opt_entry ''previousAssignmentId'' (map_option (\<lambda>x. jstr x) (as_previousAssignmentId s)))"

definition assignmentSnapshotDigest :: "env \<Rightarrow> assignment_snapshot \<Rightarrow> string" where
  "assignmentSnapshotDigest e s = sha256 e (stringify (assignment_snapshot_json s))"

definition hasValidStoredAssignmentDigest :: "env \<Rightarrow> assignment \<Rightarrow> release \<Rightarrow> bool" where
  "hasValidStoredAssignmentDigest e a r \<longleftrightarrow>
     ra_organizationId a = rl_organizationId r \<and> ra_releaseId a = rl_id r \<and>
     hasValidStoredReleaseDigest e r \<and>
     ra_digestSha256 a = assignmentSnapshotDigest e
       (canonicalAssignmentSnapshot (rl_digestSha256 r) (ra_state a) (ra_schedule a)
          (ra_screenIds a) (ra_previousAssignmentId a))"

section \<open>Publication requests and command digests\<close>

text \<open>A frozen schedule's fields of any longer schedule record.\<close>

definition frozen_of :: "'a frozen_schedule_scheme \<Rightarrow> frozen_schedule" where
  "frozen_of s = \<lparr>sw_endsAt = sw_endsAt s, sw_timezone = sw_timezone s,
     sw_daysOfWeek = sw_daysOfWeek s, sw_dailyStartMinutes = sw_dailyStartMinutes s,
     sw_dailyEndMinutes = sw_dailyEndMinutes s, fs_name = fs_name s, fs_priority = fs_priority s,
     fs_startsAt = fs_startsAt s, fs_enabled = fs_enabled s\<rparr>"

definition canonicalSchedulePublicationRequest :: "'a schedule_input_scheme \<Rightarrow> json" where
  "canonicalSchedulePublicationRequest input = JObj (
     [(js ''schemaVersion'', JNum 1), (js ''operation'', jstr ''schedule.publish''),
      (js ''playlistId'', jstr (sd_playlistId input))]
     @ schedule_fields_json (canonical_schedule (frozen_of input))
     @ [(js ''screenIds'', JArr (map (\<lambda>x. jstr x) (canonical_screen_ids (sd_screenIds input))))])"

definition schedulePublicationRequestDigest :: "env \<Rightarrow> 'a schedule_input_scheme \<Rightarrow> string" where
  "schedulePublicationRequestDigest e input =
     sha256 e (stringify (canonicalSchedulePublicationRequest input))"

definition schedulePublicationKeyHash :: "env \<Rightarrow> string \<Rightarrow> string \<Rightarrow> string" where
  "schedulePublicationKeyHash e organizationId key =
     sha256 e (js ''screengoblin:schedule-publish-idempotency:v1'' @ [0] @ js organizationId
       @ [0] @ js key)"

fun operation_text :: "candidate_operation \<Rightarrow> string" where
  "operation_text Op_create = ''create''"
| "operation_text Op_submit = ''submit''"
| "operation_text Op_approve = ''approve''"
| "operation_text Op_publish = ''publish''"

definition releaseCandidateKeyHash :: "env \<Rightarrow> string \<Rightarrow> candidate_operation \<Rightarrow> string \<Rightarrow> string" where
  "releaseCandidateKeyHash e organizationId operation key =
     sha256 e (js ''screengoblin:release-candidate:'' @ js (operation_text operation)
       @ js '':idempotency:v1'' @ [0] @ js organizationId @ [0] @ js key)"

definition releaseCandidateCommandDigest ::
  "env \<Rightarrow> candidate_operation \<Rightarrow> string \<Rightarrow> string \<Rightarrow> string" where
  "releaseCandidateCommandDigest e operation candidateId expectedDigest =
     sha256 e (stringify (JObj
       [(js ''schemaVersion'', JNum 1), (js ''operation'', jstr (operation_text operation)),
        (js ''candidateId'', jstr candidateId),
        (js ''expectedDigestSha256'', jstr expectedDigest)]))"

definition releaseCandidateCreateCommandDigest ::
  "env \<Rightarrow> 'a schedule_input_scheme \<Rightarrow> instant \<Rightarrow> string" where
  "releaseCandidateCreateCommandDigest e input expiresAt =
     sha256 e (stringify (JObj
       [(js ''schemaVersion'', JNum 1), (js ''operation'', jstr ''create''),
        (js ''schedule'', canonicalSchedulePublicationRequest input),
        (js ''expiresAt'', jinstant expiresAt)]))"

section \<open>Enrollment keys, digests and codes\<close>

definition enrollmentIdempotencyKeyHash :: "env \<Rightarrow> string \<Rightarrow> string \<Rightarrow> string" where
  "enrollmentIdempotencyKeyHash e organizationId key =
     sha256 e (stringify (JObj
       [(js ''schemaVersion'', JNum 1), (js ''operation'', jstr ''device.enrollment.create''),
        (js ''organizationId'', jstr organizationId), (js ''key'', jstr key)]))"

definition enrollmentRequestDigest :: "env \<Rightarrow> string \<Rightarrow> string \<Rightarrow> string" where
  "enrollmentRequestDigest e screenId reason =
     sha256 e (stringify (JObj
       [(js ''schemaVersion'', JNum 1), (js ''operation'', jstr ''device.enrollment.create''),
        (js ''screenId'', jstr screenId), (js ''reason'', jstr reason)]))"

definition enrollmentActivationKeyHash :: "env \<Rightarrow> string \<Rightarrow> string \<Rightarrow> string" where
  "enrollmentActivationKeyHash e organizationId key =
     sha256 e (stringify (JObj
       [(js ''schemaVersion'', JNum 1), (js ''operation'', jstr ''device.enrollment.activate''),
        (js ''organizationId'', jstr organizationId), (js ''key'', jstr key)]))"

definition enrollmentActivationDigest ::
  "env \<Rightarrow> string \<Rightarrow> string \<Rightarrow> string \<Rightarrow> string \<Rightarrow> string" where
  "enrollmentActivationDigest e screenId grantId candidateId fingerprint =
     sha256 e (stringify (JObj
       [(js ''schemaVersion'', JNum 1), (js ''operation'', jstr ''device.enrollment.activate''),
        (js ''screenId'', jstr screenId), (js ''grantId'', jstr grantId),
        (js ''candidateId'', jstr candidateId), (js ''fingerprint'', jstr fingerprint)]))"

text \<open>
  \<open>enrollmentCode\<close>: 32-bit words of an HMAC stream, those below the largest multiple of a
  million taken modulo a million.  The argument gives, for each block, the big-endian words of
  its 32-byte HMAC.
\<close>

definition code_ceiling :: int where
  "code_ceiling = 4294967296 div 1000000 * 1000000"

fun first_below :: "int list \<Rightarrow> int option" where
  "first_below [] = None"
| "first_below (v # vs) = (if v < code_ceiling then Some v else first_below vs)"

definition enrollmentCode :: "(nat \<Rightarrow> int list) \<Rightarrow> exn + string" where
  "enrollmentCode block_words =
     (case first_below (concat (map block_words [0..<16])) of
        Some v \<Rightarrow> Inr (pad 6 (v mod 1000000))
      | None \<Rightarrow> Inl (GenericError ''Pairing code derivation failed''))"

section \<open>Facts\<close>

lemma sort_js_unique_cong:
  fixes xs ys :: "'a::linorder list"
  assumes "set xs = set ys"
  shows "sort (js_unique xs) = sort (js_unique ys)"
  using assms by (intro sorted_distinct_set_unique) auto

lemma canonical_screen_ids_cong: "set xs = set ys \<Longrightarrow> canonical_screen_ids xs = canonical_screen_ids ys"
  unfolding canonical_screen_ids_def by (rule sort_js_unique_cong)

lemma sort_js_unique_idem [simp]:
  fixes xs :: "'a::linorder list"
  shows "sort (js_unique (sort (js_unique xs))) = sort (js_unique xs)"
  by (intro sorted_distinct_set_unique) auto

lemma canonical_schedule_idem [simp]: "canonical_schedule (canonical_schedule s) = canonical_schedule s"
  by (simp add: canonical_schedule_def)

lemma canonical_screen_ids_idem [simp]:
  "canonical_screen_ids (canonical_screen_ids xs) = canonical_screen_ids xs"
  by (simp add: canonical_screen_ids_def)

lemma set_canonical_screen_ids [simp]: "set (canonical_screen_ids xs) = set xs"
  by (simp add: canonical_screen_ids_def)

lemma asset_by_id_Some: "asset_by_id assets i = Some a \<Longrightarrow> a \<in> set assets \<and> md_id a = i"
  by (auto simp: asset_by_id_def dest: find_SomeD)

text \<open>The frozen items: one per playlist item, in order, with distinct positions.\<close>

lemma fa_id_freeze_asset [simp]: "fa_id (freeze_asset a) = md_id a"
  by (simp add: freeze_asset_def)

lemma freeze_items_spec:
  "freeze_items assets ps items = Inr fs \<Longrightarrow>
    map fi_id fs = map pi_id items \<and> map fi_position fs = map pi_position items \<and>
    map (fa_id \<circ> fi_asset) fs = map pi_assetId items \<and>
    distinct (map pi_position items) \<and> set (map pi_position items) \<inter> set ps = {} \<and>
    (\<forall>f \<in> set fs. \<exists>a \<in> set assets. fi_asset f = freeze_asset a)"
proof (induction items arbitrary: ps fs)
  case Nil
  then show ?case by simp
next
  case (Cons item rest)
  then obtain a fs' where a: "asset_by_id assets (pi_assetId item) = Some a"
      and p: "pi_position item \<notin> set ps"
      and r: "freeze_items assets (pi_position item # ps) rest = Inr fs'"
      and fs: "fs = \<lparr>fi_id = pi_id item, fi_asset = freeze_asset a, fi_position = pi_position item,
        fi_durationSeconds = pi_durationSeconds item\<rparr> # fs'"
    by (auto split: if_splits option.splits sum.splits)
  show ?case
    using Cons.IH [OF r] p asset_by_id_Some [OF a] by (auto simp: fs)
qed

lemma hasValidStoredReleaseDigest_build:
  "rl_digestSha256 r = releaseSnapshotDigest e (canonicalStoredReleaseSnapshot r) \<Longrightarrow>
    hasValidStoredReleaseDigest e r"
  by (simp add: hasValidStoredReleaseDigest_def)

lemma first_below_Some: "first_below vs = Some v \<Longrightarrow> v \<in> set vs \<and> v < code_ceiling"
  by (induction vs) (auto split: if_splits)

end
