(* ===== verification/Releases.thy ===== *)
theory Releases
  imports Content Canonical Policy
begin

text \<open>
  Schedules, release candidates, publication, withdrawal and what a screen is served
  (\<open>memory.ts\<close>, \<open>listSchedules\<close> to \<open>activeSchedules\<close>).  \<open>structuredClone\<close> is the identity on
  immutable values.  \<open>publishScheduleAndAudit\<close> returns before its legacy body, which the code
  marks unreachable; only the reachable part is a definition.
\<close>

section \<open>Arrays with a predicate that can throw\<close>

fun collect :: "('a \<Rightarrow> exn + 'b option) \<Rightarrow> 'a list \<Rightarrow> exn + 'b list" where
  "collect f [] = Inr []"
| "collect f (x # xs) =
     (case f x of
        Inl err \<Rightarrow> Inl err
      | Inr y \<Rightarrow> (case collect f xs of
          Inl err \<Rightarrow> Inl err
        | Inr ys \<Rightarrow> Inr (case y of None \<Rightarrow> ys | Some z \<Rightarrow> z # ys)))"

lemma collect_Inr_in:
  "collect f xs = Inr ys \<Longrightarrow> y \<in> set ys \<Longrightarrow> \<exists>x \<in> set xs. f x = Inr (Some y)"
  by (induction xs arbitrary: ys) (auto split: sum.splits option.splits)

section \<open>Assignments\<close>

text \<open>The last assignment of a schedule: the backwards loop of \<open>latestAssignment\<close>.\<close>

definition latestAssignment :: "store \<Rightarrow> string \<Rightarrow> assignment option" where
  "latestAssignment s scheduleId =
     List.find (\<lambda>a. ra_scheduleId a = scheduleId) (rev (releaseAssignments s))"

section \<open>Schedules\<close>

definition listed_schedule :: "store \<Rightarrow> schedule \<Rightarrow> schedule" where
  "listed_schedule s x =
     (case (truthy (sd_releaseId x), latestAssignment s (sd_id x)) of
        (True, Some a) \<Rightarrow>
          if ra_state a = ASSIGNED
          then x\<lparr>sd_withdrawable := Some True, sd_assignmentId := Some (ra_id a),
                 sd_releaseId := Some (ra_releaseId a)\<rparr>
          else x\<lparr>sd_withdrawable := Some False\<rparr>
      | _ \<Rightarrow> x\<lparr>sd_withdrawable := Some False\<rparr>)"

definition schedule_withdrawn :: "store \<Rightarrow> schedule \<Rightarrow> bool" where
  "schedule_withdrawn s x \<longleftrightarrow> truthy (sd_releaseId x) \<and>
     (case latestAssignment s (sd_id x) of None \<Rightarrow> False | Some a \<Rightarrow> ra_state a = WITHDRAWN)"

definition listSchedules :: "store \<Rightarrow> string \<Rightarrow> schedule list" where
  "listSchedules s org =
     map (listed_schedule s)
       (filter (\<lambda>x. sd_organizationId x = org \<and> \<not> schedule_withdrawn s x) (schedules s))"

definition createSchedule ::
  "env \<Rightarrow> string \<Rightarrow> schedule_input \<Rightarrow> bool option \<Rightarrow> string option \<Rightarrow> string option \<Rightarrow> store
    \<Rightarrow> schedule \<times> store" where
  "createSchedule e org data withdrawable releaseId assignmentId s =
     (let x = schedule_input.extend data
            (schedule.fields (new_id e 0) org withdrawable releaseId assignmentId (now e) (now e))
      in (x, s\<lparr>schedules := schedules s @ [x]\<rparr>))"

definition deleteSchedule :: "string \<Rightarrow> string \<Rightarrow> store \<Rightarrow> bool \<times> store" where
  "deleteSchedule org scheduleId s =
     (let kept = filter (\<lambda>x. \<not> (sd_organizationId x = org \<and> sd_id x = scheduleId)) (schedules s)
      in (length (schedules s) \<noteq> length kept, s\<lparr>schedules := kept\<rparr>))"

section \<open>Candidates\<close>

text \<open>The actor's role, undefined for an unknown or disabled user.\<close>

definition candidateActor :: "store \<Rightarrow> string \<Rightarrow> string \<Rightarrow> session_user option" where
  "candidateActor s org userId = findSessionUser s userId org"

definition actor_can :: "store \<Rightarrow> string \<Rightarrow> string \<Rightarrow> capability \<Rightarrow> bool" where
  "actor_can s org userId c \<longleftrightarrow> hasCapability (map_option u_role (candidateActor s org userId)) c"

definition hasValidCandidateDigest :: "env \<Rightarrow> release_candidate \<Rightarrow> bool" where
  "hasValidCandidateDigest e c \<longleftrightarrow>
     cd_policyVersion c = 1 \<and>
     cd_digestSha256 c = releaseCandidateDigest e
       (canonicalReleaseCandidateSnapshot (cd_releaseDigestSha256 c) (cd_schedule c)
          (cd_screenIds c) (cd_expiresAt c))"

fun expected_state :: "candidate_operation \<Rightarrow> candidate_state" where
  "expected_state Op_create = DRAFT"
| "expected_state Op_submit = IN_REVIEW"
| "expected_state Op_approve = APPROVED"
| "expected_state Op_publish = PUBLISHED"

definition is_candidate :: "string \<Rightarrow> string \<Rightarrow> release_candidate \<Rightarrow> bool" where
  "is_candidate org i c \<longleftrightarrow> cd_organizationId c = org \<and> cd_id c = i"

definition approval_matches :: "release_candidate \<Rightarrow> bool" where
  "approval_matches c \<longleftrightarrow> (case cd_approval c of
     None \<Rightarrow> False | Some a \<Rightarrow> ap_candidateDigestSha256 a = cd_digestSha256 c)"

text \<open>The live candidate still is what the remembered response says.\<close>

definition replay_consistent ::
  "env \<Rightarrow> string \<Rightarrow> candidate_operation \<Rightarrow> release_candidate \<Rightarrow> release_candidate option \<Rightarrow> bool" where
  "replay_consistent e org operation response live \<longleftrightarrow>
     (case live of
        None \<Rightarrow> False
      | Some l \<Rightarrow>
          cd_organizationId response = org \<and> cd_state response = expected_state operation \<and>
          cd_digestSha256 response = cd_digestSha256 l \<and> hasValidCandidateDigest e l \<and>
          (operation = Op_approve \<or> operation = Op_publish \<longrightarrow> approval_matches l) \<and>
          (operation = Op_publish \<longrightarrow>
             truthy (cd_scheduleId l) \<and> truthy (cd_assignmentId l) \<and> cd_state l = PUBLISHED))"

definition is_idempotency ::
  "string \<Rightarrow> candidate_operation \<Rightarrow> string \<Rightarrow> candidate_idempotency \<Rightarrow> bool" where
  "is_idempotency org operation keyHash r \<longleftrightarrow>
     ci_organizationId r = org \<and> ci_operation r = operation \<and> ci_keyHash r = keyHash"

text \<open>\<open>None\<close> where the key is new; an error where the remembered response is inconsistent.\<close>

definition releaseCandidateReplay ::
  "env \<Rightarrow> string \<Rightarrow> candidate_operation \<Rightarrow> audit_context \<Rightarrow> idempotency_input \<Rightarrow> store
    \<Rightarrow> exn + candidate_result option" where
  "releaseCandidateReplay e org operation audit idempotency s =
     (case List.find (is_idempotency org operation (ii_keyHash idempotency))
             (candidateIdempotency s) of
        None \<Rightarrow> Inr None
      | Some existing \<Rightarrow>
          if ci_actorUserId existing \<noteq> ac_actorUserId audit \<or>
             ci_requestDigestSha256 existing \<noteq> ii_requestDigestSha256 idempotency
          then Inr (Some (Not_completed CF_KEY_REUSED))
          else if ci_expiresAt existing \<le> now e then Inr (Some (Not_completed CF_KEY_EXPIRED))
          else case ci_response existing of
            None \<Rightarrow> Inr (Some (Not_completed CF_KEY_EXPIRED))
          | Some response \<Rightarrow>
              if replay_consistent e org operation response
                   (List.find (is_candidate org (cd_id response)) (releaseCandidates s))
              then Inr (Some (Completed response True))
              else Inl (GenericError ''Idempotent candidate response references are invalid''))"

definition rememberReleaseCandidate ::
  "env \<Rightarrow> string \<Rightarrow> candidate_operation \<Rightarrow> audit_context \<Rightarrow> idempotency_input \<Rightarrow> release_candidate
    \<Rightarrow> store \<Rightarrow> store" where
  "rememberReleaseCandidate e org operation audit idempotency candidate s =
     s\<lparr>candidateIdempotency := candidateIdempotency s @
         [\<lparr>ci_organizationId = org, ci_operation = operation, ci_keyHash = ii_keyHash idempotency,
           ci_actorUserId = ac_actorUserId audit,
           ci_requestDigestSha256 = ii_requestDigestSha256 idempotency,
           ci_expiresAt = now e + CANDIDATE_RESPONSE_RETENTION_MS,
           ci_response = Some candidate\<rparr>]\<rparr>"

definition listReleaseCandidates :: "env \<Rightarrow> store \<Rightarrow> string \<Rightarrow> release_candidate list" where
  "listReleaseCandidates e s org =
     sort_by (\<lambda>l r. cmp_or (cmp_instant (cd_createdAt r) (cd_createdAt l))
         (localeCompare e (cd_id r) (cd_id l)))
       (filter (\<lambda>c. cd_organizationId c = org) (releaseCandidates s))"

definition getReleaseCandidate :: "store \<Rightarrow> string \<Rightarrow> string \<Rightarrow> release_candidate option" where
  "getReleaseCandidate s org candidateId =
     List.find (is_candidate org candidateId) (releaseCandidates s)"

text \<open>
  The guard every candidate operation starts with: well-formed hashes, or an error; the
  capability; the remembered response.
\<close>

definition candidate_guard ::
  "env \<Rightarrow> string \<Rightarrow> candidate_operation \<Rightarrow> capability \<Rightarrow> string list \<Rightarrow> audit_context
    \<Rightarrow> idempotency_input \<Rightarrow> store \<Rightarrow> (store, candidate_result) outcome
    \<Rightarrow> (store, candidate_result) outcome" where
  "candidate_guard e org operation capability hashes audit idempotency s continue =
     (if \<not> list_all is_sha256_hex
           (hashes @ [ii_keyHash idempotency, ii_requestDigestSha256 idempotency])
      then (Inl (GenericError
          (if hashes = [] then ''Canonical candidate idempotency hashes are required''
           else ''Canonical candidate hashes are required'')), s)
      else if \<not> actor_can s org (ac_actorUserId audit) capability
      then (Inr (Not_completed CF_FORBIDDEN), s)
      else case releaseCandidateReplay e org operation audit idempotency s of
        Inl x \<Rightarrow> (Inl x, s)
      | Inr (Some result) \<Rightarrow> (Inr result, s)
      | Inr None \<Rightarrow> continue)"

section \<open>Creation\<close>

subsection \<open>Pruning long expired candidates\<close>

definition unpublished :: "release_candidate \<Rightarrow> bool" where
  "unpublished c \<longleftrightarrow> cd_state c = DRAFT \<or> cd_state c = IN_REVIEW \<or> cd_state c = APPROVED"

definition expired_candidates :: "env \<Rightarrow> string \<Rightarrow> release_candidate list \<Rightarrow> release_candidate list" where
  "expired_candidates e org cs =
     take 20 (sort_by (by_expiry e cd_expiresAt cd_id)
       (filter (\<lambda>c. cd_organizationId c = org \<and> unpublished c \<and>
          cd_expiresAt c \<le> now e - CANDIDATE_RESPONSE_RETENTION_MS) cs))"

text \<open>The candidates go, and the releases only they used.\<close>

definition remove_candidates :: "release_candidate list \<Rightarrow> store \<Rightarrow> store" where
  "remove_candidates expired s =
     (let kept = filter (\<lambda>c. cd_id c \<notin> cd_id ` set expired) (releaseCandidates s)
      in s\<lparr>releaseCandidates := kept,
           releases := filter (\<lambda>r. rl_id r \<notin> cd_releaseId ` set expired \<or>
               list_ex (\<lambda>c. cd_releaseId c = rl_id r) kept \<or>
               list_ex (\<lambda>a. ra_releaseId a = rl_id r) (releaseAssignments s)) (releases s)\<rparr>)"

definition pruned_event :: "string \<Rightarrow> audit_context \<Rightarrow> nat \<Rightarrow> audit_event" where
  "pruned_event org audit n =
     (user_event org audit ''release.candidate.expired_pruned'' ''release_candidate'' None
        [(js ''count'', JNum (int n))])\<lparr>au_ipAddress := None, au_requestId := None\<rparr>"

text \<open>The next free identifier index and the state, or an error of the audit record.\<close>

definition prune_candidates :: "env \<Rightarrow> string \<Rightarrow> audit_context \<Rightarrow> store \<Rightarrow> (store, nat) outcome" where
  "prune_candidates e org audit s =
     (let expired = expired_candidates e org (releaseCandidates s) in
      if expired = [] then (Inr 0, s)
      else (let s1 = remove_candidates expired s in
            with_audit e 0 (pruned_event org audit (length expired)) s1
              (\<lambda>r. (Inr 1, s1\<lparr>auditRecords := auditRecords s1 @ [r]\<rparr>))))"

subsection \<open>Admission\<close>

definition assets_of :: "store \<Rightarrow> string \<Rightarrow> playlist \<Rightarrow> media list" where
  "assets_of s org p =
     List.map_filter (\<lambda>i. List.find (is_media org (pi_assetId i)) (medias s)) (pl_items p)"

definition screens_known :: "store \<Rightarrow> string \<Rightarrow> string list \<Rightarrow> bool" where
  "screens_known s org ids \<longleftrightarrow> list_all (\<lambda>i. list_ex (is_screen org i) (screens s)) ids"

definition media_allowed :: "env \<Rightarrow> string list \<Rightarrow> string list \<Rightarrow> bool" where
  "media_allowed e origins urls \<longleftrightarrow> list_all (\<lambda>u. mediaUrlMatchesAllowedOrigin e u origins) urls"

definition open_candidates :: "store \<Rightarrow> string \<Rightarrow> release_candidate list" where
  "open_candidates s org =
     filter (\<lambda>c. cd_organizationId c = org \<and> cd_state c \<noteq> PUBLISHED) (releaseCandidates s)"

definition candidate_limit_reached :: "env \<Rightarrow> store \<Rightarrow> string \<Rightarrow> bool" where
  "candidate_limit_reached e s org \<longleftrightarrow>
     length (filter (\<lambda>c. cd_expiresAt c > now e) (open_candidates s org)) \<ge> 100 \<or>
     length (open_candidates s org) \<ge> 1000"

text \<open>The release snapshot of the requested playlist, or why it is refused, check by check.\<close>

definition candidate_snapshot_of ::
  "env \<Rightarrow> string \<Rightarrow> schedule_input \<Rightarrow> string list \<Rightarrow> store
    \<Rightarrow> candidate_failure + release_snapshot" where
  "candidate_snapshot_of e org data origins s =
     (let screenIds = canonical_screen_ids (sd_screenIds data) in
      if screenIds = [] \<or> length screenIds > 1000 then Inl SCREEN_NOT_FOUND
      else if candidate_limit_reached e s org then Inl RELEASE_TOO_LARGE
      else case List.find (is_playlist org (sd_playlistId data)) (playlists s) of
        None \<Rightarrow> Inl PLAYLIST_NOT_FOUND
      | Some p \<Rightarrow>
          if \<not> screens_known s org screenIds then Inl SCREEN_NOT_FOUND
          else
            (let assets = assets_of s org p in
             if \<not> media_allowed e origins (map md_url assets) then Inl ASSET_NOT_ALLOWED
             else case mediaPublicationFailure (map policy_of_media assets) (now e) of
               Some failure \<Rightarrow> Inl failure
             | None \<Rightarrow> canonicalReleaseSnapshot e p assets))"

subsection \<open>The new release and candidate\<close>

definition release_of_snapshot ::
  "env \<Rightarrow> string \<Rightarrow> string \<Rightarrow> string \<Rightarrow> release_snapshot \<Rightarrow> release" where
  "release_of_snapshot e i org actorUserId snapshot =
     \<lparr>rl_id = i, rl_organizationId = org, rl_sourcePlaylistId = rs_sourcePlaylistId snapshot,
      rl_sourcePlaylistUpdatedAt = rs_sourcePlaylistUpdatedAt snapshot,
      rl_playlistName = rs_playlistName snapshot,
      rl_playlistDescription = rs_playlistDescription snapshot,
      rl_digestSha256 = releaseSnapshotDigest e snapshot, rl_items = rs_items snapshot,
      rl_createdById = actorUserId, rl_createdAt = now e\<rparr>"

definition new_candidate ::
  "env \<Rightarrow> string \<Rightarrow> string \<Rightarrow> schedule_input \<Rightarrow> instant \<Rightarrow> string \<Rightarrow> release \<Rightarrow> release_snapshot
    \<Rightarrow> release_candidate" where
  "new_candidate e i org data expiresAt actorUserId release snapshot =
     (let cs = canonicalReleaseCandidateSnapshot (releaseSnapshotDigest e snapshot)
            (frozen_of data) (sd_screenIds data) expiresAt
      in \<lparr>cd_id = i, cd_organizationId = org, cd_releaseId = rl_id release,
          cd_releaseDigestSha256 = releaseSnapshotDigest e snapshot,
          cd_sourcePlaylistId = sd_playlistId data, cd_state = DRAFT,
          cd_digestSha256 = releaseCandidateDigest e cs, cd_authorUserId = actorUserId,
          cd_items = rs_items snapshot, cd_schedule = cs_schedule cs,
          cd_screenIds = cs_screenIds cs, cd_policyVersion = cs_policyVersion cs,
          cd_expiresAt = cs_expiresAt cs, cd_submittedAt = None, cd_approvedAt = None,
          cd_publishedAt = None, cd_scheduleId = None, cd_assignmentId = None,
          cd_approval = None, cd_createdAt = now e\<rparr>)"

text \<open>\<open>unavailableAuthorizationShadow\<close>, as the metadata holds it.\<close>

definition unavailableAuthorizationShadow :: "string \<Rightarrow> nat \<Rightarrow> json" where
  "unavailableAuthorizationShadow failureClass targetCount = JObj
     [(js ''schemaVersion'', JNum 1), (js ''policyVersion'', JNum 1),
      (js ''status'', jstr ''UNAVAILABLE''), (js ''baseline'', jstr ''LEGACY_ROLE''),
      (js ''legacyAllowed'', JBool True), (js ''failureClass'', jstr failureClass),
      (js ''targetCount'', JNum (int targetCount))]"

definition created_event :: "string \<Rightarrow> audit_context \<Rightarrow> release_candidate \<Rightarrow> audit_event" where
  "created_event org audit c =
     user_event org audit ''release.candidate.created'' ''release_candidate'' (Some (cd_id c))
       [(js ''digestSha256'', jstr (cd_digestSha256 c)),
        (js ''releaseDigestSha256'', jstr (cd_releaseDigestSha256 c)),
        (js ''screenCount'', JNum (int (length (cd_screenIds c)))),
        (js ''policyVersion'', JNum (cd_policyVersion c)),
        (js ''authorizationShadow'',
         unavailableAuthorizationShadow ''LOAD_FAILED'' (length (cd_screenIds c)))]"

text \<open>
  Storing the candidate; a release with the same digest is reused, otherwise the next
  identifier names a new one.
\<close>

definition store_candidate ::
  "env \<Rightarrow> nat \<Rightarrow> string \<Rightarrow> schedule_input \<Rightarrow> instant \<Rightarrow> audit_context \<Rightarrow> idempotency_input
    \<Rightarrow> release_snapshot \<Rightarrow> store \<Rightarrow> (store, candidate_result) outcome" where
  "store_candidate e k org data expiresAt audit idempotency snapshot s =
     (let known = List.find (\<lambda>r. rl_organizationId r = org \<and>
              rl_digestSha256 r = releaseSnapshotDigest e snapshot) (releases s);
          release = or_default known
            (release_of_snapshot e (new_id e k) org (ac_actorUserId audit) snapshot);
          j = (if known = None then k + 1 else k);
          c = new_candidate e (new_id e j) org data expiresAt (ac_actorUserId audit) release
            snapshot
      in with_audit e (j + 1) (created_event org audit c) s
           (\<lambda>r. (Inr (Completed c False),
              compactExpiredIdempotencyResponses e
                (rememberReleaseCandidate e org Op_create audit idempotency c
                  (s\<lparr>releases := (if known = None then releases s @ [release] else releases s),
                     releaseCandidates := releaseCandidates s @ [c],
                     auditRecords := auditRecords s @ [r]\<rparr>)))))"

definition createReleaseCandidateAndAudit ::
  "env \<Rightarrow> string \<Rightarrow> schedule_input \<Rightarrow> instant \<Rightarrow> audit_context \<Rightarrow> string list \<Rightarrow> idempotency_input
    \<Rightarrow> store \<Rightarrow> (store, candidate_result) outcome" where
  "createReleaseCandidateAndAudit e org data expiresAt audit origins idempotency s =
     candidate_guard e org Op_create releaseCandidateCreate [] audit idempotency s
       (if expiresAt \<le> now e \<or> expiresAt > now e + 7 * 24 * 60 * 60000
        then (Inr (Not_completed EXPIRED_CANDIDATE), s)
        else case prune_candidates e org audit s of
          (Inl x, s1) \<Rightarrow> (Inl x, s1)
        | (Inr k, s1) \<Rightarrow>
            (case candidate_snapshot_of e org data origins s1 of
               Inl failure \<Rightarrow> (Inr (Not_completed failure), s1)
             | Inr snapshot \<Rightarrow>
                 store_candidate e k org data expiresAt audit idempotency snapshot s1))"

section \<open>Submission and approval\<close>

text \<open>The updated candidate, or why the transition is refused.\<close>

definition submitted_candidate ::
  "env \<Rightarrow> audit_context \<Rightarrow> release_candidate \<Rightarrow> candidate_failure + release_candidate" where
  "submitted_candidate e audit c =
     (if cd_authorUserId c \<noteq> ac_actorUserId audit then Inl CF_FORBIDDEN
      else if cd_state c \<noteq> DRAFT then Inl INVALID_STATE
      else Inr (c\<lparr>cd_state := IN_REVIEW, cd_submittedAt := Some (now e)\<rparr>))"

definition approved_candidate ::
  "env \<Rightarrow> string \<Rightarrow> audit_context \<Rightarrow> session_user \<Rightarrow> release_candidate
    \<Rightarrow> candidate_failure + release_candidate" where
  "approved_candidate e org audit actor c =
     (if cd_authorUserId c = ac_actorUserId audit then Inl AUTHOR_CANNOT_APPROVE
      else if cd_state c \<noteq> IN_REVIEW then Inl INVALID_STATE
      else Inr (c\<lparr>cd_state := APPROVED, cd_approvedAt := Some (now e),
                  cd_approval := Some
                    \<lparr>ap_id = new_id e 0, ap_organizationId = org, ap_candidateId = cd_id c,
                     ap_candidateDigestSha256 = cd_digestSha256 c,
                     ap_approverUserId = ac_actorUserId audit,
                     ap_authenticationEpoch = u_authenticationEpoch actor,
                     ap_authorizationEpoch = u_authorizationEpoch actor,
                     ap_approvedAt = now e\<rparr>\<rparr>))"

text \<open>The candidate an operation with an expected digest is about.\<close>

definition candidate_for ::
  "env \<Rightarrow> string \<Rightarrow> string \<Rightarrow> string \<Rightarrow> store \<Rightarrow> candidate_failure + release_candidate" where
  "candidate_for e org candidateId expectedDigest s =
     (case List.find (is_candidate org candidateId) (releaseCandidates s) of
        None \<Rightarrow> Inl CF_NOT_FOUND
      | Some c \<Rightarrow>
          if cd_digestSha256 c \<noteq> expectedDigest \<or> \<not> hasValidCandidateDigest e c
          then Inl STALE_DIGEST
          else if cd_expiresAt c \<le> now e then Inl EXPIRED_CANDIDATE else Inr c)"

definition transitioned ::
  "env \<Rightarrow> string \<Rightarrow> candidate_operation \<Rightarrow> audit_context \<Rightarrow> store \<Rightarrow> release_candidate
    \<Rightarrow> candidate_failure + release_candidate" where
  "transitioned e org operation audit s c =
     (if operation = Op_submit then submitted_candidate e audit c
      else case candidateActor s org (ac_actorUserId audit) of
        None \<Rightarrow> Inl CF_FORBIDDEN \<comment> \<open>excluded by the capability check\<close>
      | Some actor \<Rightarrow> approved_candidate e org audit actor c)"

definition transitionReleaseCandidate ::
  "env \<Rightarrow> string \<Rightarrow> candidate_operation \<Rightarrow> string \<Rightarrow> string \<Rightarrow> audit_context \<Rightarrow> idempotency_input
    \<Rightarrow> store \<Rightarrow> (store, candidate_result) outcome" where
  "transitionReleaseCandidate e org operation candidateId expectedDigest audit idempotency s =
     candidate_guard e org operation
       (if operation = Op_submit then releaseCandidateSubmit else releaseApprove)
       [expectedDigest] audit idempotency s
       (case candidate_for e org candidateId expectedDigest s of
          Inl failure \<Rightarrow> (Inr (Not_completed failure), s)
        | Inr c \<Rightarrow>
            (case transitioned e org operation audit s c of
               Inl failure \<Rightarrow> (Inr (Not_completed failure), s)
             | Inr updated \<Rightarrow>
                 with_audit e (if operation = Op_submit then 0 else 1)
                   (user_event org audit
                      (if operation = Op_submit then ''release.candidate.submitted''
                       else ''release.candidate.approved'') ''release_candidate''
                      (Some (cd_id c)) [(js ''digestSha256'', jstr (cd_digestSha256 c))]) s
                   (\<lambda>r. (Inr (Completed updated False),
                      compactExpiredIdempotencyResponses e
                        (rememberReleaseCandidate e org operation audit idempotency updated
                          (s\<lparr>releaseCandidates := update_first (is_candidate org candidateId)
                               (\<lambda>_. updated) (releaseCandidates s),
                             auditRecords := auditRecords s @ [r]\<rparr>))))))"

definition submitReleaseCandidateAndAudit ::
  "env \<Rightarrow> string \<Rightarrow> string \<Rightarrow> string \<Rightarrow> audit_context \<Rightarrow> idempotency_input \<Rightarrow> store
    \<Rightarrow> (store, candidate_result) outcome" where
  "submitReleaseCandidateAndAudit e org = transitionReleaseCandidate e org Op_submit"

definition approveReleaseCandidateAndAudit ::
  "env \<Rightarrow> string \<Rightarrow> string \<Rightarrow> string \<Rightarrow> audit_context \<Rightarrow> idempotency_input \<Rightarrow> store
    \<Rightarrow> (store, candidate_result) outcome" where
  "approveReleaseCandidateAndAudit e org = transitionReleaseCandidate e org Op_approve"

section \<open>Publication\<close>

text \<open>The approval is for this digest, and its approver may still approve with the same epochs.\<close>

definition approval_failure :: "store \<Rightarrow> string \<Rightarrow> release_candidate \<Rightarrow> candidate_failure option" where
  "approval_failure s org c =
     (case cd_approval c of
        None \<Rightarrow> Some INVALID_STATE
      | Some a \<Rightarrow>
          if cd_state c \<noteq> APPROVED then Some INVALID_STATE
          else if ap_candidateDigestSha256 a \<noteq> cd_digestSha256 c then Some APPROVAL_STALE
          else case candidateActor s org (ap_approverUserId a) of
            None \<Rightarrow> Some APPROVAL_STALE
          | Some u \<Rightarrow>
              if \<not> hasCapability (Some (u_role u)) releaseApprove \<or>
                 u_authenticationEpoch u \<noteq> ap_authenticationEpoch a \<or>
                 u_authorizationEpoch u \<noteq> ap_authorizationEpoch a
              then Some APPROVAL_STALE else None)"

definition is_release :: "string \<Rightarrow> string \<Rightarrow> release \<Rightarrow> bool" where
  "is_release org i r \<longleftrightarrow> rl_organizationId r = org \<and> rl_id r = i"

text \<open>The release the candidate publishes, or why it cannot be published now.\<close>

definition publishable_release ::
  "env \<Rightarrow> string \<Rightarrow> string list \<Rightarrow> release_candidate \<Rightarrow> store \<Rightarrow> candidate_failure + release" where
  "publishable_release e org origins c s =
     (case approval_failure s org c of
        Some failure \<Rightarrow> Inl failure
      | None \<Rightarrow>
     (case List.find (is_release org (cd_releaseId c)) (releases s) of
        None \<Rightarrow> Inl STALE_DIGEST
      | Some release \<Rightarrow>
          if rl_digestSha256 release \<noteq> cd_releaseDigestSha256 c \<or>
             \<not> hasValidStoredReleaseDigest e release
          then Inl STALE_DIGEST
          else
            (let assets = map fi_asset (rl_items release) in
             if \<not> media_allowed e origins (map fa_url assets) then Inl ASSET_NOT_ALLOWED
             else case mediaPublicationFailure (map policy_of_frozen assets) (now e) of
               Some failure \<Rightarrow> Inl failure
             | None \<Rightarrow>
                 if \<not> screens_known s org (cd_screenIds c) then Inl SCREEN_NOT_FOUND
                 else Inr release)))"

definition new_assignment ::
  "env \<Rightarrow> string \<Rightarrow> string \<Rightarrow> string \<Rightarrow> release_candidate \<Rightarrow> string \<Rightarrow> assignment" where
  "new_assignment e org assignmentId scheduleId c actorUserId =
     \<lparr>ra_id = assignmentId, ra_organizationId = org, ra_releaseId = cd_releaseId c,
      ra_scheduleId = scheduleId, ra_screenIds = cd_screenIds c, ra_state = ASSIGNED,
      ra_schedule = cd_schedule c,
      ra_digestSha256 = assignmentSnapshotDigest e
        (canonicalAssignmentSnapshot (cd_releaseDigestSha256 c) ASSIGNED (cd_schedule c)
           (cd_screenIds c) None),
      ra_previousAssignmentId = None, ra_createdById = actorUserId, ra_createdAt = now e\<rparr>"

definition published_schedule ::
  "env \<Rightarrow> string \<Rightarrow> string \<Rightarrow> string \<Rightarrow> release_candidate \<Rightarrow> schedule" where
  "published_schedule e org scheduleId assignmentId c =
     (let x = cd_schedule c in
      \<lparr>sw_endsAt = sw_endsAt x, sw_timezone = sw_timezone x, sw_daysOfWeek = sw_daysOfWeek x,
       sw_dailyStartMinutes = sw_dailyStartMinutes x, sw_dailyEndMinutes = sw_dailyEndMinutes x,
       fs_name = fs_name x, fs_priority = fs_priority x, fs_startsAt = fs_startsAt x,
       fs_enabled = fs_enabled x, sd_playlistId = cd_sourcePlaylistId c,
       sd_screenIds = cd_screenIds c, sd_id = scheduleId, sd_organizationId = org,
       sd_withdrawable = None, sd_releaseId = Some (cd_releaseId c),
       sd_assignmentId = Some assignmentId, sd_createdAt = now e, sd_updatedAt = now e\<rparr>)"

definition published_metadata ::
  "string \<Rightarrow> string \<Rightarrow> assignment \<Rightarrow> (utext \<times> json) list" where
  "published_metadata scheduleId assignmentId a =
     [(js ''scheduleId'', jstr scheduleId), (js ''assignmentId'', jstr assignmentId),
      (js ''assignmentDigestSha256'', jstr (ra_digestSha256 a))]"

definition candidate_published_event ::
  "string \<Rightarrow> audit_context \<Rightarrow> release_candidate \<Rightarrow> assignment \<Rightarrow> audit_event" where
  "candidate_published_event org audit c a =
     user_event org audit ''release.candidate.published'' ''release_candidate'' (Some (cd_id c))
       ([(js ''digestSha256'', jstr (cd_digestSha256 c)),
         (js ''releaseDigestSha256'', jstr (cd_releaseDigestSha256 c))]
        @ published_metadata (ra_scheduleId a) (ra_id a) a)"

definition release_published_event ::
  "string \<Rightarrow> audit_context \<Rightarrow> release_candidate \<Rightarrow> assignment \<Rightarrow> audit_event" where
  "release_published_event org audit c a =
     user_event org audit ''release.published'' ''published_release'' (Some (ra_releaseId a))
       ([(js ''candidateId'', jstr (cd_id c)),
         (js ''candidateDigestSha256'', jstr (cd_digestSha256 c)),
         (js ''digestSha256'', jstr (cd_releaseDigestSha256 c))]
        @ published_metadata (ra_scheduleId a) (ra_id a) a)"

definition publish_candidate ::
  "env \<Rightarrow> string \<Rightarrow> string \<Rightarrow> audit_context \<Rightarrow> idempotency_input \<Rightarrow> release_candidate \<Rightarrow> store
    \<Rightarrow> (store, candidate_result) outcome" where
  "publish_candidate e org candidateId audit idempotency c s =
     (let scheduleId = new_id e 0;
          assignmentId = new_id e 1;
          assignment = new_assignment e org assignmentId scheduleId c (ac_actorUserId audit);
          published = c\<lparr>cd_state := PUBLISHED, cd_publishedAt := Some (now e),
                        cd_scheduleId := Some scheduleId, cd_assignmentId := Some assignmentId\<rparr>
      in with_audit e 2 (candidate_published_event org audit c assignment) s
           (\<lambda>r1. with_audit e 3 (release_published_event org audit c assignment) s
             (\<lambda>r2. (Inr (Completed published False),
                compactExpiredIdempotencyResponses e
                  (rememberReleaseCandidate e org Op_publish audit idempotency published
                    (s\<lparr>releaseCandidates := update_first (is_candidate org candidateId)
                         (\<lambda>_. published) (releaseCandidates s),
                       schedules := schedules s @
                         [published_schedule e org scheduleId assignmentId c],
                       releaseAssignments := releaseAssignments s @ [assignment],
                       auditRecords := auditRecords s @ [r1, r2]\<rparr>))))))"

definition publishReleaseCandidateAndAudit ::
  "env \<Rightarrow> string \<Rightarrow> string \<Rightarrow> string \<Rightarrow> audit_context \<Rightarrow> string list \<Rightarrow> idempotency_input \<Rightarrow> store
    \<Rightarrow> (store, candidate_result) outcome" where
  "publishReleaseCandidateAndAudit e org candidateId expectedDigest audit origins idempotency s =
     candidate_guard e org Op_publish releasePublish [expectedDigest] audit idempotency s
       (case candidate_for e org candidateId expectedDigest s of
          Inl failure \<Rightarrow> (Inr (Not_completed failure), s)
        | Inr c \<Rightarrow>
            (case publishable_release e org origins c s of
               Inl failure \<Rightarrow> (Inr (Not_completed failure), s)
             | Inr release \<Rightarrow> publish_candidate e org candidateId audit idempotency c s))"

text \<open>Direct publication is switched off: the code returns here.\<close>

definition publishScheduleAndAudit ::
  "schedule_input \<Rightarrow> audit_context \<Rightarrow> store \<Rightarrow> (store, schedule answer) outcome" where
  "publishScheduleAndAudit data audit s = (Inr (Denied FORBIDDEN), s)"

section \<open>Withdrawal\<close>

definition withdrawal ::
  "env \<Rightarrow> string \<Rightarrow> string \<Rightarrow> string \<Rightarrow> assignment \<Rightarrow> release \<Rightarrow> string \<Rightarrow> assignment" where
  "withdrawal e org releaseId scheduleId previous release actorUserId =
     \<lparr>ra_id = new_id e 0, ra_organizationId = org, ra_releaseId = releaseId,
      ra_scheduleId = scheduleId, ra_screenIds = ra_screenIds previous, ra_state = WITHDRAWN,
      ra_schedule = ra_schedule previous,
      ra_digestSha256 = assignmentSnapshotDigest e
        (canonicalAssignmentSnapshot (rl_digestSha256 release) WITHDRAWN (ra_schedule previous)
           (ra_screenIds previous) (Some (ra_id previous))),
      ra_previousAssignmentId = Some (ra_id previous), ra_createdById = actorUserId,
      ra_createdAt = now e\<rparr>"

definition withdrawn_event ::
  "string \<Rightarrow> audit_context \<Rightarrow> assignment \<Rightarrow> assignment \<Rightarrow> audit_event" where
  "withdrawn_event org audit previous a =
     user_event org audit ''release.withdrawn'' ''release_assignment'' (Some (ra_id a))
       [(js ''scheduleId'', jstr (ra_scheduleId a)), (js ''releaseId'', jstr (ra_releaseId a)),
        (js ''previousAssignmentId'', jstr (ra_id previous)),
        (js ''screenCount'', JNum (int (length (ra_screenIds a))))]"

definition withdrawScheduleAndAudit ::
  "env \<Rightarrow> string \<Rightarrow> string \<Rightarrow> audit_context \<Rightarrow> store \<Rightarrow> (store, assignment answer) outcome" where
  "withdrawScheduleAndAudit e org scheduleId audit s =
     (if \<not> actor_can s org (ac_actorUserId audit) releaseWithdraw
      then (Inr (Denied FORBIDDEN), s)
      else case List.find (\<lambda>x. sd_organizationId x = org \<and> sd_id x = scheduleId) (schedules s) of
        None \<Rightarrow> (Inr (Denied NOT_FOUND), s)
      | Some x \<Rightarrow>
          (case when_truthy (sd_releaseId x) of
             None \<Rightarrow> (Inr (Denied NOT_FOUND), s)
           | Some releaseId \<Rightarrow>
          (case latestAssignment s scheduleId of
             None \<Rightarrow> (Inr (Denied NOT_FOUND), s)
           | Some previous \<Rightarrow>
               if ra_state previous = WITHDRAWN then (Inr (Denied ALREADY_WITHDRAWN), s)
               else case List.find (is_release org releaseId) (releases s) of
                 None \<Rightarrow> (Inr (Denied NOT_FOUND), s)
               | Some release \<Rightarrow>
                   (let a = withdrawal e org releaseId scheduleId previous release
                          (ac_actorUserId audit)
                    in with_audit e 1 (withdrawn_event org audit previous a) s
                         (\<lambda>r. (Inr (Done a),
                            s\<lparr>releaseAssignments := releaseAssignments s @ [a],
                              auditRecords := auditRecords s @ [r]\<rparr>))))))"

section \<open>What a screen is served\<close>

text \<open>The time guards an assignment's schedule passes before its window is evaluated.\<close>

definition in_term :: "frozen_schedule \<Rightarrow> instant \<Rightarrow> bool" where
  "in_term x at \<longleftrightarrow> fs_enabled x \<and> fs_startsAt x \<le> at \<and>
     (case sw_endsAt x of None \<Rightarrow> True | Some t \<Rightarrow> t > at)"

definition active_release ::
  "env \<Rightarrow> store \<Rightarrow> string \<Rightarrow> string \<Rightarrow> instant \<Rightarrow> schedule \<Rightarrow> exn + (release \<times> assignment) option" where
  "active_release e s org screenId at x =
     (if sd_organizationId x \<noteq> org \<or> \<not> truthy (sd_releaseId x) then Inr None
      else case latestAssignment s (sd_id x) of
        None \<Rightarrow> Inr None
      | Some a \<Rightarrow>
          if ra_organizationId a \<noteq> org \<or> ra_state a \<noteq> ASSIGNED \<or>
             screenId \<notin> set (ra_screenIds a) \<or> \<not> in_term (ra_schedule a) at
          then Inr None
          else case matchesScheduleWindow e (ra_schedule a) at of
            Inl err \<Rightarrow> Inl err
          | Inr False \<Rightarrow> Inr None
          | Inr True \<Rightarrow>
              (case List.find (is_release org (ra_releaseId a)) (releases s) of
                 None \<Rightarrow> Inr None
               | Some r \<Rightarrow>
                   Inr (if hasValidStoredAssignmentDigest e a r then Some (r, a) else None)))"

definition activeOrdinaryReleases ::
  "env \<Rightarrow> store \<Rightarrow> string \<Rightarrow> string \<Rightarrow> instant \<Rightarrow> exn + (release \<times> assignment) list" where
  "activeOrdinaryReleases e s org screenId at =
     collect (active_release e s org screenId at) (schedules s)"

definition delivers :: "media_delivery_input \<Rightarrow> instant \<Rightarrow> frozen_item \<Rightarrow> bool" where
  "delivers input at i \<longleftrightarrow>
     fa_id (fi_asset i) = mv_assetId input \<and>
     fa_storageKey (fi_asset i) = Some (mv_storageKey input) \<and>
     fa_checksumSha256 (fi_asset i) = mv_checksumSha256 input \<and>
     fa_sizeBytes (fi_asset i) = mv_sizeBytes input \<and>
     (case fa_expiresAt (fi_asset i) of None \<Rightarrow> True | Some t \<Rightarrow> t > at)"

definition assignment_serves ::
  "store \<Rightarrow> media_delivery_input \<Rightarrow> instant \<Rightarrow> assignment \<Rightarrow> bool" where
  "assignment_serves s input at a \<longleftrightarrow>
     ra_digestSha256 a = mv_assignmentDigestSha256 input \<and> ra_state a = ASSIGNED \<and>
     map_option ra_id (latestAssignment s (ra_scheduleId a)) = Some (ra_id a) \<and>
     mv_screenId input \<in> set (ra_screenIds a) \<and> in_term (ra_schedule a) at"

definition authorizeMediaDelivery :: "env \<Rightarrow> store \<Rightarrow> media_delivery_input \<Rightarrow> exn + bool" where
  "authorizeMediaDelivery e s input =
     (if \<bar>mv_sizeBytes input\<bar> > MAX_SAFE_INTEGER \<or> mv_sizeBytes input < 1 then Inr False
      else case mv_at input of
        None \<Rightarrow> Inr False
      | Some at \<Rightarrow>
          (case List.find (\<lambda>a. ra_id a = mv_assignmentId input \<and>
                  ra_organizationId a = mv_organizationId input) (releaseAssignments s) of
             None \<Rightarrow> Inr False
           | Some a \<Rightarrow>
               if \<not> assignment_serves s input at a then Inr False
               else case matchesScheduleWindow e (ra_schedule a) at of
                 Inl err \<Rightarrow> Inl err
               | Inr False \<Rightarrow> Inr False
               | Inr True \<Rightarrow>
                   (case List.find (is_release (mv_organizationId input) (ra_releaseId a))
                           (releases s) of
                      None \<Rightarrow> Inr False
                    | Some r \<Rightarrow>
                        Inr (hasValidStoredAssignmentDigest e a r \<and>
                             list_ex (delivers input at) (rl_items r)))))"

definition activeSchedules ::
  "env \<Rightarrow> store \<Rightarrow> string \<Rightarrow> string \<Rightarrow> instant \<Rightarrow> exn + schedule list" where
  "activeSchedules e s org screenId at =
     collect (\<lambda>x.
       if sd_organizationId x = org \<and> screenId \<in> set (sd_screenIds x) \<and> in_term (frozen_of x) at
       then (case matchesScheduleWindow e x at of
               Inl err \<Rightarrow> Inl err | Inr b \<Rightarrow> Inr (if b then Some x else None))
       else Inr None) (schedules s)"

section \<open>Facts\<close>

subsection \<open>The cases of the operations\<close>

lemma compact_frame [simp]:
  "releaseCandidates (compactExpiredIdempotencyResponses e s) = releaseCandidates s"
  "releaseAssignments (compactExpiredIdempotencyResponses e s) = releaseAssignments s"
  "schedules (compactExpiredIdempotencyResponses e s) = schedules s"
  "releases (compactExpiredIdempotencyResponses e s) = releases s"
  "auditRecords (compactExpiredIdempotencyResponses e s) = auditRecords s"
  by (simp_all add: compactExpiredIdempotencyResponses_def Let_def)

lemma remember_frame [simp]:
  "releaseCandidates (rememberReleaseCandidate e org op audit idem c s) = releaseCandidates s"
  "releaseAssignments (rememberReleaseCandidate e org op audit idem c s) = releaseAssignments s"
  "schedules (rememberReleaseCandidate e org op audit idem c s) = schedules s"
  "releases (rememberReleaseCandidate e org op audit idem c s) = releases s"
  "auditRecords (rememberReleaseCandidate e org op audit idem c s) = auditRecords s"
  by (simp_all add: rememberReleaseCandidate_def)

text \<open>A guarded operation continues only with the capability and a new key.\<close>

lemma candidate_guard_cases:
  assumes "candidate_guard e org op cap hs audit idem s k = (res, s')"
  obtains (Stopped) "s' = s" "\<And>c. res \<noteq> Inr (Completed c False)"
  | (Continued) "list_all is_sha256_hex hs" "actor_can s org (ac_actorUserId audit) cap"
      "k = (res, s')"
proof (cases "releaseCandidateReplay e org op audit idem s")
  case (Inl x)
  with assms show ?thesis
    by (cases "list_all is_sha256_hex (hs @ [ii_keyHash idem, ii_requestDigestSha256 idem])";
        cases "actor_can s org (ac_actorUserId audit) cap")
      (auto simp: candidate_guard_def intro: Stopped)
next
  case (Inr r)
  have not_new: "r \<noteq> Some (Completed c False)" for c
    using Inr by (auto simp: releaseCandidateReplay_def split: option.splits if_splits)
  show ?thesis
  proof (cases "list_all is_sha256_hex (hs @ [ii_keyHash idem, ii_requestDigestSha256 idem]) \<and>
      actor_can s org (ac_actorUserId audit) cap \<and> r = None")
    case True
    with Inr assms show ?thesis by (intro Continued) (simp_all add: candidate_guard_def)
  next
    case False
    with Inr assms not_new show ?thesis
      by (intro Stopped) (auto simp: candidate_guard_def split: if_splits option.splits)
  qed
qed

lemma submitted_candidate_Inr:
  "submitted_candidate e audit c = Inr u \<Longrightarrow> cd_authorUserId c = ac_actorUserId audit \<and>
    cd_state c = DRAFT \<and> u = c\<lparr>cd_state := IN_REVIEW, cd_submittedAt := Some (now e)\<rparr>"
  by (auto simp: submitted_candidate_def split: if_splits)

lemma approved_candidate_Inr:
  "approved_candidate e org audit actor c = Inr u \<Longrightarrow> cd_authorUserId c \<noteq> ac_actorUserId audit \<and>
    cd_state c = IN_REVIEW \<and>
    (\<exists>a. u = c\<lparr>cd_state := APPROVED, cd_approvedAt := Some (now e), cd_approval := Some a\<rparr> \<and>
       ap_candidateDigestSha256 a = cd_digestSha256 c \<and> ap_candidateId a = cd_id c \<and>
       ap_approverUserId a = ac_actorUserId audit \<and> ap_organizationId a = org)"
  by (auto simp: approved_candidate_def split: if_splits)

lemma candidate_for_Inr:
  "candidate_for e org i d s = Inr c \<Longrightarrow>
    List.find (is_candidate org i) (releaseCandidates s) = Some c \<and> cd_digestSha256 c = d \<and>
    hasValidCandidateDigest e c \<and> now e < cd_expiresAt c"
  by (auto simp: candidate_for_def split: option.splits if_splits)

lemma transition_cases:
  assumes "transitionReleaseCandidate e org op i d audit idem s = (res, s')"
  shows "s' = s \<and> (\<forall>c. res \<noteq> Inr (Completed c False)) \<or>
    (\<exists>c u r. candidate_for e org i d s = Inr c \<and> transitioned e org op audit s c = Inr u \<and>
      actor_can s org (ac_actorUserId audit)
         (if op = Op_submit then releaseCandidateSubmit else releaseApprove) \<and>
      res = Inr (Completed u False) \<and>
      s' = compactExpiredIdempotencyResponses e (rememberReleaseCandidate e org op audit idem u
         (s\<lparr>releaseCandidates := update_first (is_candidate org i) (\<lambda>_. u) (releaseCandidates s),
            auditRecords := auditRecords s @ [r]\<rparr>)))"
  using assms unfolding transitionReleaseCandidate_def
proof (cases rule: candidate_guard_cases)
  case Continued
  then show ?thesis by (auto split: sum.splits with_audit_splits)
qed simp

lemma publish_cases:
  assumes "publishReleaseCandidateAndAudit e org i d audit origins idem s = (res, s')"
  shows "s' = s \<and> (\<forall>c. res \<noteq> Inr (Completed c False)) \<or>
    (\<exists>c release p a r1 r2. candidate_for e org i d s = Inr c \<and>
      publishable_release e org origins c s = Inr release \<and>
      actor_can s org (ac_actorUserId audit) releasePublish \<and>
      a = new_assignment e org (new_id e 1) (new_id e 0) c (ac_actorUserId audit) \<and>
      p = c\<lparr>cd_state := PUBLISHED, cd_publishedAt := Some (now e),
            cd_scheduleId := Some (new_id e 0), cd_assignmentId := Some (new_id e 1)\<rparr> \<and>
      res = Inr (Completed p False) \<and>
      s' = compactExpiredIdempotencyResponses e (rememberReleaseCandidate e org Op_publish audit idem p
         (s\<lparr>releaseCandidates := update_first (is_candidate org i) (\<lambda>_. p) (releaseCandidates s),
            schedules := schedules s @ [published_schedule e org (new_id e 0) (new_id e 1) c],
            releaseAssignments := releaseAssignments s @ [a],
            auditRecords := auditRecords s @ [r1, r2]\<rparr>)))"
  using assms unfolding publishReleaseCandidateAndAudit_def
proof (cases rule: candidate_guard_cases)
  case Continued
  then show ?thesis by (auto simp: publish_candidate_def Let_def split: sum.splits with_audit_splits)
qed simp

lemma prune_candidates_cases:
  assumes "prune_candidates e org audit s = (res, s')"
  shows "s' = s \<or> (\<exists>rs. s' = (remove_candidates (expired_candidates e org (releaseCandidates s)) s)
     \<lparr>auditRecords := auditRecords s @ rs\<rparr>)"
  using assms
  by (auto simp: prune_candidates_def Let_def remove_candidates_def split: if_splits with_audit_splits
      intro: exI [of _ "[]"])

text \<open>The candidate is stored with a release that is known already or stored with it.\<close>

definition candidate_stored ::
  "env \<Rightarrow> string \<Rightarrow> audit_context \<Rightarrow> idempotency_input \<Rightarrow> release list \<Rightarrow> release_candidate \<Rightarrow> store
    \<Rightarrow> store \<Rightarrow> bool" where
  "candidate_stored e org audit idem rels c s s' \<longleftrightarrow> (\<exists>r.
     s' = compactExpiredIdempotencyResponses e (rememberReleaseCandidate e org Op_create audit idem c
       (s\<lparr>releases := rels, releaseCandidates := releaseCandidates s @ [c],
          auditRecords := auditRecords s @ [r]\<rparr>)))"

definition release_for ::
  "env \<Rightarrow> string \<Rightarrow> string \<Rightarrow> string \<Rightarrow> release_snapshot \<Rightarrow> store \<Rightarrow> release \<Rightarrow> release list \<Rightarrow> bool" where
  "release_for e i org actor snapshot s release rels \<longleftrightarrow>
     rels = releases s \<and> release \<in> set (releases s) \<and> rl_organizationId release = org \<and>
       rl_digestSha256 release = releaseSnapshotDigest e snapshot \<or>
     rels = releases s @ [release] \<and> release = release_of_snapshot e i org actor snapshot"

lemma store_candidate_cases:
  assumes "store_candidate e k org data t audit idem snapshot s = (res, s')"
  shows "s' = s \<and> (\<forall>c. res \<noteq> Inr (Completed c False)) \<or>
    (\<exists>j release rels c. c = new_candidate e (new_id e j) org data t (ac_actorUserId audit) release snapshot \<and>
      release_for e (new_id e k) org (ac_actorUserId audit) snapshot s release rels \<and>
      res = Inr (Completed c False) \<and> candidate_stored e org audit idem rels c s s')"
proof (cases "List.find (\<lambda>r. rl_organizationId r = org \<and>
    rl_digestSha256 r = releaseSnapshotDigest e snapshot) (releases s)")
  case None
  let ?r = "release_of_snapshot e (new_id e k) org (ac_actorUserId audit) snapshot"
  let ?c = "new_candidate e (new_id e (k + 1)) org data t (ac_actorUserId audit) ?r snapshot"
  from None assms have "s' = s \<and> (\<forall>c. res \<noteq> Inr (Completed c False)) \<or>
      res = Inr (Completed ?c False) \<and>
      candidate_stored e org audit idem (releases s @ [?r]) ?c s s'"
    by (auto simp: store_candidate_def candidate_stored_def Let_def split: with_audit_splits)
  then show ?thesis unfolding release_for_def by blast
next
  case (Some release)
  let ?c = "new_candidate e (new_id e k) org data t (ac_actorUserId audit) release snapshot"
  from Some assms have "s' = s \<and> (\<forall>c. res \<noteq> Inr (Completed c False)) \<or>
      res = Inr (Completed ?c False) \<and> candidate_stored e org audit idem (releases s) ?c s s'"
    by (auto simp: store_candidate_def candidate_stored_def Let_def split: with_audit_splits)
  with find_SomeD [OF Some] show ?thesis unfolding release_for_def by blast
qed

text \<open>A creation may prune first; it then stores the candidate or leaves the pruned store.\<close>

lemma create_cases:
  assumes "createReleaseCandidateAndAudit e org data t audit origins idem s = (res, s')"
  shows "s' = s \<and> (\<forall>c. res \<noteq> Inr (Completed c False)) \<or>
    (\<exists>pres s1. prune_candidates e org audit s = (pres, s1) \<and>
      (s' = s1 \<and> (\<forall>c. res \<noteq> Inr (Completed c False)) \<or>
       now e < t \<and> t \<le> now e + 7 * 24 * 60 * 60000 \<and>
       actor_can s org (ac_actorUserId audit) releaseCandidateCreate \<and>
       (\<exists>k snapshot. candidate_snapshot_of e org data origins s1 = Inr snapshot \<and>
         store_candidate e k org data t audit idem snapshot s1 = (res, s'))))"
  using assms unfolding createReleaseCandidateAndAudit_def
proof (cases rule: candidate_guard_cases)
  case Continued
  then show ?thesis by (auto split: if_splits sum.splits prod.splits)
qed simp

lemma withdraw_cases:
  assumes "withdrawScheduleAndAudit e org i audit s = (res, s')"
  shows "s' = s \<and> (\<forall>v. res \<noteq> Inr (Done v)) \<or>
    (\<exists>x j previous release a r. x \<in> set (schedules s) \<and> sd_organizationId x = org \<and> sd_id x = i \<and>
      sd_releaseId x = Some j \<and> latestAssignment s i = Some previous \<and> ra_state previous \<noteq> WITHDRAWN \<and>
      release \<in> set (releases s) \<and> is_release org j release \<and>
      actor_can s org (ac_actorUserId audit) releaseWithdraw \<and>
      a = withdrawal e org j i previous release (ac_actorUserId audit) \<and> res = Inr (Done a) \<and>
      s' = s\<lparr>releaseAssignments := releaseAssignments s @ [a], auditRecords := auditRecords s @ [r]\<rparr>)"
  using assms
  by (auto simp: withdrawScheduleAndAudit_def Let_def when_truthy_def split: split_cases
      dest!: find_SomeD)

interpretation withdraw_schedule:
  audited_operation "withdrawScheduleAndAudit e org i audit" for e org i audit
  by unfold_locales (auto dest!: withdraw_cases)

interpretation transition_candidate:
  logged_operation "transitionReleaseCandidate e org op i d audit idem" for e org op i d audit idem
  by unfold_locales (auto dest!: transition_cases)

interpretation publish_release:
  logged_operation "publishReleaseCandidateAndAudit e org i d audit origins idem"
  for e org i d audit origins idem
  by unfold_locales (auto dest!: publish_cases)

lemma store_candidate_log:
  "store_candidate e k org data t audit idem snapshot s = (res, s') \<Longrightarrow>
    \<exists>rs. auditRecords s' = auditRecords s @ rs"
  by (auto dest!: store_candidate_cases simp: candidate_stored_def)

lemma prune_candidates_log:
  "prune_candidates e org audit s = (res, s') \<Longrightarrow> \<exists>rs. auditRecords s' = auditRecords s @ rs"
  by (auto dest!: prune_candidates_cases)

interpretation create_candidate:
  logged_operation "createReleaseCandidateAndAudit e org data t audit origins idem"
  for e org data t audit origins idem
proof unfold_locales
  fix s s' res
  assume "createReleaseCandidateAndAudit e org data t audit origins idem s = (res, s')"
  from create_cases [OF this] show "\<exists>rs. auditRecords s' = auditRecords s @ rs"
    by (elim disjE exE conjE) (auto dest!: prune_candidates_log store_candidate_log)
qed

end
