(* ===== verification/Release_Governance.thy ===== *)
theory Release_Governance
  imports Releases
begin

text \<open>
  What the release operations keep: a candidate's content never changes and its state only
  advances, what is published was approved by somebody else than its author, what is assigned
  was published, a withdrawal is final, and a remembered response never contradicts the
  candidate it was remembered for.
\<close>

section \<open>How a candidate evolves\<close>

fun state_rank :: "candidate_state \<Rightarrow> nat" where
  "state_rank DRAFT = 0"
| "state_rank IN_REVIEW = 1"
| "state_rank APPROVED = 2"
| "state_rank PUBLISHED = 3"

lemma state_rank_3 [simp]: "state_rank st = 3 \<longleftrightarrow> st = PUBLISHED" "3 \<le> state_rank st \<longleftrightarrow> st = PUBLISHED"
  by (cases st; simp)+

lemma state_rank_inj: "state_rank a = state_rank b \<Longrightarrow> a = b"
  by (cases a; cases b) simp_all

text \<open>The states in the order of the workflow.\<close>

instantiation candidate_state :: linorder
begin

definition less_eq_candidate_state :: "candidate_state \<Rightarrow> candidate_state \<Rightarrow> bool" where
  "less_eq_candidate_state a b \<longleftrightarrow> state_rank a \<le> state_rank b"

definition less_candidate_state :: "candidate_state \<Rightarrow> candidate_state \<Rightarrow> bool" where
  "less_candidate_state a b \<longleftrightarrow> state_rank a < state_rank b"

instance
  by standard (auto simp: less_eq_candidate_state_def less_candidate_state_def intro: state_rank_inj)

end

text \<open>The part of a candidate no operation changes.\<close>

definition content_of :: "release_candidate \<Rightarrow> release_candidate" where
  "content_of c = c\<lparr>cd_state := DRAFT, cd_submittedAt := None, cd_approvedAt := None,
     cd_publishedAt := None, cd_scheduleId := None, cd_assignmentId := None, cd_approval := None\<rparr>"

lemma content_of_eqD:
  assumes "content_of c' = content_of c"
  shows "cd_id c' = cd_id c" "cd_organizationId c' = cd_organizationId c"
    "cd_releaseId c' = cd_releaseId c" "cd_releaseDigestSha256 c' = cd_releaseDigestSha256 c"
    "cd_digestSha256 c' = cd_digestSha256 c" "cd_authorUserId c' = cd_authorUserId c"
    "cd_schedule c' = cd_schedule c" "cd_screenIds c' = cd_screenIds c"
    "cd_policyVersion c' = cd_policyVersion c" "cd_expiresAt c' = cd_expiresAt c"
  using arg_cong [OF assms, of cd_id] arg_cong [OF assms, of cd_organizationId]
    arg_cong [OF assms, of cd_releaseId] arg_cong [OF assms, of cd_releaseDigestSha256]
    arg_cong [OF assms, of cd_digestSha256] arg_cong [OF assms, of cd_authorUserId]
    arg_cong [OF assms, of cd_schedule] arg_cong [OF assms, of cd_screenIds]
    arg_cong [OF assms, of cd_policyVersion] arg_cong [OF assms, of cd_expiresAt]
  by (simp_all add: content_of_def)

definition evolves :: "release_candidate \<Rightarrow> release_candidate \<Rightarrow> bool" where
  "evolves c c' \<longleftrightarrow> content_of c' = content_of c \<and> state_rank (cd_state c) \<le> state_rank (cd_state c') \<and>
     (state_rank (cd_state c) \<ge> 2 \<longrightarrow> cd_approval c' = cd_approval c) \<and>
     (cd_state c = PUBLISHED \<longrightarrow> c' = c)"

lemma evolves_state: "evolves c c' \<Longrightarrow> cd_state c \<le> cd_state c'"
  by (simp add: evolves_def less_eq_candidate_state_def)

lemma evolves_refl [simp]: "evolves c c"
  by (simp add: evolves_def)

lemma evolves_trans: "evolves a b \<Longrightarrow> evolves b c \<Longrightarrow> evolves a c"
  unfolding evolves_def by auto

lemma valid_digest_content:
  assumes "content_of c' = content_of c"
  shows "hasValidCandidateDigest e c' = hasValidCandidateDigest e c"
  by (simp add: hasValidCandidateDigest_def content_of_eqD [OF assms])

lemma valid_digest_env:
  "sha256 e' = sha256 e \<Longrightarrow> hasValidCandidateDigest e' c = hasValidCandidateDigest e c"
  by (simp add: hasValidCandidateDigest_def releaseCandidateDigest_def)

section \<open>The invariant\<close>

text \<open>
  Two persons: an approved or published candidate carries an approval of its own digest by
  somebody who is not its author.
\<close>

definition four_eyes :: "release_candidate \<Rightarrow> bool" where
  "four_eyes c \<longleftrightarrow> (\<exists>a. cd_approval c = Some a \<and> ap_candidateId a = cd_id c \<and>
     ap_candidateDigestSha256 a = cd_digestSha256 c \<and> ap_approverUserId a \<noteq> cd_authorUserId c)"

definition candidate_ok :: "env \<Rightarrow> release_candidate \<Rightarrow> bool" where
  "candidate_ok e c \<longleftrightarrow> hasValidCandidateDigest e c \<and>
     (state_rank (cd_state c) \<ge> 2 \<longrightarrow> four_eyes c) \<and>
     (cd_state c = PUBLISHED \<longrightarrow> truthy (cd_scheduleId c) \<and> truthy (cd_assignmentId c))"

text \<open>An assignment in force is the publication of a candidate, and its schedule exists.\<close>

definition publishes :: "release_candidate \<Rightarrow> assignment \<Rightarrow> bool" where
  "publishes c a \<longleftrightarrow> cd_state c = PUBLISHED \<and> cd_assignmentId c = Some (ra_id a) \<and>
     cd_scheduleId c = Some (ra_scheduleId a) \<and> cd_organizationId c = ra_organizationId a \<and>
     cd_releaseId c = ra_releaseId a \<and> cd_screenIds c = ra_screenIds a \<and>
     cd_schedule c = ra_schedule a"

definition schedules_assignment :: "schedule \<Rightarrow> assignment \<Rightarrow> bool" where
  "schedules_assignment x a \<longleftrightarrow> sd_id x = ra_scheduleId a \<and> sd_organizationId x = ra_organizationId a \<and>
     sd_releaseId x = Some (ra_releaseId a)"

definition assignment_ok :: "store \<Rightarrow> assignment \<Rightarrow> bool" where
  "assignment_ok s a \<longleftrightarrow>
     (ra_state a = ASSIGNED \<longrightarrow> (\<exists>c \<in> set (releaseCandidates s). publishes c a)) \<and>
     (\<exists>x \<in> set (schedules s). schedules_assignment x a)"

definition release_inv :: "env \<Rightarrow> store \<Rightarrow> bool" where
  "release_inv e s \<longleftrightarrow>
     distinct (map cd_id (releaseCandidates s)) \<and> distinct (map ra_id (releaseAssignments s)) \<and>
     (\<forall>c \<in> set (releaseCandidates s). candidate_ok e c) \<and>
     (\<forall>a \<in> set (releaseAssignments s). assignment_ok s a)"

lemma release_inv_env: "sha256 e' = sha256 e \<Longrightarrow> release_inv e' s = release_inv e s"
  using valid_digest_env [of e' e] by (simp add: release_inv_def candidate_ok_def)

lemma release_inv_empty [simp]: "release_inv e (empty_store\<lparr>users := us\<rparr>)"
  by (simp add: release_inv_def empty_store_def)

text \<open>Identifiers the release operations may not draw again.\<close>

definition fresh_release_ids :: "env \<Rightarrow> store \<Rightarrow> bool" where
  "fresh_release_ids e s \<longleftrightarrow> (\<forall>k. new_id e k \<noteq> [] \<and>
     new_id e k \<notin> cd_id ` set (releaseCandidates s) \<and>
     new_id e k \<notin> ra_id ` set (releaseAssignments s) \<and>
     new_id e k \<notin> ra_scheduleId ` set (releaseAssignments s))"

lemma fresh_release_idsD:
  assumes "fresh_release_ids e s"
  shows "new_id e k \<noteq> []" "c \<in> set (releaseCandidates s) \<Longrightarrow> new_id e k \<noteq> cd_id c"
    "a \<in> set (releaseAssignments s) \<Longrightarrow> new_id e k \<noteq> ra_id a"
    "a \<in> set (releaseAssignments s) \<Longrightarrow> new_id e k \<noteq> ra_scheduleId a"
  using assms by (auto simp: fresh_release_ids_def)

section \<open>Preservation\<close>

text \<open>Candidates that are unpublished may go; the others evolve in place.\<close>

lemma candidates_evolve:
  assumes inv: "release_inv e s" and "distinct (map cd_id (releaseCandidates s'))"
    and "releaseAssignments s' = releaseAssignments s" "set (schedules s) \<subseteq> set (schedules s')"
    and "\<And>c'. c' \<in> set (releaseCandidates s') \<Longrightarrow> candidate_ok e c'"
    and "\<And>c. c \<in> set (releaseCandidates s) \<Longrightarrow> cd_state c = PUBLISHED \<Longrightarrow> c \<in> set (releaseCandidates s')"
  shows "release_inv e s'"
  using assms unfolding release_inv_def assignment_ok_def
  by (auto simp: publishes_def) blast+

lemma update_candidate:
  assumes "distinct (map cd_id cs)" "List.find (is_candidate org i) cs = Some c" "cd_id u = cd_id c"
  shows "update_first (is_candidate org i) (\<lambda>_. u) cs = update_where (\<lambda>x. cd_id x = cd_id c) (\<lambda>_. u) cs"
    "map cd_id (update_first (is_candidate org i) (\<lambda>_. u) cs) = map cd_id cs"
proof -
  show eq: "update_first (is_candidate org i) (\<lambda>_. u) cs = update_where (\<lambda>x. cd_id x = cd_id c) (\<lambda>_. u) cs"
    using assms(1,2) by (rule update_first_as_where)
  show "map cd_id (update_first (is_candidate org i) (\<lambda>_. u) cs) = map cd_id cs"
    unfolding eq by (simp add: update_where_def assms(3))
qed

lemma transitioned_Inr:
  assumes "transitioned e org op audit s c = Inr u"
  shows "content_of u = content_of c" "state_rank (cd_state u) = state_rank (cd_state c) + 1"
    "cd_state c \<noteq> APPROVED" "cd_state c \<noteq> PUBLISHED"
    "if op = Op_submit then cd_state u = IN_REVIEW else cd_state u = APPROVED"
    "cd_state u = APPROVED \<Longrightarrow> four_eyes u"
  using assms
  by (auto simp: transitioned_def content_of_def four_eyes_def split: if_splits option.splits
      dest!: submitted_candidate_Inr approved_candidate_Inr)

lemma transition_release_inv:
  assumes "transitionReleaseCandidate e org op i d audit idem s = (res, s')" and inv: "release_inv e s"
  shows "release_inv e s'"
  using transition_cases [OF assms(1)]
proof (elim disjE exE conjE)
  fix c u r
  let ?cs = "update_first (is_candidate org i) (\<lambda>_. u) (releaseCandidates s)"
  assume c: "candidate_for e org i d s = Inr c" and u: "transitioned e org op audit s c = Inr u"
    and s': "s' = compactExpiredIdempotencyResponses e (rememberReleaseCandidate e org op audit idem u
         (s\<lparr>releaseCandidates := ?cs, auditRecords := auditRecords s @ [r]\<rparr>))"
  from candidate_for_Inr [OF c] have found: "List.find (is_candidate org i) (releaseCandidates s) = Some c"
    and valid: "hasValidCandidateDigest e c" by auto
  note tr = transitioned_Inr [OF u]
  have dist: "distinct (map cd_id (releaseCandidates s))" using inv by (simp add: release_inv_def)
  note upd = update_candidate [OF dist found content_of_eqD(1) [OF tr(1)]]
  have u_ok: "candidate_ok e u"
    using tr valid valid_digest_content [OF tr(1)]
    by (cases "cd_state c"; cases "cd_state u") (auto simp: candidate_ok_def)
  show ?thesis
  proof (rule candidates_evolve [OF inv])
    show "candidate_ok e c'" if "c' \<in> set (releaseCandidates s')" for c'
      using that u_ok inv by (auto simp: s' upd(1) release_inv_def elim!: in_update_whereE)
    show "x \<in> set (releaseCandidates s')" if "x \<in> set (releaseCandidates s)" "cd_state x = PUBLISHED" for x
    proof -
      have "c \<in> set (releaseCandidates s)" using find_SomeD [OF found] by simp
      with that tr(4) have "cd_id x \<noteq> cd_id c" using distinct_key_inj [OF dist that(1)] by blast
      with that(1) show ?thesis by (simp add: s' upd(1) update_where_other)
    qed
  qed (simp_all add: s' upd(2) dist)
qed (use inv in simp)

lemma approval_failure_None:
  assumes "approval_failure s org c = None"
  shows "cd_state c = APPROVED"
    "\<exists>a u. cd_approval c = Some a \<and> ap_candidateDigestSha256 a = cd_digestSha256 c \<and>
       candidateActor s org (ap_approverUserId a) = Some u \<and>
       hasCapability (Some (u_role u)) releaseApprove"
  using assms by (auto simp: approval_failure_def split: option.splits if_splits)

lemma publishable_release_Inr:
  assumes "publishable_release e org origins c s = Inr r"
  shows "approval_failure s org c = None" "r \<in> set (releases s)"
    "List.find (is_release org (cd_releaseId c)) (releases s) = Some r"
    "rl_organizationId r = org" "rl_id r = cd_releaseId c"
    "rl_digestSha256 r = cd_releaseDigestSha256 c" "hasValidStoredReleaseDigest e r"
    "media_allowed e origins (map fa_url (map fi_asset (rl_items r)))"
    "mediaPublicationFailure (map policy_of_frozen (map fi_asset (rl_items r))) (now e) = None"
    "screens_known s org (cd_screenIds c)"
  using assms find_SomeD [of "is_release org (cd_releaseId c)" "releases s" r]
  by (auto simp: publishable_release_def Let_def is_release_def split: option.splits if_splits)

lemma publish_release_inv:
  assumes "publishReleaseCandidateAndAudit e org i d audit origins idem s = (res, s')"
    and inv: "release_inv e s" and fresh: "fresh_release_ids e s"
  shows "release_inv e s'"
  using publish_cases [OF assms(1)]
proof (elim disjE exE conjE)
  fix c release p a r1 r2
  let ?cs = "update_first (is_candidate org i) (\<lambda>_. p) (releaseCandidates s)"
  let ?x = "published_schedule e org (new_id e 0) (new_id e 1) c"
  assume c: "candidate_for e org i d s = Inr c"
    and rel: "publishable_release e org origins c s = Inr release"
    and a: "a = new_assignment e org (new_id e 1) (new_id e 0) c (ac_actorUserId audit)"
    and p: "p = c\<lparr>cd_state := PUBLISHED, cd_publishedAt := Some (now e),
            cd_scheduleId := Some (new_id e 0), cd_assignmentId := Some (new_id e 1)\<rparr>"
    and s': "s' = compactExpiredIdempotencyResponses e (rememberReleaseCandidate e org Op_publish audit idem p
         (s\<lparr>releaseCandidates := ?cs, schedules := schedules s @ [?x],
            releaseAssignments := releaseAssignments s @ [a],
            auditRecords := auditRecords s @ [r1, r2]\<rparr>))"
  from candidate_for_Inr [OF c] have found: "List.find (is_candidate org i) (releaseCandidates s) = Some c"
    and valid: "hasValidCandidateDigest e c" by auto
  have cin: "c \<in> set (releaseCandidates s)" "cd_organizationId c = org"
    using find_SomeD [OF found] by (auto simp: is_candidate_def)
  have dist: "distinct (map cd_id (releaseCandidates s))" using inv by (simp add: release_inv_def)
  have same: "content_of p = content_of c" by (simp add: p content_of_def)
  note upd = update_candidate [OF dist found content_of_eqD(1) [OF same]]
  have approved: "cd_state c = APPROVED"
    using approval_failure_None(1) [OF publishable_release_Inr(1) [OF rel]] .
  then have "four_eyes c" using inv cin(1) by (auto simp: release_inv_def candidate_ok_def)
  then have p_ok: "candidate_ok e p"
    using valid valid_digest_content [OF same] fresh_release_idsD(1) [OF fresh]
    by (simp add: candidate_ok_def four_eyes_def p)
  have base: "release_inv e (s'\<lparr>releaseAssignments := releaseAssignments s\<rparr>)"
  proof (rule candidates_evolve [OF inv])
    show "candidate_ok e c'" if "c' \<in> set (releaseCandidates (s'\<lparr>releaseAssignments := releaseAssignments s\<rparr>))" for c'
      using that p_ok inv by (auto simp: s' upd(1) release_inv_def elim!: in_update_whereE)
    show "x \<in> set (releaseCandidates (s'\<lparr>releaseAssignments := releaseAssignments s\<rparr>))"
      if "x \<in> set (releaseCandidates s)" "cd_state x = PUBLISHED" for x
    proof -
      have "cd_id x \<noteq> cd_id c" using distinct_key_inj [OF dist that(1) cin(1)] that(2) approved by auto
      with that(1) show ?thesis by (simp add: s' upd(1) update_where_other)
    qed
  qed (auto simp: s' upd(2) dist)
  have "p \<in> set (update_where (\<lambda>x. cd_id x = cd_id c) (\<lambda>_. p) (releaseCandidates s))"
    using cin(1) by (force simp: set_update_where)
  then have pin: "p \<in> set (releaseCandidates s')" by (simp add: s' upd(1))
  have "publishes p a" by (simp add: publishes_def p a new_assignment_def cin(2))
  moreover have "schedules_assignment ?x a"
    by (simp add: schedules_assignment_def a new_assignment_def published_schedule_def Let_def)
  ultimately have "assignment_ok s' a" using pin by (auto simp: assignment_ok_def s')
  moreover have "ra_id a \<notin> ra_id ` set (releaseAssignments s)"
    using fresh by (auto simp: a new_assignment_def dest: fresh_release_idsD(3))
  ultimately show ?thesis using base
    by (auto simp: release_inv_def assignment_ok_def s')
qed (use inv in simp)

lemma expired_candidates_unpublished:
  "c \<in> set (expired_candidates e org cs) \<Longrightarrow> c \<in> set cs \<and> cd_state c \<noteq> PUBLISHED \<and>
    cd_expiresAt c + CANDIDATE_RESPONSE_RETENTION_MS \<le> now e"
  unfolding expired_candidates_def
  using set_take_sort_by [of 20 "by_expiry e cd_expiresAt cd_id"
    "filter (\<lambda>c. cd_organizationId c = org \<and> unpublished c \<and>
          cd_expiresAt c \<le> now e - CANDIDATE_RESPONSE_RETENTION_MS) cs"]
  by (auto simp: unpublished_def)

lemma remove_candidates_frame [simp]:
  "schedules (remove_candidates xs s) = schedules s"
  "releaseAssignments (remove_candidates xs s) = releaseAssignments s"
  "candidateIdempotency (remove_candidates xs s) = candidateIdempotency s"
  "playlists (remove_candidates xs s) = playlists s"
  "medias (remove_candidates xs s) = medias s"
  "releaseCandidates (remove_candidates xs s) =
     filter (\<lambda>c. cd_id c \<notin> cd_id ` set xs) (releaseCandidates s)"
  "set (releases (remove_candidates xs s)) \<subseteq> set (releases s)"
  by (auto simp: remove_candidates_def Let_def)

lemma prune_release_inv:
  assumes "prune_candidates e org audit s = (res, s')" and inv: "release_inv e s"
  shows "release_inv e s'"
  using prune_candidates_cases [OF assms(1)]
proof (elim disjE exE)
  fix rs
  let ?X = "expired_candidates e org (releaseCandidates s)"
  assume s': "s' = (remove_candidates ?X s)\<lparr>auditRecords := auditRecords s @ rs\<rparr>"
  have dist: "distinct (map cd_id (releaseCandidates s))" using inv by (simp add: release_inv_def)
  show ?thesis
  proof (rule candidates_evolve [OF inv])
    show "c \<in> set (releaseCandidates s')" if c: "c \<in> set (releaseCandidates s)" "cd_state c = PUBLISHED" for c
    proof -
      have "cd_id c \<noteq> cd_id x" if "x \<in> set ?X" for x
        using expired_candidates_unpublished [OF that] distinct_key_inj [OF dist c(1)] c(2) by blast
      with c(1) show ?thesis by (auto simp: s')
    qed
  qed (use inv in \<open>auto simp: s' release_inv_def distinct_map_filter\<close>)
qed (use inv in simp)

lemma new_candidate_ok [simp]:
  "candidate_ok e (new_candidate e i org data t actor release snapshot)"
  "cd_id (new_candidate e i org data t actor release snapshot) = i"
  "cd_state (new_candidate e i org data t actor release snapshot) = DRAFT"
  "cd_expiresAt (new_candidate e i org data t actor release snapshot) = t"
  "cd_organizationId (new_candidate e i org data t actor release snapshot) = org"
  by (simp_all add: candidate_ok_def new_candidate_def hasValidCandidateDigest_def Let_def
      canonicalReleaseCandidateSnapshot_def)

lemma fresh_after_prune:
  assumes "prune_candidates e org audit s = (res, s')" "fresh_release_ids e s"
  shows "fresh_release_ids e s'"
proof -
  have "set (releaseCandidates s') \<subseteq> set (releaseCandidates s)"
    "releaseAssignments s' = releaseAssignments s"
    using prune_candidates_cases [OF assms(1)] by auto
  with assms(2) show ?thesis unfolding fresh_release_ids_def by auto blast+
qed

lemma candidate_stored_inv:
  assumes "candidate_stored e org audit idem rels c s s'" "release_inv e s" "candidate_ok e c"
    and "cd_id c \<notin> cd_id ` set (releaseCandidates s)"
  shows "release_inv e s'"
  using assms
  by (auto simp: candidate_stored_def release_inv_def assignment_ok_def)

lemma create_release_inv:
  assumes "createReleaseCandidateAndAudit e org data t audit origins idem s = (res, s')"
    and inv: "release_inv e s" and fresh: "fresh_release_ids e s"
  shows "release_inv e s'"
  using create_cases [OF assms(1)]
proof (elim disjE exE conjE)
  fix pres s1 k snapshot
  assume p: "prune_candidates e org audit s = (pres, s1)"
    and st: "store_candidate e k org data t audit idem snapshot s1 = (res, s')"
  have inv1: "release_inv e s1" by (rule prune_release_inv [OF p inv])
  have fresh1: "fresh_release_ids e s1" by (rule fresh_after_prune [OF p fresh])
  from store_candidate_cases [OF st] show ?thesis
  proof (elim disjE exE conjE)
    fix j release rels c
    assume "c = new_candidate e (new_id e j) org data t (ac_actorUserId audit) release snapshot"
      "candidate_stored e org audit idem rels c s1 s'"
    note c = this
    have "cd_id c \<notin> cd_id ` set (releaseCandidates s1)"
      using fresh_release_idsD(2) [OF fresh1] by (auto simp: c(1))
    then show ?thesis
      by (rule candidate_stored_inv [OF c(2) inv1, rotated]) (simp add: c(1))
  qed (use inv1 in simp)
next
  fix pres s1
  assume "prune_candidates e org audit s = (pres, s1)" "s' = s1"
  then show ?thesis using prune_release_inv inv by simp
qed (use inv in simp)

lemma withdraw_release_inv:
  assumes "withdrawScheduleAndAudit e org i audit s = (res, s')"
    and inv: "release_inv e s" and fresh: "fresh_release_ids e s"
  shows "release_inv e s'"
  using withdraw_cases [OF assms(1)]
proof (elim disjE exE conjE)
  fix x j previous release a r
  assume x: "x \<in> set (schedules s)" "sd_organizationId x = org" "sd_id x = i" "sd_releaseId x = Some j"
    and a: "a = withdrawal e org j i previous release (ac_actorUserId audit)"
    and s': "s' = s\<lparr>releaseAssignments := releaseAssignments s @ [a], auditRecords := auditRecords s @ [r]\<rparr>"
  have "schedules_assignment x a" using x by (simp add: schedules_assignment_def a withdrawal_def)
  then have "assignment_ok s' a" using x(1) by (auto simp: assignment_ok_def s' a withdrawal_def)
  moreover have "ra_id a \<notin> ra_id ` set (releaseAssignments s)"
    using fresh by (auto simp: a withdrawal_def dest: fresh_release_idsD(3))
  ultimately show ?thesis using inv by (auto simp: release_inv_def assignment_ok_def s')
qed (use inv in simp)

section \<open>Steps\<close>

inductive release_step :: "env \<Rightarrow> store \<Rightarrow> store \<Rightarrow> bool" for e s where
  candidate_created:
    "createReleaseCandidateAndAudit e org data t audit origins idem s = (cres, s') \<Longrightarrow> release_step e s s'"
| candidate_submitted:
    "submitReleaseCandidateAndAudit e org i d audit idem s = (cres, s') \<Longrightarrow> release_step e s s'"
| candidate_approved:
    "approveReleaseCandidateAndAudit e org i d audit idem s = (cres, s') \<Longrightarrow> release_step e s s'"
| candidate_published:
    "publishReleaseCandidateAndAudit e org i d audit origins idem s = (cres, s') \<Longrightarrow> release_step e s s'"
| schedule_withdrawn:
    "withdrawScheduleAndAudit e org i audit s = (wres, s') \<Longrightarrow> release_step e s s'"

lemma release_step_inv:
  assumes "release_step e s s'" "release_inv e s" "fresh_release_ids e s"
  shows "release_inv e s'"
  using assms(1)
proof cases
  case (candidate_submitted org i d audit idem cres)
  then show ?thesis unfolding submitReleaseCandidateAndAudit_def
    using transition_release_inv assms(2) by blast
next
  case (candidate_approved org i d audit idem cres)
  then show ?thesis unfolding approveReleaseCandidateAndAudit_def
    using transition_release_inv assms(2) by blast
next
  case (candidate_created org data t audit origins idem cres)
  then show ?thesis using assms(2,3) by (rule create_release_inv)
next
  case (candidate_published org i d audit origins idem cres)
  then show ?thesis using assms(2,3) by (rule publish_release_inv)
next
  case (schedule_withdrawn org i audit wres)
  then show ?thesis using assms(2,3) by (rule withdraw_release_inv)
qed

lemma release_step_log:
  assumes "release_step e s s'"
  shows "prefix (auditRecords s) (auditRecords s')"
  using assms
proof cases
  case (candidate_submitted org i d audit idem cres)
  then show ?thesis unfolding submitReleaseCandidateAndAudit_def
    by (rule transition_candidate.audit_prefix)
next
  case (candidate_approved org i d audit idem cres)
  then show ?thesis unfolding approveReleaseCandidateAndAudit_def
    by (rule transition_candidate.audit_prefix)
qed (rule create_candidate.audit_prefix publish_release.audit_prefix
    withdraw_schedule.audit_prefix; assumption)+

section \<open>Withdrawal is final\<close>

definition withdrawn :: "store \<Rightarrow> string \<Rightarrow> bool" where
  "withdrawn s i \<longleftrightarrow> (case latestAssignment s i of None \<Rightarrow> False | Some a \<Rightarrow> ra_state a = WITHDRAWN)"

lemma latestAssignment_append:
  "releaseAssignments s' = releaseAssignments s @ [a] \<Longrightarrow>
    latestAssignment s' i = (if ra_scheduleId a = i then Some a else latestAssignment s i)"
  by (simp add: latestAssignment_def)

lemma latestAssignment_same:
  "releaseAssignments s' = releaseAssignments s \<Longrightarrow> latestAssignment s' i = latestAssignment s i"
  by (simp add: latestAssignment_def)

lemma latestAssignment_SomeD:
  "latestAssignment s i = Some a \<Longrightarrow> a \<in> set (releaseAssignments s) \<and> ra_scheduleId a = i"
  by (auto simp: latestAssignment_def dest: find_SomeD)

lemma withdrawn_same:
  "releaseAssignments s' = releaseAssignments s \<Longrightarrow> withdrawn s' i = withdrawn s i"
  by (simp add: withdrawn_def latestAssignment_def)

lemma withdraw_withdraws:
  "withdrawScheduleAndAudit e org i audit s = (Inr (Done a), s') \<Longrightarrow> withdrawn s' i"
  by (auto dest!: withdraw_cases simp: withdrawn_def latestAssignment_append withdrawal_def)

lemma create_assignments:
  "createReleaseCandidateAndAudit e org data t audit origins idem s = (res, s') \<Longrightarrow>
    releaseAssignments s' = releaseAssignments s"
  by (auto dest!: create_cases prune_candidates_cases store_candidate_cases simp: candidate_stored_def)

lemma transition_assignments:
  "transitionReleaseCandidate e org op i d audit idem s = (res, s') \<Longrightarrow>
    releaseAssignments s' = releaseAssignments s"
  by (auto dest!: transition_cases)

lemma release_step_withdrawn:
  assumes "release_step e s s'" "withdrawn s i" "fresh_release_ids e s"
  shows "withdrawn s' i"
  using assms(1)
proof cases
  case (candidate_created org data t audit origins idem cres)
  then show ?thesis using assms(2) create_assignments withdrawn_same by blast
next
  case (candidate_submitted org j d audit idem cres)
  then show ?thesis unfolding submitReleaseCandidateAndAudit_def
    using assms(2) transition_assignments withdrawn_same by blast
next
  case (candidate_approved org j d audit idem cres)
  then show ?thesis unfolding approveReleaseCandidateAndAudit_def
    using assms(2) transition_assignments withdrawn_same by blast
next
  case (candidate_published org j d audit origins idem cres)
  obtain b where b: "latestAssignment s i = Some b"
    using assms(2) by (auto simp: withdrawn_def split: option.splits)
  with fresh_release_idsD(4) [OF assms(3), of b 0] latestAssignment_SomeD [OF b]
  have "new_id e 0 \<noteq> i" by simp
  then have "s' = s \<or> (\<exists>a. releaseAssignments s' = releaseAssignments s @ [a] \<and> ra_scheduleId a \<noteq> i)"
    using publish_cases [OF candidate_published] by (auto simp: new_assignment_def)
  then show ?thesis using assms(2) by (auto simp: withdrawn_def latestAssignment_append)
next
  case (schedule_withdrawn org j audit wres)
  then have "s' = s \<or> (\<exists>a. releaseAssignments s' = releaseAssignments s @ [a] \<and> ra_state a = WITHDRAWN)"
    using withdraw_cases [OF schedule_withdrawn] by (auto simp: withdrawal_def)
  then show ?thesis using assms(2)
    by (elim disjE exE conjE) (simp_all add: withdrawn_def latestAssignment_append)
qed

section \<open>What is served\<close>

lemma active_release_Some:
  assumes "active_release e s org screenId at x = Inr (Some (r, a))"
  shows "latestAssignment s (sd_id x) = Some a" "ra_state a = ASSIGNED" "ra_organizationId a = org"
    "screenId \<in> set (ra_screenIds a)" "in_term (ra_schedule a) at"
    "matchesScheduleWindow e (ra_schedule a) at = Inr True"
    "r \<in> set (releases s)" "is_release org (ra_releaseId a) r"
    "hasValidStoredAssignmentDigest e a r"
  using assms
  by (auto simp: active_release_def split: if_splits option.splits sum.splits bool.splits
      dest: find_SomeD)

lemma active_release_withdrawn:
  assumes "withdrawn s (sd_id x)"
  shows "active_release e s org screenId at x \<noteq> Inr (Some (r, a))"
proof
  assume "active_release e s org screenId at x = Inr (Some (r, a))"
  from active_release_Some(1,2) [OF this] assms show False by (simp add: withdrawn_def)
qed

lemma activeOrdinaryReleases_in:
  assumes "activeOrdinaryReleases e s org screenId at = Inr ras" "(r, a) \<in> set ras"
  obtains x where "x \<in> set (schedules s)" "active_release e s org screenId at x = Inr (Some (r, a))"
  using assms unfolding activeOrdinaryReleases_def by (blast dest: collect_Inr_in)

text \<open>Everything a screen is served was approved by two persons, for this screen and schedule.\<close>

lemma served_was_approved:
  assumes "release_inv e0 s" "activeOrdinaryReleases e s org screenId at = Inr ras" "(r, a) \<in> set ras"
  shows "\<exists>c \<in> set (releaseCandidates s). publishes c a \<and> four_eyes c \<and> screenId \<in> set (cd_screenIds c)"
proof -
  obtain x where x: "active_release e s org screenId at x = Inr (Some (r, a))"
    using activeOrdinaryReleases_in assms(2,3) .
  note act = active_release_Some [OF x]
  have "a \<in> set (releaseAssignments s)" using latestAssignment_SomeD [OF act(1)] by simp
  then obtain c where c: "c \<in> set (releaseCandidates s)" "publishes c a"
    using assms(1) act(2) by (auto simp: release_inv_def assignment_ok_def)
  moreover have "four_eyes c" using assms(1) c by (auto simp: release_inv_def candidate_ok_def publishes_def)
  ultimately show ?thesis using act(4) by (auto simp: publishes_def)
qed

lemma collect_Inr_keeps:
  "collect f xs = Inr ys \<Longrightarrow> x \<in> set xs \<Longrightarrow> f x = Inr (Some y) \<Longrightarrow> y \<in> set ys"
  by (induction xs arbitrary: ys) (auto split: sum.splits option.splits)

lemma authorizeMediaDelivery_True:
  assumes "authorizeMediaDelivery e s input = Inr True"
  shows "\<exists>at a r. mv_at input = Some at \<and> a \<in> set (releaseAssignments s) \<and>
    ra_organizationId a = mv_organizationId input \<and> assignment_serves s input at a \<and>
    matchesScheduleWindow e (ra_schedule a) at = Inr True \<and>
    List.find (is_release (mv_organizationId input) (ra_releaseId a)) (releases s) = Some r \<and>
    hasValidStoredAssignmentDigest e a r \<and> list_ex (delivers input at) (rl_items r)"
  using assms
  by (auto simp: authorizeMediaDelivery_def split: if_splits option.splits sum.splits bool.splits
      dest: find_SomeD)

text \<open>
  Bytes are only delivered for a release that is active on the screen at that instant, and only
  of an asset the release froze.
\<close>

lemma delivered_is_active:
  assumes inv: "release_inv e0 s" and ids: "\<forall>x \<in> set (schedules s). sd_id x \<noteq> []"
    and nonempty: "\<forall>a \<in> set (releaseAssignments s). ra_releaseId a \<noteq> []"
    and auth: "authorizeMediaDelivery e s input = Inr True" and at: "mv_at input = Some at"
    and act: "activeOrdinaryReleases e s (mv_organizationId input) (mv_screenId input) at = Inr ras"
  shows "\<exists>(r, a) \<in> set ras. \<exists>i \<in> set (rl_items r). delivers input at i"
  using authorizeMediaDelivery_True [OF auth]
proof (elim exE conjE)
  fix at' a r
  assume at': "mv_at input = Some at'" and a: "a \<in> set (releaseAssignments s)"
    "ra_organizationId a = mv_organizationId input" and serves: "assignment_serves s input at' a"
    and win: "matchesScheduleWindow e (ra_schedule a) at' = Inr True"
    and r: "List.find (is_release (mv_organizationId input) (ra_releaseId a)) (releases s) = Some r"
    and valid: "hasValidStoredAssignmentDigest e a r" and del: "list_ex (delivers input at') (rl_items r)"
  have t: "at' = at" using at at' by simp
  obtain x where x: "x \<in> set (schedules s)" "schedules_assignment x a"
    using inv a(1) by (auto simp: release_inv_def assignment_ok_def)
  obtain b where b: "latestAssignment s (ra_scheduleId a) = Some b" "ra_id b = ra_id a"
    using serves by (auto simp: assignment_serves_def)
  have "distinct (map ra_id (releaseAssignments s))" using inv by (simp add: release_inv_def)
  from distinct_key_inj [OF this _ a(1) b(2)] have "b = a"
    using latestAssignment_SomeD [OF b(1)] by blast
  with b(1) have latest: "latestAssignment s (sd_id x) = Some a"
    using x(2) by (simp add: schedules_assignment_def)
  have "active_release e s (mv_organizationId input) (mv_screenId input) at x = Inr (Some (r, a))"
    using latest x(2) serves win r valid nonempty a
    by (auto simp: active_release_def schedules_assignment_def assignment_serves_def t)
  with act x(1) have "(r, a) \<in> set ras"
    unfolding activeOrdinaryReleases_def by (blast dest: collect_Inr_keeps)
  with del show ?thesis by (auto simp: list_ex_iff t)
qed

end
