(* ===== verification/Release_Replay.thy ===== *)
theory Release_Replay
  imports Release_Governance
begin

text \<open>
  The frame of the release steps, how candidates evolve along them, and the remembered responses:
  a replay within the retention period returns the response and never fails.
\<close>

section \<open>Frame\<close>

definition release_frame :: "store \<Rightarrow> store \<Rightarrow> bool" where
  "release_frame s s' \<longleftrightarrow>
     s' = s\<lparr>schedules := schedules s', releases := releases s',
            releaseAssignments := releaseAssignments s', releaseCandidates := releaseCandidates s',
            candidateIdempotency := candidateIdempotency s',
            idempotencyRecords := idempotencyRecords s', auditRecords := auditRecords s'\<rparr>"

lemma release_frame_fields:
  assumes "release_frame s s'"
  shows "users s' = users s"
    "userSessions s' = userSessions s"
    "loginFailures s' = loginFailures s"
    "locations s' = locations s"
    "screens s' = screens s"
    "medias s' = medias s"
    "playlists s' = playlists s"
    "enrollmentIdempotency s' = enrollmentIdempotency s"
    "emergencies s' = emergencies s"
    "pairings s' = pairings s"
    "deviceCredentials s' = deviceCredentials s"
    "deviceAuthChallenges s' = deviceAuthChallenges s"
    "pairingAttempts s' = pairingAttempts s"
    "usedDeviceKeyIds s' = usedDeviceKeyIds s"
  using arg_cong [OF assms [unfolded release_frame_def], of users]
    arg_cong [OF assms [unfolded release_frame_def], of userSessions]
    arg_cong [OF assms [unfolded release_frame_def], of loginFailures]
    arg_cong [OF assms [unfolded release_frame_def], of locations]
    arg_cong [OF assms [unfolded release_frame_def], of screens]
    arg_cong [OF assms [unfolded release_frame_def], of medias]
    arg_cong [OF assms [unfolded release_frame_def], of playlists]
    arg_cong [OF assms [unfolded release_frame_def], of enrollmentIdempotency]
    arg_cong [OF assms [unfolded release_frame_def], of emergencies]
    arg_cong [OF assms [unfolded release_frame_def], of pairings]
    arg_cong [OF assms [unfolded release_frame_def], of deviceCredentials]
    arg_cong [OF assms [unfolded release_frame_def], of deviceAuthChallenges]
    arg_cong [OF assms [unfolded release_frame_def], of pairingAttempts]
    arg_cong [OF assms [unfolded release_frame_def], of usedDeviceKeyIds]
  by simp_all

lemma release_frame_refl [simp]: "release_frame s s"
  by (simp add: release_frame_def)

lemma release_frame_trans: "release_frame s s1 \<Longrightarrow> release_frame s1 s' \<Longrightarrow> release_frame s s'"
  unfolding release_frame_def
  by (erule ssubst, erule ssubst) simp

lemma compact_release_frame: "release_frame s (compactExpiredIdempotencyResponses e s)"
  by (simp add: release_frame_def compactExpiredIdempotencyResponses_def Let_def)

lemma remember_release_frame: "release_frame s (rememberReleaseCandidate e org op audit idem c s)"
  by (simp add: release_frame_def rememberReleaseCandidate_def)

lemma settled_frame:
  "release_frame s s1 \<Longrightarrow> release_frame s
     (compactExpiredIdempotencyResponses e (rememberReleaseCandidate e org op audit idem c s1))"
  by (blast intro: release_frame_trans compact_release_frame remember_release_frame)

lemma release_frame_writes:
  "release_frame s (s\<lparr>releaseCandidates := a, auditRecords := b\<rparr>)"
  "release_frame s (s\<lparr>releases := r, releaseCandidates := a, auditRecords := b\<rparr>)"
  "release_frame s (s\<lparr>releaseCandidates := a, schedules := x, releaseAssignments := y, auditRecords := b\<rparr>)"
  by (simp_all add: release_frame_def)

lemma transition_release_frame:
  "transitionReleaseCandidate e org op i d audit idem s = (res, s') \<Longrightarrow> release_frame s s'"
  by (auto dest!: transition_cases intro!: settled_frame release_frame_writes)

lemma prune_release_frame: "prune_candidates e org audit s = (res, s') \<Longrightarrow> release_frame s s'"
  by (auto dest!: prune_candidates_cases simp: release_frame_def remove_candidates_def Let_def)

lemma stored_release_frame: "candidate_stored e org audit idem rels c s s' \<Longrightarrow> release_frame s s'"
  by (auto simp: candidate_stored_def intro!: settled_frame release_frame_writes)

lemma create_release_frame:
  assumes "createReleaseCandidateAndAudit e org data t audit origins idem s = (res, s')"
  shows "release_frame s s'"
  using create_cases [OF assms]
proof (elim disjE exE conjE)
  fix pres s1 k snapshot
  assume p: "prune_candidates e org audit s = (pres, s1)"
    and st: "store_candidate e k org data t audit idem snapshot s1 = (res, s')"
  have "s' = s1 \<or> release_frame s1 s'"
    using store_candidate_cases [OF st] stored_release_frame by blast
  then show ?thesis using prune_release_frame [OF p] release_frame_trans by blast
next
  fix pres s1
  assume "prune_candidates e org audit s = (pres, s1)" "s' = s1"
  then show ?thesis using prune_release_frame by simp
qed simp

lemma publish_release_frame:
  "publishReleaseCandidateAndAudit e org i d audit origins idem s = (res, s') \<Longrightarrow> release_frame s s'"
  by (auto dest!: publish_cases intro!: settled_frame release_frame_writes)

lemma withdraw_release_frame:
  "withdrawScheduleAndAudit e org i audit s = (res, s') \<Longrightarrow> release_frame s s'"
  by (auto dest!: withdraw_cases simp: release_frame_def)

lemma release_step_frame: "release_step e s s' \<Longrightarrow> release_frame s s'"
  by (induction rule: release_step.induct)
    (auto simp: submitReleaseCandidateAndAudit_def approveReleaseCandidateAndAudit_def
      intro: create_release_frame transition_release_frame publish_release_frame withdraw_release_frame)

section \<open>Evolution of the candidates\<close>

text \<open>A candidate stays and evolves, unless it is unpublished and long expired.\<close>

definition survives :: "instant \<Rightarrow> store \<Rightarrow> release_candidate \<Rightarrow> bool" where
  "survives t s' c \<longleftrightarrow> (\<exists>c' \<in> set (releaseCandidates s'). evolves c c') \<or>
     cd_state c \<noteq> PUBLISHED \<and> cd_expiresAt c + CANDIDATE_RESPONSE_RETENTION_MS \<le> t"

lemma survives_same: "c \<in> set (releaseCandidates s') \<Longrightarrow> survives t s' c"
  unfolding survives_def by (blast intro: evolves_refl)

lemma survives_update:
  assumes "distinct (map cd_id (releaseCandidates s))"
    and "List.find (is_candidate org i) (releaseCandidates s) = Some c0" "evolves c0 u"
    and "releaseCandidates s' = update_first (is_candidate org i) (\<lambda>_. u) (releaseCandidates s)"
    and "c \<in> set (releaseCandidates s)"
  shows "survives t s' c"
proof -
  have "content_of u = content_of c0" using assms(3) by (simp add: evolves_def)
  from update_candidate(1) [OF assms(1,2) content_of_eqD(1) [OF this]] assms(4)
  have cs: "releaseCandidates s' = update_where (\<lambda>x. cd_id x = cd_id c0) (\<lambda>_. u) (releaseCandidates s)"
    by simp
  show ?thesis
  proof (cases "cd_id c = cd_id c0")
    case True
    then have "c = c0" using distinct_key_inj [OF assms(1,5)] find_SomeD [OF assms(2)] by blast
    moreover have "u \<in> set (releaseCandidates s')"
      unfolding cs using True assms(5) by (force simp: set_update_where)
    ultimately show ?thesis using assms(3) unfolding survives_def by blast
  next
    case False
    then show ?thesis unfolding cs using assms(5)
      by (intro survives_same) (simp add: cs update_where_other)
  qed
qed

lemma transitioned_evolves: "transitioned e org op audit s c = Inr u \<Longrightarrow> evolves c u"
  using transitioned_Inr(1-4) [of e org op audit s c u]
  by (cases "cd_state c") (auto simp: evolves_def)

lemma transition_survives:
  assumes "transitionReleaseCandidate e org op i d audit idem s = (res, s')" "release_inv e s"
    and "c \<in> set (releaseCandidates s)"
  shows "survives (now e) s' c"
  using transition_cases [OF assms(1)]
proof (elim disjE exE conjE)
  fix c0 u r
  assume c0: "candidate_for e org i d s = Inr c0" and u: "transitioned e org op audit s c0 = Inr u"
    and s': "s' = compactExpiredIdempotencyResponses e (rememberReleaseCandidate e org op audit idem u
       (s\<lparr>releaseCandidates := update_first (is_candidate org i) (\<lambda>_. u) (releaseCandidates s),
          auditRecords := auditRecords s @ [r]\<rparr>))"
  show ?thesis
    by (rule survives_update [of s org i c0 u])
      (use assms(2,3) candidate_for_Inr [OF c0] transitioned_evolves [OF u] in
        \<open>simp_all add: s' release_inv_def\<close>)
qed (use assms(3) survives_same in simp)

lemma publish_survives:
  assumes "publishReleaseCandidateAndAudit e org i d audit origins idem s = (res, s')" "release_inv e s"
    and "c \<in> set (releaseCandidates s)"
  shows "survives (now e) s' c"
  using publish_cases [OF assms(1)]
proof (elim disjE exE conjE)
  fix c0 release p a r1 r2
  assume c0: "candidate_for e org i d s = Inr c0"
    and rel: "publishable_release e org origins c0 s = Inr release"
    and p: "p = c0\<lparr>cd_state := PUBLISHED, cd_publishedAt := Some (now e),
            cd_scheduleId := Some (new_id e 0), cd_assignmentId := Some (new_id e 1)\<rparr>"
    and s': "s' = compactExpiredIdempotencyResponses e (rememberReleaseCandidate e org Op_publish audit idem p
         (s\<lparr>releaseCandidates := update_first (is_candidate org i) (\<lambda>_. p) (releaseCandidates s),
            schedules := schedules s @ [published_schedule e org (new_id e 0) (new_id e 1) c0],
            releaseAssignments := releaseAssignments s @ [a],
            auditRecords := auditRecords s @ [r1, r2]\<rparr>))"
  have "cd_state c0 = APPROVED"
    using approval_failure_None(1) [OF publishable_release_Inr(1) [OF rel]] .
  then have "evolves c0 p" by (simp add: evolves_def content_of_def p)
  then show ?thesis
    by (intro survives_update [of s org i c0 p])
      (use assms(2,3) candidate_for_Inr [OF c0] in \<open>simp_all add: s' release_inv_def\<close>)
qed (use assms(3) survives_same in simp)

lemma prune_survives:
  assumes "prune_candidates e org audit s = (res, s')" "release_inv e s"
    and "c \<in> set (releaseCandidates s)"
  shows "survives (now e) s' c"
  using prune_candidates_cases [OF assms(1)]
proof (elim disjE exE)
  fix rs
  let ?X = "expired_candidates e org (releaseCandidates s)"
  assume s': "s' = (remove_candidates ?X s)\<lparr>auditRecords := auditRecords s @ rs\<rparr>"
  have dist: "distinct (map cd_id (releaseCandidates s))" using assms(2) by (simp add: release_inv_def)
  show ?thesis
  proof (cases "cd_id c \<in> cd_id ` set ?X")
    case True
    then obtain x where x: "x \<in> set ?X" "cd_id c = cd_id x" by blast
    from expired_candidates_unpublished [OF x(1)] distinct_key_inj [OF dist assms(3) _ x(2)]
    have "cd_state c \<noteq> PUBLISHED \<and> cd_expiresAt c + CANDIDATE_RESPONSE_RETENTION_MS \<le> now e" by auto
    then show ?thesis by (simp add: survives_def)
  next
    case False
    with assms(3) show ?thesis by (intro survives_same) (simp add: s')
  qed
qed (use assms(3) survives_same in simp)

lemma create_survives:
  assumes "createReleaseCandidateAndAudit e org data t audit origins idem s = (res, s')" "release_inv e s"
    and "c \<in> set (releaseCandidates s)"
  shows "survives (now e) s' c"
  using create_cases [OF assms(1)]
proof (elim disjE exE conjE)
  fix pres s1 k snapshot
  assume p: "prune_candidates e org audit s = (pres, s1)"
    and st: "store_candidate e k org data t audit idem snapshot s1 = (res, s')"
  have "set (releaseCandidates s1) \<subseteq> set (releaseCandidates s')"
    using store_candidate_cases [OF st] by (auto simp: candidate_stored_def)
  with prune_survives [OF p assms(2,3)] show ?thesis unfolding survives_def by blast
next
  fix pres s1
  assume "prune_candidates e org audit s = (pres, s1)" "s' = s1"
  then show ?thesis using prune_survives assms(2,3) by simp
qed (use assms(3) survives_same in simp)

lemma withdraw_survives:
  assumes "withdrawScheduleAndAudit e org i audit s = (res, s')" "c \<in> set (releaseCandidates s)"
  shows "survives t s' c"
  using withdraw_cases [OF assms(1)] assms(2) by (auto intro: survives_same)

lemma release_step_survives:
  assumes "release_step e s s'" "release_inv e s" "c \<in> set (releaseCandidates s)"
  shows "survives (now e) s' c"
  using assms(1)
proof cases
  case (candidate_submitted org i d audit idem cres)
  then show ?thesis unfolding submitReleaseCandidateAndAudit_def
    using assms(2,3) by (rule transition_survives)
next
  case (candidate_approved org i d audit idem cres)
  then show ?thesis unfolding approveReleaseCandidateAndAudit_def
    using assms(2,3) by (rule transition_survives)
next
  case (candidate_created org data t audit origins idem cres)
  then show ?thesis using assms(2,3) by (rule create_survives)
next
  case (candidate_published org i d audit origins idem cres)
  then show ?thesis using assms(2,3) by (rule publish_survives)
next
  case (schedule_withdrawn org i audit wres)
  then show ?thesis using assms(3) by (rule withdraw_survives)
qed

section \<open>Remembered responses\<close>

text \<open>The response of a record still describes the live candidate.\<close>

definition remembers :: "candidate_idempotency \<Rightarrow> release_candidate \<Rightarrow> release_candidate \<Rightarrow> bool" where
  "remembers r resp l \<longleftrightarrow> content_of l = content_of resp \<and> cd_organizationId l = ci_organizationId r \<and>
     cd_state resp = expected_state (ci_operation r) \<and>
     ci_expiresAt r < cd_expiresAt l + CANDIDATE_RESPONSE_RETENTION_MS \<and>
     state_rank (expected_state (ci_operation r)) \<le> state_rank (cd_state l)"

definition replay_inv :: "instant \<Rightarrow> store \<Rightarrow> bool" where
  "replay_inv t s \<longleftrightarrow> (\<forall>r \<in> set (candidateIdempotency s). \<forall>resp.
     ci_response r = Some resp \<longrightarrow> t < ci_expiresAt r \<longrightarrow>
     (\<exists>l \<in> set (releaseCandidates s). remembers r resp l))"

lemma replay_inv_empty [simp]: "replay_inv t (empty_store\<lparr>users := us\<rparr>)"
  by (simp add: replay_inv_def empty_store_def)

lemma remembers_evolves: "remembers r resp l \<Longrightarrow> evolves l l' \<Longrightarrow> remembers r resp l'"
  using content_of_eqD [of l' l] by (auto simp: remembers_def evolves_def)

lemma compact_responses:
  assumes "r \<in> set (candidateIdempotency (compactExpiredIdempotencyResponses e s))"
    and "ci_response r = Some resp"
  shows "r \<in> set (candidateIdempotency s)"
  using assms
  by (auto simp: compactExpiredIdempotencyResponses_def Let_def elim!: in_update_whereE)

text \<open>A step keeps the old responses valid when candidates survive, and adds at most one.\<close>

lemma replay_inv_step:
  assumes "replay_inv t s" "t \<le> t'"
    and survive: "\<And>c. c \<in> set (releaseCandidates s) \<Longrightarrow> survives t' s' c"
    and new: "\<And>r resp. r \<in> set (candidateIdempotency s') \<Longrightarrow> ci_response r = Some resp \<Longrightarrow>
      r \<in> set (candidateIdempotency s) \<or> (\<exists>l \<in> set (releaseCandidates s'). remembers r resp l)"
  shows "replay_inv t' s'"
  unfolding replay_inv_def
proof (intro ballI allI impI)
  fix r resp
  assume r: "r \<in> set (candidateIdempotency s')" "ci_response r = Some resp" "t' < ci_expiresAt r"
  from new [OF r(1,2)] show "\<exists>l \<in> set (releaseCandidates s'). remembers r resp l"
  proof
    assume old: "r \<in> set (candidateIdempotency s)"
    have "t < ci_expiresAt r" using r(3) assms(2) by simp
    with assms(1) old r(2) obtain l where l: "l \<in> set (releaseCandidates s)" "remembers r resp l"
      unfolding replay_inv_def by blast
    have "\<not> cd_expiresAt l + CANDIDATE_RESPONSE_RETENTION_MS \<le> t'"
      using l(2) r(3) by (simp add: remembers_def)
    with survive [OF l(1)] obtain l' where "l' \<in> set (releaseCandidates s')" "evolves l l'"
      unfolding survives_def by blast
    with remembers_evolves [OF l(2)] show ?thesis by blast
  qed
qed

lemma remembered_record:
  assumes "r \<in> set (candidateIdempotency (compactExpiredIdempotencyResponses e
      (rememberReleaseCandidate e org op audit idem c s)))" "ci_response r = Some resp"
  shows "r \<in> set (candidateIdempotency s) \<or> resp = c \<and> ci_organizationId r = org \<and>
    ci_operation r = op \<and> ci_expiresAt r = now e + CANDIDATE_RESPONSE_RETENTION_MS"
  using compact_responses [OF assms] assms(2) by (auto simp: rememberReleaseCandidate_def)

lemma remembers_itself:
  assumes "ci_organizationId r = cd_organizationId c" "cd_state c = expected_state (ci_operation r)"
    and "ci_expiresAt r = now e + CANDIDATE_RESPONSE_RETENTION_MS" "now e < cd_expiresAt c"
  shows "remembers r c c"
  using assms by (simp add: remembers_def)

lemma transition_new_responses:
  assumes "transitionReleaseCandidate e org op i d audit idem s = (res, s')" "release_inv e s"
    and op: "op = Op_submit \<or> op = Op_approve"
    and r: "r \<in> set (candidateIdempotency s')" "ci_response r = Some resp"
  shows "r \<in> set (candidateIdempotency s) \<or> (\<exists>l \<in> set (releaseCandidates s'). remembers r resp l)"
  using transition_cases [OF assms(1)]
proof (elim disjE exE conjE)
  fix c u ar
  assume c: "candidate_for e org i d s = Inr c" and u: "transitioned e org op audit s c = Inr u"
    and s': "s' = compactExpiredIdempotencyResponses e (rememberReleaseCandidate e org op audit idem u
       (s\<lparr>releaseCandidates := update_first (is_candidate org i) (\<lambda>_. u) (releaseCandidates s),
          auditRecords := auditRecords s @ [ar]\<rparr>))"
  note found = candidate_for_Inr [OF c]
  note tr = transitioned_Inr [OF u]
  have dist: "distinct (map cd_id (releaseCandidates s))" using assms(2) by (simp add: release_inv_def)
  have cin: "c \<in> set (releaseCandidates s)" "cd_organizationId c = org"
    using find_SomeD [of "is_candidate org i" "releaseCandidates s" c] found
    by (auto simp: is_candidate_def)
  have cs: "releaseCandidates s' = update_where (\<lambda>x. cd_id x = cd_id c) (\<lambda>_. u) (releaseCandidates s)"
    using update_candidate(1) [OF dist _ content_of_eqD(1) [OF tr(1)]] found by (simp add: s')
  have uin: "u \<in> set (releaseCandidates s')"
    unfolding cs using cin(1) by (force simp: set_update_where)
  have state: "cd_state u = expected_state op" using tr(5) op by auto
  show ?thesis
    using remembered_record [OF r(1) [unfolded s'] r(2)]
  proof
    assume new: "resp = u \<and> ci_organizationId r = org \<and> ci_operation r = op \<and>
      ci_expiresAt r = now e + CANDIDATE_RESPONSE_RETENTION_MS"
    have "remembers r u u"
      using new state cin(2) found content_of_eqD(2,10) [OF tr(1)]
      by (intro remembers_itself [of r u e]) simp_all
    with new uin show ?thesis by blast
  qed simp
qed (use r in simp)

lemma publish_new_responses:
  assumes "publishReleaseCandidateAndAudit e org i d audit origins idem s = (res, s')" "release_inv e s"
    and r: "r \<in> set (candidateIdempotency s')" "ci_response r = Some resp"
  shows "r \<in> set (candidateIdempotency s) \<or> (\<exists>l \<in> set (releaseCandidates s'). remembers r resp l)"
  using publish_cases [OF assms(1)]
proof (elim disjE exE conjE)
  fix c release p a r1 r2
  assume c: "candidate_for e org i d s = Inr c"
    and p: "p = c\<lparr>cd_state := PUBLISHED, cd_publishedAt := Some (now e),
            cd_scheduleId := Some (new_id e 0), cd_assignmentId := Some (new_id e 1)\<rparr>"
    and s': "s' = compactExpiredIdempotencyResponses e (rememberReleaseCandidate e org Op_publish audit idem p
         (s\<lparr>releaseCandidates := update_first (is_candidate org i) (\<lambda>_. p) (releaseCandidates s),
            schedules := schedules s @ [published_schedule e org (new_id e 0) (new_id e 1) c],
            releaseAssignments := releaseAssignments s @ [a],
            auditRecords := auditRecords s @ [r1, r2]\<rparr>))"
  note found = candidate_for_Inr [OF c]
  have dist: "distinct (map cd_id (releaseCandidates s))" using assms(2) by (simp add: release_inv_def)
  have cin: "c \<in> set (releaseCandidates s)" "cd_organizationId c = org"
    using find_SomeD [of "is_candidate org i" "releaseCandidates s" c] found
    by (auto simp: is_candidate_def)
  have cs: "releaseCandidates s' = update_where (\<lambda>x. cd_id x = cd_id c) (\<lambda>_. p) (releaseCandidates s)"
    using update_candidate(1) [OF dist, of org i c p] found by (simp add: s' p)
  have pin: "p \<in> set (releaseCandidates s')"
    unfolding cs using cin(1) by (force simp: set_update_where)
  show ?thesis
    using remembered_record [OF r(1) [unfolded s'] r(2)]
  proof
    assume new: "resp = p \<and> ci_organizationId r = org \<and> ci_operation r = Op_publish \<and>
      ci_expiresAt r = now e + CANDIDATE_RESPONSE_RETENTION_MS"
    have "remembers r p p"
      using new cin(2) found by (intro remembers_itself [of r p e]) (simp_all add: p)
    with new pin show ?thesis by blast
  qed simp
qed (use r in simp)

lemma prune_idempotency:
  "prune_candidates e org audit s = (res, s') \<Longrightarrow> candidateIdempotency s' = candidateIdempotency s"
  by (auto dest!: prune_candidates_cases)

lemma create_new_responses:
  assumes "createReleaseCandidateAndAudit e org data t audit origins idem s = (res, s')"
    and r: "r \<in> set (candidateIdempotency s')" "ci_response r = Some resp"
  shows "r \<in> set (candidateIdempotency s) \<or> (\<exists>l \<in> set (releaseCandidates s'). remembers r resp l)"
  using create_cases [OF assms(1)]
proof (elim disjE exE conjE)
  fix pres s1 k snapshot
  assume late: "now e < t" and p: "prune_candidates e org audit s = (pres, s1)"
    and st: "store_candidate e k org data t audit idem snapshot s1 = (res, s')"
  from store_candidate_cases [OF st] show ?thesis
  proof (elim disjE exE conjE)
    fix j release rels c
    assume c: "c = new_candidate e (new_id e j) org data t (ac_actorUserId audit) release snapshot"
      and "candidate_stored e org audit idem rels c s1 s'"
    then obtain ar where s': "s' = compactExpiredIdempotencyResponses e
        (rememberReleaseCandidate e org Op_create audit idem c
          (s1\<lparr>releases := rels, releaseCandidates := releaseCandidates s1 @ [c],
             auditRecords := auditRecords s1 @ [ar]\<rparr>))"
      by (auto simp: candidate_stored_def)
    show ?thesis
      using remembered_record [OF r(1) [unfolded s'] r(2)]
    proof
      assume new: "resp = c \<and> ci_organizationId r = org \<and> ci_operation r = Op_create \<and>
        ci_expiresAt r = now e + CANDIDATE_RESPONSE_RETENTION_MS"
      have "remembers r c c" using new late by (intro remembers_itself [of r c e]) (simp_all add: c)
      with new show ?thesis by (auto simp: s')
    qed (use prune_idempotency [OF p] in simp)
  qed (use r prune_idempotency [OF p] in simp)
next
  fix pres s1
  assume "prune_candidates e org audit s = (pres, s1)" "s' = s1"
  then show ?thesis using prune_idempotency r by simp
qed (use r in simp)

lemma release_step_replay:
  assumes "release_step e s s'" "release_inv e s" "replay_inv t s" "t \<le> now e"
  shows "replay_inv (now e) s'"
proof (rule replay_inv_step [OF assms(3,4)])
  show "survives (now e) s' c" if "c \<in> set (releaseCandidates s)" for c
    using release_step_survives assms(1,2) that by blast
  fix r resp
  assume r: "r \<in> set (candidateIdempotency s')" "ci_response r = Some resp"
  show "r \<in> set (candidateIdempotency s) \<or> (\<exists>l \<in> set (releaseCandidates s'). remembers r resp l)"
    using assms(1)
  proof cases
    case (candidate_submitted org i d audit idem cres)
    then show ?thesis unfolding submitReleaseCandidateAndAudit_def
      using assms(2) r by (rule_tac transition_new_responses) auto
  next
    case (candidate_approved org i d audit idem cres)
    then show ?thesis unfolding approveReleaseCandidateAndAudit_def
      using assms(2) r by (rule_tac transition_new_responses) auto
  next
    case (candidate_created org data t audit origins idem cres)
    then show ?thesis using r by (rule create_new_responses)
  next
    case (candidate_published org i d audit origins idem cres)
    then show ?thesis using assms(2) r by (rule publish_new_responses)
  next
    case (schedule_withdrawn org i audit wres)
    then show ?thesis using withdraw_cases [OF schedule_withdrawn] r by auto
  qed
qed

text \<open>A step of another component keeps the responses.\<close>

lemma replay_inv_other:
  assumes "replay_inv t s" "t \<le> t'" "releaseCandidates s' = releaseCandidates s"
    and "candidateIdempotency s' = candidateIdempotency s"
  shows "replay_inv t' s'"
  using assms by (auto simp: replay_inv_def)

lemma replay_is_consistent:
  assumes inv: "release_inv e s" and l: "l \<in> set (releaseCandidates s)" and r: "remembers r resp l"
    and org: "ci_organizationId r = org" and op: "ci_operation r = op"
  shows "replay_consistent e org op resp (List.find (is_candidate org (cd_id resp)) (releaseCandidates s))"
proof -
  have same: "content_of l = content_of resp" using r by (simp add: remembers_def)
  note eqs = content_of_eqD [OF same]
  have orgl: "cd_organizationId l = org" using r org by (simp add: remembers_def)
  have dist: "distinct (map cd_id (releaseCandidates s))" using inv by (simp add: release_inv_def)
  have found: "List.find (is_candidate org (cd_id resp)) (releaseCandidates s) = Some l"
    using l orgl eqs(1) by (intro find_unique_key [OF dist]) (auto simp: is_candidate_def)
  have ok: "candidate_ok e l" using inv l by (simp add: release_inv_def)
  have rank: "state_rank (expected_state op) \<le> state_rank (cd_state l)"
    "cd_state resp = expected_state op" using r op by (auto simp: remembers_def)
  show ?thesis unfolding found replay_consistent_def
    using ok rank eqs orgl
    by (cases op; cases "cd_state l") (auto simp: candidate_ok_def four_eyes_def approval_matches_def)
qed

lemma replay_never_fails:
  assumes "release_inv e s" "replay_inv t s" "t \<le> now e"
  shows "releaseCandidateReplay e org op audit idem s \<noteq> Inl x"
proof
  assume "releaseCandidateReplay e org op audit idem s = Inl x"
  then obtain r resp where r: "List.find (is_idempotency org op (ii_keyHash idem)) (candidateIdempotency s) = Some r"
    "now e < ci_expiresAt r" "ci_response r = Some resp"
    "\<not> replay_consistent e org op resp (List.find (is_candidate org (cd_id resp)) (releaseCandidates s))"
    by (auto simp: releaseCandidateReplay_def not_le split: option.splits if_splits)
  have rin: "r \<in> set (candidateIdempotency s)" "ci_organizationId r = org" "ci_operation r = op"
    using find_SomeD [OF r(1)] by (auto simp: is_idempotency_def)
  have "t < ci_expiresAt r" using r(2) assms(3) by simp
  with assms(2) rin(1) r(3) obtain l where "l \<in> set (releaseCandidates s)" "remembers r resp l"
    unfolding replay_inv_def by blast
  from replay_is_consistent [OF assms(1) this rin(2,3)] r(4) show False by blast
qed

end
