(* ===== verification/Release_Content.thy ===== *)
theory Release_Content
  imports Release_Replay
begin

text \<open>
  The release operations and the rest of the store: what they refer to exists, and the
  identifiers they use are fresh or were in use before.
\<close>

section \<open>References\<close>

text \<open>What a snapshot that may be released was made from.\<close>

lemma candidate_snapshot_of_Inr:
  assumes "candidate_snapshot_of e org data origins s = Inr snapshot"
  shows "has_playlist s org (rs_sourcePlaylistId snapshot)"
    "\<forall>i \<in> set (rs_items snapshot). has_media s org (fa_id (fi_asset i))"
proof -
  obtain p where p: "List.find (is_playlist org (sd_playlistId data)) (playlists s) = Some p"
    and snap: "canonicalReleaseSnapshot e p (assets_of s org p) = Inr snapshot"
    using assms by (auto simp: candidate_snapshot_of_def Let_def split: if_splits option.splits)
  obtain fs where fs: "freeze_items (assets_of s org p) [] (sort_by (compare_items e) (pl_items p)) = Inr fs"
    and items: "rs_items snapshot = fs" "rs_sourcePlaylistId snapshot = pl_id p"
    using snap by (auto simp: canonicalReleaseSnapshot_def Let_def split: if_splits sum.splits)
  show "has_playlist s org (rs_sourcePlaylistId snapshot)"
    using find_SomeD [OF p] by (auto simp: items has_playlist_def is_playlist_def)
  have assets: "is_media org (md_id a) a \<and> a \<in> set (medias s)" if "a \<in> set (assets_of s org p)" for a
    using that by (auto simp: assets_of_def List.map_filter_def is_media_def) (auto dest!: find_SomeD simp: is_media_def)
  show "\<forall>i \<in> set (rs_items snapshot). has_media s org (fa_id (fi_asset i))"
  proof
    fix i assume "i \<in> set (rs_items snapshot)"
    with freeze_items_spec [OF fs] obtain a where a: "a \<in> set (assets_of s org p)" "fi_asset i = freeze_asset a"
      by (auto simp: items)
    with assets [OF a(1)] show "has_media s org (fa_id (fi_asset i))"
      by (auto simp: has_media_def freeze_asset_def)
  qed
qed

text \<open>
  Releases and assignments may be added when what they refer to exists, and a release may go when
  no assignment refers to it.
\<close>

lemma content_resolves_release:
  assumes inv: "content_resolves s" and frame: "release_frame s s'"
    and rels: "\<And>r. r \<in> set (releases s) \<Longrightarrow> r \<in> set (releases s') \<or>
        rl_id r \<notin> ra_releaseId ` set (releaseAssignments s)"
      "\<And>r. r \<in> set (releases s') \<Longrightarrow> r \<in> set (releases s) \<or>
        has_playlist s (rl_organizationId r) (rl_sourcePlaylistId r) \<and>
        (\<forall>i \<in> set (rl_items r). has_media s (rl_organizationId r) (fa_id (fi_asset i)))"
    and assigns: "\<And>a. a \<in> set (releaseAssignments s') \<Longrightarrow> a \<in> set (releaseAssignments s) \<or>
      (\<exists>r \<in> set (releases s'). rl_organizationId r = ra_organizationId a \<and> rl_id r = ra_releaseId a)"
  shows "content_resolves s'"
proof -
  have same: "has_media s' = has_media s" "has_playlist s' = has_playlist s" "playlists s' = playlists s"
    by (simp_all add: has_media_def has_playlist_def release_frame_fields [OF frame] fun_eq_iff)
  show ?thesis unfolding content_resolves_def same
  proof (intro conjI ballI)
    fix a assume "a \<in> set (releaseAssignments s')"
    from assigns [OF this]
    show "\<exists>r \<in> set (releases s'). rl_organizationId r = ra_organizationId a \<and> rl_id r = ra_releaseId a"
    proof
      assume a: "a \<in> set (releaseAssignments s)"
      then obtain r where r: "r \<in> set (releases s)" "rl_organizationId r = ra_organizationId a"
        "rl_id r = ra_releaseId a" using inv by (auto simp: content_resolves_def)
      with rels(1) [OF r(1)] a show ?thesis by auto
    qed
  qed (use inv in \<open>auto simp: content_resolves_def dest!: rels(2)\<close>)
qed

lemma create_content:
  assumes "createReleaseCandidateAndAudit e org data t audit origins idem s = (res, s')"
    and inv: "content_resolves s"
  shows "content_resolves s'"
proof -
  have prune: "content_resolves s1" if "prune_candidates e org audit s = (pres, s1)" for pres s1
    by (rule content_resolves_release [OF inv prune_release_frame [OF that]])
      (use prune_candidates_cases [OF that] in
        \<open>auto simp: remove_candidates_def Let_def list_ex_iff image_iff\<close>)
  from create_cases [OF assms(1)] show ?thesis
  proof (elim disjE exE conjE)
    fix pres s1 k snapshot
    assume p: "prune_candidates e org audit s = (pres, s1)"
      and snap: "candidate_snapshot_of e org data origins s1 = Inr snapshot"
      and st: "store_candidate e k org data t audit idem snapshot s1 = (res, s')"
    from store_candidate_cases [OF st] show ?thesis
    proof (elim disjE exE conjE)
      fix j release rels c
      assume rel: "release_for e (new_id e k) org (ac_actorUserId audit) snapshot s1 release rels"
        and stored: "candidate_stored e org audit idem rels c s1 s'"
      note fs = stored_release_frame [OF stored]
      have "releases s' = rels" "releaseAssignments s' = releaseAssignments s1"
        using stored by (auto simp: candidate_stored_def)
      note fs = fs this
      show ?thesis
        by (rule content_resolves_release [OF prune [OF p] fs(1)])
          (use rel candidate_snapshot_of_Inr [OF snap] in
            \<open>auto simp: fs release_for_def release_of_snapshot_def\<close>)
    qed (use prune [OF p] in simp)
  next
    fix pres s1
    assume "prune_candidates e org audit s = (pres, s1)" "s' = s1"
    then show ?thesis using prune by simp
  qed (use inv in simp)
qed

lemma publishable_release_found:
  "publishable_release e org origins c s = Inr release \<Longrightarrow>
    release \<in> set (releases s) \<and> is_release org (cd_releaseId c) release"
  by (auto simp: publishable_release_def Let_def split: option.splits if_splits dest!: find_SomeD)

lemma publish_content:
  assumes "publishReleaseCandidateAndAudit e org i d audit origins idem s = (res, s')"
    and inv: "content_resolves s"
  shows "content_resolves s'"
  using publish_cases [OF assms(1)]
proof (elim disjE exE conjE)
  fix c release p a r1 r2
  assume rel: "publishable_release e org origins c s = Inr release"
    and a: "a = new_assignment e org (new_id e 1) (new_id e 0) c (ac_actorUserId audit)"
    and s': "s' = compactExpiredIdempotencyResponses e (rememberReleaseCandidate e org Op_publish audit idem p
         (s\<lparr>releaseCandidates := update_first (is_candidate org i) (\<lambda>_. p) (releaseCandidates s),
            schedules := schedules s @ [published_schedule e org (new_id e 0) (new_id e 1) c],
            releaseAssignments := releaseAssignments s @ [a],
            auditRecords := auditRecords s @ [r1, r2]\<rparr>))"
  note publishable_release_found [OF rel]
  moreover have "ra_organizationId a = org \<and> ra_releaseId a = cd_releaseId c"
    using a by (simp add: new_assignment_def)
  ultimately show ?thesis
    by (intro content_resolves_release [OF inv publish_release_frame [OF assms(1)]])
      (auto simp: s' is_release_def)
qed (use inv in simp)

lemma transition_content:
  assumes "transitionReleaseCandidate e org op i d audit idem s = (res, s')" "content_resolves s"
  shows "content_resolves s'"
  by (rule content_resolves_release [OF assms(2) transition_release_frame [OF assms(1)]])
    (use transition_cases [OF assms(1)] in auto)

lemma withdraw_content:
  assumes "withdrawScheduleAndAudit e org i audit s = (res, s')" "content_resolves s"
  shows "content_resolves s'"
  by (rule content_resolves_release [OF assms(2) withdraw_release_frame [OF assms(1)]])
    (use withdraw_cases [OF assms(1)] in \<open>auto simp: withdrawal_def is_release_def\<close>)

lemma release_step_content: "release_step e s s' \<Longrightarrow> content_resolves s \<Longrightarrow> content_resolves s'"
  by (induction rule: release_step.induct)
    (auto simp: submitReleaseCandidateAndAudit_def approveReleaseCandidateAndAudit_def
      intro: create_content transition_content publish_content withdraw_content)

section \<open>Identifiers\<close>

definition release_ids :: "store \<Rightarrow> string set" where
  "release_ids s = cd_id ` set (releaseCandidates s) \<union> ra_id ` set (releaseAssignments s) \<union>
     ra_scheduleId ` set (releaseAssignments s)"

lemma release_ids_empty [simp]: "release_ids (empty_store\<lparr>users := us\<rparr>) = {}"
  by (simp add: release_ids_def empty_store_def)

lemma fresh_from_release_ids:
  "(\<And>k. new_id e k \<notin> release_ids s \<and> new_id e k \<noteq> []) \<Longrightarrow> fresh_release_ids e s"
  by (auto simp: release_ids_def fresh_release_ids_def)

text \<open>No schedule or release is named by the empty string, so the truthiness checks never skip one.\<close>

definition named :: "store \<Rightarrow> bool" where
  "named s \<longleftrightarrow> (\<forall>x \<in> set (schedules s). sd_id x \<noteq> []) \<and> (\<forall>r \<in> set (releases s). rl_id r \<noteq> []) \<and>
     (\<forall>a \<in> set (releaseAssignments s). ra_releaseId a \<noteq> [])"

lemma named_empty [simp]: "named (empty_store\<lparr>users := us\<rparr>)"
  by (simp add: named_def empty_store_def)

lemma found_candidate_id:
  "List.find (is_candidate org i) cs = Some c \<Longrightarrow> cd_id c \<in> cd_id ` set cs"
  by (auto dest: find_SomeD)

lemma update_first_const_image:
  assumes "List.find P xs = Some y" "g u = g y"
  shows "g ` set (update_first P (\<lambda>_. u) xs) \<subseteq> g ` set xs"
  using assms by (auto elim!: in_update_firstE dest: find_SomeD)

lemma transition_ids:
  assumes "transitionReleaseCandidate e org op i d audit idem s = (res, s')"
  shows "release_ids s' \<subseteq> release_ids s"
  using transition_cases [OF assms]
proof (elim disjE exE conjE)
  fix c u r
  assume c: "candidate_for e org i d s = Inr c" and u: "transitioned e org op audit s c = Inr u"
    and s': "s' = compactExpiredIdempotencyResponses e (rememberReleaseCandidate e org op audit idem u
       (s\<lparr>releaseCandidates := update_first (is_candidate org i) (\<lambda>_. u) (releaseCandidates s),
          auditRecords := auditRecords s @ [r]\<rparr>))"
  have "cd_id ` set (update_first (is_candidate org i) (\<lambda>_. u) (releaseCandidates s))
      \<subseteq> cd_id ` set (releaseCandidates s)"
    using candidate_for_Inr [OF c] content_of_eqD(1) [OF transitioned_Inr(1) [OF u]]
    by (intro update_first_const_image) simp_all
  then show ?thesis unfolding s' release_ids_def by auto
qed simp

lemma create_ids:
  assumes "createReleaseCandidateAndAudit e org data t audit origins idem s = (res, s')"
  shows "release_ids s' \<subseteq> release_ids s \<union> range (new_id e)"
proof -
  have prune: "release_ids s1 \<subseteq> release_ids s" if "prune_candidates e org audit s = (pres, s1)" for pres s1
    using prune_candidates_cases [OF that] by (auto simp: release_ids_def)
  from create_cases [OF assms] show ?thesis
  proof (elim disjE exE conjE)
    fix pres s1 k snapshot
    assume p: "prune_candidates e org audit s = (pres, s1)"
      and st: "store_candidate e k org data t audit idem snapshot s1 = (res, s')"
    have "release_ids s' \<subseteq> release_ids s1 \<union> range (new_id e)"
      using store_candidate_cases [OF st]
      by (auto simp: candidate_stored_def release_ids_def new_candidate_def Let_def)
    with prune [OF p] show ?thesis by blast
  next
    fix pres s1
    assume "prune_candidates e org audit s = (pres, s1)" "s' = s1"
    with prune show ?thesis by blast
  qed auto
qed

lemma publish_ids:
  assumes "publishReleaseCandidateAndAudit e org i d audit origins idem s = (res, s')"
  shows "release_ids s' \<subseteq> release_ids s \<union> range (new_id e)"
  using publish_cases [OF assms]
proof (elim disjE exE conjE)
  fix c release p a r1 r2
  assume c: "candidate_for e org i d s = Inr c"
    and p: "p = c\<lparr>cd_state := PUBLISHED, cd_publishedAt := Some (now e),
            cd_scheduleId := Some (new_id e 0), cd_assignmentId := Some (new_id e 1)\<rparr>"
    and a: "a = new_assignment e org (new_id e 1) (new_id e 0) c (ac_actorUserId audit)"
    and s': "s' = compactExpiredIdempotencyResponses e (rememberReleaseCandidate e org Op_publish audit idem p
         (s\<lparr>releaseCandidates := update_first (is_candidate org i) (\<lambda>_. p) (releaseCandidates s),
            schedules := schedules s @ [published_schedule e org (new_id e 0) (new_id e 1) c],
            releaseAssignments := releaseAssignments s @ [a],
            auditRecords := auditRecords s @ [r1, r2]\<rparr>))"
  have "cd_id ` set (update_first (is_candidate org i) (\<lambda>_. p) (releaseCandidates s))
      \<subseteq> cd_id ` set (releaseCandidates s)"
    using candidate_for_Inr [OF c] by (intro update_first_const_image) (simp_all add: p)
  then show ?thesis unfolding s' release_ids_def a by (auto simp: new_assignment_def)
qed auto

lemma withdraw_ids:
  assumes "withdrawScheduleAndAudit e org i audit s = (res, s')"
  shows "release_ids s' \<subseteq> release_ids s \<union> range (new_id e)"
proof -
  have "i \<in> ra_scheduleId ` set (releaseAssignments s)" if "latestAssignment s i = Some a" for a
    using latestAssignment_SomeD [OF that] by force
  with withdraw_cases [OF assms] show ?thesis
    by (auto simp: release_ids_def withdrawal_def)
qed

lemma release_step_ids:
  assumes "release_step e s s'"
  shows "release_ids s' \<subseteq> release_ids s \<union> range (new_id e)"
  using assms
proof cases
  case (candidate_submitted org i d audit idem cres)
  from transition_ids [OF this [unfolded submitReleaseCandidateAndAudit_def]] show ?thesis by blast
next
  case (candidate_approved org i d audit idem cres)
  from transition_ids [OF this [unfolded approveReleaseCandidateAndAudit_def]] show ?thesis by blast
qed (rule create_ids publish_ids withdraw_ids; assumption)+

lemma release_step_named:
  assumes "release_step e s s'" "named s" "fresh_release_ids e s"
  shows "named s'"
  using assms(1)
proof cases
  case (candidate_created org data t audit origins idem cres)
  have prune: "named s1" if "prune_candidates e org audit s = (pres, s1)" for pres s1
    using prune_candidates_cases [OF that] assms(2) by (auto simp: named_def remove_candidates_def Let_def)
  from create_cases [OF candidate_created] show ?thesis
  proof (elim disjE exE conjE)
    fix pres s1 k snapshot
    assume p: "prune_candidates e org audit s = (pres, s1)"
      and st: "store_candidate e k org data t audit idem snapshot s1 = (cres, s')"
    show ?thesis
      using store_candidate_cases [OF st] prune [OF p] fresh_release_idsD(1) [OF assms(3)]
      by (auto simp: candidate_stored_def named_def release_for_def release_of_snapshot_def)
  qed (use assms(2) prune in auto)
next
  case (candidate_submitted org i d audit idem cres)
  from transition_cases [OF this [unfolded submitReleaseCandidateAndAudit_def]] assms(2)
  show ?thesis by (auto simp: named_def)
next
  case (candidate_approved org i d audit idem cres)
  from transition_cases [OF this [unfolded approveReleaseCandidateAndAudit_def]] assms(2)
  show ?thesis by (auto simp: named_def)
next
  case (candidate_published org i d audit origins idem cres)
  from publish_cases [OF this] assms(2) fresh_release_idsD(1) [OF assms(3)]
  show ?thesis
    by (auto simp: named_def new_assignment_def published_schedule_def Let_def is_release_def
        dest!: publishable_release_found)
next
  case (schedule_withdrawn org i audit wres)
  from withdraw_cases [OF this] assms(2) show ?thesis
    by (auto simp: named_def withdrawal_def is_release_def)
qed

end
