(* ===== verification/System.thy ===== *)
theory System
  imports Device_Challenges Emergencies Release_Content
begin

text \<open>
  The store as one system: every request runs one operation, in any order, by any caller, with a
  clock that does not go back and identifiers that were never drawn before.  The invariants of
  the components hold together in every reachable store.
\<close>

section \<open>Steps and runs\<close>

inductive store_step :: "env \<Rightarrow> store \<Rightarrow> store \<Rightarrow> bool" for e s s' where
  identity: "identity_step e s s' \<Longrightarrow> store_step e s s'"
| screen: "screen_step e s s' \<Longrightarrow> store_step e s s'"
| device: "device_step e s s' \<Longrightarrow> store_step e s s'"
| content: "content_step e s s' \<Longrightarrow> store_step e s s'"
| emergency: "emergency_step e s s' \<Longrightarrow> store_step e s s'"
| release: "release_step e s s' \<Longrightarrow> store_step e s s'"

inductive_simps store_step_iff: "store_step e s s'"

text \<open>
  What the surroundings of a step provide: the one hash function, a clock that is not behind, and
  identifiers that are not empty and not among those drawn so far.
\<close>

definition step_env :: "(utext \<Rightarrow> string) \<Rightarrow> instant \<Rightarrow> string set \<Rightarrow> env \<Rightarrow> bool" where
  "step_env H t D e \<longleftrightarrow> sha256 e = H \<and> t \<le> now e \<and> (\<forall>k. new_id e k \<noteq> [] \<and> new_id e k \<notin> D)"

text \<open>Clock, drawn identifiers and store after a sequence of steps.\<close>

inductive run :: "(utext \<Rightarrow> string) \<Rightarrow> instant \<Rightarrow> string set \<Rightarrow> store \<Rightarrow>
    instant \<Rightarrow> string set \<Rightarrow> store \<Rightarrow> bool" for H t0 D0 s0 where
  stay: "run H t0 D0 s0 t0 D0 s0"
| step: "run H t0 D0 s0 t D s \<Longrightarrow> step_env H t D e \<Longrightarrow> store_step e s s' \<Longrightarrow>
    run H t0 D0 s0 (now e) (D \<union> range (new_id e)) s'"

definition start_store :: "session_user list \<Rightarrow> store" where
  "start_store us = empty_store\<lparr>users := us\<rparr>"

definition reachable :: "(utext \<Rightarrow> string) \<Rightarrow> session_user list \<Rightarrow> instant \<Rightarrow> string set \<Rightarrow> store \<Rightarrow> bool" where
  "reachable H us t D s \<longleftrightarrow> (\<exists>t0. run H t0 {} (start_store us) t D s)"

lemma run_trans:
  assumes "run H t1 D1 s1 t2 D2 s2" "run H t0 D0 s0 t1 D1 s1"
  shows "run H t0 D0 s0 t2 D2 s2"
  using assms by (induction rule: run.induct) (auto intro: run.step)

lemma run_clock: "run H t0 D0 s0 t D s \<Longrightarrow> t0 \<le> t \<and> D0 \<subseteq> D"
  by (induction rule: run.induct) (auto simp: step_env_def)

lemma reachable_run: "reachable H us t0 D0 s0 \<Longrightarrow> run H t0 D0 s0 t D s \<Longrightarrow> reachable H us t D s"
  unfolding reachable_def using run_trans by blast

lemma reachable_start: "reachable H us t {} (start_store us)"
  unfolding reachable_def using run.stay by blast

lemma reachable_step:
  "reachable H us t D s \<Longrightarrow> step_env H t D e \<Longrightarrow> store_step e s s' \<Longrightarrow>
    reachable H us (now e) (D \<union> range (new_id e)) s'"
  unfolding reachable_def using run.step by blast

section \<open>Invariants as an interface\<close>

text \<open>A predicate every step keeps.\<close>

locale step_invariant =
  fixes I :: "(utext \<Rightarrow> string) \<Rightarrow> instant \<Rightarrow> string set \<Rightarrow> store \<Rightarrow> bool"
  assumes kept: "I H t D s \<Longrightarrow> step_env H t D e \<Longrightarrow> store_step e s s' \<Longrightarrow>
    I H (now e) (D \<union> range (new_id e)) s'"
begin

lemma along_run: "run H t0 D0 s0 t D s \<Longrightarrow> I H t0 D0 s0 \<Longrightarrow> I H t D s"
  by (induction rule: run.induct) (auto intro: kept)

end

text \<open>One that also holds of the store the process starts with.\<close>

locale store_invariant = step_invariant +
  assumes initially: "I H t {} (start_store us)"
begin

lemma always: "reachable H us t D s \<Longrightarrow> I H t D s"
  unfolding reachable_def using along_run initially by blast

end

section \<open>The invariant of the store\<close>

definition system_inv :: "(utext \<Rightarrow> string) \<Rightarrow> instant \<Rightarrow> string set \<Rightarrow> store \<Rightarrow> bool" where
  "system_inv H t D s \<longleftrightarrow>
     (device_inv s \<and> challenge_inv t s \<and> device_ids s \<subseteq> D) \<and>
     ((\<forall>e. sha256 e = H \<longrightarrow> release_inv e s) \<and> replay_inv t s \<and> release_ids s \<subseteq> D \<and> named s) \<and>
     content_resolves s \<and> locations_resolve s \<and> emergencies s = []"

lemma references_empty [simp]:
  "content_resolves (empty_store\<lparr>users := us\<rparr>)" "locations_resolve (empty_store\<lparr>users := us\<rparr>)"
  "emergencies (empty_store\<lparr>users := us\<rparr>) = []"
  by (simp_all add: content_resolves_def locations_resolve_def empty_store_def)

lemma system_inv_start: "system_inv H t {} (start_store us)"
  by (simp add: system_inv_def start_store_def)

lemma device_ids_fresh:
  assumes "system_inv H t D s" "step_env H t D e"
  shows "fresh_device_ids e s" "fresh_release_ids e s"
    "new_id e k \<notin> ch_id ` set (deviceAuthChallenges s)"
proof -
  have out: "new_id e k \<notin> device_ids s" "new_id e k \<notin> release_ids s" "new_id e k \<noteq> []" for k
    using assms by (auto simp: system_inv_def step_env_def)
  then show "fresh_device_ids e s" "fresh_release_ids e s"
    by (simp_all add: fresh_from_device_ids fresh_from_release_ids)
  show "new_id e k \<notin> ch_id ` set (deviceAuthChallenges s)" using out(1) by (simp add: device_ids_def)
qed

text \<open>Steps that leave the fields of one group alone keep its part of the invariant.\<close>

lemma device_part_same:
  assumes "screens s' = screens s" "deviceCredentials s' = deviceCredentials s"
    "usedDeviceKeyIds s' = usedDeviceKeyIds s" "pending_from (pairings s') (pairings s)"
    "deviceAuthChallenges s' = deviceAuthChallenges s"
    and "system_inv H t D s" "step_env H t D e"
  shows "device_inv s' \<and> challenge_inv (now e) s' \<and> device_ids s' \<subseteq> D \<union> range (new_id e)"
proof (intro conjI)
  show "device_inv s'" using assms by (intro device_inv_frame [of s s']) (simp_all add: system_inv_def)
  show "challenge_inv (now e) s'"
    by (rule challenges_step_inv [OF challenges_step_same [OF assms(5)], of t])
      (use assms device_ids_fresh(3) [OF assms(6,7)] in \<open>simp_all add: system_inv_def step_env_def\<close>)
  show "device_ids s' \<subseteq> D \<union> range (new_id e)"
    using device_ids_frame [OF assms(1,2,4,5), of e] assms(6) by (auto simp: system_inv_def)
qed

lemma release_part_same:
  assumes "schedules s' = schedules s" "releases s' = releases s"
    "releaseAssignments s' = releaseAssignments s" "releaseCandidates s' = releaseCandidates s"
    "candidateIdempotency s' = candidateIdempotency s"
    and "system_inv H t D s" "step_env H t D e"
  shows "(\<forall>e. sha256 e = H \<longrightarrow> release_inv e s') \<and> replay_inv (now e) s' \<and>
    release_ids s' \<subseteq> D \<union> range (new_id e) \<and> named s'"
proof (intro conjI)
  show "replay_inv (now e) s'"
    by (rule replay_inv_other [of t s]) (use assms in \<open>simp_all add: system_inv_def step_env_def\<close>)
qed (use assms in \<open>auto simp: system_inv_def release_inv_def assignment_ok_def release_ids_def named_def\<close>)

lemma content_part_same:
  assumes "medias s' = medias s" "playlists s' = playlists s" "releases s' = releases s"
    "releaseAssignments s' = releaseAssignments s" "content_resolves s"
  shows "content_resolves s'"
  using assms by (simp add: content_resolves_def has_media_def has_playlist_def)

lemma locations_part_same:
  "screens s' = screens s \<Longrightarrow> locations s' = locations s \<Longrightarrow> locations_resolve s \<Longrightarrow> locations_resolve s'"
  by (simp add: locations_resolve_def)

section \<open>Every step keeps it\<close>

lemma identity_step_system:
  assumes step: "identity_step e s s'" and inv: "system_inv H t D s" and env: "step_env H t D e"
  shows "system_inv H (now e) (D \<union> range (new_id e)) s'"
proof -
  note fs = identity_frame_fields [OF identity_step_frame [OF step]]
  have refs: "content_resolves s'" "locations_resolve s'" "emergencies s' = []"
    using inv content_part_same [of s' s] locations_part_same [of s' s]
    by (simp_all add: fs system_inv_def)
  from device_part_same [OF fs(2,13,15) identity_step_pending [OF step] fs(14) inv env]
    release_part_same [OF fs(5-9) inv env] refs
  show ?thesis by (simp add: system_inv_def)
qed

lemma content_step_system:
  assumes step: "content_step e s s'" and inv: "system_inv H t D s" and env: "step_env H t D e"
  shows "system_inv H (now e) (D \<union> range (new_id e)) s'"
proof -
  note fs = content_frame_fields [OF content_step_frame [OF step]]
  have refs: "content_resolves s'" "locations_resolve s'" "emergencies s' = []"
    using inv content_step_resolves [OF step] locations_part_same [of s' s]
    by (simp_all add: fs system_inv_def)
  have pend: "pending_from (pairings s') (pairings s)" by (simp add: fs)
  from device_part_same [OF fs(5,15,18) pend fs(16) inv env] release_part_same [OF fs(6-10) inv env] refs
  show ?thesis by (simp add: system_inv_def)
qed

lemma emergency_step_system:
  assumes step: "emergency_step e s s'" and inv: "system_inv H t D s" and env: "step_env H t D e"
  shows "system_inv H (now e) (D \<union> range (new_id e)) s'"
proof -
  obtain rs where s': "s' = s\<lparr>auditRecords := auditRecords s @ rs\<rparr>"
    using emergency_step_effect [OF step] by blast
  have refs: "content_resolves s'" "locations_resolve s'" "emergencies s' = []"
    using inv content_part_same [of s' s] locations_part_same [of s' s]
    by (simp_all add: s' system_inv_def)
  from device_part_same [of s' s, OF _ _ _ _ _ inv env] release_part_same [of s' s, OF _ _ _ _ _ inv env] refs
  show ?thesis by (simp add: system_inv_def s')
qed

lemma screen_step_system:
  assumes step: "screen_step e s s'" and inv: "system_inv H t D s" and env: "step_env H t D e"
  shows "system_inv H (now e) (D \<union> range (new_id e)) s'"
proof -
  note fs = screen_frame_fields [OF screen_step_frame [OF step]]
  note fresh = device_ids_fresh [OF inv env]
  have refs: "content_resolves s'" "locations_resolve s'" "emergencies s' = []"
    using inv content_part_same [of s' s] screen_step_resolve [OF step]
    by (simp_all add: fs system_inv_def)
  have "device_inv s'" "challenge_inv (now e) s'"
    using screen_step_device [OF step _ fresh(1)]
      challenges_step_inv [OF screen_step_challenges [OF step] _ _ fresh(3)] inv env
    by (auto simp: system_inv_def step_env_def)
  moreover have "device_ids s' \<subseteq> D \<union> range (new_id e)"
    using screen_step_device_ids [OF step] inv by (auto simp: system_inv_def)
  ultimately show ?thesis
    using release_part_same [OF fs(6-10) inv env] refs by (simp add: system_inv_def)
qed

lemma device_step_system:
  assumes step: "device_step e s s'" and inv: "system_inv H t D s" and env: "step_env H t D e"
  shows "system_inv H (now e) (D \<union> range (new_id e)) s'"
proof -
  note fs = device_frame_fields [OF device_step_frame [OF step]]
  note fresh = device_ids_fresh [OF inv env]
  have refs: "content_resolves s'" "locations_resolve s'" "emergencies s' = []"
    using inv content_part_same [of s' s] device_step_resolve [OF step]
    by (simp_all add: fs system_inv_def)
  have "device_inv s'" "challenge_inv (now e) s'"
    using device_step_inv [OF step _ fresh(1)]
      challenges_step_inv [OF device_step_challenges [OF step] _ _ fresh(3)] inv env
    by (auto simp: system_inv_def step_env_def)
  moreover have "device_ids s' \<subseteq> D \<union> range (new_id e)"
    using device_step_ids [OF step] inv by (auto simp: system_inv_def)
  ultimately show ?thesis
    using release_part_same [OF fs(7-11) inv env] refs by (simp add: system_inv_def)
qed

lemma release_step_system:
  assumes step: "release_step e s s'" and inv: "system_inv H t D s" and env: "step_env H t D e"
  shows "system_inv H (now e) (D \<union> range (new_id e)) s'"
proof -
  note fs = release_frame_fields [OF release_step_frame [OF step]]
  note fresh = device_ids_fresh [OF inv env]
  have H: "sha256 e = H" "t \<le> now e" using env by (simp_all add: step_env_def)
  have rel: "release_inv e s" using inv H by (simp add: system_inv_def)
  have "release_inv e' s'" if "sha256 e' = H" for e'
    using release_step_inv [OF step rel fresh(2)] release_inv_env [of e' e s'] that H by simp
  moreover have "replay_inv (now e) s'"
    using release_step_replay [OF step rel _ H(2)] inv by (simp add: system_inv_def)
  moreover have "release_ids s' \<subseteq> D \<union> range (new_id e)" "named s'"
    using release_step_ids [OF step] release_step_named [OF step _ fresh(2)] inv
    by (auto simp: system_inv_def)
  moreover have "content_resolves s'" "locations_resolve s'" "emergencies s' = []"
    using inv release_step_content [OF step] locations_part_same [of s' s]
    by (simp_all add: fs system_inv_def)
  moreover have "pending_from (pairings s') (pairings s)" by (simp add: fs)
  from device_part_same [OF fs(5,11,14) this fs(12) inv env]
  have "device_inv s' \<and> challenge_inv (now e) s' \<and> device_ids s' \<subseteq> D \<union> range (new_id e)" .
  ultimately show ?thesis by (simp add: system_inv_def)
qed

interpretation system: store_invariant system_inv
proof unfold_locales
  show "system_inv H (now e) (D \<union> range (new_id e)) s'"
    if "system_inv H t D s" "step_env H t D e" "store_step e s s'" for H t D s e s'
    using that(3) that(1,2)
    by cases (blast intro: identity_step_system screen_step_system device_step_system
        content_step_system emergency_step_system release_step_system)+
qed (rule system_inv_start)

section \<open>What every reachable store satisfies\<close>

lemma reachable_facts:
  assumes "reachable H us t D s"
  shows "system_inv H t D s" "sha256 e = H \<Longrightarrow> release_inv e s" "replay_inv t s" "named s"
    "device_inv s" "challenge_inv t s" "content_resolves s" "locations_resolve s" "emergencies s = []"
proof -
  show i: "system_inv H t D s" by (rule system.always [OF assms])
  show "sha256 e = H \<Longrightarrow> release_inv e s" using i by (simp add: system_inv_def)
  show "replay_inv t s" "named s" "device_inv s" "challenge_inv t s" "content_resolves s"
    "locations_resolve s" "emergencies s = []"
    using i by (simp_all add: system_inv_def)
qed

lemma reachable_releases:
  assumes "reachable H us t D s"
  obtains e :: env where "release_inv e s"
  using reachable_facts(2) [OF assms, of "undefined\<lparr>sha256 := H\<rparr>"] by simp

lemma reachable_next:
  assumes "reachable H us t D s" "step_env H t D e" "store_step e s s'"
  shows "reachable H us (now e) (D \<union> range (new_id e)) s'" "replay_inv (now e) s'"
    "system_inv H (now e) (D \<union> range (new_id e)) s'" "sha256 e' = H \<Longrightarrow> release_inv e' s'"
proof -
  show r: "reachable H us (now e) (D \<union> range (new_id e)) s'" by (rule reachable_step [OF assms])
  show "sha256 e' = H \<Longrightarrow> release_inv e' s'" "replay_inv (now e) s'"
    "system_inv H (now e) (D \<union> range (new_id e)) s'"
    using reachable_facts(1-3) [OF r] by simp_all
qed

end
