(* ===== verification/Store_Laws.thy ===== *)
theory Store_Laws
  imports System
begin

text \<open>
  What stays true once it is true, whatever operations follow: further instances of the
  interfaces of \<open>System\<close>, one for each law.
\<close>

section \<open>The log only grows\<close>

lemma store_step_log: "store_step e s s' \<Longrightarrow> prefix (auditRecords s) (auditRecords s')"
  by (cases rule: store_step.cases)
    (auto dest: identity_step_log screen_step_log device_step_log content_step_log
      emergency_step_effect release_step_log)

interpretation audit_history: step_invariant "\<lambda>H t D s. prefix rs (auditRecords s)" for rs
  by unfold_locales (blast intro: prefix_order.trans dest: store_step_log)

section \<open>A spent challenge stays spent\<close>

lemma store_step_challenges:
  assumes "store_step e s s'"
  shows "challenges_step e s s'"
  using assms
proof cases
  case identity
  then show ?thesis
    by (intro challenges_step_same) (simp add: identity_frame_fields [OF identity_step_frame])
next
  case content
  then show ?thesis
    by (intro challenges_step_same) (simp add: content_frame_fields [OF content_step_frame])
next
  case emergency
  then show ?thesis by (auto intro!: challenges_step_same dest: emergency_step_effect)
next
  case release
  then show ?thesis
    by (intro challenges_step_same) (simp add: release_frame_fields [OF release_step_frame])
qed (simp_all add: screen_step_challenges device_step_challenges)

interpretation spent_challenge: step_invariant "\<lambda>H t D s. i \<in> D \<and> used_up s i" for i
proof unfold_locales
  fix H t D s e s'
  assume i: "i \<in> D \<and> used_up s i" and env: "step_env H t D e" and step: "store_step e s s'"
  then have "new_id e 0 \<noteq> i" by (auto simp: step_env_def)
  with challenges_step_used_up [OF store_step_challenges [OF step]] i
  show "i \<in> D \<union> range (new_id e) \<and> used_up s' i" by simp
qed

section \<open>Only the release operations touch the releases\<close>

lemma store_step_releases:
  assumes "store_step e s s'"
  shows "release_step e s s' \<or> (releaseAssignments s' = releaseAssignments s \<and>
    releaseCandidates s' = releaseCandidates s \<and> releases s' = releases s \<and> schedules s' = schedules s)"
  using assms
proof cases
  case identity
  then show ?thesis by (simp add: identity_frame_fields [OF identity_step_frame])
next
  case screen
  then show ?thesis by (simp add: screen_frame_fields [OF screen_step_frame])
next
  case device
  then show ?thesis by (simp add: device_frame_fields [OF device_step_frame])
next
  case content
  then show ?thesis by (simp add: content_frame_fields [OF content_step_frame])
next
  case emergency
  then show ?thesis by (auto dest: emergency_step_effect)
qed simp

lemma withdrawn_kept:
  assumes "system_inv H t D s" "withdrawn s i" "step_env H t D e" "store_step e s s'"
  shows "withdrawn s' i"
  using store_step_releases [OF assms(4)]
proof
  assume "release_step e s s'"
  with release_step_withdrawn assms(2) device_ids_fresh(2) [OF assms(1,3)] show ?thesis by blast
qed (use assms(2) in \<open>simp add: withdrawn_def latestAssignment_def\<close>)

text \<open>A withdrawal is final.\<close>

interpretation withdrawal: step_invariant "\<lambda>H t D s. system_inv H t D s \<and> withdrawn s i" for i
  by unfold_locales (blast intro: system.kept withdrawn_kept)

lemma store_step_candidates:
  assumes "system_inv H t D s" "step_env H t D e" "store_step e s s'" "c \<in> set (releaseCandidates s)"
  shows "survives (now e) s' c"
  using store_step_releases [OF assms(3)]
proof
  assume step: "release_step e s s'"
  have "release_inv e s" using assms(1,2) by (simp add: system_inv_def step_env_def)
  then show ?thesis using release_step_survives step assms(4) by blast
qed (use assms(4) in \<open>simp add: survives_same\<close>)

text \<open>What becomes of a candidate, however many steps later.\<close>

lemma survives_later:
  assumes "evolves c c'" "survives t s c'"
  shows "survives t s c"
proof (cases "\<exists>c'' \<in> set (releaseCandidates s). evolves c' c''")
  case True
  with assms(1) evolves_trans show ?thesis unfolding survives_def by blast
next
  case False
  with assms(2) have "cd_state c' \<noteq> PUBLISHED" "cd_expiresAt c' + CANDIDATE_RESPONSE_RETENTION_MS \<le> t"
    unfolding survives_def by blast+
  moreover have "cd_expiresAt c' = cd_expiresAt c" "cd_state c = PUBLISHED \<longrightarrow> c' = c"
    using assms(1) by (auto simp: evolves_def dest: content_of_eqD(10))
  ultimately show ?thesis by (auto simp: survives_def)
qed

interpretation candidate_history:
  step_invariant "\<lambda>H t D s. system_inv H t D s \<and> survives t s c" for c
proof unfold_locales
  fix H t D s e s'
  assume inv: "system_inv H t D s \<and> survives t s c" and env: "step_env H t D e" and step: "store_step e s s'"
  have "survives (now e) s' c"
  proof (cases "\<exists>c' \<in> set (releaseCandidates s). evolves c c'")
    case True
    then show ?thesis using survives_later store_step_candidates env step inv by blast
  next
    case False
    with inv env show ?thesis by (auto simp: survives_def step_env_def)
  qed
  with inv env step show "system_inv H (now e) (D \<union> range (new_id e)) s' \<and> survives (now e) s' c"
    by (blast intro: system.kept)
qed

section \<open>Owners\<close>

lemma bex_update_where:
  "(\<And>x. Q (if P x then f x else x) = Q x) \<Longrightarrow> (\<exists>u \<in> set (update_where P f xs). Q u) = (\<exists>u \<in> set xs. Q u)"
  unfolding update_where_def by (simp del: if_image_distrib)

lemma owned_mutation:
  assumes "memberships_mutated e i f s s'"
    and "\<And>u. u_organizationId (f u) = u_organizationId u \<and> u_id (f u) = u_id u"
  shows "map (\<lambda>u. (u_organizationId u, u_id u)) (users s') = map (\<lambda>u. (u_organizationId u, u_id u)) (users s)"
    and "(\<And>u. u_role (f u) = u_role u \<and> u_disabledAt (f u) = u_disabledAt u) \<Longrightarrow> owned s' org = owned s org"
proof -
  have users: "users s' = update_where (\<lambda>u. u_id u = i) f (users s)"
    using assms(1) by (auto simp: memberships_mutated_def)
  show "map (\<lambda>u. (u_organizationId u, u_id u)) (users s') = map (\<lambda>u. (u_organizationId u, u_id u)) (users s)"
    unfolding users by (rule map_update_where) (simp add: assms(2))
  assume same: "\<And>u. u_role (f u) = u_role u \<and> u_disabledAt (f u) = u_disabledAt u"
  have "active_owner org (if u_id u = i then f u else u) = active_owner org u" for u
    using same [of u] assms(2) [of u] by (simp add: active_owner_def)
  then show "owned s' org = owned s org" unfolding owned_def users by (rule bex_update_where)
qed

lemma rotated_store_users:
  "map (\<lambda>u. (u_organizationId u, u_id u)) (users (rotated_store e i orgs n h s)) =
     map (\<lambda>u. (u_organizationId u, u_id u)) (users s)"
  "owned (rotated_store e i orgs n h s) org = owned s org"
proof -
  show "map (\<lambda>u. (u_organizationId u, u_id u)) (users (rotated_store e i orgs n h s)) =
     map (\<lambda>u. (u_organizationId u, u_id u)) (users s)"
    unfolding rotated_store_def by (simp add: map_update_where)
  show "owned (rotated_store e i orgs n h s) org = owned s org"
    unfolding owned_def rotated_store_def by (simp add: bex_update_where active_owner_def)
qed

lemma membership_mutated_users: "membership_mutated e org i f s s' \<Longrightarrow> users s' = f (users s)"
  by (auto simp: membership_mutated_def)

definition owner_inv :: "string \<Rightarrow> store \<Rightarrow> bool" where
  "owner_inv org s \<longleftrightarrow> memberships_unique s \<and> owned s org"

lemma owner_inv_users: "owner_inv org s \<Longrightarrow> users s' = users s \<Longrightarrow> owner_inv org s'"
  by (simp add: owner_inv_def memberships_unique_def owned_def)

lemma identity_step_owner:
  assumes "identity_step e s s'" "owner_inv org s"
  shows "owner_inv org s'"
  using assms(1)
proof cases
  case (login_failed input res)
  then show ?thesis
    by (auto simp: recordLoginFailure_def Let_def intro!: owner_inv_users [OF assms(2)] split: if_splits)
next
  case (session_created org' sinput audit sres)
  then show ?thesis
    by (auto simp: createUserSessionAndAudit_def Let_def intro!: owner_inv_users [OF assms(2)]
        split: option.splits if_splits with_audit_splits)
next
  case (session_revoked i org' token audit ures)
  then show ?thesis
    by (auto simp: revokeUserSessionAndAudit_def Let_def intro!: owner_inv_users [OF assms(2)]
        split: option.splits if_splits with_audit_splits)
next
  case (bootstrap_rotated i org' binput audit ores)
  have rot: "owner_inv org (rotated_store e i orgs n h s)" for orgs n h
    using assms(2) by (simp add: owner_inv_def memberships_unique_def rotated_store_users)
  from rotateBootstrap_cases [OF bootstrap_rotated] assms(2) show ?thesis
    by (auto intro: rot owner_inv_users [OF rot])
next
  case (password_rotated i hash sys ores)
  show ?thesis
  proof (cases "\<exists>v. ores = Inr (Done v)")
    case True
    with password_rotated obtain epoch where m: "memberships_mutated e i
        (\<lambda>u. u\<lparr>u_passwordHash := hash, u_authenticationEpoch := epoch\<rparr>) s s'"
      using rotateUserPassword_Done by blast
    show ?thesis using assms(2) owned_mutation [OF m] by (simp add: owner_inv_def memberships_unique_def)
  next
    case False
    with rotateUserPassword_unchanged [OF password_rotated] assms(2) show ?thesis by auto
  qed
next
  case (user_disabled i sys ores)
  show ?thesis
  proof (cases "\<exists>v. ores = Inr (Done v)")
    case True
    with user_disabled obtain v where d: "disableUserAndAudit e i sys s = (Inr (Done v), s')" by blast
    obtain epoch where m: "memberships_mutated e i
        (\<lambda>u. u\<lparr>u_authenticationEpoch := epoch, u_disabledAt := Some (now e)\<rparr>) s s'"
      using disableUser_Done(1) [OF d] by blast
    show ?thesis using assms(2) owned_mutation(1) [OF m] owned_disable [OF d]
      by (simp add: owner_inv_def memberships_unique_def)
  next
    case False
    with disableUser_unchanged [OF user_disabled] assms(2) show ?thesis by auto
  qed
next
  case (role_changed org' i r sys ures)
  from changeMembershipRole_cases [OF this] show ?thesis
  proof (elim disjE exE conjE)
    fix m assume "membership_mutated e org' i (update_where (is_membership org' i)
        (\<lambda>u. u\<lparr>u_role := r, u_authorizationEpoch := u_authorizationEpoch u + 1\<rparr>)) s s'" "ures = Inr (Done ())"
    then show ?thesis using assms(2) owned_change_role role_changed membership_mutated_users
      by (fastforce simp: owner_inv_def memberships_unique_def map_update_where)
  qed (use assms(2) in simp)
next
  case (membership_removed org' i sys ures)
  from removeMembership_cases [OF this] show ?thesis
  proof (elim disjE exE conjE)
    fix m assume "membership_mutated e org' i (filter (\<lambda>u. \<not> is_membership org' i u)) s s'" "ures = Inr (Done ())"
    then show ?thesis using assms(2) owned_remove_membership membership_removed membership_mutated_users
      by (fastforce simp: owner_inv_def memberships_unique_def distinct_map_filter)
  qed (use assms(2) in simp)
qed

text \<open>Only the identity operations touch the users and the login failures.\<close>

lemma store_step_users:
  assumes "store_step e s s'"
  shows "identity_step e s s' \<or> (users s' = users s \<and> loginFailures s' = loginFailures s)"
  using assms
proof cases
  case screen
  then show ?thesis by (simp add: screen_frame_fields [OF screen_step_frame])
next
  case device
  then show ?thesis by (simp add: device_frame_fields [OF device_step_frame])
next
  case content
  then show ?thesis by (simp add: content_frame_fields [OF content_step_frame])
next
  case emergency
  then show ?thesis by (auto dest: emergency_step_effect)
next
  case release
  then show ?thesis by (simp add: release_frame_fields [OF release_step_frame])
qed simp

interpretation ownership: step_invariant "\<lambda>H t D s. owner_inv org s" for org
  by unfold_locales (blast dest: store_step_users intro: identity_step_owner owner_inv_users)

lemma identity_step_failures:
  assumes "identity_step e s s'"
  shows "(\<exists>input res. recordLoginFailure e input s = (res, s')) \<or> loginFailures s' = loginFailures s"
  using assms
proof cases
  case (session_created org' sinput audit sres)
  then show ?thesis
    by (auto simp: createUserSessionAndAudit_def Let_def split: option.splits if_splits with_audit_splits)
next
  case (session_revoked i org' token audit ures)
  then show ?thesis
    by (auto simp: revokeUserSessionAndAudit_def Let_def split: option.splits if_splits with_audit_splits)
next
  case (bootstrap_rotated i org' binput audit ores)
  from rotateBootstrap_cases [OF this] show ?thesis
    by (auto simp: rotated_store_def revokePendingIssuerGrants_def)
next
  case (password_rotated i hash sys ores)
  from rotateUserPassword_unchanged [OF this] password_rotated show ?thesis
    by (auto dest!: rotateUserPassword_Done simp: memberships_mutated_def revokePendingIssuerGrants_def)
next
  case (user_disabled i sys ores)
  from disableUser_unchanged [OF this] user_disabled show ?thesis
    by (auto dest!: disableUser_Done(1) simp: memberships_mutated_def revokePendingIssuerGrants_def)
next
  case (role_changed org' i r sys ures)
  from changeMembershipRole_cases [OF this] show ?thesis
    by (auto simp: membership_mutated_def revokePendingIssuerGrants_def)
next
  case (membership_removed org' i sys ures)
  from removeMembership_cases [OF this] show ?thesis
    by (auto simp: membership_mutated_def revokePendingIssuerGrants_def)
qed blast

interpretation login_failures:
  store_invariant "\<lambda>H t D s. length (loginFailures s) \<le> LOGIN_FAILURE_MAX_RECORDS"
proof unfold_locales
  fix H t D s e s'
  assume "length (loginFailures s) \<le> LOGIN_FAILURE_MAX_RECORDS" "store_step e s s'"
  then show "length (loginFailures s') \<le> LOGIN_FAILURE_MAX_RECORDS"
    using store_step_users identity_step_failures recordLoginFailure_bounded by metis
qed (simp add: start_store_def empty_store_def)

section \<open>Locations\<close>

definition location_inv :: "string set \<Rightarrow> store \<Rightarrow> bool" where
  "location_inv D s \<longleftrightarrow> locations_unique s \<and> lo_id ` set (locations s) \<subseteq> D"

lemma screen_step_locations:
  assumes "screen_step e s s'" "location_inv D s" "\<And>k. new_id e k \<notin> D"
  shows "location_inv (D \<union> range (new_id e)) s'"
  using assms(1)
proof cases
  case (location_created org name audit lres)
  have "new_id e 0 \<notin> lo_id ` set (locations s)" using assms(2,3) by (auto simp: location_inv_def)
  moreover have "lo_id l \<in> D" if "l \<in> set (locations s)" for l
    using assms(2) that by (auto simp: location_inv_def)
  ultimately show ?thesis using location_created assms(2)
    by (auto simp: createLocationAndAudit_def location_inv_def locations_unique_def list_ex_iff Let_def
        split: split_cases)
next
  case (location_updated org i name audit lres)
  have "map lo_id (locations s') = map lo_id (locations s)"
    using location_updated by (auto simp: updateLocationAndAudit_def map_update_first split: split_cases)
  from arg_cong [OF this, of set]
  have "lo_id ` set (locations s') = lo_id ` set (locations s)" by simp
  with updateLocation_unique [OF location_updated] assms(2) show ?thesis
    by (auto simp: location_inv_def)
next
  case (location_deleted org i audit ures)
  then show ?thesis using assms(2)
    by (auto simp: deleteLocationAndAudit_def location_inv_def locations_unique_def image_subset_iff
        distinct_map_remove_first dest!: in_remove_first split: split_cases)
next
  case (screen_created org data audit xres)
  then show ?thesis using assms(2)
    by (auto simp: createScreenAndAudit_def location_inv_def locations_unique_def Let_def split: split_cases)
next
  case (screen_updated org i patch audit xres)
  then show ?thesis using assms(2)
    by (auto simp: updateScreenAndAudit_def location_inv_def locations_unique_def Let_def split: split_cases)
next
  case (screen_deleted org i audit ures)
  then show ?thesis using assms(2)
    by (auto simp: deleteScreenAndAudit_def location_inv_def locations_unique_def split: split_cases)
next
  case (heartbeat i beat hres)
  then show ?thesis using assms(2)
    by (auto simp: heartbeat_def location_inv_def locations_unique_def split: split_cases)
qed

lemma location_inv_same:
  "location_inv D s \<Longrightarrow> locations s' = locations s \<Longrightarrow> location_inv (D \<union> E) s'"
  by (auto simp: location_inv_def locations_unique_def)

lemma store_step_locations:
  assumes "store_step e s s'"
  shows "screen_step e s s' \<or> locations s' = locations s"
  using assms
proof cases
  case identity
  then show ?thesis by (simp add: identity_frame_fields [OF identity_step_frame])
next
  case device
  then show ?thesis by (simp add: device_frame_fields [OF device_step_frame])
next
  case content
  then show ?thesis by (simp add: content_frame_fields [OF content_step_frame])
next
  case emergency
  then show ?thesis by (auto dest: emergency_step_effect)
next
  case release
  then show ?thesis by (simp add: release_frame_fields [OF release_step_frame])
qed simp

interpretation location_names: store_invariant "\<lambda>H t D s. location_inv D s"
proof unfold_locales
  fix H t D s e s'
  assume inv: "location_inv D s" and "step_env H t D e" "store_step e s s'"
  then show "location_inv (D \<union> range (new_id e)) s'"
    using store_step_locations screen_step_locations [OF _ inv] location_inv_same [OF inv]
    unfolding step_env_def by metis
qed (simp add: start_store_def empty_store_def location_inv_def locations_unique_def)

end
