(* ===== verification/Samples.thy ===== *)
theory Samples
  imports Store_Laws
begin

text \<open>
  One concrete organization, for the witnesses of the properties: ann (owner) uploads an asset,
  makes a playlist and a screen, drafts and submits a candidate; bob (admin) approves it; ann
  publishes it and withdraws it again.  Step \<open>n\<close> runs \<open>n\<close> seconds after
    the epoch.  The hash is
  constant, which no property excludes.
\<close>

section \<open>Surroundings and callers\<close>

definition sample_digest :: string where
  "sample_digest = replicate 64 CHR ''0''"

definition sample_env :: "nat \<Rightarrow> env" where
  "sample_env n = \<lparr>now = int n * 1000, new_id = (\<lambda>k. replicate n CHR ''i'' @ ''-'' @
    replicate k CHR ''k''),
     sha256 = (\<lambda>_. sample_digest), localeCompare = code_unit_compare, intl = (\<lambda>_.
       Some utc_fields),
     parse_url = (\<lambda>_. Some \<lparr>url_username = [], url_password = [], url_protocol =
       ''https:'',
       url_hostname = ''m'', url_origin = ''https://m''\<rparr>)\<rparr>"

definition sample_user :: "string \<Rightarrow> role \<Rightarrow> session_user" where
  "sample_user i r = \<lparr>u_id = i, u_email = i @ ''@x'', u_name = i, u_passwordHash = ''h'',
     u_organizationId = ''org'', u_role = r, u_authenticationEpoch = 0, u_authorizationEpoch = 0,
     u_membershipId = None, u_bootstrapPasswordExpiresAt = None, u_disabledAt = None\<rparr>"

definition sample_users :: "session_user list" where
  "sample_users = [sample_user ''ann'' OWNER, sample_user ''bob'' ADMIN]"

definition by_user :: "string \<Rightarrow> audit_context" where
  "by_user i = \<lparr>ac_actorUserId = i, ac_ipAddress = None, ac_requestId = None\<rparr>"

section \<open>An asset, a playlist and a screen\<close>

definition media0 :: media_data where
  "media0 = \<lparr>md_name = ''a'', md_kind = image_kind, md_mimeType = ''image/png'', md_url =
    ''https://m/a'',
     md_checksumSha256 = sample_digest, md_sizeBytes = 9, md_durationSeconds = None,
     md_expiresAt = None\<rparr>"

definition media1 :: media where
  "media1 = media_data.extend media0 (media.fields ''i-'' ''org'' (Some
    (''organizations/org/assets/i-/'' @ sample_digest)) 1000 1000)"

abbreviation op1 :: "(exn + media answer) \<times> store" where
  "op1 \<equiv> createMediaAndAudit (sample_env 1) ''org'' media0 (by_user ''ann'') (start_store
    sample_users)"

definition log1 :: "audit_record list" where
  "log1 = auditRecords (snd op1)"

definition store1 :: store where
  "store1 = empty_store\<lparr>users := sample_users, medias := [media1], auditRecords :=
    log1\<rparr>"

section \<open>Evaluation\<close>

lemmas text_eval = Let_def js_unique_def js_def assertBoundedString_def high_surrogate_def
  low_surrogate_def validateJsonValue.simps
  quote_json_def quote_unit_def assertAuditEventIntegrity_def is_json_object_def audit_limits
    user_event_def by_user_def
  buildAuditRecord_def immutableAuditRecord_def with_audit_def replicate_numeral sample_digest_def
    when_truthy_def
  audit_event.defs audit_record.defs

lemmas user_eval = activeActor_def findSessionUser_def sample_users_def sample_user_def
  start_store_def empty_store_def

lemma step1: "op1 = (Inr (Done media1), store1)"
  unfolding store1_def log1_def
  by (simp add: createMediaAndAudit_def text_eval user_eval new_media_def mediaStorageKey_def
    media1_def media.defs
   safe_segment_def is_sha256_hex_def is_digit_def is_lower_def is_upper_def media0_def
     is_lower_hex_def sample_env_def
   media_data.defs)

definition playlist0 :: playlist_data where
  "playlist0 = \<lparr>pl_name = ''p'', pl_description = [], pl_items =
     [\<lparr>pi_id = [], pi_assetId = ''i-'', pi_position = 0, pi_durationSeconds =
       5\<rparr>]\<rparr>"

definition playlist1 :: playlist where
  "playlist1 = \<lparr>pl_name = ''p'', pl_description = [], pl_items =
     [\<lparr>pi_id = ''ii-k'', pi_assetId = ''i-'', pi_position = 0, pi_durationSeconds =
       5\<rparr>], pl_id = ''ii-'',
     pl_organizationId = ''org'', pl_createdAt = 2000, pl_updatedAt = 2000\<rparr>"

abbreviation op2 :: "(exn + playlist answer) \<times> store" where
  "op2 \<equiv> createPlaylistAndAudit (sample_env 2) ''org'' playlist0 (by_user ''ann'') store1"

definition log2 :: "audit_record list" where
  "log2 = auditRecords (snd op2)"

definition store2 :: store where
  "store2 = empty_store\<lparr>users := sample_users, medias := [media1], playlists := [playlist1],
    auditRecords := log2\<rparr>"

lemma step2: "op2 = (Inr (Done playlist1), store2)"
  unfolding store2_def log2_def
  by (simp add: createPlaylistAndAudit_def text_eval user_eval new_playlist_def playlist0_def
    playlist1_def sample_env_def
   playlist_data.defs playlist.defs store1_def media1_def media_data.defs media.defs is_media_def
     media0_def)

definition screen0 :: screen_input where
  "screen0 = \<lparr>mi_name = ''s'', mi_location = [], mi_orientation = landscape, mi_resolution =
    ''1x1'',
     mi_tags = [], mi_locationId = None\<rparr>"

definition screen1 :: screen where
  "screen1 = new_screen ''iii-'' ''org'' screen0 [] 3000"

abbreviation op3 :: "(exn + screen answer) \<times> store" where
  "op3 \<equiv> createScreenAndAudit (sample_env 3) ''org'' screen0 (by_user ''ann'') store2"

definition log3 :: "audit_record list" where
  "log3 = auditRecords (snd op3)"

definition store3 :: store where
  "store3 = empty_store\<lparr>users := sample_users, medias := [media1], playlists := [playlist1],
    screens := [screen1], auditRecords := log3\<rparr>"

lemma step3: "op3 = (Inr (Done (publicScreen store2 screen1)), store3)"
  unfolding store3_def log3_def
  by (simp add: createScreenAndAudit_def text_eval user_eval new_screen_def screen0_def screen1_def
    sample_env_def
   store2_def known_location_def Let_def js_unique_def)

section \<open>A candidate\<close>

definition schedule0 :: schedule_input where
  "schedule0 = \<lparr>sw_endsAt = None, sw_timezone = ''UTC'', sw_daysOfWeek = [],
     sw_dailyStartMinutes = None, sw_dailyEndMinutes = None, fs_name = ''x'', fs_priority = normal,
     fs_startsAt = 0, fs_enabled = True, sd_playlistId = ''ii-'', sd_screenIds = [''iii-'']\<rparr>"

definition command :: "char \<Rightarrow> idempotency_input" where
  "command c = \<lparr>ii_keyHash = replicate 64 c, ii_requestDigestSha256 = sample_digest\<rparr>"

definition item1 :: frozen_item where
  "item1 = \<lparr>fi_id = ''ii-k'', fi_asset = freeze_asset media1, fi_position = 0,
    fi_durationSeconds = 5\<rparr>"

definition release1 :: release where
  "release1 = \<lparr>rl_id = ''iiii-'', rl_organizationId = ''org'', rl_sourcePlaylistId = ''ii-'',
     rl_sourcePlaylistUpdatedAt = 2000, rl_playlistName = ''p'', rl_playlistDescription = [],
     rl_digestSha256 = sample_digest, rl_items = [item1], rl_createdById = ''ann'', rl_createdAt =
       4000\<rparr>"

definition draft1 :: release_candidate where
  "draft1 = \<lparr>cd_id = ''iiii-k'', cd_organizationId = ''org'', cd_releaseId = ''iiii-'',
     cd_releaseDigestSha256 = sample_digest, cd_sourcePlaylistId = ''ii-'', cd_state = DRAFT,
     cd_digestSha256 = sample_digest, cd_authorUserId = ''ann'', cd_items = [item1],
     cd_schedule = frozen_of schedule0, cd_screenIds = [''iii-''], cd_policyVersion = 1,
     cd_expiresAt = 100000, cd_submittedAt = None, cd_approvedAt = None, cd_publishedAt = None,
     cd_scheduleId = None, cd_assignmentId = None, cd_approval = None, cd_createdAt = 4000\<rparr>"

definition remembered_as :: "nat \<Rightarrow> candidate_operation \<Rightarrow> string
  \<Rightarrow> char \<Rightarrow> release_candidate \<Rightarrow> candidate_idempotency" where
  "remembered_as n op u c r = \<lparr>ci_organizationId = ''org'', ci_operation = op, ci_keyHash =
    replicate 64 c,
     ci_actorUserId = u, ci_requestDigestSha256 = sample_digest,
     ci_expiresAt = int n * 1000 + CANDIDATE_RESPONSE_RETENTION_MS, ci_response = Some r\<rparr>"

abbreviation op4 :: "(exn + candidate_result) \<times> store" where
  "op4 \<equiv> createReleaseCandidateAndAudit (sample_env 4) ''org'' schedule0 100000
  (by_user ''ann'') [''https://m''] (command CHR ''1'') store3"

lemma built: "assertAuditEventIntegrity ev = None \<Longrightarrow>
    with_audit e k ev s f = f (audit_event.extend ev (audit_record.fields (new_id e k) (now e)))"
  by (simp add: with_audit_def buildAuditRecord_def immutableAuditRecord_def)

definition record4 :: audit_record where
  "record4 = audit_event.extend (created_event ''org'' (by_user ''ann'') draft1)
    (audit_record.fields ''iiii-kk'' 4000)"

definition store4 :: store where
  "store4 = store3\<lparr>releases := [release1], releaseCandidates := [draft1],
    candidateIdempotency := [remembered_as 4 Op_create ''ann'' CHR ''1'' draft1], auditRecords :=
      log3 @ [record4]\<rparr>"

lemmas guard_eval = candidate_guard_def command_def is_sha256_hex_def is_lower_hex_def is_digit_def
  actor_can_def candidateActor_def hasCapability_def releaseCandidateReplay_def is_idempotency_def

lemmas remember_eval =
  rememberReleaseCandidate_def remembered_as_def CANDIDATE_RESPONSE_RETENTION_MS_def

lemmas digest_eval = hasValidCandidateDigest_def releaseCandidateDigest_def
  hasValidStoredReleaseDigest_def releaseSnapshotDigest_def
  hasValidStoredAssignmentDigest_def assignmentSnapshotDigest_def

lemma guard4: "candidate_guard (sample_env 4) ''org'' Op_create releaseCandidateCreate [] (by_user
  ''ann'') (command CHR ''1'') store3 k = k"
  by (simp add: guard_eval text_eval user_eval store3_def)

lemma prune4: "prune_candidates (sample_env 4) ''org'' (by_user ''ann'') store3 = (Inr 0, store3)"
  by (simp add: prune_candidates_def expired_candidates_def store3_def empty_store_def sort_by_def)

definition snapshot1 :: release_snapshot where
  "snapshot1 = \<lparr>rs_sourcePlaylistId = ''ii-'', rs_sourcePlaylistUpdatedAt = 2000,
    rs_playlistName = ''p'',
     rs_playlistDescription = [], rs_items = [item1]\<rparr>"

lemma snapshot4: "candidate_snapshot_of (sample_env 4) ''org'' schedule0 [''https://m''] store3 =
  Inr snapshot1"
  by (simp add: candidate_snapshot_of_def canonical_screen_ids_def schedule0_def
    candidate_limit_reached_def open_candidates_def
    js_unique_def store3_def empty_store_def is_playlist_def playlist1_def screens_known_def
      is_screen_def screen1_def new_screen_def
    assets_of_def map_filter_simps is_media_def media1_def media_data.defs media.defs
      media_allowed_def mediaUrlMatchesAllowedOrigin_def
    sample_env_def hasMediaUrlCredentials_def usesAllowedMediaScheme_def
      mediaPublicationFailure_def media0_def policy_of_media_def
    asset_supported_def isSupportedMedia_def MAX_SAFE_INTEGER_def MEDIA_MAX_ASSET_BYTES_def
      is_sha256_hex_any_case_def sample_digest_def
    replicate_numeral is_any_hex_def is_lower_hex_def is_digit_def asset_expired_def
      MEDIA_MAX_RELEASE_BYTES_def
    canonicalReleaseSnapshot_def asset_by_id_def snapshot1_def item1_def sort_by_def
      freeze_asset_def toLowerCase_def lower_char_def Let_def)

lemma event4: "assertAuditEventIntegrity (created_event ''org'' (by_user ''ann'') draft1) = None"
  by (simp add: created_event_def draft1_def text_eval unavailableAuthorizationShadow_def)

lemma env_simps [simp]: "now (sample_env n) = int n * 1000" "sha256 (sample_env n) u =
  sample_digest"
  "localeCompare (sample_env n) = code_unit_compare" "intl (sample_env n) z = Some utc_fields"
  by (simp_all add: sample_env_def)

lemma ids: "new_id (sample_env n) k = replicate n CHR ''i'' @ ''-'' @ replicate k CHR ''k''"
  by (simp add: sample_env_def)

lemma nothing_compacted:
  assumes "\<forall>r \<in> set (candidateIdempotency s). ci_expiresAt r > now e"
    "idempotencyRecords s = []"
  shows "compactExpiredIdempotencyResponses e s = s"
proof -
  have "update_where (\<lambda>r. r \<in> set (batch (by_expiry e ci_expiresAt ci_keyHash)
      (\<lambda>r. ci_response r \<noteq> None \<and> ci_expiresAt r \<le> now e)
        (candidateIdempotency s))) (ci_response_update Map.empty)
      (candidateIdempotency s) = candidateIdempotency s"
    using assms unfolding update_where_def batch_def by (intro map_idI) (auto dest!: in_set_takeD)
  then show ?thesis using assms by (simp add: compactExpiredIdempotencyResponses_def
    update_where_def)
qed

lemma step4: "op4 = (Inr (Completed draft1 False), store4)"
proof -
  have d: "new_candidate (sample_env 4) ''iiii-k'' ''org'' schedule0 100000 ''ann'' release1
    snapshot1 = draft1"
    by (simp add: new_candidate_def draft1_def digest_eval schedule0_def frozen_of_def
      canonicalReleaseCandidateSnapshot_def
     canonical_schedule_def canonical_screen_ids_def js_unique_def snapshot1_def release1_def)
  have r: "release_of_snapshot (sample_env 4) ''iiii-'' ''org'' ''ann'' snapshot1 = release1"
    by (simp add: release_of_snapshot_def release1_def snapshot1_def digest_eval)
  have i: "new_id (sample_env 4) 0 = ''iiii-''" "new_id (sample_env 4) (Suc 0) = ''iiii-k''"
    "new_id (sample_env 4) (Suc (Suc 0)) = ''iiii-kk''"
    by (simp_all add: ids replicate_numeral)
  have store: "store_candidate (sample_env 4) 0 ''org'' schedule0 100000 (by_user ''ann'') (command
    CHR ''1'') snapshot1 store3
     = (Inr (Completed draft1 False), store4)"
    using event4
    by (simp add: store_candidate_def store3_def empty_store_def i by_user_def r d Let_def built
     store4_def nothing_compacted remember_eval record4_def command_def)
  show ?thesis
    by (simp add: createReleaseCandidateAndAudit_def guard4 prune4 snapshot4 store)
qed

section \<open>Submission, approval and publication\<close>

definition review1 :: release_candidate where
  "review1 = draft1\<lparr>cd_state := IN_REVIEW, cd_submittedAt := Some 5000\<rparr>"

definition approved1 :: release_candidate where
  "approved1 = review1\<lparr>cd_state := APPROVED, cd_approvedAt := Some 6000, cd_approval := Some
     \<lparr>ap_id = ''iiiiii-'', ap_organizationId = ''org'', ap_candidateId = ''iiii-k'',
      ap_candidateDigestSha256 = sample_digest, ap_approverUserId = ''bob'',
      ap_authenticationEpoch = 0, ap_authorizationEpoch = 0, ap_approvedAt = 6000\<rparr>\<rparr>"

definition published1 :: release_candidate where
  "published1 = approved1\<lparr>cd_state := PUBLISHED, cd_publishedAt := Some 7000,
     cd_scheduleId := Some ''iiiiiii-'', cd_assignmentId := Some ''iiiiiii-k''\<rparr>"

definition assignment1 :: assignment where
  "assignment1 = new_assignment (sample_env 7) ''org'' ''iiiiiii-k'' ''iiiiiii-'' approved1 ''ann''"

definition schedule1 :: schedule where
  "schedule1 = published_schedule (sample_env 7) ''org'' ''iiiiiii-'' ''iiiiiii-k'' approved1"

definition candidate_record :: "nat \<Rightarrow> nat \<Rightarrow> string \<Rightarrow> string
  \<Rightarrow> audit_record" where
  "candidate_record n k u action = audit_event.extend (user_event ''org'' (by_user u) action
    ''release_candidate''
     (Some ''iiii-k'') [(js ''digestSha256'', jstr sample_digest)])
     (audit_record.fields (new_id (sample_env n) k) (int n * 1000))"

definition store5 :: store where
  "store5 = store4\<lparr>releaseCandidates := [review1], candidateIdempotency :=
    candidateIdempotency store4 @
     [remembered_as 5 Op_submit ''ann'' CHR ''2'' review1], auditRecords := auditRecords store4 @
     [candidate_record 5 0 ''ann'' ''release.candidate.submitted'']\<rparr>"

definition store6 :: store where
  "store6 = store5\<lparr>releaseCandidates := [approved1], candidateIdempotency :=
    candidateIdempotency store5 @
     [remembered_as 6 Op_approve ''bob'' CHR ''3'' approved1], auditRecords := auditRecords store5 @
     [candidate_record 6 1 ''bob'' ''release.candidate.approved'']\<rparr>"

definition store7 :: store where
  "store7 = store6\<lparr>releaseCandidates := [published1], schedules := [schedule1],
    releaseAssignments := [assignment1],
     candidateIdempotency := candidateIdempotency store6 @
     [remembered_as 7 Op_publish ''ann'' CHR ''4'' published1], auditRecords := auditRecords store6
       @
     [audit_event.extend (candidate_published_event ''org'' (by_user ''ann'') approved1
       assignment1) (audit_record.fields ''iiiiiii-kk'' 7000),
      audit_event.extend (release_published_event ''org'' (by_user ''ann'') approved1 assignment1)
        (audit_record.fields ''iiiiiii-kkk'' 7000)]\<rparr>"

lemma candidate_events:
  "assertAuditEventIntegrity (user_event ''org'' (by_user ''ann'') ''release.candidate.submitted''
    ''release_candidate''
     (Some ''iiii-k'') [(js ''digestSha256'', jstr sample_digest)]) = None"
  "assertAuditEventIntegrity (user_event ''org'' (by_user ''bob'') ''release.candidate.approved''
    ''release_candidate''
     (Some ''iiii-k'') [(js ''digestSha256'', jstr sample_digest)]) = None"
  by (simp_all add: text_eval)

lemma publication_events:
  "assertAuditEventIntegrity (candidate_published_event ''org'' (by_user ''ann'') approved1
    assignment1) = None"
  "assertAuditEventIntegrity (release_published_event ''org'' (by_user ''ann'') approved1
    assignment1) = None"
  by (simp_all add: text_eval candidate_published_event_def release_published_event_def
    published_metadata_def
      approved1_def review1_def draft1_def assignment1_def new_assignment_def digest_eval)

lemma step5: "submitReleaseCandidateAndAudit (sample_env 5) ''org'' ''iiii-k'' sample_digest
  (by_user ''ann'') (command CHR ''2'') store4
  = (Inr (Completed review1 False), store5)"
proof -
  have g: "candidate_guard (sample_env 5) ''org'' Op_submit releaseCandidateSubmit [sample_digest]
    (by_user ''ann'') (command CHR ''2'') store4 k = k" for k
    by (simp add: guard_eval text_eval user_eval store4_def store3_def remembered_as_def)
  have c: "candidate_for (sample_env 5) ''org'' ''iiii-k'' sample_digest store4 = Inr draft1"
    by (simp add: candidate_for_def store4_def is_candidate_def draft1_def digest_eval)
  have t: "transitioned (sample_env 5) ''org'' Op_submit (by_user ''ann'') store4 draft1 = Inr
    review1"
    by (simp add: transitioned_def submitted_candidate_def draft1_def by_user_def review1_def)
  have i: "is_candidate ''org'' ''iiii-k'' draft1" "cd_id draft1 = ''iiii-k''" "cd_digestSha256
    draft1 = sample_digest"
    by (simp_all add: is_candidate_def draft1_def)
  show ?thesis
    unfolding submitReleaseCandidateAndAudit_def transitionReleaseCandidate_def
    using candidate_events
    apply (simp add: g c t i built)
    apply (simp add: store5_def store4_def store3_def empty_store_def nothing_compacted
      remember_eval candidate_record_def
      command_def by_user_def i)
    done
qed

lemma step6: "approveReleaseCandidateAndAudit (sample_env 6) ''org'' ''iiii-k'' sample_digest
  (by_user ''bob'') (command CHR ''3'') store5
  = (Inr (Completed approved1 False), store6)"
proof -
  have g: "candidate_guard (sample_env 6) ''org'' Op_approve releaseApprove [sample_digest]
    (by_user ''bob'') (command CHR ''3'') store5 k = k" for k
    by (simp add: guard_eval text_eval user_eval store5_def store4_def store3_def remembered_as_def)
  have c: "candidate_for (sample_env 6) ''org'' ''iiii-k'' sample_digest store5 = Inr review1"
    by (simp add: candidate_for_def store5_def is_candidate_def review1_def draft1_def digest_eval)
  have t: "transitioned (sample_env 6) ''org'' Op_approve (by_user ''bob'') store5 review1 = Inr
    approved1"
    by (simp add: transitioned_def approved_candidate_def candidateActor_def user_eval store5_def
      store4_def store3_def by_user_def review1_def draft1_def
     approved1_def ids replicate_numeral)
  have i: "is_candidate ''org'' ''iiii-k'' review1" "cd_id review1 = ''iiii-k''" "cd_digestSha256
    review1 = sample_digest"
    by (simp_all add: is_candidate_def review1_def draft1_def)
  show ?thesis
    unfolding approveReleaseCandidateAndAudit_def transitionReleaseCandidate_def
    using candidate_events
    by (simp add: g c t i built)
      (simp add: store6_def store5_def store4_def store3_def empty_store_def nothing_compacted
        remember_eval candidate_record_def
      command_def by_user_def i)
qed

lemma store6_fields:
  "releases store6 = [release1]" "screens store6 = [screen1]" "users store6 = sample_users"
    "releaseCandidates store6 = [approved1]"
  "schedules store6 = []" "releaseAssignments store6 = []" "idempotencyRecords store6 = []"
  "candidateIdempotency store6 = [remembered_as 4 Op_create ''ann'' CHR ''1'' draft1, remembered_as
    5 Op_submit ''ann'' CHR ''2'' review1,
     remembered_as 6 Op_approve ''bob'' CHR ''3'' approved1]"
  by (simp_all add: store6_def store5_def store4_def store3_def empty_store_def)

lemma release1_allowed:
  "media_allowed (sample_env n) [''https://m''] [fa_url (fi_asset item1)]"
  "mediaPublicationFailure [policy_of_frozen (fi_asset item1)] t = None"
  by (simp_all add: item1_def freeze_asset_def media1_def media0_def media_data.defs media.defs
    media_allowed_def mediaUrlMatchesAllowedOrigin_def sample_env_def hasMediaUrlCredentials_def
      usesAllowedMediaScheme_def
    mediaPublicationFailure_def policy_of_frozen_def
    asset_supported_def isSupportedMedia_def MAX_SAFE_INTEGER_def MEDIA_MAX_ASSET_BYTES_def
      is_sha256_hex_any_case_def sample_digest_def
    replicate_numeral is_any_hex_def is_lower_hex_def is_digit_def asset_expired_def
      MEDIA_MAX_RELEASE_BYTES_def toLowerCase_def lower_char_def)

lemma step7: "publishReleaseCandidateAndAudit (sample_env 7) ''org'' ''iiii-k'' sample_digest
  (by_user ''ann'') [''https://m''] (command CHR ''4'') store6
  = (Inr (Completed published1 False), store7)"
proof -
  have a: "cd_releaseId approved1 = ''iiii-''" "cd_releaseDigestSha256 approved1 = sample_digest"
    "cd_screenIds approved1 = [''iii-'']"
    "cd_id approved1 = ''iiii-k''" "is_candidate ''org'' ''iiii-k'' approved1"
    by (simp_all add: approved1_def review1_def draft1_def is_candidate_def)
  have b: "is_release ''org'' ''iiii-'' release1" "rl_digestSha256 release1 = sample_digest"
    "rl_items release1 = [item1]"
     "is_screen ''org'' ''iii-'' screen1"
    by (simp_all add: release1_def is_release_def is_screen_def screen1_def new_screen_def)
  have g: "candidate_guard (sample_env 7) ''org'' Op_publish releasePublish [sample_digest]
    (by_user ''ann'') (command CHR ''4'') store6 k = k" for k
    by (simp add: guard_eval text_eval user_eval store6_fields remembered_as_def)
  have c: "candidate_for (sample_env 7) ''org'' ''iiii-k'' sample_digest store6 = Inr approved1"
    by (simp add: candidate_for_def store6_fields is_candidate_def approved1_def review1_def
      draft1_def digest_eval)
  have f: "approval_failure store6 ''org'' approved1 = None"
    by (simp add: approval_failure_def approved1_def review1_def draft1_def candidateActor_def
      user_eval store6_fields hasCapability_def)
  have r: "publishable_release (sample_env 7) ''org'' [''https://m''] approved1 store6 = Inr
    release1"
    by (simp add: publishable_release_def f a b store6_fields digest_eval release1_allowed
      screens_known_def)
  have i: "new_id (sample_env 7) 0 = ''iiiiiii-''" "new_id (sample_env 7) (Suc 0) = ''iiiiiii-k''"
    "new_id (sample_env 7) 2 = ''iiiiiii-kk''" "new_id (sample_env 7) 3 = ''iiiiiii-kkk''"
    by (simp_all add: ids replicate_numeral)
  have p: "publish_candidate (sample_env 7) ''org'' ''iiii-k'' (by_user ''ann'') (command CHR
    ''4'') approved1 store6
    = (Inr (Completed published1 False), store7)"
    using publication_events
    unfolding assignment1_def by_user_def
    by (simp add: publish_candidate_def i built Let_def)
      (simp add: published1_def schedule1_def assignment1_def by_user_def store7_def store6_fields
        nothing_compacted remember_eval command_def a)
  show ?thesis
    by (simp add: publishReleaseCandidateAndAudit_def g c r p)
qed

section \<open>Delivery and withdrawal\<close>

text \<open>What the screen is served a second later, and the withdrawal after that.\<close>

lemma store7_fields:
  "releases store7 = [release1]" "users store7 = sample_users"
  "schedules store7 = [schedule1]" "releaseAssignments store7 = [assignment1]"
  by (simp_all add: store6_fields store7_def)

lemma schedule1_fields: "sd_id schedule1 = ''iiiiiii-''" "sd_organizationId schedule1 = ''org''"
  "sd_releaseId schedule1 = Some ''iiii-''"
  by (simp_all add: schedule1_def published_schedule_def approved1_def review1_def draft1_def
    Let_def)

lemma assignment1_fields: "ra_id assignment1 = ''iiiiiii-k''" "ra_scheduleId assignment1 =
  ''iiiiiii-''" "ra_organizationId assignment1 = ''org''" "ra_state assignment1 = ASSIGNED"
  "ra_screenIds assignment1 = [''iii-'']" "ra_releaseId assignment1 = ''iiii-''" "ra_digestSha256
    assignment1 = sample_digest"
  "ra_schedule assignment1 = frozen_of schedule0"
  by (simp_all add: assignment1_def new_assignment_def approved1_def review1_def draft1_def
    digest_eval)

lemma schedule0_open: "matchesScheduleWindow (sample_env n) (frozen_of schedule0) t = Inr True"
  by (simp add: matchesScheduleWindow_def schedule0_def frozen_of_def utc_fields_def Let_def
    after_daily_start_def before_daily_end_def
      split: prod.splits)

lemma schedule0_term: "in_term (frozen_of schedule0) 8000"
  by (simp add: in_term_def schedule0_def frozen_of_def)

lemma served7: "activeOrdinaryReleases (sample_env n) store7 ''org'' ''iii-'' 8000 = Inr
  [(release1, assignment1)]"
  by (simp add: activeOrdinaryReleases_def store7_fields active_release_def schedule1_fields
    latestAssignment_def assignment1_fields
    schedule0_term schedule0_open is_release_def release1_def digest_eval)

definition withdrawal1 :: assignment where
  "withdrawal1 = withdrawal (sample_env 9) ''org'' ''iiii-'' ''iiiiiii-'' assignment1 release1
    ''ann''"

definition store9 :: store where
  "store9 = store7\<lparr>releaseAssignments := [assignment1, withdrawal1], auditRecords :=
    auditRecords store7 @
     [audit_event.extend (withdrawn_event ''org'' (by_user ''ann'') assignment1 withdrawal1)
       (audit_record.fields ''iiiiiiiii-k'' 9000)]\<rparr>"

lemma withdrawn_event_ok: "assertAuditEventIntegrity (withdrawn_event ''org'' (by_user ''ann'')
  assignment1 withdrawal1) = None"
  by (simp add: withdrawn_event_def text_eval withdrawal1_def withdrawal_def assignment1_fields ids)

lemma step9: "withdrawScheduleAndAudit (sample_env 9) ''org'' ''iiiiiii-'' (by_user ''ann'') store7
  = (Inr (Done withdrawal1), store9)"
proof -
  have c: "actor_can store7 ''org'' ''ann'' releaseWithdraw"
    by (simp add: actor_can_def candidateActor_def user_eval store7_fields hasCapability_def)
  have u: "ac_actorUserId (by_user ''ann'') = ''ann''" by (simp add: by_user_def)
  have r: "is_release ''org'' ''iiii-'' release1" by (simp add: is_release_def release1_def)
  have l: "latestAssignment store7 ''iiiiiii-'' = Some assignment1"
    by (simp add: latestAssignment_def store7_fields assignment1_fields)
  have i: "new_id (sample_env 9) (Suc 0) = ''iiiiiiiii-k''" by (simp add: ids replicate_numeral)
  show ?thesis using withdrawn_event_ok
    by (simp add: withdrawScheduleAndAudit_def c store7_fields schedule1_fields when_truthy_def l
      assignment1_fields r
      u flip: withdrawal1_def)
     (simp add: built i store9_def store7_fields)
qed

section \<open>All of it is a run\<close>

definition drawn :: "nat \<Rightarrow> string set" where
  "drawn n = {replicate m CHR ''i'' @ ''-'' @ replicate k CHR ''k'' | m k. m \<le> n}"

lemma takeWhile_id: "takeWhile (\<lambda>c. c = CHR ''i'') (replicate m CHR ''i'' @ ''-'' @ r) =
  replicate m CHR ''i''"
  by (induction m) auto

lemma sample_step_env:
  assumes "D \<subseteq> drawn m" "m < n" "t \<le> int n * 1000"
  shows "step_env (\<lambda>_. sample_digest) t D (sample_env n)"
proof -
  have "new_id (sample_env n) k \<notin> drawn m" for k
  proof
    assume "new_id (sample_env n) k \<in> drawn m"
    then obtain m' k' where "m' \<le> m" "replicate n CHR ''i'' @ ''-'' @ replicate k CHR ''k'' =
       replicate m' CHR ''i'' @ ''-'' @ replicate k' CHR ''k''"
      by (auto simp: drawn_def ids)
    with arg_cong [OF this(2), of "takeWhile (\<lambda>c. c = CHR ''i'')"] assms(2) show False
      unfolding takeWhile_id by (metis length_replicate leD)
  qed
  with assms show ?thesis by (auto simp: step_env_def sample_env_def)
qed

definition sample_reachable :: "nat \<Rightarrow> store \<Rightarrow> bool" where
  "sample_reachable n s \<longleftrightarrow> (\<exists>D \<subseteq> drawn n. reachable
    (\<lambda>_. sample_digest) sample_users (int n * 1000) D s)"

lemma sample_start: "sample_reachable 0 (start_store sample_users)"
  unfolding sample_reachable_def using reachable_start by force

lemma sample_reachable_step:
  assumes "sample_reachable m s" "m < n" "store_step (sample_env n) s s'"
  shows "sample_reachable n s'"
proof -
  obtain D where D: "D \<subseteq> drawn m" "reachable (\<lambda>_. sample_digest) sample_users
    (int m * 1000) D s"
    using assms(1) unfolding sample_reachable_def by blast
  have "step_env (\<lambda>_. sample_digest) (int m * 1000) D (sample_env n)"
    using sample_step_env [OF D(1) assms(2)] assms(2) by simp
  from reachable_step [OF D(2) this assms(3)]
  have "reachable (\<lambda>_. sample_digest) sample_users (int n * 1000) (D \<union> range (new_id
    (sample_env n))) s'"
    by simp
  moreover have "D \<union> range (new_id (sample_env n)) \<subseteq> drawn n"
    using D(1) assms(2) by (force simp: drawn_def ids)
  ultimately show ?thesis unfolding sample_reachable_def by blast
qed

lemmas store_steps = store_step.intros identity_step.intros screen_step.intros device_step.intros
  content_step.intros release_step.intros

lemma sample_run:
  "sample_reachable 4 store4" "sample_reachable 6 store6" "sample_reachable 7 store7"
    "sample_reachable 9 store9"
proof -
  have "sample_reachable 1 store1"
    using sample_reachable_step [OF sample_start _ store_step.content [OF
      content_step.media_created [OF step1]]] by simp
  from sample_reachable_step [OF this _ store_step.content [OF content_step.playlist_created [OF
    step2]]]
  have "sample_reachable 2 store2" by simp
  from sample_reachable_step [OF this _ store_step.screen [OF screen_step.screen_created [OF
    step3]]]
  have "sample_reachable 3 store3" by simp
  from sample_reachable_step [OF this _ store_step.release [OF release_step.candidate_created [OF
    step4]]]
  show 4: "sample_reachable 4 store4" by simp
  from sample_reachable_step [OF this _ store_step.release [OF release_step.candidate_submitted [OF
    step5]]]
  have "sample_reachable 5 store5" by simp
  from sample_reachable_step [OF this _ store_step.release [OF release_step.candidate_approved [OF
    step6]]]
  show 6: "sample_reachable 6 store6" by simp
  from sample_reachable_step [OF this _ store_step.release [OF release_step.candidate_published [OF
    step7]]]
  show 7: "sample_reachable 7 store7" by simp
  from sample_reachable_step [OF this _ store_step.release [OF release_step.schedule_withdrawn [OF
    step9]]]
  show "sample_reachable 9 store9" by simp
qed

lemma sample_reach:
  assumes "sample_reachable n s"
  obtains D where "reachable (\<lambda>_. sample_digest) sample_users (int n * 1000) D s" "D \<subseteq> drawn n"
  using assms unfolding sample_reachable_def by blast

end
