(* ===== verification/Retries.thy ===== *)
theory Retries
  imports Store_Laws
begin

text \<open>
  A client that sends a candidate command again, because the first answer was lost, gets the
  first answer again: \<open>candidate_guard\<close> finds the response that \<open>rememberReleaseCandidate\<close> kept.
\<close>

section \<open>The store a completed command leaves\<close>

definition settled ::
  "env \<Rightarrow> string \<Rightarrow> candidate_operation \<Rightarrow> audit_context \<Rightarrow> idempotency_input \<Rightarrow> release_candidate
    \<Rightarrow> store \<Rightarrow> store \<Rightarrow> bool" where
  "settled e org op audit idem c s s' \<longleftrightarrow> (\<exists>s1. users s1 = users s \<and>
     candidateIdempotency s1 = candidateIdempotency s \<and>
     s' = compactExpiredIdempotencyResponses e (rememberReleaseCandidate e org op audit idem c s1))"

lemma settledI:
  "users s1 = users s \<Longrightarrow> candidateIdempotency s1 = candidateIdempotency s \<Longrightarrow>
    settled e org op audit idem c s
      (compactExpiredIdempotencyResponses e (rememberReleaseCandidate e org op audit idem c s1))"
  unfolding settled_def by blast

lemma transition_settled:
  assumes "transitionReleaseCandidate e org op i d audit idem s = (Inr (Completed c False), s')"
  shows "settled e org op audit idem c s s'"
  using transition_cases [OF assms] by (elim disjE exE conjE) (simp_all add: settledI)

lemma publish_settled:
  assumes "publishReleaseCandidateAndAudit e org i d audit origins idem s = (Inr (Completed c False), s')"
  shows "settled e org Op_publish audit idem c s s'"
  using publish_cases [OF assms] by (elim disjE exE conjE) (simp_all add: settledI)

lemma create_settled:
  assumes "createReleaseCandidateAndAudit e org data t audit origins idem s = (Inr (Completed c False), s')"
  shows "settled e org Op_create audit idem c s s'"
  using create_cases [OF assms]
proof (elim disjE exE conjE)
  fix pres s1 k snapshot
  assume p: "prune_candidates e org audit s = (pres, s1)"
    and "store_candidate e k org data t audit idem snapshot s1 = (Inr (Completed c False), s')"
  with store_candidate_cases obtain rels where "candidate_stored e org audit idem rels c s1 s'" by fastforce
  moreover have "users s1 = users s" "candidateIdempotency s1 = candidateIdempotency s"
    using release_frame_fields(1) [OF prune_release_frame [OF p]] prune_idempotency [OF p] by simp_all
  ultimately show ?thesis by (elim candidate_stored_def [THEN iffD1, THEN exE]) (simp add: settledI)
qed simp_all

section \<open>The second call\<close>

lemma remembered_first:
  assumes "settled e org op audit idem c s s'"
    and "List.find (is_idempotency org op (ii_keyHash idem)) (candidateIdempotency s) = None"
  shows "\<exists>r. List.find (is_idempotency org op (ii_keyHash idem)) (candidateIdempotency s') = Some r \<and>
    ci_actorUserId r = ac_actorUserId audit \<and> ci_requestDigestSha256 r = ii_requestDigestSha256 idem \<and>
    ci_expiresAt r = now e + CANDIDATE_RESPONSE_RETENTION_MS \<and> ci_response r = Some c"
proof -
  let ?P = "is_idempotency org op (ii_keyHash idem)"
  let ?new = "\<lparr>ci_organizationId = org, ci_operation = op, ci_keyHash = ii_keyHash idem,
    ci_actorUserId = ac_actorUserId audit, ci_requestDigestSha256 = ii_requestDigestSha256 idem,
    ci_expiresAt = now e + CANDIDATE_RESPONSE_RETENTION_MS, ci_response = Some c\<rparr>"
  let ?old = "batch (by_expiry e ci_expiresAt ci_keyHash)
    (\<lambda>r. ci_response r \<noteq> None \<and> ci_expiresAt r \<le> now e) (candidateIdempotency s @ [?new])"
  have kept: "?new \<notin> set ?old"
    by (auto simp: batch_def CANDIDATE_RESPONSE_RETENTION_MS_def dest!: in_set_takeD)
  have "candidateIdempotency s' =
      update_where (\<lambda>r. r \<in> set ?old) (\<lambda>r. r\<lparr>ci_response := None\<rparr>) (candidateIdempotency s @ [?new])"
    using assms(1) by (auto simp: settled_def compactExpiredIdempotencyResponses_def rememberReleaseCandidate_def Let_def)
  then have "List.find ?P (candidateIdempotency s') = Some ?new"
    using assms(2) kept by (simp add: find_update_where_same is_idempotency_def find_append)
  then show ?thesis by auto
qed

lemma retried_guard:
  assumes guard: "candidate_guard e org op cap hs audit idem s k = (Inr (Completed c False), s')"
    and settled: "settled e org op audit idem c s s'"
    and inv: "release_inv e' s'" "replay_inv (now e) s'"
    and time: "now e \<le> now e'" "now e' < now e + CANDIDATE_RESPONSE_RETENTION_MS"
  shows "candidate_guard e' org op cap hs audit idem s' k' = (Inr (Completed c True), s')"
proof -
  have first: "list_all is_sha256_hex (hs @ [ii_keyHash idem, ii_requestDigestSha256 idem])"
    "actor_can s org (ac_actorUserId audit) cap"
    "List.find (is_idempotency org op (ii_keyHash idem)) (candidateIdempotency s) = None"
    using guard by (auto simp: candidate_guard_def releaseCandidateReplay_def split: if_splits option.splits)
  have "users s' = users s"
    using settled by (auto simp: settled_def rememberReleaseCandidate_def compactExpiredIdempotencyResponses_def Let_def)
  with first(2) have can: "actor_can s' org (ac_actorUserId audit) cap"
    by (simp add: actor_can_def candidateActor_def findSessionUser_def)
  obtain r where r: "List.find (is_idempotency org op (ii_keyHash idem)) (candidateIdempotency s') = Some r"
      "ci_actorUserId r = ac_actorUserId audit" "ci_requestDigestSha256 r = ii_requestDigestSha256 idem"
      "ci_expiresAt r = now e + CANDIDATE_RESPONSE_RETENTION_MS" "ci_response r = Some c"
    using remembered_first [OF settled first(3)] by blast
  have "releaseCandidateReplay e' org op audit idem s' = Inr (Some (Completed c True))"
    using replay_never_fails [OF inv time(1), of org op audit idem
        "GenericError ''Idempotent candidate response references are invalid''"] time(2) r
    by (simp add: releaseCandidateReplay_def split: if_splits)
  with first(1) can show ?thesis by (simp add: candidate_guard_def)
qed

section \<open>A publication stays in force\<close>

text \<open>The schedule, its latest assignment and the release a lookup finds under it.\<close>

definition in_force :: "schedule \<Rightarrow> assignment \<Rightarrow> release \<Rightarrow> store \<Rightarrow> bool" where
  "in_force x a r s \<longleftrightarrow> x \<in> set (schedules s) \<and> latestAssignment s (sd_id x) = Some a \<and>
     List.find (is_release (ra_organizationId a) (ra_releaseId a)) (releases s) = Some r"

lemma in_force_same:
  "schedules s' = schedules s \<Longrightarrow> releaseAssignments s' = releaseAssignments s \<Longrightarrow>
    releases s' = releases s \<Longrightarrow> in_force x a r s' = in_force x a r s"
  by (simp add: in_force_def latestAssignment_def)

text \<open>Later releases are appended, and the pruning keeps those an assignment names.\<close>

lemma in_force_appended:
  assumes "in_force x a r s" "set (schedules s) \<subseteq> set (schedules s')"
    and "releaseAssignments s' = releaseAssignments s" "\<exists>rs. releases s' = releases s @ rs"
  shows "in_force x a r s'"
  using assms latestAssignment_same [OF assms(3)] by (auto simp: in_force_def find_append)

lemma find_filter_all:
  "(\<And>x. P x \<Longrightarrow> Q x) \<Longrightarrow> List.find P (filter Q xs) = List.find P xs"
  by (induction xs) auto

lemma prune_in_force:
  assumes "prune_candidates e org audit s = (res, s')" "in_force x a r s"
  shows "in_force x a r s'"
proof -
  have a: "a \<in> set (releaseAssignments s)"
    using assms(2) latestAssignment_SomeD by (auto simp: in_force_def)
  let ?X = "expired_candidates e org (releaseCandidates s)"
  have "List.find (is_release (ra_organizationId a) (ra_releaseId a)) (releases (remove_candidates ?X s)) =
      List.find (is_release (ra_organizationId a) (ra_releaseId a)) (releases s)"
    unfolding remove_candidates_def Let_def using a
    by (simp, intro find_filter_all) (auto simp: is_release_def list_ex_iff)
  with prune_candidates_cases [OF assms(1)] assms(2) show ?thesis
    by (auto simp: in_force_def latestAssignment_def)
qed

lemma create_in_force:
  assumes "createReleaseCandidateAndAudit e org data t audit origins idem s = (res, s')" "in_force x a r s"
  shows "in_force x a r s'"
  using create_cases [OF assms(1)]
proof (elim disjE exE conjE)
  fix pres s1 k snapshot
  assume p: "prune_candidates e org audit s = (pres, s1)"
    and st: "store_candidate e k org data t audit idem snapshot s1 = (res, s')"
  have "s' = s1 \<or> (schedules s' = schedules s1 \<and> releaseAssignments s' = releaseAssignments s1 \<and>
      (\<exists>rs. releases s' = releases s1 @ rs))"
    using store_candidate_cases [OF st] by (auto simp: candidate_stored_def release_for_def)
  with prune_in_force [OF p assms(2)] show ?thesis by (auto intro: in_force_appended)
next
  fix pres s1
  assume "prune_candidates e org audit s = (pres, s1)" "s' = s1"
  then show ?thesis using prune_in_force assms(2) by simp
qed (use assms(2) in simp)

lemma transition_in_force:
  assumes "transitionReleaseCandidate e org op i d audit idem s = (res, s')" "in_force x a r s"
  shows "in_force x a r s'"
proof -
  have "schedules s' = schedules s" "releaseAssignments s' = releaseAssignments s" "releases s' = releases s"
    using transition_cases [OF assms(1)] by auto
  with assms(2) show ?thesis by (simp add: in_force_def latestAssignment_def)
qed

lemma publish_in_force:
  assumes "publishReleaseCandidateAndAudit e org i d audit origins idem s = (res, s')"
    and "in_force x a r s" "fresh_release_ids e s"
  shows "in_force x a r s'"
proof -
  have a: "latestAssignment s (sd_id x) = Some a" using assms(2) by (simp add: in_force_def)
  with fresh_release_idsD(4) [OF assms(3), of a 0] latestAssignment_SomeD [OF a]
  have "new_id e 0 \<noteq> sd_id x" by simp
  then have "s' = s \<or> (set (schedules s) \<subseteq> set (schedules s') \<and> releases s' = releases s \<and>
      (\<exists>b. releaseAssignments s' = releaseAssignments s @ [b] \<and> ra_scheduleId b \<noteq> sd_id x))"
    using publish_cases [OF assms(1)] by (auto simp: new_assignment_def)
  with assms(2) show ?thesis by (auto simp: in_force_def latestAssignment_append)
qed

lemma withdraw_in_force:
  assumes "withdrawScheduleAndAudit e org i audit s = (res, s')" "in_force x a r s"
  shows "in_force x a r s' \<or> withdrawn s' (sd_id x)"
proof -
  have "s' = s \<or> (schedules s' = schedules s \<and> releases s' = releases s \<and>
      (\<exists>b. releaseAssignments s' = releaseAssignments s @ [b] \<and> ra_state b = WITHDRAWN))"
    using withdraw_cases [OF assms(1)] by (auto simp: withdrawal_def)
  with assms(2) show ?thesis by (auto simp: in_force_def withdrawn_def latestAssignment_append)
qed

lemma release_step_in_force:
  assumes "release_step e s s'" "in_force x a r s" "fresh_release_ids e s"
  shows "in_force x a r s' \<or> withdrawn s' (sd_id x)"
  using assms(1)
proof cases
  case candidate_created
  then show ?thesis using create_in_force assms(2) by blast
next
  case candidate_submitted
  then show ?thesis unfolding submitReleaseCandidateAndAudit_def using transition_in_force assms(2) by blast
next
  case candidate_approved
  then show ?thesis unfolding approveReleaseCandidateAndAudit_def using transition_in_force assms(2) by blast
next
  case candidate_published
  then show ?thesis using publish_in_force assms(2,3) by blast
next
  case schedule_withdrawn
  then show ?thesis using withdraw_in_force assms(2) by blast
qed

lemma in_force_kept:
  assumes "system_inv H t D s" "in_force x a r s" "step_env H t D e" "store_step e s s'"
  shows "in_force x a r s' \<or> withdrawn s' (sd_id x)"
  using store_step_releases [OF assms(4)]
proof
  assume "release_step e s s'"
  with release_step_in_force assms(2) device_ids_fresh(2) [OF assms(1,3)] show ?thesis by blast
qed (use assms(2) in_force_same in blast)

text \<open>A publication stays in force until its schedule is withdrawn.\<close>

interpretation publication:
  step_invariant "\<lambda>H t D s. system_inv H t D s \<and> (in_force x a r s \<or> withdrawn s (sd_id x))" for x a r
  by unfold_locales (blast intro: system.kept withdrawn_kept dest: in_force_kept)

section \<open>What is in force is active\<close>

lemma published_in_force:
  assumes pub: "publishReleaseCandidateAndAudit e org i d audit origins idem s = (Inr (Completed c False), s')"
    and named: "named s'"
  obtains x a r where "in_force x a r s'" "schedules_assignment x a" "ra_releaseId a \<noteq> []"
    "ra_state a = ASSIGNED" "publishes c a" "cd_scheduleId c = Some (sd_id x)" "ra_organizationId a = org"
    "hasValidStoredAssignmentDigest e a r" "rl_id r = cd_releaseId c"
    "rl_digestSha256 r = cd_releaseDigestSha256 c"
proof -
  obtain c0 r where c0: "publishable_release e org origins c0 s = Inr r"
      "c = c0\<lparr>cd_state := PUBLISHED, cd_publishedAt := Some (now e),
         cd_scheduleId := Some (new_id e 0), cd_assignmentId := Some (new_id e (Suc 0))\<rparr>"
    and s': "schedules s' = schedules s @ [published_schedule e org (new_id e 0) (new_id e (Suc 0)) c0]"
      "releaseAssignments s' = releaseAssignments s @ [new_assignment e org (new_id e (Suc 0)) (new_id e 0) c0 (ac_actorUserId audit)]"
      "releases s' = releases s" and org: "cd_organizationId c0 = org"
    using publish_cases [OF pub] by (auto dest!: candidate_for_Inr find_SomeD simp: is_candidate_def)
  let ?x = "published_schedule e org (new_id e 0) (new_id e (Suc 0)) c0"
  let ?a = "new_assignment e org (new_id e (Suc 0)) (new_id e 0) c0 (ac_actorUserId audit)"
  note r = publishable_release_Inr [OF c0(1)]
  have x: "sd_id ?x = new_id e 0" "sd_organizationId ?x = org" "sd_releaseId ?x = Some (cd_releaseId c0)"
    by (simp_all add: published_schedule_def Let_def)
  have a: "ra_organizationId ?a = org" "ra_state ?a = ASSIGNED"
    "ra_releaseId ?a = cd_releaseId c0" "ra_scheduleId ?a = new_id e 0"
    by (simp_all add: new_assignment_def)
  have valid: "hasValidStoredAssignmentDigest e ?a r"
    using r(4-7) by (simp add: hasValidStoredAssignmentDigest_def hasValidStoredReleaseDigest_def
        releaseSnapshotDigest_def assignmentSnapshotDigest_def new_assignment_def)
  have "cd_releaseId c0 \<noteq> []" using named r(5) r(2) s'(3) by (auto simp: named_def)
  moreover have "latestAssignment s' (sd_id ?x) = Some ?a"
    using latestAssignment_append [OF s'(2)] a(4) x(1) by simp
  then have "in_force ?x ?a r s'" using r(3) by (simp add: in_force_def s'(1,3) a)
  moreover have "publishes c ?a" by (simp add: publishes_def new_assignment_def c0(2) org)
  moreover have "rl_id r = cd_releaseId c" "rl_digestSha256 r = cd_releaseDigestSha256 c"
    "cd_scheduleId c = Some (sd_id ?x)"
    using r(5,6) x by (simp_all add: c0(2))
  ultimately show ?thesis using valid a x by (intro that [of ?x ?a r]) (simp_all add: schedules_assignment_def)
qed

lemma in_force_is_active:
  assumes "in_force x a r s" "schedules_assignment x a" "ra_releaseId a \<noteq> []"
    and "ra_state a = ASSIGNED" "ra_organizationId a = org" "hasValidStoredAssignmentDigest e a r"
    and "screenId \<in> set (ra_screenIds a)" "in_term (ra_schedule a) at"
    and "matchesScheduleWindow e (ra_schedule a) at = Inr True"
  shows "active_release e s org screenId at x = Inr (Some (r, a))"
  using assms by (simp add: in_force_def schedules_assignment_def active_release_def)

lemma valid_assignment_env:
  "sha256 e' = sha256 e \<Longrightarrow> hasValidStoredAssignmentDigest e' a r = hasValidStoredAssignmentDigest e a r"
  by (simp add: hasValidStoredAssignmentDigest_def hasValidStoredReleaseDigest_def
      releaseSnapshotDigest_def assignmentSnapshotDigest_def)

end
