(* ===== verification/Windows.thy ===== *)
theory Windows
  imports Schedule
begin

text \<open>
  What the wall-clock functions of \<open>apps/api/src/utils/schedule.ts\<close> mean: which instant a local
  minute resolves to in an arbitrary zone, and, in a zone whose offset does not change, that a
  daily window is the local weekday and time of day and that playback ends when the window does.
\<close>

section \<open>Zones with a constant offset\<close>

lemma constant_zone_facts:
  assumes "constant_offset_zone f off" "intl e (sw_timezone s) = Some f" "0 \<le> at"
    and "sw_dailyEndMinutes s = Some m" "0 \<le> m" "m \<le> 1440"
  shows "schedulePlaybackEndsAt e s at =
    Inr (let d = (at + off) div ms_per_day * ms_per_day + m * 60000 - off in
      if at < d then (case sw_endsAt s of None \<Rightarrow> Some d | Some t \<Rightarrow> Some (min t d)) else sw_endsAt s)"
  using assms(2,4) constant_offset_zone.resolve_local [OF assms(1,3,5,6), of End_boundary]
  by (auto simp: schedulePlaybackEndsAt_def Let_def split: option.splits)

definition minutes_ok :: "int option \<Rightarrow> bool" where
  "minutes_ok v \<longleftrightarrow> (case v of None \<Rightarrow> True | Some m \<Rightarrow> 0 \<le> m \<and> m \<le> 1440)"

text \<open>The window at an instant: the local weekday and the local time of day decide.\<close>

definition local_window :: "'a schedule_window_scheme \<Rightarrow> int \<Rightarrow> bool" where
  "local_window s u \<longleftrightarrow>
     (sw_daysOfWeek s = [] \<or> (u div ms_per_day + 4) mod 7 \<in> set (sw_daysOfWeek s)) \<and>
     (case sw_dailyStartMinutes s of None \<Rightarrow> True | Some m \<Rightarrow> m * 60000 \<le> u mod ms_per_day) \<and>
     (case sw_dailyEndMinutes s of None \<Rightarrow> True | Some m \<Rightarrow> u mod ms_per_day < m * 60000)"

lemma constant_zone_window:
  assumes "constant_offset_zone f off" "intl e (sw_timezone s) = Some f" "0 \<le> at"
    and "minutes_ok (sw_dailyStartMinutes s)" "minutes_ok (sw_dailyEndMinutes s)"
  shows "matchesScheduleWindow e s at = Inr (local_window s (at + off))"
proof -
  have w: "zp_weekday (f at) = Some (((at + off) div ms_per_day + 4) mod 7)"
    using constant_offset_zone.fields [OF assms(1)] by (simp add: utc_fields_def split: prod.splits)
  have "after_daily_start f (sw_dailyStartMinutes s) at =
      Inr (case sw_dailyStartMinutes s of None \<Rightarrow> True | Some m \<Rightarrow> m * 60000 \<le> (at + off) mod ms_per_day)"
    using assms(4) constant_offset_zone.daily_bounds(1) [OF assms(1,3)]
    by (cases "sw_dailyStartMinutes s") (simp_all add: minutes_ok_def after_daily_start_def)
  moreover have "before_daily_end f (sw_dailyEndMinutes s) at =
      Inr (case sw_dailyEndMinutes s of None \<Rightarrow> True | Some m \<Rightarrow> (at + off) mod ms_per_day < m * 60000)"
    using assms(5) constant_offset_zone.daily_bounds(2) [OF assms(1,3)]
    by (cases "sw_dailyEndMinutes s") (simp_all add: minutes_ok_def before_daily_end_def)
  ultimately show ?thesis
    by (auto simp: matchesScheduleWindow_def assms(2) w local_window_def split: bool.splits)
qed

lemma open_until_playback_end:
  assumes "constant_offset_zone f off" "intl e (sw_timezone s) = Some f" "0 \<le> at"
    and "minutes_ok (sw_dailyStartMinutes s)" "sw_dailyEndMinutes s = Some m" "0 \<le> m" "m \<le> 1440"
    and "matchesScheduleWindow e s at = Inr True" "schedulePlaybackEndsAt e s at = Inr (Some t)"
    and "at \<le> at'" "at' < t"
  shows "matchesScheduleWindow e s at' = Inr True"
proof -
  define u Q where "u = at + off" and "Q = u div ms_per_day"
  have ok: "minutes_ok (sw_dailyEndMinutes s)" using assms(5-7) by (simp add: minutes_ok_def)
  have w: "local_window s u"
    using assms(8) constant_zone_window [OF assms(1-4) ok] by (simp add: u_def)
  then have "u mod ms_per_day < m * 60000" by (simp add: local_window_def assms(5))
  moreover have u: "u = Q * ms_per_day + u mod ms_per_day" by (simp add: Q_def)
  ultimately have b: "u < Q * ms_per_day + m * 60000" by linarith
  then have "t \<le> Q * ms_per_day + m * 60000 - off"
    using assms(9) constant_zone_facts [OF assms(1-3,5-7)]
    by (auto simp: Let_def u_def Q_def split: option.splits)
  with assms(10,11) have u': "u \<le> at' + off" "at' + off < Q * ms_per_day + m * 60000"
    by (simp_all add: u_def)
  then have "Q * ms_per_day \<le> at' + off" "at' + off < (Q + 1) * ms_per_day"
    using assms(7) u by (simp_all add: ms_per_day_def)
  then have day: "(at' + off) div ms_per_day = Q" by (simp add: ms_per_day_def)
  then have "at' + off = Q * ms_per_day + (at' + off) mod ms_per_day"
    using div_mult_mod_eq [of "at' + off" ms_per_day] by simp
  then have "u mod ms_per_day \<le> (at' + off) mod ms_per_day" "(at' + off) mod ms_per_day < m * 60000"
    using u' u by linarith+
  with w day have "local_window s (at' + off)"
    by (auto simp: local_window_def assms(5) Q_def split: option.splits)
  moreover have "0 \<le> at'" using assms(3,10) by simp
  ultimately show ?thesis using constant_zone_window [OF assms(1,2) _ assms(4) ok] by simp
qed

lemma closed_at_daily_end:
  assumes "constant_offset_zone f off" "intl e (sw_timezone s) = Some f" "0 \<le> at"
    and "minutes_ok (sw_dailyStartMinutes s)" "sw_dailyEndMinutes s = Some m" "0 \<le> m" "m \<le> 1440"
    and "m < 1440 \<or> (\<exists>k. sw_dailyStartMinutes s = Some k \<and> 0 < k)" "sw_endsAt s = None"
    and "schedulePlaybackEndsAt e s at = Inr (Some t)"
  shows "matchesScheduleWindow e s t = Inr False"
proof -
  define Q where "Q = (at + off) div ms_per_day"
  have ok: "minutes_ok (sw_dailyEndMinutes s)" using assms(5-7) by (simp add: minutes_ok_def)
  have t: "t = Q * ms_per_day + m * 60000 - off" "at < t"
    using assms(9,10) constant_zone_facts [OF assms(1-3,5-7)]
    by (auto simp: Let_def Q_def split: if_splits)
  have "\<not> local_window s (t + off)"
  proof (cases "m < 1440")
    case True
    have "t + off = Q * ms_per_day + m * 60000" using t by simp
    moreover have "m * 60000 < ms_per_day" "0 \<le> m * 60000" using assms(6) True by (simp_all add: ms_per_day_def)
    ultimately have "(t + off) mod ms_per_day = m * 60000" by (simp add: mod_pos_pos_trivial)
    then show ?thesis by (simp add: local_window_def assms(5))
  next
    case False
    with assms(7) have "t + off = (Q + 1) * ms_per_day" using t by (simp add: ms_per_day_def)
    then have "(t + off) mod ms_per_day = 0" by simp
    with assms(8) False show ?thesis by (auto simp: local_window_def)
  qed
  with t(2) assms(3) show ?thesis using constant_zone_window [OF assms(1,2) _ assms(4) ok, of t] by simp
qed

section \<open>A zone with a transition\<close>

text \<open>The zone that jumps from offset zero to one hour at 01:00 of the first of January 1970.\<close>

definition sample_zone :: "instant \<Rightarrow> zoned_parts" where
  "sample_zone t = utc_fields (if t < 3600000 then t else t + 3600000)"

lemma sample_wall:
  "t mod 60000 = 0 \<Longrightarrow> - 1000 * ms_per_day \<le> t \<Longrightarrow>
    wallClockValue (sample_zone t) = (if t < 3600000 then t else t + 3600000)"
  using wall_utc_fields [of t] wall_utc_fields [of "t + 3600000"]
  by (auto simp: sample_zone_def ms_per_day_def)

lemma sample_offset:
  "t mod 60000 = 0 \<Longrightarrow> - 1000 * ms_per_day \<le> t \<Longrightarrow>
    zoned_offset sample_zone t = (if t < 3600000 then 0 else 3600000)"
  by (simp add: zoned_offset_def sample_wall)

lemma sample_gap:
  "desired_wall (sample_zone 0) 90 = 5400000" "exact_instants sample_zone 5400000 = []"
  "find_gap sample_zone 5400000 (offset_samples sample_zone 5400000) = Some 3600000"
proof -
  show "desired_wall (sample_zone 0) 90 = 5400000"
    by (simp add: desired_wall_utc_fields sample_zone_def ms_per_day_def)
  have offs: "offset_samples sample_zone 5400000 = map (\<lambda>h. (5400000 + h * 3600000, if h < 0 then 0 else 3600000)) delta_hours"
    by (simp add: offset_samples_def delta_hours_def sample_offset ms_per_day_def)
  show "exact_instants sample_zone 5400000 = []"
    unfolding exact_instants_def offs by (simp add: delta_hours_def js_unique_def sample_wall ms_per_day_def)
  define r where "r = bisect_transition sample_zone 0 (- 270) 90"
  have "- 270 < r \<and> r \<le> 90 \<and> zoned_offset sample_zone (r * 60000) \<noteq> 0 \<and>
      zoned_offset sample_zone ((r - 1) * 60000) = 0"
    unfolding r_def by (rule bisect_transition_spec) (simp_all add: sample_offset ms_per_day_def)
  moreover from this have "zoned_offset sample_zone (r * 60000) = (if r * 60000 < 3600000 then 0 else 3600000)"
    "zoned_offset sample_zone ((r - 1) * 60000) = (if (r - 1) * 60000 < 3600000 then 0 else 3600000)"
    by (intro sample_offset; simp add: ms_per_day_def)+
  ultimately have "r = 60" by (auto split: if_splits)
  then show "find_gap sample_zone 5400000 (offset_samples sample_zone 5400000) = Some 3600000"
    by (simp add: offs delta_hours_def floor_minute_def ceil_minute_def r_def sample_wall ms_per_day_def Let_def)
qed

section \<open>Properties\<close>

text \<open>
  in any zone, a local minute resolves to an instant at which the zone shows that minute, or,
  when no candidate does, to the first minute after a jump of the zone over it; and the end of a
  window never resolves to a later instant than its start for the same minute.
\<close>

theorem resolved_minute_is_shown_or_skipped:
  assumes "resolveZonedWallMinute f d m Start_boundary = Inr u"
    and "resolveZonedWallMinute f d m End_boundary = Inr t"
  shows "t \<le> u \<and> (\<forall>x \<in> {t, u}. wallClockValue (f x) = desired_wall d m \<or>
    exact_instants f (desired_wall d m) = [] \<and>
    wallClockValue (f (x - 60000)) < desired_wall d m \<and> desired_wall d m < wallClockValue (f x))"
  using resolve_end_le_start [OF assms] resolve_sound [OF assms(1)] resolve_sound [OF assms(2)]
  by simp

theorem resolved_minute_is_shown_or_skipped_witness:
  "wallClockValue (sample_zone (3600000 - 60000)) \<le> 5400000 \<and> 5400000 \<le> wallClockValue (sample_zone 3600000)"
proof -
  have "resolveZonedWallMinute sample_zone (sample_zone 0) 90 b = Inr 3600000" for b
    by (simp add: resolveZonedWallMinute_def sample_gap)
  from resolved_minute_is_shown_or_skipped [OF this this] show ?thesis
    by (auto simp: sample_gap sample_wall ms_per_day_def)
qed

text \<open>
  The wall clock inverts the calendar: reading the UTC fields of an instant and putting them
  together again gives the instant's minute, from more than a thousand years before the epoch on.
\<close>

theorem wall_clock_inverts_the_calendar:
  assumes "- 600000 \<le> t div ms_per_day"
  shows "wallClockValue (utc_fields t) = t - t mod 60000"
  using assms by (rule wall_utc_fields)

theorem wall_clock_inverts_the_calendar_witness: "wallClockValue (utc_fields 951827696789) = 951827640000"
  using wall_clock_inverts_the_calendar [of 951827696789] by (simp add: ms_per_day_def)

text \<open>
  The bisection between two minutes whose offsets differ ends, at a minute in between at
  which the offset has just changed.
\<close>

theorem bisection_finds_a_change:
  assumes "low < high" "zoned_offset f (low * 60000) = before" "zoned_offset f (high * 60000) \<noteq> before"
  shows "\<exists>r. bisect_transition f before low high = r \<and> low < r \<and> r \<le> high \<and>
    zoned_offset f (r * 60000) \<noteq> before \<and> zoned_offset f ((r - 1) * 60000) = before"
  using bisect_transition_spec [OF assms] by blast

theorem bisection_finds_a_change_witness:
  "\<exists>r. bisect_transition sample_zone 0 0 90 = r \<and> zoned_offset sample_zone (r * 60000) \<noteq> 0 \<and>
     zoned_offset sample_zone ((r - 1) * 60000) = 0"
proof -
  have "zoned_offset sample_zone (0 * 60000) = 0" "zoned_offset sample_zone (90 * 60000) \<noteq> 0"
    by (simp_all add: sample_offset ms_per_day_def)
  from bisection_finds_a_change [OF _ this] show ?thesis by auto
qed

text \<open>
  C37: in a zone with a constant offset of whole minutes, a schedule matches at an instant exactly
  when the local weekday is listed, or none is, and the local time of day is not before its start
  and before its end.
\<close>

theorem window_is_local_time:
  assumes "intl e (sw_timezone s) = Some (\<lambda>t. utc_fields (t + off))"
    and "off mod 60000 = 0" "- ms_per_day \<le> off" "off \<le> ms_per_day" "0 \<le> at"
    and "minutes_ok (sw_dailyStartMinutes s)" "minutes_ok (sw_dailyEndMinutes s)"
  shows "matchesScheduleWindow e s at = Inr (local_window s (at + off))"
  by (rule constant_zone_window [OF constant_offset_zone_shift [OF assms(2-4)] assms(1,5-7)])

definition sample_window :: schedule_window where
  "sample_window = \<lparr>sw_endsAt = None, sw_timezone = ''z'', sw_daysOfWeek = [3],
     sw_dailyStartMinutes = Some 480, sw_dailyEndMinutes = Some 1080\<rparr>"

definition sample_clock :: env where
  "sample_clock = undefined\<lparr>intl := \<lambda>_. Some (\<lambda>t. utc_fields (t + (- 18000000)))\<rparr>"

theorem window_is_local_time_witness:
  "matchesScheduleWindow sample_clock sample_window (7 * ms_per_day + 50400000) = Inr False \<and>
   matchesScheduleWindow sample_clock sample_window (6 * ms_per_day + 50400000) = Inr True"
proof -
  have "matchesScheduleWindow sample_clock sample_window at = Inr (local_window sample_window (at + (- 18000000)))"
    if "0 \<le> at" for at
    by (rule window_is_local_time)
      (use that in \<open>simp_all add: sample_clock_def sample_window_def ms_per_day_def minutes_ok_def\<close>)
  then show ?thesis by (simp add: ms_per_day_def local_window_def sample_window_def)
qed

text \<open>
  C36: in such a zone, a schedule with a daily end, 24:00 included, that matches now keeps matching
  until the instant its playback is said to end.  When nothing else ends it, it no longer matches
  then, unless its window reaches to 24:00 and has no start or starts at 0:00: such a window may go
  on into the next day.
\<close>

theorem playback_ends_with_the_window:
  assumes "intl e (sw_timezone s) = Some (\<lambda>t. utc_fields (t + off))"
    and "off mod 60000 = 0" "- ms_per_day \<le> off" "off \<le> ms_per_day" "0 \<le> at"
    and "minutes_ok (sw_dailyStartMinutes s)" "sw_dailyEndMinutes s = Some m" "0 \<le> m" "m \<le> 1440"
    and "matchesScheduleWindow e s at = Inr True" "schedulePlaybackEndsAt e s at = Inr (Some t)"
  shows "(\<forall>at'. at \<le> at' \<and> at' < t \<longrightarrow> matchesScheduleWindow e s at' = Inr True) \<and>
    (sw_endsAt s = None \<and> (m < 1440 \<or> (\<exists>k. sw_dailyStartMinutes s = Some k \<and> 0 < k)) \<longrightarrow>
      matchesScheduleWindow e s t = Inr False)"
proof -
  note zone = constant_offset_zone_shift [OF assms(2-4)]
  show ?thesis
    using open_until_playback_end [OF zone assms(1,5-11)]
      closed_at_daily_end [OF zone assms(1,5-9) _ _ assms(11)] by blast
qed

theorem playback_ends_with_the_window_witness:
  "matchesScheduleWindow sample_clock sample_window (6 * ms_per_day + 60000000) = Inr True \<and>
   matchesScheduleWindow sample_clock sample_window (6 * ms_per_day + 82800000) = Inr False"
proof -
  let ?at = "6 * ms_per_day + 50400000" and ?t = "6 * ms_per_day + 82800000"
  have z: "constant_offset_zone (\<lambda>t. utc_fields (t + (- 18000000))) (- 18000000)"
    by (rule constant_offset_zone_shift) (simp_all add: ms_per_day_def)
  have e: "intl sample_clock (sw_timezone sample_window) = Some (\<lambda>t. utc_fields (t + (- 18000000)))"
    by (simp add: sample_clock_def)
  have m: "matchesScheduleWindow sample_clock sample_window ?at = Inr True"
    using constant_zone_window [OF z e, of ?at]
    by (simp add: minutes_ok_def sample_window_def ms_per_day_def local_window_def)
  have t: "schedulePlaybackEndsAt sample_clock sample_window ?at = Inr (Some ?t)"
    using constant_zone_facts [OF z e, of ?at 1080] by (simp add: sample_window_def ms_per_day_def)
  show ?thesis
    using playback_ends_with_the_window [OF e _ _ _ _ _ _ _ _ m t, of 1080]
    by (simp add: sample_window_def ms_per_day_def minutes_ok_def)
qed

text \<open>
  The cache of resolved minutes never changes an answer: the cached function returns what the
  resolver computes, and leaves a cache of which that is true again and that holds at most 4096
  entries.
\<close>

theorem cached_resolution_is_exact:
  assumes "wall_cache_ok zone cache"
  shows "fst (resolve_cached zone tz date m b cache) = resolveZonedWallMinute (zone tz) date m b \<and>
    wall_cache_ok zone (snd (resolve_cached zone tz date m b cache))"
  using resolve_cached_correct [OF assms] by simp

theorem cached_resolution_is_exact_witness:
  "fst (resolve_cached (\<lambda>_. sample_zone) ''z'' (sample_zone 0) 90 End_boundary []) = Inr 3600000"
proof -
  have "wall_cache_ok (\<lambda>_. sample_zone) []" by (simp add: wall_cache_ok_def)
  from cached_resolution_is_exact [OF this] show ?thesis
    by (simp add: resolveZonedWallMinute_def sample_gap)
qed

end
