(* ===== verification/Snapshots.thy ===== *)
theory Snapshots
  imports Canonical Policy
begin

text \<open>
  What the pure parts of the release and enrollment code guarantee: canonical JSON does not
  depend on the order of an object's keys, canonical snapshots not on the order or repetition of
  screens and weekdays; a frozen release holds the playlist's items in order; media policy,
  storage keys, pairing codes, canonical instants and the capabilities of the roles.
\<close>

section \<open>Canonical values\<close>

text \<open>The same JSON value: objects may list their entries in any order, at every level.\<close>

inductive same_json :: "json \<Rightarrow> json \<Rightarrow> bool" where
  atom: "same_json v v"
| array: "list_all2 same_json xs ys \<Longrightarrow> same_json (JArr xs) (JArr ys)"
| object: "\<lbrakk>list_all2 (\<lambda>p q. fst p = fst q \<and> same_json (snd p) (snd q)) kvs zs; mset zs = mset lws;
    distinct (map fst lws)\<rbrakk> \<Longrightarrow> same_json (JObj kvs) (JObj lws)"
monos list_all2_mono

lemma canonicalJson_same: "same_json v w \<Longrightarrow> canonicalJson v = canonicalJson w"
proof (induction rule: same_json.induct)
  case (atom v)
  show ?case ..
next
  case (array xs ys)
  then have "map canonicalJson xs = map canonicalJson ys"
    by (induction rule: list_all2_induct) auto
  then show ?case by simp
next
  case (object kvs zs lws)
  let ?c = "map (\<lambda>(k, v). (k, canonicalJson v))"
  have "?c kvs = ?c zs" using object(1) by (induction rule: list_all2_induct) auto
  moreover have "sort_by key_less (?c zs) = sort_by key_less (?c lws)"
  proof (rule sort_by_key_less_unique)
    show "mset (?c zs) = mset (?c lws)" using object(2) by simp
    have "mset (map fst zs) = mset (map fst lws)" using object(2) by simp
    then have "distinct (map fst zs)" using object(3) mset_eq_imp_distinct_iff by blast
    then show "distinct (map fst (?c zs))" by (simp add: comp_def case_prod_unfold)
  qed
  ultimately show ?case by simp
qed

text \<open>The items of an accepted snapshot: those of the playlist, in order, frozen from the assets.\<close>

lemma comparator_cmp_or:
  assumes "comparator f" "comparator g" "\<And>x y. f x y = - f y x"
  shows "comparator (\<lambda>x y. cmp_or (f x y) (g x y))"
proof (rule comparator.intro)
  show "cmp_or (f x y) (g x y) \<le> 0 \<or> cmp_or (f y x) (g y x) \<le> 0" for x y
    using assms(3) [of x y] comparator.total [OF assms(2), of x y] by (auto simp: cmp_or_def)
  show "cmp_or (f x z) (g x z) \<le> 0"
    if "cmp_or (f x y) (g x y) \<le> 0" "cmp_or (f y z) (g y z) \<le> 0" for x y z
  proof (cases "f x z = 0")
    case True
    have "f x y \<le> 0" "f y z \<le> 0" using that by (auto simp: cmp_or_def split: if_splits)
    moreover from this have "f z y \<le> 0" "f y x \<le> 0"
      using comparator.trans [OF assms(1), of z x y] comparator.trans [OF assms(1), of y z x]
        True assms(3) [of x z] by simp_all
    ultimately have "f x y = 0" "f y z = 0" using assms(3) [of x y] assms(3) [of y z] by linarith+
    with that True comparator.trans [OF assms(2), of x y z] show ?thesis by (simp add: cmp_or_def)
  next
    case False
    have "f x y \<le> 0" "f y z \<le> 0" using that by (auto simp: cmp_or_def split: if_splits)
    then have "f x z \<le> 0" by (rule comparator.trans [OF assms(1)])
    with False show ?thesis by (simp add: cmp_or_def)
  qed
qed

lemma comparator_difference: "comparator (\<lambda>x y. k x - k y :: int)"
  by unfold_locales auto

lemma comparator_instants: "comparator (\<lambda>x y. cmp_instant (k x) (k y))"
  by unfold_locales (auto simp: cmp_instant_def sgn_if split: if_splits)

lemma comparator_flip:
  assumes "comparator f"
  shows "comparator (\<lambda>x y. f y x)"
  by (rule comparator.intro [OF comparator.total [OF assms]]) (rule comparator.trans [OF assms])

lemma compare_items_comparator:
  assumes "collation (localeCompare e)"
  shows "comparator (compare_items e)"
  unfolding compare_items_def [abs_def]
  by (rule comparator_cmp_or [OF comparator_difference comparator_map [OF assms [unfolded collation_def]]])
    simp

text \<open>The precedence of schedules is a total preorder.\<close>

lemma precedence_comparator:
  assumes "collation (localeCompare e)"
  shows "comparator (compareSchedulePrecedence e)"
  unfolding compareSchedulePrecedence_def [abs_def]
  by (rule comparator_cmp_or [OF comparator_flip [OF comparator_difference]
        comparator_cmp_or [OF comparator_flip [OF comparator_instants]
          comparator_map [OF assms [unfolded collation_def]]]])
    (simp_all add: cmp_instant_def sgn_if)

definition item_key :: "playlist_item \<Rightarrow> string \<times> string \<times> int \<times> int" where
  "item_key i = (pi_id i, pi_assetId i, pi_position i, pi_durationSeconds i)"

definition frozen_key :: "frozen_item \<Rightarrow> string \<times> string \<times> int \<times> int" where
  "frozen_key i = (fi_id i, fa_id (fi_asset i), fi_position i, fi_durationSeconds i)"

lemma freeze_items_keys: "freeze_items assets ps items = Inr fs \<Longrightarrow> map frozen_key fs = map item_key items"
proof (induction items arbitrary: ps fs)
  case (Cons item rest)
  then show ?case
    by (auto simp: frozen_key_def item_key_def split: if_splits option.splits sum.splits dest!: asset_by_id_Some)
qed simp

lemma canonicalReleaseSnapshot_spec:
  assumes "canonicalReleaseSnapshot e playlist assets = Inr s" "collation (localeCompare e)"
  shows "rs_items s \<noteq> []" "sorted_wrt (<) (map fi_position (rs_items s))"
    "mset (map frozen_key (rs_items s)) = mset (map item_key (pl_items playlist))"
    "\<forall>i \<in> set (rs_items s). \<exists>a \<in> set assets. fi_asset i = freeze_asset a"
proof -
  let ?sorted = "sort_by (compare_items e) (pl_items playlist)"
  have sorted: "sorted_wrt (\<lambda>a b. compare_items e a b \<le> 0) ?sorted"
    using assms(2) by (intro comparator.sorted_sort_by compare_items_comparator)
  from assms(1) obtain fs where fs: "freeze_items assets [] ?sorted = Inr fs" "rs_items s = fs" "?sorted \<noteq> []"
    by (auto simp: canonicalReleaseSnapshot_def Let_def split: if_splits sum.splits)
  note spec = freeze_items_spec [OF fs(1)] and keys = freeze_items_keys [OF fs(1)]
  show "rs_items s \<noteq> []" using spec fs(2,3) by auto
  have "mset (map frozen_key fs) = mset (map item_key ?sorted)" using keys by simp
  then show "mset (map frozen_key (rs_items s)) = mset (map item_key (pl_items playlist))"
    by (simp add: fs(2))
  have "sorted_wrt (\<lambda>a b. pi_position a \<le> pi_position b) ?sorted"
    by (rule sorted_wrt_mono_rel [OF _ sorted]) (auto simp: compare_items_def cmp_or_def split: if_splits)
  then have "sorted (map pi_position ?sorted)" by (simp add: sorted_map)
  then show "sorted_wrt (<) (map fi_position (rs_items s))"
    using spec fs(2) by (metis strict_sorted_iff)
  show "\<forall>i \<in> set (rs_items s). \<exists>a \<in> set assets. fi_asset i = freeze_asset a"
    using spec fs(2) by blast
qed

text \<open>Enrollment codes: six digits, every code the image of equally many accepted words.\<close>

lemma list_all_digit_pad: "list_all is_digit (pad k n)"
proof (induction k arbitrary: n)
  case (Suc k)
  have "0 \<le> n mod 10" "n mod 10 < 10" by simp_all
  then have "is_digit (char_of (48 + nat (n mod 10)))" by (simp add: is_digit_def)
  with Suc show ?case by simp
qed simp

lemma enrollmentCode_Inr:
  assumes "enrollmentCode w = Inr c"
  shows "\<exists>v \<in> set (concat (map w [0..<16])). v < code_ceiling \<and> c = pad 6 (v mod 1000000)"
proof -
  obtain v where "first_below (concat (map w [0..<16])) = Some v" "c = pad 6 (v mod 1000000)"
    using assms by (auto simp: enrollmentCode_def split: option.splits)
  with first_below_Some show ?thesis by blast
qed

lemma words_of_residue:
  assumes "0 \<le> k" "k < 1000000"
  shows "card {v. 0 \<le> v \<and> v < code_ceiling \<and> v mod 1000000 = k} = 4294"
proof -
  have "{v. 0 \<le> v \<and> v < code_ceiling \<and> v mod 1000000 = k} = (\<lambda>q. q * 1000000 + k) ` {0..<4294}"
  proof (intro set_eqI iffI)
    fix v assume v: "v \<in> {v. 0 \<le> v \<and> v < code_ceiling \<and> v mod 1000000 = k}"
    then have "v = v div 1000000 * 1000000 + k" using div_mult_mod_eq [of v 1000000] by simp
    moreover have "v div 1000000 \<in> {0..<4294}" using v unfolding code_ceiling_def by auto
    ultimately show "v \<in> (\<lambda>q. q * 1000000 + k) ` {0..<4294}" by blast
  qed (use assms in \<open>auto simp: code_ceiling_def\<close>)
  moreover have "inj_on (\<lambda>q :: int. q * 1000000 + k) {0..<4294}" by (simp add: inj_on_def)
  ultimately show ?thesis by (simp add: card_image)
qed

lemma code_words_uniform:
  assumes "0 \<le> k" "k < 1000000"
  shows "card {v. 0 \<le> v \<and> v < code_ceiling \<and> pad 6 (v mod 1000000) = pad 6 k} = 4294"
proof -
  have "pad 6 (v mod 1000000) = pad 6 k \<longleftrightarrow> v mod 1000000 = k" for v
    using pad_order [of "v mod 1000000" 6 k] assms by simp
  then show ?thesis using words_of_residue [OF assms] by simp
qed

section \<open>Properties\<close>

text \<open>
  the digests of a candidate, of a publication and of the request for it do not depend on
  the order in which weekdays and screens are listed, nor on repetitions.
\<close>

theorem digests_ignore_order:
  assumes "set days = set days'" "set ids = set ids'"
  shows "releaseCandidateDigest e (canonicalReleaseCandidateSnapshot d (s\<lparr>sw_daysOfWeek := days\<rparr>) ids t) =
      releaseCandidateDigest e (canonicalReleaseCandidateSnapshot d (s\<lparr>sw_daysOfWeek := days'\<rparr>) ids' t) \<and>
    assignmentSnapshotDigest e (canonicalAssignmentSnapshot d a (s\<lparr>sw_daysOfWeek := days\<rparr>) ids p) =
      assignmentSnapshotDigest e (canonicalAssignmentSnapshot d a (s\<lparr>sw_daysOfWeek := days'\<rparr>) ids' p) \<and>
    schedulePublicationRequestDigest e (q\<lparr>sw_daysOfWeek := days, sd_screenIds := ids\<rparr>) =
      schedulePublicationRequestDigest e (q\<lparr>sw_daysOfWeek := days', sd_screenIds := ids'\<rparr>)"
  using sort_js_unique_cong [OF assms(1)] canonical_screen_ids_cong [OF assms(2)]
  by (simp add: canonicalReleaseCandidateSnapshot_def canonicalAssignmentSnapshot_def
      schedulePublicationRequestDigest_def canonicalSchedulePublicationRequest_def
      canonical_schedule_def frozen_of_def)

theorem digests_ignore_order_witness:
  "\<forall>e s. releaseCandidateDigest e (canonicalReleaseCandidateSnapshot ''d''
      (s\<lparr>sw_daysOfWeek := [3, 1, 3]\<rparr>) [''b'', ''a''] 5) =
    releaseCandidateDigest e (canonicalReleaseCandidateSnapshot ''d''
      (s\<lparr>sw_daysOfWeek := [1, 3]\<rparr>) [''a'', ''b'', ''a''] 5)"
  by (intro allI digests_ignore_order [THEN conjunct1]) auto

text \<open>
  Canonical JSON is the same text, or the same rejection, for two values that differ only in
  the order of the keys of their objects, at any level.
\<close>

theorem canonical_json_ignores_key_order: "same_json v w \<Longrightarrow> canonicalJson v = canonicalJson w"
  by (rule canonicalJson_same)

theorem canonical_json_ignores_key_order_witness:
  "canonicalJson (JArr [JObj [(js ''b'', JNum 1), (js ''a'', JNull)]]) =
   canonicalJson (JArr [JObj [(js ''a'', JNull), (js ''b'', JNum 1)]])"
proof (rule canonical_json_ignores_key_order)
  have "same_json (JObj [(js ''b'', JNum 1), (js ''a'', JNull)]) (JObj [(js ''a'', JNull), (js ''b'', JNum 1)])"
    by (rule same_json.object [of _ "[(js ''b'', JNum 1), (js ''a'', JNull)]"])
      (auto intro: same_json.atom)
  then show "same_json (JArr [JObj [(js ''b'', JNum 1), (js ''a'', JNull)]])
      (JArr [JObj [(js ''a'', JNull), (js ''b'', JNum 1)]])"
    by (intro same_json.array) simp
qed

text \<open>
  C38: an accepted release snapshot is not empty, holds exactly the playlist's items, each with
  its asset's identity and duration, by strictly increasing position, and every frozen asset is
  a stored one.
\<close>

theorem snapshot_is_the_playlist:
  assumes "canonicalReleaseSnapshot e playlist assets = Inr s" "collation (localeCompare e)"
  shows "rs_items s \<noteq> [] \<and> sorted_wrt (<) (map fi_position (rs_items s)) \<and>
    mset (map frozen_key (rs_items s)) = mset (map item_key (pl_items playlist)) \<and>
    fi_asset ` set (rs_items s) \<subseteq> freeze_asset ` set assets"
  using canonicalReleaseSnapshot_spec [OF assms] by blast

definition two_items :: playlist where
  "two_items = \<lparr>pl_name = ''p'', pl_description = ''d'',
     pl_items = [\<lparr>pi_id = ''y'', pi_assetId = ''m'', pi_position = 2, pi_durationSeconds = 5\<rparr>,
       \<lparr>pi_id = ''x'', pi_assetId = ''m'', pi_position = 1, pi_durationSeconds = 7\<rparr>],
     pl_id = ''p1'', pl_organizationId = ''org'', pl_createdAt = 0, pl_updatedAt = 0\<rparr>"

definition one_medium :: media where
  "one_medium = \<lparr>md_name = ''m'', md_kind = image_kind, md_mimeType = ''image/png'',
     md_url = ''https://m/a'', md_checksumSha256 = replicate 64 CHR ''0'', md_sizeBytes = 9,
     md_durationSeconds = None, md_expiresAt = None, md_id = ''m'', md_organizationId = ''org'',
     md_storageKey = None, md_createdAt = 0, md_updatedAt = 0\<rparr>"

theorem snapshot_is_the_playlist_witness:
  "\<exists>s :: release_snapshot. mset (map frozen_key (rs_items s)) = {#(''x'', ''m'', 1, 7), (''y'', ''m'', 2, 5)#}"
proof -
  let ?e = "undefined\<lparr>localeCompare := code_unit_compare\<rparr> :: env"
  obtain s where "canonicalReleaseSnapshot ?e two_items [one_medium] = Inr s"
    by (simp add: canonicalReleaseSnapshot_def two_items_def sort_by_def compare_items_def cmp_or_def
        asset_by_id_def one_medium_def)
  from snapshot_is_the_playlist [OF this]
  have "mset (map frozen_key (rs_items s)) = {#(''x'', ''m'', 1, 7), (''y'', ''m'', 2, 5)#}"
    by (simp add: collation_code_unit_compare two_items_def item_key_def)
  then show ?thesis ..
qed

text \<open>
  The derivation of a pairing code returns six digits, and is unbiased: the words it accepts
  are those below 4294000000, of which each code has the same number, 4294.
\<close>

theorem pairing_codes_are_unbiased:
  assumes "enrollmentCode w = Inr c"
  shows "length c = 6 \<and> list_all is_digit c \<and> card {v. 0 \<le> v \<and> v < code_ceiling \<and> pad 6 (v mod 1000000) = c} = 4294"
proof -
  obtain v where "c = pad 6 (v mod 1000000)" using enrollmentCode_Inr [OF assms] by blast
  then show ?thesis
    using code_words_uniform [of "v mod 1000000"] list_all_digit_pad [of 6] length_pad [of 6] by simp
qed

theorem pairing_codes_are_unbiased_witness: "length ''000042'' = 6 \<and> list_all is_digit ''000042''"
proof -
  have "enrollmentCode (\<lambda>_. [4294000001, 7000042]) = Inr ''000042''"
  proof -
    have "char_of (48 :: nat) = CHR ''0''" "char_of (52 :: nat) = CHR ''4''" "char_of (50 :: nat) = CHR ''2''"
      by code_simp+
    then have "pad (Suc (Suc (Suc (Suc (Suc (Suc 0)))))) 42 = ''000042''" by simp
    then have "pad 6 42 = ''000042''" by (simp add: eval_nat_numeral)
    then show ?thesis by (simp add: enrollmentCode_def code_ceiling_def upt_conv_Cons)
  qed
  from pairing_codes_are_unbiased [OF this] show ?thesis by simp
qed

text \<open>
  The media policy accepts a list of assets exactly when every one of them is supported and
  not expired and together they are within the limit of a release.
\<close>

theorem media_policy_accepts_iff:
  "mediaPublicationFailure assets at = None \<longleftrightarrow>
    list_all (\<lambda>a. asset_supported a \<and> \<not> asset_expired a at) assets \<and>
    sum_list (map po_sizeBytes assets) \<le> MEDIA_MAX_RELEASE_BYTES"
proof
  assume "mediaPublicationFailure assets at = None"
  from media_failure_from_None [OF this [unfolded mediaPublicationFailure_def]]
  show "list_all (\<lambda>a. asset_supported a \<and> \<not> asset_expired a at) assets \<and>
    sum_list (map po_sizeBytes assets) \<le> MEDIA_MAX_RELEASE_BYTES"
    by (cases assets) (auto simp: list_all_iff MEDIA_MAX_RELEASE_BYTES_def)
next
  assume "list_all (\<lambda>a. asset_supported a \<and> \<not> asset_expired a at) assets \<and>
    sum_list (map po_sizeBytes assets) \<le> MEDIA_MAX_RELEASE_BYTES"
  then show "mediaPublicationFailure assets at = None"
    unfolding mediaPublicationFailure_def by (intro media_failure_from_complete) (auto simp: list_all_iff)
qed

text \<open>
  The schedule that sorts first has the highest priority and, among those of its priority, the
  latest start, in the order of the canonical strings the code compares (years 0 to 9999).
\<close>

theorem precedence_selects_the_latest:
  assumes "sort_by (compareSchedulePrecedence e) ks = k # rest" "collation (localeCompare e)"
    and "list_all (\<lambda>k. four_digit_year (pk_startsAt k)) ks" "k' \<in> set ks"
  shows "priority_weight (pk_priority k') \<le> priority_weight (pk_priority k) \<and>
    (pk_priority k' = pk_priority k \<longrightarrow> toISOString (pk_startsAt k') \<le> toISOString (pk_startsAt k))"
proof -
  have k: "k \<in> set ks" using assms(1) by (metis list.set_intros(1) set_sort_by)
  have "compareSchedulePrecedence e k k' \<le> 0"
    by (rule comparator.sort_by_hd_least [OF precedence_comparator [OF assms(2)] assms(1,4)])
  then have le: "priority_weight (pk_priority k') \<le> priority_weight (pk_priority k)"
    "pk_priority k' = pk_priority k \<Longrightarrow> pk_startsAt k' \<le> pk_startsAt k"
    by (auto simp: compareSchedulePrecedence_def cmp_or_def cmp_instant_def sgn_if split: if_splits)
  with toISOString_le_iff [of "pk_startsAt k'" "pk_startsAt k"] assms(3,4) k show ?thesis
    by (simp add: list_all_iff)
qed

theorem precedence_selects_the_latest_witness:
  "toISOString 0 \<le> toISOString 86400000"
proof -
  let ?e = "undefined\<lparr>localeCompare := code_unit_compare\<rparr> :: env"
  let ?a = "\<lparr>pk_id = ''a'', pk_priority = campaign, pk_startsAt = 0\<rparr>"
  let ?b = "\<lparr>pk_id = ''b'', pk_priority = campaign, pk_startsAt = 86400000\<rparr>"
  have "sort_by (compareSchedulePrecedence ?e) [?a, ?b] = ?b # [?a]"
    by (simp add: sort_by_def compareSchedulePrecedence_def cmp_or_def cmp_instant_def)
  from precedence_selects_the_latest [OF this, of ?a] show ?thesis
    by (simp add: collation_code_unit_compare four_digit_year_def year_from_day_def day_from_year_def
        ms_per_day_def Let_def)
qed

text \<open>
  The storage key of an asset determines its organization, its identifier and its checksum,
  so objects of different organizations or contents are never stored under one key.
\<close>

theorem storage_key_determines_asset:
  assumes "mediaStorageKey o1 a1 c1 = Inr k" "mediaStorageKey o2 a2 c2 = Inr k"
  shows "o1 = o2 \<and> a1 = a2 \<and> c1 = c2"
  using assms by (rule mediaStorageKey_inj)

theorem storage_key_determines_asset_witness:
  "\<exists>k. mediaStorageKey ''org'' ''a'' (replicate 64 CHR ''0'') = Inr k \<and> ''org'' = ''org''"
proof -
  obtain k where k: "mediaStorageKey ''org'' ''a'' (replicate 64 CHR ''0'') = Inr k"
    by (simp add: mediaStorageKey_def safe_segment_def is_sha256_hex_def is_lower_hex_def is_lower_def
        is_digit_def list_all_iff)
  from storage_key_determines_asset [OF k k] k show ?thesis by blast
qed

text \<open>
  Capabilities grow with the role, from viewer to publisher to administrator to owner, and no
  role holds the emergency capabilities.
\<close>

theorem capabilities_grow_with_the_role:
  assumes "r \<le> r'"
  shows "(hasCapability (Some r) c \<longrightarrow> hasCapability (Some r') c) \<and>
    \<not> hasCapability (Some r') emergencyActivate \<and> \<not> hasCapability (Some r') emergencyClear"
  using role_capabilities_mono [OF assms] hasCapability_emergency [of "Some r'"] by (auto simp: hasCapability_def)

theorem capabilities_grow_with_the_role_witness: "hasCapability (Some OWNER) releasePublish"
proof -
  have "PUBLISHER \<le> OWNER" by (simp add: less_eq_role_def)
  from capabilities_grow_with_the_role [OF this, of releasePublish] show ?thesis by (simp add: hasCapability_def)
qed

end
