(* ===== verification/Audit_Bounds.thy ===== *)
theory Audit_Bounds
  imports Audit_Log
begin

text \<open>
  What the validation of \<open>apps/api/src/audit/integrity.ts\<close> guarantees of the records it lets
  through: texts PostgreSQL can store, the limits of every field, and metadata whose JSON text
  is within the byte limit, because the estimate the code adds up bounds that text from above.
\<close>

section \<open>Texts\<close>

text \<open>
  What the validation promises of a text: no NUL, and every surrogate paired.
\<close>

definition storable_text :: "utext \<Rightarrow> bool" where
  "storable_text s \<longleftrightarrow> 0 \<notin> set s \<and>
     (\<forall>i < length s.
        (high_surrogate (s ! i) \<longrightarrow> Suc i < length s \<and> low_surrogate (s ! Suc i)) \<and>
        (low_surrogate (s ! i) \<longrightarrow> 0 < i \<and> high_surrogate (s ! (i - 1))))"

lemma surrogates_disjoint: "high_surrogate u \<Longrightarrow> \<not> low_surrogate u"
  by (simp add: high_surrogate_def low_surrogate_def)

lemma surrogate_not_0 [simp]: "\<not> high_surrogate 0" "\<not> low_surrogate 0"
  by (simp_all add: high_surrogate_def low_surrogate_def)

text \<open>The same with the unit before the text, which makes it recursive.\<close>

fun storable_after :: "nat \<Rightarrow> utext \<Rightarrow> bool" where
  "storable_after u [] \<longleftrightarrow> \<not> high_surrogate u"
| "storable_after u (v # s) \<longleftrightarrow>
     v \<noteq> 0 \<and> (high_surrogate u \<longleftrightarrow> low_surrogate v) \<and> storable_after v s"

lemma storable_after_nth:
  "storable_after u s \<longleftrightarrow> 0 \<notin> set s \<and>
    (\<forall>i \<le> length s. high_surrogate ((u # s) ! i) \<longleftrightarrow> i < length s \<and> low_surrogate (s ! i))"
  by (induction s arbitrary: u) (auto simp: All_less_Suc2 simp flip: less_Suc_eq_le)

lemma storable_text_after: "storable_text s \<longleftrightarrow> storable_after 0 s"
proof -
  have "(\<forall>i \<le> length s. high_surrogate ((0 # s) ! i) \<longleftrightarrow> i < length s \<and> low_surrogate (s ! i)) \<longleftrightarrow>
    (\<forall>i < length s.
        (high_surrogate (s ! i) \<longrightarrow> Suc i < length s \<and> low_surrogate (s ! Suc i)) \<and>
        (low_surrogate (s ! i) \<longrightarrow> 0 < i \<and> high_surrogate (s ! (i - 1))))" (is "?L \<longleftrightarrow> ?R")
  proof
    assume L: ?L
    have "high_surrogate (s ! i) \<longleftrightarrow> Suc i < length s \<and> low_surrogate (s ! Suc i)"
      "high_surrogate ((0 # s) ! i) \<longleftrightarrow> low_surrogate (s ! i)" if "i < length s" for i
      using that L [rule_format, of "Suc i"] L [rule_format, of i] by simp_all
    then show ?R by (metis nth_Cons' surrogate_not_0(1) neq0_conv)
  next
    assume R: ?R
    have "high_surrogate ((0 # s) ! i) \<longleftrightarrow> i < length s \<and> low_surrogate (s ! i)" if "i \<le> length s" for i
      using that R [rule_format, of i] R [rule_format, of "i - 1"] by (cases i) auto
    then show ?L by blast
  qed
  then show ?thesis by (simp add: storable_text_def storable_after_nth)
qed

lemma assertPostgresTextCompatible_iff:
  "assertPostgresTextCompatible s = None \<longleftrightarrow> storable_text s"
proof -
  have plain: "storable_after u s = storable_after 0 s" if "\<not> high_surrogate u" for u s
    using that by (cases s) auto
  have low: "u \<noteq> 0" "\<not> high_surrogate u" if "low_surrogate u" for u
    using that by (auto simp: high_surrogate_def low_surrogate_def)
  have "assertPostgresTextCompatible s = None \<longleftrightarrow> storable_after 0 s"
  proof (induction s rule: assertPostgresTextCompatible.induct)
    case (3 u v us)
    have "storable_after u (v # us) = storable_after 0 (v # us)" if "\<not> high_surrogate u"
      using that by (rule plain)
    moreover have "v \<noteq> 0" "storable_after v us = storable_after 0 us" if "low_surrogate v"
      using low [OF that] plain by blast+
    ultimately show ?case using 3 low(2) [of u] by auto
  qed auto
  then show ?thesis by (simp add: storable_text_after)
qed


section \<open>Metadata\<close>

text \<open>
  What the validation promises of a value at a depth: the limits hold throughout it, its texts
  are storable and it holds JSON values only.
\<close>

fun clean_json :: "nat \<Rightarrow> json \<Rightarrow> bool" where
  "clean_json d (JStr s) \<longleftrightarrow> d \<le> 8 \<and> storable_text s \<and> utf8_length s \<le> 2048"
| "clean_json d (JArr xs) \<longleftrightarrow> d \<le> 8 \<and> length xs \<le> 256 \<and> (\<forall>x \<in> set xs. clean_json (Suc d) x)"
| "clean_json d (JObj kvs) \<longleftrightarrow>
     d \<le> 8 \<and> length kvs \<le> 64 \<and> (\<forall>(k, x) \<in> set kvs. storable_text k \<and> clean_json (Suc d) x)"
| "clean_json d v \<longleftrightarrow> d \<le> 8 \<and> v \<noteq> JUndefined \<and> v \<noteq> JNonFinite"

lemma validate_clean:
  "validateJsonValue d v = Inr n \<Longrightarrow> clean_json d v"
  "validate_items d i b xs = Inr n \<Longrightarrow> \<forall>x \<in> set xs. clean_json (Suc d) x"
  "validate_entries d i b kvs = Inr n \<Longrightarrow>
    \<forall>(k, x) \<in> set kvs. storable_text k \<and> clean_json (Suc d) x"
proof (induction d v and d i b xs and d i b kvs arbitrary: n and n and n
    rule: validateJsonValue_validate_items_validate_entries.induct)
  case (1 d v)
  then show ?case
    by (cases v) (auto simp: validateJsonValue.simps [of d] audit_limits assertPostgresTextCompatible_iff
        split: if_splits option.splits)
next
  case (3 d i b x xs)
  then show ?case by (auto simp: Let_def split: sum.splits if_splits)
next
  case (5 d i b k x kvs)
  then show ?case
    by (auto simp: Let_def assertPostgresTextCompatible_iff split: sum.splits if_splits option.splits)
qed auto

lemma utf8_length_low: "low_surrogate v \<Longrightarrow> utf8_length (v # s) = 3 + utf8_length s"
  by (cases s) (auto simp: high_surrogate_def low_surrogate_def)

text \<open>Concatenating texts never lengthens their encoding.\<close>

lemma utf8_length_append: "utf8_length (s @ t) \<le> utf8_length s + utf8_length t"
proof (induction s rule: utf8_length.induct)
  case (2 u)
  then show ?case by (cases t) (auto simp: utf8_length_low)
qed auto

lemma utf8_length_Cons: "utf8_length (u # s) \<le> utf8_length [u] + utf8_length s"
  using utf8_length_append [of "[u]" s] by simp

text \<open>Numbers of the size of a double: their text has at most 330 characters.\<close>

fun double_sized :: "json \<Rightarrow> bool" where
  "double_sized (JNum i) \<longleftrightarrow> \<bar>i\<bar> < 10 ^ 309"
| "double_sized (JArr xs) \<longleftrightarrow> (\<forall>x \<in> set xs. double_sized x)"
| "double_sized (JObj kvs) \<longleftrightarrow> (\<forall>(k, x) \<in> set kvs. double_sized x)"
| "double_sized _ \<longleftrightarrow> True"

lemma utf8_length_decimal_nat: "n < 10 ^ k \<Longrightarrow> 0 < k \<Longrightarrow> utf8_length (decimal_nat n) \<le> k"
proof (induction k arbitrary: n)
  case (Suc k)
  show ?case
  proof (cases "n < 10")
    case False
    with Suc have "n div 10 < 10 ^ k" "0 < k" by (auto simp: less_mult_imp_div_less intro: gr0I)
    with Suc.IH have "utf8_length (decimal_nat (n div 10)) \<le> k" by blast
    moreover have "n mod 10 < 80" by (rule less_trans [of _ 10]) simp_all
    ultimately show ?thesis
      using False utf8_length_append [of "decimal_nat (n div 10)" "[48 + n mod 10]"]
      by (simp add: decimal_nat.simps [of n])
  qed (simp add: decimal_nat.simps [of n])
qed simp

lemma utf8_length_decimal: "\<bar>i\<bar> < 10 ^ 309 \<Longrightarrow> utf8_length (decimal i) \<le> 330"
proof -
  assume "\<bar>i\<bar> < 10 ^ 309"
  then have "nat \<bar>i\<bar> < 10 ^ 309" by (simp add: nat_less_iff)
  then have "utf8_length (decimal_nat (nat \<bar>i\<bar>)) \<le> 309" by (rule utf8_length_decimal_nat) simp
  then show ?thesis using utf8_length_Cons [of 45 "decimal_nat (nat (- i))"]
    by (auto simp: decimal_def)
qed

text \<open>The length of a list of texts joined by commas.\<close>

lemma utf8_length_join:
  "utf8_length (join_with [44] ts) \<le> sum_list (map utf8_length ts) + (length ts - 1)"
proof (induction "[44 :: nat]" ts rule: join_with.induct)
  case (3 x y xs)
  then show ?case
    using utf8_length_append [of x "44 # join_with [44] (y # xs)"]
      utf8_length_Cons [of 44 "join_with [44] (y # xs)"] by simp
qed auto


text \<open>The estimate is an upper bound of the bytes of the value's text.\<close>

definition entry_text :: "utext \<times> json \<Rightarrow> utext" where
  "entry_text kv = quote_json (fst kv) @ [58] @ stringify (snd kv)"

lemma utf8_length_entry:
  "utf8_length (entry_text (k, x)) \<le> utf8_length (quote_json k) + 1 + utf8_length (stringify x)"
  using utf8_length_append [of "quote_json k" "58 # stringify x"] utf8_length_Cons [of 58 "stringify x"]
  by (simp add: entry_text_def)

lemma stringify_object:
  "\<forall>(k, x) \<in> set kvs. storable_text k \<and> clean_json d x \<Longrightarrow>
    stringify (JObj kvs) = [123] @ join_with [44] (map entry_text kvs) @ [125]"
proof -
  assume "\<forall>(k, x) \<in> set kvs. storable_text k \<and> clean_json d x"
  then have "filter (\<lambda>(k, x). x \<noteq> JUndefined) kvs = kvs" by (intro filter_True) auto
  moreover have "entry_text = (\<lambda>(k, x). quote_json k @ [58] @ stringify x)"
    by (auto simp: entry_text_def)
  ultimately show ?thesis by (simp only: stringify.simps)
qed

lemma utf8_length_bracketed:
  assumes "l < 128" "r < 128"
  shows "utf8_length ([l] @ join_with [44] ts @ [r]) \<le> 2 + (sum_list (map utf8_length ts) + (length ts - 1))"
  using assms utf8_length_Cons [of l "join_with [44] ts @ [r]"] utf8_length_append [of "join_with [44] ts" "[r]"]
    utf8_length_join [of ts] by simp

lemma estimate_bounds_text:
  "validateJsonValue d v = Inr n \<Longrightarrow> double_sized v \<Longrightarrow> utf8_length (stringify v) \<le> n"
  "validate_items d i b xs = Inr n \<Longrightarrow> \<forall>x \<in> set xs. double_sized x \<Longrightarrow>
    b + sum_list (map (\<lambda>x. utf8_length (stringify x)) xs) + (length xs - (if i = 0 then 1 else 0)) \<le> n"
  "validate_entries d i b kvs = Inr n \<Longrightarrow> \<forall>(k, x) \<in> set kvs. double_sized x \<Longrightarrow>
    b + sum_list (map (\<lambda>kv. utf8_length (entry_text kv)) kvs) + (length kvs - (if i = 0 then 1 else 0)) \<le> n"
proof (induction d v and d i b xs and d i b kvs arbitrary: n and n and n
    rule: validateJsonValue_validate_items_validate_entries.induct)
  case (1 d v)
  note def = validateJsonValue.simps [of d]
  show ?case
  proof (cases v)
    case (JArr xs)
    with 1 have "2 + sum_list (map (\<lambda>x. utf8_length (stringify x)) xs) + (length xs - 1) \<le> n"
      by (auto simp: def split: if_splits)
    with JArr utf8_length_bracketed [of 91 93 "map stringify xs"] show ?thesis by (simp add: comp_def)
  next
    case (JObj kvs)
    with 1 have "2 + sum_list (map (\<lambda>kv. utf8_length (entry_text kv)) kvs) + (length kvs - 1) \<le> n"
      by (auto simp: def split: if_splits)
    moreover have "\<forall>(k, x) \<in> set kvs. storable_text k \<and> clean_json (Suc d) x"
      using validate_clean(1) [OF 1(3)] JObj by simp
    ultimately show ?thesis
      using JObj utf8_length_bracketed [of 123 125 "map entry_text kvs"] stringify_object [of kvs "Suc d"]
      by (simp add: comp_def)
  qed (use 1(3,4) utf8_length_decimal in \<open>auto simp: def js_def split: if_splits option.splits\<close>)
next
  case (3 d i b x xs)
  then show ?case by (fastforce simp: Let_def split: sum.splits if_splits)
next
  case (5 d i b k x kvs)
  then show ?case using utf8_length_entry [of k x]
    by (fastforce simp: Let_def split: sum.splits if_splits option.splits)
qed auto

section \<open>Events\<close>

text \<open>What an accepted audit event satisfies.\<close>

definition bounded_text :: "string option \<Rightarrow> nat \<Rightarrow> bool" where
  "bounded_text v m \<longleftrightarrow> (case v of None \<Rightarrow> True
     | Some s \<Rightarrow> 1 \<le> length s \<and> length s \<le> m \<and> storable_text (js s))"

lemma assertBoundedString_iff:
  "assertBoundedString v m opt = None \<longleftrightarrow> bounded_text v m \<and> (v = None \<longrightarrow> opt)"
  by (cases v) (auto simp: assertBoundedString_def bounded_text_def assertPostgresTextCompatible_iff Suc_le_eq)

lemma first_error_None: "first_error xs = None \<longleftrightarrow> (\<forall>x \<in> set xs. x = None)"
  by (induction xs rule: first_error.induct) auto

lemma accepted_event:
  assumes "assertAuditEventIntegrity ev = None"
  shows "bounded_text (Some (au_actorType ev)) 32" "bounded_text (Some (au_action ev)) 96"
    "bounded_text (Some (au_entityType ev)) 64" "bounded_text (au_entityId ev) 256"
    "bounded_text (au_ipAddress ev) 64" "bounded_text (au_requestId ev) 128"
    "clean_json 0 (au_metadata ev)" "\<exists>kvs. au_metadata ev = JObj kvs"
    "double_sized (au_metadata ev) \<Longrightarrow> utf8_length (stringify (au_metadata ev)) \<le> 16384"
proof -
  from assms obtain n where n: "validateJsonValue 0 (au_metadata ev) = Inr n" "n \<le> 16384"
    and o: "is_json_object (au_metadata ev)"
    by (auto simp: assertAuditEventIntegrity_def audit_limits split: option.splits if_splits sum.splits)
  show "bounded_text (Some (au_actorType ev)) 32" "bounded_text (Some (au_action ev)) 96"
    "bounded_text (Some (au_entityType ev)) 64" "bounded_text (au_entityId ev) 256"
    "bounded_text (au_ipAddress ev) 64" "bounded_text (au_requestId ev) 128"
    using assms by (simp_all add: assertAuditEventIntegrity_def first_error_None assertBoundedString_iff
        audit_limits split: option.splits)
  show "clean_json 0 (au_metadata ev)" using n(1) by (rule validate_clean(1))
  show "\<exists>kvs. au_metadata ev = JObj kvs" using o by (auto simp: is_json_object_def split: json.splits)
  show "utf8_length (stringify (au_metadata ev)) \<le> 16384" if "double_sized (au_metadata ev)"
    using estimate_bounds_text(1) [OF n(1) that] n(2) by simp
qed

section \<open>Properties\<close>

text \<open>
  The scan for text PostgreSQL cannot store accepts exactly the texts without U+0000 whose
  surrogates all come in pairs.
\<close>

theorem accepted_text_is_storable: "assertPostgresTextCompatible s = None \<longleftrightarrow> storable_text s"
  by (rule assertPostgresTextCompatible_iff)

text \<open>
  An audit record that is built has every field within its limit, its metadata is a JSON
  object within the limits of depth, keys, items and strings, and the UTF-8 encoding of its JSON
  text, numbers being of the size of a double, has at most 16384 bytes.
\<close>

theorem built_record_is_bounded:
  assumes "buildAuditRecord e k ev = Inr r" "double_sized (au_metadata ev)"
  shows "clean_json 0 (au_metadata r) \<and> (\<exists>kvs. au_metadata r = JObj kvs) \<and>
    utf8_length (stringify (au_metadata r)) \<le> 16384 \<and>
    bounded_text (Some (au_actorType ev)) 32 \<and> bounded_text (Some (au_action r)) 96 \<and>
    bounded_text (Some (au_entityType ev)) 64 \<and> bounded_text (au_entityId r) 256 \<and>
    bounded_text (au_ipAddress ev) 64 \<and> bounded_text (au_requestId ev) 128"
proof -
  have "assertAuditEventIntegrity ev = None"
    and "r = audit_event.extend ev (audit_record.fields (new_id e k) (now e))"
    using buildAuditRecord_fields [OF assms(1)] by simp_all
  with accepted_event [of ev] assms(2) show ?thesis by simp
qed

definition sample_event :: audit_event where
  "sample_event = user_event ''org'' \<lparr>ac_actorUserId = ''ann'', ac_ipAddress = None, ac_requestId = Some ''r1''\<rparr>
     ''screen.update'' ''screen'' (Some ''s1'') [(js ''count'', JNum 3), (js ''names'', JArr [jstr ''a''])]"

theorem built_record_is_bounded_witness:
  "utf8_length (stringify (au_metadata sample_event)) \<le> 16384"
proof -
  have "\<exists>r. buildAuditRecord e 0 sample_event = Inr r \<and> au_metadata r = au_metadata sample_event" for e :: env
    by (simp add: buildAuditRecord_def immutableAuditRecord_def assertAuditEventIntegrity_def sample_event_def
        user_event_def assertBoundedString_def audit_limits when_truthy_def js_def high_surrogate_def
        low_surrogate_def is_json_object_def validateJsonValue.simps quote_json_def quote_unit_def Let_def)
  then obtain r where r: "buildAuditRecord undefined 0 sample_event = Inr r"
    "au_metadata r = au_metadata sample_event" by blast
  have "double_sized (au_metadata sample_event)" by (simp add: sample_event_def user_event_def)
  with r(2) built_record_is_bounded [OF r(1)] show ?thesis by simp
qed

end
