(* ===== verification/Device_Laws.thy ===== *)
theory Device_Laws
  imports Store_Laws
begin

text \<open>
  Histories of device credentials: whatever operations run, a credential is never attached again
  once it is detached, and no credential gets the identifier of an old one, so a revocation is
  permanent.
\<close>

section \<open>What a step does to the credentials\<close>

definition credentials_step ::
  "env \<Rightarrow> device_credential list \<Rightarrow> device_credential list \<Rightarrow> bool" where
  "credentials_step e cs cs' \<longleftrightarrow> (\<forall>c' \<in> set cs'. dc_id c' \<in> range (new_id e) \<or>
     (\<exists>c \<in> set cs. dc_id c' = dc_id c \<and> dc_keyId c' = dc_keyId c \<and> dc_screenId c' = dc_screenId c \<and>
        (dc_detached c \<longrightarrow> dc_detached c')))"

lemma credentials_step_same [simp]: "credentials_step e cs cs"
  by (auto simp: credentials_step_def)

lemma credentials_step_detach [simp]:
  assumes "only_detaches f"
  shows "credentials_step e cs (map f cs)"
proof -
  have "dc_id (f c) = dc_id c \<and> dc_keyId (f c) = dc_keyId c \<and> dc_screenId (f c) = dc_screenId c \<and>
      (dc_detached c \<longrightarrow> dc_detached (f c))" for c
    using assms unfolding only_detaches_def by metis
  then show ?thesis by (auto simp: credentials_step_def)
qed

lemma credentials_step_new [simp]:
  "credentials_step e cs (cs @ [new_credential (new_id e k) org x a t])"
  by (auto simp: credentials_step_def)

lemma credentials_step_first [simp]:
  "credentials_step e cs (update_first P (\<lambda>c. c\<lparr>dc_revokedAt := r, dc_detached := True\<rparr>) cs)"
  by (auto simp: credentials_step_def elim!: in_update_firstE dest!: find_SomeD)

lemma credentials_step_where [simp]:
  "credentials_step e cs (update_where P (\<lambda>c. c\<lparr>dc_detached := True, dc_revokedAt := r c\<rparr>) cs)"
  by (auto simp: credentials_step_def elim!: in_update_whereE)

lemma screen_step_retires:
  "screen_step e s s' \<Longrightarrow> credentials_step e (deviceCredentials s) (deviceCredentials s')"
  by (induction rule: screen_step.induct) (auto simp: screen_ops Let_def split: split_cases)

lemma device_step_retires:
  assumes "device_step e s s'"
  shows "credentials_step e (deviceCredentials s) (deviceCredentials s')"
  using assms
proof cases
  case (code_created org h t audit pres)
  then show ?thesis by (auto simp: tryCreatePairingAndAudit_def Let_def split: split_cases)
next
  case (reenrollment_requested org i h t reason audit pres)
  from request_reenrollment_cases [OF this] show ?thesis
    by (auto simp: grant_reenrollment_effect)
next
  case (enrollment_requested org i reason audit idem eres)
  then show ?thesis
    by (auto simp: requestScreenEnrollmentAndAudit_def Let_def
        dest!: replay_enrollment_request_cases split: split_cases)
next
  case (reenrollment_activated org i g c audit ares)
  from activate_reenroll_cases [OF this] show ?thesis by (auto simp: reenroll_screen_effect)
next
  case (enrollment_activated org i g c f audit h d bres)
  from activate_enroll_cases [OF this] show ?thesis by (auto simp: enroll_screen_effect)
next
  case (grant_cancelled org i g audit purpose ures)
  then show ?thesis by (auto simp: cancelScreenReenrollmentAndAudit_def Let_def split: split_cases)
next
  case (code_claimed h dev tok caudit xres)
  obtain res1 s1 where c: "claimPairingRecord e (new_id e 0) h dev tok s = (res1, s1)" by fastforce
  have "s' = s \<or> s' = s1 \<or> (\<exists>rs. s' = s1\<lparr>auditRecords := rs\<rparr>)"
    using code_claimed c by (auto simp: claimPairingAndAudit_def split: split_cases)
  with claimRecord_effect [OF c] show ?thesis by auto
next
  case (pairing_challenged pinput hres)
  then show ?thesis by (auto simp: issuePairingChallenge_def Let_def split: split_cases)
next
  case (credential_claimed cinput verify caudit cres)
  then show ?thesis
  proof (cases rule: claim_cases)
    case (Proved a p)
    then show ?thesis by (auto dest!: prove_candidate_cases)
  next
    case (Pair a p)
    from pairNewScreen_effect [OF Pair(10)] show ?thesis by (auto simp: Let_def)
  qed auto
next
  case (device_challenged iinput ires)
  then show ?thesis by (cases rule: issue_challenge_cases) auto
next
  case (proof_finished dinput active fres)
  then show ?thesis by (auto simp: finish_proof_def split: prod.splits split_cases)
next
  case (heartbeat_recorded data x)
  then show ?thesis by (auto simp: record_heartbeat_def)
next
  case (credential_revoked org i audit rres)
  then show ?thesis
    by (auto simp: revokeDeviceCredentialAndAudit_def reassert_revocation_def revoke_credential_def
        Let_def split: split_cases)
qed

lemma store_step_retires:
  assumes "store_step e s s'"
  shows "credentials_step e (deviceCredentials s) (deviceCredentials s')"
  using assms
proof cases
  case identity
  then show ?thesis by (simp add: identity_frame_fields [OF identity_step_frame])
next
  case content
  then show ?thesis by (simp add: content_frame_fields [OF content_step_frame])
next
  case emergency
  then show ?thesis by (auto dest: emergency_step_effect)
next
  case release
  then show ?thesis by (simp add: release_frame_fields [OF release_step_frame])
qed (simp_all add: screen_step_retires device_step_retires)

section \<open>A retired credential stays retired\<close>

definition retired :: "store \<Rightarrow> string \<Rightarrow> bool" where
  "retired s i \<longleftrightarrow> (\<forall>c \<in> set (deviceCredentials s). dc_id c = i \<longrightarrow> dc_detached c)"

interpretation retirement: step_invariant "\<lambda>H t D s. i \<in> D \<and> retired s i" for i
proof unfold_locales
  fix H t D s e s'
  assume i: "i \<in> D \<and> retired s i" and env: "step_env H t D e" and step: "store_step e s s'"
  then have "new_id e k \<noteq> i" for k by (auto simp: step_env_def)
  with store_step_retires [OF step] i
  show "i \<in> D \<union> range (new_id e) \<and> retired s' i"
    by (fastforce simp: retired_def credentials_step_def)
qed

text \<open>A credential keeps its screen and its key.\<close>

definition bound_to :: "store \<Rightarrow> string \<Rightarrow> string \<Rightarrow> string \<Rightarrow> bool" where
  "bound_to s i x k \<longleftrightarrow>
     (\<forall>c \<in> set (deviceCredentials s). dc_id c = i \<longrightarrow> dc_screenId c = x \<and> dc_keyId c = k)"

interpretation binding: step_invariant "\<lambda>H t D s. i \<in> D \<and> bound_to s i x k" for i x k
proof unfold_locales
  fix H t D s e s'
  assume i: "i \<in> D \<and> bound_to s i x k" and env: "step_env H t D e" and step: "store_step e s s'"
  then have "new_id e n \<noteq> i" for n by (auto simp: step_env_def)
  with store_step_retires [OF step] i
  show "i \<in> D \<union> range (new_id e) \<and> bound_to s' i x k"
    by (fastforce simp: bound_to_def credentials_step_def)
qed

lemma retired_is_inactive: "retired s i \<Longrightarrow> activeDeviceCredential e s i = None"
  by (auto simp: activeDeviceCredential_def retired_def credential_live_def find_None_iff
      split: option.splits dest: find_SomeD)

lemma credential_is_drawn:
  "system_inv H t D s \<Longrightarrow> c \<in> set (deviceCredentials s) \<Longrightarrow> dc_id c \<in> D"
  by (auto simp: system_inv_def device_ids_def credential_ids_def)

end
