(* ===== verification/Device_Samples.thy ===== *)
theory Device_Samples
  imports Samples Device_Laws
begin

text \<open>
  A device of the sample organization, for the witnesses of the device properties: bob creates a
  pairing code, a device proves its key and is bound to a new screen, asks for a challenge,
  consumes it, and ann revokes its credential.  Step \<open>n\<close> runs \<open>n\<close> seconds after the epoch.
\<close>

section \<open>Pairing\<close>

definition code1 :: pairing where
  "code1 = plain_pairing ''i-'' ''org'' sample_digest 100000"

abbreviation dop1 :: "(exn + pairing answer) \<times> store" where
  "dop1 \<equiv> tryCreatePairingAndAudit (sample_env 1) ''org'' sample_digest 100000 (by_user ''bob'') (start_store sample_users)"

definition dlog1 :: "audit_record list" where "dlog1 = auditRecords (snd dop1)"

definition dstore1 :: store where
  "dstore1 = empty_store\<lparr>users := sample_users, pairings := [code1], auditRecords := dlog1\<rparr>"

lemma timestamp: "toISOString 100000 = ''1970-01-01T00:01:40.000Z''"
proof -
  have "char_of (48 :: nat) = CHR ''0''" "char_of (49 :: nat) = CHR ''1''" "char_of (52 :: nat) = CHR ''4''"
    "char_of (55 :: nat) = CHR ''7''" "char_of (57 :: nat) = CHR ''9''" by code_simp+
  moreover have "civil_from_day 0 = (1970, 1, 1)"
    by (simp add: civil_from_day_def year_from_day_def day_from_year_def month_from_day_in_year_def
        month_start_def leap_year_def Let_def)
  ultimately show ?thesis
    by (simp add: toISOString_def iso_date_def iso_time_def ms_per_day_def eval_nat_numeral)
qed

lemma dstep1: "dop1 = (Inr (Done code1), dstore1)"
  unfolding dstore1_def dlog1_def
  by (simp add: tryCreatePairingAndAudit_def timestamp text_eval user_eval code1_def sample_env_def plain_pairing_def
      live_code_def expired_code_def update_where_def)

definition key1 :: string where "key1 = replicate 43 CHR ''A''"

definition spki1 :: string where "spki1 = replicate 122 CHR ''A''"

definition enrollment1 :: credential_enrollment where
  "enrollment1 = \<lparr>dc_keyId = key1, dc_publicKeySpki = spki1, dc_securityLevel = strongbox, dc_expiresAt = None\<rparr>"

definition challenge_request :: pairing_challenge_input where
  "challenge_request = \<lparr>pc_codeHash = sample_digest, pc_credential = enrollment1,
     pc_challengeHashSha256 = sample_digest, pc_transcriptDigestSha256 = sample_digest, pc_expiresAt = 30000\<rparr>"

definition attempt2 :: pairing_attempt where
  "attempt2 = \<lparr>pa_id = ''ii-'', pa_organizationId = ''org'', pa_pairingCodeId = ''i-'', pa_keyId = key1,
     pa_publicKeySpki = spki1, pa_securityLevel = strongbox, pa_credentialExpiresAt = None,
     pa_challengeHashSha256 = sample_digest, pa_transcriptDigestSha256 = sample_digest,
     pa_expiresAt = 30000, pa_consumedAt = None, pa_provedAt = None, pa_activatedAt = None,
     pa_cancelledAt = None, pa_installationId = None, pa_model = None, pa_osVersion = None,
     pa_playerVersion = None, pa_boundCredentialId = None, pa_createdAt = 2000\<rparr>"

definition dstore2 :: store where
  "dstore2 = dstore1\<lparr>pairingAttempts := [attempt2]\<rparr>"

lemma key1_id: "is_key_id key1"
  by (simp add: is_key_id_def key1_def list_all_iff is_digit_def is_lower_def is_upper_def)

lemma sample_digest_hex: "is_sha256_hex sample_digest"
  by (simp add: is_sha256_hex_def sample_digest_def list_all_iff is_lower_hex_def is_digit_def)

lemma dstep2: "issuePairingChallenge (sample_env 2) challenge_request dstore1 = (Some attempt2, dstore2)"
  by (simp add: issuePairingChallenge_def challenge_refused_def challenge_issuer_current_def key_used_def
      dstore1_def dstore2_def empty_store_def code1_def plain_pairing_def live_code_def challenge_request_def
      enrollment1_def attempt2_def key1_id sample_digest_hex ids Let_def
      replicate_numeral)

section \<open>A bound credential\<close>

definition claim1 :: claim_input where
  "claim1 = \<lparr>cl_codeHash = sample_digest, cl_pairingAttemptId = ''ii-'', cl_challengeHashSha256 = sample_digest,
     cl_transcriptDigestSha256 = sample_digest, cl_keyId = key1,
     cl_device = \<lparr>dm_installationId = key1, dm_model = ''m'', dm_osVersion = ''1'', dm_playerVersion = ''2''\<rparr>\<rparr>"

definition claim_audit :: claim_audit_context where
  "claim_audit = \<lparr>ca_ipAddress = None, ca_requestId = None, ca_metadata = []\<rparr>"

definition dscreen :: screen where
  "dscreen = device_screen ''iii-'' ''org'' (cl_device claim1) None 3000"

definition dcredential :: device_credential where
  "dcredential = new_credential ''iii-k'' ''org'' ''iii-'' attempt2 3000"

abbreviation dop3 :: "(exn + claim_result) \<times> store" where
  "dop3 \<equiv> claimPairingWithCredentialAndAudit (sample_env 3) claim1 (\<lambda>c. dc_keyId c = key1) claim_audit dstore2"

definition dlog3 :: "audit_record list" where "dlog3 = auditRecords (snd dop3)"

definition dstore3 :: store where
  "dstore3 = dstore2\<lparr>screens := [dscreen], deviceCredentials := [dcredential], usedDeviceKeyIds := [key1],
     pairings := [code1\<lparr>pr_status := CLAIMED, pr_screenId := Some ''iii-''\<rparr>],
     pairingAttempts := [attempt2\<lparr>pa_consumedAt := Some 3000, pa_boundCredentialId := Some ''iii-k''\<rparr>],
     auditRecords := dlog3\<rparr>"

lemma paired_event:
  "assertAuditEventIntegrity (device_event ''org'' claim_audit ''device.paired'' ''iii-''
      [(js ''installationId'', jstr key1), (js ''credentialId'', jstr ''iii-k''), (js ''keyId'', jstr key1)]) = None"
  by (simp add: text_eval device_event_def claim_audit_def key1_def)

lemma dcredential_fields:
  "dc_keyId dcredential = key1" "dc_id dcredential = ''iii-k''" "dc_organizationId dcredential = ''org''"
  "dc_screenId dcredential = ''iii-''" "dc_detached dcredential = False" "dc_revokedAt dcredential = None"
  "dc_expiresAt dcredential = None" "sc_id dscreen = ''iii-''" "sc_organizationId dscreen = ''org''"
  by (simp_all add: dcredential_def new_credential_def attempt2_def dscreen_def device_screen_def)

lemma dids: "new_id (sample_env 3) 0 = ''iii-''" "new_id (sample_env 3) (Suc 0) = ''iii-k''"
  "new_id (sample_env 4) 0 = ''iiii-''"
  by (simp_all add: ids replicate_numeral)

lemma dstep3: "\<exists>y. dop3 = (Inr (Paired dcredential y), dstore3)"
proof -
  have pair: "dop3 = pair_new_screen (sample_env 3) claim1 claim_audit attempt2 code1 dstore2"
    by (simp add: claimPairingWithCredentialAndAudit_def dstore2_def dstore1_def empty_store_def attempt2_def
        claim1_def claim_pairing_of_def code1_def plain_pairing_def claim_matches_def enrollment_of_attempt_def
        already_bound_def)
  have x: "device_screen ''iii-'' ''org'' (cl_device claim1) None 3000 = dscreen"
    "new_credential ''iii-k'' ''org'' ''iii-'' attempt2 3000 = dcredential"
    "dm_installationId (cl_device claim1) = key1" "ca_metadata claim_audit = []"
    "pr_organizationId code1 = ''org''"
    by (simp_all add: dscreen_def dcredential_def claim1_def claim_audit_def code1_def plain_pairing_def)
  obtain y r where "dop3 = (Inr (Paired dcredential y), dstore2\<lparr>screens := [dscreen],
     deviceCredentials := [dcredential], usedDeviceKeyIds := [key1],
     pairings := [code1\<lparr>pr_status := CLAIMED, pr_screenId := Some ''iii-''\<rparr>],
     pairingAttempts := [attempt2\<lparr>pa_consumedAt := Some 3000, pa_boundCredentialId := Some ''iii-k''\<rparr>],
     auditRecords := auditRecords dstore2 @ [r]\<rparr>)"
    unfolding pair pair_new_screen_def
    by (simp add: dids x dcredential_fields built [OF paired_event] Let_def)
      (simp add: built [OF paired_event] dstore2_def dstore1_def empty_store_def claim_pairing_of_def
        claim1_def code1_def plain_pairing_def attempt2_def)
  then show ?thesis by (simp add: dstore3_def dlog3_def)
qed

section \<open>A challenge and its proof\<close>

definition challenge4 :: device_challenge where
  "challenge4 = \<lparr>ch_id = ''iiii-'', ch_organizationId = ''org'', ch_credentialId = ''iii-k'',
     ch_challengeHashSha256 = sample_digest, ch_operation = Op_heartbeat,
     ch_requestDigestSha256 = sample_digest, ch_expiresAt = 50000, ch_consumedAt = None, ch_createdAt = 4000\<rparr>"

definition dstore4 :: store where
  "dstore4 = dstore3\<lparr>deviceAuthChallenges := [challenge4]\<rparr>"

definition challenge4_input :: challenge_input where
  "challenge4_input = \<lparr>ic_screenId = ''iii-'', ic_keyId = key1, ic_challengeHashSha256 = sample_digest,
     ic_operation = Op_heartbeat, ic_requestDigestSha256 = sample_digest, ic_expiresAt = 50000\<rparr>"

lemma dstore3_fields:
  "screens dstore3 = [dscreen]" "deviceCredentials dstore3 = [dcredential]" "deviceAuthChallenges dstore3 = []"
  "users dstore3 = sample_users" "usedDeviceKeyIds dstore3 = [key1]"
  "pairings dstore3 = [code1\<lparr>pr_status := CLAIMED, pr_screenId := Some ''iii-''\<rparr>]"
  "pairingAttempts dstore3 = [attempt2\<lparr>pa_consumedAt := Some 3000, pa_boundCredentialId := Some ''iii-k''\<rparr>]"
  by (simp_all add: dstore3_def dstore2_def dstore1_def empty_store_def)

lemma dactive:
  "deviceCredentials s = [dcredential] \<Longrightarrow> screens s = [dscreen] \<Longrightarrow>
    activeDeviceCredential e s ''iii-k'' = Some (dcredential, dscreen)"
  by (simp add: activeDeviceCredential_def credential_live_def screen_of_def is_screen_def dcredential_fields)

lemma dstep4: "issueDeviceAuthChallenge (sample_env 4) challenge4_input dstore3 = (Some challenge4, dstore4)"
  by (simp add: issueDeviceAuthChallenge_def authenticateDeviceCredential_def challenge4_input_def dactive
      dstore3_fields dcredential_fields auth_challenge_refused_def sample_digest_hex Let_def dids challenge4_def
      dstore4_def pruneOldDeviceAuthChallenges_def batch_def sort_by_def)

definition proof5 :: device_proof_input where
  "proof5 = \<lparr>dp_credentialId = ''iii-k'', dp_challengeId = ''iiii-'', dp_challengeHashSha256 = sample_digest,
     dp_operation = Op_heartbeat, dp_requestDigestSha256 = sample_digest\<rparr>"

definition dstore5 :: store where
  "dstore5 = dstore4\<lparr>deviceAuthChallenges := [challenge4\<lparr>ch_consumedAt := Some 5000\<rparr>]\<rparr>"

lemma dstore4_fields:
  "screens dstore4 = [dscreen]" "deviceCredentials dstore4 = [dcredential]"
  "deviceAuthChallenges dstore4 = [challenge4]" "users dstore4 = sample_users"
  by (simp_all add: dstore4_def dstore3_fields)

lemma dmatches: "ch_id challenge4 = ''iiii-''" "ch_credentialId challenge4 = ''iii-k''"
  "ch_organizationId challenge4 = ''org''" "t < 50000 \<Longrightarrow> challenge_matches proof5 t challenge4"
  by (simp_all add: challenge4_def challenge_matches_def proof5_def)

lemma dbegin5: "begin_proof (sample_env 5) proof5 dstore4 = Some (dcredential, dscreen, challenge4)"
  using dmatches by (simp add: begin_proof_def proof5_def [THEN arg_cong, of dp_credentialId]
      proof5_def [THEN arg_cong, of dp_challengeId] dactive dstore4_fields dcredential_fields)

lemma dstep5:
  "finish_proof (sample_env 5) proof5 (dcredential, dscreen, challenge4) dstore4 = (Some (dcredential, dscreen), dstore5)"
  using dmatches by (simp add: finish_proof_def proof5_def [THEN arg_cong, of dp_credentialId]
      proof5_def [THEN arg_cong, of dp_challengeId] dactive dstore4_fields dcredential_fields dstore5_def
      same_credential_def same_screen_def same_challenge_def)

section \<open>Its revocation\<close>

abbreviation dop6 :: "(exn + device_credential option answer) \<times> store" where
  "dop6 \<equiv> revokeDeviceCredentialAndAudit (sample_env 6) ''org'' ''iii-'' (by_user ''ann'') dstore5"

definition dlog6 :: "audit_record list" where "dlog6 = auditRecords (snd dop6)"

definition revoked6 :: device_credential where
  "revoked6 = dcredential\<lparr>dc_revokedAt := Some 6000, dc_detached := True\<rparr>"

definition dstore6 :: store where "dstore6 = snd dop6"

lemma sample_revocation:
  assumes fs: "screens s = [dscreen]" "deviceCredentials s = [dcredential]" "users s = sample_users"
  shows "fst (revokeDeviceCredentialAndAudit (sample_env 6) ''org'' ''iii-'' (by_user ''ann'') s) =
    Inr (Done (Some revoked6))"
proof -
  have ev: "assertAuditEventIntegrity (user_event ''org'' (by_user ''ann'') ''device.credential.revoked''
      ''device_credential'' (Some ''iii-k'') [(js ''screenId'', jstr ''iii-''), (js ''keyId'', jstr key1)]) = None"
    by (simp add: text_eval key1_def)
  have "adminActor s ''org'' (ac_actorUserId (by_user ''ann'')) \<noteq> None"
    by (simp add: adminActor_def activeActor_def findSessionUser_def fs sample_users_def sample_user_def by_user_def)
  then show ?thesis
    by (simp add: revokeDeviceCredentialAndAudit_def screen_of_def is_screen_def fs dcredential_fields
        credential_to_revoke_def attached_def credential_of_screen_def revoke_credential_def
        built [OF ev] Let_def revoked6_def)
qed

lemma dstep6: "dop6 = (Inr (Done (Some revoked6)), dstore6)"
proof -
  have "fst dop6 = Inr (Done (Some revoked6))"
    by (rule sample_revocation) (simp_all add: dstore5_def dstore4_fields)
  then show ?thesis by (simp add: dstore6_def prod_eq_iff)
qed

section \<open>All of it is a run\<close>

lemma device_run:
  "sample_reachable 2 dstore2" "sample_reachable 4 dstore4" "sample_reachable 5 dstore5"
  "sample_reachable 6 dstore6" "sample_reachable 3 dstore3"
proof -
  from sample_reachable_step [OF sample_start _ store_step.device [OF device_step.code_created [OF dstep1]]]
  have "sample_reachable 1 dstore1" by simp
  from sample_reachable_step [OF this _ store_step.device [OF device_step.pairing_challenged [OF dstep2]]]
  show 2: "sample_reachable 2 dstore2" by simp
  obtain y where y: "dop3 = (Inr (Paired dcredential y), dstore3)" using dstep3 by blast
  from sample_reachable_step [OF 2 _ store_step.device [OF device_step.credential_claimed [OF y]]]
  show 3: "sample_reachable 3 dstore3" by simp
  from sample_reachable_step [OF 3 _ store_step.device [OF device_step.device_challenged [OF dstep4]]]
  show 4: "sample_reachable 4 dstore4" by simp
  from sample_reachable_step [OF 4 _ store_step.device [OF device_step.proof_finished [OF dstep5]]]
  show 5: "sample_reachable 5 dstore5" by simp
  from sample_reachable_step [OF 5 _ store_step.device [OF device_step.credential_revoked [OF dstep6]]]
  show "sample_reachable 6 dstore6" by simp
qed

end
