(* ===== verification/Store_Properties.thy ===== *)
theory Store_Properties
  imports Device_Samples
begin

text \<open>
  The properties of identity, content and the audit log over histories of the store: what ends a
  user's authority ends it at once, an organization keeps an owner, references resolve, nothing is
  ever removed from the log.  The last one shows an operation that is not atomic.
\<close>

section \<open>Identity\<close>

text \<open>An operation that took authority from the user in the organization.\<close>

definition authority_withdrawn :: "env \<Rightarrow> string \<Rightarrow> string \<Rightarrow> store \<Rightarrow> store \<Rightarrow> bool" where
  "authority_withdrawn e org i s s' \<longleftrightarrow>
     (\<exists>hash audit v. rotateUserPasswordAndAudit e i hash audit s = (Inr (Done v), s')) \<or>
     (\<exists>audit v. disableUserAndAudit e i audit s = (Inr (Done v), s')) \<or>
     (\<exists>role audit v. changeMembershipRoleAndAudit e org i role audit s = (Inr (Done v), s')) \<or>
     (\<exists>audit v. removeMembershipAndAudit e org i audit s = (Inr (Done v), s'))"

text \<open>
  C26: when a user's password is rotated, the user is disabled, or the role is changed or the
  membership removed, every session of the user in the organization ends, and every pending
  pairing or enrollment grant the member issued there is revoked.
\<close>

theorem lost_authority_ends_sessions:
  assumes "authority_withdrawn e org i s s'" "list_ex (is_membership org i) (users s)"
  shows "findActiveUserSession e' s' i org token = None \<and> grants_pending_for s' org i = []"
proof -
  obtain u where u: "u \<in> set (memberships_of s i)" "u_organizationId u = org"
    using assms(2) by (auto simp: list_ex_iff is_membership_def memberships_of_def)
  have "(\<exists>f. memberships_mutated e i f s s') \<or> (\<exists>f. membership_mutated e org i f s s')"
    using assms(1) unfolding authority_withdrawn_def
    by (elim disjE exE) (blast dest: rotateUserPassword_Done disableUser_Done(1) changeMembershipRole_cases
        removeMembership_cases)+
  then show ?thesis
  proof (elim disjE exE)
    fix f assume m: "memberships_mutated e i f s s'"
    from memberships_mutated_sessions [OF m] memberships_mutated_grants [OF m u(1)] show ?thesis
      by (simp add: u(2))
  next
    fix f assume m: "membership_mutated e org i f s s'"
    from membership_mutated_sessions [OF m] membership_mutated_grants [OF m] show ?thesis by simp
  qed
qed

definition sample_reason :: system_audit_context where
  "sample_reason = \<lparr>sy_reason = ''left'', sy_requestId = None\<rparr>"

theorem lost_authority_ends_sessions_witness:
  "\<exists>v s'. disableUserAndAudit (sample_env 1) ''bob'' sample_reason (start_store sample_users) = (Inr (Done v), s') \<and>
     findActiveUserSession (sample_env 1) s' ''bob'' ''org'' ''t'' = None"
proof -
  let ?s = "start_store sample_users"
  have m: "memberships_of ?s ''bob'' = [sample_user ''bob'' ADMIN]" "list_ex (is_membership ''org'' ''bob'') (users ?s)"
    by (simp_all add: memberships_of_def start_store_def empty_store_def sample_users_def sample_user_def is_membership_def)
  have ev: "assertAuditEventIntegrity (identity_event ''org'' ''identity.user_disabled'' ''user'' ''bob''
      sample_reason ''left'' []) = None"
    by (simp add: text_eval identity_event_def sample_reason_def)
  have r: "identityMutationReason sample_reason = Inr ''left''"
    by (simp add: identityMutationReason_def sample_reason_def trim_def is_js_space_def)
  have "\<exists>v. fst (disableUserAndAudit (sample_env 1) ''bob'' sample_reason ?s) = Inr (Done v)"
    by (simp add: disableUserAndAudit_def r m epochs_of_def js_unique_def sample_user_def organization_ids_def
        mutate_all_memberships_def buildAuditRecord_def immutableAuditRecord_def ev)
  then obtain v s' where d: "disableUserAndAudit (sample_env 1) ''bob'' sample_reason ?s = (Inr (Done v), s')"
    by (metis prod.collapse)
  then have "authority_withdrawn (sample_env 1) ''org'' ''bob'' ?s s'" by (auto simp: authority_withdrawn_def)
  from lost_authority_ends_sessions [OF this m(2)] d show ?thesis by blast
qed

text \<open>
  A session that was created is usable: its token finds the user with the role the login
  expected, provided the token is not one of an older session.
\<close>

theorem created_session_is_usable:
  assumes "createUserSessionAndAudit e org input audit s = (Inr (Done session), s')"
    and "si_tokenHash input \<notin> us_tokenHash ` set (userSessions s)"
  shows "\<exists>user. findActiveUserSession e s' (us_userId session) org (si_tokenHash input) =
      Some (user, or_default (si_purpose input) FULL) \<and> u_id user = ac_actorUserId audit \<and>
      u_role user = si_expectedRole input"
  using assms(2) by (intro session_usable [OF assms(1)]) (auto simp: image_iff)

definition sample_login :: session_create_input where
  "sample_login = \<lparr>si_tokenHash = ''t'', si_expiresAt = Some 100000, si_expectedPasswordHash = ''h'',
     si_expectedRole = OWNER, si_expectedAuthenticationEpoch = 0, si_expectedAuthorizationEpoch = 0,
     si_purpose = None, si_expectedBootstrapPasswordExpiresAt = None\<rparr>"

theorem created_session_is_usable_witness:
  "\<exists>s' user. findActiveUserSession (sample_env 1) s' ''ann'' ''org'' ''t'' = Some (user, FULL) \<and> u_role user = OWNER"
proof -
  let ?s = "start_store sample_users"
  have u: "findSessionUser ?s ''ann'' ''org'' = Some (sample_user ''ann'' OWNER)"
    by (simp add: findSessionUser_def start_store_def empty_store_def sample_users_def sample_user_def)
  have ev: "assertAuditEventIntegrity ((user_event ''org'' (by_user ''ann'') ''auth.login_succeeded'' ''session''
      (Some ''i-'') [(js ''expiresAt'', jinstant 100000), (js ''purpose'', jstr ''FULL'')])
      \<lparr>au_actorUserId := Some ''ann''\<rparr>) = None"
    by (simp add: timestamp text_eval)
  have i: "ac_actorUserId (by_user ''ann'') = ''ann''" "new_id (sample_env (Suc 0)) 0 = ''i-''"
    by (simp_all add: by_user_def ids)
  have "\<exists>w. fst (createUserSessionAndAudit (sample_env 1) ''org'' sample_login (by_user ''ann'') ?s) = Inr (Done w)
      \<and> us_userId w = ''ann''"
    by (simp add: createUserSessionAndAudit_def i u sample_login_def session_refused_def sample_user_def
        built [OF ev] Let_def)
  then obtain w s' where
    "createUserSessionAndAudit (sample_env 1) ''org'' sample_login (by_user ''ann'') ?s = (Inr (Done w), s')"
    "us_userId w = ''ann''" by (metis prod.collapse)
  from created_session_is_usable [OF this(1)] this(2) show ?thesis
    by (auto simp: sample_login_def start_store_def empty_store_def)
qed

text \<open>
  C27: an organization that starts with an active owner always has one: no sequence of operations
  takes its last owner away.
\<close>

theorem organization_keeps_an_owner:
  assumes "reachable H us t D s"
    and "distinct (map (\<lambda>u. (u_organizationId u, u_id u)) us)" "list_ex (active_owner org) us"
  shows "list_ex (active_owner org) (users s)"
proof -
  obtain t0 where r: "run H t0 {} (start_store us) t D s" using assms(1) by (auto simp: reachable_def)
  have "owner_inv org (start_store us)"
    using assms(2,3) by (simp add: owner_inv_def memberships_unique_def owned_def start_store_def list_ex_iff)
  from ownership.along_run [OF r this] show ?thesis by (simp add: owner_inv_def owned_def list_ex_iff)
qed

theorem organization_keeps_an_owner_witness: "list_ex (active_owner ''org'') (users store9)"
proof -
  obtain D where "reachable (\<lambda>_. sample_digest) sample_users (int 9 * 1000) D store9"
    using sample_run(4) by (rule sample_reach)
  then show ?thesis
    by (rule organization_keeps_an_owner) (simp_all add: sample_users_def sample_user_def active_owner_def)
qed

text \<open>
  The record of failed logins never holds more than 10000 entries.
\<close>

theorem login_failures_are_bounded:
  assumes "reachable H us t D s"
  shows "length (loginFailures s) \<le> 10000"
  using login_failures.always [OF assms] by (simp add: LOGIN_FAILURE_MAX_RECORDS_def)

theorem login_failures_are_bounded_witness: "length (loginFailures store9) \<le> 10000"
proof -
  obtain D where "reachable (\<lambda>_. sample_digest) sample_users (int 9 * 1000) D store9"
    using sample_run(4) by (rule sample_reach)
  then show ?thesis by (rule login_failures_are_bounded)
qed

section \<open>Content and locations\<close>

text \<open>
  C39: references resolve: the asset of every playlist item, the playlist and the assets of every
  release, and the release of every assignment are stored in the same organization.
\<close>

theorem content_references_resolve:
  assumes "reachable H us t D s"
  shows "list_all (\<lambda>p. list_all (\<lambda>i. has_media s (pl_organizationId p) (pi_assetId i)) (pl_items p)) (playlists s) \<and>
    list_all (\<lambda>r. has_playlist s (rl_organizationId r) (rl_sourcePlaylistId r) \<and>
      list_all (\<lambda>i. has_media s (rl_organizationId r) (fa_id (fi_asset i))) (rl_items r)) (releases s) \<and>
    list_all (\<lambda>a. list_ex (\<lambda>r. rl_organizationId r = ra_organizationId a \<and> rl_id r = ra_releaseId a)
      (releases s)) (releaseAssignments s)"
  using reachable_facts(7) [OF assms] by (auto simp: content_resolves_def list_all_iff list_ex_iff)

theorem content_references_resolve_witness: "has_media store7 ''org'' (fa_id (fi_asset item1))"
proof -
  obtain D where "reachable (\<lambda>_. sample_digest) sample_users (int 7 * 1000) D store7"
    using sample_run(3) by (rule sample_reach)
  from content_references_resolve [OF this] show ?thesis by (simp add: store7_fields release1_def assignment1_fields)
qed

text \<open>
  The location a screen names exists in its organization, and no two locations of an
  organization share a name.
\<close>

theorem locations_are_sound:
  assumes "reachable H us t D s"
  shows "locations_unique s \<and> list_all (\<lambda>x. truthy (sc_locationId x) \<longrightarrow>
    list_ex (\<lambda>l. lo_organizationId l = sc_organizationId x \<and> Some (lo_id l) = sc_locationId x) (locations s)) (screens s)"
  using reachable_facts(8) [OF assms] location_names.always [OF assms]
  by (auto simp: locations_resolve_def location_inv_def list_all_iff list_ex_iff)

theorem locations_are_sound_witness: "locations_unique store7"
proof -
  obtain D where "reachable (\<lambda>_. sample_digest) sample_users (int 7 * 1000) D store7"
    using sample_run(3) by (rule sample_reach)
  from locations_are_sound [OF this] show ?thesis by simp
qed

text \<open>
  Emergency playback is off: no reachable store holds an emergency, and activating or clearing
  one is denied and changes nothing.
\<close>

theorem emergencies_are_off:
  assumes "reachable H us t D s"
  shows "emergencies s = [] \<and> activateEmergencyAndAudit e org data audit s = (Inr (Denied FORBIDDEN), s) \<and>
    clearEmergencyAndAudit e org i audit s = (Inr (Denied FORBIDDEN), s)"
  using reachable_facts(9) [OF assms] emergencies_off by simp

theorem emergencies_are_off_witness: "emergencies store7 = []"
proof -
  obtain D where "reachable (\<lambda>_. sample_digest) sample_users (int 7 * 1000) D store7"
    using sample_run(3) by (rule sample_reach)
  from emergencies_are_off [OF this] show ?thesis by simp
qed

section \<open>The audit log\<close>

text \<open>
  C28: the audit log is append-only: whatever operations run, every record stays, unchanged and at
  its place.
\<close>

theorem audit_log_is_append_only:
  assumes "run H t D s t' D' s'"
  shows "prefix (auditRecords s) (auditRecords s')"
  using audit_history.along_run [OF assms] by simp

theorem audit_log_is_append_only_witness: "prefix (auditRecords store6) (auditRecords store7)"
proof -
  obtain D where D: "reachable (\<lambda>_. sample_digest) sample_users (int 6 * 1000) D store6" "D \<subseteq> drawn 6"
    using sample_run(2) by (rule sample_reach)
  have "step_env (\<lambda>_. sample_digest) (int 6 * 1000) D (sample_env 7)"
    by (rule sample_step_env [OF D(2)]) simp_all
  from run.step [OF run.stay this store_step.release [OF release_step.candidate_published [OF step7]]]
  show ?thesis by (rule audit_log_is_append_only)
qed

text \<open>
  No change of the media or the playlists goes unrecorded: an operation on them that changes
  anything, however it ends, has added a record to the log.
\<close>

theorem content_changes_are_recorded:
  assumes "content_step e s s'" "s' \<noteq> s"
  shows "length (auditRecords s) < length (auditRecords s')"
  using assms(1)
proof cases
  case media_created
  then show ?thesis using assms(2) by (rule create_media.change_is_recorded)
next
  case media_deleted
  then show ?thesis using assms(2) by (rule delete_media.change_is_recorded)
next
  case playlist_created
  then show ?thesis using assms(2) by (rule create_playlist.change_is_recorded)
next
  case playlist_deleted
  then show ?thesis using assms(2) by (rule delete_playlist.change_is_recorded)
qed

theorem content_changes_are_recorded_witness: "length (auditRecords store1) < length (auditRecords store2)"
proof (rule content_changes_are_recorded)
  show "content_step (sample_env 2) store1 store2" by (rule content_step.playlist_created [OF step2])
  have "playlists store2 \<noteq> playlists store1" by (simp add: store1_def store2_def empty_store_def)
  then show "store2 \<noteq> store1" by auto
qed

end
