(* ===== verification/Device_Properties.thy ===== *)
theory Device_Properties
  imports Device_Samples
begin

text \<open>
  The properties of device authority over whole histories of the store: keys and attached
  credentials are unique, challenges are single-use and few, a consumed proof was verified
  against a live credential, and a revocation is permanent, also for proofs it interrupts.
\<close>

section \<open>Credentials\<close>

text \<open>
  C23: no two device credentials ever have the same identifier or the same key, the used keys are
  the keys of the credentials, and of a screen at most one credential is attached.
\<close>

theorem device_keys_are_unique:
  assumes "reachable H us t D s"
  shows "distinct (map dc_id (deviceCredentials s)) \<and> distinct (map dc_keyId (deviceCredentials s)) \<and>
    set (usedDeviceKeyIds s) = dc_keyId ` set (deviceCredentials s) \<and>
    length (filter (attached org i) (deviceCredentials s)) \<le> 1"
proof -
  have inv: "device_inv s" by (rule reachable_facts(5) [OF assms])
  let ?as = "filter (attached org i) (deviceCredentials s)"
  have "distinct (map dc_id ?as)" using inv by (simp add: device_inv_def authority_def distinct_map_filter)
  moreover have "c = d" if "c \<in> set ?as" "d \<in> set ?as" for c d
    using inv that by (auto simp: device_inv_def authority_def single_attached_def)
  ultimately have "length ?as \<le> 1"
    by (cases ?as; cases "tl ?as") (fastforce simp: distinct_map)+
  with inv show ?thesis by (simp add: device_inv_def authority_def)
qed

theorem device_keys_are_unique_witness:
  "set (usedDeviceKeyIds dstore5) = {key1} \<and> length (filter (attached ''org'' ''iii-'') (deviceCredentials dstore5)) \<le> 1"
proof -
  obtain D where "reachable (\<lambda>_. sample_digest) sample_users (int 5 * 1000) D dstore5"
    using device_run(3) by (rule sample_reach)
  from device_keys_are_unique [OF this] show ?thesis
    by (simp add: dstore5_def dstore4_def dstore3_fields dcredential_fields)
qed

text \<open>
  C2: a revocation is permanent: after it, whatever operations run, no credential the screen had
  is ever active again.
\<close>

theorem revocation_is_permanent:
  assumes "reachable H us t D s" "step_env H t D e"
    and "revokeDeviceCredentialAndAudit e org i audit s = (Inr (Done v), s1)"
    and "c \<in> set (deviceCredentials s)" "dc_organizationId c = org" "dc_screenId c = i"
    and "run H (now e) (D \<union> range (new_id e)) s1 t' D' s'"
  shows "activeDeviceCredential e' s' (dc_id c) = None"
proof -
  have inv: "device_inv s" by (rule reachable_facts(5) [OF assms(1)])
  have "store_step e s s1" using assms(3) by (intro store_step.device device_step.credential_revoked)
  have "dc_id c \<in> D" using credential_is_drawn [OF reachable_facts(1) [OF assms(1)] assms(4)] .
  moreover have "retired s1 (dc_id c)"
  proof (unfold retired_def, intro ballI impI)
    fix c' assume c': "c' \<in> set (deviceCredentials s1)" "dc_id c' = dc_id c"
    from revoke_effect [OF assms(3) inv] obtain r where
      cs: "deviceCredentials s1 = map (detach_by (attached org i) r) (deviceCredentials s)" by auto
    with c' obtain d where d: "d \<in> set (deviceCredentials s)" "c' = detach_by (attached org i) r d" by auto
    with c'(2) have "d = c"
      using inv assms(4) distinct_key_inj [of dc_id "deviceCredentials s" d c]
      by (simp add: device_inv_def authority_def detach_by_ids)
    with d(2) assms(5,6) show "dc_detached c'"
      by (auto simp: detach_by_def attached_def credential_of_screen_def)
  qed
  ultimately have "retired s' (dc_id c)"
    using retirement.along_run [OF assms(7), of "dc_id c"] by simp
  then show ?thesis by (rule retired_is_inactive)
qed

theorem revocation_is_permanent_witness: "activeDeviceCredential (sample_env 7) dstore6 ''iii-k'' = None"
proof -
  obtain D where D: "reachable (\<lambda>_. sample_digest) sample_users (int 5 * 1000) D dstore5" "D \<subseteq> drawn 5"
    using device_run(3) by (rule sample_reach)
  have e: "step_env (\<lambda>_. sample_digest) (int 5 * 1000) D (sample_env 6)"
    by (rule sample_step_env [OF D(2)]) simp_all
  have "dcredential \<in> set (deviceCredentials dstore5)" by (simp add: dstore5_def dstore4_fields)
  from revocation_is_permanent [OF D(1) e dstep6 this _ _ run.stay] show ?thesis
    by (simp add: dcredential_fields)
qed

section \<open>Proofs\<close>

text \<open>
  C11: a heartbeat is taken only with a proof: the signature check accepted the key of a credential
  that was live at the first look and again at the second, whatever ran in between, with the same
  screen generation, and an open challenge issued to this credential for this request.
\<close>

theorem heartbeat_is_proved:
  assumes "heartbeatWithDeviceProof e1 e2 interfere input data verify s = (Authenticated c' y, s')"
  shows "\<exists>c x x'. activeDeviceCredential e1 s (dp_credentialId input) = Some (c, x) \<and> verify c \<and>
    activeDeviceCredential e2 (interfere s) (dp_credentialId input) = Some (c', x') \<and>
    dc_keyId c' = dc_keyId c \<and> sc_id x' = sc_id x \<and> generation_of x' = generation_of x \<and>
    (\<exists>h \<in> set (deviceAuthChallenges (interfere s)). ch_id h = dp_challengeId input \<and>
       ch_credentialId h = dc_id c' \<and> challenge_matches input (now e2) h)"
proof -
  from assms obtain x' s1 where p: "consumeDeviceProof e1 e2 interfere input verify s = (Some (c', x'), s1)"
    by (auto simp: heartbeatWithDeviceProof_def Let_def split: prod.splits option.splits)
  then obtain c x h where b: "begin_proof e1 input s = Some (c, x, h)" "verify c"
    and f: "finish_proof e2 input (c, x, h) (interfere s) = (Some (c', x'), s1)"
    by (rule consumeDeviceProof_Some)
  note fin = finish_proof_Some(1-5) [OF f]
  have "dc_keyId c' = dc_keyId c"
    using arg_cong [OF fin(2) [unfolded same_credential_def], of dc_keyId] by simp
  moreover have "dc_id c' = dp_credentialId input" by (rule activeDeviceCredential_SomeD(2) [OF fin(1)])
  moreover obtain h' where "h' \<in> set (deviceAuthChallenges (interfere s))" "ch_id h' = dp_challengeId input"
    "challenge_matches input (now e2) h'" "ch_credentialId h' = dp_credentialId input"
    using fin(5) by (auto dest: find_SomeD)
  ultimately show ?thesis
    using begin_proof_SomeD(1) [OF b(1)] b(2) fin(1,3,4) by (auto simp: same_screen_def)
qed

definition beat5 :: heartbeat_input where
  "beat5 = \<lparr>hb_playerVersion = ''2'', hb_manifestVersion = None, hb_nowPlayingAssetId = None,
     hb_uptimeSeconds = 60, hb_freeStorageBytes = 1000, hb_networkType = ''wifi''\<rparr>"

theorem heartbeat_is_proved_witness:
  "\<exists>x. activeDeviceCredential (sample_env 5) dstore4 ''iii-k'' = Some (dcredential, x)"
proof -
  have "consumeDeviceProof (sample_env 5) (sample_env 5) id proof5 (\<lambda>c. dc_keyId c = key1) dstore4 =
      (Some (dcredential, dscreen), dstore5)"
    by (simp add: consumeDeviceProof_def dbegin5 dstep5 dcredential_fields)
  then obtain y s' where "heartbeatWithDeviceProof (sample_env 5) (sample_env 5) id proof5 beat5
      (\<lambda>c. dc_keyId c = key1) dstore4 = (Authenticated dcredential y, s')"
    by (simp add: heartbeatWithDeviceProof_def Let_def)
  from heartbeat_is_proved [OF this] show ?thesis by (auto simp: proof5_def)
qed

text \<open>
  C10: a challenge is single-use: once a proof has consumed it, whatever operations run, no proof
  with this challenge is accepted again, and trying changes nothing.
\<close>

theorem challenge_is_single_use:
  assumes "reachable H us t D s" "step_env H t D e"
    and "finish_proof e input (c, x, h) s = (Some r, s1)"
    and "run H (now e) (D \<union> range (new_id e)) s1 t' D' s'" "dp_challengeId input' = dp_challengeId input"
  shows "finish_proof e' input' active s' = (None, s')"
proof -
  have inv: "system_inv H t D s" "challenge_inv t s" by (rule reachable_facts [OF assms(1)])+
  obtain c' x' where r: "r = (c', x')" by fastforce
  have "dp_challengeId input \<in> D"
    using finish_proof_Some(5) [OF assms(3) [unfolded r]] inv(1)
    by (auto simp: system_inv_def device_ids_def dest!: find_SomeD)
  with spent_challenge.along_run [OF assms(4), of "dp_challengeId input"] finish_proof_uses_up [OF assms(3) inv(2)]
  have "used_up s' (dp_challengeId input')" using assms(5) by simp
  then show ?thesis by (intro finish_proof_spent used_up_spent)
qed

theorem challenge_is_single_use_witness:
  "finish_proof (sample_env 6) proof5 (dcredential, dscreen, challenge4) dstore5 = (None, dstore5)"
proof -
  obtain D where D: "reachable (\<lambda>_. sample_digest) sample_users (int 4 * 1000) D dstore4" "D \<subseteq> drawn 4"
    using device_run(2) by (rule sample_reach)
  have e: "step_env (\<lambda>_. sample_digest) (int 4 * 1000) D (sample_env 5)"
    by (rule sample_step_env [OF D(2)]) simp_all
  from challenge_is_single_use [OF D(1) e dstep5 run.stay] show ?thesis by simp
qed

text \<open>
  A revocation also reaches a proof it interrupts: if the credential of the screen is revoked
  between the two looks of a proof, the proof is refused and changes nothing.
\<close>

theorem revocation_interrupts_proofs:
  assumes "reachable H us t D s"
    and "begin_proof e1 input s = Some (c, x, h)"
    and "revokeDeviceCredentialAndAudit e (dc_organizationId c) (dc_screenId c) audit s = (Inr (Done v), s1)"
  shows "finish_proof e2 input (c, x, h) s1 = (None, s1)"
  using proof_across_revocation [OF assms(3) reachable_facts(5) [OF assms(1)] assms(2)] by simp

theorem revocation_interrupts_proofs_witness:
  "\<exists>s1. finish_proof (sample_env 7) proof5 (dcredential, dscreen, challenge4) s1 = (None, s1) \<and>
    fst (revokeDeviceCredentialAndAudit (sample_env 6) ''org'' ''iii-'' (by_user ''ann'') dstore4) =
      Inr (Done (Some revoked6))"
proof -
  obtain D where D: "reachable (\<lambda>_. sample_digest) sample_users (int 4 * 1000) D dstore4"
    using device_run(2) by (rule sample_reach)
  have "fst (revokeDeviceCredentialAndAudit (sample_env 6) ''org'' ''iii-'' (by_user ''ann'') dstore4) =
      Inr (Done (Some revoked6))"
    by (rule sample_revocation) (simp_all add: dstore4_fields)
  then obtain s1 where r: "revokeDeviceCredentialAndAudit (sample_env 6) ''org'' ''iii-'' (by_user ''ann'') dstore4 =
      (Inr (Done (Some revoked6)), s1)" by (metis prod.collapse)
  from revocation_interrupts_proofs [OF D dbegin5, unfolded dcredential_fields, OF r] r show ?thesis by auto
qed

text \<open>
  now and at every later instant at most four challenges of a credential are open for an
  operation.
\<close>

theorem open_challenges_are_few:
  assumes "reachable H us t D s" "t \<le> at"
  shows "open_count s at i op \<le> 4"
  using reachable_facts(6) [OF assms(1)] open_count_later [OF assms(2), of s i op]
  unfolding challenge_inv_def by (meson order_trans)

theorem open_challenges_are_few_witness: "open_count dstore4 4000 ''iii-k'' Op_heartbeat \<le> 4"
proof -
  obtain D where "reachable (\<lambda>_. sample_digest) sample_users (int 4 * 1000) D dstore4"
    using device_run(2) by (rule sample_reach)
  from open_challenges_are_few [OF this] show ?thesis by simp
qed

end
