(* ===== verification/Player_Manifest.thy ===== *)
theory Player_Manifest
  imports Json
begin

text \<open>
  The player's manifests (\<open>apps/player/src/core/manifest.ts\<close>, the functions before the class, and
  the signature check of \<open>crypto.ts\<close>): validation of an untyped value, normalisation of a signed
  payload, verification against the trusted screen and key, and the instants at which playback
  has to stop.  The code validates values of type \<open>unknown\<close>, so a manifest is a \<^typ>\<open>json\<close> value
  and an absent property is \<^const>\<open>JUndefined\<close>.  An infinite number (the only non-integer number
  of the model, from a literal like 1e999) is \<^const>\<open>JNonFinite\<close>.
\<close>

section \<open>JavaScript values\<close>

text \<open>Reading a property; only objects have the named ones the code reads.\<close>

definition field :: "json \<Rightarrow> string \<Rightarrow> json" where
  "field v k =
     (case v of JObj kvs \<Rightarrow> (case map_of kvs (js k) of None \<Rightarrow> JUndefined | Some x \<Rightarrow> x)
      | _ \<Rightarrow> JUndefined)"

fun js_truthy :: "json \<Rightarrow> bool" where
  "js_truthy JUndefined = False"
| "js_truthy JNull = False"
| "js_truthy (JBool b) = b"
| "js_truthy (JNum i) = (i \<noteq> 0)"
| "js_truthy (JStr s) = (s \<noteq> [])"
| "js_truthy v = True"

text \<open>\<open>typeof v === "object"\<close> of a truthy value.\<close>

fun is_object :: "json \<Rightarrow> bool" where
  "is_object (JObj _) = True"
| "is_object (JArr _) = True"
| "is_object v = False"

fun is_array :: "json \<Rightarrow> bool" where
  "is_array (JArr _) = True"
| "is_array v = False"

fun is_text :: "json \<Rightarrow> bool" where
  "is_text (JStr _) = True"
| "is_text v = False"

fun is_boolean :: "json \<Rightarrow> bool" where
  "is_boolean (JBool _) = True"
| "is_boolean v = False"

fun elements :: "json \<Rightarrow> json list" where
  "elements (JArr xs) = xs"
| "elements v = []"

text \<open>\<open>===\<close>: two objects read separately are never the same object.\<close>

definition strict_eq :: "json \<Rightarrow> json \<Rightarrow> bool" where
  "strict_eq a b \<longleftrightarrow> a = b \<and> \<not> is_object a"

text \<open>\<open>String(v)\<close>, the conversion \<open>Date.parse\<close>, \<open>RegExp.test\<close> and templates apply.\<close>

fun to_text :: "json \<Rightarrow> utext" where
  "to_text JUndefined = js ''undefined''"
| "to_text JNull = js ''null''"
| "to_text (JBool b) = js (if b then ''true'' else ''false'')"
| "to_text (JNum i) = decimal i"
| "to_text JNonFinite = js ''Infinity''"
| "to_text (JStr s) = s"
| "to_text (JArr xs) =
     join_with [44] (map (\<lambda>x. if x = JUndefined \<or> x = JNull then [] else to_text x) xs)"
| "to_text (JObj _) = js ''[object Object]''"

text \<open>\<open>{...asset, k: v}\<close>: the own properties of the value, one of them set.\<close>

definition own_entries :: "json \<Rightarrow> (utext \<times> json) list" where
  "own_entries v =
     (case v of JObj kvs \<Rightarrow> kvs
      | JArr xs \<Rightarrow> zip (map decimal_nat [0..<length xs]) xs
      | _ \<Rightarrow> [])"

definition put_entry :: "string \<Rightarrow> json \<Rightarrow> (utext \<times> json) list \<Rightarrow> (utext \<times> json) list" where
  "put_entry k v kvs =
     (if js k \<in> fst ` set kvs then map (\<lambda>(k', v'). (k', if k' = js k then v else v')) kvs
      else kvs @ [(js k, v)])"

section \<open>Platform\<close>

text \<open>The components of a parsed URL the player reads.\<close>

record link =
  lk_username :: utext
  lk_password :: utext
  lk_search :: utext
  lk_hash :: utext
  lk_protocol :: utext
  lk_hostname :: utext
  lk_origin :: utext
  lk_pathname :: utext

text \<open>
  The browser: \<open>JSON.parse\<close>, \<open>Date.parse\<close> and the URL constructor (None where they throw or
  give NaN), and the Ed25519 verification of WebCrypto over key, signature and text.
\<close>

record platform =
  pf_parse_json :: "utext \<Rightarrow> json option"
  pf_parse_date :: "utext \<Rightarrow> instant option"
  pf_parse_link :: "utext \<Rightarrow> link option"
  pf_ed25519 :: "nat list \<Rightarrow> nat list \<Rightarrow> utext \<Rightarrow> bool"

definition date_parse :: "platform \<Rightarrow> json \<Rightarrow> instant option" where
  "date_parse pf v = pf_parse_date pf (to_text v)"

section \<open>Signatures\<close>

definition sextet :: "nat \<Rightarrow> nat option" where
  "sextet u =
     (if 65 \<le> u \<and> u \<le> 90 then Some (u - 65)
      else if 97 \<le> u \<and> u \<le> 122 then Some (u - 71)
      else if 48 \<le> u \<and> u \<le> 57 then Some (u + 4)
      else if u = 45 then Some 62
      else if u = 95 then Some 63
      else None)"

text \<open>\<open>atob\<close> after padding: the bytes of the sextets; a single left-over sextet is an error.\<close>

fun sextet_bytes :: "nat list \<Rightarrow> nat list option" where
  "sextet_bytes [] = Some []"
| "sextet_bytes [a] = None"
| "sextet_bytes [a, b] = Some [a * 4 + b div 16]"
| "sextet_bytes [a, b, c] = Some [a * 4 + b div 16, b mod 16 * 16 + c div 4]"
| "sextet_bytes (a # b # c # d # us) =
     map_option (\<lambda>bs. (a * 4 + b div 16) # (b mod 16 * 16 + c div 4) # (c mod 4 * 64 + d) # bs)
       (sextet_bytes us)"

definition decodeBase64Url :: "utext \<Rightarrow> nat list option" where
  "decodeBase64Url s =
     (if s = [] \<or> (\<exists>u \<in> set s. sextet u = None) then None
      else sextet_bytes (map (\<lambda>u. the (sextet u)) s))"

definition verifyManifestPayloadSignature :: "platform \<Rightarrow> utext \<Rightarrow> utext \<Rightarrow> utext \<Rightarrow> bool" where
  "verifyManifestPayloadSignature pf payloadJson signature publicKey =
     (case (decodeBase64Url publicKey, decodeBase64Url signature) of
        (Some rawKey, Some rawSignature) \<Rightarrow>
          length rawKey = 32 \<and> length rawSignature = 64 \<and>
          pf_ed25519 pf rawKey rawSignature payloadJson
      | _ \<Rightarrow> False)"

section \<open>Validation\<close>

datatype manifest_error = ManifestError utext

abbreviation manifest_failure :: "string \<Rightarrow> manifest_error" where
  "manifest_failure s \<equiv> ManifestError (js s)"

definition MAX_ITEMS :: nat where "MAX_ITEMS = 500"
definition MAX_ASSET_BYTES :: int where "MAX_ASSET_BYTES = 128 * 1024 * 1024"
definition MAX_RELEASE_BYTES :: int where "MAX_RELEASE_BYTES = 512 * 1024 * 1024"
definition SAFE_INTEGER_LIMIT :: int where "SAFE_INTEGER_LIMIT = 2 ^ 53 - 1"

text \<open>\<open>/^[A-Za-z0-9_-]{1,4052}\.[A-Za-z0-9_-]{43}$/\<close>\<close>

definition MEDIA_CAPABILITY :: "utext \<Rightarrow> bool" where
  "MEDIA_CAPABILITY s \<longleftrightarrow>
     45 \<le> length s \<and> length s \<le> 4096 \<and> s ! (length s - 44) = 46 \<and>
     list_all (\<lambda>u. sextet u \<noteq> None) (take (length s - 44) s) \<and>
     list_all (\<lambda>u. sextet u \<noteq> None) (drop (length s - 43) s)"

text \<open>\<open>/^[a-f\d]{64}$/i\<close>\<close>

definition hex_checksum :: "utext \<Rightarrow> bool" where
  "hex_checksum s \<longleftrightarrow> length s = 64 \<and>
     list_all (\<lambda>u. (48 \<le> u \<and> u \<le> 57) \<or> (65 \<le> u \<and> u \<le> 70) \<or> (97 \<le> u \<and> u \<le> 102)) s"

definition emergency_template :: "json \<Rightarrow> json \<Rightarrow> bool" where
  "emergency_template priority item \<longleftrightarrow>
     priority = jstr ''emergency'' \<and> field item ''kind'' = jstr ''template'' \<and>
     field item ''mimeType'' = jstr ''application/vnd.screengoblin.emergency+json''"

definition isAllowedKindAndMime :: "json \<Rightarrow> json \<Rightarrow> bool" where
  "isAllowedKindAndMime item priority \<longleftrightarrow>
     emergency_template priority item \<or>
     (field item ''kind'' = jstr ''image'' \<and>
       field item ''mimeType'' \<in> {jstr ''image/jpeg'', jstr ''image/png''}) \<or>
     (field item ''kind'' = jstr ''video'' \<and> field item ''mimeType'' = jstr ''video/mp4'') \<or>
     (field item ''kind'' = jstr ''template'' \<and>
       field item ''mimeType'' = jstr ''application/json'')"

definition isAllowedAssetUrl :: "platform \<Rightarrow> utext \<Rightarrow> bool \<Rightarrow> bool \<Rightarrow> bool" where
  "isAllowedAssetUrl pf url emergencyTemplate allowLegacyQuery =
     (case pf_parse_link pf url of
        None \<Rightarrow> False
      | Some l \<Rightarrow>
          if lk_username l \<noteq> [] \<or> lk_password l \<noteq> [] \<or>
             (\<not> allowLegacyQuery \<and> lk_search l \<noteq> []) \<or> lk_hash l \<noteq> [] then False
          else if lk_protocol l = js ''https:'' then True
          else if lk_protocol l = js ''http:'' \<and>
             lk_hostname l \<in> {js ''localhost'', js ''127.0.0.1'', js ''::1''} then True
          else emergencyTemplate \<and> lk_protocol l = js ''data:'')"

definition current_protocol :: "json \<Rightarrow> bool" where
  "current_protocol manifest \<longleftrightarrow>
     field manifest ''protocolVersion'' = JNum 2 \<and>
     field manifest ''mediaDelivery'' = jstr ''authorization-v1''"

definition legacy_protocol :: "json \<Rightarrow> bool" where
  "legacy_protocol manifest \<longleftrightarrow>
     field manifest ''protocolVersion'' = JUndefined \<and>
     field manifest ''mediaDelivery'' = JUndefined"

definition integer_within :: "json \<Rightarrow> int \<Rightarrow> int \<Rightarrow> bool" where
  "integer_within v l h = (case v of JNum i \<Rightarrow> l \<le> i \<and> i \<le> h | _ \<Rightarrow> False)"

text \<open>The condition under which an item \<open>is invalid\<close>, negated.\<close>

definition item_valid :: "platform \<Rightarrow> json \<Rightarrow> json \<Rightarrow> bool" where
  "item_valid pf manifest item \<longleftrightarrow>
     (let emergencyTemplate = emergency_template (field manifest ''priority'') item;
          delivery = field item ''mediaDelivery''; capability = field item ''mediaCapability'' in
      is_text (field item ''url'') \<and>
      isAllowedAssetUrl pf (to_text (field item ''url'')) emergencyTemplate
        (legacy_protocol manifest) \<and>
      (current_protocol manifest \<and> \<not> emergencyTemplate \<longrightarrow>
        delivery = jstr ''authorization-v1'' \<and> is_text capability \<and>
        MEDIA_CAPABILITY (to_text capability)) \<and>
      (current_protocol manifest \<and> emergencyTemplate \<longrightarrow>
        delivery = JUndefined \<and> capability = JUndefined) \<and>
      isAllowedKindAndMime item (field manifest ''priority'') \<and>
      integer_within (field item ''durationSeconds'') 1 86400 \<and>
      integer_within (field item ''sizeBytes'') (- SAFE_INTEGER_LIMIT) SAFE_INTEGER_LIMIT \<and>
      integer_within (field item ''sizeBytes'') 1 MAX_ASSET_BYTES)"

fun number :: "json \<Rightarrow> int" where
  "number (JNum i) = i"
| "number v = 0"

definition expiry_valid :: "platform \<Rightarrow> instant \<Rightarrow> json \<Rightarrow> bool" where
  "expiry_valid pf generatedAt v \<longleftrightarrow>
     v = JUndefined \<or>
     (is_text v \<and> (case date_parse pf v of None \<Rightarrow> False | Some t \<Rightarrow> generatedAt < t))"

text \<open>The loop over the items, with the identifiers seen and the bytes counted so far.\<close>

fun assert_items ::
  "platform \<Rightarrow> json \<Rightarrow> instant \<Rightarrow> json list \<Rightarrow> int \<Rightarrow> json list \<Rightarrow> manifest_error option" where
  "assert_items pf manifest generatedAt ids releaseBytes [] = None"
| "assert_items pf manifest generatedAt ids releaseBytes (item # items) =
     (if \<not> js_truthy item \<or> \<not> is_object item then Some (manifest_failure ''Manifest item is invalid'')
      else let i = field item ''id'' in
      if \<not> js_truthy i \<or> (\<exists>j \<in> set ids. strict_eq j i)
      then Some (manifest_failure ''Asset identifiers must be unique'')
      else if \<not> item_valid pf manifest item
      then Some (ManifestError (js ''Asset '' @ to_text i @ js '' is invalid''))
      else let releaseBytes = releaseBytes + number (field item ''sizeBytes'') in
      if releaseBytes > MAX_RELEASE_BYTES
      then Some (manifest_failure ''Manifest release exceeds the size limit'')
      else if \<not> hex_checksum (to_text (field item ''checksumSha256''))
      then Some (ManifestError (js ''Asset '' @ to_text i @ js '' has no valid SHA-256 checksum''))
      else if \<not> expiry_valid pf generatedAt (field item ''expiresAt'')
      then Some (ManifestError (js ''Asset '' @ to_text i @ js '' expiry is invalid''))
      else assert_items pf manifest generatedAt (ids @ [i]) releaseBytes items)"

definition known_priorities :: "json list" where
  "known_priorities = [jstr ''normal'', jstr ''campaign'', jstr ''priority'', jstr ''emergency'']"

definition assertManifest :: "platform \<Rightarrow> instant \<Rightarrow> bool \<Rightarrow> json \<Rightarrow> manifest_error option" where
  "assertManifest pf t requireCurrentProtocol manifest =
     (if \<not> js_truthy manifest \<or> \<not> is_object manifest
      then Some (manifest_failure ''Manifest is not an object'')
      else if \<not> current_protocol manifest \<and> (requireCurrentProtocol \<or> \<not> legacy_protocol manifest)
      then Some (manifest_failure ''Manifest media protocol is unsupported'')
      else if \<not> js_truthy (field manifest ''version'') \<or> \<not> js_truthy (field manifest ''screenId'') \<or>
        \<not> is_array (field manifest ''items'')
      then Some (manifest_failure ''Manifest metadata is incomplete'')
      else if \<not> js_truthy (field manifest ''generatedAt'') \<or>
        \<not> js_truthy (field manifest ''validUntil'') \<or>
        date_parse pf (field manifest ''generatedAt'') = None \<or>
        date_parse pf (field manifest ''validUntil'') = None
      then Some (manifest_failure ''Manifest validity window is invalid'')
      else let generatedAt = the (date_parse pf (field manifest ''generatedAt''));
               validUntil = the (date_parse pf (field manifest ''validUntil''));
               items = elements (field manifest ''items'') in
      if validUntil \<le> generatedAt then Some (manifest_failure ''Manifest validity window is empty'')
      else if generatedAt > t + 5 * 60000
      then Some (manifest_failure ''Manifest generation time is too far in the future'')
      else if field manifest ''playbackEndsAt'' \<noteq> JUndefined \<and>
        (\<not> is_text (field manifest ''playbackEndsAt'') \<or>
         date_parse pf (field manifest ''playbackEndsAt'') = None)
      then Some (manifest_failure ''Manifest playback boundary is invalid'')
      else if field manifest ''priority'' \<notin> set known_priorities
      then Some (manifest_failure ''Manifest priority is invalid'')
      else if \<not> is_boolean (field manifest ''withdrawn'')
      then Some (manifest_failure ''Manifest withdrawal state is missing'')
      else if js_truthy (field manifest ''withdrawn'') \<and>
        (field manifest ''priority'' \<noteq> jstr ''normal'' \<or> items \<noteq> [])
      then Some (manifest_failure ''Withdrawn manifests must be empty normal releases'')
      else if \<not> js_truthy (field manifest ''withdrawn'') \<and> items = []
      then Some (manifest_failure ''Manifest contains no playable items'')
      else if length items > MAX_ITEMS
      then Some (manifest_failure ''Manifest contains too many items'')
      else assert_items pf manifest generatedAt [] 0 items)"

section \<open>Normalisation and verification\<close>

definition normalize_item :: "json \<Rightarrow> manifest_error + json" where
  "normalize_item item =
     (if \<not> js_truthy item \<or> \<not> is_object item
      then Inl (manifest_failure ''Signed manifest item is invalid'')
      else if \<not> js_truthy (field item ''asset'') \<or> \<not> is_object (field item ''asset'')
      then Inl (manifest_failure ''Signed manifest asset is invalid'')
      else Inr (JObj (put_entry ''durationSeconds'' (field item ''durationSeconds'')
        (own_entries (field item ''asset'')))))"

fun normalize_items :: "json list \<Rightarrow> manifest_error + json list" where
  "normalize_items [] = Inr []"
| "normalize_items (item # items) =
     (case normalize_item item of Inl x \<Rightarrow> Inl x
      | Inr a \<Rightarrow> (case normalize_items items of Inl x \<Rightarrow> Inl x | Inr as \<Rightarrow> Inr (a # as)))"

definition present :: "json \<Rightarrow> string \<Rightarrow> (utext \<times> json) list" where
  "present wire k = (if field wire k \<noteq> JUndefined then [(js k, field wire k)] else [])"

definition normalized :: "json \<Rightarrow> json list \<Rightarrow> json" where
  "normalized wire items =
     JObj ([(js ''protocolVersion'', field wire ''protocolVersion''),
            (js ''mediaDelivery'', field wire ''mediaDelivery''),
            (js ''version'', field wire ''version''),
            (js ''generatedAt'', field wire ''generatedAt''),
            (js ''validUntil'', field wire ''validUntil'')] @
       present wire ''playbackEndsAt'' @
       [(js ''screenId'', field wire ''screenId'')] @
       present wire ''requestChallengeId'' @
       [(js ''priority'', field wire ''priority''),
        (js ''withdrawn'',
          if field wire ''withdrawn'' \<in> {JUndefined, JNull} then JBool False
          else field wire ''withdrawn''),
        (js ''items'', JArr items)])"

definition normalizeSignedPayload ::
  "platform \<Rightarrow> instant \<Rightarrow> bool \<Rightarrow> json \<Rightarrow> manifest_error + json" where
  "normalizeSignedPayload pf t requireCurrentProtocol wire =
     (if \<not> js_truthy wire \<or> \<not> is_object wire
      then Inl (manifest_failure ''Signed manifest payload is invalid'')
      else if \<not> is_array (field wire ''items'')
      then Inl (manifest_failure ''Signed manifest items are invalid'')
      else case normalize_items (elements (field wire ''items'')) of Inl x \<Rightarrow> Inl x
      | Inr items \<Rightarrow>
          let manifest = normalized wire items in
          (case assertManifest pf t requireCurrentProtocol manifest of
             Some x \<Rightarrow> Inl x
           | None \<Rightarrow> Inr manifest))"

definition signed_manifest :: "utext \<Rightarrow> utext \<Rightarrow> json \<Rightarrow> json" where
  "signed_manifest payloadJson signature manifest =
     JObj [(js ''formatVersion'', JNum 1), (js ''payloadJson'', JStr payloadJson),
       (js ''signatureAlgorithm'', jstr ''Ed25519''), (js ''signature'', JStr signature),
       (js ''manifest'', manifest)]"

definition createSignedPlayerManifest ::
  "platform \<Rightarrow> instant \<Rightarrow> json \<Rightarrow> utext \<Rightarrow> manifest_error + json" where
  "createSignedPlayerManifest pf t unsigned signature =
     (let payloadJson = stringify unsigned in
      case normalizeSignedPayload pf t True unsigned of
        Inl x \<Rightarrow> Inl x
      | Inr manifest \<Rightarrow> Inr (signed_manifest payloadJson signature manifest))"

record manifest_trust =
  tr_screenId :: utext
  tr_manifestVerificationKey :: utext

definition verifySignedPlayerManifest ::
  "platform \<Rightarrow> instant \<Rightarrow> manifest_trust \<Rightarrow> json \<Rightarrow> json option" where
  "verifySignedPlayerManifest pf t trust stored =
     (if \<not> js_truthy stored \<or> \<not> is_object stored then None
      else if field stored ''formatVersion'' \<noteq> JNum 1 \<or> \<not> is_text (field stored ''payloadJson'') \<or>
        field stored ''signatureAlgorithm'' \<noteq> jstr ''Ed25519'' \<or>
        \<not> is_text (field stored ''signature'') \<or> \<not> js_truthy (field stored ''manifest'')
      then None
      else if \<not> verifyManifestPayloadSignature pf (to_text (field stored ''payloadJson''))
        (to_text (field stored ''signature'')) (tr_manifestVerificationKey trust)
      then None
      else case pf_parse_json pf (to_text (field stored ''payloadJson'')) of None \<Rightarrow> None
      | Some wire \<Rightarrow>
          (case normalizeSignedPayload pf t False wire of Inl _ \<Rightarrow> None
           | Inr manifest \<Rightarrow>
               if field manifest ''screenId'' \<noteq> JStr (tr_screenId trust) \<or>
                  stringify manifest \<noteq> stringify (field stored ''manifest'')
               then None
               else Some manifest))"

section \<open>Playback boundaries\<close>

definition earliest :: "instant list \<Rightarrow> instant option" where
  "earliest ts = (if ts = [] then None else Some (Min (set ts)))"

definition playback_boundaries :: "platform \<Rightarrow> json \<Rightarrow> instant list" where
  "playback_boundaries pf manifest =
     List.map_filter (date_parse pf)
       (filter (\<lambda>v. v \<noteq> JUndefined)
         (field manifest ''playbackEndsAt'' #
          map (\<lambda>item. field item ''expiresAt'') (elements (field manifest ''items''))))"

definition manifestPlaybackEndsAt :: "platform \<Rightarrow> json \<Rightarrow> instant option" where
  "manifestPlaybackEndsAt pf manifest = earliest (playback_boundaries pf manifest)"

text \<open>A boundary that is not later than the clock: \<open>boundary !== undefined && boundary <= Date.now()\<close>.\<close>

definition ended :: "instant option \<Rightarrow> instant \<Rightarrow> bool" where
  "ended boundary t = (case boundary of None \<Rightarrow> False | Some b \<Rightarrow> b \<le> t)"

definition emergency_manifest :: "json \<Rightarrow> bool" where
  "emergency_manifest manifest \<longleftrightarrow> field manifest ''priority'' = jstr ''emergency''"

definition manifest_withdrawn :: "json \<Rightarrow> bool" where
  "manifest_withdrawn manifest \<longleftrightarrow> js_truthy (field manifest ''withdrawn'')"

definition lease_ended :: "platform \<Rightarrow> json \<Rightarrow> instant \<Rightarrow> bool" where
  "lease_ended pf manifest t = ended (date_parse pf (field manifest ''validUntil'')) t"

definition isStoredManifestPlayable :: "platform \<Rightarrow> instant \<Rightarrow> json option \<Rightarrow> bool" where
  "isStoredManifestPlayable pf t m =
     (case m of
        None \<Rightarrow> False
      | Some manifest \<Rightarrow>
          if manifest_withdrawn manifest then False
          else if assertManifest pf t False manifest \<noteq> None then False
          else if emergency_manifest manifest \<and> lease_ended pf manifest t then False
          else \<not> ended (manifestPlaybackEndsAt pf manifest) t)"

text \<open>
  The deadline of a rollback.  Its last boundary is a \<open>Date.parse\<close> that is not filtered, so it can
  be NaN (an inner None), which makes the minimum NaN, a deadline no instant has reached.
\<close>

definition rollback_boundaries :: "platform \<Rightarrow> json \<Rightarrow> json \<Rightarrow> instant option list" where
  "rollback_boundaries pf active previous =
     map Some (List.map_filter id
       [manifestPlaybackEndsAt pf active, manifestPlaybackEndsAt pf previous]) @
     (if emergency_manifest previous then [date_parse pf (field previous ''validUntil'')] else [])"

definition rollbackDeadline :: "platform \<Rightarrow> json \<Rightarrow> json \<Rightarrow> instant option" where
  "rollbackDeadline pf active previous =
     (if None \<in> set (rollback_boundaries pf active previous) then None
      else earliest (map the (rollback_boundaries pf active previous)))"

section \<open>Facts\<close>

lemma field_JObj:
  "field (JObj kvs) k = (case map_of kvs (js k) of None \<Rightarrow> JUndefined | Some x \<Rightarrow> x)"
  by (simp add: field_def)

lemma not_truthy_undefined: "js_truthy v \<Longrightarrow> v \<noteq> JUndefined"
  by auto

text \<open>What the loop over the items has checked when it accepts them.\<close>

definition item_ok :: "platform \<Rightarrow> json \<Rightarrow> instant \<Rightarrow> json \<Rightarrow> bool" where
  "item_ok pf manifest generatedAt item \<longleftrightarrow>
     is_object item \<and> item_valid pf manifest item \<and>
     hex_checksum (to_text (field item ''checksumSha256'')) \<and>
     expiry_valid pf generatedAt (field item ''expiresAt'')"

lemma assert_items_None:
  assumes "assert_items pf manifest g ids b items = None"
  shows "list_all (item_ok pf manifest g) items"
    and "sorted_wrt (\<lambda>i j. \<not> strict_eq i j) (map (\<lambda>i. field i ''id'') items)"
    and "items \<noteq> [] \<Longrightarrow> b + (\<Sum>i\<leftarrow>items. number (field i ''sizeBytes'')) \<le> MAX_RELEASE_BYTES"
proof -
  have "list_all (item_ok pf manifest g) items \<and>
    sorted_wrt (\<lambda>i j. \<not> strict_eq i j) (map (\<lambda>i. field i ''id'') items) \<and>
    (\<forall>j \<in> set ids. \<forall>i \<in> set items. \<not> strict_eq j (field i ''id'')) \<and>
    (items \<noteq> [] \<longrightarrow> b + (\<Sum>i\<leftarrow>items. number (field i ''sizeBytes'')) \<le> MAX_RELEASE_BYTES)"
    using assms
  proof (induction items arbitrary: ids b)
    case Nil
    then show ?case by simp
  next
    case (Cons item items)
    let ?b = "b + number (field item ''sizeBytes'')"
    from Cons.prems have rest: "assert_items pf manifest g (ids @ [field item ''id'']) ?b items = None"
      and here: "item_ok pf manifest g item" "\<forall>j \<in> set ids. \<not> strict_eq j (field item ''id'')"
        "?b \<le> MAX_RELEASE_BYTES"
      by (simp_all add: Let_def item_ok_def split: if_splits)
    from Cons.IH [OF rest] here show ?case by (cases items) (simp_all add: ac_simps)
  qed
  then show "list_all (item_ok pf manifest g) items"
    "sorted_wrt (\<lambda>i j. \<not> strict_eq i j) (map (\<lambda>i. field i ''id'') items)"
    "items \<noteq> [] \<Longrightarrow> b + (\<Sum>i\<leftarrow>items. number (field i ''sizeBytes'')) \<le> MAX_RELEASE_BYTES"
    by simp_all
qed

lemma assertManifest_None:
  assumes "assertManifest pf t r manifest = None"
  obtains generatedAt validUntil where
    "date_parse pf (field manifest ''generatedAt'') = Some generatedAt"
    "date_parse pf (field manifest ''validUntil'') = Some validUntil"
    "generatedAt < validUntil" "generatedAt \<le> t + 5 * 60000"
    "field manifest ''priority'' \<in> set known_priorities"
    "length (elements (field manifest ''items'')) \<le> MAX_ITEMS"
    "manifest_withdrawn manifest \<longleftrightarrow> elements (field manifest ''items'') = []"
    "assert_items pf manifest generatedAt [] 0 (elements (field manifest ''items'')) = None"
proof -
  from assms obtain g v where d: "date_parse pf (field manifest ''generatedAt'') = Some g"
      "date_parse pf (field manifest ''validUntil'') = Some v"
    by (auto simp: assertManifest_def split: if_splits)
  from assms have r: "g < v" "g \<le> t + 5 * 60000" "field manifest ''priority'' \<in> set known_priorities"
    "length (elements (field manifest ''items'')) \<le> MAX_ITEMS"
    "assert_items pf manifest g [] 0 (elements (field manifest ''items'')) = None"
    "manifest_withdrawn manifest \<Longrightarrow> elements (field manifest ''items'') = []"
    "\<not> manifest_withdrawn manifest \<Longrightarrow> elements (field manifest ''items'') \<noteq> []"
    by (simp_all add: assertManifest_def manifest_withdrawn_def d Let_def split: if_splits)
  from this(6,7) have "manifest_withdrawn manifest \<longleftrightarrow> elements (field manifest ''items'') = []"
    by blast
  from that [OF d r(1-4) this r(5)] show thesis .
qed

text \<open>The current protocol is one of the protocols recovery accepts.\<close>

lemma assertManifest_recoverable:
  "assertManifest pf t True manifest = None \<Longrightarrow> assertManifest pf t False manifest = None"
  by (simp add: assertManifest_def split: if_splits)

lemma verified_manifest:
  assumes "verifySignedPlayerManifest pf t trust stored = Some manifest"
  shows "verifyManifestPayloadSignature pf (to_text (field stored ''payloadJson''))
      (to_text (field stored ''signature'')) (tr_manifestVerificationKey trust)"
    and "field manifest ''screenId'' = JStr (tr_screenId trust)"
    and "assertManifest pf t False manifest = None"
    and "js_truthy stored"
  using assms
  by (auto simp: verifySignedPlayerManifest_def normalizeSignedPayload_def Let_def
      split: if_splits option.splits sum.splits)

lemma not_verified_undefined [simp]: "verifySignedPlayerManifest pf t trust JUndefined = None"
  by (simp add: verifySignedPlayerManifest_def)

lemma playable_manifest:
  assumes "isStoredManifestPlayable pf t (Some manifest)"
  shows "\<not> manifest_withdrawn manifest"
    "\<not> (emergency_manifest manifest \<and> lease_ended pf manifest t)"
    "\<not> ended (manifestPlaybackEndsAt pf manifest) t"
  using assms by (simp_all add: isStoredManifestPlayable_def split: if_splits)

lemma field_Cons [simp]:
  "field (JObj ((js k, v) # kvs)) k' = (if k = k' then v else field (JObj kvs) k')"
  "field (JObj []) k' = JUndefined"
  by (auto simp: field_def)

lemma normalized_fields:
  "field (normalized wire items) ''protocolVersion'' = field wire ''protocolVersion''"
  "field (normalized wire items) ''mediaDelivery'' = field wire ''mediaDelivery''"
  "field (normalized wire items) ''version'' = field wire ''version''"
  "field (normalized wire items) ''generatedAt'' = field wire ''generatedAt''"
  "field (normalized wire items) ''validUntil'' = field wire ''validUntil''"
  "field (normalized wire items) ''priority'' = field wire ''priority''"
  "field (normalized wire items) ''playbackEndsAt'' = field wire ''playbackEndsAt''"
  "field (normalized wire items) ''requestChallengeId'' = field wire ''requestChallengeId''"
  "field (normalized wire items) ''screenId'' = field wire ''screenId''"
  "field (normalized wire items) ''items'' = JArr items"
  by (simp_all add: normalized_def present_def)

lemma normalized_withdrawn:
  "field (normalized wire items) ''withdrawn'' =
    (if field wire ''withdrawn'' \<in> {JUndefined, JNull} then JBool False else field wire ''withdrawn'')"
  by (simp add: normalized_def present_def)

lemma normalized_object: "is_object (normalized wire items)" "js_truthy (normalized wire items)"
  by (simp_all add: normalized_def)

end
