(* ===== verification/Player_State.thy ===== *)
theory Player_State
  imports Player_Manifest
begin

text \<open>
  The player's durable state (\<open>apps/player/src/core/storage.ts\<close>): the object store of the browser
  database with its four keys and the transactions on it.  A transaction takes effect completely
  or not at all; the functions below are the effect of one that completes.
\<close>

datatype state_key = Credentials_key | Pending_pairing_key | Active_key | Previous_key

type_synonym state_db = "state_key \<Rightarrow> json option"

definition read_key :: "state_db \<Rightarrow> state_key \<Rightarrow> json" where
  "read_key db k = (case db k of None \<Rightarrow> JUndefined | Some v \<Rightarrow> v)"

section \<open>Provisioning\<close>

definition putCredentials :: "json \<Rightarrow> state_db \<Rightarrow> state_db" where
  "putCredentials v db = db(Credentials_key \<mapsto> v)"

definition putPendingPairing :: "json \<Rightarrow> state_db \<Rightarrow> state_db" where
  "putPendingPairing v db = db(Pending_pairing_key \<mapsto> v)"

definition deletePendingPairing :: "state_db \<Rightarrow> state_db" where
  "deletePendingPairing db = db(Pending_pairing_key := None)"

definition clearProvisionedState :: "state_db \<Rightarrow> state_db" where
  "clearProvisionedState db =
     db(Credentials_key := None, Active_key := None, Previous_key := None)"

definition completePairing :: "json \<Rightarrow> state_db \<Rightarrow> state_db" where
  "completePairing v db = db(Credentials_key \<mapsto> v, Pending_pairing_key := None)"

definition clear_db :: "state_db \<Rightarrow> state_db" where
  "clear_db db = (\<lambda>_. None)"

section \<open>Manifests\<close>

definition version_of :: "json \<Rightarrow> json" where
  "version_of signed = field (field signed ''manifest'') ''version''"

definition activateManifest :: "json \<Rightarrow> state_db \<Rightarrow> state_db" where
  "activateManifest value db =
     (let active = read_key db Active_key;
          sameRelease = strict_eq (version_of active) (version_of value);
          db' = db(Active_key \<mapsto> value) in
      if manifest_withdrawn (field value ''manifest'') then db'(Previous_key := None)
      else if \<not> sameRelease \<and> js_truthy active \<and> js_truthy (field active ''manifest'') \<and>
        \<not> emergency_manifest (field active ''manifest'') \<and>
        \<not> manifest_withdrawn (field active ''manifest'')
      then db'(Previous_key \<mapsto> active)
      else db')"

definition clearPreviousManifest :: "json \<Rightarrow> state_db \<Rightarrow> state_db" where
  "clearPreviousManifest expectedActiveVersion db =
     (if expectedActiveVersion = JUndefined \<or>
        strict_eq (version_of (read_key db Active_key)) expectedActiveVersion
      then db(Previous_key := None) else db)"

text \<open>The resulting active manifest and the database.\<close>

definition rollback_manifest ::
  "json \<Rightarrow> instant option \<Rightarrow> instant \<Rightarrow> state_db \<Rightarrow> json \<times> state_db" where
  "rollback_manifest expectedActiveVersion eligibleUntilMs t db =
     (if expectedActiveVersion \<noteq> JUndefined \<and>
        \<not> strict_eq (version_of (read_key db Active_key)) expectedActiveVersion
      then (read_key db Active_key, db)
      else if ended eligibleUntilMs t then (JUndefined, db(Previous_key := None))
      else let previous = read_key db Previous_key in
        (previous,
         if js_truthy previous then db(Active_key \<mapsto> previous) else db(Active_key := None)))"

definition clearManifests :: "state_db \<Rightarrow> state_db" where
  "clearManifests db = db(Active_key := None, Previous_key := None)"

section \<open>Slots\<close>

text \<open>The signed manifests the database holds.\<close>

definition slots :: "state_db \<Rightarrow> json set" where
  "slots db = {v. v \<noteq> JUndefined \<and> (db Active_key = Some v \<or> db Previous_key = Some v)}"

text \<open>
  What the transactions keep: a manifest kept for rollback is neither an emergency nor withdrawn,
  and a withdrawn active manifest has nothing behind it.
\<close>

definition slots_inv :: "state_db \<Rightarrow> bool" where
  "slots_inv db \<longleftrightarrow>
     (\<forall>v. db Previous_key = Some v \<longrightarrow>
       \<not> emergency_manifest (field v ''manifest'') \<and> \<not> manifest_withdrawn (field v ''manifest'')) \<and>
     (\<forall>v. db Active_key = Some v \<longrightarrow> manifest_withdrawn (field v ''manifest'') \<longrightarrow>
       db Previous_key = None)"

named_theorems transactions \<open>definitions of the transactions on the player's database\<close>

lemmas transaction_defs [transactions] =
  putCredentials_def putPendingPairing_def deletePendingPairing_def clearProvisionedState_def
  completePairing_def clear_db_def clearPreviousManifest_def clearManifests_def

lemma read_key_eq: "read_key db k = v \<Longrightarrow> v \<noteq> JUndefined \<Longrightarrow> db k = Some v"
  by (auto simp: read_key_def split: option.splits)

lemma slots_read:
  "read_key db Active_key \<noteq> JUndefined \<Longrightarrow> read_key db Active_key \<in> slots db"
  "read_key db Previous_key \<noteq> JUndefined \<Longrightarrow> read_key db Previous_key \<in> slots db"
  by (auto simp: slots_def read_key_def split: option.splits)

text \<open>Provisioning and the clearing transactions only empty slots.\<close>

lemma slots_provisioning:
  "slots (putCredentials v db) = slots db" "slots (putPendingPairing v db) = slots db"
  "slots (deletePendingPairing db) = slots db" "slots (completePairing v db) = slots db"
  "slots (clearProvisionedState db) = {}" "slots (clear_db db) = {}"
  "slots (clearManifests db) = {}" "slots (clearPreviousManifest x db) \<subseteq> slots db"
  by (auto simp: slots_def transactions)

lemma slots_inv_provisioning:
  "slots_inv (putCredentials v db) = slots_inv db" "slots_inv (putPendingPairing v db) = slots_inv db"
  "slots_inv (deletePendingPairing db) = slots_inv db" "slots_inv (completePairing v db) = slots_inv db"
  "slots_inv (clearProvisionedState db)" "slots_inv (clear_db db)" "slots_inv (clearManifests db)"
  "slots_inv db \<Longrightarrow> slots_inv (clearPreviousManifest x db)"
  by (auto simp: slots_inv_def transactions)

lemma slots_activate:
  "slots (activateManifest value db) \<subseteq> insert value (slots db)"
  "manifest_withdrawn (field value ''manifest'') \<Longrightarrow> slots (activateManifest value db) \<subseteq> {value}"
  by (auto simp: slots_def activateManifest_def Let_def read_key_def split: if_splits option.splits)

lemma slots_rollback: "slots (snd (rollback_manifest x d t db)) \<subseteq> slots db"
  by (auto simp: slots_def rollback_manifest_def Let_def read_key_def split: if_splits option.splits)

lemma slots_inv_activate:
  assumes "slots_inv db"
  shows "slots_inv (activateManifest value db)"
  using assms
  by (auto simp: slots_inv_def activateManifest_def Let_def read_key_def split: if_splits option.splits)

lemma slots_inv_rollback: "slots_inv db \<Longrightarrow> slots_inv (snd (rollback_manifest x d t db))"
  by (auto simp: slots_inv_def rollback_manifest_def Let_def read_key_def split: if_splits option.splits)

lemma rollback_result:
  assumes "rollback_manifest x d t db = (v, db')" "v \<noteq> JUndefined"
  shows "v \<in> slots db"
  using assms slots_read [of db]
  by (auto simp: rollback_manifest_def Let_def split: if_splits)

end
