(* ===== verification/Player_Manager.thy ===== *)
theory Player_Manager
  imports Player_State
begin

text \<open>
  \<open>ManifestManager\<close> (\<open>apps/player/src/core/manifest.ts\<close>): staging, activation, recovery and
  rollback of signed manifests.  The operations on the state run one after another on the state
  queue.  An operation is cut at its awaits: observation \<open>ob k\<close> holds what its \<open>k\<close>-th stretch
  sees, the clock and the staging generation at its beginning and whether the storage call that
  ends it settles.
\<close>

section \<open>Observations and outcomes\<close>

record observation =
  ob_time :: instant
  ob_generation :: nat
  ob_storage :: bool

datatype player_failure = Rejected manifest_error | Storage_failed | Asset_failed utext

type_synonym 'r player_outcome = "(player_failure + 'r) \<times> state_db"

definition load :: "observation \<Rightarrow> state_key \<Rightarrow> state_db \<Rightarrow> (json \<Rightarrow> 'r player_outcome) \<Rightarrow> 'r player_outcome"
where
  "load ob k db f = (if ob_storage ob then f (read_key db k) else (Inl Storage_failed, db))"

definition commit :: "observation \<Rightarrow> state_db \<Rightarrow> state_db \<Rightarrow> 'r \<Rightarrow> 'r player_outcome" where
  "commit ob db db' r = (if ob_storage ob then (Inr r, db') else (Inl Storage_failed, db))"

definition rejected :: "string \<Rightarrow> state_db \<Rightarrow> 'r player_outcome" where
  "rejected s db = (Inl (Rejected (manifest_failure s)), db)"

section \<open>Guards\<close>

definition staging_current :: "observation \<Rightarrow> nat \<Rightarrow> bool" where
  "staging_current ob stagingGeneration \<longleftrightarrow> stagingGeneration = ob_generation ob"

definition assertNotOlderThanActive ::
  "platform \<Rightarrow> json \<Rightarrow> json option \<Rightarrow> manifest_error option" where
  "assertNotOlderThanActive pf candidate active =
     (case active of None \<Rightarrow> None
      | Some a \<Rightarrow>
          (case (date_parse pf (field candidate ''generatedAt''),
                 date_parse pf (field a ''generatedAt'')) of
             (Some c, Some g) \<Rightarrow>
               if c < g
               then Some (manifest_failure
                 ''Manifest generation time is older than the active release'')
               else if c = g \<and> \<not> strict_eq (field candidate ''version'') (field a ''version'') \<and>
                 (field candidate ''requestChallengeId'' \<noteq> JUndefined \<or>
                  field a ''requestChallengeId'' \<noteq> JUndefined)
               then Some (manifest_failure
                 ''Manifest generation time is ambiguous with the active release'')
               else None
           | _ \<Rightarrow> None))"

section \<open>Staging\<close>

text \<open>
  \<open>stageAndActivate\<close> and \<open>stageAndActivateExclusive\<close> up to the download: the items to prefetch.
  The collection of unused assets in between only reads the state and its failures are ignored.
\<close>

definition stage_candidate ::
  "platform \<Rightarrow> (nat \<Rightarrow> observation) \<Rightarrow> json \<Rightarrow> manifest_trust \<Rightarrow> state_db \<Rightarrow> json list player_outcome" where
  "stage_candidate pf ob signedCandidate trust db =
     (case verifySignedPlayerManifest pf (ob_time (ob 0)) trust signedCandidate of
        None \<Rightarrow> rejected ''Manifest signature or screen binding is invalid'' db
      | Some candidate \<Rightarrow>
      if lease_ended pf candidate (ob_time (ob 0)) then rejected ''Manifest has already expired'' db
      else let stagingGeneration = ob_generation (ob 0) in
      if \<not> staging_current (ob 1) stagingGeneration
      then rejected ''Manifest staging was cancelled'' db
      else case verifySignedPlayerManifest pf (ob_time (ob 2)) trust signedCandidate of
        None \<Rightarrow>
          if \<not> staging_current (ob 2) stagingGeneration
          then rejected ''Manifest staging was cancelled'' db
          else rejected ''Manifest signature or screen binding is invalid'' db
      | Some candidate \<Rightarrow>
      if \<not> staging_current (ob 2) stagingGeneration
      then rejected ''Manifest staging was cancelled'' db
      else if lease_ended pf candidate (ob_time (ob 2))
      then rejected ''Manifest has already expired'' db
      else load (ob 2) Active_key db (\<lambda>signedActiveAtStage.
        let activeAtStage = verifySignedPlayerManifest pf (ob_time (ob 3)) trust signedActiveAtStage in
        if \<not> staging_current (ob 3) stagingGeneration
        then rejected ''Manifest staging was cancelled'' db
        else case assertNotOlderThanActive pf candidate activeAtStage of
          Some x \<Rightarrow> (Inl (Rejected x), db)
        | None \<Rightarrow>
            if \<not> staging_current (ob 4) stagingGeneration
            then rejected ''Manifest staging was cancelled'' db
            else if ended (manifestPlaybackEndsAt pf candidate) (ob_time (ob 4)) then (Inr [], db)
            else (Inr (elements (field candidate ''items'')), db)))"

section \<open>Activation\<close>

definition activateExclusive ::
  "platform \<Rightarrow> (nat \<Rightarrow> observation) \<Rightarrow> json \<Rightarrow> manifest_trust \<Rightarrow> nat \<Rightarrow> state_db \<Rightarrow>
    json option player_outcome" where
  "activateExclusive pf ob signedCandidate trust stagingGeneration db =
     (if \<not> staging_current (ob 0) stagingGeneration
      then rejected ''Manifest staging was cancelled'' db
      else if \<not> staging_current (ob 1) stagingGeneration
      then rejected ''Manifest staging was cancelled'' db
      else case verifySignedPlayerManifest pf (ob_time (ob 1)) trust signedCandidate of
        None \<Rightarrow> rejected ''Manifest signature or screen binding is invalid'' db
      | Some candidate \<Rightarrow>
      if lease_ended pf candidate (ob_time (ob 1)) then rejected ''Manifest has already expired'' db
      else let playbackEnded = ended (manifestPlaybackEndsAt pf candidate) (ob_time (ob 1)) in
      load (ob 1) Active_key db (\<lambda>signedActive.
        let active = verifySignedPlayerManifest pf (ob_time (ob 2)) trust signedActive in
        if \<not> staging_current (ob 2) stagingGeneration
        then rejected ''Manifest staging was cancelled'' db
        else let invalid = js_truthy signedActive \<and> active = None;
                 db1 = (if invalid then clearManifests db else db) in
        if invalid \<and> \<not> ob_storage (ob 2) then (Inl Storage_failed, db)
        else case assertNotOlderThanActive pf candidate active of
          Some x \<Rightarrow> (Inl (Rejected x), db1)
        | None \<Rightarrow>
            if \<not> staging_current (ob 3) stagingGeneration
            then rejected ''Manifest staging was cancelled'' db1
            else commit (ob 3) db1 (activateManifest signedCandidate db1)
              (if manifest_withdrawn candidate \<or> playbackEnded then None else Some candidate)))"

section \<open>Recovery\<close>

definition recoverExclusive ::
  "platform \<Rightarrow> (nat \<Rightarrow> observation) \<Rightarrow> manifest_trust \<Rightarrow> state_db \<Rightarrow> json option player_outcome" where
  "recoverExclusive pf ob trust db =
     load (ob 0) Active_key db (\<lambda>signedActive.
       case verifySignedPlayerManifest pf (ob_time (ob 1)) trust signedActive of
         None \<Rightarrow>
           if js_truthy signedActive then commit (ob 1) db (clearManifests db) None
           else load (ob 1) Previous_key db (\<lambda>signedPrevious.
             if js_truthy signedPrevious then commit (ob 2) db (clearManifests db) None
             else (Inr None, db))
       | Some active \<Rightarrow>
           let version = field active ''version'' in
           if manifest_withdrawn active
           then commit (ob 1) db (clearPreviousManifest version db) None
           else if emergency_manifest active \<and> lease_ended pf active (ob_time (ob 1))
           then load (ob 1) Previous_key db (\<lambda>signedRollbackCandidate.
             let rollbackCandidate =
               verifySignedPlayerManifest pf (ob_time (ob 2)) trust signedRollbackCandidate in
             if js_truthy signedRollbackCandidate \<and> rollbackCandidate = None
             then commit (ob 2) db (clearManifests db) None
             else if (case rollbackCandidate of None \<Rightarrow> False
               | Some c \<Rightarrow> emergency_manifest c \<and> lease_ended pf c (ob_time (ob 2)))
             then commit (ob 2) db (clearPreviousManifest version db) None
             else if \<not> isStoredManifestPlayable pf (ob_time (ob 2)) rollbackCandidate
             then commit (ob 2) db (clearPreviousManifest version db) None
             else if \<not> ob_storage (ob 2) then (Inl Storage_failed, db)
             else case rollback_manifest version None (ob_time (ob 3)) db of (previous, db1) \<Rightarrow>
               let verifiedPrevious =
                 verifySignedPlayerManifest pf (ob_time (ob 4)) trust previous in
               (Inr (if isStoredManifestPlayable pf (ob_time (ob 4)) verifiedPrevious
                     then verifiedPrevious else None), db1))
           else if ended (manifestPlaybackEndsAt pf active) (ob_time (ob 1))
           then commit (ob 1) db (clearPreviousManifest version db) None
           else (Inr (Some active), db))"

section \<open>Rollback\<close>

definition rollbackExclusive ::
  "platform \<Rightarrow> (nat \<Rightarrow> observation) \<Rightarrow> manifest_trust \<Rightarrow> json \<Rightarrow> state_db \<Rightarrow>
    json option player_outcome" where
  "rollbackExclusive pf ob trust expectedActiveVersion db =
     load (ob 0) Active_key db (\<lambda>signedActive.
       case verifySignedPlayerManifest pf (ob_time (ob 1)) trust signedActive of
         None \<Rightarrow>
           if js_truthy signedActive then commit (ob 1) db (clearManifests db) None
           else load (ob 1) Previous_key db (\<lambda>signedPrevious.
             if js_truthy signedPrevious then commit (ob 2) db (clearManifests db) None
             else (Inr None, db))
       | Some active \<Rightarrow>
           if manifest_withdrawn active \<or> ended (manifestPlaybackEndsAt pf active) (ob_time (ob 1))
           then commit (ob 1) db (clearPreviousManifest (field active ''version'') db) None
           else if expectedActiveVersion \<noteq> JUndefined \<and>
             \<not> strict_eq (field active ''version'') expectedActiveVersion
           then (Inr (if isStoredManifestPlayable pf (ob_time (ob 1)) (Some active)
                      then Some active else None), db)
           else load (ob 1) Previous_key db (\<lambda>signedPrevious.
             case verifySignedPlayerManifest pf (ob_time (ob 2)) trust signedPrevious of
               None \<Rightarrow> commit (ob 2) db (clearManifests db) None
             | Some previous \<Rightarrow>
                 if \<not> isStoredManifestPlayable pf (ob_time (ob 2)) (Some previous)
                 then commit (ob 2) db (clearManifests db) None
                 else if \<not> ob_storage (ob 2) then (Inl Storage_failed, db)
                 else case rollback_manifest expectedActiveVersion
                     (rollbackDeadline pf active previous) (ob_time (ob 3)) db of
                   (resultingActive, db1) \<Rightarrow>
                     let verifiedActive =
                       verifySignedPlayerManifest pf (ob_time (ob 4)) trust resultingActive in
                     if js_truthy resultingActive \<and> verifiedActive = None
                     then commit (ob 4) db1 (clearManifests db1) None
                     else (Inr (if isStoredManifestPlayable pf (ob_time (ob 4)) verifiedActive
                                then verifiedActive else None), db1)))"

section \<open>Effects\<close>

text \<open>A change of the database that neither adds a manifest nor breaks the rules of its slots.\<close>

definition slots_shrink :: "state_db \<Rightarrow> state_db \<Rightarrow> bool" where
  "slots_shrink db db' \<longleftrightarrow> slots db' \<subseteq> slots db \<and> (slots_inv db \<longrightarrow> slots_inv db')"

lemma slots_shrink_simps [simp]:
  "slots_shrink db db" "slots_shrink db (clearManifests db)"
  "slots_shrink db (clearPreviousManifest v db)"
  "slots_shrink db (snd (rollback_manifest v d t db))"
  by (simp_all add: slots_shrink_def slots_provisioning slots_inv_provisioning slots_rollback
      slots_inv_rollback)

lemma slots_shrink_rollback: "rollback_manifest v d t db = (r, db') \<Longrightarrow> slots_shrink db db'"
  by (metis slots_shrink_simps(4) snd_conv)

lemma slots_shrink_cleared:
  "rollback_manifest v d t db = (r, db') \<Longrightarrow> slots_shrink db (clearManifests db')"
  by (simp add: slots_shrink_def slots_provisioning slots_inv_provisioning)

lemma slots_shrink_commit:
  "commit ob db db1 r = (x, db') \<Longrightarrow> slots_shrink db db1 \<Longrightarrow> slots_shrink db db'"
  by (auto simp: commit_def split: if_splits)

lemma stage_candidate_same: "stage_candidate pf ob signed trust db = (r, db') \<Longrightarrow> db' = db"
  by (auto simp: stage_candidate_def load_def rejected_def Let_def split: option.splits if_splits)

lemma activate_cases:
  assumes "activateExclusive pf ob signed trust g db = (r, db')"
  shows "(db' \<in> {db, clearManifests db} \<and> (\<exists>x. r = Inl x)) \<or>
    (\<exists>candidate db1.
      verifySignedPlayerManifest pf (ob_time (ob 1)) trust signed = Some candidate \<and>
      \<not> lease_ended pf candidate (ob_time (ob 1)) \<and>
      assertNotOlderThanActive pf candidate
        (verifySignedPlayerManifest pf (ob_time (ob 2)) trust (read_key db Active_key)) = None \<and>
      db1 \<in> {db, clearManifests db} \<and> db' = activateManifest signed db1 \<and>
      r = Inr (if manifest_withdrawn candidate \<or>
        ended (manifestPlaybackEndsAt pf candidate) (ob_time (ob 1)) then None else Some candidate))"
  using assms
  by (auto simp: activateExclusive_def load_def commit_def rejected_def Let_def
      split: option.splits if_splits)

lemma recover_shrinks:
  assumes "recoverExclusive pf ob trust db = (r, db')"
  shows "slots_shrink db db'"
  using assms
  by (auto simp: recoverExclusive_def load_def Let_def dest: slots_shrink_commit slots_shrink_rollback
      split: option.splits if_splits prod.splits)

lemma rollback_shrinks:
  assumes "rollbackExclusive pf ob trust v db = (r, db')"
  shows "slots_shrink db db'"
  using assms
  by (auto simp: rollbackExclusive_def load_def Let_def commit_def
      dest: slots_shrink_rollback slots_shrink_cleared
      split: option.splits if_splits prod.splits)

section \<open>Playback\<close>

text \<open>
  At observation \<open>k\<close> the active slot of the database holds \<open>manifest\<close>, signed by the trusted key
  for the trusted screen, valid, and within all its boundaries.
\<close>

definition plays :: "platform \<Rightarrow> instant \<Rightarrow> manifest_trust \<Rightarrow> state_db \<Rightarrow> json \<Rightarrow> bool" where
  "plays pf t trust db manifest \<longleftrightarrow>
     verifySignedPlayerManifest pf t trust (read_key db Active_key) = Some manifest \<and>
     \<not> manifest_withdrawn manifest \<and>
     \<not> (emergency_manifest manifest \<and> lease_ended pf manifest t) \<and>
     \<not> ended (manifestPlaybackEndsAt pf manifest) t"

lemma read_activated: "read_key (activateManifest v db) Active_key = v"
  by (simp add: read_key_def activateManifest_def Let_def)

lemma read_rolled_back:
  assumes "rollback_manifest v d t db = (previous, db')" "js_truthy previous"
  shows "read_key db' Active_key = previous"
  using assms by (auto simp: rollback_manifest_def Let_def read_key_def split: if_splits)

lemma playable_plays:
  assumes "verifySignedPlayerManifest pf t trust (read_key db Active_key) = Some m"
    and "isStoredManifestPlayable pf t (Some m)"
  shows "plays pf t trust db m"
  using assms playable_manifest [OF assms(2)] by (simp add: plays_def)

lemma rolled_back_plays:
  assumes "rollback_manifest v d t db = (previous, db')"
    and "verifySignedPlayerManifest pf t' trust previous = Some m"
    and "isStoredManifestPlayable pf t' (Some m)"
  shows "plays pf t' trust db' m"
proof -
  have "read_key db' Active_key = previous"
    using assms(1) verified_manifest(4) [OF assms(2)] by (rule read_rolled_back)
  with assms(2,3) show ?thesis by (intro playable_plays) simp_all
qed

lemma activate_plays:
  assumes "activateExclusive pf ob signed trust g db = (Inr (Some m), db')"
  shows "plays pf (ob_time (ob 1)) trust db' m"
  using activate_cases [OF assms]
  by (auto simp: plays_def read_activated split: if_splits)

lemma recover_plays:
  assumes "recoverExclusive pf ob trust db = (Inr (Some m), db')"
  shows "\<exists>k. plays pf (ob_time (ob k)) trust db' m"
  using assms
  by (auto simp: recoverExclusive_def load_def commit_def Let_def
      intro: rolled_back_plays plays_def [THEN iffD2, OF conjI]
      split: option.splits if_splits prod.splits)

lemma rollback_plays:
  assumes "rollbackExclusive pf ob trust v db = (Inr (Some m), db')"
  shows "\<exists>k. plays pf (ob_time (ob k)) trust db' m"
  using assms
  by (auto simp: rollbackExclusive_def load_def commit_def Let_def
      intro: rolled_back_plays playable_plays
      split: option.splits if_splits prod.splits)

section \<open>Steps and runs\<close>

text \<open>
  The player: the operations of the manager and the provisioning transactions, in any order, with
  any observations.  A step carries the manifests whose activation it attempts.
\<close>

inductive player_step :: "platform \<Rightarrow> state_db \<Rightarrow> json list \<Rightarrow> state_db \<Rightarrow> bool" for pf db where
  stage: "stage_candidate pf ob signed trust db = (r, db') \<Longrightarrow> player_step pf db [] db'"
| activate: "activateExclusive pf ob signed trust g db = (r, db') \<Longrightarrow> player_step pf db [signed] db'"
| recover: "recoverExclusive pf ob trust db = (r, db') \<Longrightarrow> player_step pf db [] db'"
| rollback: "rollbackExclusive pf ob trust v db = (r, db') \<Longrightarrow> player_step pf db [] db'"
| credentials: "player_step pf db [] (putCredentials v db)"
| pending: "player_step pf db [] (putPendingPairing v db)"
| not_pending: "player_step pf db [] (deletePendingPairing db)"
| paired: "player_step pf db [] (completePairing v db)"
| unprovisioned: "player_step pf db [] (clearProvisionedState db)"
| cleared: "player_step pf db [] (clear_db db)"

inductive player_run :: "platform \<Rightarrow> state_db \<Rightarrow> json list \<Rightarrow> state_db \<Rightarrow> bool" for pf db0 where
  begin_run: "player_run pf db0 [] db0"
| next_step: "player_run pf db0 ws db \<Longrightarrow> player_step pf db ws' db' \<Longrightarrow> player_run pf db0 (ws @ ws') db'"

lemma player_step_slots:
  assumes "player_step pf db ws db'"
  shows "slots db' \<subseteq> set ws \<union> slots db \<and> (slots_inv db \<longrightarrow> slots_inv db')"
  using assms
proof cases
  case (activate ob signed trust g r)
  have s: "slots db1 \<subseteq> slots db" "slots_inv db \<longrightarrow> slots_inv db1" if "db1 \<in> {db, clearManifests db}"
    for db1 using that by (auto simp: slots_provisioning slots_inv_provisioning)
  show ?thesis using activate_cases [OF activate(2)] s slots_activate(1) [of signed]
    by (auto simp: activate(1) slots_inv_activate dest!: subsetD)
next
  case stage
  then show ?thesis using stage_candidate_same [OF stage(2)] by simp
next
  case recover
  then show ?thesis using recover_shrinks [OF recover(2)] by (simp add: slots_shrink_def)
next
  case rollback
  then show ?thesis using rollback_shrinks [OF rollback(2)] by (simp add: slots_shrink_def)
qed (simp_all add: slots_provisioning slots_inv_provisioning)

lemma player_run_slots:
  assumes "player_run pf db0 ws db"
  shows "slots db \<subseteq> set ws \<union> slots db0 \<and> (slots_inv db0 \<longrightarrow> slots_inv db)"
  using assms by induction (use player_step_slots in fastforce)+

end
