(* ===== verification/Player_Prefetch.thy ===== *)
theory Player_Prefetch
  imports Player_Manager
begin

text \<open>
  \<open>prefetchAssets\<close> of \<open>ManifestManager\<close>: at most two workers take the items of a release in order
  and download them concurrently, until the items run out, a download fails or the staging is
  cancelled.  The workers interleave at their awaits; a step is what one worker does between two
  of them.  The composition of staging, download and activation is \<open>stageAndActivate\<close>.
\<close>

section \<open>Workers\<close>

definition MAX_CONCURRENT_PREFETCHES :: nat where "MAX_CONCURRENT_PREFETCHES = 2"

datatype worker = Looping | Fetching nat | Returned

text \<open>
  \<open>pr_failure\<close> is the failure, present when the workers have been \<open>stopped\<close>; \<open>pr_fetched\<close> records
  the downloads that succeeded.
\<close>

record prefetching =
  pr_nextIndex :: nat
  pr_failure :: "player_failure option"
  pr_workers :: "worker list"
  pr_fetched :: "nat list"

definition prefetch_start :: "nat \<Rightarrow> prefetching" where
  "prefetch_start n = \<lparr>pr_nextIndex = 0, pr_failure = None,
     pr_workers = replicate (min MAX_CONCURRENT_PREFETCHES n) Looping, pr_fetched = []\<rparr>"

definition staging_cancelled :: player_failure where
  "staging_cancelled = Rejected (manifest_failure ''Manifest staging was cancelled'')"

definition set_worker :: "nat \<Rightarrow> worker \<Rightarrow> prefetching \<Rightarrow> prefetching" where
  "set_worker w x p = p\<lparr>pr_workers := (pr_workers p)[w := x]\<rparr>"

definition stop_workers :: "player_failure \<Rightarrow> prefetching \<Rightarrow> prefetching" where
  "stop_workers x p = p\<lparr>pr_failure := (case pr_failure p of None \<Rightarrow> Some x | Some y \<Rightarrow> Some y)\<rparr>"

text \<open>The head of the loop of worker \<open>w\<close>; \<open>current\<close> says whether the staging is still current.\<close>

definition loop_head :: "nat \<Rightarrow> bool \<Rightarrow> nat \<Rightarrow> prefetching \<Rightarrow> prefetching" where
  "loop_head n current w p =
     (if pr_failure p \<noteq> None then set_worker w Returned p
      else if \<not> current then set_worker w Returned (stop_workers staging_cancelled p)
      else let index = pr_nextIndex p; p' = p\<lparr>pr_nextIndex := index + 1\<rparr> in
        if index \<ge> n then set_worker w Returned p' else set_worker w (Fetching index) p')"

text \<open>The end of the download of item \<open>i\<close>: its failure, if any.\<close>

definition loop_tail :: "bool \<Rightarrow> player_failure option \<Rightarrow> nat \<Rightarrow> nat \<Rightarrow> prefetching \<Rightarrow> prefetching" where
  "loop_tail current failure i w p =
     (case failure of
        Some x \<Rightarrow> set_worker w Returned (stop_workers x p)
      | None \<Rightarrow>
          let p' = p\<lparr>pr_fetched := pr_fetched p @ [i]\<rparr> in
          if \<not> current then set_worker w Returned (stop_workers staging_cancelled p')
          else set_worker w Looping p')"

inductive prefetch_step :: "nat \<Rightarrow> prefetching \<Rightarrow> prefetching \<Rightarrow> bool" for n p where
  head: "w < length (pr_workers p) \<Longrightarrow> pr_workers p ! w = Looping \<Longrightarrow>
    prefetch_step n p (loop_head n current w p)"
| tail: "w < length (pr_workers p) \<Longrightarrow> pr_workers p ! w = Fetching i \<Longrightarrow>
    prefetch_step n p (loop_tail current failure i w p)"

text \<open>The state after \<open>k\<close> steps from the start.\<close>

inductive prefetch_run :: "nat \<Rightarrow> nat \<Rightarrow> prefetching \<Rightarrow> bool" for n where
  start: "prefetch_run n 0 (prefetch_start n)"
| step: "prefetch_run n k p \<Longrightarrow> prefetch_step n p p' \<Longrightarrow> prefetch_run n (Suc k) p'"

definition prefetch_done :: "prefetching \<Rightarrow> bool" where
  "prefetch_done p \<longleftrightarrow> list_all (\<lambda>w. w = Returned) (pr_workers p)"

section \<open>Invariant\<close>

definition in_flight :: "worker list \<Rightarrow> nat list" where
  "in_flight ws = List.map_filter (\<lambda>w. case w of Fetching i \<Rightarrow> Some i | _ \<Rightarrow> None) ws"

text \<open>
  The items the workers have taken, \<open>is\<close>: each once, and all below the next index unless a failure
  has dropped one.
\<close>

definition taken_items :: "nat \<Rightarrow> nat \<Rightarrow> bool \<Rightarrow> nat list \<Rightarrow> bool" where
  "taken_items n next stopped is \<longleftrightarrow>
     distinct is \<and> set is \<subseteq> {..<min next n} \<and> (\<not> stopped \<longrightarrow> set is = {..<min next n})"

definition prefetch_inv :: "nat \<Rightarrow> prefetching \<Rightarrow> bool" where
  "prefetch_inv n p \<longleftrightarrow>
     length (pr_workers p) = min MAX_CONCURRENT_PREFETCHES n \<and>
     taken_items n (pr_nextIndex p) (pr_failure p \<noteq> None)
       (pr_fetched p @ in_flight (pr_workers p)) \<and>
     (pr_failure p = None \<longrightarrow> Returned \<in> set (pr_workers p) \<longrightarrow> n \<le> pr_nextIndex p)"

lemma taken_items_mset:
  assumes "taken_items n next stopped is" "mset is' = mset is" "stopped \<longrightarrow> stopped'"
  shows "taken_items n next stopped' is'"
  using assms mset_eq_setD [OF assms(2)] mset_eq_imp_distinct_iff [OF assms(2)]
  by (auto simp: taken_items_def)

lemma taken_items_beyond:
  "taken_items n next stopped is \<Longrightarrow> n \<le> next \<Longrightarrow> taken_items n (Suc next) stopped is"
  by (simp add: taken_items_def min_absorb2)

lemma taken_items_take:
  assumes "taken_items n next stopped is" "next < n" "mset is' = add_mset next (mset is)"
  shows "taken_items n (Suc next) stopped is'"
proof -
  from assms(3) have m: "mset is' = mset (next # is)" by simp
  from assms(1,2) have "taken_items n (Suc next) stopped (next # is)"
    by (auto simp: taken_items_def)
  then show ?thesis using m by (rule taken_items_mset) simp
qed

lemma taken_items_drop:
  assumes "taken_items n next stopped is" "mset is = add_mset i (mset is')"
  shows "taken_items n next True is'"
proof -
  from assms(2) have m: "mset (i # is') = mset is" by simp
  from taken_items_mset [OF assms(1) m, of True] show ?thesis by (simp add: taken_items_def)
qed

text \<open>Replacing one worker.\<close>

lemma in_flight_simps [simp]:
  "in_flight [] = []"
  "in_flight (w # ws) = (case w of Fetching i \<Rightarrow> [i] | _ \<Rightarrow> []) @ in_flight ws"
  "in_flight (ws @ vs) = in_flight ws @ in_flight vs"
  by (simp_all add: in_flight_def map_filter_simps map_filter_def split: worker.split)

lemma split_worker:
  assumes "w < length ws" "ws ! w = x"
  obtains us vs where "ws = us @ x # vs" "w = length us"
proof (rule that)
  show "ws = take w ws @ x # drop (Suc w) ws" using assms id_take_nth_drop by blast
  show "w = length (take w ws)" using assms by simp
qed

lemmas worker_defs = loop_head_def loop_tail_def set_worker_def stop_workers_def

lemma prefetch_start_inv: "prefetch_inv n (prefetch_start n)"
proof -
  have "in_flight (replicate m Looping) = []" for m by (induction m) simp_all
  then show ?thesis by (simp add: prefetch_inv_def prefetch_start_def taken_items_def)
qed

lemma loop_head_inv:
  assumes "prefetch_inv n p" "pr_workers p = us @ Looping # vs"
  shows "prefetch_inv n (loop_head n current (length us) p)"
proof (cases "pr_failure p \<noteq> None \<or> \<not> current")
  case True
  then show ?thesis using assms
    by (auto simp: prefetch_inv_def worker_defs elim!: taken_items_mset split: option.splits)
next
  case False
  then have f: "pr_failure p = None" current by simp_all
  show ?thesis
  proof (cases "n \<le> pr_nextIndex p")
    case True
    then show ?thesis using assms f
      by (simp add: prefetch_inv_def worker_defs Let_def taken_items_beyond)
  next
    case False
    then have "pr_nextIndex p < n" by simp
    then have "taken_items n (Suc (pr_nextIndex p)) False
        (pr_fetched p @ in_flight (us @ Fetching (pr_nextIndex p) # vs))"
      using assms f by (auto simp: prefetch_inv_def elim!: taken_items_take)
    then show ?thesis using assms f False by (simp add: prefetch_inv_def worker_defs Let_def)
  qed
qed

lemma loop_tail_inv:
  assumes "prefetch_inv n p" "pr_workers p = us @ Fetching i # vs"
  shows "prefetch_inv n (loop_tail current failure i (length us) p)"
proof -
  let ?stopped = "pr_failure p \<noteq> None"
  have t: "taken_items n (pr_nextIndex p) ?stopped (pr_fetched p @ in_flight (us @ Fetching i # vs))"
    using assms by (simp add: prefetch_inv_def)
  have ok: "taken_items n (pr_nextIndex p) s ((pr_fetched p @ [i]) @ in_flight (us @ vs))"
    if "?stopped \<longrightarrow> s" for s
    using t that by (auto elim!: taken_items_mset)
  have failed: "taken_items n (pr_nextIndex p) True (pr_fetched p @ in_flight (us @ vs))"
    using t by (rule taken_items_drop) simp
  show ?thesis
  proof (cases failure)
    case None
    then show ?thesis using assms ok [of ?stopped] ok [of True]
      by (cases current; cases "pr_failure p") (simp_all add: prefetch_inv_def worker_defs Let_def)
  next
    case (Some x)
    then show ?thesis using assms failed
      by (cases "pr_failure p") (simp_all add: prefetch_inv_def worker_defs)
  qed
qed

lemma prefetch_step_inv:
  assumes "prefetch_step n p p'" "prefetch_inv n p"
  shows "prefetch_inv n p'"
  using assms(1)
proof cases
  case (head w current)
  obtain us vs where "pr_workers p = us @ Looping # vs" "w = length us"
    using head(2,3) by (rule split_worker)
  with loop_head_inv [OF assms(2)] show ?thesis by (simp add: head(1))
next
  case (tail w i current failure)
  obtain us vs where "pr_workers p = us @ Fetching i # vs" "w = length us"
    using tail(2,3) by (rule split_worker)
  with loop_tail_inv [OF assms(2)] show ?thesis by (simp add: tail(1))
qed

lemma prefetch_run_inv: "prefetch_run n k p \<Longrightarrow> prefetch_inv n p"
  by (induction rule: prefetch_run.induct) (auto intro: prefetch_start_inv prefetch_step_inv)

section \<open>Termination\<close>

fun worker_weight :: "worker \<Rightarrow> nat" where
  "worker_weight Looping = 1"
| "worker_weight (Fetching i) = 2"
| "worker_weight Returned = 0"

definition prefetch_weight :: "nat \<Rightarrow> prefetching \<Rightarrow> nat" where
  "prefetch_weight n p = 2 * (n - pr_nextIndex p) + sum_list (map worker_weight (pr_workers p))"

lemma prefetch_step_weight:
  assumes "prefetch_step n p p'"
  shows "prefetch_weight n p' < prefetch_weight n p"
  using assms
proof cases
  case (head w current)
  obtain us vs where "pr_workers p = us @ Looping # vs" "w = length us"
    using head(2,3) by (rule split_worker)
  then show ?thesis
    by (auto simp: head(1) prefetch_weight_def worker_defs Let_def split: option.splits)
next
  case (tail w i current failure)
  obtain us vs where "pr_workers p = us @ Fetching i # vs" "w = length us"
    using tail(2,3) by (rule split_worker)
  then show ?thesis
    by (auto simp: tail(1) prefetch_weight_def worker_defs Let_def split: option.splits)
qed

lemma prefetch_run_bounded:
  assumes "prefetch_run n k p"
  shows "k + prefetch_weight n p \<le> 2 * n + min MAX_CONCURRENT_PREFETCHES n"
  using assms
proof induction
  case start
  have "sum_list (map worker_weight (replicate m Looping)) = m" for m by (induction m) simp_all
  then show ?case by (simp add: prefetch_weight_def prefetch_start_def)
next
  case (step k p p')
  then show ?case using prefetch_step_weight by fastforce
qed

lemma prefetch_progress:
  assumes "\<not> prefetch_done p"
  shows "\<exists>p'. prefetch_step n p p'"
proof -
  from assms obtain w where w: "w < length (pr_workers p)" "pr_workers p ! w \<noteq> Returned"
    by (auto simp: prefetch_done_def list_all_length)
  then show ?thesis
    by (cases "pr_workers p ! w") (auto intro: prefetch_step.intros)
qed

lemma in_flight_done: "list_all (\<lambda>w. w = Returned) ws \<Longrightarrow> in_flight ws = []"
  by (induction ws) simp_all

lemma prefetched_all:
  assumes "prefetch_run n k p" "prefetch_done p" "pr_failure p = None"
  shows "distinct (pr_fetched p)" "set (pr_fetched p) = {..<n}"
proof -
  have inv: "prefetch_inv n p" using assms(1) by (rule prefetch_run_inv)
  have f: "in_flight (pr_workers p) = []"
    using assms(2) in_flight_done by (simp add: prefetch_done_def)
  show "distinct (pr_fetched p)" using inv by (simp add: prefetch_inv_def taken_items_def)
  show "set (pr_fetched p) = {..<n}"
  proof (cases "n = 0")
    case True
    then show ?thesis using inv by (simp add: prefetch_inv_def taken_items_def)
  next
    case False
    then have "pr_workers p \<noteq> []" using inv by (auto simp: prefetch_inv_def MAX_CONCURRENT_PREFETCHES_def)
    then have "Returned \<in> set (pr_workers p)"
      using assms(2) by (cases "pr_workers p") (simp_all add: prefetch_done_def)
    then show ?thesis using inv assms(3) by (simp add: prefetch_inv_def taken_items_def f min_absorb2)
  qed
qed

section \<open>stageAndActivate\<close>

text \<open>
  The whole operation: \<open>ob\<close> up to the download, \<open>p\<close> the state in which the download ends, \<open>db'\<close>
  the database then, \<open>ob'\<close> the activation.
\<close>

definition stageAndActivate ::
  "platform \<Rightarrow> (nat \<Rightarrow> observation) \<Rightarrow> json \<Rightarrow> manifest_trust \<Rightarrow> state_db \<Rightarrow> prefetching \<Rightarrow>
    (nat \<Rightarrow> observation) \<Rightarrow> state_db \<Rightarrow> json option player_outcome" where
  "stageAndActivate pf ob signedCandidate trust db p ob' db' =
     (case fst (stage_candidate pf ob signedCandidate trust db) of
        Inl x \<Rightarrow> (Inl x, db')
      | Inr items \<Rightarrow>
          (case pr_failure p of
             Some x \<Rightarrow> (Inl x, db')
           | None \<Rightarrow>
               if \<not> staging_current (ob 5) (ob_generation (ob 0)) then (Inl staging_cancelled, db')
               else activateExclusive pf ob' signedCandidate trust (ob_generation (ob 0)) db'))"

lemma verified_unique:
  assumes "verifySignedPlayerManifest pf t trust v = Some m"
    and "verifySignedPlayerManifest pf t' trust v = Some m'"
  shows "m = m'"
  using assms
  by (auto simp: verifySignedPlayerManifest_def normalizeSignedPayload_def Let_def
      split: if_splits option.splits sum.splits)

lemma stage_candidate_Inr:
  assumes "stage_candidate pf ob signed trust db = (Inr items, db')"
  obtains m where "verifySignedPlayerManifest pf (ob_time (ob 2)) trust signed = Some m"
    "items = (if ended (manifestPlaybackEndsAt pf m) (ob_time (ob 4)) then []
       else elements (field m ''items''))"
  using assms
  by (auto simp: stage_candidate_def load_def rejected_def Let_def split: option.splits if_splits)

lemma ended_later: "ended b t \<Longrightarrow> t \<le> t' \<Longrightarrow> ended b t'"
  by (auto simp: ended_def split: option.splits)

end
