(* ===== verification/Player_Samples.thy ===== *)
theory Player_Samples
  imports Player_Prefetch
begin

text \<open>
  A concrete player: a browser that knows two payloads and three instants, a release with one image
  and a withdrawal, signed, and the states they lead to.  For the witnesses.
\<close>

definition capability1 :: string where
  "capability1 = CHR ''c'' # CHR ''.'' # replicate 43 (CHR ''a'')"

definition asset1 :: json where
  "asset1 = JObj [(js ''id'', jstr ''a1''), (js ''kind'', jstr ''image''), (js ''url'', jstr ''u''),
     (js ''mimeType'', jstr ''image/png''), (js ''mediaDelivery'', jstr ''authorization-v1''),
     (js ''mediaCapability'', jstr capability1),
     (js ''checksumSha256'', jstr (replicate 64 (CHR ''a''))), (js ''sizeBytes'', JNum 2048)]"

definition wire_manifest :: "string \<Rightarrow> string \<Rightarrow> bool \<Rightarrow> json list \<Rightarrow> json" where
  "wire_manifest version generatedAt gone items =
     JObj [(js ''protocolVersion'', JNum 2), (js ''mediaDelivery'', jstr ''authorization-v1''),
       (js ''version'', jstr version), (js ''generatedAt'', jstr generatedAt),
       (js ''validUntil'', jstr ''t9''), (js ''screenId'', jstr ''s1''),
       (js ''priority'', jstr ''normal''), (js ''withdrawn'', JBool gone), (js ''items'', JArr items)]"

definition release_wire :: json where
  "release_wire = wire_manifest ''v1'' ''t1'' False
     [JObj [(js ''asset'', asset1), (js ''durationSeconds'', JNum 10)]]"

definition withdrawal_wire :: json where
  "withdrawal_wire = wire_manifest ''v2'' ''t2'' True []"

definition player1 :: platform where
  "player1 = \<lparr>
     pf_parse_json = (\<lambda>s. if s = js ''w'' then Some withdrawal_wire
       else if s = stringify release_wire then Some release_wire else None),
     pf_parse_date = map_of [(js ''t1'', 1000), (js ''t2'', 2000), (js ''t9'', 9000)],
     pf_parse_link = (\<lambda>_. Some \<lparr>lk_username = [], lk_password = [], lk_search = [], lk_hash = [],
       lk_protocol = js ''https:'', lk_hostname = js ''media'',
       lk_origin = js ''https://media'', lk_pathname = js ''/''\<rparr>),
     pf_ed25519 = (\<lambda>_ _ _. True)\<rparr>"

definition trust1 :: manifest_trust where
  "trust1 = \<lparr>tr_screenId = js ''s1'', tr_manifestVerificationKey = js (replicate 43 (CHR ''A''))\<rparr>"

definition signature1 :: utext where
  "signature1 = js (replicate 86 (CHR ''A''))"

definition at1 :: "instant \<Rightarrow> nat \<Rightarrow> observation" where
  "at1 t k = \<lparr>ob_time = t, ob_generation = 0, ob_storage = True\<rparr>"

definition shown1 :: json where
  "shown1 = normalized release_wire [JObj (put_entry ''durationSeconds'' (JNum 10) (own_entries asset1))]"

definition gone1 :: json where
  "gone1 = normalized withdrawal_wire []"

definition signed_release1 :: json where
  "signed_release1 = signed_manifest (stringify release_wire) signature1 shown1"

definition signed_withdrawal1 :: json where
  "signed_withdrawal1 = signed_manifest (js ''w'') signature1 gone1"

definition no_state :: state_db where
  "no_state = (\<lambda>_. None)"

definition playing1 :: state_db where
  "playing1 = activateManifest signed_release1 no_state"

definition blank1 :: state_db where
  "blank1 = activateManifest signed_withdrawal1 playing1"

section \<open>Evaluation\<close>

lemma js_empty [simp]: "js s = [] \<longleftrightarrow> s = []"
  by (simp add: js_def)

lemma js_replicate: "js (replicate n c) = replicate n (of_char c)"
  by (simp add: js_def)

lemma zero_sextets: "decodeBase64Url (replicate (Suc n) 65) = sextet_bytes (replicate (Suc n) 0)"
  by (simp add: decodeBase64Url_def sextet_def)

lemma key1: "decodeBase64Url (js (replicate 43 (CHR ''A''))) = Some (replicate 32 0)"
  using zero_sextets [of 42] by (simp add: js_replicate, simp add: replicate_numeral)

lemma signature1_bytes: "decodeBase64Url signature1 = Some (replicate 64 0)"
  using zero_sextets [of 85] by (simp add: signature1_def js_replicate, simp add: replicate_numeral)

lemma signed1: "verifyManifestPayloadSignature player1 payload signature1
    (tr_manifestVerificationKey trust1)"
  by (simp add: verifyManifestPayloadSignature_def key1 signature1_bytes trust1_def player1_def)

lemma hex1: "hex_checksum (js (replicate 64 (CHR ''a'')))"
  by (simp add: hex_checksum_def js_replicate list_all_iff)

lemma capability1_ok: "MEDIA_CAPABILITY (js capability1)"
  by (simp add: MEDIA_CAPABILITY_def capability1_def js_def sextet_def list_all_iff)

lemma asset1_fields:
  "put_entry ''durationSeconds'' (JNum 10) (own_entries asset1) =
     [(js ''id'', jstr ''a1''), (js ''kind'', jstr ''image''), (js ''url'', jstr ''u''),
      (js ''mimeType'', jstr ''image/png''), (js ''mediaDelivery'', jstr ''authorization-v1''),
      (js ''mediaCapability'', jstr capability1),
      (js ''checksumSha256'', jstr (replicate 64 (CHR ''a''))), (js ''sizeBytes'', JNum 2048),
      (js ''durationSeconds'', JNum 10)]"
  by (simp add: put_entry_def own_entries_def asset1_def)

lemmas shown_fields = shown1_def gone1_def normalized_fields normalized_withdrawn
  normalized_object release_wire_def withdrawal_wire_def wire_manifest_def

lemma accepted1: "assertManifest player1 3000 r shown1 = None" "assertManifest player1 3000 r gone1 = None"
  by (simp_all add: assertManifest_def shown_fields asset1_fields current_protocol_def legacy_protocol_def
      date_parse_def player1_def known_priorities_def MAX_ITEMS_def item_valid_def emergency_template_def
      isAllowedAssetUrl_def isAllowedKindAndMime_def capability1_ok hex1 integer_within_def
      SAFE_INTEGER_LIMIT_def MAX_ASSET_BYTES_def MAX_RELEASE_BYTES_def expiry_valid_def Let_def)


lemma normalized1: "normalizeSignedPayload player1 3000 r release_wire = Inr shown1"
proof -
  have "normalize_items (elements (field release_wire ''items'')) =
      Inr [JObj (put_entry ''durationSeconds'' (JNum 10) (own_entries asset1))]"
    by (simp add: release_wire_def wire_manifest_def normalize_item_def) (simp add: asset1_def)
  moreover have "js_truthy release_wire" "is_object release_wire" "is_array (field release_wire ''items'')"
    by (simp_all add: release_wire_def wire_manifest_def)
  ultimately show ?thesis using accepted1(1)
    by (simp add: normalizeSignedPayload_def shown1_def [symmetric])
qed

lemma normalized2: "normalizeSignedPayload player1 3000 r withdrawal_wire = Inr gone1"
proof -
  have "normalize_items (elements (field withdrawal_wire ''items'')) = Inr []"
    "js_truthy withdrawal_wire" "is_object withdrawal_wire" "is_array (field withdrawal_wire ''items'')"
    by (simp_all add: withdrawal_wire_def wire_manifest_def)
  then show ?thesis using accepted1(2) by (simp add: normalizeSignedPayload_def gone1_def [symmetric])
qed

lemma parsed1:
  "pf_parse_json player1 (stringify release_wire) = Some release_wire"
  "pf_parse_json player1 (js ''w'') = Some withdrawal_wire"
  by (simp_all add: player1_def release_wire_def wire_manifest_def js_def)

lemma release1_created: "createSignedPlayerManifest player1 3000 release_wire signature1 = Inr signed_release1"
  by (simp add: createSignedPlayerManifest_def normalized1 signed_release1_def)

lemma screen1: "field shown1 ''screenId'' = JStr (tr_screenId trust1)"
  "field gone1 ''screenId'' = JStr (tr_screenId trust1)"
  by (simp_all add: shown_fields trust1_def)

lemma object1: "js_truthy shown1" "js_truthy gone1"
  by (simp_all add: shown1_def gone1_def normalized_object)

lemma verified1:
  "verifySignedPlayerManifest player1 3000 trust1 signed_release1 = Some shown1"
  "verifySignedPlayerManifest player1 3000 trust1 signed_withdrawal1 = Some gone1"
  by (simp_all add: verifySignedPlayerManifest_def signed_release1_def signed_withdrawal1_def signed_manifest_def
      signed1 parsed1 normalized1 normalized2 screen1 object1)

section \<open>States\<close>

lemma lease1: "\<not> lease_ended player1 shown1 3000" "\<not> lease_ended player1 gone1 3000"
  by (simp_all add: lease_ended_def ended_def date_parse_def player1_def shown_fields)

lemma no_boundary1: "manifestPlaybackEndsAt player1 shown1 = None" "manifestPlaybackEndsAt player1 gone1 = None"
  by (simp_all add: manifestPlaybackEndsAt_def earliest_def playback_boundaries_def shown_fields
      asset1_fields map_filter_simps)

lemma withdrawn1: "manifest_withdrawn gone1" "\<not> manifest_withdrawn shown1"
  by (simp_all add: manifest_withdrawn_def shown_fields)

lemma at1_fields [simp]: "ob_time (at1 t k) = t" "ob_generation (at1 t k) = 0" "ob_storage (at1 t k)"
  "staging_current (at1 t k) 0"
  by (simp_all add: at1_def staging_current_def)

lemma activated1:
  "activateExclusive player1 (at1 3000) signed_release1 trust1 0 no_state = (Inr (Some shown1), playing1)"
  by (simp add: activateExclusive_def load_def commit_def verified1 lease1 no_boundary1 withdrawn1
      read_key_def no_state_def playing1_def assertNotOlderThanActive_def ended_def Let_def)

lemma playing1_active: "read_key playing1 Active_key = signed_release1"
  by (simp add: playing1_def read_activated)

lemma not_older1: "assertNotOlderThanActive player1 gone1 (Some shown1) = None"
  by (simp add: assertNotOlderThanActive_def date_parse_def player1_def shown_fields)

lemma activated2:
  "activateExclusive player1 (at1 3000) signed_withdrawal1 trust1 0 playing1 = (Inr None, blank1)"
  by (simp add: activateExclusive_def load_def commit_def verified1 lease1 no_boundary1 withdrawn1
      playing1_active blank1_def not_older1 ended_def Let_def)

lemma staged1:
  "stage_candidate player1 (at1 3000) signed_release1 trust1 no_state = (Inr (elements (field shown1 ''items'')), no_state)"
  by (simp add: stage_candidate_def load_def verified1 lease1 no_boundary1
      read_key_def no_state_def assertNotOlderThanActive_def ended_def Let_def)

section \<open>Downloads\<close>

text \<open>Two steps of the one worker of the sample download, and its last look at the items.\<close>

definition fetched1 :: prefetching where
  "fetched1 = loop_head 1 True 0 (loop_tail True None 0 0 (loop_head 1 True 0 (prefetch_start 1)))"

lemmas fetched1_defs = fetched1_def worker_defs prefetch_start_def MAX_CONCURRENT_PREFETCHES_def Let_def

lemma fetched1_run: "prefetch_run 1 (Suc (Suc (Suc 0))) fetched1"
proof -
  have h: "prefetch_run 1 (Suc 0) (loop_head 1 True 0 (prefetch_start 1))"
    by (rule prefetch_run.step [OF prefetch_run.start prefetch_step.head])
      (simp_all add: prefetch_start_def MAX_CONCURRENT_PREFETCHES_def)
  have t: "prefetch_run 1 (Suc (Suc 0)) (loop_tail True None 0 0 (loop_head 1 True 0 (prefetch_start 1)))"
    by (rule prefetch_run.step [OF h prefetch_step.tail]) (simp_all add: fetched1_defs)
  show ?thesis unfolding fetched1_def
    by (rule prefetch_run.step [OF t prefetch_step.head]) (simp_all add: fetched1_defs)
qed

lemma fetched1_done: "prefetch_done fetched1" "pr_failure fetched1 = None"
  by (simp_all add: fetched1_defs prefetch_done_def)

end
