(* ===== verification/Player_Properties.thy ===== *)
theory Player_Properties
  imports Player_Samples
begin

text \<open>
  The properties of the player: what it shows is signed and current, a withdrawal is final, time
  does not run backwards, a release is complete before it plays, and what an accepted manifest
  guarantees.
\<close>

text \<open>
  C13: whatever activation, recovery or rollback hands to the screen, the active slot of the
  database then holds the same manifest, signed by the trusted key for this screen, valid, not
  withdrawn, not an expired emergency and not past any of its playback boundaries at an instant
  the operation observed.
\<close>

theorem player_shows_signed_content:
  assumes "activateExclusive pf ob signed trust g db = (Inr (Some m), db') \<or>
    recoverExclusive pf ob trust db = (Inr (Some m), db') \<or>
    rollbackExclusive pf ob trust v db = (Inr (Some m), db')"
  shows "\<exists>k. let shown = read_key db' Active_key; t = ob_time (ob k) in
    verifySignedPlayerManifest pf t trust shown = Some m \<and>
    verifyManifestPayloadSignature pf (to_text (field shown ''payloadJson''))
      (to_text (field shown ''signature'')) (tr_manifestVerificationKey trust) \<and>
    field m ''screenId'' = JStr (tr_screenId trust) \<and> assertManifest pf t False m = None \<and>
    \<not> manifest_withdrawn m \<and> \<not> (emergency_manifest m \<and> lease_ended pf m t) \<and>
    \<not> ended (manifestPlaybackEndsAt pf m) t"
proof -
  have "\<exists>k. plays pf (ob_time (ob k)) trust db' m"
    using assms by (elim disjE) (auto dest: activate_plays recover_plays rollback_plays)
  then obtain k where k: "plays pf (ob_time (ob k)) trust db' m" ..
  show ?thesis
    by (rule exI [of _ k]) (use k verified_manifest in \<open>auto simp: plays_def Let_def\<close>)
qed

theorem player_shows_signed_content_witness:
  "\<exists>k. ob_time (at1 3000 k) = 3000 \<and>
    verifySignedPlayerManifest player1 3000 trust1 (read_key playing1 Active_key) = Some shown1"
  using player_shows_signed_content [OF disjI1 [OF activated1]] by (simp add: Let_def)

text \<open>
  C14: a withdrawal is a tombstone: after a withdrawal has been activated, whatever the manager and
  the provisioning do, with failing storage and cancelled stagings, the database holds nothing but
  the withdrawal and manifests whose activation came later.
\<close>

theorem withdrawn_content_never_returns:
  assumes "activateExclusive pf ob gone trust g db = (Inr r, db0)"
    and "manifest_withdrawn (field gone ''manifest'')" "player_run pf db0 ws db'"
  shows "slots db' \<subseteq> insert gone (set ws)"
proof -
  have "slots db0 \<subseteq> {gone}"
    using activate_cases [OF assms(1)] slots_activate(2) [OF assms(2)] by auto
  with player_run_slots [OF assms(3)] show ?thesis by auto
qed

theorem withdrawn_content_never_returns_witness:
  "slots (clear_db blank1) \<subseteq> {signed_withdrawal1}"
proof -
  have w: "manifest_withdrawn (field signed_withdrawal1 ''manifest'')"
    by (simp add: signed_withdrawal1_def signed_manifest_def withdrawn1)
  have "player_run player1 blank1 ([] @ []) (clear_db blank1)"
    by (rule next_step [OF begin_run cleared])
  from withdrawn_content_never_returns [OF activated2 w this] show ?thesis by simp
qed

text \<open>
  In every state of the player the manifest kept for rollback is neither an emergency nor
  withdrawn, and behind a withdrawn manifest nothing is kept.
\<close>

theorem rollback_slot_is_ordinary:
  assumes "player_run pf (\<lambda>_. None) ws db"
  shows "(\<forall>v. db Previous_key = Some v \<longrightarrow>
      \<not> emergency_manifest (field v ''manifest'') \<and> \<not> manifest_withdrawn (field v ''manifest'')) \<and>
    (\<forall>v. db Active_key = Some v \<longrightarrow> manifest_withdrawn (field v ''manifest'') \<longrightarrow>
      db Previous_key = None)"
  using player_run_slots [OF assms] by (simp add: slots_inv_def)

theorem rollback_slot_is_ordinary_witness:
  "blank1 Active_key = Some signed_withdrawal1 \<and> blank1 Previous_key = None"
proof -
  have "player_run player1 (\<lambda>_. None) (([] @ [signed_release1]) @ [signed_withdrawal1]) blank1"
    by (rule next_step [OF next_step [OF begin_run activate [OF activated1 [unfolded no_state_def]]]
          activate [OF activated2]])
  from rollback_slot_is_ordinary [OF this] have "\<forall>v. blank1 Active_key = Some v \<longrightarrow>
      manifest_withdrawn (field v ''manifest'') \<longrightarrow> blank1 Previous_key = None" ..
  moreover have "blank1 Active_key = Some signed_withdrawal1"
      "manifest_withdrawn (field signed_withdrawal1 ''manifest'')"
    by (simp_all add: blank1_def activateManifest_def Let_def signed_withdrawal1_def signed_manifest_def
        withdrawn1)
  ultimately show ?thesis by simp
qed

text \<open>
  C19: an activation that succeeds over a verified active release is not generated before it, and
  is generated at the same instant only for the same version or when neither answers a challenge.
\<close>

theorem activation_is_never_older:
  assumes "activateExclusive pf ob signed trust g db = (Inr r, db')"
    and "verifySignedPlayerManifest pf (ob_time (ob 2)) trust (read_key db Active_key) = Some active"
    and "date_parse pf (field active ''generatedAt'') = Some ta"
  shows "\<exists>c tc. verifySignedPlayerManifest pf (ob_time (ob 1)) trust signed = Some c \<and>
    read_key db' Active_key = signed \<and> date_parse pf (field c ''generatedAt'') = Some tc \<and>
    ta \<le> tc \<and> (ta = tc \<longrightarrow> strict_eq (field c ''version'') (field active ''version'') \<or>
      field c ''requestChallengeId'' = JUndefined \<and> field active ''requestChallengeId'' = JUndefined)"
proof -
  obtain c where c: "verifySignedPlayerManifest pf (ob_time (ob 1)) trust signed = Some c"
      "assertNotOlderThanActive pf c (Some active) = None" "read_key db' Active_key = signed"
    using activate_cases [OF assms(1)] assms(2) by (auto simp: read_activated)
  obtain tc where tc: "date_parse pf (field c ''generatedAt'') = Some tc"
    using verified_manifest(3) [OF c(1)] by (rule assertManifest_None)
  show ?thesis using c tc assms(3)
    by (auto simp: assertNotOlderThanActive_def split: if_splits)
qed

theorem activation_is_never_older_witness:
  "\<exists>c tc. verifySignedPlayerManifest player1 3000 trust1 signed_withdrawal1 = Some c \<and>
    date_parse player1 (field c ''generatedAt'') = Some tc \<and> 1000 \<le> tc"
proof -
  have v: "verifySignedPlayerManifest player1 (ob_time (at1 3000 2)) trust1
      (read_key playing1 Active_key) = Some shown1"
    by (simp add: playing1_active verified1)
  have d: "date_parse player1 (field shown1 ''generatedAt'') = Some 1000"
    by (simp add: date_parse_def player1_def shown_fields)
  from activation_is_never_older [OF activated2 v d] show ?thesis by auto
qed

text \<open>
  C20: an accepted manifest is bounded: at most 500 items with distinct identifiers, 512 MiB in all;
  every item has a duration of 1 to 86400 seconds, a size of 1 byte to 128 MiB, a SHA-256 checksum
  and an allowed URL, kind and type; and it is empty exactly when it is a withdrawal.
\<close>

theorem accepted_manifest_is_bounded:
  assumes "verifySignedPlayerManifest pf t trust signed = Some m"
  shows "let items = elements (field m ''items'') in
    length items \<le> 500 \<and> sorted_wrt (\<lambda>i j. \<not> strict_eq i j) (map (\<lambda>i. field i ''id'') items) \<and>
    (\<Sum>i\<leftarrow>items. number (field i ''sizeBytes'')) \<le> 512 * 1024 * 1024 \<and>
    (\<forall>i \<in> set items. integer_within (field i ''durationSeconds'') 1 86400 \<and>
      integer_within (field i ''sizeBytes'') 1 (128 * 1024 * 1024) \<and>
      hex_checksum (to_text (field i ''checksumSha256'')) \<and>
      isAllowedKindAndMime i (field m ''priority'') \<and>
      isAllowedAssetUrl pf (to_text (field i ''url'')) (emergency_template (field m ''priority'') i)
        (legacy_protocol m)) \<and>
    (items = [] \<longleftrightarrow> manifest_withdrawn m)"
proof -
  let ?items = "elements (field m ''items'')"
  obtain g where g: "length ?items \<le> MAX_ITEMS" "manifest_withdrawn m \<longleftrightarrow> ?items = []"
      "assert_items pf m g [] 0 ?items = None"
    using verified_manifest(3) [OF assms] by (rule assertManifest_None)
  have "(\<Sum>i\<leftarrow>?items. number (field i ''sizeBytes'')) \<le> MAX_RELEASE_BYTES"
    using assert_items_None(3) [OF g(3)] by (cases "?items = []") (simp_all add: MAX_RELEASE_BYTES_def)
  with g assert_items_None(1,2) [OF g(3)] show ?thesis
    by (simp add: Let_def MAX_ITEMS_def MAX_RELEASE_BYTES_def MAX_ASSET_BYTES_def list_all_iff
        item_ok_def item_valid_def)
qed

theorem accepted_manifest_is_bounded_witness:
  "(\<Sum>i\<leftarrow>elements (field shown1 ''items''). number (field i ''sizeBytes'')) \<le> 512 * 1024 * 1024"
  using accepted_manifest_is_bounded [OF verified1(1)] by (simp only: Let_def)

lemma check_passes: "(if b then Some x else r) = None \<longleftrightarrow> \<not> b \<and> r = None"
  by simp

text \<open>The clock enters the checks of a manifest only where its generation may lie in the future.\<close>

lemma assertManifest_later:
  assumes "assertManifest pf t True manifest = None"
  shows "assertManifest pf t' False manifest = None \<longleftrightarrow>
    the (date_parse pf (field manifest ''generatedAt'')) \<le> t' + 5 * 60000"
    (is "?accepted \<longleftrightarrow> ?late")
proof
  assume ?accepted
  then show ?late by (rule assertManifest_None) simp
next
  assume ?late
  then have "\<not> the (date_parse pf (field manifest ''generatedAt'')) > t' + 5 * 60000" by simp
  with assertManifest_recoverable [OF assms] show ?accepted
    unfolding assertManifest_def Let_def check_passes by blast
qed

text \<open>
  C21: a manifest the player has normalised and stored is accepted again whenever it is read back
  later, and also by a clock set back as long as the manifest's generation is not more than five
  minutes ahead of it; only then is it refused.  The verification of the signed record yields the
  stored manifest, if the signature of its text is good, the text parses back to the value it was
  made from, and the value names this screen.
\<close>

theorem signed_manifest_round_trip:
  assumes "createSignedPlayerManifest pf t unsigned signature = Inr signed"
    and "pf_parse_json pf (stringify unsigned) = Some unsigned"
    and "verifyManifestPayloadSignature pf (stringify unsigned) signature
      (tr_manifestVerificationKey trust)"
    and "field unsigned ''screenId'' = JStr (tr_screenId trust)"
  shows "verifySignedPlayerManifest pf t' trust signed =
    (if t \<le> t' \<or> the (date_parse pf (field unsigned ''generatedAt'')) \<le> t' + 5 * 60000
     then Some (field signed ''manifest'') else None)"
proof -
  obtain items where items: "normalize_items (elements (field unsigned ''items'')) = Inr items"
      "js_truthy unsigned" "is_object unsigned" "is_array (field unsigned ''items'')"
      "assertManifest pf t True (normalized unsigned items) = None"
      "signed = signed_manifest (stringify unsigned) signature (normalized unsigned items)"
    using assms(1)
    by (auto simp: createSignedPlayerManifest_def normalizeSignedPayload_def Let_def
        split: if_splits sum.splits option.splits)
  let ?g = "the (date_parse pf (field unsigned ''generatedAt''))"
  have g: "field (normalized unsigned items) ''generatedAt'' = field unsigned ''generatedAt''"
    by (simp add: normalized_fields)
  have "?g \<le> t + 5 * 60000"
    using assertManifest_later [OF items(5), of t] assertManifest_recoverable [OF items(5)] g by simp
  then have "assertManifest pf t' False (normalized unsigned items) = None \<longleftrightarrow>
      t \<le> t' \<or> ?g \<le> t' + 5 * 60000"
    using assertManifest_later [OF items(5), of t'] g by auto
  then have "normalizeSignedPayload pf t' False unsigned = Inr (normalized unsigned items) \<or>
      \<not> (t \<le> t' \<or> ?g \<le> t' + 5 * 60000) \<and> (\<exists>x. normalizeSignedPayload pf t' False unsigned = Inl x)"
    using items(1-4) by (auto simp: normalizeSignedPayload_def Let_def split: option.splits)
  then show ?thesis
  proof (elim disjE conjE exE)
    assume n: "normalizeSignedPayload pf t' False unsigned = Inr (normalized unsigned items)"
    then have "t \<le> t' \<or> ?g \<le> t' + 5 * 60000"
      using \<open>_ \<longleftrightarrow> t \<le> t' \<or> _\<close> items(1-4)
      by (simp add: normalizeSignedPayload_def Let_def split: option.splits)
    then show ?thesis using n items(6) assms(2-4)
      by (simp add: verifySignedPlayerManifest_def signed_manifest_def normalized_object normalized_fields)
  qed (use items(6) assms(2-4) in \<open>simp add: verifySignedPlayerManifest_def signed_manifest_def
      normalized_object\<close>)
qed

theorem signed_manifest_round_trip_witness:
  "verifySignedPlayerManifest player1 9000 trust1 signed_release1 = Some (field signed_release1 ''manifest'')"
proof -
  have "field release_wire ''screenId'' = JStr (tr_screenId trust1)"
    by (simp add: release_wire_def wire_manifest_def trust1_def)
  from signed_manifest_round_trip [OF release1_created parsed1(1) signed1 this, of 9000] show ?thesis by simp
qed

text \<open>
  C15: a release is complete before it plays: when staging, the interleaved downloads and the
  activation end with a manifest to show, the stored record is active and the listed items have
  been downloaded, each once.  These are all items of the manifest shown, unless its playback was
  over by the wall clock when it was staged and the clock was set back before the activation:
  then nothing was listed and nothing downloaded.
\<close>

theorem activated_release_is_complete:
  assumes "fst (stage_candidate pf ob signed trust db) = Inr items"
    and "prefetch_run (length items) k p" "prefetch_done p"
    and "stageAndActivate pf ob signed trust db p ob' db' = (Inr (Some m), db'')"
  shows "read_key db'' Active_key = signed \<and> distinct (pr_fetched p) \<and>
    set (pr_fetched p) = {..<length items} \<and>
    (if ended (manifestPlaybackEndsAt pf m) (ob_time (ob 4))
     then items = [] \<and> ob_time (ob' 1) < ob_time (ob 4)
     else items = elements (field m ''items''))"
proof -
  from assms(1,4) have p: "pr_failure p = None"
    and a: "activateExclusive pf ob' signed trust (ob_generation (ob 0)) db' = (Inr (Some m), db'')"
    by (simp_all add: stageAndActivate_def split: option.splits if_splits)
  obtain db1 where s: "stage_candidate pf ob signed trust db = (Inr items, db1)"
    using assms(1) by (cases "stage_candidate pf ob signed trust db") simp
  obtain c where c: "verifySignedPlayerManifest pf (ob_time (ob 2)) trust signed = Some c"
      "items = (if ended (manifestPlaybackEndsAt pf c) (ob_time (ob 4)) then []
        else elements (field c ''items''))"
    using s by (rule stage_candidate_Inr)
  obtain m' where m': "verifySignedPlayerManifest pf (ob_time (ob' 1)) trust signed = Some m'"
      "m' = m" "\<not> ended (manifestPlaybackEndsAt pf m) (ob_time (ob' 1))" "read_key db'' Active_key = signed"
    using activate_cases [OF a] by (auto simp: read_activated split: if_splits)
  have "c = m" using verified_unique [OF c(1) m'(1)] m'(2) by simp
  moreover have "ob_time (ob' 1) < ob_time (ob 4)" if "ended (manifestPlaybackEndsAt pf m) (ob_time (ob 4))"
    using ended_later [OF that] m'(3) by (meson not_le)
  ultimately show ?thesis using c(2) m'(4) prefetched_all [OF assms(2,3) p] by simp
qed

theorem activated_release_is_complete_witness:
  "set (pr_fetched fetched1) = {..<length (elements (field shown1 ''items''))}"
proof -
  have s: "fst (stage_candidate player1 (at1 3000) signed_release1 trust1 no_state) =
      Inr (elements (field shown1 ''items''))"
    by (simp add: staged1)
  have "length (elements (field shown1 ''items'')) = 1" by (simp add: shown_fields)
  then have r: "prefetch_run (length (elements (field shown1 ''items''))) (Suc (Suc (Suc 0))) fetched1"
    using fetched1_run by simp
  have "stageAndActivate player1 (at1 3000) signed_release1 trust1 no_state fetched1 (at1 3000) no_state =
      (Inr (Some shown1), playing1)"
    by (simp add: stageAndActivate_def staged1 fetched1_done activated1)
  from activated_release_is_complete [OF s r fetched1_done(1) this] show ?thesis by simp
qed

text \<open>
  C32: the downloads end: of \<open>n\<close> items at most two are under way at any time, whatever the
  interleaving no more than 2n + 2 steps are made, and until all workers have returned one of
  them can go on.
\<close>

theorem downloads_terminate:
  assumes "prefetch_run n k p"
  shows "length (in_flight (pr_workers p)) \<le> 2 \<and> k \<le> 2 * n + 2 \<and>
    (prefetch_done p \<or> (\<exists>p'. prefetch_step n p p'))"
proof -
  have "length (in_flight ws) \<le> length ws" for ws
    by (induction ws) (auto split: worker.split)
  moreover have "length (pr_workers p) \<le> 2"
    using prefetch_run_inv [OF assms] by (simp add: prefetch_inv_def MAX_CONCURRENT_PREFETCHES_def)
  ultimately have "length (in_flight (pr_workers p)) \<le> 2" by (rule le_trans)
  with prefetch_run_bounded [OF assms] prefetch_progress [of p n] show ?thesis
    by (auto simp: MAX_CONCURRENT_PREFETCHES_def)
qed

theorem downloads_terminate_witness:
  "length (in_flight (pr_workers fetched1)) \<le> 2"
  using downloads_terminate [OF fetched1_run] by simp

end
