(* ===== verification/Base64.thy ===== *)
theory Base64
  imports Player_Manifest
begin

text \<open>
  Node's \<open>Buffer\<close>: the UTF-8 bytes of a text, base64 and base64url, and the facts that relate them to
  the decoder of the player.
\<close>

section \<open>UTF-8\<close>

definition utf8_two :: "nat \<Rightarrow> nat list" where
  "utf8_two u = [192 + u div 64 mod 32, 128 + u mod 64]"

definition utf8_three :: "nat \<Rightarrow> nat list" where
  "utf8_three u = [224 + u div 4096 mod 16, 128 + u div 64 mod 64, 128 + u mod 64]"

definition utf8_four :: "nat \<Rightarrow> nat \<Rightarrow> nat list" where
  "utf8_four u v =
     (let c = 65536 + (u - 55296) * 1024 + (v - 56320) in
      [240 + c div 262144 mod 8, 128 + c div 4096 mod 64, 128 + c div 64 mod 64, 128 + c mod 64])"

text \<open>A lone surrogate becomes U+FFFD.\<close>

definition utf8_unit :: "nat \<Rightarrow> nat list" where
  "utf8_unit u =
     (if u < 128 then [u] else if u < 2048 then utf8_two u
      else if high_surrogate u \<or> low_surrogate u then [239, 191, 189] else utf8_three u)"

fun utf8_bytes :: "utext \<Rightarrow> nat list" where
  "utf8_bytes [] = []"
| "utf8_bytes [u] = utf8_unit u"
| "utf8_bytes (u # v # us) =
     (if high_surrogate u \<and> low_surrogate v then utf8_four u v @ utf8_bytes us
      else utf8_unit u @ utf8_bytes (v # us))"

lemma utf8_bytes_length: "length (utf8_bytes us) = utf8_length us"
  by (induction us rule: utf8_bytes.induct)
    (auto simp: utf8_unit_def utf8_two_def utf8_three_def utf8_four_def Let_def high_surrogate_def)

lemma utf8_bytes_bound: "b \<in> set (utf8_bytes us) \<Longrightarrow> b < 256"
  by (induction us rule: utf8_bytes.induct)
    (auto simp: utf8_unit_def utf8_two_def utf8_three_def utf8_four_def Let_def
      split: if_splits)

lemma utf8_bytes_ascii: "list_all (\<lambda>u. u < 128) us \<Longrightarrow> utf8_bytes us = us"
  by (induction us rule: utf8_bytes.induct) (auto simp: utf8_unit_def high_surrogate_def)

section \<open>URI components\<close>

definition upper_hex :: "nat \<Rightarrow> nat" where
  "upper_hex d = (if d < 10 then 48 + d else 55 + d)"

definition uri_unreserved :: "nat \<Rightarrow> bool" where
  "uri_unreserved u \<longleftrightarrow> 48 \<le> u \<and> u \<le> 57 \<or> 65 \<le> u \<and> u \<le> 90 \<or> 97 \<le> u \<and> u \<le> 122 \<or>
     u \<in> set (js ''-_.!~*'' @ [39] @ js ''()'')"

text \<open>On texts without lone surrogates, which the texts of the store are.\<close>

definition encodeURIComponent :: "utext \<Rightarrow> utext" where
  "encodeURIComponent us =
     concat (map (\<lambda>b. if uri_unreserved b then [b]
       else [37, upper_hex (b div 16), upper_hex (b mod 16)]) (utf8_bytes us))"

section \<open>Numbers\<close>

text \<open>\<open>Number(s)\<close> of a text of digits.\<close>

fun decimal_value :: "utext \<Rightarrow> nat \<Rightarrow> nat" where
  "decimal_value [] n = n"
| "decimal_value (u # us) n = decimal_value us (10 * n + (u - 48))"

section \<open>Base64\<close>

text \<open>The sextets of bytes; the last group may have two or three.\<close>

fun sextets :: "nat list \<Rightarrow> nat list" where
  "sextets [] = []"
| "sextets [a] = [a div 4, a mod 4 * 16]"
| "sextets [a, b] = [a div 4, a mod 4 * 16 + b div 16, b mod 16 * 4]"
| "sextets (a # b # c # bs) =
     a div 4 # (a mod 4 * 16 + b div 16) # (b mod 16 * 4 + c div 64) # c mod 64 # sextets bs"

definition sextet_unit :: "nat \<Rightarrow> nat \<Rightarrow> nat \<Rightarrow> nat" where
  "sextet_unit c62 c63 n =
     (if n < 26 then 65 + n else if n < 52 then 71 + n else if n < 62 then n - 4
      else if n = 62 then c62 else c63)"

definition base64url :: "nat list \<Rightarrow> utext" where
  "base64url bs = map (sextet_unit 45 95) (sextets bs)"

definition base64 :: "nat list \<Rightarrow> utext" where
  "base64 bs = map (sextet_unit 43 47) (sextets bs) @ replicate ((3 - length bs mod 3) mod 3) 61"

text \<open>
  \<open>Buffer.from(s, "base64url")\<close> for a text without padding: both alphabets are read, other characters
  are skipped and a left-over sextet is dropped.
\<close>

fun node_bytes :: "nat list \<Rightarrow> nat list" where
  "node_bytes (a # b # c # d # us) =
     (a * 4 + b div 16) # (b mod 16 * 16 + c div 4) # (c mod 4 * 64 + d) # node_bytes us"
| "node_bytes [a, b, c] = [a * 4 + b div 16, b mod 16 * 16 + c div 4]"
| "node_bytes [a, b] = [a * 4 + b div 16]"
| "node_bytes _ = []"

definition node_sextet :: "nat \<Rightarrow> nat option" where
  "node_sextet u = (if u = 43 then Some 62 else if u = 47 then Some 63 else sextet u)"

definition node_decode :: "utext \<Rightarrow> nat list" where
  "node_decode s = node_bytes (List.map_filter node_sextet s)"

section \<open>Facts\<close>

lemma byte_parts:
  fixes b :: nat
  assumes "b < 256"
  shows "b div 4 < 64" "b div 16 < 16" "b div 64 < 4"
  using assms by (simp_all add: less_mult_imp_div_less)

lemma byte_bounds:
  fixes a b :: nat
  shows "b < 256 \<Longrightarrow> a mod 4 * 16 + b div 16 < 64" "b < 256 \<Longrightarrow> a mod 16 * 4 + b div 64 < 64"
    "a mod 4 * 16 < 64" "a mod 16 * 4 < 64"
proof -
  have a: "a mod 4 \<le> 3" "a mod 16 \<le> 15"
    using mod_less_divisor [of 4 a] mod_less_divisor [of 16 a] by linarith+
  show "b < 256 \<Longrightarrow> a mod 4 * 16 + b div 16 < 64" "b < 256 \<Longrightarrow> a mod 16 * 4 + b div 64 < 64"
    "a mod 4 * 16 < 64" "a mod 16 * 4 < 64"
    using a byte_parts(2,3) [of b] by linarith+
qed

lemma sextets_bound: "\<forall>b \<in> set bs. b < 256 \<Longrightarrow> \<forall>n \<in> set (sextets bs). n < 64"
  by (induction bs rule: sextets.induct) (simp_all add: byte_parts byte_bounds)

lemma sextet_bytes_sextets:
  "\<forall>b \<in> set bs. b < 256 \<Longrightarrow> sextet_bytes (sextets bs) = Some bs"
  by (induction bs rule: sextets.induct)
    (simp_all add: byte_parts)

lemma node_bytes_sextets: "\<forall>b \<in> set bs. b < 256 \<Longrightarrow> node_bytes (sextets bs) = bs"
  by (induction bs rule: sextets.induct)
    (simp_all add: byte_parts)

lemma sextet_sextet_unit: "n < 64 \<Longrightarrow> sextet (sextet_unit 45 95 n) = Some n"
  by (auto simp: sextet_def sextet_unit_def)

lemma node_sextet_sextet_unit: "n < 64 \<Longrightarrow> node_sextet (sextet_unit 45 95 n) = Some n"
  by (auto simp: node_sextet_def sextet_def sextet_unit_def)

lemma sextets_empty: "sextets bs = [] \<longleftrightarrow> bs = []"
  by (cases bs rule: sextets.cases) simp_all

lemma base64url_alphabet:
  assumes "\<forall>b \<in> set bs. b < 256"
  shows "list_all (\<lambda>u. sextet u \<noteq> None) (base64url bs)"
  using sextets_bound [OF assms] by (auto simp: base64url_def list_all_iff sextet_sextet_unit)

theorem decode_base64url:
  assumes "\<forall>b \<in> set bs. b < 256" "bs \<noteq> []"
  shows "decodeBase64Url (base64url bs) = Some bs"
proof -
  have "map (\<lambda>u. the (sextet u)) (base64url bs) = sextets bs"
    using sextets_bound [OF assms(1)] by (auto simp: base64url_def sextet_sextet_unit intro!: map_idI)
  moreover have "base64url bs \<noteq> []" using assms(2) by (simp add: base64url_def sextets_empty)
  moreover have "\<not> (\<exists>u \<in> set (base64url bs). sextet u = None)"
    using base64url_alphabet [OF assms(1)] by (auto simp: list_all_iff)
  ultimately show ?thesis
    using assms(1) by (simp add: decodeBase64Url_def sextet_bytes_sextets)
qed

lemma map_filter_all: "(\<And>x. x \<in> set xs \<Longrightarrow> f x = Some (g x)) \<Longrightarrow> List.map_filter f xs = map g xs"
  by (induction xs) (simp_all add: map_filter_simps)

theorem node_decode_base64url:
  assumes "\<forall>b \<in> set bs. b < 256"
  shows "node_decode (base64url bs) = bs"
proof -
  have "List.map_filter node_sextet (base64url bs) = sextets bs"
    using sextets_bound [OF assms]
    by (simp add: base64url_def map_filter_map_filter [symmetric] map_filter_def comp_def
        node_sextet_sextet_unit cong: filter_cong map_cong)
  then show ?thesis using assms by (simp add: node_decode_def node_bytes_sextets)
qed

lemma sextets_length: "length (sextets bs) = (4 * length bs + 2) div 3"
proof (induction bs rule: sextets.induct)
  case (4 a b c bs)
  then show ?case by simp
qed simp_all

lemma base64url_length: "length (base64url bs) = (4 * length bs + 2) div 3"
  by (simp add: base64url_def sextets_length)

end
