(* ===== verification/Player_Assets.thy ===== *)
theory Player_Assets
  imports Base64
begin

text \<open>
  The player's asset cache (\<open>apps/player/src/core/assets.ts\<close>, \<open>CacheAssetRepository\<close>, and
  \<open>verifySha256\<close> of \<open>crypto.ts\<close>): bounded bodies, reservations of bytes, download slots with a queue
  of waiters, joining of downloads of the same asset, and the verification of every content that is
  stored or played.  The native bridge of Android is another program.
\<close>

section \<open>Assets and responses\<close>

record player_asset =
  pa_id :: utext
  pa_kind :: string
  pa_url :: utext
  pa_mediaCapability :: "utext option"
  pa_mediaDelivery :: "utext option"
  pa_mimeType :: utext
  pa_checksumSha256 :: utext
  pa_sizeBytes :: int

type_synonym bytes = "nat list"

text \<open>
  A response: its status, its declared length and the chunks of its body, with whether the stream
  fails after them.
\<close>

record asset_response =
  rs_ok :: bool
  rs_contentLength :: "utext option"
  rs_body :: "bytes list option"
  rs_breaks :: bool

datatype asset_failure = Invalid_content_length | Size_limit | Body_unavailable | Body_failed | Size_mismatch | Checksum_mismatch
  | Aggregate_limit | Staging_limit | Authorization_invalid | Download_failed | Cache_failed
  | Cache_miss | Playback_limit

text \<open>
  The cache key is a URL path made of the encoded identifier and the checksum; the encoding keeps
  different pairs apart, so the pair stands for it.
\<close>

definition cacheKey :: "player_asset \<Rightarrow> utext \<times> utext" where
  "cacheKey asset = (pa_id asset, pa_checksumSha256 asset)"

definition EMERGENCY_TEMPLATE_MIME :: utext where
  "EMERGENCY_TEMPLATE_MIME = js ''application/vnd.screengoblin.emergency+json''"

definition isInlineEmergencyTemplate :: "player_asset \<Rightarrow> bool" where
  "isInlineEmergencyTemplate asset \<longleftrightarrow>
     pa_kind asset = ''template'' \<and> pa_mimeType asset = EMERGENCY_TEMPLATE_MIME \<and>
     prefix (js ''data:application/json;base64,'') (pa_url asset)"

section \<open>Verified bodies\<close>

definition lower_unit :: "nat \<Rightarrow> nat" where
  "lower_unit u = (if 65 \<le> u \<and> u \<le> 90 then u + 32 else u)"

text \<open>\<open>h\<close> is the hexadecimal SHA-256 of bytes.\<close>

definition verifySha256 :: "(bytes \<Rightarrow> utext) \<Rightarrow> bytes \<Rightarrow> utext \<Rightarrow> bool" where
  "verifySha256 h data expected \<longleftrightarrow>
     hex_checksum expected \<and> map lower_unit (h data) = map lower_unit expected"

definition declaredContentLength :: "asset_response \<Rightarrow> player_asset \<Rightarrow> asset_failure option" where
  "declaredContentLength response asset =
     (case rs_contentLength response of
        None \<Rightarrow> None
      | Some value \<Rightarrow>
          if value = [] \<or> \<not> list_all (\<lambda>u. 48 \<le> u \<and> u \<le> 57) value
          then Some Invalid_content_length
          else if int (decimal_value value 0) > SAFE_INTEGER_LIMIT \<or>
            int (decimal_value value 0) > pa_sizeBytes asset
          then Some Size_limit else None)"

text \<open>The reading loop, with the bytes received so far.\<close>

fun read_chunks :: "bool \<Rightarrow> int \<Rightarrow> bytes \<Rightarrow> bytes list \<Rightarrow> asset_failure + bytes" where
  "read_chunks breaks sizeBytes received [] =
     (if breaks then Inl Body_failed
      else if int (length received) \<noteq> sizeBytes then Inl Size_mismatch else Inr received)"
| "read_chunks breaks sizeBytes received (chunk # chunks) =
     (if int (length chunk) > sizeBytes - int (length received) then Inl Size_limit
      else read_chunks breaks sizeBytes (received @ chunk) chunks)"

definition boundedBody :: "asset_response \<Rightarrow> player_asset \<Rightarrow> asset_failure + bytes" where
  "boundedBody response asset =
     (case declaredContentLength response asset of
        Some x \<Rightarrow> Inl x
     | None \<Rightarrow>
         (case rs_body response of
            None \<Rightarrow> Inl Body_unavailable
          | Some chunks \<Rightarrow> read_chunks (rs_breaks response) (pa_sizeBytes asset) [] chunks))"

definition verified_body ::
  "(bytes \<Rightarrow> utext) \<Rightarrow> asset_response \<Rightarrow> player_asset \<Rightarrow> asset_failure + bytes" where
  "verified_body h response asset =
     (case boundedBody response asset of
        Inl x \<Rightarrow> Inl x
      | Inr buffer \<Rightarrow>
          if verifySha256 h buffer (pa_checksumSha256 asset) then Inr buffer
          else Inl Checksum_mismatch)"

section \<open>The repository\<close>

record repository_options =
  ro_maxConcurrentDownloads :: nat
  ro_maxAggregateBytes :: int
  ro_maxBufferedAssetBytes :: int

datatype slot_phase = Waiting | Holding

text \<open>
  The downloads under way with their phases, in the order they began, the keys of those that wait
  for a slot, and the persistent cache.
\<close>

record repository =
  rp_activeDownloads :: nat
  rp_reservedBytes :: int
  rp_downloadWaiters :: "(utext \<times> utext) list"
  rp_inFlight :: "(player_asset \<times> slot_phase) list"
  rp_cache :: "utext \<times> utext \<rightharpoonup> asset_response"

definition positiveInteger :: "int \<Rightarrow> bool" where
  "positiveInteger value \<longleftrightarrow> \<bar>value\<bar> \<le> SAFE_INTEGER_LIMIT \<and> \<not> value < 1"

text \<open>The constructor's check of its options.\<close>

definition repository_options_valid :: "repository_options \<Rightarrow> bool" where
  "repository_options_valid options \<longleftrightarrow>
     positiveInteger (int (ro_maxConcurrentDownloads options)) \<and>
     positiveInteger (ro_maxAggregateBytes options) \<and>
     positiveInteger (ro_maxBufferedAssetBytes options)"

definition default_repository_options :: repository_options where
  "default_repository_options = \<lparr>ro_maxConcurrentDownloads = 2,
     ro_maxAggregateBytes = 512 * 1024 * 1024, ro_maxBufferedAssetBytes = 128 * 1024 * 1024\<rparr>"

definition new_repository :: "(utext \<times> utext \<rightharpoonup> asset_response) \<Rightarrow> repository" where
  "new_repository cache = \<lparr>rp_activeDownloads = 0, rp_reservedBytes = 0, rp_downloadWaiters = [],
     rp_inFlight = [], rp_cache = cache\<rparr>"

definition reserve ::
  "repository_options \<Rightarrow> player_asset \<Rightarrow> repository \<Rightarrow> repository option" where
  "reserve options asset s =
     (if pa_sizeBytes asset > SAFE_INTEGER_LIMIT \<or> pa_sizeBytes asset < 0 \<or>
        pa_sizeBytes asset > ro_maxAggregateBytes options - rp_reservedBytes s
      then None
      else Some (s\<lparr>rp_reservedBytes := rp_reservedBytes s + pa_sizeBytes asset\<rparr>))"

definition acquireDownloadSlot ::
  "repository_options \<Rightarrow> player_asset \<Rightarrow> repository \<Rightarrow> repository" where
  "acquireDownloadSlot options asset s =
     (if rp_activeDownloads s \<ge> ro_maxConcurrentDownloads options \<or> rp_downloadWaiters s \<noteq> []
      then s\<lparr>rp_downloadWaiters := rp_downloadWaiters s @ [cacheKey asset],
             rp_inFlight := rp_inFlight s @ [(asset, Waiting)]\<rparr>
      else s\<lparr>rp_activeDownloads := rp_activeDownloads s + 1,
             rp_inFlight := rp_inFlight s @ [(asset, Holding)]\<rparr>)"

datatype begun = Not_cached | Joined | Refused asset_failure | Begun

text \<open>The synchronous beginning of \<open>prefetch\<close>, up to the wait for the slot.\<close>

definition prefetch_begins ::
  "repository_options \<Rightarrow> player_asset \<Rightarrow> repository \<Rightarrow> begun \<times> repository" where
  "prefetch_begins options asset s =
     (if pa_kind asset = ''web'' then (Not_cached, s)
      else if \<exists>d \<in> set (rp_inFlight s). cacheKey (fst d) = cacheKey asset then (Joined, s)
      else case reserve options asset s of
        None \<Rightarrow> (Refused Aggregate_limit, s)
      | Some s' \<Rightarrow> (Begun, acquireDownloadSlot options asset s'))"

text \<open>What the network and the cache do for a download: the response and whether it can be stored.\<close>

record download_outcome =
  do_response :: "asset_response option" \<comment> \<open>None when the request fails or times out\<close>
  do_put :: bool

definition stored_response :: "bytes \<Rightarrow> asset_response" where
  "stored_response buffer = \<lparr>rs_ok = True, rs_contentLength = Some (decimal_nat (length buffer)),
     rs_body = Some [buffer], rs_breaks = False\<rparr>"

definition authorized :: "player_asset \<Rightarrow> bool" where
  "authorized asset \<longleftrightarrow> isInlineEmergencyTemplate asset \<or>
     (pa_mediaDelivery asset = Some (js ''authorization-v1'') \<and>
      (case pa_mediaCapability asset of None \<Rightarrow> False | Some c \<Rightarrow> MEDIA_CAPABILITY c))"

text \<open>The rest of \<open>prefetchOnce\<close>: its failure and the cache entry it leaves.\<close>

definition prefetch_body ::
  "(bytes \<Rightarrow> utext) \<Rightarrow> repository_options \<Rightarrow> player_asset \<Rightarrow> asset_response option \<Rightarrow> download_outcome \<Rightarrow>
    asset_failure option \<times> asset_response option" where
  "prefetch_body h options asset cached out =
     (if pa_sizeBytes asset > ro_maxBufferedAssetBytes options then (Some Staging_limit, cached)
      else case (case cached of None \<Rightarrow> Inl Cache_miss | Some r \<Rightarrow> verified_body h r asset) of
        Inr _ \<Rightarrow> (None, cached)
      | Inl _ \<Rightarrow>
          if \<not> authorized asset then (Some Authorization_invalid, None)
          else (case do_response out of None \<Rightarrow> (Some Download_failed, None)
          | Some r \<Rightarrow>
              if \<not> rs_ok r then (Some Download_failed, None)
              else (case verified_body h r asset of
                Inl x \<Rightarrow> (Some x, None)
              | Inr buffer \<Rightarrow>
                  if do_put out then (None, Some (stored_response buffer))
                  else (Some Cache_failed, None))))"

definition promote ::
  "utext \<times> utext \<Rightarrow> (player_asset \<times> slot_phase) list \<Rightarrow> (player_asset \<times> slot_phase) list" where
  "promote k ds = map (\<lambda>(a, ph). (a, if cacheKey a = k then Holding else ph)) ds"

text \<open>Giving back the slot hands it to the first waiter.\<close>

definition release_slot :: "repository \<Rightarrow> repository" where
  "release_slot s =
     (case rp_downloadWaiters s of
        [] \<Rightarrow> s\<lparr>rp_activeDownloads := rp_activeDownloads s - 1\<rparr>
      | k # ks \<Rightarrow> s\<lparr>rp_downloadWaiters := ks,
          rp_inFlight := promote k (rp_inFlight s)\<rparr>)"

definition prefetch_ends ::
  "(bytes \<Rightarrow> utext) \<Rightarrow> repository_options \<Rightarrow> player_asset \<Rightarrow> download_outcome \<Rightarrow> repository \<Rightarrow>
    asset_failure option \<times> repository" where
  "prefetch_ends h options asset out s =
     (case prefetch_body h options asset (rp_cache s (cacheKey asset)) out of
        (failure, entry) \<Rightarrow>
          let s1 = release_slot (s\<lparr>rp_cache := (rp_cache s)(cacheKey asset := entry),
                rp_inFlight := filter (\<lambda>d. cacheKey (fst d) \<noteq> cacheKey asset) (rp_inFlight s)\<rparr>) in
          (failure, s1\<lparr>rp_reservedBytes := rp_reservedBytes s1 - pa_sizeBytes asset\<rparr>))"

text \<open>The content of the object URL, or the URL of a web asset (None).\<close>

definition resolve_asset ::
  "(bytes \<Rightarrow> utext) \<Rightarrow> repository_options \<Rightarrow> player_asset \<Rightarrow> repository \<Rightarrow>
    (asset_failure + bytes option) \<times> repository" where
  "resolve_asset h options asset s =
     (if pa_kind asset = ''web'' then (Inr None, s)
      else if pa_sizeBytes asset > ro_maxBufferedAssetBytes options then (Inl Playback_limit, s)
      else case rp_cache s (cacheKey asset) of
        None \<Rightarrow> (Inl Cache_miss, s)
      | Some response \<Rightarrow>
          (case verified_body h response asset of
             Inr buffer \<Rightarrow> (Inr (Some buffer), s)
           | Inl x \<Rightarrow> (Inl x, s\<lparr>rp_cache := (rp_cache s)(cacheKey asset := None)\<rparr>)))"

definition prune_assets :: "player_asset list \<Rightarrow> repository \<Rightarrow> repository" where
  "prune_assets retainedAssets s =
     s\<lparr>rp_cache := rp_cache s |` (cacheKey ` set (filter (\<lambda>a. pa_kind a \<noteq> ''web'') retainedAssets))\<rparr>"

definition remove_all_assets :: "repository \<Rightarrow> repository" where
  "remove_all_assets s = s\<lparr>rp_cache := Map.empty\<rparr>"

section \<open>The repository on Android\<close>

text \<open>
  The native cache is a plugin: its replies are parameters.  A reply is a path (None when it is not a
  string) or a rejection with its code.  \<open>convert\<close> is the plugin runtime's conversion of a path.
\<close>

datatype native_reply = Native_path "utext option" | Native_rejects "utext option"

datatype native_failure = Invalid_metadata | Invalid_path | Unusable_path | Native_error
  | Legacy_failure asset_failure

datatype playable = Web_url utext | Object_url bytes | Native_url utext

record native_identity =
  ni_assetId :: utext
  ni_mimeType :: utext
  ni_checksumSha256 :: utext
  ni_sizeBytes :: int

definition NATIVE_MIME_TYPES :: "utext list" where
  "NATIVE_MIME_TYPES = map js [''image/jpeg'', ''image/png'', ''video/mp4'', ''application/json'']"

definition native_checksum :: "utext \<Rightarrow> bool" where
  "native_checksum s \<longleftrightarrow> length s = 64 \<and> list_all (\<lambda>u. 48 \<le> u \<and> u \<le> 57 \<or> 97 \<le> u \<and> u \<le> 102) s"

definition nativeAssetIdentity :: "player_asset \<Rightarrow> native_identity option" where
  "nativeAssetIdentity asset =
     (if pa_id asset = [] \<or> pa_mimeType asset \<notin> set NATIVE_MIME_TYPES \<or>
        \<not> native_checksum (pa_checksumSha256 asset) \<or>
        \<bar>pa_sizeBytes asset\<bar> > SAFE_INTEGER_LIMIT \<or> pa_sizeBytes asset < 1
      then None
      else Some \<lparr>ni_assetId = pa_id asset, ni_mimeType = pa_mimeType asset,
        ni_checksumSha256 = pa_checksumSha256 asset, ni_sizeBytes = pa_sizeBytes asset\<rparr>)"

definition nativeAssetOptions :: "player_asset \<Rightarrow> (native_identity \<times> utext \<times> utext) option" where
  "nativeAssetOptions asset =
     (case pa_mediaCapability asset of
        None \<Rightarrow> None
      | Some capability \<Rightarrow>
          if pa_url asset = [] \<or> pa_mediaDelivery asset \<noteq> Some (js ''authorization-v1'') \<or>
            capability = []
          then None
          else map_option (\<lambda>identity. (identity, pa_url asset, capability)) (nativeAssetIdentity asset))"

definition nativePlaybackUrl ::
  "(utext \<Rightarrow> utext) \<Rightarrow> utext option \<Rightarrow> native_failure + utext" where
  "nativePlaybackUrl convert path =
     (case path of
        None \<Rightarrow> Inl Invalid_path
      | Some p \<Rightarrow>
          if \<not> prefix (js ''file:///'') p \<or> list_ex (\<lambda>u. u < 32 \<or> u = 127) p then Inl Invalid_path
          else if convert p = [] then Inl Unusable_path
          else Inr (convert p))"

text \<open>What a prefetch does besides the legacy one: nothing, or the native download.\<close>

datatype native_prefetched = Prefetch_nothing | Prefetch_legacy | Prefetch_native
  | Prefetch_fails native_failure

definition native_prefetch ::
  "(utext \<Rightarrow> utext) \<Rightarrow> (native_identity \<times> utext \<times> utext \<Rightarrow> native_reply) \<Rightarrow> player_asset \<Rightarrow>
    native_prefetched" where
  "native_prefetch convert plugin asset =
     (if pa_kind asset = ''web'' then Prefetch_nothing
      else if isInlineEmergencyTemplate asset then Prefetch_legacy
      else case nativeAssetOptions asset of
        None \<Rightarrow> Prefetch_fails Invalid_metadata
      | Some opts \<Rightarrow>
          (case plugin opts of
             Native_rejects code \<Rightarrow> Prefetch_fails Native_error
           | Native_path path \<Rightarrow>
               (case nativePlaybackUrl convert path of
                  Inl x \<Rightarrow> Prefetch_fails x
                | Inr u \<Rightarrow> Prefetch_native)))"

definition legacy_resolve ::
  "(bytes \<Rightarrow> utext) \<Rightarrow> repository_options \<Rightarrow> player_asset \<Rightarrow> repository \<Rightarrow>
    (native_failure + playable) \<times> repository" where
  "legacy_resolve h options asset s =
     (case resolve_asset h options asset s of
        (Inl x, s') \<Rightarrow> (Inl (Legacy_failure x), s')
      | (Inr None, s') \<Rightarrow> (Inr (Web_url (pa_url asset)), s')
      | (Inr (Some buffer), s') \<Rightarrow> (Inr (Object_url buffer), s'))"

definition native_resolve ::
  "(utext \<Rightarrow> utext) \<Rightarrow> (native_identity \<Rightarrow> native_reply) \<Rightarrow> (bytes \<Rightarrow> utext) \<Rightarrow> repository_options \<Rightarrow>
    player_asset \<Rightarrow> repository \<Rightarrow> (native_failure + playable) \<times> repository" where
  "native_resolve convert plugin h options asset s =
     (if pa_kind asset = ''web'' then (Inr (Web_url (pa_url asset)), s)
      else if isInlineEmergencyTemplate asset then legacy_resolve h options asset s
      else case nativeAssetIdentity asset of
        None \<Rightarrow> (Inl Invalid_metadata, s)
      | Some identity \<Rightarrow>
          (case plugin identity of
             Native_rejects code \<Rightarrow>
               if code \<noteq> Some (js ''CACHE_MISS'') then (Inl Native_error, s)
               else legacy_resolve h options asset s
           | Native_path path \<Rightarrow>
               (case nativePlaybackUrl convert path of
                  Inl x \<Rightarrow> (Inl x, s)
                | Inr u \<Rightarrow> (Inr (Native_url u), s))))"

text \<open>
  Pruning asks the plugin and the legacy cache, in either order, and reports a failure of the plugin
  afterwards; an asset without native metadata stops it before either.
\<close>

definition native_prune ::
  "bool \<Rightarrow> player_asset list \<Rightarrow> repository \<Rightarrow> (native_failure + native_identity list) \<times> repository" where
  "native_prune plugin_ok retainedAssets s =
     (let native = filter (\<lambda>a. pa_kind a \<noteq> ''web'' \<and> \<not> isInlineEmergencyTemplate a) retainedAssets in
      if \<exists>a \<in> set native. nativeAssetIdentity a = None then (Inl Invalid_metadata, s)
      else (if plugin_ok then Inr (List.map_filter nativeAssetIdentity native) else Inl Native_error,
        prune_assets retainedAssets s))"

section \<open>Steps\<close>

text \<open>
  A download that holds a slot may end at any time; the browser may evict or damage what is cached
  at any time.
\<close>

inductive repository_step :: "(bytes \<Rightarrow> utext) \<Rightarrow> repository_options \<Rightarrow> repository \<Rightarrow> repository \<Rightarrow> bool"
  for h options s where
  begins: "repository_step h options s (snd (prefetch_begins options asset s))"
| ends: "(asset, Holding) \<in> set (rp_inFlight s) \<Longrightarrow>
    repository_step h options s (snd (prefetch_ends h options asset out s))"
| resolves: "repository_step h options s (snd (resolve_asset h options asset s))"
| prunes: "repository_step h options s (prune_assets assets s)"
| removes: "repository_step h options s (remove_all_assets s)"
| decays: "repository_step h options s (s\<lparr>rp_cache := cache\<rparr>)"

inductive repository_run :: "(bytes \<Rightarrow> utext) \<Rightarrow> repository_options \<Rightarrow> repository \<Rightarrow> bool"
  for h options where
  new: "repository_run h options (new_repository cache)"
| step: "repository_run h options s \<Longrightarrow> repository_step h options s s' \<Longrightarrow> repository_run h options s'"

section \<open>Invariant\<close>

definition in_phase :: "slot_phase \<Rightarrow> repository \<Rightarrow> (player_asset \<times> slot_phase) list" where
  "in_phase ph s = filter (\<lambda>d. snd d = ph) (rp_inFlight s)"

definition repository_inv :: "repository_options \<Rightarrow> repository \<Rightarrow> bool" where
  "repository_inv options s \<longleftrightarrow>
     distinct (map (\<lambda>d. cacheKey (fst d)) (rp_inFlight s)) \<and>
     rp_downloadWaiters s = map (\<lambda>d. cacheKey (fst d)) (in_phase Waiting s) \<and>
     rp_activeDownloads s = length (in_phase Holding s) \<and>
     rp_activeDownloads s \<le> ro_maxConcurrentDownloads options \<and>
     (rp_downloadWaiters s \<noteq> [] \<longrightarrow> rp_activeDownloads s = ro_maxConcurrentDownloads options) \<and>
     rp_reservedBytes s = (\<Sum>d\<leftarrow>rp_inFlight s. pa_sizeBytes (fst d)) \<and>
     rp_reservedBytes s \<le> ro_maxAggregateBytes options \<and>
     (\<forall>d \<in> set (rp_inFlight s). 0 \<le> pa_sizeBytes (fst d))"

end
