(* ===== verification/Asset_Properties.thy ===== *)
theory Asset_Properties
  imports Player_Assets Player_Samples
begin

text \<open>
  The properties of the asset cache: what is played is verified whatever the storage holds, a
  prefetched asset can be played, and downloads respect their slots and their budget of bytes.
\<close>

section \<open>Bodies\<close>

lemma read_chunks_Inr:
  "read_chunks k n received chunks = Inr b \<Longrightarrow> int (length b) = n \<and> b = received @ concat chunks"
proof (induction chunks arbitrary: received)
  case (Cons c chunks)
  then have "read_chunks k n (received @ c) chunks = Inr b" by (simp split: if_splits)
  with Cons.IH show ?case by fastforce
qed (simp split: if_splits)

lemma verified_body_Inr:
  assumes "verified_body h response asset = Inr b"
  shows "int (length b) = pa_sizeBytes asset" "verifySha256 h b (pa_checksumSha256 asset)"
  using assms
  by (auto simp: verified_body_def boundedBody_def dest: read_chunks_Inr
      split: option.splits sum.splits if_splits)

lemma decimal_value_append: "decimal_value (us @ [u]) n = 10 * decimal_value us n + (u - 48)"
  by (induction us arbitrary: n) simp_all

lemma decimal_value_decimal_nat: "decimal_value (decimal_nat n) 0 = n"
proof (induction n rule: decimal_nat.induct)
  case (1 n)
  then show ?case by (subst decimal_nat.simps) (simp add: decimal_value_append)
qed

lemma decimal_nat_digits: "decimal_nat n \<noteq> [] \<and> list_all (\<lambda>u. 48 \<le> u \<and> u \<le> 57) (decimal_nat n)"
proof (induction n rule: decimal_nat.induct)
  case (1 n)
  then show ?case by (subst (1 2) decimal_nat.simps) auto
qed

lemma stored_response_verified:
  assumes "int (length b) = pa_sizeBytes asset" "pa_sizeBytes asset \<le> SAFE_INTEGER_LIMIT"
    and "verifySha256 h b (pa_checksumSha256 asset)"
  shows "verified_body h (stored_response b) asset = Inr b"
  using assms decimal_nat_digits [of "length b"]
  by (simp add: verified_body_def boundedBody_def declaredContentLength_def stored_response_def
      decimal_value_decimal_nat)

lemma prefetch_body_None:
  assumes "prefetch_body h options asset cached out = (None, entry)"
    and "ro_maxBufferedAssetBytes options \<le> SAFE_INTEGER_LIMIT"
  shows "pa_sizeBytes asset \<le> ro_maxBufferedAssetBytes options"
    "\<exists>r b. entry = Some r \<and> verified_body h r asset = Inr b"
proof -
  show size: "pa_sizeBytes asset \<le> ro_maxBufferedAssetBytes options"
    using assms(1) by (simp add: prefetch_body_def split: if_splits)
  have "verified_body h (stored_response b) asset = Inr b" if "verified_body h r asset = Inr b" for r b
    using verified_body_Inr [OF that] size assms(2) by (intro stored_response_verified) simp_all
  then show "\<exists>r b. entry = Some r \<and> verified_body h r asset = Inr b"
    using assms(1) by (auto simp: prefetch_body_def split: if_splits option.splits sum.splits)
qed

section \<open>Slots\<close>

abbreviation keys_of :: "(player_asset \<times> slot_phase) list \<Rightarrow> (utext \<times> utext) list" where
  "keys_of ds \<equiv> map (\<lambda>d. cacheKey (fst d)) ds"

abbreviation of_phase :: "slot_phase \<Rightarrow> (player_asset \<times> slot_phase) list \<Rightarrow> (player_asset \<times> slot_phase) list"
where
  "of_phase ph ds \<equiv> filter (\<lambda>d. snd d = ph) ds"

text \<open>The first waiter is promoted.\<close>

lemma promote_keeps:
  "keys_of (promote k ds) = keys_of ds"
  "map (pa_sizeBytes \<circ> fst) (promote k ds) = map (pa_sizeBytes \<circ> fst) ds"
  "fst ` set (promote k ds) = fst ` set ds"
  by (auto simp: promote_def image_iff split: prod.splits) force+

lemma promote_Cons:
  "promote k ((a, ph) # ds) = (a, if cacheKey a = k then Holding else ph) # promote k ds"
  by (simp add: promote_def)

lemma promote_absent:
  assumes "k \<notin> set (keys_of ds)"
  shows "promote k ds = ds"
proof -
  have "cacheKey (fst d) \<noteq> k" if "d \<in> set ds" for d
    using that assms by (auto simp: image_iff)
  then show ?thesis unfolding promote_def by (intro map_idI) auto
qed

lemma promote_waiter:
  assumes "distinct (keys_of ds)" "keys_of (of_phase Waiting ds) = k # ks"
  shows "keys_of (of_phase Waiting (promote k ds)) = ks \<and>
    length (of_phase Holding (promote k ds)) = Suc (length (of_phase Holding ds))"
  using assms
proof (induction ds)
  case Nil
  then show ?case by simp
next
  case (Cons d ds)
  obtain a ph where d: "d = (a, ph)" by (cases d)
  show ?case
  proof (cases ph)
    case Waiting
    with Cons.prems d have k: "cacheKey a = k" "k \<notin> set (keys_of ds)" by auto
    with Waiting Cons.prems d show ?thesis by (simp add: promote_Cons promote_absent)
  next
    case Holding
    then have w: "keys_of (of_phase Waiting ds) = k # ks" using Cons.prems d by simp
    then have "k \<in> set (keys_of (of_phase Waiting ds))" by simp
    then have "k \<in> set (keys_of ds)" by auto
    then have "cacheKey a \<noteq> k" using Cons.prems(1) d by auto
    with Cons.IH Cons.prems(1) w d Holding show ?thesis by (simp add: promote_Cons)
  qed
qed

text \<open>A holder leaves.\<close>

lemma remove_holder:
  assumes "distinct (keys_of ds)" "(asset, Holding) \<in> set ds"
  shows "of_phase Waiting (filter (\<lambda>d. cacheKey (fst d) \<noteq> cacheKey asset) ds) = of_phase Waiting ds"
    and "length (of_phase Holding ds) =
      Suc (length (of_phase Holding (filter (\<lambda>d. cacheKey (fst d) \<noteq> cacheKey asset) ds)))"
    and "(\<Sum>d\<leftarrow>ds. pa_sizeBytes (fst d)) = pa_sizeBytes asset +
      (\<Sum>d\<leftarrow>filter (\<lambda>d. cacheKey (fst d) \<noteq> cacheKey asset) ds. pa_sizeBytes (fst d))"
proof -
  obtain us vs where ds: "ds = us @ (asset, Holding) # vs" using assms(2) by (auto dest: split_list)
  have "filter (\<lambda>d. cacheKey (fst d) \<noteq> cacheKey asset) us = us"
    "filter (\<lambda>d. cacheKey (fst d) \<noteq> cacheKey asset) vs = vs"
    using assms(1) by (auto simp: ds filter_id_conv image_iff)
  then show "of_phase Waiting (filter (\<lambda>d. cacheKey (fst d) \<noteq> cacheKey asset) ds) = of_phase Waiting ds"
    "length (of_phase Holding ds) =
      Suc (length (of_phase Holding (filter (\<lambda>d. cacheKey (fst d) \<noteq> cacheKey asset) ds)))"
    "(\<Sum>d\<leftarrow>ds. pa_sizeBytes (fst d)) = pa_sizeBytes asset +
      (\<Sum>d\<leftarrow>filter (\<lambda>d. cacheKey (fst d) \<noteq> cacheKey asset) ds. pa_sizeBytes (fst d))"
    by (simp_all add: ds)
qed

lemma begins_inv:
  assumes "repository_inv options s"
  shows "repository_inv options (snd (prefetch_begins options asset s))"
proof (cases "fst (prefetch_begins options asset s) = Begun")
  case True
  then have new: "cacheKey asset \<notin> set (keys_of (rp_inFlight s))" and size: "0 \<le> pa_sizeBytes asset"
      "rp_reservedBytes s + pa_sizeBytes asset \<le> ro_maxAggregateBytes options"
    and s': "snd (prefetch_begins options asset s) = acquireDownloadSlot options asset
      (s\<lparr>rp_reservedBytes := rp_reservedBytes s + pa_sizeBytes asset\<rparr>)"
    by (auto simp: prefetch_begins_def reserve_def split: if_splits option.splits)
  show ?thesis using assms new size
    by (auto simp: s' acquireDownloadSlot_def repository_inv_def in_phase_def)
next
  case False
  then have "snd (prefetch_begins options asset s) = s"
    by (auto simp: prefetch_begins_def split: if_splits option.splits)
  with assms show ?thesis by simp
qed

lemma ends_inv:
  assumes "repository_inv options s" "(asset, Holding) \<in> set (rp_inFlight s)"
  shows "repository_inv options (snd (prefetch_ends h options asset out s))"
proof -
  let ?ds = "rp_inFlight s"
  let ?rest = "filter (\<lambda>d. cacheKey (fst d) \<noteq> cacheKey asset) ?ds"
  have d: "distinct (keys_of ?ds)" using assms(1) by (simp add: repository_inv_def)
  note r = remove_holder [OF d assms(2)]
  have dr: "distinct (keys_of ?rest)" using d by (simp add: distinct_map_filter)
  have size: "0 \<le> pa_sizeBytes asset" using assms by (auto simp: repository_inv_def)
  show ?thesis
  proof (cases "rp_downloadWaiters s")
    case Nil
    then show ?thesis using assms(1) r dr size
      by (auto simp: prefetch_ends_def release_slot_def repository_inv_def in_phase_def Let_def
          split: prod.split)
  next
    case (Cons k ks)
    then have w: "keys_of (of_phase Waiting ?rest) = k # ks"
      using assms(1) r(1) by (simp add: repository_inv_def in_phase_def)
    have sums: "(\<Sum>d\<leftarrow>promote k ?rest. pa_sizeBytes (fst d)) = (\<Sum>d\<leftarrow>?rest. pa_sizeBytes (fst d))"
      using promote_keeps(2) [of k ?rest] by (simp only: comp_def)
    have "\<forall>a \<in> fst ` set (promote k ?rest). 0 \<le> pa_sizeBytes a"
      using assms(1) unfolding promote_keeps(3) by (auto simp: repository_inv_def)
    then have nonneg: "\<forall>d \<in> set (promote k ?rest). 0 \<le> pa_sizeBytes (fst d)" by simp
    have s': "snd (prefetch_ends h options asset out s) = s
      \<lparr>rp_cache := (rp_cache s)(cacheKey asset := snd (prefetch_body h options asset
          (rp_cache s (cacheKey asset)) out)),
       rp_inFlight := promote k ?rest, rp_downloadWaiters := ks,
       rp_reservedBytes := rp_reservedBytes s - pa_sizeBytes asset\<rparr>"
      using Cons by (simp add: prefetch_ends_def release_slot_def Let_def split_beta)
    show ?thesis
      using assms(1) r(2,3) dr size promote_waiter [OF dr w] promote_keeps(1) [of k ?rest] sums nonneg Cons
      by (simp add: s' repository_inv_def in_phase_def del: map_eq_Cons_conv filter_filter)
  qed
qed

lemma repository_inv_cache: "repository_inv options (s\<lparr>rp_cache := c\<rparr>) = repository_inv options s"
  by (simp add: repository_inv_def in_phase_def)

lemma repository_step_inv:
  assumes "repository_step h options s s'" "repository_inv options s"
  shows "repository_inv options s'"
  using assms
proof cases
  case (resolves asset)
  with assms(2) show ?thesis
    by (simp add: resolve_asset_def repository_inv_cache split: option.split sum.split)
qed (simp_all add: begins_inv ends_inv prune_assets_def remove_all_assets_def repository_inv_cache)

lemma repository_run_inv:
  assumes "repository_run h options s" "0 \<le> ro_maxAggregateBytes options"
  shows "repository_inv options s"
  using assms
proof induction
  case (new cache)
  then show ?case by (simp add: repository_inv_def new_repository_def in_phase_def)
qed (simp add: repository_step_inv)

section \<open>Content\<close>

lemma resolve_asset_verified:
  assumes "resolve_asset h options asset s = (Inr (Some b), s')"
  shows "int (length b) = pa_sizeBytes asset \<and> pa_sizeBytes asset \<le> ro_maxBufferedAssetBytes options \<and>
    verifySha256 h b (pa_checksumSha256 asset) \<and> s' = s"
  using assms
  by (auto simp: resolve_asset_def dest: verified_body_Inr split: if_splits option.splits sum.splits)

lemma legacy_resolve_verified:
  assumes "legacy_resolve h options asset s = (Inr (Object_url b), s')"
  shows "int (length b) = pa_sizeBytes asset \<and> pa_sizeBytes asset \<le> ro_maxBufferedAssetBytes options \<and>
    verifySha256 h b (pa_checksumSha256 asset) \<and> s' = s"
proof -
  have "resolve_asset h options asset s = (Inr (Some b), s')"
    using assms by (auto simp: legacy_resolve_def split: prod.splits sum.splits option.splits)
  then show ?thesis by (rule resolve_asset_verified)
qed

lemma native_resolve_legacy:
  assumes "native_resolve convert plugin h options asset s = (Inr (Object_url b), s')"
  shows "legacy_resolve h options asset s = (Inr (Object_url b), s')"
  using assms
  by (auto simp: native_resolve_def split: if_splits option.splits native_reply.splits sum.splits)

text \<open>
  C16: whatever the browser's storage holds, a buffer handed to playback has exactly the size of the
  signed item, at most the configured buffer, and a SHA-256 equal to the signed checksum; this holds
  for the web repository and for the fallback of the Android one.
\<close>

theorem resolved_content_is_verified:
  assumes "legacy_resolve h options asset s = (Inr (Object_url b), s') \<or>
    native_resolve convert plugin h options asset s = (Inr (Object_url b), s')"
  shows "int (length b) = pa_sizeBytes asset \<and> pa_sizeBytes asset \<le> ro_maxBufferedAssetBytes options \<and>
    hex_checksum (pa_checksumSha256 asset) \<and>
    map lower_unit (h b) = map lower_unit (pa_checksumSha256 asset) \<and> s' = s"
  using assms native_resolve_legacy legacy_resolve_verified
  unfolding verifySha256_def by blast

section \<open>Samples\<close>

definition sample_hash :: "bytes \<Rightarrow> utext" where
  "sample_hash b = js (replicate 64 (if b = [1, 2, 3] then CHR ''a'' else CHR ''b''))"

definition sample_player_asset :: "string \<Rightarrow> player_asset" where
  "sample_player_asset i = \<lparr>pa_id = js i, pa_kind = ''image'', pa_url = js ''https://x'',
     pa_mediaCapability = Some (js capability1),
     pa_mediaDelivery = Some (js ''authorization-v1''), pa_mimeType = js ''image/png'',
     pa_checksumSha256 = js (replicate 64 (CHR ''a'')), pa_sizeBytes = 3\<rparr>"

definition sample_response :: asset_response where
  "sample_response = \<lparr>rs_ok = True, rs_contentLength = None, rs_body = Some [[1], [2, 3]],
     rs_breaks = False\<rparr>"

definition sample_repository_options :: repository_options where
  "sample_repository_options = \<lparr>ro_maxConcurrentDownloads = 1, ro_maxAggregateBytes = 10,
     ro_maxBufferedAssetBytes = 5\<rparr>"

definition sample_repository :: repository where
  "sample_repository = new_repository [cacheKey (sample_player_asset ''x'') \<mapsto> sample_response]"

lemma sample_body:
  "verified_body sample_hash sample_response (sample_player_asset i) = Inr [1, 2, 3]"
  by (simp add: verified_body_def boundedBody_def declaredContentLength_def sample_response_def
      sample_player_asset_def verifySha256_def sample_hash_def hex1)

lemma resolved_content_is_verified_witness:
  "legacy_resolve sample_hash sample_repository_options (sample_player_asset ''x'') sample_repository =
     (Inr (Object_url [1, 2, 3]), sample_repository) \<and> hex_checksum (pa_checksumSha256 (sample_player_asset ''x''))"
proof -
  have r: "legacy_resolve sample_hash sample_repository_options (sample_player_asset ''x'') sample_repository =
     (Inr (Object_url [1, 2, 3]), sample_repository)"
    by (simp add: legacy_resolve_def resolve_asset_def sample_repository_def new_repository_def sample_body)
      (simp add: sample_player_asset_def sample_repository_options_def)
  show ?thesis using r resolved_content_is_verified [OF disjI1 [OF r]] by simp
qed

section \<open>Prefetching\<close>

lemma positiveInteger_bounds: "positiveInteger n \<Longrightarrow> 1 \<le> n \<and> n \<le> SAFE_INTEGER_LIMIT"
  unfolding positiveInteger_def by linarith

lemma release_slot_cache: "rp_cache (release_slot s) = rp_cache s"
  by (simp add: release_slot_def split: list.split)

lemma prefetch_ends_cache:
  assumes "prefetch_ends h options asset out s = (failure, s')"
  shows "prefetch_body h options asset (rp_cache s (cacheKey asset)) out =
      (failure, rp_cache s' (cacheKey asset))"
    and "k \<noteq> cacheKey asset \<Longrightarrow> rp_cache s' k = rp_cache s k"
  using assms by (auto simp: prefetch_ends_def Let_def release_slot_cache split: prod.splits)

text \<open>
  A prefetch that reports success leaves an asset that can be played, whether it was found intact
  in the cache or downloaded; pruning that retains it does not lose it, and no other cached asset is
  touched.
\<close>

theorem prefetched_asset_resolves:
  assumes "repository_options_valid options" "pa_kind asset \<noteq> ''web''"
    and "prefetch_ends h options asset out s = (None, s')" and "asset \<in> set retained"
  shows "(\<exists>b. resolve_asset h options asset s' = (Inr (Some b), s') \<and>
      resolve_asset h options asset (prune_assets retained s') =
        (Inr (Some b), prune_assets retained s')) \<and>
    (\<forall>k. k \<noteq> cacheKey asset \<longrightarrow> rp_cache s' k = rp_cache s k)"
proof -
  have "ro_maxBufferedAssetBytes options \<le> SAFE_INTEGER_LIMIT"
    using assms(1) by (simp add: repository_options_valid_def positiveInteger_bounds)
  then obtain r b where "pa_sizeBytes asset \<le> ro_maxBufferedAssetBytes options"
      "rp_cache s' (cacheKey asset) = Some r" "verified_body h r asset = Inr b"
    using prefetch_body_None [OF prefetch_ends_cache(1) [OF assms(3)]] by blast
  then show ?thesis
    using assms(2,4) prefetch_ends_cache(2) [OF assms(3)]
    by (auto simp: resolve_asset_def prune_assets_def restrict_map_def)
qed

lemma prefetched_asset_resolves_witness:
  "\<exists>b. fst (resolve_asset sample_hash sample_repository_options (sample_player_asset ''x'')
     (snd (prefetch_ends sample_hash sample_repository_options (sample_player_asset ''x'')
       \<lparr>do_response = Some sample_response, do_put = True\<rparr> (new_repository Map.empty)))) = Inr (Some b)"
proof -
  let ?out = "\<lparr>do_response = Some sample_response, do_put = True\<rparr>"
  have "authorized (sample_player_asset ''x'')"
    by (simp add: authorized_def sample_player_asset_def capability1_ok)
  then have "fst (prefetch_ends sample_hash sample_repository_options (sample_player_asset ''x'') ?out
      (new_repository Map.empty)) = None"
    by (simp add: prefetch_ends_def prefetch_body_def new_repository_def Let_def sample_body)
      (simp add: sample_player_asset_def sample_repository_options_def sample_response_def)
  then have e: "prefetch_ends sample_hash sample_repository_options (sample_player_asset ''x'') ?out
      (new_repository Map.empty) = (None, snd (prefetch_ends sample_hash sample_repository_options
        (sample_player_asset ''x'') ?out (new_repository Map.empty)))"
    by (simp add: prod_eq_iff)
  have "repository_options_valid sample_repository_options"
    by (simp add: repository_options_valid_def sample_repository_options_def positiveInteger_def
        SAFE_INTEGER_LIMIT_def)
  moreover have "pa_kind (sample_player_asset ''x'') \<noteq> ''web''" by (simp add: sample_player_asset_def)
  ultimately show ?thesis
    using prefetched_asset_resolves [OF _ _ e, of "[sample_player_asset ''x'']"] by auto
qed

section \<open>Slots and reservations\<close>

text \<open>
  At all times no more downloads hold a slot than configured, downloads wait only while every
  slot is held (so a waiting download is never stranded), no asset is downloaded twice at once, and
  the reserved bytes are exactly those of the downloads under way and within the budget.
\<close>

theorem download_slots_are_bounded:
  assumes "repository_options_valid options" "repository_run h options s"
  shows "rp_activeDownloads s = length (in_phase Holding s) \<and>
    rp_activeDownloads s \<le> ro_maxConcurrentDownloads options \<and>
    (in_phase Waiting s \<noteq> [] \<longrightarrow> rp_activeDownloads s = ro_maxConcurrentDownloads options \<and>
      in_phase Holding s \<noteq> []) \<and>
    rp_downloadWaiters s = map (\<lambda>d. cacheKey (fst d)) (in_phase Waiting s) \<and>
    distinct (map (\<lambda>d. cacheKey (fst d)) (rp_inFlight s)) \<and>
    rp_reservedBytes s = (\<Sum>d\<leftarrow>rp_inFlight s. pa_sizeBytes (fst d)) \<and>
    rp_reservedBytes s \<le> ro_maxAggregateBytes options"
proof -
  have o: "1 \<le> ro_maxConcurrentDownloads options" "0 \<le> ro_maxAggregateBytes options"
    using assms(1) by (simp_all add: repository_options_valid_def positiveInteger_def)
  have "repository_inv options s" by (rule repository_run_inv [OF assms(2) o(2)])
  then show ?thesis using o(1) by (auto simp: repository_inv_def)
qed

lemma download_slots_are_bounded_witness:
  "\<exists>s. repository_run sample_hash sample_repository_options s \<and>
     rp_downloadWaiters s = [cacheKey (sample_player_asset ''y'')] \<and> rp_activeDownloads s = 1 \<and>
     rp_reservedBytes s = (\<Sum>d\<leftarrow>rp_inFlight s. pa_sizeBytes (fst d))"
proof -
  let ?s = "snd (prefetch_begins sample_repository_options (sample_player_asset ''y'')
    (snd (prefetch_begins sample_repository_options (sample_player_asset ''x'') sample_repository)))"
  have "repository_run sample_hash sample_repository_options sample_repository"
    unfolding sample_repository_def by (rule repository_run.new)
  from repository_run.step [OF repository_run.step [OF this repository_step.begins]
      repository_step.begins]
  have r: "repository_run sample_hash sample_repository_options ?s" by blast
  have v: "repository_options_valid sample_repository_options"
    by (simp add: repository_options_valid_def sample_repository_options_def positiveInteger_def
        SAFE_INTEGER_LIMIT_def)
  have "rp_downloadWaiters ?s = [cacheKey (sample_player_asset ''y'')]" "rp_activeDownloads ?s = 1"
    by (simp_all add: prefetch_begins_def acquireDownloadSlot_def reserve_def sample_repository_def
        new_repository_def sample_player_asset_def sample_repository_options_def cacheKey_def
        SAFE_INTEGER_LIMIT_def)
  then show ?thesis using r download_slots_are_bounded [OF v r] by blast
qed

text \<open>On Android a playback URL is either a converted file path of the plugin or a checked buffer.\<close>

lemma native_url_is_a_file:
  assumes "native_resolve convert plugin h options asset s = (Inr (Native_url u), s')"
  shows "\<exists>i p. nativeAssetIdentity asset = Some i \<and> plugin i = Native_path (Some p) \<and>
    prefix (js ''file:///'') p \<and> u = convert p \<and> u \<noteq> [] \<and> s' = s"
  using assms
  by (auto simp: native_resolve_def nativePlaybackUrl_def legacy_resolve_def
      split: if_splits option.splits native_reply.splits sum.splits prod.splits)

end
