(* ===== verification/Media_Capability.thy ===== *)
theory Media_Capability
  imports Base64 Media_Policy
begin

text \<open>
  The signed media capabilities of the API (\<open>apps/api/src/media/delivery.ts\<close>,
  \<open>issueMediaCapability\<close> and \<open>verifyMediaCapability\<close>): claims as JSON, base64url and a keyed
  signature.  HMAC-SHA-256, \<open>JSON.parse\<close> of UTF-8 bytes and \<open>Date.parse\<close> are parameters.
\<close>

section \<open>Claims\<close>

record server_platform =
  sv_hmac :: "utext \<Rightarrow> utext \<Rightarrow> nat list" \<comment> \<open>of key and message\<close>
  sv_parse_json :: "nat list \<Rightarrow> json option"
  sv_parse_date :: "utext \<Rightarrow> instant option"
  sv_ed25519 :: "nat list \<Rightarrow> utext \<Rightarrow> nat list" \<comment> \<open>signature under a seed\<close>

record media_claims =
  mc_screenId :: utext
  mc_organizationId :: utext
  mc_credentialKeyId :: "utext option"
  mc_assignmentId :: utext
  mc_assignmentDigestSha256 :: utext
  mc_assetId :: utext
  mc_storageKey :: utext
  mc_mimeType :: utext
  mc_checksumSha256 :: utext
  mc_sizeBytes :: int
  mc_expiresAt :: utext

text \<open>A JavaScript text as a text of the store, where it can be one.\<close>

definition store_text :: "utext \<Rightarrow> string option" where
  "store_text u = (if list_all (\<lambda>c. c < 256) u then Some (map char_of u) else None)"

lemma store_text_js [simp]: "store_text (js s) = Some s"
  by (simp add: store_text_def js_def list_all_iff comp_def)

lemma store_text_Some: "store_text u = Some s \<longleftrightarrow> u = js s"
proof
  assume "store_text u = Some s"
  then have "list_all (\<lambda>c. c < 256) u" "s = map char_of u" by (simp_all add: store_text_def split: if_splits)
  then show "u = js s" by (auto simp: js_def list_all_iff map_idI)
qed simp

definition sha256_text :: "utext \<Rightarrow> bool" where
  "sha256_text u \<longleftrightarrow> (case store_text u of None \<Rightarrow> False | Some s \<Rightarrow> is_sha256_hex s)"

text \<open>The claim of the storage key is the derived one; an invalid identity throws.\<close>

definition storage_identity :: "media_claims \<Rightarrow> bool" where
  "storage_identity claims \<longleftrightarrow>
     (case (store_text (mc_organizationId claims), store_text (mc_assetId claims),
            store_text (mc_checksumSha256 claims)) of
        (Some org, Some asset, Some checksum) \<Rightarrow>
          (case mediaStorageKey org asset checksum of
             Inl _ \<Rightarrow> False | Inr key \<Rightarrow> mc_storageKey claims = js key)
      | _ \<Rightarrow> False)"

definition claims_json :: "media_claims \<Rightarrow> json" where
  "claims_json c =
     JObj ([(js ''screenId'', JStr (mc_screenId c)), (js ''organizationId'', JStr (mc_organizationId c))] @
       (case mc_credentialKeyId c of None \<Rightarrow> [] | Some k \<Rightarrow> [(js ''credentialKeyId'', JStr k)]) @
       [(js ''assignmentId'', JStr (mc_assignmentId c)),
        (js ''assignmentDigestSha256'', JStr (mc_assignmentDigestSha256 c)),
        (js ''assetId'', JStr (mc_assetId c)), (js ''storageKey'', JStr (mc_storageKey c)),
        (js ''mimeType'', JStr (mc_mimeType c)), (js ''checksumSha256'', JStr (mc_checksumSha256 c)),
        (js ''sizeBytes'', JNum (mc_sizeBytes c)), (js ''expiresAt'', JStr (mc_expiresAt c)),
        (js ''version'', JNum 2), (js ''method'', jstr ''GET''),
        (js ''transport'', jstr ''authorization-v1'')])"

definition claims_of :: "json \<Rightarrow> media_claims" where
  "claims_of v = \<lparr>mc_screenId = to_text (field v ''screenId''),
     mc_organizationId = to_text (field v ''organizationId''),
     mc_credentialKeyId = (if field v ''credentialKeyId'' = JUndefined then None
       else Some (to_text (field v ''credentialKeyId''))),
     mc_assignmentId = to_text (field v ''assignmentId''),
     mc_assignmentDigestSha256 = to_text (field v ''assignmentDigestSha256''),
     mc_assetId = to_text (field v ''assetId''), mc_storageKey = to_text (field v ''storageKey''),
     mc_mimeType = to_text (field v ''mimeType''),
     mc_checksumSha256 = to_text (field v ''checksumSha256''),
     mc_sizeBytes = number (field v ''sizeBytes''), mc_expiresAt = to_text (field v ''expiresAt'')\<rparr>"

section \<open>Issuing and verifying\<close>

definition CAPABILITY_PREFIX :: utext where
  "CAPABILITY_PREFIX = js ''ScreenGoblin media delivery capability v2'' @ [10]"

definition media_signature :: "server_platform \<Rightarrow> utext \<Rightarrow> utext \<Rightarrow> utext" where
  "media_signature sv payload secret = base64url (sv_hmac sv secret (CAPABILITY_PREFIX @ payload))"

definition issueMediaCapability :: "server_platform \<Rightarrow> media_claims \<Rightarrow> utext \<Rightarrow> utext" where
  "issueMediaCapability sv claims secret =
     (let payload = base64url (utf8_bytes (stringify (claims_json claims))) in
      payload @ [46] @ media_signature sv payload secret)"

fun split_dots :: "utext \<Rightarrow> utext list" where
  "split_dots [] = [[]]"
| "split_dots (u # us) =
     (if u = 46 then [] # split_dots us
      else (case split_dots us of [] \<Rightarrow> [[u]] | p # ps \<Rightarrow> (u # p) # ps))"

definition claims_valid :: "server_platform \<Rightarrow> instant \<Rightarrow> json \<Rightarrow> bool" where
  "claims_valid sv at v \<longleftrightarrow>
     field v ''version'' = JNum 2 \<and> field v ''method'' = jstr ''GET'' \<and>
     field v ''transport'' = jstr ''authorization-v1'' \<and>
     is_text (field v ''screenId'') \<and> is_text (field v ''organizationId'') \<and>
     (field v ''credentialKeyId'' = JUndefined \<or> is_text (field v ''credentialKeyId'')) \<and>
     is_text (field v ''assignmentId'') \<and> is_text (field v ''assignmentDigestSha256'') \<and>
     sha256_text (to_text (field v ''assignmentDigestSha256'')) \<and>
     is_text (field v ''assetId'') \<and> is_text (field v ''storageKey'') \<and>
     is_text (field v ''mimeType'') \<and> is_text (field v ''checksumSha256'') \<and>
     sha256_text (to_text (field v ''checksumSha256'')) \<and>
     integer_within (field v ''sizeBytes'') 1 SAFE_INTEGER_LIMIT \<and> is_text (field v ''expiresAt'') \<and>
     (case sv_parse_date sv (to_text (field v ''expiresAt'')) of None \<Rightarrow> False | Some t \<Rightarrow> \<not> t \<le> at) \<and>
     storage_identity (claims_of v)"

definition verifyMediaCapability ::
  "server_platform \<Rightarrow> utext \<Rightarrow> utext \<Rightarrow> instant \<Rightarrow> media_claims option" where
  "verifyMediaCapability sv value secret at =
     (case split_dots value of
        payload # supplied # extra \<Rightarrow>
          if payload = [] \<or> supplied = [] \<or> (case extra of x # _ \<Rightarrow> x \<noteq> [] | [] \<Rightarrow> False) then None
          else if utf8_bytes supplied \<noteq> utf8_bytes (media_signature sv payload secret) then None
          else (case sv_parse_json sv (node_decode payload) of
            None \<Rightarrow> None
          | Some v \<Rightarrow> if claims_valid sv at v then Some (claims_of v) else None)
      | _ \<Rightarrow> None)"

section \<open>Facts\<close>

text \<open>
  What the platform is documented to do: \<open>JSON.parse\<close> of the UTF-8 bytes inverts \<open>JSON.stringify\<close> on
  the value of the claims, and HMAC-SHA-256 has 32 bytes.
\<close>

definition reads_claims :: "server_platform \<Rightarrow> media_claims \<Rightarrow> bool" where
  "reads_claims sv c \<longleftrightarrow>
     sv_parse_json sv (utf8_bytes (stringify (claims_json c))) = Some (claims_json c)"

definition hmac_sized :: "server_platform \<Rightarrow> bool" where
  "hmac_sized sv \<longleftrightarrow> (\<forall>k m. length (sv_hmac sv k m) = 32 \<and> (\<forall>b \<in> set (sv_hmac sv k m). b < 256))"

lemma split_dots_plain: "46 \<notin> set us \<Longrightarrow> split_dots us = [us]"
  by (induction us) auto

lemma split_dots_append: "46 \<notin> set us \<Longrightarrow> split_dots (us @ 46 # vs) = us # split_dots vs"
  by (induction us) auto

lemma base64url_no_dot:
  assumes "\<forall>b \<in> set bs. b < 256"
  shows "46 \<notin> set (base64url bs)"
  using base64url_alphabet [OF assms] by (auto simp: list_all_iff sextet_def)

lemma claims_json_fields:
  "field (claims_json c) ''screenId'' = JStr (mc_screenId c)"
  "field (claims_json c) ''organizationId'' = JStr (mc_organizationId c)"
  "field (claims_json c) ''credentialKeyId'' =
     (case mc_credentialKeyId c of None \<Rightarrow> JUndefined | Some k \<Rightarrow> JStr k)"
  "field (claims_json c) ''assignmentId'' = JStr (mc_assignmentId c)"
  "field (claims_json c) ''assignmentDigestSha256'' = JStr (mc_assignmentDigestSha256 c)"
  "field (claims_json c) ''assetId'' = JStr (mc_assetId c)"
  "field (claims_json c) ''storageKey'' = JStr (mc_storageKey c)"
  "field (claims_json c) ''mimeType'' = JStr (mc_mimeType c)"
  "field (claims_json c) ''checksumSha256'' = JStr (mc_checksumSha256 c)"
  "field (claims_json c) ''sizeBytes'' = JNum (mc_sizeBytes c)"
  "field (claims_json c) ''expiresAt'' = JStr (mc_expiresAt c)"
  "field (claims_json c) ''version'' = JNum 2" "field (claims_json c) ''method'' = jstr ''GET''"
  "field (claims_json c) ''transport'' = jstr ''authorization-v1''"
  by (simp_all add: field_def claims_json_def split: option.split)

lemma claims_of_json: "claims_of (claims_json c) = c"
  by (simp add: claims_of_def claims_json_fields split: option.split)

lemma issue_split:
  assumes "hmac_sized sv"
  shows "split_dots (issueMediaCapability sv c secret) =
    [base64url (utf8_bytes (stringify (claims_json c))),
     media_signature sv (base64url (utf8_bytes (stringify (claims_json c)))) secret]"
proof -
  have "46 \<notin> set (media_signature sv p secret)" for p
    using assms by (auto simp: media_signature_def hmac_sized_def intro!: base64url_no_dot)
  moreover have "46 \<notin> set (base64url (utf8_bytes t))" for t
    by (intro base64url_no_dot) (auto dest: utf8_bytes_bound)
  ultimately show ?thesis
    by (simp add: issueMediaCapability_def Let_def split_dots_append split_dots_plain)
qed

lemma base64url_empty: "base64url bs = [] \<longleftrightarrow> bs = []"
  by (simp add: base64url_def sextets_empty)

lemma utf8_length_pos: "us \<noteq> [] \<Longrightarrow> 0 < utf8_length us"
  by (cases us rule: utf8_length.cases) simp_all

lemma utf8_bytes_empty: "utf8_bytes us = [] \<longleftrightarrow> us = []"
  using utf8_length_pos [of us] by (cases "us = []") (simp_all flip: utf8_bytes_length)

text \<open>A capability that was issued verifies, whatever the claims, as long as they are valid.\<close>

lemma verify_issued:
  assumes "hmac_sized sv" "reads_claims sv c"
  shows "verifyMediaCapability sv (issueMediaCapability sv c secret) secret at =
    (if claims_valid sv at (claims_json c) then Some c else None)"
proof -
  let ?p = "base64url (utf8_bytes (stringify (claims_json c)))"
  have "length (sv_hmac sv k m) = 32" for k m using assms(1) by (simp add: hmac_sized_def)
  then have "sv_hmac sv k m \<noteq> []" for k m by (metis list.size(3) zero_neq_numeral)
  then have "media_signature sv ?p secret \<noteq> []" by (simp add: media_signature_def base64url_empty)
  moreover have "?p \<noteq> []" by (simp add: base64url_empty utf8_bytes_empty claims_json_def)
  moreover have "node_decode ?p = utf8_bytes (stringify (claims_json c))"
    by (intro node_decode_base64url) (auto dest: utf8_bytes_bound)
  ultimately show ?thesis
    using assms(2)
    by (simp add: verifyMediaCapability_def issue_split [OF assms(1)] reads_claims_def claims_of_json)
qed

text \<open>What verifies carries the signature of its payload, and claims that are still in force.\<close>

lemma split_dots_head: "split_dots v = p # q # x \<Longrightarrow> \<exists>w. v = p @ 46 # w \<and> split_dots w = q # x"
proof (induction v arbitrary: p)
  case Nil
  then show ?case by simp
next
  case (Cons u us)
  show ?case
  proof (cases "u = 46")
    case True
    with Cons.prems show ?thesis by simp
  next
    case False
    with Cons.prems obtain p' where "split_dots us = p' # q # x" "p = u # p'"
      by (auto split: list.splits)
    then show ?thesis using Cons.IH [of p'] by auto
  qed
qed

lemma verified_capability:
  assumes "verifyMediaCapability sv value secret at = Some c"
  obtains payload supplied rest v where "value = payload @ 46 # rest"
    "utf8_bytes supplied = utf8_bytes (media_signature sv payload secret)"
    "supplied = hd (split_dots rest)" "sv_parse_json sv (node_decode payload) = Some v"
    "claims_valid sv at v" "c = claims_of v"
proof -
  obtain payload supplied extra where d: "split_dots value = payload # supplied # extra"
    using assms by (cases "split_dots value"; cases "tl (split_dots value)")
      (simp_all add: verifyMediaCapability_def)
  from assms have s: "utf8_bytes supplied = utf8_bytes (media_signature sv payload secret)"
    unfolding verifyMediaCapability_def d by (simp split: if_splits)
  obtain v where v: "sv_parse_json sv (node_decode payload) = Some v"
    using assms unfolding verifyMediaCapability_def d by (simp split: if_splits option.splits)
  have c: "claims_valid sv at v" "c = claims_of v"
    using assms unfolding verifyMediaCapability_def d by (simp_all add: v split: if_splits)
  from split_dots_head [OF d] obtain w where w: "value = payload @ 46 # w" "split_dots w = supplied # extra"
    by blast
  from w(2) have "supplied = hd (split_dots w)" by simp
  from that [OF w(1) s this v c] show thesis .
qed

lemma claims_valid_facts:
  assumes "claims_valid sv at v"
  shows "storage_identity (claims_of v)"
    "1 \<le> mc_sizeBytes (claims_of v) \<and> mc_sizeBytes (claims_of v) \<le> SAFE_INTEGER_LIMIT"
    "\<exists>t. sv_parse_date sv (mc_expiresAt (claims_of v)) = Some t \<and> at < t"
  using assms
  by (auto simp: claims_valid_def claims_of_def integer_within_def split: json.splits option.splits)

lemma claims_json_valid:
  "claims_valid sv at (claims_json c) \<longleftrightarrow>
     sha256_text (mc_assignmentDigestSha256 c) \<and> sha256_text (mc_checksumSha256 c) \<and>
     1 \<le> mc_sizeBytes c \<and> mc_sizeBytes c \<le> SAFE_INTEGER_LIMIT \<and> storage_identity c \<and>
     (case sv_parse_date sv (mc_expiresAt c) of None \<Rightarrow> False | Some t \<Rightarrow> at < t)"
  by (auto simp: claims_valid_def claims_json_fields integer_within_def claims_of_json
      split: option.splits)

section \<open>Size\<close>

text \<open>Printable ASCII that JSON does not escape.\<close>

definition plain_text :: "utext \<Rightarrow> bool" where
  "plain_text u \<longleftrightarrow> list_all (\<lambda>c. 32 \<le> c \<and> c < 127 \<and> c \<noteq> 34 \<and> c \<noteq> 92) u"

lemma plain_text_append [simp]: "plain_text (u @ v) \<longleftrightarrow> plain_text u \<and> plain_text v"
  by (simp add: plain_text_def)

lemma quote_units_plain: "plain_text u \<Longrightarrow> quote_units u = u"
  by (induction u rule: quote_units.induct)
    (simp_all add: plain_text_def quote_unit_def high_surrogate_def low_surrogate_def)

lemma quote_json_plain: "plain_text u \<Longrightarrow> quote_json u = 34 # u @ [34]"
  by (simp add: quote_json_def quote_units_plain)

lemma plain_text_ascii: "plain_text u \<Longrightarrow> list_all (\<lambda>c. c < 128) u"
  by (auto simp: plain_text_def list_all_iff)

lemma decimal_nat_ascii: "list_all (\<lambda>c. 48 \<le> c \<and> c \<le> 57) (decimal_nat n)"
proof (induction n rule: decimal_nat.induct)
  case (1 n)
  then show ?case by (subst decimal_nat.simps) auto
qed

lemma decimal_nat_length: "n < 10 ^ Suc k \<Longrightarrow> length (decimal_nat n) \<le> Suc k"
proof (induction k arbitrary: n)
  case 0
  then show ?case by (simp add: decimal_nat.simps)
next
  case (Suc k)
  then have "n div 10 < 10 ^ Suc k" by (simp add: less_mult_imp_div_less mult.commute)
  from Suc.IH [OF this] show ?case by (subst decimal_nat.simps) simp
qed

definition claims_plain :: "media_claims \<Rightarrow> bool" where
  "claims_plain c \<longleftrightarrow>
     plain_text (mc_screenId c) \<and> plain_text (mc_organizationId c) \<and>
     (case mc_credentialKeyId c of None \<Rightarrow> True | Some k \<Rightarrow> plain_text k) \<and>
     plain_text (mc_assignmentId c) \<and> plain_text (mc_assignmentDigestSha256 c) \<and>
     plain_text (mc_assetId c) \<and> plain_text (mc_storageKey c) \<and> plain_text (mc_mimeType c) \<and>
     plain_text (mc_checksumSha256 c) \<and> plain_text (mc_expiresAt c) \<and> 0 \<le> mc_sizeBytes c"

definition claims_length :: "media_claims \<Rightarrow> nat" where
  "claims_length c =
     length (mc_screenId c) + length (mc_organizationId c) +
     (case mc_credentialKeyId c of None \<Rightarrow> 0 | Some k \<Rightarrow> length k) +
     length (mc_assignmentId c) + length (mc_assignmentDigestSha256 c) + length (mc_assetId c) +
     length (mc_storageKey c) + length (mc_mimeType c) + length (mc_checksumSha256 c) +
     length (mc_expiresAt c) + length (decimal (mc_sizeBytes c))"

lemma plain_literals:
  "plain_text (js ''screenId'')" "plain_text (js ''organizationId'')" "plain_text (js ''credentialKeyId'')"
  "plain_text (js ''assignmentId'')" "plain_text (js ''assignmentDigestSha256'')"
  "plain_text (js ''assetId'')" "plain_text (js ''storageKey'')" "plain_text (js ''mimeType'')"
  "plain_text (js ''checksumSha256'')" "plain_text (js ''sizeBytes'')" "plain_text (js ''expiresAt'')"
  "plain_text (js ''version'')" "plain_text (js ''method'')" "plain_text (js ''transport'')"
  "plain_text (js ''GET'')" "plain_text (js ''authorization-v1'')"
  by (simp_all add: plain_text_def js_def)

lemma decimal_ascii: "list_all (\<lambda>c. c < 128) (decimal i)"
  using decimal_nat_ascii by (auto simp: decimal_def list_all_iff) fastforce+

lemma claims_text:
  assumes "claims_plain c"
  shows "list_all (\<lambda>c. c < 128) (stringify (claims_json c))"
    and "length (stringify (claims_json c)) \<le> claims_length c + 300"
proof -
  have two: "decimal 2 = [50]" by (simp add: decimal_def decimal_nat.simps)
  note p = assms [unfolded claims_plain_def]
  show "list_all (\<lambda>c. c < 128) (stringify (claims_json c))"
    using p by (auto simp: claims_json_def quote_json_plain plain_literals plain_text_ascii
        decimal_ascii two split: option.splits)
  show "length (stringify (claims_json c)) \<le> claims_length c + 300"
    using p by (auto simp: claims_json_def claims_length_def quote_json_plain plain_literals two
        split: option.splits)
qed

lemma issued_is_capability:
  assumes "hmac_sized sv" "claims_plain c" "claims_length c \<le> 2739"
  shows "MEDIA_CAPABILITY (issueMediaCapability sv c secret)"
proof -
  let ?b = "utf8_bytes (stringify (claims_json c))"
  let ?p = "base64url ?b" and ?s = "media_signature sv (base64url ?b) secret"
  have b: "\<forall>x \<in> set ?b. x < 256" by (auto dest: utf8_bytes_bound)
  have "length ?b \<le> 3039"
    using claims_text [OF assms(2)] assms(3) by (simp add: utf8_bytes_ascii)
  then have "4 * length ?b + 2 \<le> 12158" by linarith
  then have "length ?p \<le> 4052" using div_le_mono [of "4 * length ?b + 2" 12158 3]
    by (simp add: base64url_length)
  moreover have "?p \<noteq> []" by (simp add: base64url_empty utf8_bytes_empty claims_json_def)
  then have "1 \<le> length ?p" by (cases ?p) simp_all
  moreover have "length ?s = 43" "list_all (\<lambda>u. sextet u \<noteq> None) ?s"
    using assms(1) base64url_alphabet
    by (simp_all add: media_signature_def hmac_sized_def base64url_length)
  moreover have "list_all (\<lambda>u. sextet u \<noteq> None) ?p" by (rule base64url_alphabet [OF b])
  ultimately show ?thesis
    by (simp add: MEDIA_CAPABILITY_def issueMediaCapability_def Let_def nth_append)
qed

end
