(* ===== verification/Media_Delivery.thy ===== *)
theory Media_Delivery
  imports Media_Capability DeviceProof Releases
begin

text \<open>
  Delivery of private media to screens: the stream that passes a body on only if it has its declared
  length and what is read of an object store's response (\<open>apps/api/src/media/delivery.ts\<close>), and the
  route \<open>GET /media/:assetId\<close> (\<open>apps/api/src/routes/media-delivery.ts\<close>), which checks the capability,
  the device and the active releases again on every request.
\<close>

section \<open>Exact length\<close>

text \<open>
  The transform holds the last byte back until the source has ended: a client that counts the
  declared length does not see a complete body before that.
\<close>

record exact_length =
  xl_receivedBytes :: nat
  xl_finalByte :: "nat option"

definition exact_transform ::
  "nat \<Rightarrow> nat list \<Rightarrow> exact_length \<Rightarrow> (nat list \<times> exact_length) option" where
  "exact_transform expectedBytes chunk s =
     (if length chunk > expectedBytes - xl_receivedBytes s then None
      else let received = xl_receivedBytes s + length chunk in
      if received = expectedBytes \<and> length chunk > 0
      then Some (butlast chunk, \<lparr>xl_receivedBytes = received, xl_finalByte = Some (last chunk)\<rparr>)
      else Some (chunk, s\<lparr>xl_receivedBytes := received\<rparr>))"

definition exact_flush :: "nat \<Rightarrow> exact_length \<Rightarrow> nat list option" where
  "exact_flush expectedBytes s =
     (if xl_receivedBytes s \<noteq> expectedBytes then None
      else Some (case xl_finalByte s of None \<Rightarrow> [] | Some b \<Rightarrow> [b]))"

text \<open>What the client has received, and whether the stream has ended well.\<close>

fun exact_stream ::
  "nat \<Rightarrow> bool \<Rightarrow> exact_length \<Rightarrow> nat list \<Rightarrow> nat list list \<Rightarrow> nat list \<times> bool" where
  "exact_stream expectedBytes breaks s sent [] =
     (if breaks then (sent, False)
      else case exact_flush expectedBytes s of
        None \<Rightarrow> (sent, False) | Some out \<Rightarrow> (sent @ out, True))"
| "exact_stream expectedBytes breaks s sent (chunk # chunks) =
     (case exact_transform expectedBytes chunk s of
        None \<Rightarrow> (sent, False)
      | Some (out, s') \<Rightarrow> exact_stream expectedBytes breaks s' (sent @ out) chunks)"

text \<open>An object: its declared length, the chunks of its body and whether the body fails after them.\<close>

record media_object =
  mo_contentLength :: int
  mo_chunks :: "nat list list"
  mo_breaks :: bool

definition enforceExactByteLength :: "media_object \<Rightarrow> int \<Rightarrow> exn + nat list \<times> bool" where
  "enforceExactByteLength body expectedBytes =
     (if \<bar>expectedBytes\<bar> > MAX_SAFE_INTEGER \<or> expectedBytes < 0
      then Inl (GenericError ''Private media object length is invalid'')
      else Inr (exact_stream (nat expectedBytes) (mo_breaks body)
        \<lparr>xl_receivedBytes = 0, xl_finalByte = None\<rparr> [] (mo_chunks body)))"

section \<open>The object store\<close>

record object_response =
  or_status :: int
  or_contentEncoding :: "string option"
  or_contentLength :: "utext option"
  or_body :: "(nat list list \<times> bool) option"

text \<open>\<open>trim\<close> of ASCII white space, then lower case.\<close>

definition trimmed_lower :: "string \<Rightarrow> string" where
  "trimmed_lower s =
     (let white = (\<lambda>c. c \<in> {CHR '' '', CHR 0x09, CHR 0x0A, CHR 0x0B, CHR 0x0C, CHR 0x0D, CHR 0xA0}) in
      toLowerCase (rev (dropWhile white (rev (dropWhile white s)))))"

text \<open>The reading of the response; None is an object that does not exist.\<close>

definition read_object :: "object_response \<Rightarrow> exn + media_object option" where
  "read_object r =
     (if or_status r = 404 then Inr None
      else case or_body r of
        None \<Rightarrow> Inl (GenericError ''Private media object retrieval failed'')
      | Some (chunks, breaks) \<Rightarrow>
          if \<not> (200 \<le> or_status r \<and> or_status r \<le> 299)
          then Inl (GenericError ''Private media object retrieval failed'')
          else if (case or_contentEncoding r of None \<Rightarrow> False | Some x \<Rightarrow> trimmed_lower x \<noteq> ''identity'')
          then Inl (GenericError ''Private media object encoding is not allowed'')
          else (case or_contentLength r of
            None \<Rightarrow> Inl (GenericError ''Private media object length is invalid'')
          | Some l \<Rightarrow>
              if l = [] \<or> \<not> list_all (\<lambda>u. 48 \<le> u \<and> u \<le> 57) l \<or> (hd l = 48 \<and> l \<noteq> [48]) \<or>
                int (decimal_value l 0) > MAX_SAFE_INTEGER
              then Inl (GenericError ''Private media object length is invalid'')
              else Inr (Some \<lparr>mo_contentLength = int (decimal_value l 0), mo_chunks = chunks,
                mo_breaks = breaks\<rparr>)))"

section \<open>The route\<close>

record media_request =
  rq_method :: string
  rq_url :: string
  rq_assetId :: string
  rq_headers :: "(string \<times> utext) list"

text \<open>\<open>/^MediaCapability ([A-Za-z0-9_-]{1,4052}\.[A-Za-z0-9_-]{43})$/\<close>\<close>

definition capabilityAuthorization :: "utext \<Rightarrow> utext option" where
  "capabilityAuthorization v =
     (if prefix (js ''MediaCapability '') v \<and> MEDIA_CAPABILITY (drop 16 v) then Some (drop 16 v)
      else None)"

definition readCapability :: "media_request \<Rightarrow> utext option" where
  "readCapability request =
     (if CHR ''?'' \<in> set (rq_url request) then None
      else case filter (\<lambda>h. toLowerCase (fst h) = ''authorization'') (rq_headers request) of
        [h] \<Rightarrow> capabilityAuthorization (snd h)
      | _ \<Rightarrow> None)"

text \<open>The screen a capability was issued to, if its device is still trusted.\<close>

definition capability_screen :: "env \<Rightarrow> store \<Rightarrow> media_claims \<Rightarrow> screen option" where
  "capability_screen e s claims =
     (case store_text (mc_screenId claims) of
        None \<Rightarrow> None
      | Some screenId \<Rightarrow>
          (case mc_credentialKeyId claims of
             None \<Rightarrow> authenticateDevice s screenId
           | Some k \<Rightarrow>
               if k = [] then authenticateDevice s screenId
               else (case store_text k of
                 None \<Rightarrow> None
               | Some keyId \<Rightarrow>
                   (case authenticateDeviceCredential e s screenId keyId of
                      INVALID_PROOF \<Rightarrow> None
                    | Authenticated c x \<Rightarrow> Some x))))"

text \<open>The claims as the store reads them; a claim that is no text of the store matches nothing.\<close>

definition delivery_input :: "media_claims \<Rightarrow> instant \<Rightarrow> media_delivery_input option" where
  "delivery_input c t =
     (case map store_text [mc_organizationId c, mc_screenId c, mc_assignmentId c,
         mc_assignmentDigestSha256 c, mc_assetId c, mc_storageKey c, mc_checksumSha256 c] of
        [Some org, Some screenId, Some assignmentId, Some assignmentDigest, Some assetId, Some key,
          Some checksum] \<Rightarrow>
          Some \<lparr>mv_organizationId = org, mv_screenId = screenId, mv_assignmentId = assignmentId,
            mv_assignmentDigestSha256 = assignmentDigest, mv_assetId = assetId, mv_storageKey = key,
            mv_checksumSha256 = checksum, mv_sizeBytes = mc_sizeBytes c, mv_at = Some t\<rparr>
      | _ \<Rightarrow> None)"

datatype media_reply = Reply_404 | Reply_503 | Reply_object utext int "nat list \<times> bool"

text \<open>
  The handler.  It awaits the device check and the authorization, so each reads its own store and
  clock; \<open>objects\<close> is the configured object store.
\<close>

definition deliver_media ::
  "server_platform \<Rightarrow> utext \<Rightarrow> (utext \<Rightarrow> exn + media_object option) option \<Rightarrow> media_request \<Rightarrow>
    env \<times> store \<Rightarrow> env \<times> store \<Rightarrow> exn + media_reply" where
  "deliver_media sv secret objects request at1 at2 =
     (if rq_method request \<noteq> ''GET'' then Inr Reply_404
      else case readCapability request of
        None \<Rightarrow> Inr Reply_404
      | Some capability \<Rightarrow>
          if \<not> safe_segment (rq_assetId request) then Inr Reply_404
          else (case verifyMediaCapability sv capability secret (now (fst at1)) of
            None \<Rightarrow> Inr Reply_404
          | Some claims \<Rightarrow>
              if mc_assetId claims \<noteq> js (rq_assetId request) then Inr Reply_404
              else (case capability_screen (fst at1) (snd at1) claims of
                None \<Rightarrow> Inr Reply_404
              | Some x \<Rightarrow>
                  if js (sc_organizationId x) \<noteq> mc_organizationId claims then Inr Reply_404
                  else (case delivery_input claims (now (fst at2)) of
                    None \<Rightarrow> Inr Reply_404
                  | Some input \<Rightarrow>
                      (case authorizeMediaDelivery (fst at2) (snd at2) input of
                         Inl err \<Rightarrow> Inl err
                       | Inr False \<Rightarrow> Inr Reply_404
                       | Inr True \<Rightarrow>
                           (case objects of
                              None \<Rightarrow> Inr Reply_503
                            | Some getObject \<Rightarrow>
                                (case getObject (mc_storageKey claims) of
                                   Inl err \<Rightarrow> Inl err
                                 | Inr None \<Rightarrow> Inr Reply_404
                                 | Inr (Some object) \<Rightarrow>
                                     if mo_contentLength object \<noteq> mc_sizeBytes claims
                                     then Inr Reply_404
                                     else (case enforceExactByteLength object (mc_sizeBytes claims) of
                                       Inl err \<Rightarrow> Inl err
                                     | Inr body \<Rightarrow>
                                         Inr (Reply_object (mc_mimeType claims) (mc_sizeBytes claims)
                                           body)))))))))"

end
