(* ===== verification/Device_Manifest.thy ===== *)
theory Device_Manifest
  imports Media_Capability Releases Emergencies
begin

text \<open>
  The manifest the API builds for a screen (\<open>apps/api/src/routes/devices.ts\<close>, the handler of
  \<open>POST /manifest\<close> after the device has been authenticated): the running emergency, or the release
  with the highest precedence if all of it is playable, or a withdrawal; its media capabilities, its
  version and its signature.
\<close>

section \<open>Configuration and URLs\<close>

record api_config =
  cf_emergencyPublishingEnabled :: bool
  cf_mediaAllowedOrigins :: "string list"
  cf_mediaDeliverySecret :: utext
  cf_publicApiUrl :: "string option"
  cf_manifestSigningPrivateKey :: utext

definition MANIFEST_LEASE_MS :: int where "MANIFEST_LEASE_MS = 5 * 60000"

definition strip_slashes :: "string \<Rightarrow> string" where
  "strip_slashes s = rev (dropWhile (\<lambda>c. c = CHR ''/'') (rev s))"

text \<open>\<open>origin\<close> is the protocol and host of the request.\<close>

definition api_base_url :: "api_config \<Rightarrow> string \<Rightarrow> string" where
  "api_base_url cfg origin =
     strip_slashes (case cf_publicApiUrl cfg of None \<Rightarrow> origin | Some u \<Rightarrow> u) @ ''/api/v1/device''"

definition media_url :: "string \<Rightarrow> string \<Rightarrow> utext" where
  "media_url base assetId = js base @ js ''/media/'' @ encodeURIComponent (js assetId)"

section \<open>Selection\<close>

definition release_precedence :: "env \<Rightarrow> release \<times> assignment \<Rightarrow> release \<times> assignment \<Rightarrow> int" where
  "release_precedence e l r =
     (let key = (\<lambda>a. \<lparr>pk_id = ra_id a, pk_priority = fs_priority (ra_schedule a),
           pk_startsAt = fs_startsAt (ra_schedule a)\<rparr>) in
      compareSchedulePrecedence e (key (snd l)) (key (snd r)))"

definition url_allowed :: "env \<Rightarrow> api_config \<Rightarrow> frozen_item \<Rightarrow> bool" where
  "url_allowed e cfg i =
     (case parse_url e (fa_url (fi_asset i)) of
        None \<Rightarrow> False
      | Some u \<Rightarrow> \<not> hasMediaUrlCredentials u \<and> usesAllowedMediaScheme u \<and>
          mediaUrlMatchesAllowedOrigin e (fa_url (fi_asset i)) (cf_mediaAllowedOrigins cfg))"

definition entireReleasePlayable ::
  "env \<Rightarrow> api_config \<Rightarrow> release \<Rightarrow> instant option \<Rightarrow> bool" where
  "entireReleasePlayable e cfg r endsAt \<longleftrightarrow>
     rl_items r \<noteq> [] \<and> list_all (url_allowed e cfg) (rl_items r) \<and>
     mediaPublicationFailure (map (\<lambda>i. policy_of_frozen (fi_asset i)) (rl_items r)) (now e) = None \<and>
     (case endsAt of None \<Rightarrow> True | Some t \<Rightarrow> t > now e)"

section \<open>Items\<close>

text \<open>The values every item of a manifest depends on.\<close>

record manifest_context =
  mx_screenId :: string
  mx_organizationId :: string
  mx_credentialKeyId :: "string option"
  mx_base :: string
  mx_validUntil :: instant
  mx_playbackEndsAt :: "instant option"

definition capability_expiry :: "manifest_context \<Rightarrow> frozen_asset \<Rightarrow> instant" where
  "capability_expiry mx a =
     Min (set (mx_validUntil mx # List.map_filter id [mx_playbackEndsAt mx, fa_expiresAt a]))"

definition item_storage_key :: "manifest_context \<Rightarrow> frozen_asset \<Rightarrow> exn + string" where
  "item_storage_key mx a =
     (case fa_storageKey a of
        Some k \<Rightarrow> Inr k
      | None \<Rightarrow> mediaStorageKey (mx_organizationId mx) (fa_id a) (fa_checksumSha256 a))"

definition item_claims :: "manifest_context \<Rightarrow> assignment \<Rightarrow> frozen_asset \<Rightarrow> string \<Rightarrow> media_claims" where
  "item_claims mx s a key = \<lparr>mc_screenId = js (mx_screenId mx),
     mc_organizationId = js (mx_organizationId mx),
     mc_credentialKeyId = (if truthy (mx_credentialKeyId mx) then map_option js (mx_credentialKeyId mx)
       else None),
     mc_assignmentId = js (ra_id s), mc_assignmentDigestSha256 = js (ra_digestSha256 s),
     mc_assetId = js (fa_id a), mc_storageKey = js key, mc_mimeType = js (fa_mimeType a),
     mc_checksumSha256 = js (fa_checksumSha256 a), mc_sizeBytes = fa_sizeBytes a,
     mc_expiresAt = js (toISOString (capability_expiry mx a))\<rparr>"

definition asset_head :: "frozen_asset \<Rightarrow> (utext \<times> json) list" where
  "asset_head a =
     [(js ''id'', jstr (fa_id a)), (js ''name'', jstr (fa_name a)),
      (js ''kind'', jstr (media_kind_text (fa_kind a))), (js ''mimeType'', jstr (fa_mimeType a))]"

definition asset_tail :: "frozen_asset \<Rightarrow> (utext \<times> json) list" where
  "asset_tail a =
     [(js ''checksumSha256'', jstr (fa_checksumSha256 a)), (js ''sizeBytes'', JNum (fa_sizeBytes a)),
      (js ''createdAt'', jinstant (fa_createdAt a))] @
     opt_entry ''expiresAt'' (map_option (\<lambda>t. jinstant t) (fa_expiresAt a))"

definition wire_item :: "frozen_item \<Rightarrow> (utext \<times> json) list \<Rightarrow> json" where
  "wire_item i delivery = JObj
     [(js ''id'', jstr (fi_id i)),
      (js ''asset'', JObj (asset_head (fi_asset i) @ delivery @ asset_tail (fi_asset i))),
      (js ''position'', JNum (fi_position i)), (js ''durationSeconds'', JNum (fi_durationSeconds i))]"

text \<open>An item as it is sent; its identity for the version leaves out the delivery.\<close>

definition manifest_item ::
  "server_platform \<Rightarrow> api_config \<Rightarrow> manifest_context \<Rightarrow> assignment \<Rightarrow> frozen_item \<Rightarrow> exn + json" where
  "manifest_item sv cfg mx s i =
     (case item_storage_key mx (fi_asset i) of
        Inl x \<Rightarrow> Inl x
      | Inr key \<Rightarrow> Inr (wire_item i
          [(js ''url'', JStr (media_url (mx_base mx) (fa_id (fi_asset i)))),
           (js ''mediaDelivery'', jstr ''authorization-v1''),
           (js ''mediaCapability'', JStr (issueMediaCapability sv
              (item_claims mx s (fi_asset i) key) (cf_mediaDeliverySecret cfg)))]))"

fun gather :: "(exn + 'a) list \<Rightarrow> exn + 'a list" where
  "gather [] = Inr []"
| "gather (r # rs) =
     (case r of Inl x \<Rightarrow> Inl x
      | Inr y \<Rightarrow> (case gather rs of Inl x \<Rightarrow> Inl x | Inr ys \<Rightarrow> Inr (y # ys)))"

section \<open>Emergencies\<close>

definition emergency_payload :: "emergency_record \<Rightarrow> utext" where
  "emergency_payload x = stringify (JObj [(js ''title'', jstr (em_title x)),
     (js ''message'', jstr (em_message x)), (js ''backgroundColor'', jstr (em_backgroundColor x))])"

definition emergency_item :: "env \<Rightarrow> emergency_record \<Rightarrow> json" where
  "emergency_item e x = JObj
     [(js ''id'', jstr (''emergency-'' @ em_id x)),
      (js ''asset'', JObj
        [(js ''id'', jstr (em_id x)), (js ''name'', jstr (em_title x)), (js ''kind'', jstr ''template''),
         (js ''mimeType'', jstr ''application/vnd.screengoblin.emergency+json''),
         (js ''url'', JStr (js ''data:application/json;base64,'' @
            base64 (utf8_bytes (emergency_payload x)))),
         (js ''checksumSha256'', jstr (sha256 e (emergency_payload x))),
         (js ''sizeBytes'', JNum (int (utf8_length (emergency_payload x)))),
         (js ''createdAt'', jinstant (em_createdAt x))]),
      (js ''position'', JNum 0),
      (js ''durationSeconds'', JNum (max 1 (ceil_seconds (em_expiresAt x - em_startsAt x))))]"

section \<open>The manifest\<close>

text \<open>What the selection has decided.\<close>

record manifest_plan =
  mp_priority :: string
  mp_releaseIdentity :: string
  mp_withdrawn :: bool
  mp_playbackEndsAt :: "instant option"
  mp_validUntil :: instant
  mp_items :: "json list"
  mp_identities :: "json list"

definition withdrawn_plan :: "env \<Rightarrow> manifest_plan" where
  "withdrawn_plan e = \<lparr>mp_priority = ''normal'', mp_releaseIdentity = ''no-schedule'', mp_withdrawn = True,
     mp_playbackEndsAt = None, mp_validUntil = now e + MANIFEST_LEASE_MS, mp_items = [],
     mp_identities = []\<rparr>"

definition emergency_plan :: "env \<Rightarrow> emergency_record \<Rightarrow> manifest_plan" where
  "emergency_plan e x = \<lparr>mp_priority = ''emergency'',
     mp_releaseIdentity = ''emergency:'' @ em_id x @ '':'' @ toISOString (em_expiresAt x),
     mp_withdrawn = False, mp_playbackEndsAt = None, mp_validUntil = em_expiresAt x,
     mp_items = [emergency_item e x], mp_identities = [emergency_item e x]\<rparr>"

text \<open>
  The items of a release in force become the plan, whatever the priority of its schedule; one with
  the priority of an emergency keeps its whole items as their identity.
\<close>

definition release_plan ::
  "server_platform \<Rightarrow> env \<Rightarrow> api_config \<Rightarrow> manifest_context \<Rightarrow> release \<times> assignment \<Rightarrow> exn + manifest_plan" where
  "release_plan sv e cfg mx ra =
     (if \<not> entireReleasePlayable e cfg (fst ra) (mx_playbackEndsAt mx) then Inr (withdrawn_plan e)
      else case gather (map (manifest_item sv cfg mx (snd ra)) (rl_items (fst ra))) of
        Inl x \<Rightarrow> Inl x
      | Inr items \<Rightarrow> Inr \<lparr>mp_priority = priority_text (fs_priority (ra_schedule (snd ra))),
          mp_releaseIdentity = ''assignment:'' @ ra_digestSha256 (snd ra), mp_withdrawn = False,
          mp_playbackEndsAt = mx_playbackEndsAt mx, mp_validUntil = mx_validUntil mx,
          mp_items = items,
          mp_identities = (if fs_priority (ra_schedule (snd ra)) = emergency then items
            else map (\<lambda>i. wire_item i []) (rl_items (fst ra)))\<rparr>)"

definition ordinary_plan ::
  "server_platform \<Rightarrow> env \<Rightarrow> api_config \<Rightarrow> string \<Rightarrow> screen \<Rightarrow> string option \<Rightarrow> store \<Rightarrow> exn + manifest_plan" where
  "ordinary_plan sv e cfg base x credentialKeyId s =
     (case activeOrdinaryReleases e s (sc_organizationId x) (sc_id x) (now e) of
        Inl err \<Rightarrow> Inl err
      | Inr ras \<Rightarrow>
          (case sort_by (release_precedence e) ras of
             [] \<Rightarrow> Inr (withdrawn_plan e)
           | selected # _ \<Rightarrow>
               (case schedulePlaybackEndsAt e (ra_schedule (snd selected)) (now e) of
                  Inl err \<Rightarrow> Inl err
                | Inr endsAt \<Rightarrow> release_plan sv e cfg
                    \<lparr>mx_screenId = sc_id x, mx_organizationId = sc_organizationId x,
                     mx_credentialKeyId = credentialKeyId, mx_base = base,
                     mx_validUntil = now e + MANIFEST_LEASE_MS, mx_playbackEndsAt = endsAt\<rparr> selected)))"

definition manifest_plan_for ::
  "server_platform \<Rightarrow> env \<Rightarrow> api_config \<Rightarrow> string \<Rightarrow> screen \<Rightarrow> string option \<Rightarrow> store \<Rightarrow> exn + manifest_plan" where
  "manifest_plan_for sv e cfg base x credentialKeyId s =
     (case (if cf_emergencyPublishingEnabled cfg
            then activeEmergency s (sc_organizationId x) (sc_id x) (now e) else None) of
        Some m \<Rightarrow> Inr (emergency_plan e m)
      | None \<Rightarrow> ordinary_plan sv e cfg base x credentialKeyId s)"

definition plan_version :: "env \<Rightarrow> screen \<Rightarrow> manifest_plan \<Rightarrow> string" where
  "plan_version e x p = sha256 e (stringify (JObj
     ([(js ''protocolVersion'', JNum 2), (js ''mediaDelivery'', jstr ''authorization-v1''),
       (js ''screenId'', jstr (sc_id x)), (js ''releaseIdentity'', jstr (mp_releaseIdentity p)),
       (js ''priority'', jstr (mp_priority p)), (js ''withdrawn'', JBool (mp_withdrawn p))] @
      opt_entry ''playbackEndsAt'' (map_option (\<lambda>t. jinstant t) (mp_playbackEndsAt p)) @
      [(js ''items'', JArr (mp_identities p))])))"

definition unsigned_manifest ::
  "env \<Rightarrow> screen \<Rightarrow> string option \<Rightarrow> manifest_plan \<Rightarrow> (utext \<times> json) list" where
  "unsigned_manifest e x requestChallengeId p =
     [(js ''protocolVersion'', JNum 2), (js ''mediaDelivery'', jstr ''authorization-v1''),
      (js ''version'', jstr (plan_version e x p)), (js ''generatedAt'', jinstant (now e)),
      (js ''validUntil'', jinstant (mp_validUntil p)), (js ''screenId'', jstr (sc_id x))] @
     (if truthy requestChallengeId then opt_entry ''requestChallengeId'' (map_option jstr requestChallengeId)
      else []) @
     [(js ''priority'', jstr (mp_priority p)), (js ''withdrawn'', JBool (mp_withdrawn p))] @
     opt_entry ''playbackEndsAt'' (map_option (\<lambda>t. jinstant t) (mp_playbackEndsAt p)) @
     [(js ''items'', JArr (mp_items p))]"

text \<open>\<open>signManifest\<close> (\<open>apps/api/src/utils/crypto.ts\<close>).\<close>

definition signManifest :: "server_platform \<Rightarrow> json \<Rightarrow> utext \<Rightarrow> exn + utext" where
  "signManifest sv payload encodedSeed =
     (if length (node_decode encodedSeed) \<noteq> 32
      then Inl (GenericError ''Manifest signing private key must be a 32-byte base64url seed'')
      else Inr (base64url (sv_ed25519 sv (node_decode encodedSeed) (stringify payload))))"

definition device_manifest ::
  "server_platform \<Rightarrow> env \<Rightarrow> api_config \<Rightarrow> string \<Rightarrow> screen \<Rightarrow> string option \<Rightarrow> string option \<Rightarrow> store \<Rightarrow>
    exn + json" where
  "device_manifest sv e cfg origin x requestChallengeId credentialKeyId s =
     (case manifest_plan_for sv e cfg (api_base_url cfg origin) x credentialKeyId s of
        Inl err \<Rightarrow> Inl err
      | Inr p \<Rightarrow>
          let unsigned = unsigned_manifest e x requestChallengeId p in
          (case signManifest sv (JObj unsigned) (cf_manifestSigningPrivateKey cfg) of
             Inl err \<Rightarrow> Inl err
           | Inr signature \<Rightarrow> Inr (JObj (unsigned @
               [(js ''signatureAlgorithm'', jstr ''Ed25519''), (js ''signature'', JStr signature)]))))"

end
