(* ===== verification/Player_Api.thy ===== *)
theory Player_Api
  imports Base64 Complex_Main
begin

text \<open>
  The player's API client (\<open>apps/player/src/core/api.ts\<close>): what it accepts as challenge, pairing
  response, stored recovery record, manifest and heartbeat response; its retries; and the polling
  that waits for an enrollment to be approved.  \<open>fetch\<close> is its result.
\<close>

section \<open>Base64url values\<close>

text \<open>\<open>decodeCanonicalBase64Url\<close> (and \<open>canonicalBase64UrlBytes\<close> of \<open>device.ts\<close>).\<close>

definition canonical_base64url :: "nat \<Rightarrow> nat \<Rightarrow> json \<Rightarrow> nat list option" where
  "canonical_base64url minimumBytes maximumBytes v =
     (case v of
        JStr s \<Rightarrow>
          (case decodeBase64Url s of
             None \<Rightarrow> None
           | Some bs \<Rightarrow>
               if base64url bs \<noteq> s \<or> length bs < minimumBytes \<or> length bs > maximumBytes then None
               else Some bs)
      | _ \<Rightarrow> None)"

definition canonical_within :: "nat \<Rightarrow> nat \<Rightarrow> json \<Rightarrow> bool" where
  "canonical_within lo hi v \<longleftrightarrow> canonical_base64url lo hi v \<noteq> None"

definition validOpaqueId :: "json \<Rightarrow> bool" where
  "validOpaqueId v \<longleftrightarrow> is_text v \<and> 1 \<le> length (to_text v) \<and> length (to_text v) \<le> 64 \<and>
     list_all (\<lambda>u. sextet u \<noteq> None) (to_text v)"

section \<open>Responses\<close>

text \<open>A text that \<open>Date\<close> reads and writes back unchanged.\<close>

definition canonical_date :: "platform \<Rightarrow> json \<Rightarrow> instant option" where
  "canonical_date pf v =
     (if is_text v then
        (case date_parse pf v of
           None \<Rightarrow> None
         | Some t \<Rightarrow> if js (toISOString t) = to_text v then Some t else None)
      else None)"

definition later_date :: "platform \<Rightarrow> instant \<Rightarrow> json \<Rightarrow> bool" where
  "later_date pf t v \<longleftrightarrow> (case canonical_date pf v of None \<Rightarrow> False | Some x \<Rightarrow> \<not> x \<le> t)"

definition truthy_object :: "json \<Rightarrow> bool" where
  "truthy_object v \<longleftrightarrow> js_truthy v \<and> is_object v"

definition only_keys :: "string list \<Rightarrow> json \<Rightarrow> bool" where
  "only_keys ks v \<longleftrightarrow> set (map fst (own_entries v)) \<subseteq> set (map js ks)"

definition validateChallenge :: "platform \<Rightarrow> instant \<Rightarrow> json \<Rightarrow> bool" where
  "validateChallenge pf t response \<longleftrightarrow>
     truthy_object response \<and> later_date pf t (field response ''expiresAt'') \<and>
     canonical_within 32 32 (field response ''id'') \<and>
     canonical_within 16 512 (field response ''challenge'')"

definition secureApiBaseUrl :: "platform \<Rightarrow> json \<Rightarrow> bool" where
  "secureApiBaseUrl pf v \<longleftrightarrow> is_text v \<and>
     (case pf_parse_link pf (to_text v) of
        None \<Rightarrow> False
      | Some l \<Rightarrow>
          (lk_protocol l = js ''https:'' \<or> (lk_protocol l = js ''http:'' \<and>
             lk_hostname l \<in> {js ''localhost'', js ''127.0.0.1'', js ''::1''})) \<and>
          lk_username l = [] \<and> lk_password l = [] \<and> lk_search l = [] \<and> lk_hash l = [])"

definition validatePairingResponse :: "platform \<Rightarrow> utext \<Rightarrow> json \<Rightarrow> bool" where
  "validatePairingResponse pf expectedKeyId response \<longleftrightarrow>
     truthy_object response \<and> field response ''authMode'' = jstr ''proof-v1'' \<and>
     field response ''keyId'' = JStr expectedKeyId \<and> validOpaqueId (field response ''screenId'') \<and>
     validOpaqueId (field response ''credentialId'') \<and>
     secureApiBaseUrl pf (field response ''apiBaseUrl'') \<and>
     integer_within (field response ''heartbeatIntervalSeconds'') 5 86400 \<and>
     only_keys [''authMode'', ''screenId'', ''credentialId'', ''keyId'', ''apiBaseUrl'',
       ''heartbeatIntervalSeconds'', ''manifestVerificationKey''] response \<and>
     canonical_within 32 32 (field response ''manifestVerificationKey'')"

definition validatePendingPairingResponse :: "platform \<Rightarrow> instant \<Rightarrow> utext \<Rightarrow> json \<Rightarrow> bool" where
  "validatePendingPairingResponse pf t expectedKeyId response \<longleftrightarrow>
     truthy_object response \<and> field response ''status'' = jstr ''pending-approval'' \<and>
     validOpaqueId (field response ''grantId'') \<and> validOpaqueId (field response ''candidateId'') \<and>
     field response ''keyId'' = JStr expectedKeyId \<and>
     field response ''fingerprint'' = JStr expectedKeyId \<and>
     later_date pf t (field response ''expiresAt'') \<and>
     only_keys [''status'', ''grantId'', ''candidateId'', ''keyId'', ''fingerprint'', ''expiresAt'',
       ''approval''] response \<and>
     canonical_within 32 32 (field response ''keyId'')"

section \<open>The recovery record\<close>

definition PAIRING_APPROVAL_MAX_WAIT_MS :: int where
  "PAIRING_APPROVAL_MAX_WAIT_MS = 10 * 60000"

definition trim_slashes :: "utext \<Rightarrow> utext" where
  "trim_slashes u = rev (dropWhile (\<lambda>c. c = 47) (rev u))"

definition six_digits :: "json \<Rightarrow> bool" where
  "six_digits v \<longleftrightarrow> is_text v \<and> length (to_text v) = 6 \<and>
     list_all (\<lambda>u. 48 \<le> u \<and> u \<le> 57) (to_text v)"

text \<open>The stored body is canonical JSON and bound to the record's key.\<close>

definition final_body :: "platform \<Rightarrow> json \<Rightarrow> json option" where
  "final_body pf r =
     (case pf_parse_json pf (to_text (field r ''finalBody'')) of
        None \<Rightarrow> None
      | Some body \<Rightarrow>
          let device = field body ''device''; identity = field body ''identity'';
              proof = field body ''pairingProof'' in
          if canonicalJson body \<noteq> Inr (to_text (field r ''finalBody'')) \<or>
            \<not> js_truthy device \<or> \<not> js_truthy identity \<or> \<not> js_truthy proof \<or>
            \<not> six_digits (field body ''code'') \<or>
            field device ''installationId'' \<noteq> field r ''installationId'' \<or>
            field identity ''keyId'' \<noteq> field r ''expectedKeyId'' \<or>
            field proof ''keyId'' \<noteq> field r ''expectedKeyId'' \<or>
            field proof ''signatureFormat'' \<noteq> jstr ''ES256-DER'' \<or>
            \<not> canonical_within 80 128 (field identity ''publicKeySpki'') \<or>
            \<not> canonical_within 32 32 (field proof ''challengeId'') \<or>
            \<not> canonical_within 16 512 (field proof ''challenge'') \<or>
            \<not> canonical_within 64 80 (field proof ''signature'')
          then None else Some body)"

definition recovery_record :: "platform \<Rightarrow> instant \<Rightarrow> utext \<Rightarrow> json \<Rightarrow> bool" where
  "recovery_record pf t expectedApiBaseUrl r \<longleftrightarrow>
     field r ''version'' = JNum 1 \<and> field r ''stage'' \<in> {jstr ''prepared'', jstr ''pending''} \<and>
     secureApiBaseUrl pf (field r ''apiBaseUrl'') \<and>
     trim_slashes (to_text (field r ''apiBaseUrl'')) = trim_slashes expectedApiBaseUrl \<and>
     is_text (field r ''finalBody'') \<and> 1 \<le> length (to_text (field r ''finalBody'')) \<and>
     length (to_text (field r ''finalBody'')) \<le> 16384 \<and>
     is_text (field r ''expectedKeyId'') \<and> field r ''installationId'' = field r ''expectedKeyId'' \<and>
     later_date pf t (field r ''expiresAt'') \<and>
     the (canonical_date pf (field r ''expiresAt'')) \<le> t + PAIRING_APPROVAL_MAX_WAIT_MS \<and>
     only_keys [''version'', ''stage'', ''apiBaseUrl'', ''finalBody'', ''expectedKeyId'',
       ''installationId'', ''expiresAt'', ''approval''] r \<and>
     canonical_within 32 32 (field r ''expectedKeyId'')"

text \<open>A pending record carries a valid approval, a prepared one carries none.\<close>

definition recovery_stage :: "platform \<Rightarrow> instant \<Rightarrow> json \<Rightarrow> bool" where
  "recovery_stage pf t r \<longleftrightarrow>
     (let approval = field r ''approval'' in
      (field r ''stage'' = jstr ''pending'' \<longrightarrow> js_truthy approval) \<and>
      (field r ''stage'' = jstr ''prepared'' \<longrightarrow> approval = JUndefined) \<and>
      (js_truthy approval \<longrightarrow>
        validatePendingPairingResponse pf t (to_text (field r ''expectedKeyId'')) approval))"

definition validatePendingProofPairing :: "platform \<Rightarrow> instant \<Rightarrow> utext \<Rightarrow> json \<Rightarrow> json option" where
  "validatePendingProofPairing pf t expectedApiBaseUrl r =
     (if recovery_record pf t expectedApiBaseUrl r \<and> recovery_stage pf t r then final_body pf r
      else None)"

section \<open>Manifests\<close>

record api_credentials =
  cr_screenId :: utext
  cr_apiBaseUrl :: utext
  cr_manifestVerificationKey :: utext
  cr_proof :: bool \<comment> \<open>the authentication mode is proof-v1\<close>

text \<open>A media URL is the one of its asset under the API's origin and path.\<close>

definition strip_slash :: "utext \<Rightarrow> utext" where
  "strip_slash u = (if u \<noteq> [] \<and> last u = 47 then butlast u else u)"

fun lone_surrogate :: "utext \<Rightarrow> bool" where
  "lone_surrogate [] = False"
| "lone_surrogate [u] = (high_surrogate u \<or> low_surrogate u)"
| "lone_surrogate (u # v # us) =
     (if high_surrogate u \<and> low_surrogate v then lone_surrogate us
      else high_surrogate u \<or> low_surrogate u \<or> lone_surrogate (v # us))"

definition media_bound :: "platform \<Rightarrow> link \<Rightarrow> json \<Rightarrow> bool" where
  "media_bound pf api asset \<longleftrightarrow>
     (case pf_parse_link pf (to_text (field asset ''url'')) of
        None \<Rightarrow> False
      | Some l \<Rightarrow>
          \<not> lone_surrogate (to_text (field asset ''id'')) \<and> lk_origin l = lk_origin api \<and>
          lk_pathname l = strip_slash (lk_pathname api) @ js ''/media/'' @
            encodeURIComponent (to_text (field asset ''id'')) \<and>
          lk_search l = [] \<and> lk_hash l = [])"

definition media_bindings :: "platform \<Rightarrow> link \<Rightarrow> json \<Rightarrow> bool" where
  "media_bindings pf api response \<longleftrightarrow>
     list_all (\<lambda>item. emergency_template (field response ''priority'') (field item ''asset'') \<or>
       media_bound pf api (field item ''asset'')) (elements (field response ''items''))"

definition unsigned_part :: "json \<Rightarrow> json" where
  "unsigned_part response =
     JObj (filter (\<lambda>(k, v). k \<noteq> js ''signature'' \<and> k \<noteq> js ''signatureAlgorithm'')
       (own_entries response))"

text \<open>\<open>manifest()\<close> from the response on; None stands for its errors.\<close>

definition accept_manifest ::
  "platform \<Rightarrow> instant \<Rightarrow> api_credentials \<Rightarrow> utext option \<Rightarrow> json \<Rightarrow> json option" where
  "accept_manifest pf t credentials requestChallengeId response =
     (let unsigned = unsigned_part response; signature = field response ''signature'' in
      if field response ''screenId'' \<noteq> JStr (cr_screenId credentials) \<or>
        field response ''protocolVersion'' \<noteq> JNum 2 \<or>
        field response ''mediaDelivery'' \<noteq> jstr ''authorization-v1'' \<or>
        field response ''signatureAlgorithm'' \<noteq> jstr ''Ed25519'' \<or>
        cr_manifestVerificationKey credentials = [] \<or> \<not> is_text signature \<or>
        \<not> verifyManifestPayloadSignature pf (stringify unsigned) (to_text signature)
          (cr_manifestVerificationKey credentials)
      then None
      else case pf_parse_link pf (cr_apiBaseUrl credentials) of None \<Rightarrow> None
      | Some api \<Rightarrow>
          if \<not> is_array (field response ''items'') \<or> \<not> media_bindings pf api response then None
          else if cr_proof credentials \<and>
            field response ''requestChallengeId'' \<noteq>
              (case requestChallengeId of None \<Rightarrow> JUndefined | Some c \<Rightarrow> JStr c)
          then None
          else (case createSignedPlayerManifest pf t unsigned (to_text signature) of
            Inl _ \<Rightarrow> None | Inr m \<Rightarrow> Some m))"

definition heartbeat_response :: "platform \<Rightarrow> json \<Rightarrow> bool" where
  "heartbeat_response pf response \<longleftrightarrow>
     is_object response \<and> field response ''accepted'' = JBool True \<and>
     canonical_date pf (field response ''serverTime'') \<noteq> None \<and>
     integer_within (field response ''nextHeartbeatSeconds'') 5 86400 \<and>
     only_keys [''accepted'', ''serverTime'', ''nextHeartbeatSeconds''] response"

section \<open>Requests\<close>

datatype failure_kind = Aborted | Timed_out | Network | Http | Protocol

record api_failure =
  af_kind :: failure_kind
  af_retryable :: bool
  af_status :: "int option"
  af_retryAfterMs :: "int option"

definition retryable_statuses :: "int list" where
  "retryable_statuses = [408, 425, 429, 500, 502, 503, 504]"

definition parse_retry_after :: "platform \<Rightarrow> instant \<Rightarrow> utext option \<Rightarrow> int option" where
  "parse_retry_after pf t value =
     (case value of
        None \<Rightarrow> None
      | Some v \<Rightarrow>
          if v = [] then None
          else if list_all (\<lambda>u. 48 \<le> u \<and> u \<le> 57) v then
            (let milliseconds = int (decimal_value v 0) * 1000 in
             if milliseconds > SAFE_INTEGER_LIMIT then None else Some milliseconds)
          else map_option (\<lambda>d. max 0 (d - t)) (pf_parse_date pf v))"

text \<open>What \<open>fetch\<close> and the reading of the body have come to, before the request's own timeout.\<close>

datatype fetch_result =
    Fetched int "utext option" "json option" \<comment> \<open>status, Retry-After, body if it is JSON\<close>
  | Fetch_fails
  | Fetch_times_out
  | Fetch_aborted

definition attempt :: "platform \<Rightarrow> instant \<Rightarrow> fetch_result \<Rightarrow> api_failure + int \<times> json" where
  "attempt pf t r =
     (case r of
        Fetched status retryAfter body \<Rightarrow>
          if \<not> (200 \<le> status \<and> status \<le> 299) then
            Inl \<lparr>af_kind = Http, af_retryable = (status \<in> set retryable_statuses), af_status = Some status,
              af_retryAfterMs = (if status \<in> set retryable_statuses then parse_retry_after pf t retryAfter
                else None)\<rparr>
          else if status = 204 then Inr (status, JUndefined)
          else (case body of
            None \<Rightarrow> Inl \<lparr>af_kind = Protocol, af_retryable = False, af_status = Some status,
              af_retryAfterMs = None\<rparr>
          | Some v \<Rightarrow> Inr (status, v))
      | Fetch_fails \<Rightarrow> Inl \<lparr>af_kind = Network, af_retryable = True, af_status = None, af_retryAfterMs = None\<rparr>
      | Fetch_times_out \<Rightarrow>
          Inl \<lparr>af_kind = Timed_out, af_retryable = True, af_status = None, af_retryAfterMs = None\<rparr>
      | Fetch_aborted \<Rightarrow>
          Inl \<lparr>af_kind = Aborted, af_retryable = False, af_status = None, af_retryAfterMs = None\<rparr>)"

record api_options =
  ao_manifestMaxAttempts :: nat
  ao_retryBaseDelayMs :: int
  ao_retryMaxDelayMs :: int
  ao_pollIntervalMs :: int
  ao_pollMaxWaitMs :: int

definition api_options_valid :: "api_options \<Rightarrow> bool" where
  "api_options_valid opts \<longleftrightarrow>
     \<not> ao_manifestMaxAttempts opts < 1 \<and> \<not> ao_retryBaseDelayMs opts < 0 \<and>
     \<not> ao_retryMaxDelayMs opts < 0 \<and> \<not> ao_pollIntervalMs opts < 1 \<and> \<not> ao_pollMaxWaitMs opts < 1"

definition default_api_options :: api_options where
  "default_api_options = \<lparr>ao_manifestMaxAttempts = 3, ao_retryBaseDelayMs = 500,
     ao_retryMaxDelayMs = 5000, ao_pollIntervalMs = 15000, ao_pollMaxWaitMs = 10 * 60000\<rparr>"

text \<open>\<open>random\<close> is a number from 0 up to 1.\<close>

definition retryDelay :: "api_options \<Rightarrow> rat \<Rightarrow> api_failure \<Rightarrow> nat \<Rightarrow> int" where
  "retryDelay opts random failure failedAttempt =
     (case af_retryAfterMs failure of
        Some ms \<Rightarrow> min ms (ao_retryMaxDelayMs opts)
      | None \<Rightarrow>
          let ceiling = min (ao_retryMaxDelayMs opts)
            (ao_retryBaseDelayMs opts * 2 ^ (failedAttempt - 1)) in
          \<lfloor>rat_of_int ceiling * (1 / 2 + random * (1 / 2))\<rfloor>)"

text \<open>
  The loop of \<open>request\<close> and \<open>withRetries\<close> from an attempt on, over the results of the attempts with
  the random number drawn after each: the pauses and the outcome (None: still waiting for a result).
\<close>

fun with_retries ::
  "api_options \<Rightarrow> nat \<Rightarrow> nat \<Rightarrow> ((api_failure + 'a) \<times> rat) list \<Rightarrow> int list \<times> (api_failure + 'a) option" where
  "with_retries opts maxAttempts n [] = ([], None)"
| "with_retries opts maxAttempts n ((r, random) # rs) =
     (case r of
        Inr v \<Rightarrow> ([], Some (Inr v))
      | Inl failure \<Rightarrow>
          if \<not> af_retryable failure \<or> n \<ge> maxAttempts then ([], Some (Inl failure))
          else (case with_retries opts maxAttempts (n + 1) rs of
            (pauses, out) \<Rightarrow> (retryDelay opts random failure n # pauses, out)))"

section \<open>Waiting for approval\<close>

text \<open>
  One turn of the polling loop of \<open>resumePairing\<close>: the result of the attempt at one instant, and the
  instant after the callback that stores a pending approval.  The request repeated is always the
  stored final body.
\<close>

datatype poll_turn = Poll_again int "json option" | Poll_paired json | Poll_fails

definition polling_deadline :: "platform \<Rightarrow> api_options \<Rightarrow> instant \<Rightarrow> json \<Rightarrow> instant" where
  "polling_deadline pf opts t recovery =
     (if field recovery ''stage'' = jstr ''prepared'' then t + ao_pollMaxWaitMs opts
      else min (the (date_parse pf (field recovery ''expiresAt''))) (t + ao_pollMaxWaitMs opts))"

definition bounded_recovery :: "platform \<Rightarrow> instant \<Rightarrow> json \<Rightarrow> json \<Rightarrow> json" where
  "bounded_recovery pf deadline pending recovery =
     JObj (put_entry ''expiresAt'' (jinstant (min (the (date_parse pf (field pending ''expiresAt'')))
         deadline))
       (put_entry ''approval'' pending (put_entry ''stage'' (jstr ''pending'') (own_entries recovery))))"

definition failed_turn :: "api_options \<Rightarrow> instant \<Rightarrow> instant \<Rightarrow> api_failure \<Rightarrow> poll_turn" where
  "failed_turn opts deadline t failure =
     (if \<not> af_retryable failure \<or> deadline - t \<le> 0 then Poll_fails
      else Poll_again (min (case (af_status failure, af_retryAfterMs failure) of
          (Some status, Some ms) \<Rightarrow> if status = 429 then ms else ao_pollIntervalMs opts
        | _ \<Rightarrow> ao_pollIntervalMs opts) (deadline - t)) None)"

definition poll_step ::
  "platform \<Rightarrow> api_options \<Rightarrow> json \<Rightarrow> instant \<Rightarrow> instant \<Rightarrow> instant \<Rightarrow> api_failure + int \<times> json \<Rightarrow> poll_turn" where
  "poll_step pf opts recovery deadline t t' result =
     (case result of
        Inl failure \<Rightarrow> failed_turn opts deadline t failure
      | Inr (status, response) \<Rightarrow>
          if truthy_object response \<and> field response ''status'' = jstr ''pending-approval'' then
            (if status \<noteq> 202 \<or>
               \<not> validatePendingPairingResponse pf t (to_text (field recovery ''expectedKeyId'')) response
             then Poll_fails
             else let expiresAt = min (the (date_parse pf (field response ''expiresAt''))) deadline in
               if expiresAt - t' \<le> 0 then Poll_fails
               else Poll_again (min (ao_pollIntervalMs opts) (expiresAt - t'))
                 (Some (bounded_recovery pf deadline response recovery)))
          else if status \<noteq> 201 \<or>
            \<not> validatePairingResponse pf (to_text (field recovery ''expectedKeyId'')) response
          then Poll_fails
          else Poll_paired response)"

text \<open>
  The run of the loop over the results of its attempts: an attempt is made no earlier than the
  pause after the one before has passed.  The instants of the attempts made are listed.
\<close>

fun poll_run ::
  "platform \<Rightarrow> api_options \<Rightarrow> json \<Rightarrow> instant \<Rightarrow> instant \<Rightarrow>
    ((api_failure + int \<times> json) \<times> instant \<times> instant) list \<Rightarrow> instant list \<times> poll_turn option" where
  "poll_run pf opts recovery deadline soonest [] = ([], None)"
| "poll_run pf opts recovery deadline soonest ((result, t, t') # rs) =
     (let u = max soonest t; after = max u t' in
      case poll_step pf opts recovery deadline u after result of
        Poll_again pause _ \<Rightarrow>
          (case poll_run pf opts recovery deadline (after + pause) rs of
             (ts, out) \<Rightarrow> (u # ts, out))
      | turn \<Rightarrow> ([u], Some turn))"

end
