(* ===== verification/Scoped.thy ===== *)
theory Scoped
  imports Policy Json
begin

text \<open>
  Scoped authorization (\<open>apps/api/src/authorization/scoped.ts\<close>) and the shadow record of its
  decisions (\<open>shadow.ts\<close>): a capability is allowed when the role holds it and active grants of the
  actor's membership cover every target screen.  Instants are texts here, as in the code, which
  accepts canonical UTC texts only.  The run-time type checks of string fields are those of the
  types; a role or capability that is not a string is None.
\<close>

section \<open>Canonical instants\<close>

definition digit_value :: "char \<Rightarrow> int" where
  "digit_value c = int (of_char c) - 48"

definition is_decimal :: "char \<Rightarrow> bool" where
  "is_decimal c \<longleftrightarrow> 0 \<le> digit_value c \<and> digit_value c \<le> 9"

definition read_digits :: "string \<Rightarrow> int" where
  "read_digits s = foldl (\<lambda>n c. 10 * n + digit_value c) 0 s"

text \<open>The part of a text from position \<open>i\<close> of length \<open>n\<close>.\<close>

definition part :: "nat \<Rightarrow> nat \<Rightarrow> 'a list \<Rightarrow> 'a list" where
  "part i n s = take n (drop i s)"

text \<open>\<open>/^\d{4}-\d{2}-\d{2}T\d{2}:\d{2}:\d{2}\.\d{3}Z$/\<close>\<close>

definition canonicalUtcInstant :: "string \<Rightarrow> bool" where
  "canonicalUtcInstant s \<longleftrightarrow> length s = 24 \<and>
     s ! 4 = CHR ''-'' \<and> s ! 7 = CHR ''-'' \<and> s ! 10 = CHR ''T'' \<and> s ! 13 = CHR '':'' \<and>
     s ! 16 = CHR '':'' \<and> s ! 19 = CHR ''.'' \<and> s ! 23 = CHR ''Z'' \<and>
     list_all is_decimal (part 0 4 s @ part 5 2 s @ part 8 2 s @ part 11 2 s @ part 14 2 s @
       part 17 2 s @ part 20 3 s)"

text \<open>
  \<open>Date.parse\<close> on a text of this form.  A field out of range carries over here, where an engine may
  also answer NaN; either way the code rejects the text, which is not the canonical one.
\<close>

definition parse_canonical :: "string \<Rightarrow> instant" where
  "parse_canonical s =
     (let y = read_digits (part 0 4 s); m = read_digits (part 5 2 s); d = read_digits (part 8 2 s) in
      (day_from_year y + month_start (leap_year y) (m - 1) + d - 1) * ms_per_day +
      read_digits (part 11 2 s) * 3600000 + read_digits (part 14 2 s) * 60000 +
      read_digits (part 17 2 s) * 1000 + read_digits (part 20 3 s))"

definition normalizedInstant :: "string \<Rightarrow> (instant \<times> string) option" where
  "normalizedInstant value =
     (if \<not> canonicalUtcInstant value then None
      else let milliseconds = parse_canonical value; canonical = toISOString milliseconds in
        if canonical = value then Some (milliseconds, canonical) else None)"

section \<open>Inputs\<close>

record scoped_grant =
  gt_id :: string
  gt_organizationId :: string
  gt_subjectUserId :: string
  gt_subjectMembershipId :: string
  gt_capability :: string
  gt_scopeType :: string
  gt_scopeId :: "string option"
  gt_startsAt :: string
  gt_expiresAt :: "string option"
  gt_revokedAt :: "string option"

record scoped_target =
  st_organizationId :: string
  st_screenId :: string
  st_locationId :: "string option"
  st_screenGroupIds :: "string list"

record scoped_input =
  si_organizationId :: string
  si_actorUserId :: string
  si_membershipId :: string
  si_role :: "string option"
  si_authorizationEpoch :: int
  si_capability :: "string option"
  si_evaluatedAt :: string
  si_grants :: "scoped_grant list"
  si_targets :: "scoped_target list"

record normalized_grant =
  ng_id :: string
  ng_subjectMembershipId :: string
  ng_scopeType :: string
  ng_scopeId :: "string option"
  ng_startsAt :: string
  ng_expiresAt :: "string option"

record normalized_target =
  nt_screenId :: string
  nt_locationId :: "string option"
  nt_screenGroupIds :: "string list"

datatype scoped_reason = ALLOWED | INVALID_CONTEXT | UNKNOWN_CAPABILITY | ROLE_CEILING_DENIED
  | TARGETS_REQUIRED | ORGANIZATION_SCOPE_REQUIRED | SCOPE_DENIED

fun scoped_reason_text :: "scoped_reason \<Rightarrow> string" where
  "scoped_reason_text ALLOWED = ''ALLOWED''"
| "scoped_reason_text INVALID_CONTEXT = ''INVALID_CONTEXT''"
| "scoped_reason_text UNKNOWN_CAPABILITY = ''UNKNOWN_CAPABILITY''"
| "scoped_reason_text ROLE_CEILING_DENIED = ''ROLE_CEILING_DENIED''"
| "scoped_reason_text TARGETS_REQUIRED = ''TARGETS_REQUIRED''"
| "scoped_reason_text ORGANIZATION_SCOPE_REQUIRED = ''ORGANIZATION_SCOPE_REQUIRED''"
| "scoped_reason_text SCOPE_DENIED = ''SCOPE_DENIED''"

record scoped_decision =
  sd_allowed :: bool
  sd_reason :: scoped_reason
  sd_matchingGrantIds :: "string list"
  sd_evidenceDigestSha256 :: string

section \<open>Capabilities\<close>

definition all_capabilities :: "capability list" where
  "all_capabilities = [authorizationManage, screenRead, locationRead, mediaRead, playlistRead,
     scheduleRead, releaseCandidateRead, releaseCandidateCreate, releaseCandidateSubmit,
     releaseApprove, releasePublish, releaseWithdraw, screenCredentialRevoke,
     screenCredentialReenroll, emergencyActivate, emergencyClear]"

text \<open>The known capability a string names, and the role.\<close>

definition known_capability :: "string option \<Rightarrow> capability option" where
  "known_capability s = List.find (\<lambda>c. Some (capability_text c) = s) all_capabilities"

definition known_role :: "string option \<Rightarrow> role option" where
  "known_role s = List.find (\<lambda>r. Some (role_text r) = s) [OWNER, ADMIN, PUBLISHER, VIEWER]"

definition TARGET_SCOPED_CAPABILITIES :: "capability list" where
  "TARGET_SCOPED_CAPABILITIES = [screenRead, scheduleRead, releaseCandidateRead,
     releaseCandidateCreate, releaseCandidateSubmit, releaseApprove, releasePublish,
     releaseWithdraw, screenCredentialRevoke, screenCredentialReenroll]"

definition ORGANIZATION_SCOPED_CAPABILITIES :: "capability list" where
  "ORGANIZATION_SCOPED_CAPABILITIES = [locationRead, mediaRead, playlistRead]"

definition known_scope_types :: "string list" where
  "known_scope_types = [''ORGANIZATION'', ''LOCATION'', ''SCREEN_GROUP'', ''SCREEN'']"

section \<open>Evidence\<close>

fun json_option :: "string option \<Rightarrow> json" where
  "json_option None = JNull"
| "json_option (Some s) = jstr s"

definition target_json :: "normalized_target \<Rightarrow> json" where
  "target_json t = JObj [(js ''screenId'', jstr (nt_screenId t)),
     (js ''locationId'', json_option (nt_locationId t)),
     (js ''screenGroupIds'', JArr (map jstr (nt_screenGroupIds t)))]"

definition grant_json :: "normalized_grant \<Rightarrow> json" where
  "grant_json g = JObj [(js ''id'', jstr (ng_id g)),
     (js ''subjectMembershipId'', jstr (ng_subjectMembershipId g)),
     (js ''scopeType'', jstr (ng_scopeType g)), (js ''scopeId'', json_option (ng_scopeId g)),
     (js ''startsAt'', jstr (ng_startsAt g)), (js ''expiresAt'', json_option (ng_expiresAt g))]"

definition EVIDENCE_DOMAIN :: utext where
  "EVIDENCE_DOMAIN = js ''ScreenGoblin scoped authorization evidence v1'' @ [10]"

definition evidenceDigest :: "env \<Rightarrow> json \<Rightarrow> string" where
  "evidenceDigest e value = sha256 e (EVIDENCE_DOMAIN @ stringify value)"

definition by_grant_id :: "env \<Rightarrow> normalized_grant \<Rightarrow> normalized_grant \<Rightarrow> int" where
  "by_grant_id e a b = localeCompare e (ng_id a) (ng_id b)"

definition scoped_evidence ::
  "env \<Rightarrow> scoped_input \<Rightarrow> normalized_target list \<Rightarrow> scoped_reason \<Rightarrow> normalized_grant list \<Rightarrow> json" where
  "scoped_evidence e input targets reason grants = JObj [
     (js ''policyVersion'', JNum 1), (js ''organizationId'', jstr (si_organizationId input)),
     (js ''actorUserId'', jstr (si_actorUserId input)),
     (js ''membershipId'', jstr (si_membershipId input)),
     (js ''role'', json_option (si_role input)),
     (js ''authorizationEpoch'', JNum (si_authorizationEpoch input)),
     (js ''capability'', json_option (si_capability input)),
     (js ''targets'', JArr (map target_json targets)),
     (js ''grants'', JArr (map grant_json (sort_by (by_grant_id e) grants))),
     (js ''result'', jstr (scoped_reason_text reason))]"

definition scoped_decide ::
  "env \<Rightarrow> scoped_input \<Rightarrow> normalized_target list \<Rightarrow> scoped_reason \<Rightarrow> normalized_grant list \<Rightarrow>
    scoped_decision" where
  "scoped_decide e input targets reason grants = \<lparr>
     sd_allowed = (reason = ALLOWED), sd_reason = reason,
     sd_matchingGrantIds = sort (js_unique (map ng_id grants)),
     sd_evidenceDigestSha256 = evidenceDigest e (scoped_evidence e input targets reason grants)\<rparr>"

section \<open>Normalisation\<close>

definition target_valid :: "string \<Rightarrow> scoped_target \<Rightarrow> bool" where
  "target_valid organizationId target \<longleftrightarrow>
     st_organizationId target = organizationId \<and> st_screenId target \<noteq> [] \<and>
     st_locationId target \<noteq> Some [] \<and> [] \<notin> set (st_screenGroupIds target)"

definition normalize_target :: "scoped_target \<Rightarrow> normalized_target" where
  "normalize_target target = \<lparr>nt_screenId = st_screenId target,
     nt_locationId = st_locationId target,
     nt_screenGroupIds = sort (js_unique (st_screenGroupIds target))\<rparr>"

fun normalize_targets_from ::
  "string \<Rightarrow> string list \<Rightarrow> scoped_target list \<Rightarrow> normalized_target list option" where
  "normalize_targets_from organizationId seen [] = Some []"
| "normalize_targets_from organizationId seen (target # targets) =
     (if \<not> target_valid organizationId target \<or> st_screenId target \<in> set seen then None
      else map_option ((#) (normalize_target target))
        (normalize_targets_from organizationId (seen @ [st_screenId target]) targets))"

definition by_screen_id :: "env \<Rightarrow> normalized_target \<Rightarrow> normalized_target \<Rightarrow> int" where
  "by_screen_id e a b = localeCompare e (nt_screenId a) (nt_screenId b)"

definition normalizeTargets ::
  "env \<Rightarrow> string \<Rightarrow> scoped_target list \<Rightarrow> normalized_target list option" where
  "normalizeTargets e organizationId targets =
     map_option (sort_by (by_screen_id e)) (normalize_targets_from organizationId [] targets)"

definition scope_id_valid :: "scoped_grant \<Rightarrow> bool" where
  "scope_id_valid grant \<longleftrightarrow>
     (if gt_scopeType grant = ''ORGANIZATION'' then gt_scopeId grant = None
      else gt_scopeId grant \<noteq> None \<and> gt_scopeId grant \<noteq> Some [])"

definition activeGrant :: "scoped_grant \<Rightarrow> scoped_input \<Rightarrow> instant \<Rightarrow> normalized_grant option" where
  "activeGrant grant input at =
     (if gt_id grant = [] \<or> gt_subjectMembershipId grant = [] \<or>
        gt_organizationId grant \<noteq> si_organizationId input \<or>
        gt_subjectUserId grant \<noteq> si_actorUserId input \<or>
        gt_subjectMembershipId grant \<noteq> si_membershipId input \<or>
        Some (gt_capability grant) \<noteq> si_capability input \<or>
        gt_scopeType grant \<notin> set known_scope_types \<or> gt_revokedAt grant \<noteq> None
      then None
      else case normalizedInstant (gt_startsAt grant) of None \<Rightarrow> None
      | Some (starts, startsAt) \<Rightarrow>
      if starts > at then None
      else case (case gt_expiresAt grant of None \<Rightarrow> Some None
          | Some x \<Rightarrow> map_option Some (normalizedInstant x)) of None \<Rightarrow> None
      | Some expiry \<Rightarrow>
      if (case expiry of None \<Rightarrow> False | Some (expires, _) \<Rightarrow> expires \<le> at) then None
      else if \<not> scope_id_valid grant then None
      else Some \<lparr>ng_id = gt_id grant, ng_subjectMembershipId = gt_subjectMembershipId grant,
        ng_scopeType = gt_scopeType grant, ng_scopeId = gt_scopeId grant,
        ng_startsAt = startsAt, ng_expiresAt = map_option snd expiry\<rparr>)"

definition coversTarget :: "normalized_grant \<Rightarrow> normalized_target \<Rightarrow> bool" where
  "coversTarget grant target =
     (if ng_scopeType grant = ''ORGANIZATION'' then True
      else if ng_scopeType grant = ''LOCATION''
      then nt_locationId target \<noteq> None \<and> nt_locationId target = ng_scopeId grant
      else if ng_scopeType grant = ''SCREEN_GROUP''
      then or_default (ng_scopeId grant) [] \<in> set (nt_screenGroupIds target)
      else if ng_scopeType grant = ''SCREEN'' then Some (nt_screenId target) = ng_scopeId grant
      else False)"

section \<open>Evaluation\<close>

fun select_grants ::
  "normalized_grant list \<Rightarrow> normalized_target list \<Rightarrow> normalized_grant list option" where
  "select_grants active [] = Some []"
| "select_grants active (target # targets) =
     (case List.find (\<lambda>g. coversTarget g target) active of None \<Rightarrow> None
      | Some grant \<Rightarrow> map_option ((#) grant) (select_grants active targets))"

definition active_grants :: "env \<Rightarrow> scoped_input \<Rightarrow> instant \<Rightarrow> normalized_grant list" where
  "active_grants e input at =
     sort_by (by_grant_id e) (List.map_filter (\<lambda>g. activeGrant g input at) (si_grants input))"

definition context_valid :: "scoped_input \<Rightarrow> bool" where
  "context_valid input \<longleftrightarrow> si_organizationId input \<noteq> [] \<and> si_actorUserId input \<noteq> [] \<and>
     si_membershipId input \<noteq> [] \<and> 0 \<le> si_authorizationEpoch input \<and>
     si_authorizationEpoch input \<le> 2 ^ 53 - 1"

definition evaluateScopedAuthorization :: "env \<Rightarrow> scoped_input \<Rightarrow> scoped_decision" where
  "evaluateScopedAuthorization e input =
     (case (normalizedInstant (si_evaluatedAt input),
            normalizeTargets e (si_organizationId input) (si_targets input)) of
        (Some (at, _), Some targets) \<Rightarrow>
          if \<not> context_valid input then scoped_decide e input targets INVALID_CONTEXT []
          else (case known_capability (si_capability input) of
            None \<Rightarrow> scoped_decide e input targets UNKNOWN_CAPABILITY []
          | Some capability \<Rightarrow>
              if \<not> hasCapability (known_role (si_role input)) capability
              then scoped_decide e input targets ROLE_CEILING_DENIED []
              else let active = active_grants e input at in
              if length (js_unique (map ng_id active)) \<noteq> length active
              then scoped_decide e input targets INVALID_CONTEXT []
              else if capability = authorizationManage
              then scoped_decide e input targets SCOPE_DENIED []
              else if capability \<in> set ORGANIZATION_SCOPED_CAPABILITIES
              then (if targets \<noteq> [] then scoped_decide e input targets ORGANIZATION_SCOPE_REQUIRED []
                else case List.find (\<lambda>g. ng_scopeType g = ''ORGANIZATION'') active of
                  Some grant \<Rightarrow> scoped_decide e input targets ALLOWED [grant]
                | None \<Rightarrow> scoped_decide e input targets SCOPE_DENIED [])
              else if capability \<notin> set TARGET_SCOPED_CAPABILITIES
              then scoped_decide e input targets ROLE_CEILING_DENIED []
              else if targets = [] then scoped_decide e input targets TARGETS_REQUIRED []
              else case select_grants active targets of
                  None \<Rightarrow> scoped_decide e input targets SCOPE_DENIED []
                | Some selected \<Rightarrow> scoped_decide e input targets ALLOWED selected)
      | (_, Some targets) \<Rightarrow> scoped_decide e input targets INVALID_CONTEXT []
      | (_, None) \<Rightarrow> scoped_decide e input [] INVALID_CONTEXT [])"

section \<open>Shadow records\<close>


text \<open>The metadata recorded for an evaluated decision next to the allowed role decision.\<close>

definition evaluatedAuthorizationShadow :: "scoped_decision \<Rightarrow> nat \<Rightarrow> json" where
  "evaluatedAuthorizationShadow d targetCount = JObj [
     (js ''schemaVersion'', JNum 1), (js ''policyVersion'', JNum 1), (js ''status'', jstr ''EVALUATED''),
     (js ''baseline'', jstr ''LEGACY_ROLE''), (js ''legacyAllowed'', JBool True),
     (js ''scopedAllowed'', JBool (sd_allowed d)),
     (js ''mismatchKind'', jstr (if sd_allowed d then ''NONE'' else ''LEGACY_ALLOW_SCOPED_DENY'')),
     (js ''reason'', jstr (scoped_reason_text (sd_reason d))),
     (js ''evidenceDigestSha256'', jstr (sd_evidenceDigestSha256 d)),
     (js ''targetCount'', JNum (int targetCount))]"

section \<open>Instants and their texts\<close>

lemma digit_value_char:
  assumes "0 \<le> n" "n < 10"
  shows "digit_value (char_of (48 + nat n)) = n"
proof -
  have "of_char (char_of (48 + nat n) :: char) = 48 + nat n"
    using assms by (simp add: of_char_of)
  then show ?thesis using assms by (simp add: digit_value_def)
qed

lemma read_digits_snoc: "read_digits (s @ [c]) = 10 * read_digits s + digit_value c"
  by (simp add: read_digits_def)

lemma read_digits_pad: "0 \<le> n \<Longrightarrow> n < 10 ^ k \<Longrightarrow> read_digits (pad k n) = n"
proof (induction k arbitrary: n)
  case 0
  then show ?case by (simp add: read_digits_def)
next
  case (Suc k)
  then have "0 \<le> n div 10" "n div 10 < 10 ^ k" by auto
  from Suc.IH [OF this] show ?case by (simp add: read_digits_snoc digit_value_char)
qed

lemma decimal_pad: "list_all is_decimal (pad k n)"
proof (induction k arbitrary: n)
  case (Suc k)
  have "0 \<le> n mod 10" "n mod 10 < 10" by simp_all
  with Suc show ?case by (simp add: is_decimal_def digit_value_char)
qed simp

lemma part_append:
  "length xs = i \<Longrightarrow> part (i + j) n (xs @ ys) = part j n ys"
  "length xs = n \<Longrightarrow> part 0 n (xs @ ys) = xs"
  by (simp_all add: part_def)

text \<open>A canonical text by its fields.\<close>

lemma canonical_text:
  assumes s: "s = pad 4 y @ ''-'' @ pad 2 m @ ''-'' @ pad 2 d @ ''T'' @ pad 2 h @ '':'' @ pad 2 mi
    @ '':'' @ pad 2 sec @ ''.'' @ pad 3 ms @ ''Z''"
  shows "part 0 4 s = pad 4 y" "part 5 2 s = pad 2 m" "part 8 2 s = pad 2 d"
    "part 11 2 s = pad 2 h" "part 14 2 s = pad 2 mi" "part 17 2 s = pad 2 sec"
    "part 20 3 s = pad 3 ms" "canonicalUtcInstant s"
proof -
  show p: "part 0 4 s = pad 4 y" "part 5 2 s = pad 2 m" "part 8 2 s = pad 2 d"
    "part 11 2 s = pad 2 h" "part 14 2 s = pad 2 mi" "part 17 2 s = pad 2 sec"
    "part 20 3 s = pad 3 ms"
    by (simp_all add: s part_def del: pad.simps)
  have "length s = 24" "s ! 4 = CHR ''-''" "s ! 7 = CHR ''-''" "s ! 10 = CHR ''T''"
    "s ! 13 = CHR '':''" "s ! 16 = CHR '':''" "s ! 19 = CHR ''.''" "s ! 23 = CHR ''Z''"
    by (simp_all add: s nth_append del: pad.simps)
  then show "canonicalUtcInstant s"
    by (simp add: canonicalUtcInstant_def p decimal_pad del: pad.simps)
qed

lemma parse_toISOString:
  assumes "four_digit_year t"
  shows "canonicalUtcInstant (toISOString t)" "parse_canonical (toISOString t) = t"
proof -
  obtain y m d where c: "civil_from_day (t div ms_per_day) = (y, m, d)"
    by (cases "civil_from_day (t div ms_per_day)") auto
  define r where "r = t mod ms_per_day"
  note f = civil_from_day_fields [OF c]
  have y: "0 \<le> y" "y \<le> 9999" using assms f(5) by (simp_all add: four_digit_year_def)
  have s: "toISOString t = pad 4 y @ ''-'' @ pad 2 m @ ''-'' @ pad 2 d @ ''T'' @
      pad 2 (r div 3600000) @ '':'' @ pad 2 (r mod 3600000 div 60000) @ '':'' @
      pad 2 (r mod 60000 div 1000) @ ''.'' @ pad 3 (r mod 1000) @ ''Z''"
    using y by (simp add: toISOString_def iso_date_def iso_time_def c r_def del: pad.simps)
  note parts = canonical_text [OF s]
  show "canonicalUtcInstant (toISOString t)" by (rule parts(8))
  have r: "0 \<le> r" "r < 86400000" by (simp_all add: r_def ms_per_day_def)
  have b: "0 \<le> r div 3600000" "r div 3600000 < 10 ^ 2"
    "0 \<le> r mod 3600000 div 60000" "r mod 3600000 div 60000 < 10 ^ 2"
    "0 \<le> r mod 60000 div 1000" "r mod 60000 div 1000 < 10 ^ 2" "0 \<le> r mod 1000" "r mod 1000 < 10 ^ 3"
    using r by (auto simp: pos_imp_zdiv_nonneg_iff)
  have "r mod 3600000 mod 60000 = r mod 60000" "r mod 60000 mod 1000 = r mod 1000"
    by (simp_all add: mod_mod_cancel)
  then have sum: "r div 3600000 * 3600000 + r mod 3600000 div 60000 * 60000 + r mod 60000 div 1000 * 1000
      + r mod 1000 = r"
    using div_mult_mod_eq [of r 3600000] div_mult_mod_eq [of "r mod 3600000" 60000]
      div_mult_mod_eq [of "r mod 60000" 1000] by linarith
  have dates: "y < 10 ^ 4" "0 \<le> m" "m < 10 ^ 2" "0 \<le> d" "d < 10 ^ 2" using y f(1-4) by simp_all
  have rd: "read_digits (pad 4 y) = y" "read_digits (pad 2 m) = m" "read_digits (pad 2 d) = d"
    "read_digits (pad 2 (r div 3600000)) = r div 3600000"
    "read_digits (pad 2 (r mod 3600000 div 60000)) = r mod 3600000 div 60000"
    "read_digits (pad 2 (r mod 60000 div 1000)) = r mod 60000 div 1000"
    "read_digits (pad 3 (r mod 1000)) = r mod 1000"
    by (rule read_digits_pad [OF y(1) dates(1)] read_digits_pad [OF dates(2,3)]
        read_digits_pad [OF dates(4,5)] read_digits_pad [OF b(1,2)] read_digits_pad [OF b(3,4)]
        read_digits_pad [OF b(5,6)] read_digits_pad [OF b(7,8)])+
  have "parse_canonical (toISOString t) = t div ms_per_day * ms_per_day + r div 3600000 * 3600000
      + r mod 3600000 div 60000 * 60000 + r mod 60000 div 1000 * 1000 + r mod 1000"
    unfolding parse_canonical_def parts Let_def rd f(6) [symmetric] ..
  moreover have "t div ms_per_day * ms_per_day + r = t" by (simp add: r_def)
  ultimately show "parse_canonical (toISOString t) = t" using sum by linarith
qed

lemma normalizedInstant_canonical: "normalizedInstant s = Some (t, c) \<Longrightarrow> c = s \<and> toISOString t = s"
  by (auto simp: normalizedInstant_def Let_def split: if_splits)

section \<open>Targets and grants\<close>

lemma normalize_targets_from_eq:
  "normalize_targets_from org seen ts =
    (if (\<forall>t \<in> set ts. target_valid org t) \<and> distinct (map st_screenId ts) \<and>
       set seen \<inter> set (map st_screenId ts) = {}
     then Some (map normalize_target ts) else None)"
  by (induction ts arbitrary: seen) auto

lemma select_grants_Some:
  "(\<exists>gs. select_grants active ts = Some gs) \<longleftrightarrow> (\<forall>t \<in> set ts. \<exists>g \<in> set active. coversTarget g t)"
proof (induction ts)
  case (Cons t ts)
  show ?case
  proof (cases "List.find (\<lambda>g. coversTarget g t) active")
    case None
    then have "\<not> (\<exists>g \<in> set active. coversTarget g t)" by (simp add: find_None_all)
    with None show ?thesis by simp
  next
    case (Some g)
    then have "\<exists>g \<in> set active. coversTarget g t" by (auto dest: find_SomeD)
    with Some Cons show ?thesis by auto
  qed
qed simp

text \<open>The grants that apply to a request at an instant, and the targets they cover.\<close>

definition grant_applies :: "scoped_input \<Rightarrow> instant \<Rightarrow> scoped_grant \<Rightarrow> bool" where
  "grant_applies input at g \<longleftrightarrow>
     gt_id g \<noteq> [] \<and> gt_organizationId g = si_organizationId input \<and>
     gt_subjectUserId g = si_actorUserId input \<and> gt_subjectMembershipId g = si_membershipId input \<and>
     gt_subjectMembershipId g \<noteq> [] \<and> Some (gt_capability g) = si_capability input \<and>
     gt_scopeType g \<in> set known_scope_types \<and> scope_id_valid g \<and> gt_revokedAt g = None \<and>
     (\<exists>starts. normalizedInstant (gt_startsAt g) = Some (starts, gt_startsAt g) \<and> starts \<le> at) \<and>
     (\<forall>x. gt_expiresAt g = Some x \<longrightarrow> (\<exists>expires. normalizedInstant x = Some (expires, x) \<and> at < expires))"

definition grant_covers :: "scoped_grant \<Rightarrow> scoped_target \<Rightarrow> bool" where
  "grant_covers g target \<longleftrightarrow>
     gt_scopeType g = ''ORGANIZATION'' \<or>
     (gt_scopeType g = ''LOCATION'' \<and> st_locationId target = gt_scopeId g) \<or>
     (gt_scopeType g = ''SCREEN_GROUP'' \<and> (\<exists>i \<in> set (st_screenGroupIds target). gt_scopeId g = Some i)) \<or>
     (gt_scopeType g = ''SCREEN'' \<and> gt_scopeId g = Some (st_screenId target))"

definition normalize_grant :: "scoped_grant \<Rightarrow> normalized_grant" where
  "normalize_grant g = \<lparr>ng_id = gt_id g, ng_subjectMembershipId = gt_subjectMembershipId g,
     ng_scopeType = gt_scopeType g, ng_scopeId = gt_scopeId g, ng_startsAt = gt_startsAt g,
     ng_expiresAt = gt_expiresAt g\<rparr>"

lemma activeGrant_eq:
  "activeGrant g input at = (if grant_applies input at g then Some (normalize_grant g) else None)"
  by (auto simp: activeGrant_def grant_applies_def normalize_grant_def
      dest!: normalizedInstant_canonical split: option.splits)

lemma covers_normalized:
  assumes "scope_id_valid g" "gt_scopeType g \<in> set known_scope_types"
  shows "coversTarget (normalize_grant g) (normalize_target t) \<longleftrightarrow> grant_covers g t"
  using assms
  by (cases "gt_scopeId g")
    (auto simp: coversTarget_def normalize_grant_def normalize_target_def grant_covers_def
      scope_id_valid_def known_scope_types_def split: if_splits)

lemma set_active_grants:
  "set (active_grants e input at) = normalize_grant ` {g \<in> set (si_grants input). grant_applies input at g}"
  by (auto simp: active_grants_def activeGrant_eq List.map_filter_def)

end
