(* ===== verification/End_To_End.thy ===== *)
theory End_To_End
  imports Device_Manifest Player_Api Scoped Release_Governance
begin

text \<open>
  The API and the player together: the manifest the API builds is one the player accepts.  What is
  assumed of the platforms is documented behaviour: a signature verifies under the key of its
  seed, \<open>Date.parse\<close> reads what \<open>toISOString\<close> writes, and the URL parser appends path segments.
\<close>

section \<open>Agreement of the platforms\<close>

definition reads_instants :: "platform \<Rightarrow> bool" where
  "reads_instants pf \<longleftrightarrow> (\<forall>t. four_digit_year t \<longrightarrow> pf_parse_date pf (js (toISOString t)) = Some t)"

definition trusts_signer :: "server_platform \<Rightarrow> platform \<Rightarrow> utext \<Rightarrow> utext \<Rightarrow> bool" where
  "trusts_signer sv pf seed key \<longleftrightarrow>
     (\<exists>public. decodeBase64Url key = Some public \<and> length public = 32 \<and>
       (\<forall>text. let signature = sv_ed25519 sv (node_decode seed) text in
          length signature = 64 \<and> (\<forall>b \<in> set signature. b < 256) \<and>
          pf_ed25519 pf public signature text))"

text \<open>An identifier as the routes accept them: \<open>/^[A-Za-z0-9_-]{1,64}$/\<close>.\<close>

definition opaque_id :: "string \<Rightarrow> bool" where
  "opaque_id s \<longleftrightarrow> 1 \<le> length s \<and> length s \<le> 64 \<and> list_all (\<lambda>u. sextet u \<noteq> None) (js s)"

definition https_link :: "link \<Rightarrow> bool" where
  "https_link l \<longleftrightarrow> lk_protocol l = js ''https:'' \<and> lk_username l = [] \<and> lk_password l = [] \<and>
     lk_search l = [] \<and> lk_hash l = []"

definition links_below :: "platform \<Rightarrow> string \<Rightarrow> bool" where
  "links_below pf base \<longleftrightarrow>
     (\<exists>api. pf_parse_link pf (js base) = Some api \<and>
       (\<forall>i. opaque_id i \<longrightarrow> (\<exists>l. pf_parse_link pf (media_url base i) = Some l \<and> https_link l \<and>
          lk_origin l = lk_origin api \<and>
          lk_pathname l = strip_slash (lk_pathname api) @ js ''/media/'' @ encodeURIComponent (js i))))"

section \<open>Releases and emergencies that can be shown\<close>

definition showable_item :: "frozen_item \<Rightarrow> bool" where
  "showable_item i \<longleftrightarrow>
     opaque_id (fa_id (fi_asset i)) \<and> 1 \<le> fi_durationSeconds i \<and> fi_durationSeconds i \<le> 86400 \<and>
     (case fa_storageKey (fi_asset i) of None \<Rightarrow> True
      | Some k \<Rightarrow> plain_text (js k) \<and> length k \<le> 700) \<and>
     (case fa_expiresAt (fi_asset i) of None \<Rightarrow> True | Some t \<Rightarrow> four_digit_year t)"

definition showable_release :: "release \<Rightarrow> bool" where
  "showable_release r \<longleftrightarrow> length (rl_items r) \<le> MAX_ITEMS \<and> list_all showable_item (rl_items r) \<and>
     distinct (map (\<lambda>i. fa_id (fi_asset i)) (rl_items r))"

section \<open>Texts\<close>

lemma sextet_plain: "sextet u \<noteq> None \<Longrightarrow> 45 \<le> u \<and> u < 123 \<and> u \<noteq> 92"
  by (auto simp: sextet_def split: if_splits)

lemma opaque_plain: "opaque_id s \<Longrightarrow> plain_text (js s)"
  unfolding opaque_id_def plain_text_def list_all_iff using sextet_plain by fastforce

lemma js_units: "u \<in> set (js s) \<Longrightarrow> u < 256"
  by (auto simp: js_def)

lemma lone_surrogate_small: "list_all (\<lambda>u. u < 256) us \<Longrightarrow> \<not> lone_surrogate us"
  by (induction us rule: lone_surrogate.induct) (auto simp: high_surrogate_def low_surrogate_def)

lemma lone_surrogate_js [simp]: "\<not> lone_surrogate (js s)"
  by (intro lone_surrogate_small) (auto simp: list_all_iff dest: js_units)

lemma hex_plain: "is_sha256_hex_any_case s \<Longrightarrow> plain_text (js s) \<and> length s = 64 \<and> hex_checksum (js s)"
  by (auto simp: is_sha256_hex_any_case_def hex_checksum_def plain_text_def list_all_iff js_def
      is_any_hex_def is_lower_hex_def is_digit_def)

section \<open>Items on the player\<close>

text \<open>The item the player keeps of an item of the wire.\<close>

definition shown_item :: "frozen_item \<Rightarrow> (utext \<times> json) list \<Rightarrow> json" where
  "shown_item i delivery = JObj (put_entry ''durationSeconds'' (JNum (fi_durationSeconds i))
     (asset_head (fi_asset i) @ delivery @ asset_tail (fi_asset i)))"

definition delivery_entries :: "utext \<Rightarrow> utext \<Rightarrow> (utext \<times> json) list" where
  "delivery_entries url capability =
     [(js ''url'', JStr url), (js ''mediaDelivery'', jstr ''authorization-v1''),
      (js ''mediaCapability'', JStr capability)]"

lemma wire_item_fields:
  "field (wire_item i d) ''asset'' = JObj (asset_head (fi_asset i) @ d @ asset_tail (fi_asset i))"
  "field (wire_item i d) ''durationSeconds'' = JNum (fi_durationSeconds i)"
  by (simp_all add: wire_item_def field_JObj)

lemma normalize_wire_item: "normalize_item (wire_item i d) = Inr (shown_item i d)"
proof -
  have "wire_item i d \<noteq> JUndefined" "is_object (wire_item i d)" "js_truthy (wire_item i d)"
    by (simp_all add: wire_item_def)
  then show ?thesis
    by (simp add: normalize_item_def wire_item_fields shown_item_def own_entries_def)
qed

lemma shown_item_fields:
  "field (shown_item i (delivery_entries u c)) ''id'' = jstr (fa_id (fi_asset i))"
  "field (shown_item i (delivery_entries u c)) ''kind'' = jstr (media_kind_text (fa_kind (fi_asset i)))"
  "field (shown_item i (delivery_entries u c)) ''mimeType'' = jstr (fa_mimeType (fi_asset i))"
  "field (shown_item i (delivery_entries u c)) ''url'' = JStr u"
  "field (shown_item i (delivery_entries u c)) ''mediaDelivery'' = jstr ''authorization-v1''"
  "field (shown_item i (delivery_entries u c)) ''mediaCapability'' = JStr c"
  "field (shown_item i (delivery_entries u c)) ''checksumSha256'' = jstr (fa_checksumSha256 (fi_asset i))"
  "field (shown_item i (delivery_entries u c)) ''sizeBytes'' = JNum (fa_sizeBytes (fi_asset i))"
  "field (shown_item i (delivery_entries u c)) ''durationSeconds'' = JNum (fi_durationSeconds i)"
  "field (shown_item i (delivery_entries u c)) ''expiresAt'' =
     (case fa_expiresAt (fi_asset i) of None \<Rightarrow> JUndefined | Some t \<Rightarrow> jinstant t)"
  by (simp_all add: shown_item_def put_entry_def asset_head_def asset_tail_def delivery_entries_def
      opt_entry_def field_JObj split: option.split)

lemma shown_item_object: "is_object (shown_item i d)" "js_truthy (shown_item i d)"
  by (simp_all add: shown_item_def)

lemma supported_kind:
  assumes "isSupportedMedia k m" "field item ''mimeType'' = jstr m"
  shows "\<not> emergency_template p item"
    and "field item ''kind'' = jstr (media_kind_text k) \<Longrightarrow> isAllowedKindAndMime item p"
  using assms
  by (cases k; auto simp: isSupportedMedia_def emergency_template_def isAllowedKindAndMime_def)+

lemma shown_item_valid:
  assumes "current_protocol manifest" "asset_supported (policy_of_frozen (fi_asset i))"
    and "pf_parse_link pf u = Some l" "https_link l" "MEDIA_CAPABILITY c" "showable_item i"
  shows "item_valid pf manifest (shown_item i (delivery_entries u c))"
proof -
  let ?item = "shown_item i (delivery_entries u c)"
  have k: "isSupportedMedia (fa_kind (fi_asset i)) (fa_mimeType (fi_asset i))"
    and size: "1 \<le> fa_sizeBytes (fi_asset i)" "fa_sizeBytes (fi_asset i) \<le> MEDIA_MAX_ASSET_BYTES"
    using assms(2) by (simp_all add: asset_supported_def policy_of_frozen_def)
  have "\<not> emergency_template p ?item" for p
    using supported_kind(1) [OF k shown_item_fields(3)] .
  moreover have "isAllowedKindAndMime ?item p" for p
    using supported_kind(2) [OF k shown_item_fields(3) shown_item_fields(2)] .
  moreover have "isAllowedAssetUrl pf u e legacy" for e legacy
    using assms(3,4) by (simp add: isAllowedAssetUrl_def https_link_def)
  ultimately show ?thesis
    using assms(1,5,6) size
    by (simp add: item_valid_def shown_item_fields Let_def integer_within_def showable_item_def
        MEDIA_MAX_ASSET_BYTES_def MAX_ASSET_BYTES_def SAFE_INTEGER_LIMIT_def)
qed

lemma shown_expiry:
  assumes "reads_instants pf" "showable_item i" "\<not> asset_expired (policy_of_frozen (fi_asset i)) g"
  shows "expiry_valid pf g (field (shown_item i (delivery_entries u c)) ''expiresAt'')"
  using assms
  by (auto simp: expiry_valid_def shown_item_fields date_parse_def reads_instants_def showable_item_def
      asset_expired_def policy_of_frozen_def split: option.splits)

text \<open>The loop over the items accepts a release the API found playable.\<close>

lemma shown_items_accepted:
  assumes "current_protocol manifest" "reads_instants pf"
    and "\<forall>i \<in> set is. showable_item i \<and> asset_supported (policy_of_frozen (fi_asset i)) \<and>
      \<not> asset_expired (policy_of_frozen (fi_asset i)) g \<and> MEDIA_CAPABILITY (c i) \<and>
      (\<exists>l. pf_parse_link pf (u i) = Some l \<and> https_link l)"
    and "distinct (map (\<lambda>i. fa_id (fi_asset i)) is)"
    and "\<forall>j \<in> set ids. \<forall>i \<in> set is. j \<noteq> jstr (fa_id (fi_asset i))"
    and "b + sum_list (map po_sizeBytes (map (\<lambda>i. policy_of_frozen (fi_asset i)) is)) \<le> MEDIA_MAX_RELEASE_BYTES"
  shows "assert_items pf manifest g ids b (map (\<lambda>i. shown_item i (delivery_entries (u i) (c i))) is) = None"
  using assms(3-6)
proof (induction "is" arbitrary: ids b)
  case Nil
  then show ?case by simp
next
  case (Cons i "is")
  let ?item = "shown_item i (delivery_entries (u i) (c i))"
  from Cons.prems(1) obtain l where i: "showable_item i" "asset_supported (policy_of_frozen (fi_asset i))"
      "\<not> asset_expired (policy_of_frozen (fi_asset i)) g" "MEDIA_CAPABILITY (c i)"
      "pf_parse_link pf (u i) = Some l" "https_link l"
    by auto
  have "0 \<le> sum_list (map po_sizeBytes (map (\<lambda>i. policy_of_frozen (fi_asset i)) is))"
    using Cons.prems(1) by (intro sum_list_nonneg) (auto simp: asset_supported_def)
  then have size: "b + fa_sizeBytes (fi_asset i) \<le> MAX_RELEASE_BYTES"
    using Cons.prems(4)
    by (simp add: policy_of_frozen_def MAX_RELEASE_BYTES_def MEDIA_MAX_RELEASE_BYTES_def)
  have "fa_id (fi_asset i) \<noteq> []" using i(1) by (auto simp: showable_item_def opaque_id_def)
  then have "js_truthy (field ?item ''id'')" by (simp add: shown_item_fields js_def)
  moreover have "\<not> (\<exists>j \<in> set ids. strict_eq j (field ?item ''id''))"
    using Cons.prems(3) by (auto simp: strict_eq_def shown_item_fields)
  moreover have "hex_checksum (to_text (field ?item ''checksumSha256''))"
    using i(2) hex_plain by (simp add: asset_supported_def policy_of_frozen_def shown_item_fields)
  moreover have "assert_items pf manifest g (ids @ [jstr (fa_id (fi_asset i))])
      (b + fa_sizeBytes (fi_asset i))
      (map (\<lambda>i. shown_item i (delivery_entries (u i) (c i))) is) = None"
    using Cons.prems by (intro Cons.IH) (auto simp: policy_of_frozen_def add.assoc)
  ultimately show ?case
    using shown_item_valid [OF assms(1) i(2,5,6,4,1)] shown_expiry [OF assms(2) i(1,3)] size
      shown_item_object [of i "delivery_entries (u i) (c i)"]
    by (simp add: Let_def shown_item_fields(1,8))
qed

section \<open>Capabilities\<close>

lemma plain_pad: "plain_text (js (pad k n))"
proof (induction k arbitrary: n)
  case (Suc k)
  have "0 \<le> n mod 10" "n mod 10 < 10" by simp_all
  then have "nat (n mod 10) < 10" by linarith
  then have "plain_text (js [char_of (48 + nat (n mod 10))])"
    by (simp add: plain_text_def js_def)
  with Suc show ?case by (simp add: js_append)
qed (simp add: plain_text_def js_def)

lemma plain_instant: "plain_text (js (toISOString t))" "length (toISOString t) \<le> 27"
proof -
  have c: "js (c # s) = js [c] @ js s" for c s by (simp add: js_def)
  have l: "plain_text (js [c])" if "c \<in> set ''-+:T.Z''" for c
    using that by (auto simp: plain_text_def js_def)
  show "plain_text (js (toISOString t))"
    unfolding toISOString_def iso_date_def iso_time_def
    by (simp add: js_append c [of _ "pad _ _"] c [of _ "pad _ _ @ _"] c [of _ "_ # _"] plain_pad l split: prod.split del: pad.simps)
  show "length (toISOString t) \<le> 27"
    by (simp add: toISOString_def iso_date_def iso_time_def split: prod.split del: pad.simps)
qed

lemma plain_mime: "isSupportedMedia k m \<Longrightarrow> plain_text (js m) \<and> length m \<le> 16"
  by (cases k) (auto simp: isSupportedMedia_def plain_text_def js_def)

lemma safe_segment_plain: "safe_segment s \<Longrightarrow> plain_text (js s) \<and> length s \<le> 256"
  by (auto simp: safe_segment_def plain_text_def js_def list_all_iff is_digit_def is_lower_def is_upper_def)

lemma storage_key_plain:
  assumes "mediaStorageKey org i c = Inr k"
  shows "plain_text (js k) \<and> length k \<le> 700"
proof -
  from assms have s: "safe_segment org" "safe_segment i" "is_sha256_hex c"
    and k: "k = ''organizations/'' @ org @ ''/assets/'' @ i @ ''/'' @ c"
    by (auto simp: mediaStorageKey_def split: if_splits)
  have l: "plain_text (js ''organizations/'')" "plain_text (js ''/assets/'')" "plain_text (js ''/'')"
    by (simp_all add: plain_text_def js_def)
  have c: "plain_text (js c)" "length c = 64"
    using s(3) by (auto simp: is_sha256_hex_def plain_text_def list_all_iff js_def is_lower_hex_def
        is_digit_def)
  have "plain_text (js k)"
    using safe_segment_plain [OF s(1)] safe_segment_plain [OF s(2)] c(1) l
    unfolding k js_append by simp
  moreover have "length k \<le> 700"
    using safe_segment_plain [OF s(1)] safe_segment_plain [OF s(2)] c(2) by (simp add: k)
  ultimately show ?thesis ..
qed

lemma decimal_size: "0 \<le> n \<Longrightarrow> n \<le> MEDIA_MAX_ASSET_BYTES \<Longrightarrow> length (decimal n) \<le> 9"
  using decimal_nat_length [of "nat n" 8] by (simp add: decimal_def MEDIA_MAX_ASSET_BYTES_def)

text \<open>The names a capability carries besides those of the item.\<close>

definition named_context :: "manifest_context \<Rightarrow> assignment \<Rightarrow> bool" where
  "named_context mx a \<longleftrightarrow> opaque_id (mx_screenId mx) \<and> opaque_id (mx_organizationId mx) \<and>
     (case mx_credentialKeyId mx of None \<Rightarrow> True | Some k \<Rightarrow> plain_text (js k) \<and> length k \<le> 64) \<and>
     opaque_id (ra_id a) \<and> is_sha256_hex_any_case (ra_digestSha256 a)"

lemma opaque_length: "opaque_id s \<Longrightarrow> length s \<le> 64"
  by (simp add: opaque_id_def)

lemma item_capability:
  assumes "hmac_sized sv" "named_context mx a" "showable_item i"
    and "asset_supported (policy_of_frozen (fi_asset i))" "item_storage_key mx (fi_asset i) = Inr key"
  shows "MEDIA_CAPABILITY (issueMediaCapability sv (item_claims mx a (fi_asset i) key) secret)"
proof -
  let ?c = "item_claims mx a (fi_asset i) key"
  have key: "plain_text (js key)" "length key \<le> 700"
    using assms(3,5) storage_key_plain
    by (auto simp: item_storage_key_def showable_item_def split: option.splits)
  have m: "plain_text (js (fa_mimeType (fi_asset i)))" "length (fa_mimeType (fi_asset i)) \<le> 16"
    and h: "plain_text (js (fa_checksumSha256 (fi_asset i)))" "length (fa_checksumSha256 (fi_asset i)) = 64"
    and z: "0 \<le> fa_sizeBytes (fi_asset i)" "length (decimal (fa_sizeBytes (fi_asset i))) \<le> 9"
    using assms(4) plain_mime [of "fa_kind (fi_asset i)"] hex_plain decimal_size
    by (simp_all add: asset_supported_def policy_of_frozen_def)
  have i: "plain_text (js (fa_id (fi_asset i)))" "length (fa_id (fi_asset i)) \<le> 64"
    using assms(3) opaque_plain opaque_length by (simp_all add: showable_item_def)
  note n = assms(2) [unfolded named_context_def]
  have d: "plain_text (js (ra_digestSha256 a))" "length (ra_digestSha256 a) = 64"
    using n hex_plain by simp_all
  have "claims_plain ?c"
    using key(1) m(1) h(1) z(1) i(1) d(1) n plain_instant(1) opaque_plain
    by (auto simp: claims_plain_def item_claims_def split: option.splits)
  moreover have "claims_length ?c \<le> 2739"
    using key(2) m(2) h(2) z(2) i(2) d(2) n opaque_length [of "mx_screenId mx"]
      opaque_length [of "mx_organizationId mx"] opaque_length [of "ra_id a"]
      plain_instant(2) [of "capability_expiry mx (fi_asset i)"]
    by (auto simp: claims_length_def item_claims_def split: option.splits)
  ultimately show ?thesis by (rule issued_is_capability [OF assms(1)])
qed

section \<open>The manifest on the player\<close>

lemma unsigned_fields:
  fixes e x ch p
  defines "m \<equiv> JObj (unsigned_manifest e x ch p)"
  shows "field m ''protocolVersion'' = JNum 2" "field m ''mediaDelivery'' = jstr ''authorization-v1''"
    "field m ''version'' = jstr (plan_version e x p)" "field m ''generatedAt'' = jinstant (now e)"
    "field m ''validUntil'' = jinstant (mp_validUntil p)" "field m ''screenId'' = jstr (sc_id x)"
    "field m ''requestChallengeId'' = (if truthy ch then jstr (the ch) else JUndefined)"
    "field m ''priority'' = jstr (mp_priority p)" "field m ''withdrawn'' = JBool (mp_withdrawn p)"
    "field m ''playbackEndsAt'' = (case mp_playbackEndsAt p of None \<Rightarrow> JUndefined | Some t \<Rightarrow> jinstant t)"
    "field m ''items'' = JArr (mp_items p)"
    "field m ''signature'' = JUndefined" "field m ''signatureAlgorithm'' = JUndefined"
  by (auto simp: m_def unsigned_manifest_def field_JObj opt_entry_def split: option.split)

lemma normalize_items_length: "normalize_items xs = Inr ys \<Longrightarrow> length ys = length xs"
  by (induction xs arbitrary: ys) (auto split: sum.splits)

lemma normalize_items_map: "normalize_items (map (\<lambda>i. wire_item i (d i)) is) = Inr (map (\<lambda>i. shown_item i (d i)) is)"
  by (induction "is") (simp_all add: normalize_wire_item)

definition presentable :: "platform \<Rightarrow> instant \<Rightarrow> env \<Rightarrow> screen \<Rightarrow> manifest_plan \<Rightarrow> bool" where
  "presentable pf t e x p \<longleftrightarrow>
     plan_version e x p \<noteq> [] \<and> sc_id x \<noteq> [] \<and> four_digit_year (now e) \<and>
     four_digit_year (mp_validUntil p) \<and> now e < mp_validUntil p \<and> now e \<le> t + 5 * 60000 \<and>
     (case mp_playbackEndsAt p of None \<Rightarrow> True | Some u \<Rightarrow> four_digit_year u) \<and>
     mp_priority p \<in> set [''normal'', ''campaign'', ''priority'', ''emergency''] \<and>
     (mp_withdrawn p \<longleftrightarrow> mp_items p = []) \<and> (mp_withdrawn p \<longrightarrow> mp_priority p = ''normal'') \<and>
     length (mp_items p) \<le> MAX_ITEMS"

lemma plan_normalized:
  assumes "presentable pf t e x p" "reads_instants pf" "normalize_items (mp_items p) = Inr items"
    and "\<And>m. current_protocol m \<Longrightarrow> field m ''priority'' = jstr (mp_priority p) \<Longrightarrow>
      assert_items pf m (now e) [] 0 items = None"
  shows "normalizeSignedPayload pf t True (JObj (unsigned_manifest e x ch p)) =
    Inr (normalized (JObj (unsigned_manifest e x ch p)) items)"
proof -
  let ?w = "JObj (unsigned_manifest e x ch p)"
  let ?m = "normalized ?w items"
  note pr = assms(1) [unfolded presentable_def]
  note f = normalized_fields [of ?w items] unsigned_fields [of e x ch p]
  have cp: "current_protocol ?m" by (simp add: current_protocol_def f)
  have a: "assert_items pf ?m (now e) [] 0 items = None"
    by (rule assms(4)) (simp_all add: cp f)
  have w: "field ?m ''withdrawn'' = JBool (mp_withdrawn p)" by (simp add: normalized_withdrawn f)
  have d: "date_parse pf (jinstant u) = Some u" if "four_digit_year u" for u
    using assms(2) that by (simp add: date_parse_def reads_instants_def)
  have l: "length items = length (mp_items p)" by (rule normalize_items_length [OF assms(3)])
  have ne: "toISOString u \<noteq> []" for u by (simp add: toISOString_def)
  have "js s = [] \<longleftrightarrow> s = []" for s by (simp add: js_def)
  note t = this
  have dates: "date_parse pf (field ?m ''generatedAt'') = Some (now e)"
    "date_parse pf (field ?m ''validUntil'') = Some (mp_validUntil p)"
    using pr by (simp_all add: f d)
  have pb: "\<not> (field ?m ''playbackEndsAt'' \<noteq> JUndefined \<and>
      (\<not> is_text (field ?m ''playbackEndsAt'') \<or> date_parse pf (field ?m ''playbackEndsAt'') = None))"
    using pr by (auto simp: f d split: option.splits)
  have prio: "field ?m ''priority'' \<in> set known_priorities" "field ?m ''priority'' = jstr (mp_priority p)"
    using pr by (auto simp: f known_priorities_def)
  have items: "field ?m ''items'' = JArr items" by (simp add: f)
  have e: "items = [] \<longleftrightarrow> mp_items p = []" using l by (cases items; cases "mp_items p") simp_all
  have truthy: "js_truthy (field ?m ''version'')" "js_truthy (field ?m ''screenId'')"
    "js_truthy (field ?m ''generatedAt'')" "js_truthy (field ?m ''validUntil'')"
    using pr by (simp_all add: f t ne)
  have times: "\<not> mp_validUntil p \<le> now e" "\<not> now e > t + 5 * 60000" using pr by simp_all
  have gone: "\<not> (js_truthy (field ?m ''withdrawn'') \<and>
      (field ?m ''priority'' \<noteq> jstr ''normal'' \<or> items \<noteq> []))"
    "\<not> (\<not> js_truthy (field ?m ''withdrawn'') \<and> items = [])" "is_boolean (field ?m ''withdrawn'')"
    using pr by (auto simp: w prio(2) e)
  have few: "\<not> length items > MAX_ITEMS" using pr l by simp
  have "assertManifest pf t True ?m = None"
    using normalized_object [of ?w items] cp truthy times pb prio(1) gone few a
    by (simp only: assertManifest_def dates items Let_def elements.simps option.sel is_array.simps
        if_False if_True simp_thms option.distinct)
  then show ?thesis
    by (simp add: normalizeSignedPayload_def unsigned_fields assms(3) Let_def)
qed

text \<open>The response, its signature and its media URLs.\<close>

definition response_of :: "(utext \<times> json) list \<Rightarrow> utext \<Rightarrow> json" where
  "response_of unsigned signature = JObj (unsigned @
     [(js ''signatureAlgorithm'', jstr ''Ed25519''), (js ''signature'', JStr signature)])"

lemma unsigned_keys:
  "\<forall>(k, v) \<in> set (unsigned_manifest e x ch p). k \<noteq> js ''signature'' \<and> k \<noteq> js ''signatureAlgorithm''"
  by (auto simp: unsigned_manifest_def opt_entry_def split: option.split)

lemma unsigned_part_response:
  "unsigned_part (response_of (unsigned_manifest e x ch p) sig) = JObj (unsigned_manifest e x ch p)"
  using unsigned_keys [of e x ch p]
  by (auto simp: unsigned_part_def response_of_def own_entries_def filter_id_conv)

lemma response_fields:
  "k \<notin> {''signature'', ''signatureAlgorithm''} \<Longrightarrow>
    field (response_of u sig) k = field (JObj u) k"
  "field (response_of (unsigned_manifest e x ch p) sig) ''signature'' = JStr sig"
  "field (response_of (unsigned_manifest e x ch p) sig) ''signatureAlgorithm'' = jstr ''Ed25519''"
proof -
  show "k \<notin> {''signature'', ''signatureAlgorithm''} \<Longrightarrow> field (response_of u sig) k = field (JObj u) k"
    by (simp add: response_of_def field_JObj map_add_def split: option.split)
  have "map_of (unsigned_manifest e x ch p) (js k) = None" if "k \<in> {''signature'', ''signatureAlgorithm''}" for k
    using that unsigned_keys [of e x ch p] by (auto simp: map_of_eq_None_iff)
  then show "field (response_of (unsigned_manifest e x ch p) sig) ''signature'' = JStr sig"
    "field (response_of (unsigned_manifest e x ch p) sig) ''signatureAlgorithm'' = jstr ''Ed25519''"
    by (simp_all add: response_of_def field_JObj map_add_def)
qed

lemma signed_verifies:
  assumes "trusts_signer sv pf seed key" "signManifest sv v seed = Inr sig"
  shows "verifyManifestPayloadSignature pf (stringify v) sig key" "key \<noteq> []"
proof -
  from assms(1) obtain public where k: "decodeBase64Url key = Some public" "length public = 32"
    and sig: "\<forall>text. length (sv_ed25519 sv (node_decode seed) text) = 64 \<and>
      (\<forall>b \<in> set (sv_ed25519 sv (node_decode seed) text). b < 256) \<and>
      pf_ed25519 pf public (sv_ed25519 sv (node_decode seed) text) text"
    by (auto simp: trusts_signer_def Let_def)
  let ?b = "sv_ed25519 sv (node_decode seed) (stringify v)"
  have s: "sig = base64url ?b" using assms(2) by (simp add: signManifest_def split: if_splits)
  have b: "length ?b = 64" "\<forall>b \<in> set ?b. b < 256" "pf_ed25519 pf public ?b (stringify v)"
    using sig by auto
  then have "?b \<noteq> []" by auto
  then have "decodeBase64Url sig = Some ?b" using b(2) s by (simp add: decode_base64url)
  then show "verifyManifestPayloadSignature pf (stringify v) sig key"
    using k b by (simp add: verifyManifestPayloadSignature_def)
  show "key \<noteq> []" using k by (auto simp: decodeBase64Url_def)
qed

lemma response_accepted:
  assumes "signManifest sv (JObj (unsigned_manifest e x ch p)) seed = Inr sig"
    and "trusts_signer sv pf seed (cr_manifestVerificationKey cred)" "cr_screenId cred = js (sc_id x)"
    and "pf_parse_link pf (cr_apiBaseUrl cred) = Some api"
    and "\<forall>item \<in> set (mp_items p). emergency_template (jstr (mp_priority p)) (field item ''asset'') \<or>
      media_bound pf api (field item ''asset'')"
    and "cr_proof cred \<longrightarrow> truthy ch" 
    and "normalizeSignedPayload pf t True (JObj (unsigned_manifest e x ch p)) = Inr m"
  shows "accept_manifest pf t cred (map_option js ch) (response_of (unsigned_manifest e x ch p) sig) =
    Some (signed_manifest (stringify (JObj (unsigned_manifest e x ch p))) sig m)"
proof -
  note v = signed_verifies [OF assms(2,1)]
  have b: "media_bindings pf api (response_of (unsigned_manifest e x ch p) sig)"
    using assms(5) by (simp add: media_bindings_def response_fields unsigned_fields list_all_iff)
  have c: "cr_proof cred \<longrightarrow> truthy ch \<and> ch = Some (the ch)" using assms(6) by (cases ch) auto
  then have ch: "cr_proof cred \<longrightarrow> (case map_option js ch of None \<Rightarrow> JUndefined | Some c \<Rightarrow> JStr c) =
      field (JObj (unsigned_manifest e x ch p)) ''requestChallengeId''"
    by (auto simp: unsigned_fields split: option.split)
  show ?thesis
    using v b ch
    by (simp add: accept_manifest_def unsigned_part_response response_fields unsigned_fields assms(3,4,7)
        createSignedPlayerManifest_def)
qed

section \<open>Releases\<close>

lemma gather_map_Inr:
  "gather (map f xs) = Inr ys \<Longrightarrow> (\<forall>x \<in> set xs. \<exists>y. f x = Inr y) \<and> ys = map (\<lambda>x. projr (f x)) xs"
  by (induction xs arbitrary: ys) (auto split: sum.splits)

definition delivery_key :: "manifest_context \<Rightarrow> frozen_item \<Rightarrow> string" where
  "delivery_key mx i = projr (item_storage_key mx (fi_asset i))"

definition item_delivery ::
  "server_platform \<Rightarrow> api_config \<Rightarrow> manifest_context \<Rightarrow> assignment \<Rightarrow> frozen_item \<Rightarrow> (utext \<times> json) list" where
  "item_delivery sv cfg mx a i = delivery_entries (media_url (mx_base mx) (fa_id (fi_asset i)))
     (issueMediaCapability sv (item_claims mx a (fi_asset i) (delivery_key mx i)) (cf_mediaDeliverySecret cfg))"

lemma release_plan_items:
  assumes "release_plan sv e cfg mx (r, a) = Inr p" "entireReleasePlayable e cfg r (mx_playbackEndsAt mx)"
  shows "mp_items p = map (\<lambda>i. wire_item i (item_delivery sv cfg mx a i)) (rl_items r)"
    and "i \<in> set (rl_items r) \<Longrightarrow> item_storage_key mx (fi_asset i) = Inr (delivery_key mx i)"
    and "mp_withdrawn p = False" "mp_priority p = priority_text (fs_priority (ra_schedule a))"
    and "mp_validUntil p = mx_validUntil mx" "mp_playbackEndsAt p = mx_playbackEndsAt mx"
proof -
  from assms obtain items where g: "gather (map (manifest_item sv cfg mx a) (rl_items r)) = Inr items"
    and p: "p = \<lparr>mp_priority = priority_text (fs_priority (ra_schedule a)),
          mp_releaseIdentity = ''assignment:'' @ ra_digestSha256 a, mp_withdrawn = False,
          mp_playbackEndsAt = mx_playbackEndsAt mx, mp_validUntil = mx_validUntil mx,
          mp_items = items,
          mp_identities = (if fs_priority (ra_schedule a) = emergency then items
            else map (\<lambda>i. wire_item i []) (rl_items r))\<rparr>"
    by (auto simp: release_plan_def split: sum.splits)
  note h = gather_map_Inr [OF g]
  have key: "item_storage_key mx (fi_asset i) = Inr (delivery_key mx i)" if "i \<in> set (rl_items r)" for i
  proof -
    from h that obtain y where "manifest_item sv cfg mx a i = Inr y" by blast
    then show ?thesis by (auto simp: manifest_item_def delivery_key_def split: sum.splits)
  qed
  have "projr (manifest_item sv cfg mx a i) = wire_item i (item_delivery sv cfg mx a i)"
    if "i \<in> set (rl_items r)" for i
    by (simp add: manifest_item_def key [OF that] item_delivery_def delivery_entries_def)
  then show "mp_items p = map (\<lambda>i. wire_item i (item_delivery sv cfg mx a i)) (rl_items r)"
    using h by (simp add: p)
  show "i \<in> set (rl_items r) \<Longrightarrow> item_storage_key mx (fi_asset i) = Inr (delivery_key mx i)" by (rule key)
  show "mp_withdrawn p = False" "mp_priority p = priority_text (fs_priority (ra_schedule a))"
    "mp_validUntil p = mx_validUntil mx" "mp_playbackEndsAt p = mx_playbackEndsAt mx"
    by (simp_all add: p)
qed

lemma playable_assets:
  assumes "entireReleasePlayable e cfg r endsAt"
  shows "rl_items r \<noteq> []"
    and "i \<in> set (rl_items r) \<Longrightarrow> asset_supported (policy_of_frozen (fi_asset i)) \<and>
      \<not> asset_expired (policy_of_frozen (fi_asset i)) (now e)"
    and "sum_list (map po_sizeBytes (map (\<lambda>i. policy_of_frozen (fi_asset i)) (rl_items r)))
      \<le> MEDIA_MAX_RELEASE_BYTES"
  using assms
    media_failure_from_None [of 0 "map (\<lambda>i. policy_of_frozen (fi_asset i)) (rl_items r)" "now e"]
  by (auto simp: entireReleasePlayable_def mediaPublicationFailure_def)

lemma delivered_item:
  assumes "links_below pf base" "pf_parse_link pf (js base) = Some api" "opaque_id (fa_id (fi_asset i))"
    and "mx_base mx = base"
  shows "media_bound pf api (field (wire_item i (item_delivery sv cfg mx a i)) ''asset'')"
    and "\<exists>l. pf_parse_link pf (media_url (mx_base mx) (fa_id (fi_asset i))) = Some l \<and> https_link l"
proof -
  from assms obtain l where l: "pf_parse_link pf (media_url base (fa_id (fi_asset i))) = Some l"
      "https_link l" "lk_origin l = lk_origin api"
      "lk_pathname l = strip_slash (lk_pathname api) @ js ''/media/'' @
        encodeURIComponent (js (fa_id (fi_asset i)))"
    by (auto simp: links_below_def)
  let ?v = "JObj (asset_head (fi_asset i) @ item_delivery sv cfg mx a i @ asset_tail (fi_asset i))"
  have "field ?v ''url'' = JStr (media_url base (fa_id (fi_asset i)))"
    "field ?v ''id'' = jstr (fa_id (fi_asset i))"
    by (simp_all add: field_JObj asset_head_def item_delivery_def delivery_entries_def assms(4))
  then show "media_bound pf api (field (wire_item i (item_delivery sv cfg mx a i)) ''asset'')"
    using l by (simp add: media_bound_def wire_item_fields https_link_def)
  show "\<exists>l. pf_parse_link pf (media_url (mx_base mx) (fa_id (fi_asset i))) = Some l \<and> https_link l"
    using l assms(4) by blast
qed

lemma release_normalized:
  assumes "release_plan sv e cfg mx (r, a) = Inr p" "entireReleasePlayable e cfg r (mx_playbackEndsAt mx)"
    and "showable_release r" "named_context mx a" "hmac_sized sv"
    and "links_below pf (mx_base mx)" "reads_instants pf" "presentable pf t e x p"
  shows "normalizeSignedPayload pf t True (JObj (unsigned_manifest e x ch p)) =
    Inr (normalized (JObj (unsigned_manifest e x ch p))
      (map (\<lambda>i. shown_item i (item_delivery sv cfg mx a i)) (rl_items r)))"
proof (rule plan_normalized [OF assms(8,7)])
  note p = release_plan_items [OF assms(1,2)] and q = playable_assets [OF assms(2)]
  show "normalize_items (mp_items p) = Inr (map (\<lambda>i. shown_item i (item_delivery sv cfg mx a i)) (rl_items r))"
    unfolding p(1) by (rule normalize_items_map)
  obtain api where api: "pf_parse_link pf (js (mx_base mx)) = Some api"
    using assms(6) by (auto simp: links_below_def)
  have s: "showable_item i" if "i \<in> set (rl_items r)" for i
    using assms(3) that by (auto simp: showable_release_def list_all_iff)
  have cap: "MEDIA_CAPABILITY (issueMediaCapability sv (item_claims mx a (fi_asset i) (delivery_key mx i))
      (cf_mediaDeliverySecret cfg))" if "i \<in> set (rl_items r)" for i
    using q(2) [OF that] p(2) [OF that] s [OF that] by (intro item_capability [OF assms(5,4)]) auto
  have link: "\<exists>l. pf_parse_link pf (media_url (mx_base mx) (fa_id (fi_asset i))) = Some l \<and> https_link l"
    if "i \<in> set (rl_items r)" for i
    using s [OF that] by (intro delivered_item(2) [OF assms(6) api _ refl]) (simp add: showable_item_def)
  fix m
  assume "current_protocol m"
  then show "assert_items pf m (now e) [] 0
      (map (\<lambda>i. shown_item i (item_delivery sv cfg mx a i)) (rl_items r)) = None"
    unfolding item_delivery_def using assms(3) s q cap link
    by (intro shown_items_accepted assms(7)) (auto simp: showable_release_def)
qed

section \<open>Emergencies\<close>

definition showable_emergency :: "emergency_record \<Rightarrow> bool" where
  "showable_emergency m \<longleftrightarrow> em_id m \<noteq> [] \<and> four_digit_year (em_expiresAt m) \<and>
     int (utf8_length (emergency_payload m)) \<le> MAX_ASSET_BYTES \<and>
     em_expiresAt m - em_startsAt m \<le> 86400000"

definition reads_data_urls :: "platform \<Rightarrow> bool" where
  "reads_data_urls pf \<longleftrightarrow>
     (\<forall>bs. \<exists>l. pf_parse_link pf (js ''data:application/json;base64,'' @ base64 bs) = Some l \<and>
       lk_protocol l = js ''data:'' \<and> lk_username l = [] \<and> lk_password l = [] \<and>
       lk_search l = [] \<and> lk_hash l = [])"

definition shown_emergency :: "env \<Rightarrow> emergency_record \<Rightarrow> json" where
  "shown_emergency e x = JObj
     [(js ''id'', jstr (em_id x)), (js ''name'', jstr (em_title x)), (js ''kind'', jstr ''template''),
      (js ''mimeType'', jstr ''application/vnd.screengoblin.emergency+json''),
      (js ''url'', JStr (js ''data:application/json;base64,'' @
         base64 (utf8_bytes (emergency_payload x)))),
      (js ''checksumSha256'', jstr (sha256 e (emergency_payload x))),
      (js ''sizeBytes'', JNum (int (utf8_length (emergency_payload x)))),
      (js ''createdAt'', jinstant (em_createdAt x)),
      (js ''durationSeconds'', JNum (max 1 (ceil_seconds (em_expiresAt x - em_startsAt x))))]"

lemma normalize_emergency: "normalize_item (emergency_item e x) = Inr (shown_emergency e x)"
  by (simp add: normalize_item_def emergency_item_def shown_emergency_def field_JObj own_entries_def
      put_entry_def)

lemma ceil_seconds_le: "ms \<le> 86400000 \<Longrightarrow> ceil_seconds ms \<le> 86400"
  unfolding ceil_seconds_def by linarith

lemma emergency_fields:
  "field (shown_emergency e x) ''id'' = jstr (em_id x)"
  "field (shown_emergency e x) ''kind'' = jstr ''template''"
  "field (shown_emergency e x) ''mimeType'' = jstr ''application/vnd.screengoblin.emergency+json''"
  "field (shown_emergency e x) ''url'' = JStr (js ''data:application/json;base64,'' @
     base64 (utf8_bytes (emergency_payload x)))"
  "field (shown_emergency e x) ''checksumSha256'' = jstr (sha256 e (emergency_payload x))"
  "field (shown_emergency e x) ''sizeBytes'' = JNum (int (utf8_length (emergency_payload x)))"
  "field (shown_emergency e x) ''durationSeconds'' =
     JNum (max 1 (ceil_seconds (em_expiresAt x - em_startsAt x)))"
  "field (shown_emergency e x) ''mediaDelivery'' = JUndefined"
  "field (shown_emergency e x) ''mediaCapability'' = JUndefined"
  "field (shown_emergency e x) ''expiresAt'' = JUndefined"
  by (simp_all add: shown_emergency_def field_JObj)

lemma emergency_accepted:
  assumes "current_protocol m" "field m ''priority'' = jstr ''emergency''" "showable_emergency x"
    and "reads_data_urls pf" "is_sha256_hex_any_case (sha256 e (emergency_payload x))"
  shows "assert_items pf m g [] 0 [shown_emergency e x] = None"
proof -
  let ?i = "shown_emergency e x"
  have t: "emergency_template (field m ''priority'') ?i"
    using assms(2) by (simp add: emergency_template_def emergency_fields)
  have u: "isAllowedAssetUrl pf (to_text (field ?i ''url'')) True l" for l
    using assms(4) unfolding reads_data_urls_def
    by (auto simp: emergency_fields isAllowedAssetUrl_def dest!: spec [of _ "utf8_bytes (emergency_payload x)"])
  have "0 < utf8_length (emergency_payload x)"
    by (intro utf8_length_pos) (simp add: emergency_payload_def)
  moreover have "isAllowedKindAndMime ?i (field m ''priority'')" using t by (simp add: isAllowedKindAndMime_def)
  ultimately have "item_valid pf m ?i"
    using t u assms(1,3) ceil_seconds_le [of "em_expiresAt x - em_startsAt x"]
    by (simp add: item_valid_def Let_def emergency_fields integer_within_def showable_emergency_def
        MAX_ASSET_BYTES_def SAFE_INTEGER_LIMIT_def)
  moreover have "hex_checksum (js (sha256 e (emergency_payload x)))" using hex_plain [OF assms(5)] by simp
  moreover have "is_object ?i" "js_truthy ?i" by (simp_all add: shown_emergency_def)
  moreover have "js_truthy (field ?i ''id'')"
    using assms(3) by (simp add: emergency_fields showable_emergency_def js_def)
  ultimately show ?thesis
    using assms(3) by (simp add: Let_def emergency_fields expiry_valid_def showable_emergency_def
        MAX_RELEASE_BYTES_def MAX_ASSET_BYTES_def)
qed

end
