(* ===== verification/Delivery_Laws.thy ===== *)
theory Delivery_Laws
  imports Media_Delivery End_To_End System
begin

text \<open>
  What the API and the player keep of a manifest, whatever the store holds for the screen, and what
  the media route answers to a capability it has issued.
\<close>

section \<open>Manifests\<close>

text \<open>A player that was paired with this API, and a store whose content can be shown.\<close>

definition paired_player ::
  "server_platform \<Rightarrow> platform \<Rightarrow> api_config \<Rightarrow> string \<Rightarrow> screen \<Rightarrow> api_credentials \<Rightarrow> bool" where
  "paired_player sv pf cfg origin x cred \<longleftrightarrow>
     hmac_sized sv \<and> reads_instants pf \<and> reads_data_urls pf \<and>
     trusts_signer sv pf (cf_manifestSigningPrivateKey cfg) (cr_manifestVerificationKey cred) \<and>
     links_below pf (api_base_url cfg origin) \<and>
     cr_apiBaseUrl cred = js (api_base_url cfg origin) \<and> cr_screenId cred = js (sc_id x)"

definition presentable_store :: "store \<Rightarrow> bool" where
  "presentable_store s \<longleftrightarrow> list_all showable_release (releases s) \<and>
     list_all (\<lambda>a. opaque_id (ra_id a)) (releaseAssignments s) \<and>
     list_all showable_emergency (emergencies s)"

definition named_request :: "env \<Rightarrow> screen \<Rightarrow> string \<Rightarrow> bool" where
  "named_request e x keyId \<longleftrightarrow> opaque_id (sc_id x) \<and> opaque_id (sc_organizationId x) \<and>
     plain_text (js keyId) \<and> length keyId \<le> 64 \<and> four_digit_year (now e) \<and>
     four_digit_year (now e + MANIFEST_LEASE_MS)"

lemma hex_any_case: "is_sha256_hex s \<Longrightarrow> is_sha256_hex_any_case s"
  by (auto simp: is_sha256_hex_def is_sha256_hex_any_case_def list_all_iff is_any_hex_def)

lemma active_assignment:
  assumes "activeOrdinaryReleases e s org screenId u = Inr ras" "(r, a) \<in> set ras"
    and "\<forall>t. is_sha256_hex (sha256 e t)"
  shows "r \<in> set (releases s)" "a \<in> set (releaseAssignments s)" "is_sha256_hex (ra_digestSha256 a)"
proof -
  obtain y where "active_release e s org screenId u y = Inr (Some (r, a))"
    using activeOrdinaryReleases_in [OF assms(1,2)] .
  note act = active_release_Some [OF this]
  show "r \<in> set (releases s)" by (rule act)
  show "a \<in> set (releaseAssignments s)" using latestAssignment_SomeD [OF act(1)] by simp
  show "is_sha256_hex (ra_digestSha256 a)"
    using act(9) assms(3) by (simp add: hasValidStoredAssignmentDigest_def assignmentSnapshotDigest_def)
qed

lemma version_present:
  assumes "\<forall>u. is_sha256_hex (sha256 e u)"
  shows "plan_version e x p \<noteq> []"
proof -
  have "length (plan_version e x p) = 64" using assms unfolding plan_version_def is_sha256_hex_def by blast
  then show ?thesis by auto
qed

lemma withdrawn_normalized:
  assumes "presentable pf t e x (withdrawn_plan e)" "reads_instants pf"
  shows "normalizeSignedPayload pf t True (JObj (unsigned_manifest e x ch (withdrawn_plan e))) =
    Inr (normalized (JObj (unsigned_manifest e x ch (withdrawn_plan e))) [])"
  by (rule plan_normalized [OF assms]) (simp_all add: withdrawn_plan_def)

lemma emergency_normalized:
  assumes "presentable pf t e x (emergency_plan e m)" "reads_instants pf" "reads_data_urls pf"
    and "showable_emergency m" "\<forall>u. is_sha256_hex (sha256 e u)"
  shows "normalizeSignedPayload pf t True (JObj (unsigned_manifest e x ch (emergency_plan e m))) =
    Inr (normalized (JObj (unsigned_manifest e x ch (emergency_plan e m))) [shown_emergency e m])"
proof (rule plan_normalized [OF assms(1,2)])
  show "normalize_items (mp_items (emergency_plan e m)) = Inr [shown_emergency e m]"
    by (simp add: emergency_plan_def normalize_emergency)
  fix v
  assume "current_protocol v" "field v ''priority'' = jstr (mp_priority (emergency_plan e m))"
  then show "assert_items pf v (now e) [] 0 [shown_emergency e m] = None"
    using assms(3-5) hex_any_case by (intro emergency_accepted) (simp_all add: emergency_plan_def)
qed

text \<open>What the player keeps of a plan: the items it can show and that each URL is bound to the API.\<close>

definition kept :: "platform \<Rightarrow> instant \<Rightarrow> env \<Rightarrow> screen \<Rightarrow> string option \<Rightarrow> link \<Rightarrow> manifest_plan \<Rightarrow> bool" where
  "kept pf t e x ch api p \<longleftrightarrow>
     (\<exists>items. length items = length (mp_items p) \<and>
       normalizeSignedPayload pf t True (JObj (unsigned_manifest e x ch p)) =
         Inr (normalized (JObj (unsigned_manifest e x ch p)) items)) \<and>
     (\<forall>item \<in> set (mp_items p). emergency_template (jstr (mp_priority p)) (field item ''asset'') \<or>
       media_bound pf api (field item ''asset''))"

lemma keptI:
  assumes "normalizeSignedPayload pf t True (JObj (unsigned_manifest e x ch p)) =
      Inr (normalized (JObj (unsigned_manifest e x ch p)) items)"
    and "length items = length (mp_items p)"
    and "\<And>item. item \<in> set (mp_items p) \<Longrightarrow> emergency_template (jstr (mp_priority p)) (field item ''asset'') \<or>
      media_bound pf api (field item ''asset'')"
  shows "kept pf t e x ch api p"
  using assms unfolding kept_def by blast

lemma withdrawn_plan_kept:
  assumes "reads_instants pf" "named_request e x keyId" "now e \<le> t + 5 * 60000"
    and "\<forall>u. is_sha256_hex (sha256 e u)"
  shows "kept pf t e x ch api (withdrawn_plan e)"
proof -
  have "plan_version e x (withdrawn_plan e) \<noteq> []" by (rule version_present [OF assms(4)])
  then have "presentable pf t e x (withdrawn_plan e)"
    using assms(2,3) by (auto simp: presentable_def withdrawn_plan_def named_request_def opaque_id_def
        MANIFEST_LEASE_MS_def MAX_ITEMS_def)
  from withdrawn_normalized [OF this assms(1)] show ?thesis
    by (rule keptI) (simp_all add: withdrawn_plan_def)
qed

lemma emergency_kept:
  assumes "reads_instants pf" "reads_data_urls pf" "named_request e x keyId" "now e \<le> t + 5 * 60000"
    and "\<forall>u. is_sha256_hex (sha256 e u)" "showable_emergency m" "em_expiresAt m > now e"
  shows "kept pf t e x ch api (emergency_plan e m)"
proof -
  have "plan_version e x (emergency_plan e m) \<noteq> []" by (rule version_present [OF assms(5)])
  then have "presentable pf t e x (emergency_plan e m)"
    using assms(3,4,6,7) by (auto simp: presentable_def emergency_plan_def named_request_def
        opaque_id_def showable_emergency_def MAX_ITEMS_def)
  from emergency_normalized [OF this assms(1,2,6,5)] show ?thesis
    by (rule keptI)
      (simp_all add: emergency_plan_def emergency_item_def field_JObj emergency_template_def)
qed

lemma release_kept:
  assumes "release_plan sv e cfg mx (r, a) = Inr p" "showable_release r" "named_context mx a"
    and "hmac_sized sv" "links_below pf (mx_base mx)" "reads_instants pf" "named_request e x keyId"
    and "now e \<le> t + 5 * 60000" "\<forall>u. is_sha256_hex (sha256 e u)"
    and "mx_validUntil mx = now e + MANIFEST_LEASE_MS"
    and "case mx_playbackEndsAt mx of None \<Rightarrow> True | Some u \<Rightarrow> four_digit_year u"
    and "pf_parse_link pf (js (mx_base mx)) = Some api"
  shows "kept pf t e x ch api p"
proof (cases "entireReleasePlayable e cfg r (mx_playbackEndsAt mx)")
  case False
  then have "p = withdrawn_plan e" using assms(1) by (simp add: release_plan_def)
  then show ?thesis using withdrawn_plan_kept [OF assms(6-9)] by simp
next
  case True
  note p = release_plan_items [OF assms(1) True]
  have "plan_version e x p \<noteq> []" by (rule version_present [OF assms(9)])
  moreover have "priority_text q \<in> set [''normal'', ''campaign'', ''priority'', ''emergency'']" for q
    by (cases q) simp_all
  ultimately have "presentable pf t e x p"
    using assms(2,7,8,10,11) playable_assets(1) [OF True]
    by (simp add: presentable_def p(1,3-6) named_request_def opaque_id_def MANIFEST_LEASE_MS_def
        showable_release_def) auto
  note n = release_normalized [OF assms(1) True assms(2-6) this]
  have "media_bound pf api (field (wire_item i (item_delivery sv cfg mx a i)) ''asset'')"
    if "i \<in> set (rl_items r)" for i
    using assms(2) that
    by (intro delivered_item(1) [OF assms(5,12) _ refl])
      (auto simp: showable_release_def list_all_iff showable_item_def)
  with n show ?thesis by (intro keptI [OF n]) (auto simp: p(1))
qed

lemma ordinary_kept:
  assumes "ordinary_plan sv e cfg base x (Some keyId) s = Inr p" "presentable_store s"
    and "hmac_sized sv" "links_below pf base" "reads_instants pf" "named_request e x keyId"
    and "now e \<le> t + 5 * 60000" "\<forall>u. is_sha256_hex (sha256 e u)"
    and "case mp_playbackEndsAt p of None \<Rightarrow> True | Some u \<Rightarrow> four_digit_year u"
    and "pf_parse_link pf (js base) = Some api"
  shows "kept pf t e x ch api p"
proof -
  note w = withdrawn_plan_kept [OF assms(5-8)]
  from assms(1) obtain ras where ras:
      "activeOrdinaryReleases e s (sc_organizationId x) (sc_id x) (now e) = Inr ras"
    by (auto simp: ordinary_plan_def split: sum.splits)
  show ?thesis
  proof (cases "sort_by (release_precedence e) ras")
    case Nil
    then show ?thesis using assms(1) w by (simp add: ordinary_plan_def ras)
  next
    case (Cons selected rest)
    obtain r a where ra: "selected = (r, a)" by (cases selected)
    have "(r, a) \<in> set ras" using Cons ra set_sort_by [of "release_precedence e" ras] by auto
    note act = active_assignment [OF ras this assms(8)]
    from assms(1) obtain endsAt where rp: "release_plan sv e cfg
        \<lparr>mx_screenId = sc_id x, mx_organizationId = sc_organizationId x,
         mx_credentialKeyId = Some keyId, mx_base = base,
         mx_validUntil = now e + MANIFEST_LEASE_MS, mx_playbackEndsAt = endsAt\<rparr> (r, a) = Inr p"
      by (auto simp: ordinary_plan_def ras Cons ra split: sum.splits)
    let ?mx = "\<lparr>mx_screenId = sc_id x, mx_organizationId = sc_organizationId x,
         mx_credentialKeyId = Some keyId, mx_base = base,
         mx_validUntil = now e + MANIFEST_LEASE_MS, mx_playbackEndsAt = endsAt\<rparr>"
    have n: "named_context ?mx a"
      using assms(2,6) act(2,3) hex_any_case
      by (auto simp: named_context_def named_request_def presentable_store_def list_all_iff)
    have r: "showable_release r" using assms(2) act(1) by (simp add: presentable_store_def list_all_iff)
    show ?thesis
    proof (cases "entireReleasePlayable e cfg r endsAt")
      case False
      then show ?thesis using rp w by (simp add: release_plan_def)
    next
      case True
      then have "mp_playbackEndsAt p = endsAt" using release_plan_items(6) [OF rp] by simp
      then show ?thesis
        using assms(3-10) by (intro release_kept [OF rp r n]) simp_all
    qed
  qed
qed

lemma plan_kept:
  assumes "manifest_plan_for sv e cfg base x (Some keyId) s = Inr p" "presentable_store s"
    and "hmac_sized sv" "links_below pf base" "reads_instants pf" "named_request e x keyId"
    and "now e \<le> t + 5 * 60000" "\<forall>u. is_sha256_hex (sha256 e u)"
    and "case mp_playbackEndsAt p of None \<Rightarrow> True | Some u \<Rightarrow> four_digit_year u"
    and "pf_parse_link pf (js base) = Some api" "reads_data_urls pf"
  shows "kept pf t e x ch api p"
proof (cases "if cf_emergencyPublishingEnabled cfg
    then activeEmergency s (sc_organizationId x) (sc_id x) (now e) else None")
  case None
  then have "ordinary_plan sv e cfg base x (Some keyId) s = Inr p"
    using assms(1) by (simp add: manifest_plan_for_def)
  then show ?thesis by (rule ordinary_kept [OF _ assms(2-10)])
next
  case (Some m)
  then have m: "activeEmergency s (sc_organizationId x) (sc_id x) (now e) = Some m"
    by (simp split: if_splits)
  then have "m \<in> set (emergencies s)" "em_expiresAt m > now e"
    by (auto simp: activeEmergency_def emergency_active_def dest: find_SomeD)
  moreover have "p = emergency_plan e m" using assms(1) Some by (simp add: manifest_plan_for_def)
  ultimately show ?thesis
    using assms(2) by (auto simp: presentable_store_def list_all_iff
        intro: emergency_kept [OF assms(5,11,6-8)])
qed

section \<open>A release that shows an asset twice\<close>

lemma shown_item_id:
  "field (shown_item i (item_delivery sv cfg mx a i)) ''id'' = jstr (fa_id (fi_asset i))"
  unfolding item_delivery_def by (rule shown_item_fields(1))

lemma sorted_wrt_strict_distinct:
  "sorted_wrt (\<lambda>i j. \<not> strict_eq i j) (map (\<lambda>i. jstr (f i)) xs) \<Longrightarrow> distinct (map f xs)"
  by (induction xs) (auto simp: strict_eq_def)

lemma accepted_is_asserted:
  assumes "accept_manifest pf t cred ch response = Some m"
  shows "\<exists>v. normalizeSignedPayload pf t True (unsigned_part response) = Inr v"
  using assms
  by (auto simp: accept_manifest_def createSignedPlayerManifest_def Let_def
      split: if_splits option.splits sum.splits)

lemma normalized_is_asserted:
  assumes "normalizeSignedPayload pf t r wire = Inr m"
    and "normalize_items (elements (field wire ''items'')) = Inr items"
  shows "assertManifest pf t r (normalized wire items) = None"
  using assms by (auto simp: normalizeSignedPayload_def Let_def split: if_splits option.splits)

section \<open>Delivery\<close>

text \<open>What a client has of a body that fails is always short of its declared length.\<close>

definition exact_inv :: "nat \<Rightarrow> nat list \<Rightarrow> nat list \<Rightarrow> exact_length \<Rightarrow> bool" where
  "exact_inv n done sent s \<longleftrightarrow> xl_receivedBytes s = length done \<and> length done \<le> n \<and>
     (case xl_finalByte s of
        None \<Rightarrow> sent = done \<and> (n = 0 \<or> length done < n)
      | Some b \<Rightarrow> sent @ [b] = done \<and> length done = n)"

lemma exact_transform_inv:
  assumes "exact_inv n done sent s" "exact_transform n chunk s = Some (out, s')"
  shows "exact_inv n (done @ chunk) (sent @ out) s'"
proof (cases "xl_receivedBytes s + length chunk = n \<and> length chunk > 0")
  case True
  then have "out = butlast chunk" "s' = \<lparr>xl_receivedBytes = n, xl_finalByte = Some (last chunk)\<rparr>" "chunk \<noteq> []"
    using assms(2) by (auto simp: exact_transform_def Let_def split: if_splits)
  moreover from True assms(1) have "xl_finalByte s = None"
    by (auto simp: exact_inv_def split: option.splits)
  ultimately show ?thesis using assms(1) True
    by (simp add: exact_inv_def split: option.splits)
next
  case False
  then have "out = chunk" "s' = s\<lparr>xl_receivedBytes := xl_receivedBytes s + length chunk\<rparr>"
    "xl_receivedBytes s + length chunk \<le> n"
    using assms by (auto simp: exact_transform_def exact_inv_def Let_def split: if_splits)
  then show ?thesis using assms(1) False
    by (auto simp: exact_inv_def split: option.splits)
qed

lemma exact_stream_spec:
  assumes "exact_inv n done sent s" "exact_stream n breaks s sent chunks = (all, ok)"
  shows "(ok \<longrightarrow> all = done @ concat chunks \<and> length all = n) \<and>
    (\<not> ok \<longrightarrow> n = 0 \<or> length all < n) \<and> prefix all (done @ concat chunks) \<and>
    (\<not> breaks \<longrightarrow> (ok \<longleftrightarrow> length (done @ concat chunks) = n))"
  using assms
proof (induction chunks arbitrary: "done" sent s)
  case Nil
  then show ?case
    by (auto simp: exact_inv_def exact_flush_def prefix_def split: if_splits option.splits)
next
  case (Cons chunk chunks)
  show ?case
  proof (cases "exact_transform n chunk s")
    case None
    then have "all = sent" "\<not> ok" "n < length done + length chunk"
      using Cons.prems by (auto simp: exact_transform_def exact_inv_def Let_def split: if_splits)
    then show ?thesis using Cons.prems(1)
      by (auto simp: exact_inv_def prefix_def split: option.splits)
  next
    case (Some r)
    then obtain out s' where r: "exact_transform n chunk s = Some (out, s')" by (cases r) auto
    from Cons.IH [OF exact_transform_inv [OF Cons.prems(1) r]] Cons.prems(2) r show ?thesis by auto
  qed
qed

lemma enforceExactByteLength_spec:
  assumes "enforceExactByteLength object n = Inr (sent, ok)" "1 \<le> n"
  shows "(ok \<longrightarrow> sent = concat (mo_chunks object) \<and> int (length sent) = n) \<and>
    (\<not> ok \<longrightarrow> int (length sent) < n)"
proof -
  have "exact_stream (nat n) (mo_breaks object) \<lparr>xl_receivedBytes = 0, xl_finalByte = None\<rparr> []
      (mo_chunks object) = (sent, ok)"
    using assms by (simp add: enforceExactByteLength_def split: if_splits)
  moreover have "exact_inv (nat n) [] [] \<lparr>xl_receivedBytes = 0, xl_finalByte = None\<rparr>"
    using assms(2) by (simp add: exact_inv_def)
  ultimately show ?thesis using exact_stream_spec [of "nat n" "[]" "[]"] assms(2) by fastforce
qed

lemma deliver_media_object:
  assumes "deliver_media sv secret objects request (e1, s1) (e2, s2) = Inr (Reply_object mime n (sent, ok))"
  obtains capability claims x input object where
    "readCapability request = Some capability"
    "verifyMediaCapability sv capability secret (now e1) = Some claims"
    "mc_assetId claims = js (rq_assetId request)" "capability_screen e1 s1 claims = Some x"
    "js (sc_organizationId x) = mc_organizationId claims"
    "delivery_input claims (now e2) = Some input" "authorizeMediaDelivery e2 s2 input = Inr True"
    "n = mc_sizeBytes claims" "enforceExactByteLength object n = Inr (sent, ok)"
proof -
  note d = deliver_media_def
  have m: "rq_method request = ''GET''" by (rule ccontr) (use assms in \<open>simp add: d\<close>)
  have "readCapability request \<noteq> None" by (rule notI) (use assms m in \<open>simp add: d\<close>)
  then obtain capability where c: "readCapability request = Some capability" by blast
  have g: "safe_segment (rq_assetId request)" by (rule ccontr) (use assms m c in \<open>simp add: d\<close>)
  have "verifyMediaCapability sv capability secret (now e1) \<noteq> None"
    by (rule notI) (use assms m c g in \<open>simp add: d\<close>)
  then obtain claims where cl: "verifyMediaCapability sv capability secret (now e1) = Some claims"
    by blast
  have i: "mc_assetId claims = js (rq_assetId request)"
    by (rule ccontr) (use assms m c g cl in \<open>simp add: d\<close>)
  have "capability_screen e1 s1 claims \<noteq> None" by (rule notI) (use assms m c g cl i in \<open>simp add: d\<close>)
  then obtain x where x: "capability_screen e1 s1 claims = Some x" by blast
  have o: "js (sc_organizationId x) = mc_organizationId claims"
    by (rule ccontr) (use assms m c g cl i x in \<open>simp add: d\<close>)
  have "delivery_input claims (now e2) \<noteq> None" by (rule notI) (use assms m c g cl i x o in \<open>simp add: d\<close>)
  then obtain input where inp: "delivery_input claims (now e2) = Some input" by blast
  have au: "authorizeMediaDelivery e2 s2 input = Inr True"
  proof (cases "authorizeMediaDelivery e2 s2 input")
    case (Inl err)
    then show ?thesis using assms m c g cl i x o inp by (simp add: d)
  next
    case (Inr b)
    then show ?thesis using assms m c g cl i x o inp by (cases b) (simp_all add: d)
  qed
  have r: "\<exists>object. enforceExactByteLength object (mc_sizeBytes claims) = Inr (sent, ok) \<and> n = mc_sizeBytes claims"
    using assms by (simp add: d m c g cl i x o inp au split: option.splits sum.splits if_splits) blast
  then show thesis using that [OF c cl i x o inp au] by blast
qed

lemma delivery_input_fields:
  assumes "delivery_input c t = Some input"
  shows "mc_organizationId c = js (mv_organizationId input)" "mc_screenId c = js (mv_screenId input)"
    "mc_assetId c = js (mv_assetId input)" "mv_sizeBytes input = mc_sizeBytes c" "mv_at input = Some t"
proof -
  note d = delivery_input_def
  have "store_text (mc_organizationId c) \<noteq> None" by (rule notI) (use assms in \<open>simp add: d\<close>)
  then obtain org where o: "store_text (mc_organizationId c) = Some org" by blast
  have "store_text (mc_screenId c) \<noteq> None" by (rule notI) (use assms o in \<open>simp add: d\<close>)
  then obtain k where k: "store_text (mc_screenId c) = Some k" by blast
  have "store_text (mc_assignmentId c) \<noteq> None" by (rule notI) (use assms o k in \<open>simp add: d\<close>)
  then obtain a where a: "store_text (mc_assignmentId c) = Some a" by blast
  have "store_text (mc_assignmentDigestSha256 c) \<noteq> None" by (rule notI) (use assms o k a in \<open>simp add: d\<close>)
  then obtain h where h: "store_text (mc_assignmentDigestSha256 c) = Some h" by blast
  have "store_text (mc_assetId c) \<noteq> None" by (rule notI) (use assms o k a h in \<open>simp add: d\<close>)
  then obtain i where i: "store_text (mc_assetId c) = Some i" by blast
  have "store_text (mc_storageKey c) \<noteq> None" by (rule notI) (use assms o k a h i in \<open>simp add: d\<close>)
  then obtain q where q: "store_text (mc_storageKey c) = Some q" by blast
  have "store_text (mc_checksumSha256 c) \<noteq> None" by (rule notI) (use assms o k a h i q in \<open>simp add: d\<close>)
  then obtain z where z: "store_text (mc_checksumSha256 c) = Some z" by blast
  have e: "input = \<lparr>mv_organizationId = org, mv_screenId = k, mv_assignmentId = a,
            mv_assignmentDigestSha256 = h, mv_assetId = i, mv_storageKey = q,
            mv_checksumSha256 = z, mv_sizeBytes = mc_sizeBytes c, mv_at = Some t\<rparr>"
    using assms o k a h i q z by (simp add: d)
  show "mc_organizationId c = js (mv_organizationId input)" "mc_screenId c = js (mv_screenId input)"
    "mc_assetId c = js (mv_assetId input)" "mv_sizeBytes input = mc_sizeBytes c" "mv_at input = Some t"
    using o k i unfolding e store_text_Some by simp_all
qed

section \<open>Capabilities that are honoured\<close>

lemma active_is_authorized:
  assumes "active_release e s org screenId t x = Inr (Some (r, a))" "i \<in> set (rl_items r)"
    and "distinct (map ra_id (releaseAssignments s))" "delivers input t i"
    and "mv_organizationId input = org" "mv_screenId input = screenId" "mv_assignmentId input = ra_id a"
    and "mv_assignmentDigestSha256 input = ra_digestSha256 a" "mv_at input = Some t"
    and "1 \<le> mv_sizeBytes input" "mv_sizeBytes input \<le> MAX_SAFE_INTEGER"
  shows "authorizeMediaDelivery e s input = Inr True"
proof -
  note act = active_release_Some [OF assms(1)]
  have a: "a \<in> set (releaseAssignments s)" "ra_scheduleId a = sd_id x"
    using latestAssignment_SomeD [OF act(1)] by simp_all
  let ?P = "\<lambda>b. ra_id b = mv_assignmentId input \<and> ra_organizationId b = mv_organizationId input"
  have "List.find ?P (releaseAssignments s) \<noteq> None"
    by (rule find_not_NoneI [OF a(1)]) (simp add: assms(5,7) act(3))
  then obtain b where b: "List.find ?P (releaseAssignments s) = Some b" by blast
  have "b \<in> set (releaseAssignments s)" "ra_id b = ra_id a" using find_SomeD [OF b] assms(7) by simp_all
  from distinct_key_inj [OF assms(3) this(1) a(1) this(2)] have "b = a" .
  note b = b [unfolded this]
  have s: "assignment_serves s input t a"
    using act(1,2,4,5) a(2) assms(6,8) by (simp add: assignment_serves_def)
  have r: "List.find (is_release org (ra_releaseId a)) (releases s) = Some r"
    using assms(1) by (simp add: active_release_def act(1,6) split: if_splits option.splits)
  have "list_ex (delivers input t) (rl_items r)" using assms(2,4) by (auto simp: list_ex_iff)
  then show ?thesis
    using b s r act(6,9) assms(5,9-11)
    by (simp add: authorizeMediaDelivery_def)
qed

text \<open>A request with a capability as the player sends it, and an object as it was stored.\<close>

definition media_request_for :: "media_request \<Rightarrow> string \<Rightarrow> utext \<Rightarrow> bool" where
  "media_request_for request assetId capability \<longleftrightarrow>
     rq_method request = ''GET'' \<and> rq_assetId request = assetId \<and> CHR ''?'' \<notin> set (rq_url request) \<and>
     rq_headers request = [(''authorization'', js ''MediaCapability '' @ capability)]"

definition whole_object :: "media_object \<Rightarrow> int \<Rightarrow> bool" where
  "whole_object object n \<longleftrightarrow> mo_contentLength object = n \<and>
     int (length (concat (mo_chunks object))) = n \<and> \<not> mo_breaks object"

lemma read_capability:
  assumes "media_request_for request i c" "MEDIA_CAPABILITY c"
  shows "readCapability request = Some c"
proof -
  have "drop 16 (js ''MediaCapability '' @ c) = c" by (simp add: js_def)
  moreover have "filter (\<lambda>h. toLowerCase (fst h) = ''authorization'')
      [(''authorization'', js ''MediaCapability '' @ c)] = [(''authorization'', js ''MediaCapability '' @ c)]"
    by (simp add: toLowerCase_def lower_char_def)
  ultimately show ?thesis
    using assms by (simp add: readCapability_def media_request_for_def capabilityAuthorization_def)
qed

lemma whole_object_sent:
  assumes "whole_object object n" "1 \<le> n" "n \<le> MAX_SAFE_INTEGER"
  shows "enforceExactByteLength object n = Inr (concat (mo_chunks object), True)"
proof -
  obtain sent ok where e: "exact_stream (nat n) (mo_breaks object)
      \<lparr>xl_receivedBytes = 0, xl_finalByte = None\<rparr> [] (mo_chunks object) = (sent, ok)"
    by (cases "exact_stream (nat n) (mo_breaks object)
      \<lparr>xl_receivedBytes = 0, xl_finalByte = None\<rparr> [] (mo_chunks object)")
  moreover have "exact_inv (nat n) [] [] \<lparr>xl_receivedBytes = 0, xl_finalByte = None\<rparr>"
    using assms(2) by (simp add: exact_inv_def)
  ultimately have "(ok \<longrightarrow> sent = concat (mo_chunks object)) \<and>
      (ok \<longleftrightarrow> length (concat (mo_chunks object)) = nat n)"
    using exact_stream_spec [of "nat n" "[]" "[]"] assms(1) by (fastforce simp: whole_object_def)
  moreover have "length (concat (mo_chunks object)) = nat n" using assms(1) by (auto simp: whole_object_def)
  ultimately have "ok" "sent = concat (mo_chunks object)" by blast+
  then show ?thesis using e assms(2,3) by (simp add: enforceExactByteLength_def)
qed

lemma item_claims_simps [simp]:
  "mc_screenId (item_claims mx a f key) = js (mx_screenId mx)"
  "mc_organizationId (item_claims mx a f key) = js (mx_organizationId mx)"
  "mc_assignmentId (item_claims mx a f key) = js (ra_id a)"
  "mc_assignmentDigestSha256 (item_claims mx a f key) = js (ra_digestSha256 a)"
  "mc_assetId (item_claims mx a f key) = js (fa_id f)" "mc_storageKey (item_claims mx a f key) = js key"
  "mc_mimeType (item_claims mx a f key) = js (fa_mimeType f)"
  "mc_checksumSha256 (item_claims mx a f key) = js (fa_checksumSha256 f)"
  "mc_sizeBytes (item_claims mx a f key) = fa_sizeBytes f"
  "mc_expiresAt (item_claims mx a f key) = js (toISOString (capability_expiry mx f))"
  by (simp_all add: item_claims_def)

lemma expiry_before_asset: "fa_expiresAt f = Some u \<Longrightarrow> capability_expiry mx f \<le> u"
  by (auto simp: capability_expiry_def map_filter_simps split: option.split)

lemma claims_delivery_input:
  "delivery_input (item_claims mx a f key) t =
    Some \<lparr>mv_organizationId = mx_organizationId mx, mv_screenId = mx_screenId mx, mv_assignmentId = ra_id a,
      mv_assignmentDigestSha256 = ra_digestSha256 a, mv_assetId = fa_id f, mv_storageKey = key,
      mv_checksumSha256 = fa_checksumSha256 f, mv_sizeBytes = fa_sizeBytes f, mv_at = Some t\<rparr>"
  by (simp add: delivery_input_def)

lemma issued_claims_verify:
  assumes "hmac_sized sv" "reads_claims sv (item_claims mx a f key)" "is_sha256_hex (ra_digestSha256 a)"
    and "mediaStorageKey (mx_organizationId mx) (fa_id f) (fa_checksumSha256 f) = Inr key"
    and "asset_supported (policy_of_frozen f)"
    and "sv_parse_date sv (js (toISOString (capability_expiry mx f))) = Some (capability_expiry mx f)"
    and "t < capability_expiry mx f"
  shows "verifyMediaCapability sv (issueMediaCapability sv (item_claims mx a f key) secret) secret t =
    Some (item_claims mx a f key)"
proof -
  have "is_sha256_hex (fa_checksumSha256 f)" using assms(4) by (simp add: mediaStorageKey_def split: if_splits)
  then have "claims_valid sv t (claims_json (item_claims mx a f key))"
    using assms(3-7)
    by (simp add: claims_json_valid sha256_text_def storage_identity_def asset_supported_def
        policy_of_frozen_def MEDIA_MAX_ASSET_BYTES_def SAFE_INTEGER_LIMIT_def)
  then show ?thesis using verify_issued [OF assms(1,2)] by simp
qed

text \<open>The answer of the route to a capability, when all it checks is in order.\<close>

lemma deliver_issued:
  assumes "verifyMediaCapability sv c secret (now e1) = Some claims" "media_request_for request i c"
    and "MEDIA_CAPABILITY c" "safe_segment i" "mc_assetId claims = js i"
    and "capability_screen e1 s1 claims = Some x" "js (sc_organizationId x) = mc_organizationId claims"
    and "delivery_input claims (now e2) = Some input" "authorizeMediaDelivery e2 s2 input = Inr True"
    and "getObject (mc_storageKey claims) = Inr (Some object)" "whole_object object (mc_sizeBytes claims)"
    and "1 \<le> mc_sizeBytes claims" "mc_sizeBytes claims \<le> MAX_SAFE_INTEGER"
  shows "deliver_media sv secret (Some getObject) request (e1, s1) (e2, s2) =
    Inr (Reply_object (mc_mimeType claims) (mc_sizeBytes claims) (concat (mo_chunks object), True))"
proof -
  have "rq_method request = ''GET''" "rq_assetId request = i"
    using assms(2) by (simp_all add: media_request_for_def)
  moreover have "mo_contentLength object = mc_sizeBytes claims" using assms(11) by (simp add: whole_object_def)
  ultimately show ?thesis
    using read_capability [OF assms(2,3)] whole_object_sent [OF assms(11-13)] assms(1,4-10)
    by (simp add: deliver_media_def)
qed

text \<open>An item of a release in force, and a capability issued for it.\<close>

lemma issued_capability_delivers:
  fixes sv mx a i key secret
  defines "claims \<equiv> item_claims mx a (fi_asset i) key"
  defines "c \<equiv> issueMediaCapability sv claims secret"
  assumes "distinct (map ra_id (releaseAssignments s2))" "is_sha256_hex (ra_digestSha256 a)"
    and "active_release e2 s2 (mx_organizationId mx) (mx_screenId mx) (now e2) y = Inr (Some (r, a))"
    and "i \<in> set (rl_items r)" "asset_supported (policy_of_frozen (fi_asset i))"
    and "showable_item i" "named_context mx a" "hmac_sized sv" "reads_claims sv claims"
    and "fa_storageKey (fi_asset i) = Some key"
    and "mediaStorageKey (mx_organizationId mx) (fa_id (fi_asset i)) (fa_checksumSha256 (fi_asset i)) = Inr key"
    and "sv_parse_date sv (mc_expiresAt claims) = Some (capability_expiry mx (fi_asset i))"
    and "now e1 < capability_expiry mx (fi_asset i)" "now e2 < capability_expiry mx (fi_asset i)"
    and "capability_screen e1 s1 claims = Some x" "sc_organizationId x = mx_organizationId mx"
    and "media_request_for request (fa_id (fi_asset i)) c"
    and "getObject (js key) = Inr (Some object)" "whole_object object (fa_sizeBytes (fi_asset i))"
  shows "deliver_media sv secret (Some getObject) request (e1, s1) (e2, s2) =
    Inr (Reply_object (js (fa_mimeType (fi_asset i))) (fa_sizeBytes (fi_asset i)) (concat (mo_chunks object), True))"
proof -
  have size: "1 \<le> fa_sizeBytes (fi_asset i)" "fa_sizeBytes (fi_asset i) \<le> MAX_SAFE_INTEGER"
    using assms(7) by (auto simp: asset_supported_def policy_of_frozen_def)
  have key: "item_storage_key mx (fi_asset i) = Inr key" by (simp add: item_storage_key_def assms(12))
  obtain input where input: "delivery_input claims (now e2) = Some input" "delivers input (now e2) i"
    and f: "mv_organizationId input = mx_organizationId mx" "mv_screenId input = mx_screenId mx"
      "mv_assignmentId input = ra_id a" "mv_assignmentDigestSha256 input = ra_digestSha256 a"
      "mv_at input = Some (now e2)" "mv_sizeBytes input = fa_sizeBytes (fi_asset i)"
  proof
    show "delivery_input claims (now e2) = Some
      \<lparr>mv_organizationId = mx_organizationId mx, mv_screenId = mx_screenId mx, mv_assignmentId = ra_id a,
        mv_assignmentDigestSha256 = ra_digestSha256 a, mv_assetId = fa_id (fi_asset i), mv_storageKey = key,
        mv_checksumSha256 = fa_checksumSha256 (fi_asset i), mv_sizeBytes = fa_sizeBytes (fi_asset i),
        mv_at = Some (now e2)\<rparr>" (is "_ = Some ?input")
      unfolding claims_def by (rule claims_delivery_input)
    show "delivers ?input (now e2) i"
      using assms(12,16) expiry_before_asset [of "fi_asset i" _ mx]
      by (fastforce simp: delivers_def split: option.split)
  qed simp_all
  have "authorizeMediaDelivery e2 s2 input = Inr True"
    by (rule active_is_authorized [OF assms(5,6,3) input(2) f(1-5)]) (simp_all add: f(6) size)
  moreover have "verifyMediaCapability sv c secret (now e1) = Some claims"
    unfolding c_def claims_def
    by (rule issued_claims_verify) (use assms(4,7,10,11,13-15) claims_def in simp_all)
  moreover have "MEDIA_CAPABILITY c" unfolding c_def claims_def
    by (rule item_capability [OF assms(10,9,8,7) key])
  moreover have "safe_segment (fa_id (fi_asset i))" using assms(13) by (simp add: mediaStorageKey_def split: if_splits)
  ultimately have "deliver_media sv secret (Some getObject) request (e1, s1) (e2, s2) =
    Inr (Reply_object (mc_mimeType claims) (mc_sizeBytes claims) (concat (mo_chunks object), True))"
    using assms(17-21) input(1) size
    by (intro deliver_issued [where input = input and x = x]) (simp_all add: claims_def)
  then show ?thesis by (simp add: claims_def)
qed

end
