(* ===== verification/Delivery_Properties.thy ===== *)
theory Delivery_Properties
  imports Delivery_Laws Player_Samples Samples
begin

text \<open>
  The properties of the API and the player together: the manifests that are built are accepted,
  their capabilities are honoured, and the media that are delivered are authorised and whole.
\<close>

section \<open>A sample player of the sample organization\<close>

definition instant_of :: "utext \<Rightarrow> instant option" where
  "instant_of u = map_option parse_canonical (store_text u)"

definition sample_server :: "media_claims \<Rightarrow> server_platform" where
  "sample_server c = \<lparr>sv_hmac = (\<lambda>_ _. replicate 32 0), sv_parse_json = (\<lambda>_. Some (claims_json c)),
     sv_parse_date = instant_of, sv_ed25519 = (\<lambda>_ _. replicate 64 0)\<rparr>"

definition sample_link :: "utext \<Rightarrow> link" where
  "sample_link u =
     (if take 5 u = js ''data:''
      then \<lparr>lk_username = [], lk_password = [], lk_search = [], lk_hash = [], lk_protocol = js ''data:'',
        lk_hostname = [], lk_origin = js ''null'', lk_pathname = drop 5 u\<rparr>
      else \<lparr>lk_username = [], lk_password = [], lk_search = [], lk_hash = [], lk_protocol = js ''https:'',
        lk_hostname = js ''m'', lk_origin = take 9 u, lk_pathname = drop 9 u\<rparr>)"

definition sample_player :: platform where
  "sample_player = \<lparr>pf_parse_json = (\<lambda>_. None), pf_parse_date = instant_of,
     pf_parse_link = (\<lambda>u. Some (sample_link u)), pf_ed25519 = (\<lambda>_ _ _. True)\<rparr>"

definition sample_config :: api_config where
  "sample_config = \<lparr>cf_emergencyPublishingEnabled = False, cf_mediaAllowedOrigins = [''https://m''],
     cf_mediaDeliverySecret = js ''s'', cf_publicApiUrl = None,
     cf_manifestSigningPrivateKey = js (replicate 43 (CHR ''A''))\<rparr>"

definition sample_credentials :: api_credentials where
  "sample_credentials = \<lparr>cr_screenId = js ''iii-'', cr_apiBaseUrl = js ''https://m/api/v1/device'',
     cr_manifestVerificationKey = js (replicate 43 (CHR ''A'')), cr_proof = True\<rparr>"


definition sample_key :: string where
  "sample_key = ''organizations/org/assets/i-/'' @ sample_digest"

definition sample_context :: "string option \<Rightarrow> manifest_context" where
  "sample_context k = \<lparr>mx_screenId = ''iii-'', mx_organizationId = ''org'', mx_credentialKeyId = k,
     mx_base = ''https://m/api/v1/device'', mx_validUntil = 308000, mx_playbackEndsAt = None\<rparr>"

lemma item1_fields: "fi_durationSeconds item1 = 5" "fa_id (fi_asset item1) = ''i-''"
  "fa_kind (fi_asset item1) = image_kind" "fa_mimeType (fi_asset item1) = ''image/png''"
  "fa_url (fi_asset item1) = ''https://m/a''" "fa_storageKey (fi_asset item1) = Some sample_key"
  "fa_checksumSha256 (fi_asset item1) = sample_digest" "fa_sizeBytes (fi_asset item1) = 9"
  "fa_expiresAt (fi_asset item1) = None"
  by (simp_all add: item1_def freeze_asset_def media1_def media0_def media_data.defs media.defs
      when_truthy_def toLowerCase_def lower_char_def sample_digest_def sample_key_def
      replicate_numeral)

lemma screen1_fields: "sc_id screen1 = ''iii-''" "sc_organizationId screen1 = ''org''"
  by (simp_all add: screen1_def new_screen_def)

lemma sample_ids: "opaque_id ''i-''" "opaque_id ''iii-''" "opaque_id ''org''" "opaque_id ''iiiiiii-k''"
  by (simp_all add: opaque_id_def js_def sextet_def)

lemma digest_hex: "is_sha256_hex sample_digest" "is_sha256_hex_any_case sample_digest"
  by (simp_all add: is_sha256_hex_def is_sha256_hex_any_case_def sample_digest_def list_all_iff
      is_lower_hex_def is_digit_def is_any_hex_def)

lemma sample_key_ok: "plain_text (js sample_key)" "length sample_key \<le> 700"
  "mediaStorageKey ''org'' ''i-'' sample_digest = Inr sample_key"
  using digest_hex hex_plain [of sample_digest]
  by (simp_all add: sample_key_def mediaStorageKey_def safe_segment_def is_digit_def is_lower_def
      is_upper_def plain_text_def js_def)

lemma release1_items: "rl_items release1 = [item1]"
  by (simp add: release1_def)

lemma showable1: "showable_item item1" "showable_release release1"
  using sample_ids sample_key_ok
  by (simp_all add: showable_item_def showable_release_def release1_items item1_fields MAX_ITEMS_def)

lemma item1_playable: "url_allowed (sample_env n) sample_config item1"
  "mediaPublicationFailure [policy_of_frozen (fi_asset item1)] t = None"
  by (simp_all add: url_allowed_def mediaUrlMatchesAllowedOrigin_def sample_config_def sample_env_def
      hasMediaUrlCredentials_def usesAllowedMediaScheme_def release1_allowed)

lemma release1_playable: "entireReleasePlayable (sample_env n) sample_config release1 None"
  using item1_playable by (simp add: entireReleasePlayable_def release1_items)

lemma store7_rest: "emergencies store7 = []" "screens store7 = [screen1]"
  by (simp_all add: store7_def store6_def store5_def store4_def store3_def empty_store_def)

lemma presentable7: "presentable_store store7"
  using showable1 sample_ids by (simp add: presentable_store_def store7_fields store7_rest assignment1_fields)

lemma sample_instants: "four_digit_year 8000" "four_digit_year 308000"
  by (simp_all add: four_digit_year_def year_from_day_def day_from_year_def ms_per_day_def)

lemma named8: "named_request (sample_env 8) screen1 ''k''"
  using sample_ids sample_instants
  by (simp add: named_request_def screen1_fields MANIFEST_LEASE_MS_def plain_text_def js_def)

lemma sample_reads: "reads_instants sample_player" "reads_data_urls sample_player"
  by (simp_all add: reads_instants_def sample_player_def instant_of_def parse_toISOString)
    (simp add: reads_data_urls_def sample_link_def js_def)

lemma instant_of_toISOString: "four_digit_year t \<Longrightarrow> instant_of (js (toISOString t)) = Some t"
  by (simp add: instant_of_def parse_toISOString)

lemma sample_links: "links_below sample_player ''https://m/api/v1/device''"
proof -
  have "media_url ''https://m/api/v1/device'' i =
      js ''https://m'' @ js ''/api/v1/device'' @ js ''/media/'' @ encodeURIComponent (js i)" for i
    by (simp add: media_url_def js_def)
  then show ?thesis
    by (simp add: links_below_def sample_player_def sample_link_def https_link_def strip_slash_def js_def)
qed

lemma sample_hmac: "hmac_sized (sample_server c)"
  by (simp add: hmac_sized_def sample_server_def)

lemma seed_bytes: "node_decode (js (replicate 43 (CHR ''A''))) = replicate 32 0"
proof -
  have "List.map_filter node_sextet (replicate n 65) = replicate n 0" for n
    by (induction n) (simp_all add: map_filter_simps node_sextet_def sextet_def)
  then have "node_decode (replicate n 65) = node_bytes (replicate n 0)" for n by (simp add: node_decode_def)
  moreover have "of_char (CHR ''A'') = (65 :: nat)" by simp
  moreover have "node_bytes (replicate 43 0) = replicate 32 0" by (simp add: replicate_numeral)
  ultimately show ?thesis by (simp only: js_replicate)
qed

lemma sample_signer: "trusts_signer (sample_server c) sample_player
    (cf_manifestSigningPrivateKey sample_config) (cr_manifestVerificationKey sample_credentials)"
  by (simp add: trusts_signer_def sample_credentials_def key1 sample_server_def sample_player_def)

lemma sample_base: "api_base_url sample_config ''https://m'' = ''https://m/api/v1/device''"
  by (simp add: api_base_url_def sample_config_def strip_slashes_def)

lemma paired8: "paired_player (sample_server c) sample_player sample_config ''https://m'' screen1
    sample_credentials"
  using sample_hmac sample_reads sample_signer sample_links
  by (simp add: paired_player_def sample_base screen1_fields) (simp add: sample_credentials_def)

lemma ends_never: "schedulePlaybackEndsAt e (frozen_of schedule0) t = Inr None"
  by (simp add: schedulePlaybackEndsAt_def frozen_of_def schedule0_def)

lemma sort_one: "sort_by cmp [x] = [x]"
  by (simp add: sort_by_def)

lemma planned8: "\<exists>p. manifest_plan_for sv (sample_env 8) sample_config ''https://m/api/v1/device'' screen1
    (Some k) store7 = Inr p \<and> mp_playbackEndsAt p = None \<and> length (mp_items p) = 1"
proof -
  have "manifest_plan_for sv (sample_env 8) sample_config ''https://m/api/v1/device'' screen1
      (Some k) store7 = release_plan sv (sample_env 8) sample_config (sample_context (Some k)) (release1, assignment1)"
    using served7 [of 8]
    by (simp add: manifest_plan_for_def ordinary_plan_def sample_config_def screen1_fields sort_one
        assignment1_fields ends_never sample_context_def MANIFEST_LEASE_MS_def)
  moreover have "\<exists>p. release_plan sv (sample_env 8) sample_config (sample_context (Some k))
      (release1, assignment1) = Inr p \<and> mp_playbackEndsAt p = None \<and> length (mp_items p) = 1"
    using release1_playable [of 8]
    by (simp add: release_plan_def release1_items manifest_item_def item_storage_key_def item1_fields)
      (simp add: sample_context_def)
  ultimately show ?thesis by simp
qed

lemma seed_config: "length (node_decode (cf_manifestSigningPrivateKey sample_config)) = 32"
  by (simp add: sample_config_def seed_bytes)

definition sample_claims :: media_claims where
  "sample_claims = item_claims (sample_context None) assignment1 (fi_asset item1) sample_key"

section \<open>Manifests\<close>

text \<open>
  C5: the API and the player agree on what a manifest is: whatever the store holds for the screen
  (an emergency, a release or nothing), a manifest the API builds and signs is accepted by the
  player paired with it, which keeps its version, whether it withdraws content, and as many items;
  this rests on releases whose items have distinct assets, durations of up to a day and at most 500
  items, and on a clock of the player that is at most five minutes behind.
\<close>

theorem built_manifest_is_accepted:
  assumes "device_manifest sv e cfg origin x (Some challenge) (Some keyId) s = Inr response"
    and "challenge \<noteq> []" "paired_player sv pf cfg origin x cred" "presentable_store s"
    and "named_request e x keyId" "\<forall>u. is_sha256_hex (sha256 e u)" "now e \<le> t + 5 * 60000"
    and "manifest_plan_for sv e cfg (api_base_url cfg origin) x (Some keyId) s = Inr p"
    and "case mp_playbackEndsAt p of None \<Rightarrow> True | Some u \<Rightarrow> four_digit_year u"
  shows "\<exists>m. accept_manifest pf t cred (Some (js challenge)) response = Some m \<and>
    field (field m ''manifest'') ''version'' = jstr (plan_version e x p) \<and>
    (manifest_withdrawn (field m ''manifest'') \<longleftrightarrow> mp_withdrawn p) \<and>
    length (elements (field (field m ''manifest'') ''items'')) = length (mp_items p)"
proof -
  note pp = assms(3) [unfolded paired_player_def]
  from pp obtain api where api: "pf_parse_link pf (js (api_base_url cfg origin)) = Some api"
    by (auto simp: links_below_def)
  let ?u = "unsigned_manifest e x (Some challenge) p"
  from assms(1,8) obtain sig where
      sig: "signManifest sv (JObj ?u) (cf_manifestSigningPrivateKey cfg) = Inr sig"
    and response: "response = response_of ?u sig"
    by (auto simp: device_manifest_def Let_def response_of_def split: sum.splits)
  have "kept pf t e x (Some challenge) api p"
    using pp by (intro plan_kept [OF assms(8,4) _ _ _ assms(5,7,6,9) api]) simp_all
  then obtain items where items: "length items = length (mp_items p)"
      "normalizeSignedPayload pf t True (JObj ?u) = Inr (normalized (JObj ?u) items)"
    and bound: "\<forall>item \<in> set (mp_items p). emergency_template (jstr (mp_priority p)) (field item ''asset'') \<or>
      media_bound pf api (field item ''asset'')"
    unfolding kept_def by blast
  have "accept_manifest pf t cred (Some (js challenge)) response =
      Some (signed_manifest (stringify (JObj ?u)) sig (normalized (JObj ?u) items))"
    using response_accepted [OF sig _ _ _ bound _ items(2), of cred] pp api assms(2)
    by (simp add: response)
  moreover have "field (signed_manifest a b v) ''manifest'' = v" for a b v
    by (simp add: signed_manifest_def field_JObj)
  ultimately show ?thesis
    by (simp add: normalized_fields normalized_withdrawn manifest_withdrawn_def unsigned_fields items(1))
qed

theorem built_manifest_is_accepted_witness:
  "\<exists>response m. device_manifest (sample_server sample_claims) (sample_env 8) sample_config ''https://m''
      screen1 (Some ''q'') (Some ''k'') store7 = Inr response \<and>
    accept_manifest sample_player 8000 sample_credentials (Some (js ''q'')) response = Some m \<and>
    length (elements (field (field m ''manifest'') ''items'')) = 1"
proof -
  let ?sv = "sample_server sample_claims"
  obtain p where p: "manifest_plan_for ?sv (sample_env 8) sample_config
      (api_base_url sample_config ''https://m'') screen1 (Some ''k'') store7 = Inr p"
      "mp_playbackEndsAt p = None" "length (mp_items p) = 1"
    using planned8 unfolding sample_base by blast
  obtain response where r: "device_manifest ?sv (sample_env 8) sample_config ''https://m''
      screen1 (Some ''q'') (Some ''k'') store7 = Inr response"
    using p(1) by (simp add: device_manifest_def signManifest_def Let_def seed_config)
  have "\<exists>m. accept_manifest sample_player 8000 sample_credentials (Some (js ''q'')) response = Some m \<and>
    field (field m ''manifest'') ''version'' = jstr (plan_version (sample_env 8) screen1 p) \<and>
    (manifest_withdrawn (field m ''manifest'') \<longleftrightarrow> mp_withdrawn p) \<and>
    length (elements (field (field m ''manifest'') ''items'')) = length (mp_items p)"
    by (rule built_manifest_is_accepted [OF r _ paired8 presentable7 named8 _ _ p(1)])
      (simp_all add: digest_hex p(2))
  then obtain m where "accept_manifest sample_player 8000 sample_credentials (Some (js ''q'')) response = Some m"
      "length (elements (field (field m ''manifest'') ''items'')) = 1"
    unfolding p(3) by (elim exE conjE) (rule that)
  with r show ?thesis by (intro exI conjI)
qed

text \<open>
  What the API signs for a selected and playable release that shows an asset twice, while emergency
  publishing is off, is refused by the player, whatever its clock and platform: the items of its
  manifests need distinct asset identifiers.
\<close>

theorem repeated_asset_is_refused:
  assumes "activeOrdinaryReleases e s (sc_organizationId x) (sc_id x) (now e) = Inr ras"
    and "sort_by (release_precedence e) ras = (r, a) # rest"
    and "schedulePlaybackEndsAt e (ra_schedule a) (now e) = Inr endsAt"
    and "entireReleasePlayable e cfg r endsAt" "\<not> distinct (map (\<lambda>i. fa_id (fi_asset i)) (rl_items r))"
    and "\<not> cf_emergencyPublishingEnabled cfg"
    and "device_manifest sv e cfg origin x challenge keyId s = Inr response"
  shows "accept_manifest pf t cred ch response = None"
proof (rule ccontr)
  assume "accept_manifest pf t cred ch response \<noteq> None"
  then obtain v where v: "normalizeSignedPayload pf t True (unsigned_part response) = Inr v"
    using accepted_is_asserted by blast
  let ?mx = "\<lparr>mx_screenId = sc_id x, mx_organizationId = sc_organizationId x,
         mx_credentialKeyId = keyId, mx_base = api_base_url cfg origin,
         mx_validUntil = now e + MANIFEST_LEASE_MS, mx_playbackEndsAt = endsAt\<rparr>"
  from assms(6,7) obtain p sig where
      p: "ordinary_plan sv e cfg (api_base_url cfg origin) x keyId s = Inr p"
    and response: "response = response_of (unsigned_manifest e x challenge p) sig"
    by (auto simp: device_manifest_def manifest_plan_for_def Let_def response_of_def split: sum.splits)
  have rp: "release_plan sv e cfg ?mx (r, a) = Inr p"
    using p by (simp add: ordinary_plan_def assms(1-3))
  have pl: "entireReleasePlayable e cfg r (mx_playbackEndsAt ?mx)" using assms(4) by simp
  note items = release_plan_items(1) [OF rp pl]
  let ?u = "JObj (unsigned_manifest e x challenge p)"
  let ?shown = "map (\<lambda>i. shown_item i (item_delivery sv cfg ?mx a i)) (rl_items r)"
  have n: "normalize_items (elements (field ?u ''items'')) = Inr ?shown"
    unfolding unsigned_fields elements.simps items by (rule normalize_items_map)
  have u: "unsigned_part response = ?u" unfolding response by (rule unsigned_part_response)
  from normalized_is_asserted [OF v [unfolded u] n]
  have "assertManifest pf t True (normalized ?u ?shown) = None" .
  then obtain g where "assert_items pf (normalized ?u ?shown) g [] 0
      (elements (field (normalized ?u ?shown) ''items'')) = None"
    by (elim assertManifest_None)
  then have "assert_items pf (normalized ?u ?shown) g [] 0 ?shown = None"
    unfolding normalized_fields elements.simps .
  from assert_items_None(2) [OF this]
  have "sorted_wrt (\<lambda>i j. \<not> strict_eq i j) (map (\<lambda>i. jstr (fa_id (fi_asset i))) (rl_items r))"
    by (simp add: comp_def shown_item_id)
  then have "distinct (map (\<lambda>i. fa_id (fi_asset i)) (rl_items r))" by (rule sorted_wrt_strict_distinct)
  with assms(5) show False by simp
qed

lemma item1_policy: "asset_supported (policy_of_frozen (fi_asset item1))"
  "\<not> asset_expired (policy_of_frozen (fi_asset item1)) t" "po_sizeBytes (policy_of_frozen (fi_asset item1)) = 9"
  using digest_hex
  by (simp_all add: asset_supported_def asset_expired_def policy_of_frozen_def item1_fields
      isSupportedMedia_def MAX_SAFE_INTEGER_def MEDIA_MAX_ASSET_BYTES_def)

section \<open>Media\<close>

text \<open>
  C6: the API honours what it has issued: the capability it put into the manifest of a screen for an
  item of a release gets that screen, while the release is in force for it, the capability has not
  expired and the device is trusted, the whole object with the item's type and size.
\<close>

theorem issued_capability_is_honoured:
  assumes "manifest_item sv cfg mx a i = Inr item" "field (field item ''asset'') ''mediaCapability'' = JStr c"
    and "entireReleasePlayable e cfg r (mx_playbackEndsAt mx)" "i \<in> set (rl_items r)" "showable_item i"
    and "named_context mx a" "fa_storageKey (fi_asset i) = Some key"
    and "mediaStorageKey (mx_organizationId mx) (fa_id (fi_asset i)) (fa_checksumSha256 (fi_asset i)) = Inr key"
    and "hmac_sized sv" "reads_claims sv (item_claims mx a (fi_asset i) key)"
    and "sv_parse_date sv (js (toISOString (capability_expiry mx (fi_asset i)))) =
      Some (capability_expiry mx (fi_asset i))"
    and "reachable H us t D s2" "\<forall>u. is_sha256_hex (sha256 e2 u)"
    and "activeOrdinaryReleases e2 s2 (mx_organizationId mx) (mx_screenId mx) (now e2) = Inr ras"
    and "(r, a) \<in> set ras"
    and "now e1 < capability_expiry mx (fi_asset i)" "now e2 < capability_expiry mx (fi_asset i)"
    and "capability_screen e1 s1 (item_claims mx a (fi_asset i) key) = Some x"
    and "sc_organizationId x = mx_organizationId mx" "media_request_for request (fa_id (fi_asset i)) c"
    and "getObject (js key) = Inr (Some object)" "whole_object object (fa_sizeBytes (fi_asset i))"
  shows "deliver_media sv (cf_mediaDeliverySecret cfg) (Some getObject) request (e1, s1) (e2, s2) =
    Inr (Reply_object (js (fa_mimeType (fi_asset i))) (fa_sizeBytes (fi_asset i))
      (concat (mo_chunks object), True))"
proof -
  from assms(1,7) have "item = wire_item i (delivery_entries (media_url (mx_base mx) (fa_id (fi_asset i)))
      (issueMediaCapability sv (item_claims mx a (fi_asset i) key) (cf_mediaDeliverySecret cfg)))"
    by (simp add: manifest_item_def item_storage_key_def delivery_entries_def)
  then have c: "c = issueMediaCapability sv (item_claims mx a (fi_asset i) key) (cf_mediaDeliverySecret cfg)"
    using assms(2) by (simp add: wire_item_fields field_JObj asset_head_def delivery_entries_def)
  obtain y where y: "active_release e2 s2 (mx_organizationId mx) (mx_screenId mx) (now e2) y = Inr (Some (r, a))"
    using activeOrdinaryReleases_in [OF assms(14,15)] .
  obtain e0 :: env where "release_inv e0 s2" by (rule reachable_releases [OF assms(12)])
  then have "distinct (map ra_id (releaseAssignments s2))" by (simp add: release_inv_def)
  from issued_capability_delivers [where getObject = getObject, OF this active_assignment(3) [OF assms(14,15,13)] y assms(4) _ assms(5,6,9,10,7,8)
      _ assms(16-19) _ assms(21,22), where secret = "cf_mediaDeliverySecret cfg" and request = request]
  show ?thesis using playable_assets(2) [OF assms(3,4)] assms(11,20) by (simp add: c)
qed

definition trusting_store :: store where
  "trusting_store = store7\<lparr>screens := [screen1\<lparr>sc_deviceTokenHash := Some ''h''\<rparr>]\<rparr>"

definition sample_capability :: utext where
  "sample_capability = issueMediaCapability (sample_server sample_claims) sample_claims
     (cf_mediaDeliverySecret sample_config)"

definition sample_request :: media_request where
  "sample_request = \<lparr>rq_method = ''GET'', rq_url = ''/media/i-'', rq_assetId = ''i-'',
     rq_headers = [(''authorization'', js ''MediaCapability '' @ sample_capability)]\<rparr>"

definition sample_objects :: "utext \<Rightarrow> exn + media_object option" where
  "sample_objects k = Inr (if k = js sample_key
     then Some \<lparr>mo_contentLength = 9, mo_chunks = [[1, 2, 3, 4], [5, 6, 7, 8, 9]], mo_breaks = False\<rparr>
     else None)"

lemma sample_expiry: "capability_expiry (sample_context k) (fi_asset item1) = 308000"
  by (simp add: capability_expiry_def sample_context_def item1_fields map_filter_simps)

lemma sample_named: "named_context (sample_context None) assignment1"
  using sample_ids digest_hex by (simp add: named_context_def sample_context_def assignment1_fields)

lemma sample_context_fields: "mx_screenId (sample_context k) = ''iii-''"
  "mx_organizationId (sample_context k) = ''org''" "mx_playbackEndsAt (sample_context k) = None"
  "mx_credentialKeyId (sample_context k) = k"
  by (simp_all add: sample_context_def)

lemma sample_trust: "capability_screen (sample_env 8) trusting_store sample_claims =
    Some (screen1\<lparr>sc_deviceTokenHash := Some ''h''\<rparr>)"
  by (simp add: capability_screen_def sample_claims_def item_claims_def sample_context_fields
      authenticateDevice_def trusting_store_def screen1_fields)
    (simp add: screen1_def new_screen_def)

lemma sample_reads_claims: "reads_claims (sample_server sample_claims) sample_claims"
  by (simp add: reads_claims_def sample_server_def)

lemma sample_item: "manifest_item (sample_server sample_claims) sample_config (sample_context None) assignment1
    item1 = Inr (wire_item item1 (delivery_entries (media_url ''https://m/api/v1/device'' ''i-'') sample_capability))"
  by (simp add: manifest_item_def item_storage_key_def item1_fields delivery_entries_def sample_capability_def
      sample_claims_def) (simp add: sample_context_def)

lemma sample_object: "sample_objects (js sample_key) =
    Inr (Some \<lparr>mo_contentLength = 9, mo_chunks = [[1, 2, 3, 4], [5, 6, 7, 8, 9]], mo_breaks = False\<rparr>)"
  by (simp add: sample_objects_def)

lemma sample_request_for: "media_request_for sample_request (fa_id (fi_asset item1)) sample_capability"
  by (simp add: media_request_for_def sample_request_def item1_fields)

theorem issued_capability_is_honoured_witness:
  "deliver_media (sample_server sample_claims) (cf_mediaDeliverySecret sample_config) (Some sample_objects)
      sample_request (sample_env 8, trusting_store) (sample_env 8, store7) =
    Inr (Reply_object (js ''image/png'') 9 ([1, 2, 3, 4, 5, 6, 7, 8, 9], True))"
proof -
  obtain D where D: "reachable (\<lambda>_. sample_digest) sample_users (int 7 * 1000) D store7"
    using sample_run(3) by (rule sample_reach)
  note c = sample_claims_def [symmetric]
  have "deliver_media (sample_server sample_claims) (cf_mediaDeliverySecret sample_config) (Some sample_objects)
      sample_request (sample_env 8, trusting_store) (sample_env 8, store7) =
    Inr (Reply_object (js (fa_mimeType (fi_asset item1))) (fa_sizeBytes (fi_asset item1))
      (concat (mo_chunks \<lparr>mo_contentLength = 9, mo_chunks = [[1, 2, 3, 4], [5, 6, 7, 8, 9]],
        mo_breaks = False\<rparr>), True))"
  proof (rule issued_capability_is_honoured [where getObject = sample_objects, OF sample_item _ _ _ showable1(1) sample_named item1_fields(6) _
        sample_hmac _ _ D _ _ _ _ _ _ _ sample_request_for sample_object])
    show "activeOrdinaryReleases (sample_env 8) store7 (mx_organizationId (sample_context None))
        (mx_screenId (sample_context None)) (now (sample_env 8)) = Inr [(release1, assignment1)]"
      using served7 [of 8] by (simp add: sample_context_fields)
    show "entireReleasePlayable (sample_env 8) sample_config release1 (mx_playbackEndsAt (sample_context None))"
      using release1_playable by (simp add: sample_context_fields)
    show "capability_screen (sample_env 8) trusting_store
        (item_claims (sample_context None) assignment1 (fi_asset item1) sample_key) =
        Some (screen1\<lparr>sc_deviceTokenHash := Some ''h''\<rparr>)"
      unfolding c by (rule sample_trust)
    show "reads_claims (sample_server sample_claims)
        (item_claims (sample_context None) assignment1 (fi_asset item1) sample_key)"
      unfolding c by (rule sample_reads_claims)
    show "sv_parse_date (sample_server sample_claims)
        (js (toISOString (capability_expiry (sample_context None) (fi_asset item1)))) =
        Some (capability_expiry (sample_context None) (fi_asset item1))"
      unfolding sample_expiry using instant_of_toISOString [OF sample_instants(2)]
      by (simp add: sample_server_def)
    show "mediaStorageKey (mx_organizationId (sample_context None)) (fa_id (fi_asset item1))
        (fa_checksumSha256 (fi_asset item1)) = Inr sample_key"
      by (simp add: sample_context_fields item1_fields sample_key_ok)
  qed (simp_all add: wire_item_fields field_JObj asset_head_def delivery_entries_def release1_items
      digest_hex sample_expiry screen1_fields sample_context_fields whole_object_def item1_fields)
  then show ?thesis by (simp add: item1_fields)
qed

text \<open>
  C4: the media route serves only what the screen is being shown: if it replies with an object, the
  device of the capability was still trusted, the asset asked for is an item of a release that is
  active for its screen at that instant, and the body that reaches the client is either whole, of
  exactly the size of that item, or visibly short of it.
\<close>

theorem served_object_is_active_and_whole:
  assumes "deliver_media sv secret objects request (e1, s1) (e2, s2) = Inr (Reply_object mime n (sent, ok))"
    and "reachable H us t D s2"
  shows "\<exists>c claims x screenId. readCapability request = Some c \<and>
    verifyMediaCapability sv c secret (now e1) = Some claims \<and>
    capability_screen e1 s1 claims = Some x \<and> mc_screenId claims = js screenId \<and>
    (\<forall>ras. activeOrdinaryReleases e2 s2 (sc_organizationId x) screenId (now e2) = Inr ras \<longrightarrow>
      (\<exists>(r, a) \<in> set ras. \<exists>i \<in> set (rl_items r).
        fa_id (fi_asset i) = rq_assetId request \<and> fa_sizeBytes (fi_asset i) = n)) \<and>
    (ok \<longrightarrow> int (length sent) = n) \<and> (\<not> ok \<longrightarrow> int (length sent) < n)"
proof -
  from assms(1) obtain capability claims x input object where c: "readCapability request = Some capability" and d:
    "verifyMediaCapability sv capability secret (now e1) = Some claims"
    "mc_assetId claims = js (rq_assetId request)" "capability_screen e1 s1 claims = Some x"
    "js (sc_organizationId x) = mc_organizationId claims"
    "delivery_input claims (now e2) = Some input" "authorizeMediaDelivery e2 s2 input = Inr True"
    "n = mc_sizeBytes claims" "enforceExactByteLength object n = Inr (sent, ok)"
    by (rule deliver_media_object)
  note f = delivery_input_fields [OF d(5)]
  have same: "mv_organizationId input = sc_organizationId x" "mv_assetId input = rq_assetId request"
    using f(1,3) d(2,4) by simp_all
  obtain v where "claims_valid sv (now e1) v" "claims = claims_of v"
    using verified_capability [OF d(1)] by blast
  then have "1 \<le> n" using claims_valid_facts(2) d(7) by simp
  note whole = enforceExactByteLength_spec [OF d(8) this]
  obtain e0 :: env where inv: "release_inv e0 s2" by (rule reachable_releases [OF assms(2)])
  have nonempty: "\<forall>x \<in> set (schedules s2). sd_id x \<noteq> []" "\<forall>a \<in> set (releaseAssignments s2). ra_releaseId a \<noteq> []"
    using reachable_facts(4) [OF assms(2)] by (simp_all add: named_def)
  have "\<exists>(r, a) \<in> set ras. \<exists>i \<in> set (rl_items r).
      fa_id (fi_asset i) = rq_assetId request \<and> fa_sizeBytes (fi_asset i) = n"
    if "activeOrdinaryReleases e2 s2 (sc_organizationId x) (mv_screenId input) (now e2) = Inr ras" for ras
  proof -
    have "\<exists>(r, a) \<in> set ras. \<exists>i \<in> set (rl_items r). delivers input (now e2) i"
      by (rule delivered_is_active [OF inv nonempty d(6) f(5)]) (use that same in simp)
    then show ?thesis unfolding delivers_def using same(2) f(4) d(7) by fastforce
  qed
  then show ?thesis using c d(1,3) f(2) whole by blast
qed

lemma sample_verified: "verifyMediaCapability (sample_server sample_claims) sample_capability
    (cf_mediaDeliverySecret sample_config) (now (sample_env 8)) = Some sample_claims"
proof -
  have "mediaStorageKey (mx_organizationId (sample_context None)) (fa_id (fi_asset item1))
      (fa_checksumSha256 (fi_asset item1)) = Inr sample_key"
    by (simp add: sample_context_fields item1_fields sample_key_ok)
  moreover have "is_sha256_hex (ra_digestSha256 assignment1)" by (simp add: assignment1_fields digest_hex)
  moreover have "sv_parse_date (sample_server sample_claims)
      (js (toISOString (capability_expiry (sample_context None) (fi_asset item1)))) =
      Some (capability_expiry (sample_context None) (fi_asset item1))"
    unfolding sample_expiry using instant_of_toISOString [OF sample_instants(2)] by (simp add: sample_server_def)
  moreover have "now (sample_env 8) < capability_expiry (sample_context None) (fi_asset item1)"
    by (simp add: sample_expiry)
  ultimately show ?thesis
    unfolding sample_capability_def
    using sample_reads_claims [unfolded sample_claims_def] issued_claims_verify [OF sample_hmac]
      item1_policy(1) by (simp only: sample_claims_def)
qed

lemma sample_capability_text: "MEDIA_CAPABILITY sample_capability"
proof -
  have "item_storage_key (sample_context None) (fi_asset item1) = Inr sample_key"
    by (simp add: item_storage_key_def item1_fields)
  from item_capability [OF sample_hmac sample_named showable1(1) item1_policy(1) this]
  show ?thesis unfolding sample_capability_def sample_claims_def .
qed

lemma sample_delivered:
  "deliver_media (sample_server sample_claims) (cf_mediaDeliverySecret sample_config) (Some sample_objects)
      sample_request (sample_env 8, trusting_store) (sample_env 8, store7) =
    Inr (Reply_object (js ''image/png'') 9 ([1, 2, 3, 4, 5, 6, 7, 8, 9], True))"
proof -
  let ?input = "\<lparr>mv_organizationId = ''org'', mv_screenId = ''iii-'', mv_assignmentId = ''iiiiiii-k'',
        mv_assignmentDigestSha256 = sample_digest, mv_assetId = ''i-'', mv_storageKey = sample_key,
        mv_checksumSha256 = sample_digest, mv_sizeBytes = 9, mv_at = Some 8000\<rparr>"
  have "active_release (sample_env 8) store7 ''org'' ''iii-'' 8000 schedule1 = Inr (Some (release1, assignment1))"
    by (simp add: store7_fields active_release_def schedule1_fields latestAssignment_def
        assignment1_fields schedule0_term schedule0_open is_release_def release1_def digest_eval)
  then have auth: "authorizeMediaDelivery (sample_env 8) store7 ?input = Inr True"
    by (rule active_is_authorized [where i = item1])
      (simp_all add: release1_items store7_fields delivers_def item1_fields assignment1_fields MAX_SAFE_INTEGER_def)
  have f: "mc_assetId sample_claims = js ''i-''" "mc_organizationId sample_claims = js ''org''"
    "mc_storageKey sample_claims = js sample_key" "mc_sizeBytes sample_claims = 9"
    "mc_mimeType sample_claims = js ''image/png''"
    by (simp_all add: sample_claims_def item1_fields sample_context_fields)
  have input: "delivery_input sample_claims (now (sample_env 8)) = Some ?input"
    unfolding sample_claims_def claims_delivery_input
    by (simp add: sample_context_fields item1_fields assignment1_fields)
  have "deliver_media (sample_server sample_claims) (cf_mediaDeliverySecret sample_config) (Some sample_objects)
      sample_request (sample_env 8, trusting_store) (sample_env 8, store7) =
    Inr (Reply_object (mc_mimeType sample_claims) (mc_sizeBytes sample_claims)
      (concat (mo_chunks \<lparr>mo_contentLength = 9, mo_chunks = [[1, 2, 3, 4], [5, 6, 7, 8, 9]],
        mo_breaks = False\<rparr>), True))"
    by (rule deliver_issued [OF sample_verified sample_request_for sample_capability_text _ _ sample_trust _ input auth])
      (simp_all add: f item1_fields sample_object whole_object_def safe_segment_def is_lower_def screen1_fields
        MAX_SAFE_INTEGER_def)
  then show ?thesis by (simp add: f)
qed

theorem served_object_is_active_and_whole_witness:
  "\<exists>(r, a) \<in> set [(release1, assignment1)]. \<exists>i \<in> set (rl_items r).
     fa_id (fi_asset i) = rq_assetId sample_request \<and> fa_sizeBytes (fi_asset i) = 9"
proof -
  obtain D where D: "reachable (\<lambda>_. sample_digest) sample_users (int 7 * 1000) D store7"
    using sample_run(3) by (rule sample_reach)
  have c: "readCapability sample_request = Some sample_capability"
    by (rule read_capability [OF sample_request_for sample_capability_text])
  from served_object_is_active_and_whole [OF sample_delivered D] obtain c claims x screenId where
      d: "readCapability sample_request = Some c"
      "verifyMediaCapability (sample_server sample_claims) c (cf_mediaDeliverySecret sample_config)
        (now (sample_env 8)) = Some claims"
      "capability_screen (sample_env 8) trusting_store claims = Some x" "mc_screenId claims = js screenId"
    and s: "\<forall>ras. activeOrdinaryReleases (sample_env 8) store7 (sc_organizationId x) screenId (now (sample_env 8)) =
        Inr ras \<longrightarrow> (\<exists>(r, a) \<in> set ras. \<exists>i \<in> set (rl_items r).
          fa_id (fi_asset i) = rq_assetId sample_request \<and> fa_sizeBytes (fi_asset i) = 9)"
    by (elim exE conjE) (rule that)
  have "c = sample_capability" using d(1) c by simp
  then have "claims = sample_claims" using d(2) sample_verified by simp
  then have "x = screen1\<lparr>sc_deviceTokenHash := Some ''h''\<rparr>" "js screenId = js ''iii-''"
    using d(3,4) sample_trust by (simp, simp add: sample_claims_def sample_context_fields)
  then have "sc_organizationId x = ''org''" "screenId = ''iii-''" by (simp_all add: screen1_fields)
  with s show ?thesis using served7 [of 8] by simp
qed

end
