(* ===== verification/Request_Properties.thy ===== *)
theory Request_Properties
  imports Player_Api
begin

text \<open>
  How often and how long the player's API client (\<open>apps/player/src/core/api.ts\<close>) asks: the retries of a
  request, and the polling that waits for an enrollment to be approved.
\<close>

section \<open>Retries\<close>

definition failure_after :: "api_failure + 'a \<Rightarrow> int option" where
  "failure_after r = (case r of Inl f \<Rightarrow> af_retryAfterMs f | Inr _ \<Rightarrow> None)"

lemma part_of_ceiling:
  fixes c :: int and x :: rat
  assumes "0 \<le> c" "0 \<le> x" "x < 1"
  shows "0 \<le> \<lfloor>rat_of_int c * (1 / 2 + x * (1 / 2))\<rfloor> \<and> \<lfloor>rat_of_int c * (1 / 2 + x * (1 / 2))\<rfloor> \<le> c"
proof
  have "rat_of_int c * (1 / 2 + x * (1 / 2)) \<le> rat_of_int c * 1"
    using assms by (intro mult_left_mono) simp_all
  then have "\<lfloor>rat_of_int c * (1 / 2 + x * (1 / 2))\<rfloor> \<le> \<lfloor>rat_of_int c\<rfloor>" by (intro floor_mono) simp
  then show "\<lfloor>rat_of_int c * (1 / 2 + x * (1 / 2))\<rfloor> \<le> c" by simp
  have "0 \<le> rat_of_int c * (1 / 2 + x * (1 / 2))" using assms by (intro mult_nonneg_nonneg) simp_all
  then show "0 \<le> \<lfloor>rat_of_int c * (1 / 2 + x * (1 / 2))\<rfloor>" by (simp only: zero_le_floor)
qed

lemma retryDelay_bounds:
  assumes "api_options_valid opts" "0 \<le> random" "random < 1"
    and "\<forall>ms. af_retryAfterMs failure = Some ms \<longrightarrow> 0 \<le> ms"
  shows "0 \<le> retryDelay opts random failure n \<and> retryDelay opts random failure n \<le> ao_retryMaxDelayMs opts"
proof (cases "af_retryAfterMs failure")
  case None
  let ?c = "min (ao_retryMaxDelayMs opts) (ao_retryBaseDelayMs opts * 2 ^ (n - 1))"
  have c: "0 \<le> ?c" "?c \<le> ao_retryMaxDelayMs opts"
    using assms(1) by (simp_all add: api_options_valid_def)
  have "retryDelay opts random failure n = \<lfloor>rat_of_int ?c * (1 / 2 + random * (1 / 2))\<rfloor>"
    unfolding retryDelay_def Let_def None by simp
  then show ?thesis using part_of_ceiling [OF c(1) assms(2,3)] c(2) by linarith
next
  case (Some ms)
  then show ?thesis using assms(1,4) by (simp add: retryDelay_def api_options_valid_def)
qed

lemma with_retries_bounds:
  assumes "api_options_valid opts"
    and "\<forall>(r, x) \<in> set rs. 0 \<le> x \<and> x < 1 \<and> (\<forall>ms. failure_after r = Some ms \<longrightarrow> 0 \<le> ms)"
    and "with_retries opts maxAttempts n rs = (pauses, out)" "n \<le> maxAttempts"
  shows "length pauses + n \<le> maxAttempts \<and> (\<forall>p \<in> set pauses. 0 \<le> p \<and> p \<le> ao_retryMaxDelayMs opts) \<and>
    (maxAttempts < length rs + n \<longrightarrow> out \<noteq> None)"
  using assms(2-4)
proof (induction rs arbitrary: n pauses)
  case Nil
  then show ?case by simp
next
  case (Cons a rs)
  obtain r random where a: "a = (r, random)" by (cases a)
  show ?case
  proof (cases "\<exists>f. r = Inl f \<and> af_retryable f \<and> n < maxAttempts")
    case False
    then have "pauses = []" "out \<noteq> None"
      using Cons.prems(2) by (auto simp: a split: sum.splits if_splits)
    then show ?thesis using Cons.prems(3) by simp
  next
    case True
    then obtain f where f: "r = Inl f" "af_retryable f" "n < maxAttempts" by blast
    obtain ps where ps: "with_retries opts maxAttempts (n + 1) rs = (ps, out)"
        "pauses = retryDelay opts random f n # ps"
      using Cons.prems(2) f by (auto simp: a split: prod.splits)
    have "0 \<le> random" "random < 1" "\<forall>ms. af_retryAfterMs f = Some ms \<longrightarrow> 0 \<le> ms"
      using Cons.prems(1) f(1) by (simp_all add: a failure_after_def)
    note d = retryDelay_bounds [OF assms(1) this, of n]
    have "length ps + (n + 1) \<le> maxAttempts \<and> (\<forall>p \<in> set ps. 0 \<le> p \<and> p \<le> ao_retryMaxDelayMs opts) \<and>
        (maxAttempts < length rs + (n + 1) \<longrightarrow> out \<noteq> None)"
      by (rule Cons.IH [OF _ ps(1)]) (use Cons.prems(1) f(3) in simp_all)
    then show ?thesis using d by (simp add: ps(2))
  qed
qed

text \<open>
  A request is attempted at most as often as the options allow, with pauses up to the longest delay,
  and once that many results have come it has an outcome.
\<close>

theorem retries_are_bounded:
  assumes "api_options_valid opts"
    and "\<forall>(r, x) \<in> set rs. 0 \<le> x \<and> x < 1 \<and> (\<forall>ms. failure_after r = Some ms \<longrightarrow> 0 \<le> ms)"
    and "with_retries opts (ao_manifestMaxAttempts opts) 1 rs = (pauses, out)"
  shows "length pauses < ao_manifestMaxAttempts opts"
    and "\<forall>p \<in> set pauses. 0 \<le> p \<and> p \<le> ao_retryMaxDelayMs opts"
    and "ao_manifestMaxAttempts opts \<le> length rs \<longrightarrow> out \<noteq> None"
  using with_retries_bounds [OF assms(1,2,3)] assms(1) by (simp_all add: api_options_valid_def)

section \<open>Waiting for approval\<close>

lemma failed_turn_again:
  assumes "failed_turn opts deadline t f = Poll_again pause x" "1 \<le> ao_pollIntervalMs opts"
    and "\<forall>ms. af_retryAfterMs f = Some ms \<longrightarrow> 1 \<le> ms"
  shows "1 \<le> pause \<and> pause \<le> deadline - t \<and> x = None"
proof -
  have t: "1 \<le> deadline - t" and p: "x = None"
    "pause = min (case (af_status f, af_retryAfterMs f) of
          (Some status, Some ms) \<Rightarrow> if status = 429 then ms else ao_pollIntervalMs opts
        | _ \<Rightarrow> ao_pollIntervalMs opts) (deadline - t)"
    using assms(1) by (simp_all add: failed_turn_def split: if_splits)
  have "1 \<le> (case (af_status f, af_retryAfterMs f) of
          (Some status, Some ms) \<Rightarrow> if status = 429 then ms else ao_pollIntervalMs opts
        | _ \<Rightarrow> ao_pollIntervalMs opts)"
    using assms(2,3) by (simp split: option.split)
  with t p show ?thesis by simp
qed

lemma pending_turn_again:
  assumes "poll_step pf opts recovery deadline t t' (Inr (status, response)) = Poll_again pause x"
    and "1 \<le> ao_pollIntervalMs opts"
  shows "1 \<le> pause \<and> pause \<le> deadline - t'"
proof -
  let ?u = "min (the (date_parse pf (field response ''expiresAt''))) deadline"
  have "\<not> ?u - t' \<le> 0" "pause = min (ao_pollIntervalMs opts) (?u - t')"
    using assms(1) by (simp_all add: poll_step_def Let_def split: if_splits)
  then show ?thesis using assms(2) by simp
qed

lemma poll_again:
  assumes "poll_step pf opts recovery deadline t t' r = Poll_again pause x" "1 \<le> ao_pollIntervalMs opts"
    and "\<forall>ms. failure_after r = Some ms \<longrightarrow> 1 \<le> ms" "t \<le> t'"
  shows "1 \<le> pause \<and> t < deadline"
proof (cases r)
  case (Inl f)
  then show ?thesis
    using failed_turn_again [of opts deadline t f pause x] assms by (simp add: poll_step_def failure_after_def)
next
  case (Inr y)
  obtain status response where "y = (status, response)" by (cases y)
  then show ?thesis using pending_turn_again [of pf opts recovery deadline t t' status response pause x]
      assms Inr by simp
qed

lemma poll_run_ends:
  assumes "1 \<le> ao_pollIntervalMs opts" "\<forall>(r, t, t') \<in> set rs. \<forall>ms. failure_after r = Some ms \<longrightarrow> 1 \<le> ms"
    and "poll_run pf opts recovery deadline soonest rs = (ts, out)"
  shows "length ts \<le> nat (deadline - soonest) + 1 \<and> (nat (deadline - soonest) < length rs \<longrightarrow> out \<noteq> None) \<and>
    (\<forall>u \<in> set (butlast ts). u < deadline)"
  using assms(2,3)
proof (induction rs arbitrary: soonest ts)
  case Nil
  then show ?case by simp
next
  case (Cons a rs)
  obtain r t t' where a: "a = (r, t, t')" by (cases a)
  define u where "u = max soonest t"
  define after where "after = max u t'"
  have le: "soonest \<le> u" "u \<le> after" by (simp_all add: u_def after_def)
  show ?case
  proof (cases "poll_step pf opts recovery deadline u after r")
    case (Poll_again pause x)
    then obtain us where us: "poll_run pf opts recovery deadline (after + pause) rs = (us, out)" "ts = u # us"
      using Cons.prems(2) by (auto simp: a Let_def u_def after_def split: prod.splits)
    have "\<forall>ms. failure_after r = Some ms \<longrightarrow> 1 \<le> ms" using Cons.prems(1) by (simp add: a)
    note p = poll_again [OF Poll_again assms(1) this le(2)]
    have "length us \<le> nat (deadline - (after + pause)) + 1 \<and>
        (nat (deadline - (after + pause)) < length rs \<longrightarrow> out \<noteq> None) \<and> (\<forall>u \<in> set (butlast us). u < deadline)"
      by (rule Cons.IH [OF _ us(1)]) (use Cons.prems(1) in simp)
    moreover have "nat (deadline - (after + pause)) + 1 \<le> nat (deadline - soonest)" using p le by linarith
    ultimately show ?thesis using p by (auto simp: us(2))
  qed (use Cons.prems(2) in \<open>auto simp: a Let_def simp flip: u_def after_def\<close>)
qed

text \<open>
  C30: waiting for the approval of an enrollment ends: after every attempt that does not settle it
  the player pauses, only the last attempt can be after the deadline, and once it has had more
  results than milliseconds were left it is paired or has failed.  This rests on a poll interval, and
  waits asked for by the API, of at least a millisecond, and on a time that does not go back: a
  clock that is set back while the player waits defers the deadline by as much.
\<close>

theorem polling_ends:
  assumes "api_options_valid opts" "\<forall>(r, t, t') \<in> set rs. \<forall>ms. failure_after r = Some ms \<longrightarrow> 1 \<le> ms"
    and "poll_run pf opts recovery deadline soonest rs = (ts, out)"
  shows "length ts \<le> nat (deadline - soonest) + 1 \<and> (nat (deadline - soonest) < length rs \<longrightarrow> out \<noteq> None) \<and>
    (\<forall>u \<in> set (butlast ts). u < deadline)"
  using poll_run_ends [OF _ assms(2,3)] assms(1) by (simp add: api_options_valid_def)

definition busy :: "api_failure" where
  "busy = \<lparr>af_kind = Http, af_retryable = True, af_status = Some 429, af_retryAfterMs = Some 4\<rparr>"

lemma busy_run: "poll_run pf default_api_options JNull 10 0
    [(Inl busy, 1, 1), (Inl busy, 2, 2), (Inl busy, 9, 9), (Inl busy, 11, 11), (Inl busy, 12, 12)] =
    ([1, 5, 9, 11], Some Poll_fails)"
  by (simp add: poll_step_def failed_turn_def busy_def Let_def)

theorem polling_ends_witness: "length [1, 5, 9, 11 :: int] \<le> nat (10 - 0) + 1 \<and>
    list_all (\<lambda>u. u < 10) (butlast [1, 5, 9, 11 :: int])"
proof -
  have v: "api_options_valid default_api_options" by (simp add: api_options_valid_def default_api_options_def)
  have r: "\<forall>(r :: api_failure + int \<times> json, t, t') \<in> set [(Inl busy, 1, 1), (Inl busy, 2, 2), (Inl busy, 9, 9),
      (Inl busy, 11, 11), (Inl busy, 12, 12)]. \<forall>ms. failure_after r = Some ms \<longrightarrow> 1 \<le> ms"
    by (simp add: failure_after_def busy_def)
  from polling_ends [OF v _ busy_run] r show ?thesis by simp
qed

end
