(* ===== verification/Scoped_Properties.thy ===== *)
theory Scoped_Properties
  imports Scoped
begin

text \<open>
  The properties of scoped authorization: the decision is the policy, it does not depend on the
  order of its inputs, and the instants it reads are canonical.
\<close>

section \<open>The policy\<close>

text \<open>
  What the policy means, without normalisation, sorting and selection: the role is the ceiling, and
  applicable grants with distinct identifiers cover every target, or the organization when the
  capability has no targets.
\<close>

definition scoped_policy :: "scoped_input \<Rightarrow> instant \<Rightarrow> capability \<Rightarrow> bool" where
  "scoped_policy input at c \<longleftrightarrow>
     (let applicable = filter (grant_applies input at) (si_grants input) in
      hasCapability (known_role (si_role input)) c \<and> c \<noteq> authorizationManage \<and>
      distinct (map gt_id applicable) \<and>
      (if c \<in> set ORGANIZATION_SCOPED_CAPABILITIES
       then si_targets input = [] \<and> (\<exists>g \<in> set applicable. gt_scopeType g = ''ORGANIZATION'')
       else si_targets input \<noteq> [] \<and>
         (\<forall>t \<in> set (si_targets input). \<exists>g \<in> set applicable. grant_covers g t)))"

definition targets_valid :: "scoped_input \<Rightarrow> bool" where
  "targets_valid input \<longleftrightarrow> list_all (target_valid (si_organizationId input)) (si_targets input) \<and>
     distinct (map st_screenId (si_targets input))"

lemma held_capability:
  "hasCapability r c \<Longrightarrow> c \<notin> set ORGANIZATION_SCOPED_CAPABILITIES \<Longrightarrow> c \<noteq> authorizationManage \<Longrightarrow>
    c \<in> set TARGET_SCOPED_CAPABILITIES"
  by (cases r; cases "the r")
    (auto simp: hasCapability_def ORGANIZATION_SCOPED_CAPABILITIES_def TARGET_SCOPED_CAPABILITIES_def)

lemma normalizeTargets_eq:
  "normalizeTargets e (si_organizationId input) (si_targets input) =
    (if targets_valid input
     then Some (sort_by (by_screen_id e) (map normalize_target (si_targets input))) else None)"
  by (simp add: normalizeTargets_def normalize_targets_from_eq targets_valid_def list_all_iff)

lemma map_filter_if: "List.map_filter (\<lambda>x. if P x then Some (f x) else None) xs = map f (filter P xs)"
  by (induction xs) (simp_all add: map_filter_simps)

lemma active_grants_eq:
  "active_grants e input at =
    sort_by (by_grant_id e) (map normalize_grant (filter (grant_applies input at) (si_grants input)))"
  by (simp add: active_grants_def activeGrant_eq map_filter_if)

lemma length_js_unique: "length (js_unique (map f xs)) = length xs \<longleftrightarrow> distinct (map f xs)"
  using card_distinct [of "map f xs"] distinct_card [of "map f xs"]
    distinct_card [of "js_unique (map f xs)"] by auto

lemma active_ids_distinct:
  "distinct (map ng_id (active_grants e input at)) \<longleftrightarrow>
    distinct (map gt_id (filter (grant_applies input at) (si_grants input)))"
proof -
  have "image_mset ng_id (image_mset normalize_grant M) = image_mset gt_id M" for M
    by (induction M) (simp_all add: normalize_grant_def)
  then have "mset (map ng_id (active_grants e input at)) =
      mset (map gt_id (filter (grant_applies input at) (si_grants input)))"
    by (simp add: active_grants_eq)
  then show ?thesis by (rule mset_eq_imp_distinct_iff)
qed

lemma applies_valid: "grant_applies input at g \<Longrightarrow> scope_id_valid g \<and> gt_scopeType g \<in> set known_scope_types"
  by (simp add: grant_applies_def)

lemma active_covers:
  "(\<exists>g \<in> set (active_grants e input at). coversTarget g (normalize_target t)) \<longleftrightarrow>
    (\<exists>g \<in> set (filter (grant_applies input at) (si_grants input)). grant_covers g t)"
  using covers_normalized applies_valid by (auto simp: set_active_grants)

lemma active_organization:
  "(\<exists>g \<in> set (active_grants e input at). ng_scopeType g = ''ORGANIZATION'') \<longleftrightarrow>
    (\<exists>g \<in> set (filter (grant_applies input at) (si_grants input)). gt_scopeType g = ''ORGANIZATION'')"
  by (auto simp: set_active_grants normalize_grant_def)

text \<open>The reason of a decision whose context is sound.\<close>

definition scoped_outcome :: "env \<Rightarrow> scoped_input \<Rightarrow> instant \<Rightarrow> capability \<Rightarrow> scoped_reason \<times> normalized_grant list" where
  "scoped_outcome e input at c =
     (let active = active_grants e input at;
          targets = sort_by (by_screen_id e) (map normalize_target (si_targets input)) in
      if \<not> hasCapability (known_role (si_role input)) c then (ROLE_CEILING_DENIED, [])
      else if \<not> distinct (map ng_id active) then (INVALID_CONTEXT, [])
      else if c = authorizationManage then (SCOPE_DENIED, [])
      else if c \<in> set ORGANIZATION_SCOPED_CAPABILITIES
      then (if si_targets input \<noteq> [] then (ORGANIZATION_SCOPE_REQUIRED, [])
        else case List.find (\<lambda>g. ng_scopeType g = ''ORGANIZATION'') active of
          Some g \<Rightarrow> (ALLOWED, [g]) | None \<Rightarrow> (SCOPE_DENIED, []))
      else if si_targets input = [] then (TARGETS_REQUIRED, [])
      else case select_grants active targets of
        None \<Rightarrow> (SCOPE_DENIED, []) | Some gs \<Rightarrow> (ALLOWED, gs))"

lemma sort_by_empty: "sort_by cmp xs = [] \<longleftrightarrow> xs = []"
  by (metis length_0_conv length_sort_by)

lemma evaluate_eq:
  assumes "normalizedInstant (si_evaluatedAt input) = Some (at, x)" "targets_valid input"
    "context_valid input" "known_capability (si_capability input) = Some c"
  shows "evaluateScopedAuthorization e input =
    scoped_decide e input (sort_by (by_screen_id e) (map normalize_target (si_targets input)))
      (fst (scoped_outcome e input at c)) (snd (scoped_outcome e input at c))"
proof (cases "hasCapability (known_role (si_role input)) c \<and>
    c \<notin> set ORGANIZATION_SCOPED_CAPABILITIES \<and> c \<noteq> authorizationManage")
  case True
  then have "c \<in> set TARGET_SCOPED_CAPABILITIES" using held_capability by blast
  with True assms show ?thesis
    by (simp add: evaluateScopedAuthorization_def normalizeTargets_eq scoped_outcome_def Let_def
        length_js_unique sort_by_empty split: option.splits)
next
  case False
  with assms show ?thesis
    by (simp add: evaluateScopedAuthorization_def normalizeTargets_eq scoped_outcome_def Let_def
        length_js_unique sort_by_empty split: option.splits) auto
qed

lemma evaluate_denied:
  assumes "sd_allowed (evaluateScopedAuthorization e input)"
  obtains at x c where "normalizedInstant (si_evaluatedAt input) = Some (at, x)" "targets_valid input"
    "context_valid input" "known_capability (si_capability input) = Some c"
  using assms
  by (auto simp: evaluateScopedAuthorization_def normalizeTargets_eq scoped_decide_def
      split: option.splits if_splits)

lemma outcome_allowed:
  "fst (scoped_outcome e input at c) = ALLOWED \<longleftrightarrow> scoped_policy input at c"
proof -
  have s: "(\<exists>gs. select_grants (active_grants e input at)
        (sort_by (by_screen_id e) (map normalize_target (si_targets input))) = Some gs) \<longleftrightarrow>
      (\<forall>t \<in> set (si_targets input).
        \<exists>g \<in> set (filter (grant_applies input at) (si_grants input)). grant_covers g t)"
    unfolding select_grants_Some by (simp only: set_sort_by set_map ball_simps active_covers)
  have o: "(\<exists>g. List.find (\<lambda>g. ng_scopeType g = ''ORGANIZATION'') (active_grants e input at) = Some g) \<longleftrightarrow>
      (\<exists>g \<in> set (filter (grant_applies input at) (si_grants input)). gt_scopeType g = ''ORGANIZATION'')"
    unfolding active_organization [of e, symmetric] not_None_eq [symmetric] find_None_all by simp
  show ?thesis
    using s o
    by (auto simp: scoped_outcome_def scoped_policy_def Let_def active_ids_distinct
        simp del: set_filter split: option.splits)
qed

section \<open>Order\<close>

text \<open>The same request with its grants and targets in another order.\<close>

definition same_request :: "scoped_input \<Rightarrow> scoped_input \<Rightarrow> bool" where
  "same_request a b \<longleftrightarrow>
     (\<exists>gs ts. b = a\<lparr>si_grants := gs, si_targets := ts\<rparr> \<and>
       mset gs = mset (si_grants a) \<and> mset ts = mset (si_targets a))"

text \<open>The collation tells the identifiers of a request apart.\<close>

definition ids_apart :: "env \<Rightarrow> scoped_input \<Rightarrow> bool" where
  "ids_apart e a \<longleftrightarrow>
     (let ids = gt_id ` set (si_grants a) \<union> st_screenId ` set (si_targets a) in
      \<forall>i \<in> ids. \<forall>j \<in> ids. localeCompare e i j \<le> 0 \<longrightarrow> localeCompare e j i \<le> 0 \<longrightarrow> i = j)"

lemma same_request_fields:
  assumes "same_request a b"
  shows "si_organizationId b = si_organizationId a" "si_actorUserId b = si_actorUserId a"
    "si_membershipId b = si_membershipId a" "si_role b = si_role a"
    "si_authorizationEpoch b = si_authorizationEpoch a" "si_capability b = si_capability a"
    "si_evaluatedAt b = si_evaluatedAt a"
    "mset (si_grants b) = mset (si_grants a)" "mset (si_targets b) = mset (si_targets a)"
proof -
  obtain gs ts where b: "b = a\<lparr>si_grants := gs, si_targets := ts\<rparr>"
    and m: "mset gs = mset (si_grants a)" "mset ts = mset (si_targets a)"
    using assms by (auto simp: same_request_def)
  show "si_organizationId b = si_organizationId a" "si_actorUserId b = si_actorUserId a"
    "si_membershipId b = si_membershipId a" "si_role b = si_role a"
    "si_authorizationEpoch b = si_authorizationEpoch a" "si_capability b = si_capability a"
    "si_evaluatedAt b = si_evaluatedAt a"
    "mset (si_grants b) = mset (si_grants a)" "mset (si_targets b) = mset (si_targets a)"
    by (simp_all add: b m)
qed

lemma ids_apart_eq:
  assumes "ids_apart e a" "i \<in> gt_id ` set (si_grants a) \<union> st_screenId ` set (si_targets a)"
    "j \<in> gt_id ` set (si_grants a) \<union> st_screenId ` set (si_targets a)"
    "localeCompare e i j \<le> 0" "localeCompare e j i \<le> 0"
  shows "i = j"
  using assms unfolding ids_apart_def Let_def by blast

lemma same_targets:
  assumes "same_request a b" "collation (localeCompare e)" "ids_apart e a"
  shows "normalizeTargets e (si_organizationId a) (si_targets b) =
    normalizeTargets e (si_organizationId a) (si_targets a)"
proof -
  note f = same_request_fields [OF assms(1)]
  have v: "targets_valid b = targets_valid a"
    using mset_eq_setD [OF f(9)] mset_eq_imp_distinct_iff [of "map st_screenId (si_targets b)"
      "map st_screenId (si_targets a)"] f(9)
    by (simp add: targets_valid_def list_all_iff f(1))
  have "sort_by (by_screen_id e) (map normalize_target (si_targets a)) =
      sort_by (by_screen_id e) (map normalize_target (si_targets b))" if "targets_valid a"
  proof (rule sort_by_unique)
    show "comparator (by_screen_id e)" unfolding by_screen_id_def
      by (rule comparator_map [OF assms(2) [unfolded collation_def]])
    show "mset (map normalize_target (si_targets a)) = mset (map normalize_target (si_targets b))"
      by (simp add: f(9))
    fix x y
    assume xy: "x \<in> set (map normalize_target (si_targets a))"
      "y \<in> set (map normalize_target (si_targets a))" "by_screen_id e x y \<le> 0" "by_screen_id e y x \<le> 0"
    then obtain s t where st: "s \<in> set (si_targets a)" "t \<in> set (si_targets a)"
      "x = normalize_target s" "y = normalize_target t" by auto
    have "st_screenId s = st_screenId t"
      using xy(3,4) st by (intro ids_apart_eq [OF assms(3)])
        (auto simp: by_screen_id_def normalize_target_def)
    then show "x = y" using that st distinct_key_inj [of st_screenId "si_targets a" s t]
      by (simp add: targets_valid_def)
  qed
  with v show ?thesis using normalizeTargets_eq [of e b] by (simp add: normalizeTargets_eq f(1))
qed

lemma same_applies:
  "same_request a b \<Longrightarrow> grant_applies b at = grant_applies a at"
  by (rule ext) (simp add: grant_applies_def same_request_fields)

lemma same_active:
  assumes "same_request a b" "collation (localeCompare e)" "ids_apart e a"
    and "distinct (map ng_id (active_grants e a at))"
  shows "active_grants e b at = active_grants e a at"
  unfolding active_grants_eq same_applies [OF assms(1)]
proof (rule sort_by_unique)
  let ?ga = "filter (grant_applies a at) (si_grants a)"
  show "comparator (by_grant_id e)" unfolding by_grant_id_def
    by (rule comparator_map [OF assms(2) [unfolded collation_def]])
  have m: "mset (filter (grant_applies a at) (si_grants b)) = mset ?ga"
    by (simp add: same_request_fields(8) [OF assms(1)])
  then show "mset (map normalize_grant (filter (grant_applies a at) (si_grants b))) =
      mset (map normalize_grant ?ga)"
    by simp
  fix x y
  assume xy: "x \<in> set (map normalize_grant (filter (grant_applies a at) (si_grants b)))"
    "y \<in> set (map normalize_grant (filter (grant_applies a at) (si_grants b)))"
    "by_grant_id e x y \<le> 0" "by_grant_id e y x \<le> 0"
  then obtain g h where gh: "g \<in> set ?ga" "h \<in> set ?ga" "x = normalize_grant g" "y = normalize_grant h"
    using mset_eq_setD [OF m] by auto
  then have "gt_id g = gt_id h"
    using xy(3,4) by (intro ids_apart_eq [OF assms(3)]) (auto simp: by_grant_id_def normalize_grant_def)
  then show "x = y" using assms(4) gh distinct_key_inj [of gt_id ?ga g h]
    by (simp add: active_ids_distinct)
qed

lemma same_active_distinct:
  assumes "same_request a b"
  shows "distinct (map ng_id (active_grants e b at)) = distinct (map ng_id (active_grants e a at))"
  unfolding active_ids_distinct same_applies [OF assms]
  by (rule mset_eq_imp_distinct_iff) (simp add: same_request_fields(8) [OF assms])

lemma same_decide:
  "same_request a b \<Longrightarrow> scoped_decide e b targets reason gs = scoped_decide e a targets reason gs"
  by (simp add: scoped_decide_def scoped_evidence_def same_request_fields)

section \<open>A sample request\<close>

definition grant1 :: "string \<Rightarrow> string \<Rightarrow> string \<Rightarrow> scoped_grant" where
  "grant1 i scopeType scopeId = \<lparr>gt_id = i, gt_organizationId = ''org'', gt_subjectUserId = ''ann'',
     gt_subjectMembershipId = ''mem'', gt_capability = ''release.publish'', gt_scopeType = scopeType,
     gt_scopeId = Some scopeId, gt_startsAt = toISOString 1000, gt_expiresAt = Some (toISOString 9000),
     gt_revokedAt = None\<rparr>"

definition target1 :: "string \<Rightarrow> string \<Rightarrow> scoped_target" where
  "target1 i location = \<lparr>st_organizationId = ''org'', st_screenId = i, st_locationId = Some location,
     st_screenGroupIds = []\<rparr>"

definition request1 :: scoped_input where
  "request1 = \<lparr>si_organizationId = ''org'', si_actorUserId = ''ann'', si_membershipId = ''mem'',
     si_role = Some ''PUBLISHER'', si_authorizationEpoch = 0, si_capability = Some ''release.publish'',
     si_evaluatedAt = toISOString 5000,
     si_grants = [grant1 ''g1'' ''LOCATION'' ''l1'', grant1 ''g2'' ''SCREEN'' ''s2''],
     si_targets = [target1 ''s1'' ''l1'', target1 ''s2'' ''l2'']\<rparr>"

definition request2 :: scoped_input where
  "request2 = request1\<lparr>si_grants := rev (si_grants request1), si_targets := rev (si_targets request1)\<rparr>"

lemma request1_instants:
  "normalizedInstant (toISOString 1000) = Some (1000, toISOString 1000)"
  "normalizedInstant (toISOString 5000) = Some (5000, toISOString 5000)"
  "normalizedInstant (toISOString 9000) = Some (9000, toISOString 9000)"
  by (simp_all add: normalizedInstant_def Let_def parse_toISOString four_digit_year_def
      year_from_day_def day_from_year_def ms_per_day_def)

lemma request1_permitted: "scoped_policy request1 5000 releasePublish"
  by (simp add: scoped_policy_def request1_def grant1_def target1_def grant_applies_def
      request1_instants scope_id_valid_def known_scope_types_def grant_covers_def known_role_def
      hasCapability_def ORGANIZATION_SCOPED_CAPABILITIES_def)

lemma request1_allowed: "sd_allowed (evaluateScopedAuthorization e request1)"
proof -
  have "normalizedInstant (si_evaluatedAt request1) = Some (5000, toISOString 5000)"
    "targets_valid request1" "context_valid request1"
    "known_capability (si_capability request1) = Some releasePublish"
    by (simp_all add: request1_def request1_instants targets_valid_def target_valid_def target1_def
        context_valid_def known_capability_def all_capabilities_def)
  then show ?thesis
    by (simp add: evaluate_eq scoped_decide_def outcome_allowed request1_permitted)
qed

section \<open>Properties\<close>

text \<open>
  C17: the evaluation of a scoped authorization implements the policy: it allows exactly the
  requests whose context is sound, whose capability is known, and that the policy permits at the
  instant of the evaluation.
\<close>

theorem scoped_decision_is_policy:
  "sd_allowed (evaluateScopedAuthorization e input) \<longleftrightarrow>
    context_valid input \<and> targets_valid input \<and>
    (\<exists>at c. normalizedInstant (si_evaluatedAt input) = Some (at, si_evaluatedAt input) \<and>
      known_capability (si_capability input) = Some c \<and> scoped_policy input at c)"
proof
  assume a: "sd_allowed (evaluateScopedAuthorization e input)"
  obtain at x c where w: "normalizedInstant (si_evaluatedAt input) = Some (at, x)" "targets_valid input"
      "context_valid input" "known_capability (si_capability input) = Some c"
    using a by (rule evaluate_denied)
  from a have "scoped_policy input at c"
    by (simp add: evaluate_eq [OF w] scoped_decide_def outcome_allowed)
  then show "context_valid input \<and> targets_valid input \<and>
    (\<exists>at c. normalizedInstant (si_evaluatedAt input) = Some (at, si_evaluatedAt input) \<and>
      known_capability (si_capability input) = Some c \<and> scoped_policy input at c)"
    using w normalizedInstant_canonical [OF w(1)] by blast
next
  assume "context_valid input \<and> targets_valid input \<and>
    (\<exists>at c. normalizedInstant (si_evaluatedAt input) = Some (at, si_evaluatedAt input) \<and>
      known_capability (si_capability input) = Some c \<and> scoped_policy input at c)"
  then obtain at c where "normalizedInstant (si_evaluatedAt input) = Some (at, si_evaluatedAt input)"
      "targets_valid input" "context_valid input" "known_capability (si_capability input) = Some c"
      "scoped_policy input at c" by blast
  then show "sd_allowed (evaluateScopedAuthorization e input)"
    by (simp add: evaluate_eq scoped_decide_def outcome_allowed)
qed

text \<open>
  The decision, its matching grants and its evidence digest do not depend on the order in which
  grants and targets are given, as long as the collation tells their identifiers apart.
\<close>

theorem scoped_decision_ignores_order:
  assumes "same_request a b" "collation (localeCompare e)" "ids_apart e a"
  shows "evaluateScopedAuthorization e b = evaluateScopedAuthorization e a"
proof (cases "normalizedInstant (si_evaluatedAt a)")
  case None
  then show ?thesis
    by (simp add: evaluateScopedAuthorization_def same_targets [OF assms] same_request_fields [OF assms(1)]
        same_decide [OF assms(1)] split: option.splits)
next
  case (Some p)
  obtain at x where p: "p = (at, x)" by (cases p)
  have c: "context_valid b = context_valid a"
    by (simp add: context_valid_def same_request_fields [OF assms(1)])
  show ?thesis
  proof (cases "distinct (map ng_id (active_grants e a at))")
    case True
    with Some p c show ?thesis
      by (simp add: evaluateScopedAuthorization_def same_targets [OF assms]
          same_request_fields [OF assms(1)] same_decide [OF assms(1)] same_active [OF assms True] Let_def
          split: option.splits)
  next
    case False
    with Some p c show ?thesis
      by (simp add: evaluateScopedAuthorization_def same_targets [OF assms] length_js_unique
          same_request_fields [OF assms(1)] same_decide [OF assms(1)] same_active_distinct [OF assms(1)]
          Let_def split: option.splits)
  qed
qed

theorem scoped_decision_ignores_order_witness:
  "\<exists>e. evaluateScopedAuthorization e request2 = evaluateScopedAuthorization e request1 \<and>
    sd_allowed (evaluateScopedAuthorization e request1)"
proof
  let ?e = "undefined\<lparr>localeCompare := code_unit_compare\<rparr> :: env"
  have s: "same_request request1 request2" unfolding same_request_def request2_def
    by (rule exI [of _ "rev (si_grants request1)"], rule exI [of _ "rev (si_targets request1)"]) simp
  have c: "collation (localeCompare ?e)" by (simp add: collation_code_unit_compare)
  have i: "ids_apart ?e request1" by (auto simp: ids_apart_def code_unit_compare_def split: if_splits)
  from scoped_decision_ignores_order [OF s c i]
  show "evaluateScopedAuthorization ?e request2 = evaluateScopedAuthorization ?e request1 \<and>
    sd_allowed (evaluateScopedAuthorization ?e request1)"
    using request1_allowed by blast
qed

text \<open>
  The instants the evaluation reads are exactly the texts \<open>toISOString\<close> writes: reading the text
  of an instant with a four-digit year gives the instant back, and no other text is accepted for it.
\<close>

theorem canonical_instants_round_trip:
  assumes "four_digit_year t"
  shows "normalizedInstant s = Some (t, c) \<longleftrightarrow> s = toISOString t \<and> c = s"
proof
  assume "normalizedInstant s = Some (t, c)"
  then show "s = toISOString t \<and> c = s" by (auto dest: normalizedInstant_canonical)
next
  assume "s = toISOString t \<and> c = s"
  then show "normalizedInstant s = Some (t, c)"
    by (simp add: normalizedInstant_def Let_def parse_toISOString [OF assms])
qed

theorem canonical_instants_round_trip_witness:
  "normalizedInstant (toISOString 5000) = Some (5000, toISOString 5000)"
proof -
  have "four_digit_year 5000"
    by (simp add: four_digit_year_def year_from_day_def day_from_year_def ms_per_day_def)
  from canonical_instants_round_trip [OF this] show ?thesis by blast
qed

end
