(* ===== verification/Device_Signatures.thy ===== *)
theory Device_Signatures
  imports Player_Api
begin

text \<open>
  Device signatures: the API's checks of base64url values, P-256 identities and DER signatures
  (\<open>apps/api/src/device-proof/crypto.ts\<close>) and the player's checks of what its native plugin answers
  (\<open>apps/player/src/core/device.ts\<close>).  SHA-256, the reading of a public key and the verification of
  ECDSA are parameters.
\<close>

section \<open>Base64url values\<close>

text \<open>\<open>decodeCanonicalBase64Url\<close> of the API; None stands for its \<open>DeviceProofFormatError\<close>.\<close>

definition decodeCanonicalBase64Url :: "nat \<Rightarrow> nat \<Rightarrow> utext \<Rightarrow> nat list option" where
  "decodeCanonicalBase64Url minimumBytes maximumBytes value =
     (if value = [] \<or> \<not> list_all (\<lambda>u. sextet u \<noteq> None) value then None
      else let decoded = node_decode value in
      if length decoded < minimumBytes \<or> length decoded > maximumBytes \<or> base64url decoded \<noteq> value
      then None else Some decoded)"

section \<open>DER\<close>

text \<open>
  \<open>isStrictEcdsaDer\<close>: a sequence of two integers.  One turn of its loop reads an integer at an offset
  and gives the offset after it; reading past the end is \<open>undefined\<close>, which no comparison accepts.
\<close>

definition byte_at :: "nat list \<Rightarrow> nat \<Rightarrow> nat option" where
  "byte_at bs i = (if i < length bs then Some (bs ! i) else None)"

definition high_bit :: "nat \<Rightarrow> bool" where
  "high_bit b \<longleftrightarrow> odd (b div 128)"

definition der_integer_at :: "nat list \<Rightarrow> nat \<Rightarrow> nat option" where
  "der_integer_at signature offset =
     (if byte_at signature offset \<noteq> Some 2 then None
      else case byte_at signature (offset + 1) of
        None \<Rightarrow> None
      | Some n \<Rightarrow>
          if n = 0 \<or> n > 33 \<or> offset + 2 + n > length signature then None
          else (case byte_at signature (offset + 2) of
            None \<Rightarrow> None
          | Some first \<Rightarrow>
              if high_bit first \<or> (n > 1 \<and> first = 0 \<and> \<not> high_bit (signature ! (offset + 3))) then None
              else Some (offset + 2 + n)))"

definition isStrictEcdsaDer :: "nat list \<Rightarrow> bool" where
  "isStrictEcdsaDer signature \<longleftrightarrow>
     8 \<le> length signature \<and> length signature \<le> 72 \<and> byte_at signature 0 = Some 48 \<and>
     byte_at signature 1 = Some (length signature - 2) \<and>
     (case der_integer_at signature 2 of
        None \<Rightarrow> False
      | Some offset \<Rightarrow> der_integer_at signature offset = Some (length signature))"

section \<open>Identities and signatures\<close>

text \<open>
  \<open>dc_public_key\<close> is the reading of a DER public key: whether it is a P-256 key and its canonical
  encoding, None if it throws.
\<close>

record device_crypto =
  dk_sha256 :: "nat list \<Rightarrow> nat list"
  dk_public_key :: "nat list \<Rightarrow> (bool \<times> nat list) option"
  dk_verify :: "nat list \<Rightarrow> nat list \<Rightarrow> nat list \<Rightarrow> bool" \<comment> \<open>of key, message and signature\<close>

record p256_identity =
  p2_publicKeySpki :: utext
  p2_keyId :: utext

datatype identity_error = Format_error | Key_identifier_invalid | Public_key_invalid | Not_p256 |
  Encoding_invalid

text \<open>The key it returns is given by its encoding.\<close>

definition validateP256Identity :: "device_crypto \<Rightarrow> p256_identity \<Rightarrow> identity_error + nat list" where
  "validateP256Identity dk identity =
     (case decodeCanonicalBase64Url 80 256 (p2_publicKeySpki identity) of
        None \<Rightarrow> Inl Format_error
      | Some spki \<Rightarrow>
          if p2_keyId identity \<noteq> base64url (dk_sha256 dk spki) then Inl Key_identifier_invalid
          else (case dk_public_key dk spki of
            None \<Rightarrow> Inl Public_key_invalid
          | Some (p256, canonical) \<Rightarrow>
              if \<not> p256 then Inl Not_p256
              else if canonical \<noteq> spki then Inl Encoding_invalid
              else Inr spki))"

definition SIGNING_DOMAIN :: "nat list" where
  "SIGNING_DOMAIN = js ''ScreenGoblin device proof v1'' @ [0]"

definition verifyDeviceSignature :: "device_crypto \<Rightarrow> p256_identity \<Rightarrow> utext \<Rightarrow> utext \<Rightarrow> bool" where
  "verifyDeviceSignature dk credential encodedChallenge encodedSignature \<longleftrightarrow>
     (case (decodeCanonicalBase64Url 16 512 encodedChallenge,
            decodeCanonicalBase64Url 8 80 encodedSignature) of
        (Some challenge, Some signature) \<Rightarrow>
          isStrictEcdsaDer signature \<and>
          (case validateP256Identity dk credential of
             Inl _ \<Rightarrow> False
           | Inr key \<Rightarrow> dk_verify dk key (SIGNING_DOMAIN @ challenge) signature)
      | _ \<Rightarrow> False)"

section \<open>The player's checks\<close>

text \<open>\<open>canonicalBase64UrlBytes\<close> is the decoder of the API client with other bounds.\<close>

definition security_levels :: "utext list" where
  "security_levels = map js [''strongbox'', ''trusted-environment'', ''software'', ''unknown-secure'', ''unknown'']"

text \<open>What the native plugin answers, read as JSON.\<close>

definition validateIdentity :: "device_crypto \<Rightarrow> json \<Rightarrow> bool" where
  "validateIdentity dk identity \<longleftrightarrow>
     field identity ''algorithm'' = jstr ''ES256'' \<and>
     is_text (field identity ''securityLevel'') \<and>
     to_text (field identity ''securityLevel'') \<in> set security_levels \<and>
     canonical_within 32 32 (field identity ''keyId'') \<and>
     (case canonical_base64url 80 128 (field identity ''publicKeySpki'') of
        None \<Rightarrow> False
      | Some publicKey \<Rightarrow> field identity ''keyId'' = JStr (base64url (dk_sha256 dk publicKey)))"

text \<open>\<open>signDeviceChallenge\<close>, from the answer on.\<close>

definition signed_challenge_accepted :: "utext option \<Rightarrow> json \<Rightarrow> bool" where
  "signed_challenge_accepted expectedKeyId proof \<longleftrightarrow>
     field proof ''signatureFormat'' = jstr ''ES256-DER'' \<and>
     canonical_within 64 80 (field proof ''signature'') \<and>
     canonical_within 32 32 (field proof ''keyId'') \<and>
     (case expectedKeyId of None \<Rightarrow> True | Some k \<Rightarrow> field proof ''keyId'' = JStr k)"

section \<open>The encoding of two integers\<close>

fun be_bytes :: "nat \<Rightarrow> nat list" where
  "be_bytes n = (if n < 256 then [n] else be_bytes (n div 256) @ [n mod 256])"

declare be_bytes.simps [simp del]

definition der_bytes :: "nat \<Rightarrow> nat list" where
  "der_bytes n = (if 128 \<le> hd (be_bytes n) then 0 # be_bytes n else be_bytes n)"

definition der_integer :: "nat \<Rightarrow> nat list" where
  "der_integer n = 2 # length (der_bytes n) # der_bytes n"

definition der_signature :: "nat \<Rightarrow> nat \<Rightarrow> nat list" where
  "der_signature r s =
     48 # (length (der_integer r) + length (der_integer s)) # der_integer r @ der_integer s"

definition be_value :: "nat list \<Rightarrow> nat" where
  "be_value bs = foldl (\<lambda>n b. 256 * n + b) 0 bs"

lemma be_value_simps [simp]: "be_value [] = 0" "be_value (bs @ [b]) = 256 * be_value bs + b"
  by (simp_all add: be_value_def)

lemma be_value_single [simp]: "be_value [b] = b"
  by (simp add: be_value_def)

lemma be_value_zero: "be_value (0 # bs) = be_value bs"
  by (simp add: be_value_def)

lemma be_value_bytes [simp]: "be_value (be_bytes n) = n"
proof (induction n rule: be_bytes.induct)
  case (1 n)
  then show ?case by (subst be_bytes.simps) simp
qed

lemma be_bytes_nonempty [simp]: "be_bytes n \<noteq> []"
  by (subst be_bytes.simps) simp

lemma be_bytes_bound: "b \<in> set (be_bytes n) \<Longrightarrow> b < 256"
proof (induction n rule: be_bytes.induct)
  case (1 n)
  then show ?case by (subst (asm) (2) be_bytes.simps) (auto split: if_splits)
qed

lemma be_value_less: "\<forall>b \<in> set bs. b < 256 \<Longrightarrow> be_value bs < 256 ^ length bs"
proof (induction bs rule: rev_induct)
  case (snoc b bs)
  then have "be_value bs + 1 \<le> 256 ^ length bs" "b < 256" by simp_all
  then have "256 * be_value bs + b < 256 * 256 ^ length bs" by linarith
  then show ?case by simp
qed simp

lemma be_value_ge: "bs \<noteq> [] \<Longrightarrow> hd bs * 256 ^ (length bs - 1) \<le> be_value bs"
proof (induction bs rule: rev_induct)
  case (snoc b bs)
  show ?case
  proof (cases "bs = []")
    case False
    then obtain k where k: "length bs = Suc k" by (cases bs) simp_all
    then have "hd bs * 256 ^ k \<le> be_value bs" using snoc.IH False by simp
    moreover have "hd bs * 256 ^ Suc k = 256 * (hd bs * 256 ^ k)" by simp
    ultimately have "hd bs * 256 ^ Suc k \<le> 256 * be_value bs + b" by linarith
    then show ?thesis using False k by simp
  qed simp
qed simp

text \<open>Bytes without a leading zero are those of their value.\<close>

lemma be_bytes_value:
  assumes "bs \<noteq> []" "\<forall>b \<in> set bs. b < 256" "length bs > 1 \<longrightarrow> hd bs \<noteq> 0"
  shows "be_bytes (be_value bs) = bs"
  using assms
proof (induction bs rule: rev_induct)
  case (snoc b bs)
  show ?case
  proof (cases "bs = []")
    case True
    then show ?thesis using snoc.prems(2) by (simp add: be_bytes.simps)
  next
    case False
    then have "hd bs \<noteq> 0" using snoc.prems(3) by simp
    then have "1 * 1 \<le> hd bs * 256 ^ (length bs - 1)" by (intro mult_le_mono) simp_all
    then have "1 \<le> be_value bs" using be_value_ge [OF False] by linarith
    moreover have "be_bytes (be_value bs) = bs"
      using snoc.IH False \<open>hd bs \<noteq> 0\<close> snoc.prems(2) by simp
    moreover have "b < 256" using snoc.prems(2) by simp
    ultimately show ?thesis by (simp add: be_bytes.simps [of "256 * be_value bs + b"])
  qed
qed simp

lemma be_bytes_hd: "256 \<le> n \<Longrightarrow> hd (be_bytes n) \<noteq> 0"
proof (induction n rule: be_bytes.induct)
  case (1 n)
  show ?case
  proof (cases "n div 256 < 256")
    case True
    then have "be_bytes n = [n div 256, n mod 256]" using 1(2)
      by (subst be_bytes.simps, subst be_bytes.simps) simp
    then show ?thesis using 1(2) by (simp add: div_greater_zero_iff)
  next
    case False
    then have "hd (be_bytes (n div 256)) \<noteq> 0" using 1 by simp
    then show ?thesis using 1(2) by (subst be_bytes.simps) simp
  qed
qed

lemma be_bytes_long: "1 < length (be_bytes n) \<Longrightarrow> hd (be_bytes n) \<noteq> 0"
  by (rule be_bytes_hd) (simp add: be_bytes.simps [of n] split: if_splits)

section \<open>What the check accepts\<close>

lemma be_value_Cons: "be_value (b # bs) = b * 256 ^ length bs + be_value bs"
proof (induction bs rule: rev_induct)
  case (snoc c bs)
  have "be_value (b # bs @ [c]) = 256 * be_value (b # bs) + c" using be_value_simps(2) [of "b # bs" c] by simp
  then show ?case using snoc.IH by simp
qed simp

lemma high_bit_byte: "b < 256 \<Longrightarrow> high_bit b \<longleftrightarrow> 128 \<le> b"
proof -
  assume "b < 256"
  then have "b div 128 = 0 \<or> b div 128 = 1" by linarith
  then show ?thesis by (auto simp: high_bit_def div_eq_0_iff)
qed

text \<open>A natural number, zero included, in two's complement without a superfluous leading byte.\<close>

definition der_content :: "nat list \<Rightarrow> bool" where
  "der_content bs \<longleftrightarrow> bs \<noteq> [] \<and> (\<forall>b \<in> set bs. b < 256) \<and> hd bs < 128 \<and>
     (length bs > 1 \<and> hd bs = 0 \<longrightarrow> 128 \<le> bs ! 1)"

lemma der_bytes_content: "der_content (der_bytes n)"
proof (cases "128 \<le> hd (be_bytes n)")
  case True
  then have "be_bytes n ! 0 \<ge> 128" by (simp add: hd_conv_nth)
  then show ?thesis using True by (auto simp: der_content_def der_bytes_def dest: be_bytes_bound)
next
  case False
  then show ?thesis using be_bytes_long [of n]
    by (auto simp: der_content_def der_bytes_def dest: be_bytes_bound)
qed

lemma be_value_der [simp]: "be_value (der_bytes n) = n"
  by (simp add: der_bytes_def be_value_zero)

lemma der_bytes_value:
  assumes "der_content bs"
  shows "der_bytes (be_value bs) = bs"
proof (cases "length bs > 1 \<and> hd bs = 0")
  case True
  then obtain c cs where c: "bs = 0 # c # cs" by (cases bs; cases "tl bs") auto
  then have "128 \<le> c" using assms by (simp add: der_content_def)
  moreover have "be_bytes (be_value (c # cs)) = c # cs"
    by (rule be_bytes_value) (use assms \<open>128 \<le> c\<close> in \<open>auto simp: der_content_def c\<close>)
  ultimately show ?thesis by (simp add: der_bytes_def c be_value_zero)
next
  case False
  have "be_bytes (be_value bs) = bs"
    by (rule be_bytes_value) (use assms False in \<open>auto simp: der_content_def\<close>)
  then show ?thesis using assms by (simp add: der_bytes_def der_content_def)
qed

lemma der_value_less:
  assumes "der_content bs" "length bs \<le> 33"
  shows "be_value bs < 2 ^ 263"
proof -
  obtain b cs where b: "bs = b # cs" using assms(1) by (cases bs) (auto simp: der_content_def)
  have "be_value cs < 256 ^ length cs" by (rule be_value_less) (use assms(1) in \<open>auto simp: der_content_def b\<close>)
  moreover have "b + 1 \<le> 128" using assms(1) by (simp add: der_content_def b)
  then have "(b + 1) * 256 ^ length cs \<le> 128 * 256 ^ length cs" by (rule mult_right_mono) simp
  then have "b * 256 ^ length cs + 256 ^ length cs \<le> 128 * 256 ^ length cs" by (simp only: add_mult_distrib mult_1)
  moreover have "be_value bs = b * 256 ^ length cs + be_value cs" by (simp only: b be_value_Cons)
  ultimately have "be_value bs < 128 * 256 ^ length cs" by linarith
  also have "\<dots> \<le> 128 * 256 ^ 32" using assms(2) by (intro mult_left_mono power_increasing) (simp_all add: b)
  finally show ?thesis by simp
qed

lemma der_value_ge:
  assumes "der_content bs" "33 < length bs"
  shows "2 ^ 263 \<le> be_value bs"
proof -
  obtain b c cs where b: "bs = b # c # cs" using assms(2) by (cases bs; cases "tl bs") auto
  have v: "be_value bs = b * 256 ^ length (c # cs) + be_value (c # cs)" by (simp only: b be_value_Cons)
  have c: "c * 256 ^ length cs \<le> be_value (c # cs)" by (simp only: be_value_Cons le_add1)
  have "(128 :: nat) * 256 ^ 32 \<le> 128 * 256 ^ length cs"
    using assms(2) by (intro mult_left_mono power_increasing) (simp_all add: b)
  also have "\<dots> \<le> be_value bs"
  proof (cases "b = 0")
    case True
    then have "128 * 256 ^ length cs \<le> c * 256 ^ length cs"
      using assms(1) by (intro mult_right_mono) (simp_all add: der_content_def b)
    then show ?thesis using c v by linarith
  next
    case False
    then have "1 * 256 ^ length (c # cs) \<le> b * 256 ^ length (c # cs)" by (intro mult_right_mono) simp_all
    moreover have "128 * 256 ^ length cs \<le> (256 :: nat) ^ length (c # cs)" by simp
    ultimately show ?thesis using v by linarith
  qed
  finally show ?thesis by simp
qed

lemma der_length: "length (der_bytes n) \<le> 33 \<longleftrightarrow> n < 2 ^ 263"
  using der_value_less [OF der_bytes_content] der_value_ge [OF der_bytes_content]
  by (metis be_value_der linorder_not_less)

lemma der_integer_at_Some:
  assumes "der_integer_at (pre @ rest) (length pre) = Some k" "\<forall>b \<in> set rest. b < 256"
  shows "\<exists>n tail. n < 2 ^ 263 \<and> rest = der_integer n @ tail \<and> k = length pre + length (der_integer n)"
proof -
  have tag: "byte_at (pre @ rest) (length pre) = Some 2"
    using assms(1) by (rule contrapos_pp) (simp add: der_integer_at_def)
  then obtain r1 where r1: "rest = 2 # r1" by (cases rest) (auto simp: byte_at_def)
  obtain l where l: "byte_at (pre @ rest) (length pre + 1) = Some l"
    using assms(1) tag by (auto simp: der_integer_at_def split: option.splits)
  then obtain r2 where r2: "r1 = l # r2" by (cases r1) (auto simp: byte_at_def r1 nth_append)
  have len: "1 \<le> l" "l \<le> 33" "l \<le> length r2"
    using assms(1) tag l by (auto simp: der_integer_at_def r1 r2 split: if_splits)
  then obtain b r3 where r3: "r2 = b # r3" by (cases r2) auto
  have first: "byte_at (pre @ rest) (length pre + 2) = Some b"
    by (simp add: byte_at_def r1 r2 r3 nth_append)
  let ?bs = "take l r2"
  have small: "\<forall>x \<in> set r2. x < 256" using assms(2) by (simp add: r1 r2)
  have k: "k = length pre + 2 + l" and b: "\<not> high_bit b"
    and second: "l > 1 \<and> b = 0 \<longrightarrow> high_bit ((pre @ rest) ! (length pre + 3))"
    using assms(1) tag l first len by (auto simp: der_integer_at_def split: if_splits)
  have hd: "hd ?bs = b" "length ?bs = l" using len by (simp_all add: r3 hd_take)
  have two: "high_bit (?bs ! 1)" if "l > 1" "b = 0"
  proof -
    have "(pre @ rest) ! (length pre + 3) = r3 ! 0" by (simp add: nth_append r1 r2 r3)
    moreover have "?bs ! 1 = r3 ! 0" using that len by (simp add: r3 nth_take)
    ultimately show ?thesis using second that by simp
  qed
  have "der_content ?bs"
    unfolding der_content_def
  proof (intro conjI impI)
    show "?bs \<noteq> []" using len hd by auto
    show "\<forall>b \<in> set ?bs. b < 256" using small by (auto dest: in_set_takeD)
    show "hd ?bs < 128" unfolding hd(1) using b small high_bit_byte [of b] by (simp add: r3)
    assume "1 < length ?bs \<and> hd ?bs = 0"
    then have "high_bit (?bs ! 1)" using two hd by simp
    moreover have "?bs ! 1 \<in> set r2" using \<open>1 < length ?bs \<and> _\<close> by (intro in_set_takeD [OF nth_mem]) simp
    ultimately show "128 \<le> ?bs ! 1" using small high_bit_byte by blast
  qed
  note d = der_bytes_value [OF this] and v = der_value_less [OF this]
  have "rest = der_integer (be_value ?bs) @ drop l r2"
    unfolding der_integer_def d hd(2) by (simp add: r1 r2)
  moreover have "k = length pre + length (der_integer (be_value ?bs))" unfolding der_integer_def d
    by (simp add: hd(2) k del: length_take)
  ultimately show ?thesis using v hd len by auto
qed

lemma der_integer_at_integer:
  assumes "n < 2 ^ 263"
  shows "der_integer_at (pre @ der_integer n @ tail) (length pre) = Some (length pre + length (der_integer n))"
proof -
  note c = der_bytes_content [of n, unfolded der_content_def]
  obtain b bs where b: "der_bytes n = b # bs" using c by (cases "der_bytes n") auto
  have "length (der_bytes n) \<le> 33" using assms by (simp add: der_length)
  moreover have "\<not> high_bit b" using c by (simp add: b high_bit_byte)
  moreover have "high_bit (bs ! 0)" if "bs \<noteq> []" "b = 0"
    using c that by (cases bs) (simp_all add: b high_bit_byte)
  moreover have "(pre @ der_integer n @ tail) ! (length pre + 3) = bs ! 0" if "bs \<noteq> []"
    using that by (cases bs) (simp_all add: nth_append der_integer_def b)
  ultimately show ?thesis
    by (auto simp: der_integer_at_def byte_at_def nth_append der_integer_def b)
qed

lemma strict_der_iff:
  assumes "\<forall>b \<in> set signature. b < 256"
  shows "isStrictEcdsaDer signature \<longleftrightarrow>
    (\<exists>r s. r < 2 ^ 263 \<and> s < 2 ^ 263 \<and> signature = der_signature r s)"
proof
  assume d: "isStrictEcdsaDer signature"
  then obtain k where k: "der_integer_at signature 2 = Some k" "der_integer_at signature k = Some (length signature)"
    by (auto simp: isStrictEcdsaDer_def split: option.splits)
  obtain a l rest where s: "signature = [a, l] @ rest"
    using d by (cases signature; cases "tl signature") (auto simp: isStrictEcdsaDer_def)
  have h: "a = 48" "l = length rest" using d by (auto simp: isStrictEcdsaDer_def byte_at_def s)
  have small: "\<forall>b \<in> set rest. b < 256" using assms by (simp add: s)
  have k1: "der_integer_at ([a, l] @ rest) (length [a, l]) = Some k"
    using k(1) by (simp add: s numeral_2_eq_2)
  obtain r tail where r: "r < 2 ^ 263" "rest = der_integer r @ tail" "k = 2 + length (der_integer r)"
    using der_integer_at_Some [OF k1 small] by auto
  have "\<exists>n t. n < 2 ^ 263 \<and> tail = der_integer n @ t \<and>
      length signature = length ([a, l] @ der_integer r) + length (der_integer n)"
    by (rule der_integer_at_Some) (use k(2) small in \<open>simp_all add: s r(2,3)\<close>)
  then obtain n t where n: "n < 2 ^ 263" "tail = der_integer n @ t"
      "length signature = length ([a, l] @ der_integer r) + length (der_integer n)" by blast
  then have "t = []" by (simp add: s r(2))
  then have "signature = der_signature r n" using h n(2) r(2) s by (simp add: der_signature_def)
  with r(1) n(1) show "\<exists>r s. r < 2 ^ 263 \<and> s < 2 ^ 263 \<and> signature = der_signature r s" by blast
next
  assume "\<exists>r s. r < 2 ^ 263 \<and> s < 2 ^ 263 \<and> signature = der_signature r s"
  then obtain r s where rs: "r < 2 ^ 263" "s < 2 ^ 263" "signature = der_signature r s" by blast
  have l: "1 \<le> length (der_bytes n)" "n < 2 ^ 263 \<Longrightarrow> length (der_bytes n) \<le> 33" for n
    using der_bytes_content [of n] der_length [of n] by (auto simp: der_content_def Suc_le_eq)
  let ?h = "[48, length (der_integer r) + length (der_integer s)]"
  have sig: "signature = ?h @ der_integer r @ der_integer s" by (simp add: rs(3) der_signature_def)
  have "der_integer_at signature 2 = Some (2 + length (der_integer r))"
    using der_integer_at_integer [OF rs(1), of ?h "der_integer s"] by (simp add: sig numeral_2_eq_2)
  moreover have "der_integer_at signature (2 + length (der_integer r)) = Some (length signature)"
    using der_integer_at_integer [OF rs(2), of "?h @ der_integer r" "[]"] by (simp add: sig numeral_2_eq_2)
  moreover have "8 \<le> length signature" "length signature \<le> 72"
    using l(1) [of r] l(1) [of s] l(2) [OF rs(1)] l(2) [OF rs(2)] by (simp_all add: sig der_integer_def)
  ultimately show "isStrictEcdsaDer signature"
    by (simp add: isStrictEcdsaDer_def) (simp add: byte_at_def sig)
qed

text \<open>Two encodings of the same integers are the same, and one text encodes only one pair.\<close>

lemma der_integer_inj: "der_integer r @ u = der_integer r' @ u' \<Longrightarrow> r = r' \<and> u = u'"
proof -
  assume e: "der_integer r @ u = der_integer r' @ u'"
  then have "length (der_bytes r) = length (der_bytes r')" by (simp add: der_integer_def)
  with e have "der_bytes r = der_bytes r'" "u = u'" by (simp_all add: der_integer_def)
  then show ?thesis by (metis be_value_der)
qed

lemma der_signature_inj: "der_signature r s = der_signature r' s' \<Longrightarrow> r = r' \<and> s = s'"
  using der_integer_inj [of r "der_integer s" r' "der_integer s'"] der_integer_inj [of s "[]" s' "[]"]
  by (simp add: der_signature_def)

end
