(* ===== verification/Signature_Properties.thy ===== *)
theory Signature_Properties
  imports Device_Signatures Player_Samples
begin

text \<open>
  What the API accepts as a device signature and an identity, and that the player offers nothing else.
\<close>

section \<open>Base64url values\<close>

lemma node_bytes_bound: "\<forall>n \<in> set ns. n < 64 \<Longrightarrow> \<forall>b \<in> set (node_bytes ns). b < 256"
proof (induction ns rule: node_bytes.induct)
  case (1 a b c d us)
  then have "a < 64" "b < 64" "c < 64" "d < 64" by simp_all
  then have "a * 4 + b div 16 < 256" "b mod 16 * 16 + c div 4 < 256" "c mod 4 * 64 + d < 256" by linarith+
  then show ?case using 1 by simp
next
  case (2 a b c)
  then have "a < 64" "b < 64" "c < 64" by simp_all
  then have "a * 4 + b div 16 < 256" "b mod 16 * 16 + c div 4 < 256" by linarith+
  then show ?case by simp
next
  case (3 a b)
  then have "a < 64" "b < 64" by simp_all
  then have "a * 4 + b div 16 < 256" by linarith
  then show ?case by simp
qed simp_all

lemma node_sextet_bound: "node_sextet u = Some n \<Longrightarrow> n < 64"
  by (auto simp: node_sextet_def sextet_def split: if_splits)

lemma node_decode_bound: "\<forall>b \<in> set (node_decode s). b < 256"
proof -
  have "n < 64" if n: "n \<in> set (List.map_filter node_sextet s)" for n
  proof -
    from n obtain u where "node_sextet u = Some n" by (auto simp: map_filter_def)
    then show ?thesis by (rule node_sextet_bound)
  qed
  then show ?thesis unfolding node_decode_def by (intro node_bytes_bound ballI)
qed

lemma decoded_bytes:
  assumes "decodeCanonicalBase64Url lo hi u = Some bs"
  shows "\<forall>b \<in> set bs. b < 256" "u = base64url bs" "lo \<le> length bs" "length bs \<le> hi"
  using assms node_decode_bound [of u]
  by (auto simp: decodeCanonicalBase64Url_def Let_def split: if_splits)

text \<open>Both sides read the same values, and each value in one way.\<close>

lemma sextet_bytes_bound: "\<forall>n \<in> set ns. n < 64 \<Longrightarrow> sextet_bytes ns = Some bs \<Longrightarrow> \<forall>b \<in> set bs. b < 256"
proof (induction ns arbitrary: bs rule: sextet_bytes.induct)
  case (5 a b c d us)
  then have "a < 64" "b < 64" "c < 64" "d < 64" by simp_all
  then have "a * 4 + b div 16 < 256" "b mod 16 * 16 + c div 4 < 256" "c mod 4 * 64 + d < 256" by linarith+
  then show ?case using 5 by auto
next
  case (3 a b)
  then have "a < 64" "b < 64" by simp_all
  then have "a * 4 + b div 16 < 256" by linarith
  then show ?case using 3 by auto
next
  case (4 a b c)
  then have "a < 64" "b < 64" "c < 64" by simp_all
  then have "a * 4 + b div 16 < 256" "b mod 16 * 16 + c div 4 < 256" by linarith+
  then show ?case using 4 by auto
qed simp_all

lemma decode_encoded:
  assumes "\<forall>b \<in> set bs. b < 256" "bs \<noteq> []" "lo \<le> length bs" "length bs \<le> hi"
  shows "decodeCanonicalBase64Url lo hi (base64url bs) = Some bs"
proof -
  have "base64url bs \<noteq> []" using assms(2) by (simp add: base64url_def sextets_empty)
  then show ?thesis
    using assms base64url_alphabet [OF assms(1)]
    by (simp add: decodeCanonicalBase64Url_def node_decode_base64url [OF assms(1)] Let_def)
qed

lemma decoders_agree: "decodeCanonicalBase64Url lo hi u = canonical_base64url lo hi (JStr u)"
proof -
  have "decodeCanonicalBase64Url lo hi u = Some bs \<longleftrightarrow> canonical_base64url lo hi (JStr u) = Some bs" for bs
  proof
    assume d: "decodeCanonicalBase64Url lo hi u = Some bs"
    note f = decoded_bytes [OF d]
    have "bs \<noteq> []" using d f(2) by (auto simp: decodeCanonicalBase64Url_def base64url_def)
    with f show "canonical_base64url lo hi (JStr u) = Some bs"
      by (simp add: canonical_base64url_def decode_base64url)
  next
    assume c: "canonical_base64url lo hi (JStr u) = Some bs"
    then have d: "decodeBase64Url u = Some bs" and f: "base64url bs = u" "lo \<le> length bs" "length bs \<le> hi"
      by (auto simp: canonical_base64url_def split: option.splits if_splits)
    have u: "u \<noteq> []" "\<forall>x \<in> set u. sextet x \<noteq> None" "sextet_bytes (map (\<lambda>x. the (sextet x)) u) = Some bs"
      using d by (simp_all add: decodeBase64Url_def split: if_splits)
    have "\<forall>n \<in> set (map (\<lambda>x. the (sextet x)) u). n < 64"
      using u(2) by (auto simp: sextet_def)
    from sextet_bytes_bound [OF this u(3)] have "\<forall>b \<in> set bs. b < 256" .
    moreover have "bs \<noteq> []" using u(1) f(1) by (auto simp: base64url_def)
    ultimately show "decodeCanonicalBase64Url lo hi u = Some bs"
      using decode_encoded [of bs lo hi] f by simp
  qed
  then show ?thesis by (metis not_None_eq)
qed

section \<open>Signatures\<close>

text \<open>
  C33: the API's check of a signature's encoding accepts exactly the DER encodings of two natural
  numbers below 2 to the 263, zero included, and each for one pair only: no signature has a second
  encoding.  That a component is zero or beyond the order of the curve, and the signature so
  invalid, is left to the verification behind the check.
\<close>

theorem strict_signatures_are_der:
  assumes "\<forall>b \<in> set signature. b < 256"
  shows "isStrictEcdsaDer signature \<longleftrightarrow>
    (\<exists>!p. fst p < 2 ^ 263 \<and> snd p < 2 ^ 263 \<and> signature = der_signature (fst p) (snd p))"
proof -
  have "(\<exists>r s. r < 2 ^ 263 \<and> s < 2 ^ 263 \<and> signature = der_signature r s) \<longleftrightarrow>
    (\<exists>!p. fst p < 2 ^ 263 \<and> snd p < 2 ^ 263 \<and> signature = der_signature (fst p) (snd p))"
    (is "?l \<longleftrightarrow> (\<exists>!p. ?P p)")
  proof
    assume ?l
    then obtain r s where "?P (r, s)" by auto
    moreover have "q = (r, s)" if "?P q" for q
      using der_signature_inj [of r s "fst q" "snd q"] that \<open>?P (r, s)\<close> by (cases q) simp
    ultimately show "\<exists>!p. ?P p" by blast
  next
    assume "\<exists>!p. ?P p"
    then show ?l by blast
  qed
  then show ?thesis using strict_der_iff [OF assms] by simp
qed

lemma der_one: "der_signature 1 128 = [48, 7, 2, 1, 1, 2, 2, 0, 128]"
  by (simp add: der_signature_def der_integer_def der_bytes_def be_bytes.simps)

theorem strict_signatures_are_der_witness:
  "\<exists>!p. fst p < 2 ^ 263 \<and> snd p < 2 ^ 263 \<and>
    [48, 7, 2, 1, 1, 2, 2, 0, 128] = der_signature (fst p) (snd p)"
proof -
  have "isStrictEcdsaDer [48, 7, 2, 1, 1, 2, 2, 0, 128]"
    by (simp add: isStrictEcdsaDer_def der_integer_at_def byte_at_def high_bit_def)
  then show ?thesis using strict_signatures_are_der [of "[48, 7, 2, 1, 1, 2, 2, 0, 128]"] by simp
qed

text \<open>
  C7: a signature the API verifies is unambiguous: the key identifier is the digest of the key, key,
  challenge and signature each have the one text that was sent, and what was verified is the
  signature's only encoding over the challenge under the domain of device proofs.
\<close>

theorem verified_signature_is_unambiguous:
  assumes "verifyDeviceSignature dk credential encodedChallenge encodedSignature"
  shows "\<exists>key challenge r s.
    p2_keyId credential = base64url (dk_sha256 dk key) \<and> p2_publicKeySpki credential = base64url key \<and>
    dk_public_key dk key = Some (True, key) \<and> encodedChallenge = base64url challenge \<and>
    16 \<le> length challenge \<and> encodedSignature = base64url (der_signature r s) \<and>
    dk_verify dk key (SIGNING_DOMAIN @ challenge) (der_signature r s)"
proof -
  from assms obtain challenge signature where
      c: "decodeCanonicalBase64Url 16 512 encodedChallenge = Some challenge"
    and s: "decodeCanonicalBase64Url 8 80 encodedSignature = Some signature"
    and v: "isStrictEcdsaDer signature"
      "case validateP256Identity dk credential of Inl _ \<Rightarrow> False
        | Inr key \<Rightarrow> dk_verify dk key (SIGNING_DOMAIN @ challenge) signature"
    by (auto simp: verifyDeviceSignature_def split: option.splits)
  from v(2) obtain key where i: "validateP256Identity dk credential = Inr key"
    and key: "dk_verify dk key (SIGNING_DOMAIN @ challenge) signature" by (auto split: sum.splits)
  from i have k: "decodeCanonicalBase64Url 80 256 (p2_publicKeySpki credential) = Some key"
      "p2_keyId credential = base64url (dk_sha256 dk key)" "dk_public_key dk key = Some (True, key)"
    by (auto simp: validateP256Identity_def split: option.splits if_splits)
  obtain r s' where "signature = der_signature r s'"
    using v(1) strict_der_iff [OF decoded_bytes(1) [OF s]] by blast
  then show ?thesis
    using decoded_bytes(2,3) [OF c] decoded_bytes(2) [OF s] decoded_bytes(2) [OF k(1)] k(2,3) key by blast
qed

definition sample_crypto :: device_crypto where
  "sample_crypto = \<lparr>dk_sha256 = (\<lambda>_. replicate 32 0), dk_public_key = (\<lambda>k. Some (True, k)),
     dk_verify = (\<lambda>_ _ _. True)\<rparr>"

definition sample_identity :: p256_identity where
  "sample_identity = \<lparr>p2_publicKeySpki = base64url (replicate 91 0), p2_keyId = base64url (replicate 32 0)\<rparr>"

lemma sample_identity_valid: "validateP256Identity sample_crypto sample_identity = Inr (replicate 91 0)"
proof -
  have "decodeCanonicalBase64Url 80 256 (base64url (replicate 91 0)) = Some (replicate 91 0)"
    by (rule decode_encoded) simp_all
  then show ?thesis by (simp add: validateP256Identity_def sample_identity_def sample_crypto_def)
qed

lemma sample_signature_valid: "verifyDeviceSignature sample_crypto sample_identity
    (base64url (replicate 32 7)) (base64url [48, 7, 2, 1, 1, 2, 2, 0, 128])"
proof -
  have "decodeCanonicalBase64Url 16 512 (base64url (replicate 32 7)) = Some (replicate 32 7)"
    "decodeCanonicalBase64Url 8 80 (base64url [48, 7, 2, 1, 1, 2, 2, 0, 128]) = Some [48, 7, 2, 1, 1, 2, 2, 0, 128]"
    by (rule decode_encoded; simp)+
  moreover have "isStrictEcdsaDer [48, 7, 2, 1, 1, 2, 2, 0, 128]"
    by (simp add: isStrictEcdsaDer_def der_integer_at_def byte_at_def high_bit_def)
  moreover have "dk_verify sample_crypto k m s" for k m s by (simp add: sample_crypto_def)
  ultimately show ?thesis using sample_identity_valid by (simp add: verifyDeviceSignature_def)
qed

theorem verified_signature_is_unambiguous_witness:
  "\<exists>key challenge r s. p2_publicKeySpki sample_identity = base64url key \<and>
    base64url (replicate 32 7) = base64url challenge \<and>
    dk_verify sample_crypto key (SIGNING_DOMAIN @ challenge) (der_signature r s)"
  using verified_signature_is_unambiguous [OF sample_signature_valid] by blast

section \<open>The player's identity\<close>

text \<open>An identity the player accepts from its plugin passes the API's checks if its key is one.\<close>

theorem native_identity_is_accepted:
  assumes "validateIdentity dk identity"
    and "\<forall>key. dk_public_key dk key = Some (True, key)"
  shows "\<exists>key. validateP256Identity dk \<lparr>p2_publicKeySpki = to_text (field identity ''publicKeySpki''),
    p2_keyId = to_text (field identity ''keyId'')\<rparr> = Inr key"
proof -
  from assms(1) obtain key where k: "canonical_base64url 80 128 (field identity ''publicKeySpki'') = Some key"
      "field identity ''keyId'' = JStr (base64url (dk_sha256 dk key))"
    by (auto simp: validateIdentity_def split: option.splits)
  then obtain u where u: "field identity ''publicKeySpki'' = JStr u"
    by (cases "field identity ''publicKeySpki''") (simp_all add: canonical_base64url_def)
  have "decodeCanonicalBase64Url 80 128 u = Some key" using k(1) u by (simp add: decoders_agree)
  then have "decodeCanonicalBase64Url 80 256 u = Some key"
    by (auto simp: decodeCanonicalBase64Url_def Let_def split: if_splits)
  then show ?thesis using k(2) u assms(2) by (simp add: validateP256Identity_def)
qed

end
