(* ===== verification/Rate_Limit.thy ===== *)
theory Rate_Limit
  imports Prelude
begin

text \<open>
  Rate limits (\<open>apps/api/src/utils/rate-limit.ts\<close>): the counters of \<open>MemoryRateLimitBudget\<close>, a fixed
  window per key, the budget over the answer of the Redis script, and their enforcement.
\<close>

section \<open>Budgets\<close>

record rate_counter =
  rk_count :: nat
  rk_expiresAt :: instant

record budget_result =
  br_allowed :: bool
  br_retryAfterSeconds :: int

type_synonym counters = "string \<rightharpoonup> rate_counter"

definition live_counter :: "instant \<Rightarrow> int \<Rightarrow> rate_counter option \<Rightarrow> rate_counter" where
  "live_counter t windowMilliseconds existing =
     (case existing of
        Some c \<Rightarrow> if rk_expiresAt c > t then c else \<lparr>rk_count = 0, rk_expiresAt = t + windowMilliseconds\<rparr>
      | None \<Rightarrow> \<lparr>rk_count = 0, rk_expiresAt = t + windowMilliseconds\<rparr>)"

definition memory_consume ::
  "string \<Rightarrow> nat \<Rightarrow> int \<Rightarrow> instant \<Rightarrow> counters \<Rightarrow> budget_result \<times> counters" where
  "memory_consume key maximum windowMilliseconds t counters =
     (let c = live_counter t windowMilliseconds (counters key);
          c' = c\<lparr>rk_count := rk_count c + 1\<rparr> in
      (\<lparr>br_allowed = (rk_count c' \<le> maximum),
        br_retryAfterSeconds = max 1 (ceil_seconds (rk_expiresAt c' - t))\<rparr>,
       counters(key \<mapsto> c')))"

text \<open>The answer of the script is the counter and its time to live.\<close>

definition redis_result :: "nat \<Rightarrow> int \<times> int \<Rightarrow> budget_result" where
  "redis_result maximum answer =
     (case answer of (current, ttl) \<Rightarrow>
       \<lparr>br_allowed = (current \<le> int maximum), br_retryAfterSeconds = max 1 (ceil_seconds ttl)\<rparr>)"

section \<open>Enforcement\<close>

record api_error =
  ae_status :: nat
  ae_code :: string
  ae_message :: string

text \<open>The result of the budget, None when it throws; the error enforcement throws, if any.\<close>

definition enforceRateLimitBudget :: "budget_result option \<Rightarrow> api_error option" where
  "enforceRateLimitBudget result =
     (case result of
        None \<Rightarrow> Some \<lparr>ae_status = 503, ae_code = ''RATE_LIMIT_UNAVAILABLE'',
          ae_message = ''Request protection is temporarily unavailable''\<rparr>
      | Some r \<Rightarrow>
          if \<not> br_allowed r
          then Some \<lparr>ae_status = 429, ae_code = ''RATE_LIMITED'', ae_message = ''Rate limit exceeded''\<rparr>
          else None)"

section \<open>Sequences of requests\<close>

text \<open>Requests (key, instant) in the order they arrive, with one limit; the instants allowed for a key.\<close>

fun allowed_requests :: "nat \<Rightarrow> int \<Rightarrow> string \<Rightarrow> counters \<Rightarrow> (string \<times> instant) list \<Rightarrow> instant list" where
  "allowed_requests maximum window key counters [] = []"
| "allowed_requests maximum window key counters ((k, t) # requests) =
     (case memory_consume k maximum window t counters of
        (r, counters') \<Rightarrow>
          (if k = key \<and> enforceRateLimitBudget (Some r) = None then [t] else []) @
          allowed_requests maximum window key counters' requests)"

lemma consume_simps:
  "br_allowed (fst (memory_consume k maximum window t counters)) \<longleftrightarrow>
    rk_count (live_counter t window (counters k)) < maximum"
  "snd (memory_consume k maximum window t counters) k =
    Some ((live_counter t window (counters k))\<lparr>rk_count := rk_count (live_counter t window (counters k)) + 1\<rparr>)"
  "k' \<noteq> k \<Longrightarrow> snd (memory_consume k maximum window t counters) k' = counters k'"
  by (auto simp: memory_consume_def Let_def)

lemma allowed_Cons:
  "allowed_requests maximum window key counters ((k, t) # requests) =
    (if k = key \<and> rk_count (live_counter t window (counters key)) < maximum then [t] else []) @
    allowed_requests maximum window key (snd (memory_consume k maximum window t counters)) requests"
  by (auto simp: enforceRateLimitBudget_def consume_simps(1) split: prod.split)
    (metis consume_simps(1) fst_conv)+

declare allowed_requests.simps(2) [simp del]

text \<open>While one window of the key lasts, it allows what its counter leaves.\<close>

lemma allowed_in_window:
  assumes "counters key = Some c" "\<forall>(k, t) \<in> set requests. t < rk_expiresAt c"
  shows "length (allowed_requests maximum window key counters requests) \<le> maximum - rk_count c"
  using assms
proof (induction requests arbitrary: counters c)
  case Nil
  then show ?case by simp
next
  case (Cons r requests)
  obtain k t where r: "r = (k, t)" by (cases r)
  define cs where "cs = snd (memory_consume k maximum window t counters)"
  have head: "allowed_requests maximum window key counters (r # requests) =
      (if k = key \<and> rk_count (live_counter t window (counters key)) < maximum then [t] else []) @
      allowed_requests maximum window key cs requests"
    by (simp add: r allowed_Cons cs_def)
  have rest: "\<forall>(k, t) \<in> set requests. t < rk_expiresAt c" "t < rk_expiresAt c"
    using Cons.prems(2) r by simp_all
  show ?case
  proof (cases "k = key")
    case True
    have l: "live_counter t window (counters key) = c"
      using Cons.prems(1) rest(2) by (simp add: live_counter_def)
    have "cs key = Some (c\<lparr>rk_count := rk_count c + 1\<rparr>)"
      using True l by (simp add: cs_def consume_simps(2))
    then have "length (allowed_requests maximum window key cs requests) \<le>
        maximum - rk_count (c\<lparr>rk_count := rk_count c + 1\<rparr>)"
      using rest(1) by (intro Cons.IH) simp_all
    with True l show ?thesis by (auto simp: head)
  next
    case False
    then have "cs key = Some c" using Cons.prems(1) by (simp add: cs_def consume_simps(3))
    then have "length (allowed_requests maximum window key cs requests) \<le> maximum - rk_count c"
      using rest(1) by (intro Cons.IH) simp_all
    with False show ?thesis by (simp add: head)
  qed
qed

text \<open>
  Any span of the length of a window sees what is left of one window, and the beginning of another,
  which lasts to the end of the span.
\<close>

definition left_over :: "nat \<Rightarrow> rate_counter option \<Rightarrow> nat" where
  "left_over maximum c = (case c of None \<Rightarrow> 0 | Some c \<Rightarrow> maximum - rk_count c)"

lemma allowed_in_span:
  assumes "\<forall>(k, t) \<in> set requests. t0 \<le> t \<and> t < t0 + window"
  shows "length (allowed_requests maximum window key counters requests) \<le>
    left_over maximum (counters key) + maximum"
  using assms
proof (induction requests arbitrary: counters)
  case Nil
  then show ?case by simp
next
  case (Cons r requests)
  obtain k t where r: "r = (k, t)" by (cases r)
  define cs where "cs = snd (memory_consume k maximum window t counters)"
  have head: "allowed_requests maximum window key counters (r # requests) =
      (if k = key \<and> rk_count (live_counter t window (counters key)) < maximum then [t] else []) @
      allowed_requests maximum window key cs requests"
    by (simp add: r allowed_Cons cs_def)
  have t: "t0 \<le> t" "t < t0 + window" and rest: "\<forall>(k, t) \<in> set requests. t0 \<le> t \<and> t < t0 + window"
    using Cons.prems r by simp_all
  have ih: "length (allowed_requests maximum window key cs requests) \<le>
      left_over maximum (cs key) + maximum"
    using rest by (rule Cons.IH)
  show ?case
  proof (cases "k = key")
    case False
    then have "cs key = counters key" by (simp add: cs_def consume_simps(3))
    with False ih show ?thesis by (simp add: head)
  next
    case True
    let ?live = "live_counter t window (counters key)"
    have n: "cs key = Some (?live\<lparr>rk_count := rk_count ?live + 1\<rparr>)"
      using True by (simp add: cs_def consume_simps(2))
    show ?thesis
    proof (cases "\<exists>c. counters key = Some c \<and> t < rk_expiresAt c")
      case old: True
      then obtain c where c: "counters key = Some c" "?live = c" by (auto simp: live_counter_def)
      with ih n True show ?thesis by (auto simp: head left_over_def)
    next
      case False
      then have l: "?live = \<lparr>rk_count = 0, rk_expiresAt = t + window\<rparr>"
        by (auto simp: live_counter_def split: option.splits)
      have "length (allowed_requests maximum window key cs requests) \<le>
          maximum - rk_count (?live\<lparr>rk_count := rk_count ?live + 1\<rparr>)"
        using rest t l n by (intro allowed_in_window) auto
      with True l show ?thesis by (auto simp: head)
    qed
  qed
qed

lemma ceil_seconds_enough: "ms \<le> 1000 * ceil_seconds ms"
  using div_mult_mod_eq [of "- ms" 1000] by (simp add: ceil_seconds_def)

end
