(* ===== verification/Auth_Routes.thy ===== *)
theory Auth_Routes
  imports Identity Screens Rate_Limit Policy
begin

text \<open>
  Authentication of requests (\<open>apps/api/src/plugins/auth.ts\<close>, \<open>utils/http.ts\<close>) and the routes of
  \<open>apps/api/src/routes/auth.ts\<close>: login, the rotation of a bootstrap password and logout.  JWT, bcrypt,
  HMAC and zod's check of an email address are parameters.  A handler that awaits sees the store
  again after a change by other requests, which is a parameter too.
\<close>

section \<open>Failures\<close>

datatype http_failure = Api_failure api_error | Store_failure exn | Invalid_request

text \<open>The claims of a verified access token; the token itself is the matter of the JWT library.\<close>

record jwt_claims =
  jw_sub :: string
  jw_email :: string
  jw_organizationId :: string
  jw_role :: role
  jw_sessionId :: "string option"

record auth_platform =
  ap_compare :: "utext \<Rightarrow> string \<Rightarrow> bool" \<comment> \<open>bcrypt: password and hash\<close>
  ap_hash :: "utext \<Rightarrow> string"
  ap_is_email :: "string \<Rightarrow> bool"
  ap_event_key :: "string \<Rightarrow> string \<Rightarrow> string" \<comment> \<open>\<open>opaqueSecurityEventKey\<close> of scope and value\<close>

record request_source =
  rx_ip :: string
  rx_id :: string

definition session_revoked :: api_error where
  "session_revoked = \<lparr>ae_status = 401, ae_code = ''SESSION_REVOKED'',
     ae_message = ''This session is no longer valid''\<rparr>"

definition invalid_credentials :: api_error where
  "invalid_credentials = \<lparr>ae_status = 401, ae_code = ''INVALID_CREDENTIALS'',
     ae_message = ''Email or password is incorrect''\<rparr>"

definition telemetry_unavailable :: api_error where
  "telemetry_unavailable = \<lparr>ae_status = 503, ae_code = ''AUTH_TELEMETRY_UNAVAILABLE'',
     ae_message = ''Sign-in is temporarily unavailable''\<rparr>"

definition forbidden :: api_error where
  "forbidden = \<lparr>ae_status = 403, ae_code = ''FORBIDDEN'',
     ae_message = ''You do not have permission to perform this action''\<rparr>"

section \<open>Sessions of requests\<close>

definition authenticateAnySession ::
  "env \<Rightarrow> store \<Rightarrow> jwt_claims option \<Rightarrow> http_failure + session_user \<times> session_purpose" where
  "authenticateAnySession e s claims =
     (case claims of
        None \<Rightarrow> Inl (Api_failure \<lparr>ae_status = 401, ae_code = ''UNAUTHORIZED'',
          ae_message = ''A valid access token is required''\<rparr>)
      | Some c \<Rightarrow>
          (case (case jw_sessionId c of
               None \<Rightarrow> None
             | Some sessionId \<Rightarrow>
                 findActiveUserSession e s (jw_sub c) (jw_organizationId c) (sha256 e (js sessionId))) of
             None \<Rightarrow> Inl (Api_failure session_revoked)
           | Some (user, purpose) \<Rightarrow>
               if u_role user \<noteq> jw_role c then Inl (Api_failure session_revoked)
               else Inr (user, purpose)))"

definition authenticate :: "env \<Rightarrow> store \<Rightarrow> jwt_claims option \<Rightarrow> http_failure + session_user" where
  "authenticate e s claims =
     (case authenticateAnySession e s claims of
        Inl x \<Rightarrow> Inl x
      | Inr (user, purpose) \<Rightarrow>
          if purpose \<noteq> FULL
          then Inl (Api_failure \<lparr>ae_status = 403, ae_code = ''PASSWORD_ROTATION_REQUIRED'',
            ae_message = ''The bootstrap password must be changed before continuing''\<rparr>)
          else Inr user)"

definition authenticateBootstrapRotation ::
  "env \<Rightarrow> store \<Rightarrow> jwt_claims option \<Rightarrow> http_failure + session_user" where
  "authenticateBootstrapRotation e s claims =
     (case authenticateAnySession e s claims of
        Inl x \<Rightarrow> Inl x
      | Inr (user, purpose) \<Rightarrow>
          if purpose \<noteq> BOOTSTRAP_PASSWORD_ROTATION
          then Inl (Api_failure \<lparr>ae_status = 403,
            ae_code = ''BOOTSTRAP_PASSWORD_ROTATION_SESSION_REQUIRED'',
            ae_message = ''A bootstrap password rotation session is required''\<rparr>)
          else Inr user)"

text \<open>
  \<open>authenticateDevice\<close> of the plugin, for the development mode with bearer tokens: the headers of the
  request and the screen of the store.
\<close>

definition device_unauthorized :: "string \<Rightarrow> http_failure" where
  "device_unauthorized message = Api_failure \<lparr>ae_status = 401, ae_code = ''DEVICE_UNAUTHORIZED'',
     ae_message = message\<rparr>"

definition authenticateDeviceBearer ::
  "env \<Rightarrow> store \<Rightarrow> bool \<Rightarrow> string option \<Rightarrow> string option \<Rightarrow> http_failure + screen" where
  "authenticateDeviceBearer e s developmentBearer screenId token =
     (if \<not> developmentBearer
      then Inl (device_unauthorized ''Device credentials are invalid or revoked'')
      else case (screenId, token) of
        (Some i, Some t) \<Rightarrow>
          (case authenticateDevice s i of
             None \<Rightarrow> Inl (device_unauthorized ''Device credentials are invalid or revoked'')
           | Some x \<Rightarrow>
               if \<not> truthy (sc_deviceTokenHash x) \<or> sc_deviceTokenHash x \<noteq> Some (sha256 e (js t))
               then Inl (device_unauthorized ''Device credentials are invalid or revoked'')
               else Inr x)
      | _ \<Rightarrow> Inl (device_unauthorized ''Device credentials are required''))"

text \<open>\<open>requireRole\<close> and \<open>requireCapability\<close> look at the role of the token.\<close>

definition requireRole :: "jwt_claims \<Rightarrow> role list \<Rightarrow> http_failure + unit" where
  "requireRole c roles = (if jw_role c \<notin> set roles then Inl (Api_failure forbidden) else Inr ())"

definition requireCapability :: "jwt_claims \<Rightarrow> capability \<Rightarrow> http_failure + unit" where
  "requireCapability c capability =
     (if \<not> hasCapability (Some (jw_role c)) capability then Inl (Api_failure forbidden) else Inr ())"

section \<open>Failed logins\<close>

text \<open>\<open>recordLoginFailure\<close> of the routes, and the error that is thrown after it.\<close>

definition fail_login ::
  "env \<Rightarrow> auth_platform \<Rightarrow> request_source \<Rightarrow> string \<Rightarrow> login_failure_reason \<Rightarrow> api_error \<Rightarrow> store \<Rightarrow>
    (http_failure + 'a) \<times> store" where
  "fail_login e ap rx email reason err s =
     (case recordLoginFailure e
          \<lparr>lf_accountKey = ap_event_key ap ''login-failure-account'' email,
           lf_sourceKey = ap_event_key ap ''login-failure-source'' (rx_ip rx), lf_reason = reason\<rparr> s of
        (Inl x, s') \<Rightarrow> (Inl (Api_failure telemetry_unavailable), s')
      | (Inr u, s') \<Rightarrow> (Inl (Api_failure err), s'))"

text \<open>The budgets of a route in their order: the first that is refused ends it.\<close>

fun first_refusal :: "budget_result option list \<Rightarrow> api_error option" where
  "first_refusal [] = None"
| "first_refusal (r # rs) =
     (case enforceRateLimitBudget r of Some err \<Rightarrow> Some err | None \<Rightarrow> first_refusal rs)"

definition within_budgets ::
  "env \<Rightarrow> auth_platform \<Rightarrow> request_source \<Rightarrow> string \<Rightarrow> budget_result option list \<Rightarrow> store \<Rightarrow>
    (http_failure + unit) \<times> store" where
  "within_budgets e ap rx email budgets s =
     (case first_refusal budgets of
        None \<Rightarrow> (Inr (), s)
      | Some err \<Rightarrow>
          if ae_code err = ''RATE_LIMITED'' then fail_login e ap rx email RATE_LIMITED err s
          else (Inl (Api_failure err), s))"

section \<open>Login\<close>

definition DUMMY_PASSWORD_HASH :: string where
  "DUMMY_PASSWORD_HASH = ''$2b$12$C6UzMDM.H6dfI/f/IKcEe.82jG7y4g4AY8I8HibLFSWafVkx8S4hS''"

definition SESSION_LIFETIME_SECONDS :: int where "SESSION_LIFETIME_SECONDS = 60 * 60"

definition BOOTSTRAP_ROTATION_SESSION_LIFETIME_SECONDS :: int where
  "BOOTSTRAP_ROTATION_SESSION_LIFETIME_SECONDS = 10 * 60"

text \<open>A password is compared whether or not there is an account.\<close>

definition verifyLoginCredentials ::
  "env \<Rightarrow> auth_platform \<Rightarrow> store \<Rightarrow> string \<Rightarrow> utext \<Rightarrow> session_user option" where
  "verifyLoginCredentials e ap s email password =
     (let user = findUserByEmail e s email;
          passwordValid = ap_compare ap password
            (case user of None \<Rightarrow> DUMMY_PASSWORD_HASH | Some u \<Rightarrow> u_passwordHash u) in
      if passwordValid then user else None)"

definition loginSchema :: "auth_platform \<Rightarrow> string \<Rightarrow> utext \<Rightarrow> string option" where
  "loginSchema ap rawEmail password =
     (let email = toLowerCase (trim rawEmail) in
      if ap_is_email ap email \<and> length email \<le> 254 \<and> 8 \<le> length password \<and> length password \<le> 200
      then Some email else None)"

text \<open>An expiry at the epoch itself is falsy.\<close>

definition bootstrap_expiry :: "session_user \<Rightarrow> instant option" where
  "bootstrap_expiry user =
     (case u_bootstrapPasswordExpiresAt user of
        None \<Rightarrow> None | Some b \<Rightarrow> if b = 0 then None else Some b)"

definition purpose_of :: "session_user \<Rightarrow> session_purpose" where
  "purpose_of user = (if bootstrap_expiry user = None then FULL else BOOTSTRAP_PASSWORD_ROTATION)"

definition lifetimeSeconds :: "session_user \<Rightarrow> instant \<Rightarrow> int" where
  "lifetimeSeconds user issueTime =
     (case bootstrap_expiry user of
        None \<Rightarrow> SESSION_LIFETIME_SECONDS
      | Some b \<Rightarrow> min BOOTSTRAP_ROTATION_SESSION_LIFETIME_SECONDS ((b - issueTime) div 1000))"

datatype login_reply =
    Change_bootstrap_password jwt_claims instant
  | Signed_in jwt_claims int session_user

fun token_of :: "login_reply \<Rightarrow> jwt_claims" where
  "token_of (Change_bootstrap_password c t) = c"
| "token_of (Signed_in c n u) = c"

definition session_request :: "session_user \<Rightarrow> string \<Rightarrow> instant \<Rightarrow> session_create_input" where
  "session_request user tokenHash expiresAt =
     \<lparr>si_tokenHash = tokenHash, si_expiresAt = Some expiresAt,
      si_expectedPasswordHash = u_passwordHash user, si_expectedRole = u_role user,
      si_expectedAuthenticationEpoch = u_authenticationEpoch user,
      si_expectedAuthorizationEpoch = u_authorizationEpoch user, si_purpose = Some (purpose_of user),
      si_expectedBootstrapPasswordExpiresAt = u_bootstrapPasswordExpiresAt user\<rparr>"

definition login_reply_of :: "session_user \<Rightarrow> string \<Rightarrow> int \<Rightarrow> login_reply" where
  "login_reply_of user sessionId lifetime =
     (let token = \<lparr>jw_sub = u_id user, jw_email = u_email user,
            jw_organizationId = u_organizationId user, jw_role = u_role user,
            jw_sessionId = Some sessionId\<rparr> in
      case (purpose_of user, u_bootstrapPasswordExpiresAt user) of
        (BOOTSTRAP_PASSWORD_ROTATION, Some b) \<Rightarrow> Change_bootstrap_password token b
      | _ \<Rightarrow> Signed_in token lifetime user)"

text \<open>
  The handler: it looks the user up, awaits bcrypt, takes the time of issue and awaits the signing of
  the token before it creates the session.  \<open>w1\<close> and \<open>w2\<close> are what others do meanwhile.
\<close>

definition login_handler ::
  "auth_platform \<Rightarrow> request_source \<Rightarrow> env \<Rightarrow> env \<Rightarrow> env \<Rightarrow> (store \<Rightarrow> store) \<Rightarrow> (store \<Rightarrow> store) \<Rightarrow>
    string \<Rightarrow> string \<Rightarrow> utext \<Rightarrow> store \<Rightarrow> (http_failure + login_reply) \<times> store" where
  "login_handler ap rx e1 e2 e3 w1 w2 sessionId rawEmail password s =
     (case loginSchema ap rawEmail password of
        None \<Rightarrow> (Inl Invalid_request, s)
      | Some email \<Rightarrow>
          (case verifyLoginCredentials e1 ap s email password of
             None \<Rightarrow> fail_login e2 ap rx email INVALID_CREDENTIALS invalid_credentials (w1 s)
           | Some user \<Rightarrow>
               if lifetimeSeconds user (now e2) < 1
               then fail_login e2 ap rx email INVALID_CREDENTIALS invalid_credentials (w1 s)
               else
                 (case createUserSessionAndAudit e3 (u_organizationId user)
                     (session_request user (sha256 e3 (js sessionId))
                       (now e2 + lifetimeSeconds user (now e2) * 1000))
                     \<lparr>ac_actorUserId = u_id user, ac_ipAddress = Some (rx_ip rx),
                      ac_requestId = Some (rx_id rx)\<rparr> (w2 (w1 s)) of
                    (Inl x, s') \<Rightarrow> (Inl (Store_failure x), s')
                  | (Inr (Denied d), s') \<Rightarrow>
                      fail_login e3 ap rx email INVALID_CREDENTIALS invalid_credentials s'
                  | (Inr (Done session), s') \<Rightarrow>
                      (Inr (login_reply_of user sessionId (lifetimeSeconds user (now e2))), s'))))"

text \<open>\<open>POST /auth/login\<close>: the email of the budgets is read from the body before it is validated.\<close>

definition login_route ::
  "auth_platform \<Rightarrow> request_source \<Rightarrow> env \<Rightarrow> env \<Rightarrow> env \<Rightarrow> env \<Rightarrow> (store \<Rightarrow> store) \<Rightarrow> (store \<Rightarrow> store) \<Rightarrow>
    string \<Rightarrow> budget_result option list \<Rightarrow> (string \<times> utext) option \<Rightarrow> store \<Rightarrow>
    (http_failure + login_reply) \<times> store" where
  "login_route ap rx e0 e1 e2 e3 w1 w2 sessionId budgets body s =
     (case within_budgets e0 ap rx
          (case body of None \<Rightarrow> ''invalid'' | Some (email, password) \<Rightarrow> toLowerCase (trim email)) budgets s of
        (Inl x, s') \<Rightarrow> (Inl x, s')
      | (Inr u, s') \<Rightarrow>
          (case body of
             None \<Rightarrow> (Inl Invalid_request, s')
           | Some (email, password) \<Rightarrow>
               login_handler ap rx e1 e2 e3 w1 w2 sessionId email password s'))"

section \<open>The bootstrap password\<close>

fun code_points :: "utext \<Rightarrow> nat" where
  "code_points [] = 0"
| "code_points [u] = 1"
| "code_points (u # v # us) =
     (if high_surrogate u \<and> low_surrogate v then 1 + code_points us else 1 + code_points (v # us))"

definition strongPassword :: "utext \<Rightarrow> bool" where
  "strongPassword value \<longleftrightarrow> \<not> code_points value < 16 \<and> \<not> utf8_length value > 72"

definition bootstrapPasswordSchema :: "utext \<Rightarrow> utext \<Rightarrow> bool" where
  "bootstrapPasswordSchema currentPassword newPassword \<longleftrightarrow>
     1 \<le> length currentPassword \<and> length currentPassword \<le> 200 \<and> strongPassword newPassword \<and>
     currentPassword \<noteq> newPassword"

definition rotation_handler ::
  "auth_platform \<Rightarrow> request_source \<Rightarrow> env \<Rightarrow> env \<Rightarrow> (store \<Rightarrow> store) \<Rightarrow> (store \<Rightarrow> store) \<Rightarrow>
    jwt_claims \<Rightarrow> session_user \<Rightarrow> utext \<Rightarrow> utext \<Rightarrow> store \<Rightarrow> (http_failure + unit) \<times> store" where
  "rotation_handler ap rx e1 e2 w1 w2 c account currentPassword newPassword s =
     (if \<not> bootstrapPasswordSchema currentPassword newPassword then (Inl Invalid_request, s)
      else case (u_bootstrapPasswordExpiresAt account, jw_sessionId c) of
        (Some b, Some sessionId) \<Rightarrow>
          if \<not> ap_compare ap currentPassword (u_passwordHash account)
          then fail_login e1 ap rx (toLowerCase (trim (u_email account))) INVALID_CREDENTIALS
            invalid_credentials (w1 s)
          else if ap_compare ap newPassword (u_passwordHash account)
          then (Inl (Api_failure \<lparr>ae_status = 400, ae_code = ''NEW_PASSWORD_REUSES_BOOTSTRAP_CREDENTIAL'',
            ae_message = ''New password must differ from the bootstrap password''\<rparr>), w1 s)
          else
            (case rotateBootstrapPasswordAndAudit e2 (jw_sub c) (jw_organizationId c)
                \<lparr>bi_tokenHash = sha256 e2 (js sessionId),
                 bi_expectedPasswordHash = u_passwordHash account,
                 bi_expectedBootstrapPasswordExpiresAt = b,
                 bi_expectedAuthenticationEpoch = u_authenticationEpoch account,
                 bi_expectedAuthorizationEpoch = u_authorizationEpoch account,
                 bi_passwordHash = ap_hash ap newPassword\<rparr>
                \<lparr>ac_actorUserId = jw_sub c, ac_ipAddress = Some (rx_ip rx),
                 ac_requestId = Some (rx_id rx)\<rparr> (w2 (w1 s)) of
               (Inl x, s') \<Rightarrow> (Inl (Store_failure x), s')
             | (Inr (Denied d), s') \<Rightarrow> (Inl (Api_failure session_revoked), s')
             | (Inr (Done orgs), s') \<Rightarrow> (Inr (), s'))
      | _ \<Rightarrow> (Inl (Api_failure session_revoked), s))"

text \<open>\<open>POST /auth/bootstrap-password\<close>; \<open>w0\<close> is what others do while the budgets are asked.\<close>

definition bootstrap_password_route ::
  "auth_platform \<Rightarrow> request_source \<Rightarrow> env \<Rightarrow> env \<Rightarrow> env \<Rightarrow> env \<Rightarrow> (store \<Rightarrow> store) \<Rightarrow> (store \<Rightarrow> store) \<Rightarrow>
    (store \<Rightarrow> store) \<Rightarrow> budget_result option list \<Rightarrow> jwt_claims option \<Rightarrow> (utext \<times> utext) option \<Rightarrow> store \<Rightarrow>
    (http_failure + unit) \<times> store" where
  "bootstrap_password_route ap rx e0 e1 e2 e3 w0 w1 w2 budgets claims body s =
     (case authenticateBootstrapRotation e0 s claims of
        Inl x \<Rightarrow> (Inl x, s)
      | Inr account \<Rightarrow>
          (case within_budgets e1 ap rx (toLowerCase (trim (u_email account))) budgets (w0 s) of
             (Inl x, s') \<Rightarrow> (Inl x, s')
           | (Inr u, s') \<Rightarrow>
               (case body of
                  None \<Rightarrow> (Inl Invalid_request, s')
                | Some (currentPassword, newPassword) \<Rightarrow>
                    rotation_handler ap rx e2 e3 w1 w2 (the claims) account currentPassword
                      newPassword s')))"

section \<open>Logout\<close>

text \<open>\<open>POST /auth/logout\<close> answers 204 also where the session has ended meanwhile.\<close>

definition logout_route ::
  "request_source \<Rightarrow> env \<Rightarrow> env \<Rightarrow> (store \<Rightarrow> store) \<Rightarrow> jwt_claims option \<Rightarrow> store \<Rightarrow>
    (http_failure + unit) \<times> store" where
  "logout_route rx e1 e2 w claims s =
     (case authenticateAnySession e1 s claims of
        Inl x \<Rightarrow> (Inl x, s)
      | Inr account \<Rightarrow>
          let c = the claims in
          (case revokeUserSessionAndAudit e2 (jw_sub c) (jw_organizationId c)
              (sha256 e2 (js (the (jw_sessionId c))))
              \<lparr>ac_actorUserId = jw_sub c, ac_ipAddress = Some (rx_ip rx), ac_requestId = Some (rx_id rx)\<rparr>
              (w s) of
             (Inl x, s') \<Rightarrow> (Inl (Store_failure x), s')
           | (Inr r, s') \<Rightarrow> (Inr (), s')))"

end
