(* ===== verification/Auth_Properties.thy ===== *)
theory Auth_Properties
  imports Auth_Routes Samples
begin

text \<open>
  What a session that was issued rests on, how long it lasts, that its token authenticates, what a
  request that is let through has behind it, and what the rotation of a bootstrap password ends.
\<close>

section \<open>Requests\<close>

lemma authenticateAnySession_Inr:
  assumes "authenticateAnySession e s claims = Inr (user, purpose)"
  obtains c sessionId where "claims = Some c" "jw_sessionId c = Some sessionId" "u_role user = jw_role c"
    "findActiveUserSession e s (jw_sub c) (jw_organizationId c) (sha256 e (js sessionId)) = Some (user, purpose)"
  using assms
  by (auto simp: authenticateAnySession_def split: option.splits if_splits)

lemma findActiveUserSession_Some:
  assumes "findActiveUserSession e s i org token = Some (user, purpose)"
  shows "findSessionUser s i org = Some user"
    and "\<exists>session \<in> set (userSessions s). live_session (now e) i org token session \<and>
      us_authenticationEpoch session = u_authenticationEpoch user \<and>
      us_authorizationEpoch session = u_authorizationEpoch user"
    and "purpose = FULL \<Longrightarrow> u_bootstrapPasswordExpiresAt user = None"
proof -
  obtain session where l: "List.find (live_session (now e) i org token) (userSessions s) = Some session"
    using assms by (auto simp: findActiveUserSession_def split: option.splits)
  note f = find_SomeD [OF l]
  show "findSessionUser s i org = Some user"
    using assms by (auto simp: findActiveUserSession_def l split: option.splits if_splits)
  have "us_authenticationEpoch session = u_authenticationEpoch user"
      "us_authorizationEpoch session = u_authorizationEpoch user"
    using assms by (auto simp: findActiveUserSession_def l split: option.splits if_splits)
  with f show "\<exists>session \<in> set (userSessions s). live_session (now e) i org token session \<and>
      us_authenticationEpoch session = u_authenticationEpoch user \<and>
      us_authorizationEpoch session = u_authorizationEpoch user" by blast
  show "purpose = FULL \<Longrightarrow> u_bootstrapPasswordExpiresAt user = None"
    using assms by (auto simp: findActiveUserSession_def l split: option.splits if_splits)
qed

text \<open>
  C9: a request that is let through has current authority behind it: a live session of an enabled
  member whose epochs are still those of the session, who owes no change of a bootstrap password,
  and whose role, as the store has it, is the one its capabilities are judged by.
\<close>

theorem request_authority_is_current:
  assumes "authenticate e s claims = Inr user"
  shows "\<exists>c session. claims = Some c \<and> findSessionUser s (jw_sub c) (jw_organizationId c) = Some user \<and>
    session \<in> set (userSessions s) \<and> us_userId session = u_id user \<and>
    us_organizationId session = u_organizationId user \<and> us_revokedAt session = None \<and>
    us_expiresAt session > now e \<and>
    us_authenticationEpoch session = u_authenticationEpoch user \<and>
    us_authorizationEpoch session = u_authorizationEpoch user \<and>
    u_bootstrapPasswordExpiresAt user = None \<and>
    (requireCapability c capability = Inr () \<longleftrightarrow> hasCapability (Some (u_role user)) capability)"
proof -
  have a: "authenticateAnySession e s claims = Inr (user, FULL)"
    using assms by (auto simp: authenticate_def split: sum.splits if_splits)
  then obtain c sessionId where c: "claims = Some c" "u_role user = jw_role c"
    and f: "findActiveUserSession e s (jw_sub c) (jw_organizationId c) (sha256 e (js sessionId)) = Some (user, FULL)"
    by (elim authenticateAnySession_Inr)
  note u = findSessionUser_SomeD [OF findActiveUserSession_Some(1) [OF f]]
  show ?thesis
    using findActiveUserSession_Some [OF f] c u
    by (auto simp: live_session_def requireCapability_def intro!: exI [of _ c])
qed

definition full_session :: user_session where
  "full_session = \<lparr>us_id = ''x'', us_organizationId = ''org'', us_userId = ''ann'',
     us_tokenHash = sample_digest, us_authenticationEpoch = 0, us_authorizationEpoch = 0,
     us_purpose = Some FULL, us_expiresAt = 9000, us_revokedAt = None, us_createdAt = 0\<rparr>"

definition full_token :: jwt_claims where
  "full_token = \<lparr>jw_sub = ''ann'', jw_email = ''ann@x'', jw_organizationId = ''org'', jw_role = OWNER,
     jw_sessionId = Some ''t''\<rparr>"

lemma full_token_authenticates: "authenticate (sample_env 2) ((start_store sample_users)\<lparr>userSessions := [full_session]\<rparr>)
    (Some full_token) = Inr (sample_user ''ann'' OWNER)"
  by (simp add: authenticate_def authenticateAnySession_def full_token_def findActiveUserSession_def
      live_session_def full_session_def user_eval)

theorem request_authority_is_current_witness:
  "\<exists>session. session \<in> set [full_session] \<and> us_userId session = ''ann'' \<and> us_expiresAt session > 2000 \<and>
    (requireCapability full_token releaseApprove = Inr () \<longleftrightarrow> hasCapability (Some OWNER) releaseApprove)"
  using request_authority_is_current [OF full_token_authenticates, of releaseApprove]
  by (auto simp: sample_user_def)

section \<open>A sample owner\<close>

definition sample_auth :: auth_platform where
  "sample_auth = \<lparr>ap_compare = (\<lambda>p h. p = js ''bootstrap'' \<and> h = ''h''),
     ap_hash = (\<lambda>_. ''$2b$12$'' @ replicate 53 (CHR ''a'')), ap_is_email = (\<lambda>_. True),
     ap_event_key = (\<lambda>_ _. sample_digest)\<rparr>"

definition sample_source :: request_source where
  "sample_source = \<lparr>rx_ip = ''ip'', rx_id = ''r''\<rparr>"

definition new_owner :: session_user where
  "new_owner = (sample_user ''ann'' OWNER)\<lparr>u_bootstrapPasswordExpiresAt := Some 9000000\<rparr>"

definition login_request :: session_create_input where
  "login_request = session_request new_owner sample_digest 602000"

definition first_session :: user_session where
  "first_session = \<lparr>us_id = ''ii-'', us_organizationId = ''org'', us_userId = ''ann'',
     us_tokenHash = sample_digest, us_authenticationEpoch = 0, us_authorizationEpoch = 0,
     us_purpose = Some BOOTSTRAP_PASSWORD_ROTATION, us_expiresAt = 602000, us_revokedAt = None,
     us_createdAt = 2000\<rparr>"

definition sample_by :: audit_context where
  "sample_by = \<lparr>ac_actorUserId = ''ann'', ac_ipAddress = Some ''ip'', ac_requestId = Some ''r''\<rparr>"

definition first_token :: jwt_claims where
  "first_token = \<lparr>jw_sub = ''ann'', jw_email = ''ann@x'', jw_organizationId = ''org'', jw_role = OWNER,
     jw_sessionId = Some ''t''\<rparr>"

lemma first_login_event: "assertAuditEventIntegrity
    ((user_event ''org'' sample_by ''auth.login_succeeded'' ''session'' (Some ''ii-'')
       [(js ''expiresAt'', jinstant 602000), (js ''purpose'', jstr (purpose_text BOOTSTRAP_PASSWORD_ROTATION))])
     \<lparr>au_actorUserId := Some ''ann''\<rparr>) = None"
proof -
  have "toISOString 602000 = ''1970-01-01T00:10:02.000Z''" by code_simp
  then show ?thesis by (simp add: text_eval sample_by_def)
qed

lemma first_session_created: "\<exists>rs. createUserSessionAndAudit (sample_env 2) ''org'' login_request sample_by
    (start_store [new_owner]) = (Inr (Done first_session),
      (start_store [new_owner])\<lparr>userSessions := [first_session], auditRecords := rs\<rparr>)"
proof -
  have f: "findSessionUser (start_store [new_owner]) ''ann'' ''org'' = Some new_owner"
    by (simp add: findSessionUser_def start_store_def empty_store_def new_owner_def sample_user_def)
  have n: "u_id new_owner = ''ann''" "u_authenticationEpoch new_owner = 0" "u_authorizationEpoch new_owner = 0"
    "u_bootstrapPasswordExpiresAt new_owner = Some 9000000"
    by (simp_all add: new_owner_def sample_user_def)
  have p: "purpose_of new_owner = BOOTSTRAP_PASSWORD_ROTATION" by (simp add: purpose_of_def bootstrap_expiry_def n)
  have q: "si_purpose login_request = Some BOOTSTRAP_PASSWORD_ROTATION" "si_expiresAt login_request = Some 602000"
    "si_tokenHash login_request = sample_digest"
    by (simp_all add: login_request_def session_request_def p)
  have r: "\<not> session_refused new_owner login_request BOOTSTRAP_PASSWORD_ROTATION 2000"
    by (simp add: session_refused_def login_request_def session_request_def p n)
  have a: "ac_actorUserId sample_by = ''ann''" by (simp add: sample_by_def)
  have i: "new_id (sample_env 2) 0 = ''ii-''" "new_id (sample_env 2) (Suc 0) = ''ii-k''"
    by (simp_all add: ids replicate_numeral)
  show ?thesis
    using first_login_event
    by (simp add: createUserSessionAndAudit_def f q a r n i first_session_def Let_def built)
      (simp add: start_store_def empty_store_def)
qed

lemma sample_login: "\<exists>rs. login_handler sample_auth sample_source (sample_env 2) (sample_env 2) (sample_env 2) id id
    ''t'' ''ann@x'' (js ''bootstrap'') (start_store [new_owner]) =
    (Inr (Change_bootstrap_password first_token 9000000),
      (start_store [new_owner])\<lparr>userSessions := [first_session], auditRecords := rs\<rparr>)"
proof -
  have s: "loginSchema sample_auth ''ann@x'' (js ''bootstrap'') = Some ''ann@x''"
    by (simp add: loginSchema_def sample_auth_def trim_def is_js_space_def toLowerCase_def lower_char_def Let_def)
  have f: "findUserByEmail e (start_store [new_owner]) ''ann@x'' = Some new_owner" for e
    by (simp add: findUserByEmail_def start_store_def empty_store_def new_owner_def sample_user_def
        toLowerCase_def lower_char_def js_unique_def same_identity_def sort_by_def Let_def)
  have v: "verifyLoginCredentials (sample_env 2) sample_auth (start_store [new_owner]) ''ann@x'' (js ''bootstrap'') =
      Some new_owner"
    by (simp add: verifyLoginCredentials_def f) (simp add: sample_auth_def new_owner_def sample_user_def)
  have l: "lifetimeSeconds new_owner 2000 = 600"
    by (simp add: lifetimeSeconds_def bootstrap_expiry_def new_owner_def BOOTSTRAP_ROTATION_SESSION_LIFETIME_SECONDS_def)
  have o: "u_organizationId new_owner = ''org''" "u_id new_owner = ''ann''"
    by (simp_all add: new_owner_def sample_user_def)
  have r: "login_reply_of new_owner ''t'' 600 = Change_bootstrap_password first_token 9000000"
    by (simp add: login_reply_of_def purpose_of_def bootstrap_expiry_def new_owner_def sample_user_def first_token_def)
  have b: "\<lparr>ac_actorUserId = ''ann'', ac_ipAddress = Some (rx_ip sample_source),
      ac_requestId = Some (rx_id sample_source)\<rparr> = sample_by" by (simp add: sample_by_def sample_source_def)
  have q: "session_request new_owner sample_digest 602000 = login_request" by (simp add: login_request_def)
  show ?thesis using first_session_created by (auto simp: login_handler_def s v l o r b q)
qed

section \<open>Login\<close>

lemma verifyLoginCredentials_Some:
  "verifyLoginCredentials e ap s email password = Some user \<Longrightarrow> ap_compare ap password (u_passwordHash user)"
  by (auto simp: verifyLoginCredentials_def Let_def split: if_splits option.splits)

lemma fail_login_fails: "fail_login e ap rx email reason err s \<noteq> (Inr reply, s')"
  by (auto simp: fail_login_def split: prod.splits sum.splits)

lemma login_Inr:
  assumes "login_handler ap rx e1 e2 e3 w1 w2 sessionId rawEmail password s = (Inr reply, s')"
  obtains email user session where "loginSchema ap rawEmail password = Some email"
    "verifyLoginCredentials e1 ap s email password = Some user" "1 \<le> lifetimeSeconds user (now e2)"
    "createUserSessionAndAudit e3 (u_organizationId user) (session_request user (sha256 e3 (js sessionId))
      (now e2 + lifetimeSeconds user (now e2) * 1000))
      \<lparr>ac_actorUserId = u_id user, ac_ipAddress = Some (rx_ip rx), ac_requestId = Some (rx_id rx)\<rparr>
      (w2 (w1 s)) = (Inr (Done session), s')"
    "reply = login_reply_of user sessionId (lifetimeSeconds user (now e2))"
proof -
  note d = login_handler_def
  have "loginSchema ap rawEmail password \<noteq> None" by (rule notI) (use assms in \<open>simp add: d\<close>)
  then obtain email where e: "loginSchema ap rawEmail password = Some email" by blast
  have "verifyLoginCredentials e1 ap s email password \<noteq> None"
    by (rule notI) (use assms in \<open>simp add: d e fail_login_fails\<close>)
  then obtain user where u: "verifyLoginCredentials e1 ap s email password = Some user" by blast
  have l: "\<not> lifetimeSeconds user (now e2) < 1"
    by (rule notI) (use assms in \<open>simp add: d e u fail_login_fails\<close>)
  let ?create = "createUserSessionAndAudit e3 (u_organizationId user) (session_request user (sha256 e3 (js sessionId))
      (now e2 + lifetimeSeconds user (now e2) * 1000))
      \<lparr>ac_actorUserId = u_id user, ac_ipAddress = Some (rx_ip rx), ac_requestId = Some (rx_id rx)\<rparr> (w2 (w1 s))"
  obtain res s1 where c: "?create = (res, s1)" by (cases ?create)
  then obtain session where "res = Inr (Done session)" "s1 = s'"
      "reply = login_reply_of user sessionId (lifetimeSeconds user (now e2))"
    using assms by (auto simp: d e u l fail_login_fails split: sum.splits answer.splits)
  with that [OF e u _ _ this(3)] l c show thesis by simp
qed

lemma lifetime_bounds:
  "lifetimeSeconds user t \<le> SESSION_LIFETIME_SECONDS"
  "bootstrap_expiry user = Some b \<Longrightarrow> lifetimeSeconds user t \<le> BOOTSTRAP_ROTATION_SESSION_LIFETIME_SECONDS \<and>
    t + lifetimeSeconds user t * 1000 \<le> b"
proof -
  have m: "min x ((b - t) div 1000) * 1000 \<le> b - t" for x :: int
    using pos_mod_sign [of 1000 "b - t"] div_mult_mod_eq [of "b - t" 1000] by linarith
  show "lifetimeSeconds user t \<le> SESSION_LIFETIME_SECONDS"
    by (auto simp: lifetimeSeconds_def SESSION_LIFETIME_SECONDS_def
        BOOTSTRAP_ROTATION_SESSION_LIFETIME_SECONDS_def split: option.split)
  show "bootstrap_expiry user = Some b \<Longrightarrow> lifetimeSeconds user t \<le> BOOTSTRAP_ROTATION_SESSION_LIFETIME_SECONDS \<and>
    t + lifetimeSeconds user t * 1000 \<le> b"
    using m [of BOOTSTRAP_ROTATION_SESSION_LIFETIME_SECONDS] by (auto simp: lifetimeSeconds_def)
qed

text \<open>A session that was created for a request of the login handler.\<close>

lemma created_session:
  assumes "createUserSessionAndAudit e (u_organizationId account) (session_request account h t) audit s = (Inr (Done session), s')"
  obtains user where "findSessionUser s (ac_actorUserId audit) (u_organizationId account) = Some user"
    "u_passwordHash user = u_passwordHash account"
    "u_bootstrapPasswordExpiresAt user = u_bootstrapPasswordExpiresAt account" "now e < t"
    "purpose_of account = FULL \<Longrightarrow> u_bootstrapPasswordExpiresAt account = None"
    "us_userId session = u_id user" "us_organizationId session = u_organizationId account"
    "us_tokenHash session = h" "us_expiresAt session = t" "us_purpose session = Some (purpose_of account)"
    "last (userSessions s') = session"
proof -
  have f: "si_tokenHash (session_request account h t) = h" "si_expiresAt (session_request account h t) = Some t"
    "or_default (si_purpose (session_request account h t)) FULL = purpose_of account"
    by (simp_all add: session_request_def)
  from assms show thesis
  proof (rule createUserSession_Done)
    fix user x r
    assume u: "findSessionUser s (ac_actorUserId audit) (u_organizationId account) = Some user"
      and x: "si_expiresAt (session_request account h t) = Some x"
      and ok: "\<not> session_refused user (session_request account h t)
        (or_default (si_purpose (session_request account h t)) FULL) (now e)"
      and ses: "session = \<lparr>us_id = new_id e 0, us_organizationId = u_organizationId account, us_userId = u_id user,
       us_tokenHash = si_tokenHash (session_request account h t), us_authenticationEpoch = u_authenticationEpoch user,
       us_authorizationEpoch = u_authorizationEpoch user,
       us_purpose = Some (or_default (si_purpose (session_request account h t)) FULL), us_expiresAt = x,
       us_revokedAt = None, us_createdAt = now e\<rparr>"
      and s': "s' = s\<lparr>userSessions := filter (\<lambda>c. us_expiresAt c > now e) (userSessions s) @ [session],
            auditRecords := auditRecords s @ [r]\<rparr>"
    have r: "\<not> session_refused user (session_request account h t) (purpose_of account) (now e)"
      using ok by (simp only: f(3) not_False_eq_True)
    have "u_passwordHash user = u_passwordHash account" "u_bootstrapPasswordExpiresAt user = u_bootstrapPasswordExpiresAt account"
      "now e < t" "purpose_of account = FULL \<Longrightarrow> u_bootstrapPasswordExpiresAt account = None"
      using r by (auto simp: session_refused_def session_request_def)
    from that [OF u this] show thesis using x by (simp add: ses s' f)
  qed
qed

text \<open>
  C8: whatever other requests do while a login waits, the session it issues is that of an enabled
  member whose password hash, as the store has it then, is the one the password was compared with;
  it ends within an hour of its issue, and for a bootstrap password it is good for the change of
  that password only, for ten minutes and not beyond the password's own expiry.
\<close>

theorem login_session_is_bounded:
  assumes "login_handler ap rx e1 e2 e3 w1 w2 sessionId rawEmail password s = (Inr reply, s')"
  shows "\<exists>user session. findSessionUser (w2 (w1 s)) (us_userId session) (us_organizationId session) = Some user \<and>
    ap_compare ap password (u_passwordHash user) \<and> last (userSessions s') = session \<and>
    us_tokenHash session = sha256 e3 (js sessionId) \<and> us_expiresAt session > now e3 \<and>
    us_expiresAt session \<le> now e2 + 60 * 60 * 1000 \<and>
    us_purpose session = Some (if u_bootstrapPasswordExpiresAt user = None then FULL
      else BOOTSTRAP_PASSWORD_ROTATION) \<and>
    (case u_bootstrapPasswordExpiresAt user of None \<Rightarrow> True
     | Some b \<Rightarrow> us_expiresAt session \<le> b \<and> us_expiresAt session \<le> now e2 + 10 * 60 * 1000)"
  using assms
proof (rule login_Inr)
  fix email account session
  assume v: "verifyLoginCredentials e1 ap s email password = Some account"
    and c: "createUserSessionAndAudit e3 (u_organizationId account) (session_request account (sha256 e3 (js sessionId))
      (now e2 + lifetimeSeconds account (now e2) * 1000))
      \<lparr>ac_actorUserId = u_id account, ac_ipAddress = Some (rx_ip rx), ac_requestId = Some (rx_id rx)\<rparr>
      (w2 (w1 s)) = (Inr (Done session), s')"
  let ?t = "now e2 + lifetimeSeconds account (now e2) * 1000"
  from c show ?thesis
  proof (rule created_session)
    fix user
    assume u: "findSessionUser (w2 (w1 s)) (ac_actorUserId \<lparr>ac_actorUserId = u_id account,
        ac_ipAddress = Some (rx_ip rx), ac_requestId = Some (rx_id rx)\<rparr>) (u_organizationId account) = Some user"
      and h: "u_passwordHash user = u_passwordHash account"
        "u_bootstrapPasswordExpiresAt user = u_bootstrapPasswordExpiresAt account" "now e3 < ?t"
      and full: "purpose_of account = FULL \<Longrightarrow> u_bootstrapPasswordExpiresAt account = None"
      and ses: "us_userId session = u_id user" "us_organizationId session = u_organizationId account"
        "us_tokenHash session = sha256 e3 (js sessionId)" "us_expiresAt session = ?t"
        "us_purpose session = Some (purpose_of account)" "last (userSessions s') = session"
    have u': "findSessionUser (w2 (w1 s)) (us_userId session) (us_organizationId session) = Some user"
      using u findSessionUser_SomeD [OF u] by (simp add: ses(1,2))
    have b: "bootstrap_expiry account = u_bootstrapPasswordExpiresAt account"
      using full by (auto simp: purpose_of_def bootstrap_expiry_def split: if_splits option.splits)
    have p: "purpose_of account = (if u_bootstrapPasswordExpiresAt user = None then FULL
      else BOOTSTRAP_PASSWORD_ROTATION)" by (simp add: purpose_of_def h(2) b)
    have l: "?t \<le> now e2 + 60 * 60 * 1000"
      using lifetime_bounds(1) [of account "now e2"] by (simp add: SESSION_LIFETIME_SECONDS_def)
    have m: "case u_bootstrapPasswordExpiresAt user of None \<Rightarrow> True
       | Some b \<Rightarrow> us_expiresAt session \<le> b \<and> us_expiresAt session \<le> now e2 + 10 * 60 * 1000"
    proof (cases "u_bootstrapPasswordExpiresAt user")
      case (Some x)
      then have "bootstrap_expiry account = Some x" using b h(2) by simp
      from lifetime_bounds(2) [OF this, of "now e2"] Some show ?thesis
        by (simp add: ses(4) BOOTSTRAP_ROTATION_SESSION_LIFETIME_SECONDS_def)
    qed simp
    have "ap_compare ap password (u_passwordHash user)" using verifyLoginCredentials_Some [OF v] h(1) by simp
    then show ?thesis
      using u' ses(3,5,6) h(3) l m p
      by (intro exI [of _ user] exI [of _ session] conjI) (simp_all only: ses(4) simp_thms)
  qed
qed

theorem login_session_is_bounded_witness:
  "\<exists>reply s' session. login_handler sample_auth sample_source (sample_env 2) (sample_env 2) (sample_env 2) id id
      ''t'' ''ann@x'' (js ''bootstrap'') (start_store [new_owner]) = (Inr reply, s') \<and>
    last (userSessions s') = session \<and> us_expiresAt session \<le> now (sample_env 2) + 60 * 60 * 1000"
proof -
  obtain rs where "login_handler sample_auth sample_source (sample_env 2) (sample_env 2) (sample_env 2) id id
    ''t'' ''ann@x'' (js ''bootstrap'') (start_store [new_owner]) =
    (Inr (Change_bootstrap_password first_token 9000000),
      (start_store [new_owner])\<lparr>userSessions := [first_session], auditRecords := rs\<rparr>)"
    using sample_login by blast
  from login_session_is_bounded [OF this] this show ?thesis by blast
qed

text \<open>
  C25: the token of a login authenticates: at the moment it is answered the request that carries it
  is let through, for the member and with the role it was issued to, and only to the change of the
  password while that is a bootstrap password.
\<close>

theorem login_token_authenticates:
  assumes "login_handler ap rx e1 e2 e3 w1 w2 sessionId rawEmail password s = (Inr reply, s')"
    and "\<forall>c \<in> set (userSessions (w2 (w1 s))). us_tokenHash c \<noteq> sha256 e3 (js sessionId)"
  shows "\<exists>user. u_id user = jw_sub (token_of reply) \<and> u_role user = jw_role (token_of reply) \<and>
    (case reply of
       Signed_in c lifetime u \<Rightarrow> authenticate e3 s' (Some c) = Inr user
     | Change_bootstrap_password c b \<Rightarrow> authenticateBootstrapRotation e3 s' (Some c) = Inr user \<and>
         (\<forall>u. authenticate e3 s' (Some c) \<noteq> Inr u))"
  using assms(1)
proof (rule login_Inr)
  fix email account session
  assume c: "createUserSessionAndAudit e3 (u_organizationId account) (session_request account (sha256 e3 (js sessionId))
      (now e2 + lifetimeSeconds account (now e2) * 1000))
      \<lparr>ac_actorUserId = u_id account, ac_ipAddress = Some (rx_ip rx), ac_requestId = Some (rx_id rx)\<rparr>
      (w2 (w1 s)) = (Inr (Done session), s')"
    and reply: "reply = login_reply_of account sessionId (lifetimeSeconds account (now e2))"
  have f: "si_tokenHash (session_request account h t) = h" "si_expectedRole (session_request account h t) = u_role account"
    "or_default (si_purpose (session_request account h t)) FULL = purpose_of account" for h t
    by (simp_all add: session_request_def)
  obtain user where u: "findActiveUserSession e3 s' (us_userId session) (u_organizationId account)
      (sha256 e3 (js sessionId)) = Some (user, purpose_of account)"
      "u_id user = u_id account" "u_role user = u_role account"
    using session_usable [OF c] assms(2) by (auto simp: f)
  have id: "us_userId session = u_id account"
    using c by (rule createUserSession_Done) (auto dest: findSessionUser_SomeD)
  have t: "token_of reply = \<lparr>jw_sub = u_id account, jw_email = u_email account,
            jw_organizationId = u_organizationId account, jw_role = u_role account,
            jw_sessionId = Some sessionId\<rparr>"
    by (simp add: reply login_reply_of_def Let_def split: session_purpose.split option.split)
  have a: "authenticateAnySession e3 s' (Some (token_of reply)) = Inr (user, purpose_of account)"
    using u id by (simp add: authenticateAnySession_def t)
  have b: "purpose_of account = BOOTSTRAP_PASSWORD_ROTATION \<Longrightarrow> u_bootstrapPasswordExpiresAt account \<noteq> None"
    by (auto simp: purpose_of_def bootstrap_expiry_def split: if_splits option.splits)
  have "case reply of
       Signed_in c lifetime u \<Rightarrow> purpose_of account = FULL \<and> c = token_of reply
     | Change_bootstrap_password c b \<Rightarrow> purpose_of account = BOOTSTRAP_PASSWORD_ROTATION \<and> c = token_of reply"
    using b by (auto simp: reply login_reply_of_def Let_def split: session_purpose.split option.split)
  then show ?thesis
    using a u(2,3) t
    by (intro exI [of _ user])
      (cases reply; simp add: authenticate_def authenticateBootstrapRotation_def)
qed

theorem login_token_authenticates_witness:
  "\<exists>user s'. u_id user = ''ann'' \<and> authenticateBootstrapRotation (sample_env 2) s' (Some first_token) = Inr user"
proof -
  obtain rs where l: "login_handler sample_auth sample_source (sample_env 2) (sample_env 2) (sample_env 2) id id
    ''t'' ''ann@x'' (js ''bootstrap'') (start_store [new_owner]) =
    (Inr (Change_bootstrap_password first_token 9000000),
      (start_store [new_owner])\<lparr>userSessions := [first_session], auditRecords := rs\<rparr>)"
    using sample_login by blast
  have "\<forall>c \<in> set (userSessions (id (id (start_store [new_owner])))). us_tokenHash c \<noteq> sha256 (sample_env 2) (js ''t'')"
    by (simp add: start_store_def empty_store_def)
  from login_token_authenticates [OF l this] show ?thesis by (auto simp: first_token_def)
qed

section \<open>The bootstrap password\<close>

lemma rotateBootstrap_Done:
  assumes "rotateBootstrapPasswordAndAudit e i org input audit s = (Inr (Done orgs), s')"
  shows "list_all (membership_as_expected input) (memberships_of s i)"
    and "\<exists>orgs epoch rs. s' = (rotated_store e i orgs epoch (bi_passwordHash input) s)\<lparr>auditRecords := rs\<rparr>"
  using assms
  by (auto simp: rotateBootstrapPasswordAndAudit_def rotation_allowed_def rotated_store_def Let_def
      split: sum.splits option.splits if_splits)

lemma within_budgets_Inr:
  "within_budgets e ap rx email budgets s = (Inr u, s') \<Longrightarrow> s' = s"
  by (auto simp: within_budgets_def fail_login_fails split: option.splits if_splits)

lemma rotation_Inr:
  assumes "rotation_handler ap rx e1 e2 w1 w2 c account currentPassword newPassword s = (Inr u, s')"
  shows "strongPassword newPassword" "ap_compare ap currentPassword (u_passwordHash account)"
    "\<not> ap_compare ap newPassword (u_passwordHash account)"
    and "\<exists>input audit orgs. rotateBootstrapPasswordAndAudit e2 (jw_sub c) (jw_organizationId c) input audit (w2 (w1 s)) =
      (Inr (Done orgs), s') \<and> bi_expectedPasswordHash input = u_passwordHash account \<and>
      bi_passwordHash input = ap_hash ap newPassword"
proof -
  note d = rotation_handler_def
  have b: "bootstrapPasswordSchema currentPassword newPassword" by (rule ccontr) (use assms in \<open>simp add: d\<close>)
  then show "strongPassword newPassword" by (simp add: bootstrapPasswordSchema_def)
  obtain x where x: "u_bootstrapPasswordExpiresAt account = Some x"
    using assms b by (cases "u_bootstrapPasswordExpiresAt account") (simp_all add: d)
  obtain sid where sid: "jw_sessionId c = Some sid"
    using assms b x by (cases "jw_sessionId c") (simp_all add: d)
  show cur: "ap_compare ap currentPassword (u_passwordHash account)"
    by (rule ccontr) (use assms in \<open>simp add: d b x sid fail_login_fails\<close>)
  show new: "\<not> ap_compare ap newPassword (u_passwordHash account)"
    by (rule notI) (use assms in \<open>simp add: d b x sid cur\<close>)
  let ?input = "\<lparr>bi_tokenHash = sha256 e2 (js sid), bi_expectedPasswordHash = u_passwordHash account,
      bi_expectedBootstrapPasswordExpiresAt = x, bi_expectedAuthenticationEpoch = u_authenticationEpoch account,
      bi_expectedAuthorizationEpoch = u_authorizationEpoch account, bi_passwordHash = ap_hash ap newPassword\<rparr>"
  let ?audit = "\<lparr>ac_actorUserId = jw_sub c, ac_ipAddress = Some (rx_ip rx), ac_requestId = Some (rx_id rx)\<rparr>"
  obtain res s1 where r: "rotateBootstrapPasswordAndAudit e2 (jw_sub c) (jw_organizationId c) ?input ?audit (w2 (w1 s)) =
      (res, s1)" by (cases "rotateBootstrapPasswordAndAudit e2 (jw_sub c) (jw_organizationId c) ?input ?audit (w2 (w1 s))")
  then obtain orgs where "res = Inr (Done orgs)" "s1 = s'"
    using assms by (auto simp: d b x sid cur new split: sum.splits answer.splits)
  with r show "\<exists>input audit orgs. rotateBootstrapPasswordAndAudit e2 (jw_sub c) (jw_organizationId c) input audit (w2 (w1 s)) =
      (Inr (Done orgs), s') \<and> bi_expectedPasswordHash input = u_passwordHash account \<and>
      bi_passwordHash input = ap_hash ap newPassword"
    by (intro exI conjI) (assumption | simp)+
qed

text \<open>
  C24: the change of a bootstrap password is complete: it takes the password every membership of the
  user still has when it is replaced, leaves every membership with the hash of a strong new one and
  no change owed, and no token of the user in that organization authenticates any more, at whatever
  time, not even the one that was used.
\<close>

theorem bootstrap_rotation_is_complete:
  assumes "bootstrap_password_route ap rx e0 e1 e2 e3 w0 w1 w2 budgets claims body s = (Inr u, s')"
  shows "\<exists>c currentPassword newPassword. claims = Some c \<and> body = Some (currentPassword, newPassword) \<and>
    strongPassword newPassword \<and>
    list_all (\<lambda>m. ap_compare ap currentPassword (u_passwordHash m) \<and> \<not> ap_compare ap newPassword (u_passwordHash m))
      (memberships_of (w2 (w1 (w0 s))) (jw_sub c)) \<and>
    list_all (\<lambda>m. u_passwordHash m = ap_hash ap newPassword \<and> u_bootstrapPasswordExpiresAt m = None)
      (memberships_of s' (jw_sub c)) \<and>
    (\<forall>e d. jw_sub d = jw_sub c \<and> jw_organizationId d = jw_organizationId c \<longrightarrow>
      authenticateAnySession e s' (Some d) = Inl (Api_failure session_revoked))"
proof -
  note d = bootstrap_password_route_def
  obtain account where a: "authenticateBootstrapRotation e0 s claims = Inr account"
    using assms by (cases "authenticateBootstrapRotation e0 s claims") (simp_all add: d)
  let ?email = "toLowerCase (trim (u_email account))"
  obtain v s1 where w: "within_budgets e1 ap rx ?email budgets (w0 s) = (v, s1)"
    by (cases "within_budgets e1 ap rx ?email budgets (w0 s)")
  obtain x where x: "v = Inr x" using assms a w by (cases v) (simp_all add: d)
  have s1: "s1 = w0 s" using within_budgets_Inr w x by blast
  obtain cur new where body: "body = Some (cur, new)"
    using assms a w x by (cases body) (auto simp: d)
  obtain c where c: "claims = Some c"
    using a by (cases claims) (simp_all add: authenticateBootstrapRotation_def authenticateAnySession_def)
  have h: "rotation_handler ap rx e2 e3 w1 w2 c account cur new (w0 s) = (Inr u, s')"
    using assms [unfolded c] by (simp add: d a [unfolded c] w x body s1)
  note r = rotation_Inr [OF h]
  from r(4) obtain input audit orgs where
      rot: "rotateBootstrapPasswordAndAudit e3 (jw_sub c) (jw_organizationId c) input audit (w2 (w1 (w0 s))) = (Inr (Done orgs), s')"
    and i: "bi_expectedPasswordHash input = u_passwordHash account" "bi_passwordHash input = ap_hash ap new" by blast
  have "list_all (\<lambda>m. ap_compare ap cur (u_passwordHash m) \<and> \<not> ap_compare ap new (u_passwordHash m))
      (memberships_of (w2 (w1 (w0 s))) (jw_sub c))"
    using rotateBootstrap_Done(1) [OF rot] r(2,3) i(1) by (auto simp: list_all_iff membership_as_expected_def)
  moreover obtain orgs epoch rs where s': "s' = (rotated_store e3 (jw_sub c) orgs epoch (ap_hash ap new)
      (w2 (w1 (w0 s))))\<lparr>auditRecords := rs\<rparr>"
    using rotateBootstrap_Done(2) [OF rot] i(2) by auto
  then have "list_all (\<lambda>m. u_passwordHash m = ap_hash ap new \<and> u_bootstrapPasswordExpiresAt m = None)
      (memberships_of s' (jw_sub c))"
    by (auto simp: list_all_iff memberships_of_def rotated_store_def set_update_where)
  moreover have "authenticateAnySession e s' (Some k) = Inl (Api_failure session_revoked)"
    if "jw_sub k = jw_sub c" "jw_organizationId k = jw_organizationId c" for e k
    using that by (simp add: authenticateAnySession_def s' rotated_store_sessions split: option.split)
  ultimately show ?thesis using c body r(1) by blast
qed

definition rotation_store :: store where
  "rotation_store = (start_store [new_owner])\<lparr>userSessions := [first_session]\<rparr>"

definition new_password :: utext where
  "new_password = js ''a-long-new-password''"

lemma rotation_event: "assertAuditEventIntegrity
    (user_event ''org'' sample_by ''auth.bootstrap_password_rotated'' ''user'' (Some ''ann'') []) = None"
  by (simp add: text_eval sample_by_def)

lemma sample_rotation: "\<exists>s'. bootstrap_password_route sample_auth sample_source (sample_env 3) (sample_env 3)
    (sample_env 3) (sample_env 3) id id id [] (Some first_token) (Some (js ''bootstrap'', new_password))
    rotation_store = (Inr (), s')"
proof -
  have o: "u_bootstrapPasswordExpiresAt new_owner = Some 9000000" "u_passwordHash new_owner = ''h''"
    "u_authenticationEpoch new_owner = 0" "u_authorizationEpoch new_owner = 0" "u_role new_owner = OWNER"
    "u_id new_owner = ''ann''" "u_organizationId new_owner = ''org''" "u_disabledAt new_owner = None"
    by (simp_all add: new_owner_def sample_user_def)
  have f: "users rotation_store = [new_owner]" "userSessions rotation_store = [first_session]"
    by (simp_all add: rotation_store_def start_store_def empty_store_def)
  have c: "jw_sub first_token = ''ann''" "jw_organizationId first_token = ''org''"
    "jw_sessionId first_token = Some ''t''" "jw_role first_token = OWNER"
    by (simp_all add: first_token_def)
  have a: "authenticateBootstrapRotation (sample_env 3) rotation_store (Some first_token) = Inr new_owner"
    by (simp add: authenticateBootstrapRotation_def authenticateAnySession_def c findActiveUserSession_def f
        live_session_def first_session_def findSessionUser_def o)
  have p: "bootstrapPasswordSchema (js ''bootstrap'') new_password"
    by (simp add: bootstrapPasswordSchema_def strongPassword_def new_password_def js_def high_surrogate_def)
  have h: "ap_compare sample_auth (js ''bootstrap'') ''h''" "\<not> ap_compare sample_auth new_password ''h''"
    by (simp_all add: sample_auth_def new_password_def js_def)
  have approved: "isApprovedPasswordHash (ap_hash sample_auth new_password)"
    by (simp add: sample_auth_def approved_cost_def list_all_iff is_digit_def is_lower_def is_upper_def)
  let ?input = "\<lparr>bi_tokenHash = sample_digest, bi_expectedPasswordHash = ''h'',
      bi_expectedBootstrapPasswordExpiresAt = 9000000, bi_expectedAuthenticationEpoch = 0,
      bi_expectedAuthorizationEpoch = 0, bi_passwordHash = ap_hash sample_auth new_password\<rparr>"
  have ac: "ac_actorUserId sample_by = ''ann''" "sample_by\<lparr>ac_actorUserId := ''ann''\<rparr> = sample_by"
    by (simp_all add: sample_by_def)
  have "memberships_of rotation_store ''ann'' = [new_owner]" by (simp add: memberships_of_def f o)
  then have "\<exists>s' orgs. rotateBootstrapPasswordAndAudit (sample_env 3) ''ann'' ''org'' ?input sample_by rotation_store =
      (Inr (Done orgs), s')"
    using rotation_event
    by (simp add: rotateBootstrapPasswordAndAudit_def approved f o ac rotation_session_def first_session_def
        rotation_allowed_def membership_as_expected_def organization_ids_def js_unique_def Let_def
        buildAuditRecord_def immutableAuditRecord_def)
  then obtain s' orgs where r: "rotateBootstrapPasswordAndAudit (sample_env 3) ''ann'' ''org'' ?input sample_by
      rotation_store = (Inr (Done orgs), s')" by blast
  have "sample_by = \<lparr>ac_actorUserId = ''ann'', ac_ipAddress = Some (rx_ip sample_source),
      ac_requestId = Some (rx_id sample_source)\<rparr>" by (simp add: sample_by_def sample_source_def)
  then have "rotation_handler sample_auth sample_source (sample_env 3) (sample_env 3) id id first_token new_owner
      (js ''bootstrap'') new_password rotation_store = (Inr (), s')"
    using r by (simp add: rotation_handler_def p o c h)
  then show ?thesis
    by (simp add: bootstrap_password_route_def a within_budgets_def)
qed

theorem bootstrap_rotation_is_complete_witness:
  "\<exists>s'. authenticateAnySession (sample_env 4) s' (Some first_token) = Inl (Api_failure session_revoked) \<and>
    list_all (\<lambda>m. u_bootstrapPasswordExpiresAt m = None) (memberships_of s' ''ann'')"
proof -
  obtain s' where "bootstrap_password_route sample_auth sample_source (sample_env 3) (sample_env 3)
    (sample_env 3) (sample_env 3) id id id [] (Some first_token) (Some (js ''bootstrap'', new_password))
    rotation_store = (Inr (), s')" using sample_rotation by blast
  from bootstrap_rotation_is_complete [OF this] show ?thesis
    by (intro exI [of _ s']) (auto simp: list_all_iff first_token_def)
qed

end
