(* ===== verification/Heartbeat.thy ===== *)
theory Heartbeat
  imports Complex_Main
begin

text \<open>
  The player's heartbeat scheduler (\<open>apps/player/src/core/heartbeat-scheduler.ts\<close>): one timer and at
  most one request.  The class is a state and an operation per method, callback and settlement of
  a promise; an event carries the clock and the random number it reads.  Clock and durations are
  rational numbers of milliseconds (the code has doubles; their rounding is not modelled).
\<close>

section \<open>State\<close>

record heartbeat_options =
  ho_initialIntervalSeconds :: "rat option"
  ho_retryBaseSeconds :: "rat option"
  ho_retryMaxSeconds :: "rat option"

text \<open>
  A run is waiting for the request, or for the error handler with the delay already chosen.  The
  flag says whether its controller has been aborted.
\<close>

datatype run_phase = Sending | Reporting rat

record heartbeat_scheduler =
  hb_timerDueAt :: "rat option" \<comment> \<open>the due time of the armed timer and of its callback\<close>
  hb_request :: "(run_phase \<times> bool) option" \<comment> \<open>present while \<open>running\<close>\<close>
  hb_started :: bool
  hb_suspended :: bool
  hb_wakePending :: bool
  hb_consecutiveFailures :: nat
  hb_cadenceSeconds :: rat
  hb_notBefore :: rat
  hb_immediateOnResume :: bool
  hb_retryBaseSeconds :: rat
  hb_retryMaxSeconds :: rat

record moment =
  mo_now :: rat
  mo_random :: rat

record heartbeat_failure =
  hf_playerApiFailure :: bool
  hf_retryable :: bool
  hf_retryAfterMs :: "rat option"

definition MIN_INTERVAL_SECONDS :: rat where "MIN_INTERVAL_SECONDS = 5"
definition MAX_INTERVAL_SECONDS :: rat where "MAX_INTERVAL_SECONDS = 86400"
definition MAX_TIMER_DELAY_MS :: rat where "MAX_TIMER_DELAY_MS = 2147000000"

section \<open>Delays\<close>

text \<open>\<open>Math.round\<close>\<close>

definition js_round :: "rat \<Rightarrow> rat" where
  "js_round x = of_int \<lfloor>x + 1 / 2\<rfloor>"

definition bounded_random :: "moment \<Rightarrow> rat" where
  "bounded_random m = min 1 (max 0 (mo_random m))"

definition jitter :: "moment \<Rightarrow> rat \<Rightarrow> rat" where
  "jitter m seconds =
     min (MAX_INTERVAL_SECONDS * 1000)
       (js_round (seconds * (9 / 10 + bounded_random m * (1 / 5)) * 1000))"

definition boundInterval :: "rat \<Rightarrow> rat" where
  "boundInterval seconds = min MAX_INTERVAL_SECONDS (max MIN_INTERVAL_SECONDS (js_round seconds))"

definition catchUpDelay :: "moment \<Rightarrow> heartbeat_scheduler \<Rightarrow> rat" where
  "catchUpDelay m s = js_round (hb_cadenceSeconds s * bounded_random m * 1000)"

definition failureDelay :: "moment \<Rightarrow> heartbeat_failure \<Rightarrow> heartbeat_scheduler \<Rightarrow> rat" where
  "failureDelay m reason s =
     (let backoffSeconds = min (hb_retryMaxSeconds s)
            (hb_retryBaseSeconds s * 2 ^ (hb_consecutiveFailures s - 1));
          jitteredBackoff = jitter m backoffSeconds in
      case hf_retryAfterMs reason of
        Some retryAfterMs \<Rightarrow>
          if hf_playerApiFailure reason \<and> 0 \<le> retryAfterMs then max retryAfterMs jitteredBackoff
          else jitteredBackoff
      | None \<Rightarrow> jitteredBackoff)"

definition cooldownRemaining :: "moment \<Rightarrow> heartbeat_scheduler \<Rightarrow> rat" where
  "cooldownRemaining m s = max 0 (hb_notBefore s - mo_now m)"

section \<open>Operations\<close>

definition new_scheduler :: "heartbeat_options \<Rightarrow> heartbeat_scheduler" where
  "new_scheduler options =
     (let retryBase = max MIN_INTERVAL_SECONDS
            (case ho_retryBaseSeconds options of None \<Rightarrow> MIN_INTERVAL_SECONDS | Some x \<Rightarrow> x) in
      \<lparr>hb_timerDueAt = None, hb_request = None, hb_started = False, hb_suspended = False,
       hb_wakePending = False, hb_consecutiveFailures = 0,
       hb_cadenceSeconds = boundInterval
         (case ho_initialIntervalSeconds options of None \<Rightarrow> 60 | Some x \<Rightarrow> x),
       hb_notBefore = 0, hb_immediateOnResume = False, hb_retryBaseSeconds = retryBase,
       hb_retryMaxSeconds = min MAX_INTERVAL_SECONDS
         (max retryBase (case ho_retryMaxSeconds options of None \<Rightarrow> 300 | Some x \<Rightarrow> x))\<rparr>)"

definition clearScheduledTimer :: "heartbeat_scheduler \<Rightarrow> heartbeat_scheduler" where
  "clearScheduledTimer s = s\<lparr>hb_timerDueAt := None\<rparr>"

definition requestRun :: "heartbeat_scheduler \<Rightarrow> heartbeat_scheduler" where
  "requestRun s =
     (if \<not> hb_started s \<or> hb_suspended s \<or> hb_request s \<noteq> None then s
      else s\<lparr>hb_request := Some (Sending, False)\<rparr>)"

definition schedule_timer :: "moment \<Rightarrow> rat \<Rightarrow> bool \<Rightarrow> heartbeat_scheduler \<Rightarrow> heartbeat_scheduler" where
  "schedule_timer m milliseconds pullForwardOnly s =
     (if \<not> hb_started s \<or> hb_suspended s then s
      else let dueAt = max (mo_now m + max 0 milliseconds) (hb_notBefore s) in
        if pullForwardOnly \<and> (case hb_timerDueAt s of None \<Rightarrow> False | Some d \<Rightarrow> d \<le> dueAt) then s
        else s\<lparr>hb_timerDueAt := Some dueAt\<rparr>)"

definition scheduleCatchUp :: "moment \<Rightarrow> heartbeat_scheduler \<Rightarrow> heartbeat_scheduler" where
  "scheduleCatchUp m s = schedule_timer m (catchUpDelay m s) True s"

definition start_scheduler :: "moment \<Rightarrow> bool \<Rightarrow> bool \<Rightarrow> heartbeat_scheduler \<Rightarrow> heartbeat_scheduler" where
  "start_scheduler m active immediate s =
     (if hb_started s then s
      else let s' = s\<lparr>hb_started := True, hb_suspended := \<not> active,
                      hb_immediateOnResume := immediate\<rparr> in
        if \<not> active then s'
        else if immediate then requestRun (s'\<lparr>hb_immediateOnResume := False\<rparr>)
        else scheduleCatchUp m s')"

definition suspend :: "heartbeat_scheduler \<Rightarrow> heartbeat_scheduler" where
  "suspend s =
     (if \<not> hb_started s then s
      else clearScheduledTimer (s\<lparr>hb_suspended := True, hb_wakePending := False\<rparr>))"

definition trigger :: "moment \<Rightarrow> heartbeat_scheduler \<Rightarrow> heartbeat_scheduler" where
  "trigger m s =
     (if \<not> hb_started s \<or> hb_suspended s then s
      else if hb_request s \<noteq> None then s\<lparr>hb_wakePending := True\<rparr>
      else scheduleCatchUp m s)"

definition resume :: "moment \<Rightarrow> heartbeat_scheduler \<Rightarrow> heartbeat_scheduler" where
  "resume m s =
     (if \<not> hb_started s then s
      else let s' = s\<lparr>hb_suspended := False\<rparr> in
        if hb_immediateOnResume s' \<and> cooldownRemaining m s' = 0
        then requestRun (s'\<lparr>hb_immediateOnResume := False\<rparr>)
        else trigger m s')"

definition stop_scheduler :: "heartbeat_scheduler \<Rightarrow> heartbeat_scheduler" where
  "stop_scheduler s =
     (clearScheduledTimer (s\<lparr>hb_started := False, hb_suspended := True, hb_wakePending := False\<rparr>))
       \<lparr>hb_request := map_option (\<lambda>(phase, _). (phase, True)) (hb_request s),
        hb_immediateOnResume := False\<rparr>"

text \<open>
  The timer that \<open>armTimer\<close> sets is re-armed while the due time is not reached, in chunks of at most
  \<open>MAX_TIMER_DELAY_MS\<close>.
\<close>

definition armed_delay :: "moment \<Rightarrow> rat \<Rightarrow> rat" where
  "armed_delay m dueAt = min MAX_TIMER_DELAY_MS (max 0 (dueAt - mo_now m))"

definition timer_fires :: "moment \<Rightarrow> heartbeat_scheduler \<Rightarrow> heartbeat_scheduler" where
  "timer_fires m s =
     (case hb_timerDueAt s of
        None \<Rightarrow> s
      | Some dueAt \<Rightarrow> if mo_now m < dueAt then s else requestRun (s\<lparr>hb_timerDueAt := None\<rparr>))"

text \<open>The end of \<open>run\<close>: the \<open>finally\<close> block and what follows it.\<close>

definition finish_run :: "moment \<Rightarrow> rat option \<Rightarrow> bool \<Rightarrow> heartbeat_scheduler \<Rightarrow> heartbeat_scheduler" where
  "finish_run m delay aborted s =
     (let s' = s\<lparr>hb_request := None\<rparr> in
      if \<not> hb_started s' \<or> hb_suspended s' \<or> aborted then s'
      else if hb_wakePending s' then scheduleCatchUp m (s'\<lparr>hb_wakePending := False\<rparr>)
      else case delay of None \<Rightarrow> s' | Some d \<Rightarrow> schedule_timer m d False s')"

definition send_resolves :: "moment \<Rightarrow> rat \<Rightarrow> heartbeat_scheduler \<Rightarrow> heartbeat_scheduler" where
  "send_resolves m nextHeartbeatSeconds s =
     (case hb_request s of
        Some (Sending, aborted) \<Rightarrow>
          let s' = s\<lparr>hb_consecutiveFailures := 0, hb_notBefore := 0,
                     hb_cadenceSeconds := boundInterval nextHeartbeatSeconds\<rparr> in
          finish_run m (Some (jitter m (hb_cadenceSeconds s'))) aborted s'
      | _ \<Rightarrow> s)"

definition send_rejects :: "moment \<Rightarrow> heartbeat_failure \<Rightarrow> heartbeat_scheduler \<Rightarrow> heartbeat_scheduler" where
  "send_rejects m reason s =
     (case hb_request s of
        Some (Sending, aborted) \<Rightarrow>
          if aborted then finish_run m None aborted s
          else let s' = (if hf_playerApiFailure reason \<and> \<not> hf_retryable reason
                         then s\<lparr>hb_consecutiveFailures := 0\<rparr>
                         else s\<lparr>hb_consecutiveFailures := hb_consecutiveFailures s + 1\<rparr>);
                   delay = (if hf_playerApiFailure reason \<and> \<not> hf_retryable reason
                            then jitter m (hb_cadenceSeconds s') else failureDelay m reason s') in
            s'\<lparr>hb_notBefore := mo_now m + delay, hb_request := Some (Reporting delay, aborted)\<rparr>
      | _ \<Rightarrow> s)"

text \<open>The error handler settles; when it throws, only the \<open>finally\<close> block runs.\<close>

definition report_resolves :: "moment \<Rightarrow> heartbeat_scheduler \<Rightarrow> heartbeat_scheduler" where
  "report_resolves m s =
     (case hb_request s of
        Some (Reporting delay, aborted) \<Rightarrow> finish_run m (Some delay) aborted s
      | _ \<Rightarrow> s)"

definition report_rejects :: "heartbeat_scheduler \<Rightarrow> heartbeat_scheduler" where
  "report_rejects s =
     (case hb_request s of
        Some (Reporting delay, aborted) \<Rightarrow> s\<lparr>hb_request := None\<rparr>
      | _ \<Rightarrow> s)"

section \<open>Events\<close>

datatype heartbeat_event = Suspend | Resume | Trigger | Stop | Timer_fires | Send_resolves rat
  | Send_rejects heartbeat_failure | Report_resolves | Report_rejects

fun heartbeat_step :: "moment \<times> heartbeat_event \<Rightarrow> heartbeat_scheduler \<Rightarrow> heartbeat_scheduler" where
  "heartbeat_step (m, Suspend) s = suspend s"
| "heartbeat_step (m, Resume) s = resume m s"
| "heartbeat_step (m, Trigger) s = trigger m s"
| "heartbeat_step (m, Stop) s = stop_scheduler s"
| "heartbeat_step (m, Timer_fires) s = timer_fires m s"
| "heartbeat_step (m, Send_resolves n) s = send_resolves m n s"
| "heartbeat_step (m, Send_rejects reason) s = send_rejects m reason s"
| "heartbeat_step (m, Report_resolves) s = report_resolves m s"
| "heartbeat_step (m, Report_rejects) s = report_rejects s"

text \<open>A scheduler that is created and started once, as the player's only owner of one does.\<close>

definition heartbeat_run ::
  "heartbeat_options \<Rightarrow> moment \<Rightarrow> bool \<Rightarrow> bool \<Rightarrow> (moment \<times> heartbeat_event) list \<Rightarrow> heartbeat_scheduler" where
  "heartbeat_run options m active immediate events =
     fold heartbeat_step events (start_scheduler m active immediate (new_scheduler options))"

section \<open>Invariant\<close>

definition heartbeat_inv :: "heartbeat_scheduler \<Rightarrow> bool" where
  "heartbeat_inv s \<longleftrightarrow>
     (hb_request s \<noteq> None \<longrightarrow> hb_timerDueAt s = None) \<and>
     (\<forall>d. hb_timerDueAt s = Some d \<longrightarrow> hb_notBefore s \<le> d) \<and>
     (hb_immediateOnResume s \<longrightarrow> hb_suspended s \<and> hb_request s = None \<and> hb_notBefore s = 0) \<and>
     (\<not> hb_started s \<or> hb_suspended s \<longrightarrow> hb_timerDueAt s = None) \<and>
     (\<forall>phase. hb_request s = Some (phase, True) \<longrightarrow> \<not> hb_started s)"

text \<open>A scheduler that is meant to run has a timer or a request.\<close>

definition heartbeat_alive :: "heartbeat_scheduler \<Rightarrow> bool" where
  "heartbeat_alive s \<longleftrightarrow>
     (hb_started s \<and> \<not> hb_suspended s \<longrightarrow> hb_timerDueAt s \<noteq> None \<or> hb_request s \<noteq> None)"

lemmas scheduler_defs = clearScheduledTimer_def requestRun_def schedule_timer_def scheduleCatchUp_def
  suspend_def trigger_def resume_def stop_scheduler_def timer_fires_def

lemma new_scheduler_fields [simp]:
  "hb_timerDueAt (new_scheduler options) = None" "hb_request (new_scheduler options) = None"
  "\<not> hb_started (new_scheduler options)" "hb_notBefore (new_scheduler options) = 0"
  by (simp_all add: new_scheduler_def Let_def)

lemma start_inv: "heartbeat_inv (start_scheduler m active immediate (new_scheduler options))"
  by (auto simp: heartbeat_inv_def start_scheduler_def scheduler_defs Let_def)

lemma start_alive: "heartbeat_alive (start_scheduler m active immediate (new_scheduler options))"
  by (auto simp: heartbeat_alive_def start_scheduler_def scheduler_defs Let_def)

lemma finish_run_inv:
  assumes "heartbeat_inv s" "hb_request s = Some (phase, aborted)"
  shows "heartbeat_inv (finish_run m delay aborted s)"
  using assms
  by (auto simp: heartbeat_inv_def finish_run_def scheduler_defs Let_def split: option.splits)

lemma finish_run_alive:
  assumes "heartbeat_inv s" "hb_request s = Some (phase, aborted)" "delay \<noteq> None \<or> aborted"
  shows "heartbeat_alive (finish_run m delay aborted s)"
  using assms
  by (cases aborted) (auto simp: heartbeat_inv_def heartbeat_alive_def finish_run_def scheduler_defs Let_def
      split: option.splits)

lemma resolves_inv:
  assumes "heartbeat_inv s"
  shows "heartbeat_inv (send_resolves m n s)"
proof (cases "\<exists>aborted. hb_request s = Some (Sending, aborted)")
  case True
  then obtain aborted where r: "hb_request s = Some (Sending, aborted)" ..
  with assms have "heartbeat_inv (s\<lparr>hb_consecutiveFailures := 0, hb_notBefore := 0,
      hb_cadenceSeconds := boundInterval n\<rparr>)"
    by (auto simp: heartbeat_inv_def)
  from finish_run_inv [OF this] r show ?thesis by (simp add: send_resolves_def Let_def)
next
  case False
  with assms show ?thesis by (auto simp: send_resolves_def split: option.splits run_phase.splits)
qed

lemma resume_inv:
  assumes "heartbeat_inv s" "0 \<le> mo_now m"
  shows "heartbeat_inv (resume m s)"
proof (cases "hb_immediateOnResume s")
  case True
  with assms have "cooldownRemaining m (s\<lparr>hb_suspended := False\<rparr>) = 0"
    by (simp add: heartbeat_inv_def cooldownRemaining_def)
  with True assms(1) show ?thesis by (auto simp: heartbeat_inv_def resume_def requestRun_def Let_def)
next
  case False
  with assms(1) show ?thesis
    by (auto simp: heartbeat_inv_def resume_def trigger_def scheduleCatchUp_def schedule_timer_def Let_def
        split: option.splits)
qed

lemma heartbeat_step_inv:
  assumes "heartbeat_inv s" "0 \<le> mo_now (fst e)"
  shows "heartbeat_inv (heartbeat_step e s)"
proof (cases "(e, s)" rule: heartbeat_step.cases)
  case (2 m s)
  with assms resume_inv show ?thesis by simp
next
  case (6 m n s)
  with assms resolves_inv show ?thesis by simp
next
  case (7 m reason s)
  with assms finish_run_inv [of s Sending True m None] show ?thesis
    by (auto simp: send_rejects_def Let_def split: option.splits run_phase.splits)
      (auto simp: heartbeat_inv_def)
next
  case (8 m s)
  with assms finish_run_inv [of s] show ?thesis
    by (auto simp: report_resolves_def split: option.splits run_phase.splits)
qed (use assms in \<open>auto simp: heartbeat_inv_def scheduler_defs Let_def
      report_rejects_def split: option.splits run_phase.splits\<close>)

lemma heartbeat_run_inv:
  assumes "\<forall>e \<in> set events. 0 \<le> mo_now (fst e)"
  shows "heartbeat_inv (heartbeat_run options m active immediate events)"
proof -
  have "heartbeat_inv (fold heartbeat_step events s)" if "heartbeat_inv s" for s
    using that assms by (induction events arbitrary: s) (auto intro: heartbeat_step_inv)
  then show ?thesis unfolding heartbeat_run_def using start_inv .
qed

lemma resume_alive: "heartbeat_inv s \<Longrightarrow> 0 \<le> mo_now m \<Longrightarrow> heartbeat_alive (resume m s)"
  by (cases "hb_request s")
    (auto simp: heartbeat_inv_def heartbeat_alive_def resume_def trigger_def requestRun_def
      scheduleCatchUp_def schedule_timer_def Let_def split: option.splits)

lemma resolves_alive:
  assumes "heartbeat_inv s" "heartbeat_alive s"
  shows "heartbeat_alive (send_resolves m n s)"
proof (cases "\<exists>aborted. hb_request s = Some (Sending, aborted)")
  case True
  then obtain aborted where r: "hb_request s = Some (Sending, aborted)" ..
  let ?s = "s\<lparr>hb_consecutiveFailures := 0, hb_notBefore := 0, hb_cadenceSeconds := boundInterval n\<rparr>"
  have "heartbeat_inv ?s" using assms(1) r by (auto simp: heartbeat_inv_def)
  from finish_run_alive [OF this, of Sending aborted] r show ?thesis
    by (simp add: send_resolves_def Let_def)
next
  case False
  with assms(2) show ?thesis by (auto simp: send_resolves_def split: option.splits run_phase.splits)
qed

lemma heartbeat_step_alive:
  assumes "heartbeat_inv s" "heartbeat_alive s" "0 \<le> mo_now (fst e)" "snd e \<noteq> Report_rejects"
  shows "heartbeat_alive (heartbeat_step e s)"
proof (cases "(e, s)" rule: heartbeat_step.cases)
  case (2 m s)
  with assms resume_alive show ?thesis by simp
next
  case (6 m n s)
  with assms resolves_alive show ?thesis by simp
next
  case (7 m reason s)
  with assms finish_run_alive [of s Sending True None m] show ?thesis
    by (auto simp: send_rejects_def heartbeat_alive_def Let_def split: option.splits run_phase.splits)
next
  case (8 m s)
  with assms finish_run_alive [of s] show ?thesis
    by (auto simp: report_resolves_def split: option.splits run_phase.splits)
qed (use assms in \<open>auto simp: heartbeat_inv_def heartbeat_alive_def scheduler_defs Let_def
      split: option.splits run_phase.splits\<close>)

section \<open>Cooling down\<close>

text \<open>No request is being sent, and none may start before the instant.\<close>

definition cooling :: "rat \<Rightarrow> heartbeat_scheduler \<Rightarrow> bool" where
  "cooling t s \<longleftrightarrow> t \<le> hb_notBefore s \<and> (\<forall>aborted. hb_request s \<noteq> Some (Sending, aborted))"

lemma cooling_step:
  assumes "heartbeat_inv s" "cooling t s" "0 \<le> mo_now (fst e)" "mo_now (fst e) < t"
  shows "cooling t (heartbeat_step e s)"
  using assms
  by (cases "(e, s)" rule: heartbeat_step.cases)
    (auto simp: cooling_def heartbeat_inv_def scheduler_defs send_resolves_def send_rejects_def
      report_resolves_def report_rejects_def finish_run_def cooldownRemaining_def Let_def
      split: option.splits run_phase.splits)

lemma cooling_fold:
  assumes "heartbeat_inv s" "cooling t s" "\<forall>e \<in> set events. 0 \<le> mo_now (fst e) \<and> mo_now (fst e) < t"
  shows "cooling t (fold heartbeat_step events s)"
  using assms
proof (induction events arbitrary: s)
  case Nil
  then show ?case by simp
next
  case (Cons e events)
  then have "heartbeat_inv (heartbeat_step e s)" "cooling t (heartbeat_step e s)"
    by (simp_all add: heartbeat_step_inv cooling_step)
  with Cons show ?case by simp
qed

lemma js_round_mono: "x \<le> y \<Longrightarrow> js_round x \<le> js_round y"
  by (simp add: js_round_def floor_mono)

lemma boundInterval_bounds: "5 \<le> boundInterval x" "boundInterval x \<le> 86400"
  by (simp_all add: boundInterval_def MIN_INTERVAL_SECONDS_def MAX_INTERVAL_SECONDS_def)

lemma jitter_bounds:
  assumes "5 \<le> seconds"
  shows "4500 \<le> jitter m seconds" "jitter m seconds \<le> 86400000"
proof -
  have "0 \<le> bounded_random m" by (simp add: bounded_random_def)
  then have "5 * (9 / 10) \<le> seconds * (9 / 10 + bounded_random m * (1 / 5))"
    using assms by (intro mult_mono) simp_all
  then have "4500 \<le> seconds * (9 / 10 + bounded_random m * (1 / 5)) * 1000" by linarith
  then have "js_round 4500 \<le> js_round (seconds * (9 / 10 + bounded_random m * (1 / 5)) * 1000)"
    by (rule js_round_mono)
  moreover have "js_round 4500 = 4500" by (simp add: js_round_def floor_eq_iff)
  ultimately show "4500 \<le> jitter m seconds" by (simp add: jitter_def MAX_INTERVAL_SECONDS_def)
  show "jitter m seconds \<le> 86400000" by (simp add: jitter_def MAX_INTERVAL_SECONDS_def)
qed

end
