(* ===== verification/Deadlines.thy ===== *)
theory Deadlines
  imports Complex_Main
begin

text \<open>
  Small timing helpers of the player: the watcher of a signed deadline
  (\<open>apps/player/src/core/signed-deadline.ts\<close>), the single-flight guard (\<open>single-flight.ts\<close>) and the
  monotonic uptime (\<open>uptime.ts\<close>).
\<close>

section \<open>Signed deadlines\<close>

definition MAX_WALL_CLOCK_CHECK_MS :: int where "MAX_WALL_CLOCK_CHECK_MS = 30000"
definition MAX_FAIL_SAFE_DELAY_MS :: int where "MAX_FAIL_SAFE_DELAY_MS = 24 * 60 * 60000"

text \<open>
  A timer is present with its delay while it is armed.  \<open>wd_elapsed\<close> counts the calls of
  \<open>onElapsed\<close> and \<open>wd_waited\<close> sums the delays of the fail-safe timers that have fired.
\<close>

record watcher =
  wd_deadline :: int
  wd_wallTimer :: "int option"
  wd_failSafeTimer :: "int option"
  wd_failSafeRemaining :: int
  wd_finished :: bool
  wd_elapsed :: nat
  wd_waited :: int

definition finish_watch :: "watcher \<Rightarrow> watcher" where
  "finish_watch s = s\<lparr>wd_finished := True, wd_wallTimer := None, wd_failSafeTimer := None\<rparr>"

definition expire :: "watcher \<Rightarrow> watcher" where
  "expire s =
     (if wd_finished s then s else (finish_watch s)\<lparr>wd_elapsed := wd_elapsed s + 1\<rparr>)"

definition checkWallClock :: "int \<Rightarrow> watcher \<Rightarrow> watcher" where
  "checkWallClock t s =
     (if wd_finished s then s
      else let s' = s\<lparr>wd_wallTimer := None\<rparr>; remaining = wd_deadline s - t in
        if remaining \<le> 0 then expire s'
        else s'\<lparr>wd_wallTimer := Some (min remaining MAX_WALL_CLOCK_CHECK_MS)\<rparr>)"

definition scheduleFailSafe :: "watcher \<Rightarrow> watcher" where
  "scheduleFailSafe s =
     (if wd_finished s then s
      else if wd_failSafeRemaining s \<le> 0 then expire s
      else s\<lparr>wd_failSafeTimer := Some (min (wd_failSafeRemaining s) MAX_FAIL_SAFE_DELAY_MS)\<rparr>)"

definition fail_safe_fires :: "watcher \<Rightarrow> watcher" where
  "fail_safe_fires s =
     (case wd_failSafeTimer s of
        None \<Rightarrow> s
      | Some delay \<Rightarrow>
          scheduleFailSafe (s\<lparr>wd_failSafeTimer := None, wd_waited := wd_waited s + delay,
            wd_failSafeRemaining := wd_failSafeRemaining s - delay\<rparr>))"

definition cancel_watch :: "watcher \<Rightarrow> watcher" where
  "cancel_watch s = (if wd_finished s then s else finish_watch s)"

text \<open>The watcher, created at \<open>t\<close> and checked at \<open>t'\<close>, its second look at the clock.\<close>

definition watchSignedDeadline :: "int \<Rightarrow> int \<Rightarrow> int \<Rightarrow> watcher" where
  "watchSignedDeadline deadline t t' =
     scheduleFailSafe (checkWallClock t' \<lparr>wd_deadline = deadline, wd_wallTimer = None,
       wd_failSafeTimer = None, wd_failSafeRemaining = max 0 (deadline - t), wd_finished = False,
       wd_elapsed = 0, wd_waited = 0\<rparr>)"

text \<open>
  Afterwards: a look at the wall clock (its timer, a visibility change or a page show), the
  fail-safe timer, or the cancellation.
\<close>

datatype watch_event = Wall_clock int | Fail_safe | Cancelled

fun watch_step :: "watch_event \<Rightarrow> watcher \<Rightarrow> watcher" where
  "watch_step (Wall_clock t) s = checkWallClock t s"
| "watch_step Fail_safe s = fail_safe_fires s"
| "watch_step Cancelled s = cancel_watch s"

definition watch_inv :: "int \<Rightarrow> int \<Rightarrow> watcher \<Rightarrow> bool" where
  "watch_inv deadline initial s \<longleftrightarrow>
     wd_deadline s = deadline \<and> wd_elapsed s \<le> (if wd_finished s then 1 else 0) \<and>
     0 \<le> wd_waited s \<and> wd_waited s + wd_failSafeRemaining s = initial \<and>
     (wd_finished s \<longrightarrow> wd_failSafeTimer s = None) \<and>
     (\<not> wd_finished s \<longrightarrow> 0 < wd_failSafeRemaining s \<and>
       wd_failSafeTimer s = Some (min (wd_failSafeRemaining s) MAX_FAIL_SAFE_DELAY_MS)) \<and>
     0 \<le> wd_failSafeRemaining s"

lemmas watch_defs = finish_watch_def expire_def checkWallClock_def scheduleFailSafe_def
  fail_safe_fires_def cancel_watch_def

lemma watch_start_inv: "watch_inv deadline (max 0 (deadline - t)) (watchSignedDeadline deadline t t')"
  by (simp add: watch_inv_def watchSignedDeadline_def watch_defs Let_def)

lemma watch_step_inv: "watch_inv deadline initial s \<Longrightarrow> watch_inv deadline initial (watch_step e s)"
  by (cases e) (auto simp: watch_inv_def watch_defs Let_def MAX_FAIL_SAFE_DELAY_MS_def min_def
      split: option.splits if_splits)

lemma watch_run_inv:
  "watch_inv deadline initial s \<Longrightarrow> watch_inv deadline initial (fold watch_step events s)"
  by (induction events arbitrary: s) (simp_all add: watch_step_inv)

lemma watch_finished: "wd_finished s \<Longrightarrow> wd_finished (fold watch_step events s)"
proof (induction events arbitrary: s)
  case (Cons e events)
  then have "wd_finished (watch_step e s)"
    by (cases e) (simp_all add: watch_defs Let_def split: option.split)
  with Cons show ?case by simp
qed simp

section \<open>Single flight\<close>

text \<open>\<open>run\<close>: refused while a task is active; the task's settlement clears the flag.\<close>

definition single_flight_run :: "bool \<Rightarrow> bool \<times> bool" where
  "single_flight_run active = (if active then (False, active) else (True, True))"

definition single_flight_settles :: "bool \<Rightarrow> bool" where
  "single_flight_settles active = False"

section \<open>Uptime\<close>

text \<open>Whole seconds since the start, never less than before; the new value is also remembered.\<close>

definition monotonic_uptime :: "rat \<Rightarrow> int \<Rightarrow> rat \<Rightarrow> int" where
  "monotonic_uptime startedAt previous t = max previous (max 0 \<lfloor>(t - startedAt) / 1000\<rfloor>)"

fun uptime_readings :: "rat \<Rightarrow> int \<Rightarrow> rat list \<Rightarrow> int list" where
  "uptime_readings startedAt previous [] = []"
| "uptime_readings startedAt previous (t # ts) =
     (let u = monotonic_uptime startedAt previous t in u # uptime_readings startedAt u ts)"

lemma uptime_at_least: "\<forall>u \<in> set (uptime_readings startedAt previous ts). previous \<le> u"
proof (induction ts arbitrary: previous)
  case (Cons t ts)
  have "previous \<le> monotonic_uptime startedAt previous t" by (simp add: monotonic_uptime_def)
  with Cons show ?case by (auto simp: Let_def intro: order_trans)
qed simp

lemma uptime_sorted: "sorted (uptime_readings startedAt previous ts)"
  by (induction ts arbitrary: previous) (simp_all add: Let_def uptime_at_least)

end
