(* ===== verification/Timing_Properties.thy ===== *)
theory Timing_Properties
  imports Heartbeat Deadlines Rate_Limit
begin

text \<open>
  The properties of the code that depends on clocks: rate limits, the heartbeat scheduler and the
  watcher of signed deadlines.
\<close>

section \<open>Rate limits\<close>

text \<open>
  C34: whatever requests came before and whatever other keys do in between, a key is allowed at most
  twice its maximum within any span of the length of its window, and at most its maximum when it
  had no counter yet.
\<close>

theorem rate_limit_bounds_every_span:
  assumes "\<forall>(k, t) \<in> set requests. t0 \<le> t \<and> t < t0 + window"
  shows "length (allowed_requests maximum window key counters requests) \<le>
    (if counters key = None then maximum else 2 * maximum)"
  using allowed_in_span [OF assms, of maximum key counters]
  by (auto simp: left_over_def split: option.splits)

theorem rate_limit_bounds_every_span_witness:
  "length (allowed_requests 1 60000 ''k'' Map.empty [(''k'', 5), (''j'', 6), (''k'', 7)]) \<le> 1"
proof -
  have "\<forall>(k, t) \<in> set [(''k'', 5), (''j'', 6), (''k'', 7 :: int)]. 5 \<le> t \<and> t < 5 + 60000" by simp
  from rate_limit_bounds_every_span [OF this, of 1 "''k''" Map.empty] show ?thesis by simp
qed

text \<open>
  Waiting as long as a denied request is told to is enough: the next request of the key after
  \<open>retryAfterSeconds\<close> is allowed, if anything is allowed at all.
\<close>

theorem retry_after_is_enough:
  assumes "memory_consume key maximum window t counters = (r, counters')"
    and "t + 1000 * br_retryAfterSeconds r \<le> t'" "1 \<le> maximum"
  shows "br_allowed (fst (memory_consume key maximum window t' counters'))"
proof -
  let ?c = "live_counter t window (counters key)"
  have r: "br_retryAfterSeconds r = max 1 (ceil_seconds (rk_expiresAt ?c - t))"
    "counters' key = Some (?c\<lparr>rk_count := rk_count ?c + 1\<rparr>)"
    using assms(1) by (auto simp: memory_consume_def Let_def)
  have "rk_expiresAt ?c \<le> t'"
    using ceil_seconds_enough [of "rk_expiresAt ?c - t"] r(1) assms(2) by simp
  then show ?thesis using r(2) assms(3) by (simp add: consume_simps(1) live_counter_def)
qed

theorem retry_after_is_enough_witness:
  "br_allowed (fst (memory_consume ''k'' 1 60000 60005
    (snd (memory_consume ''k'' 1 60000 5 [''k'' \<mapsto> \<lparr>rk_count = 1, rk_expiresAt = 50000\<rparr>]))))"
proof -
  let ?m = "[''k'' \<mapsto> \<lparr>rk_count = 1, rk_expiresAt = 50000\<rparr>]"
  have c: "memory_consume ''k'' 1 60000 5 ?m =
      (fst (memory_consume ''k'' 1 60000 5 ?m), snd (memory_consume ''k'' 1 60000 5 ?m))" by simp
  have w: "5 + 1000 * br_retryAfterSeconds (fst (memory_consume ''k'' 1 60000 5 ?m)) \<le> 60005"
    by (simp add: memory_consume_def live_counter_def ceil_seconds_def Let_def)
  from retry_after_is_enough [OF c w] show ?thesis by simp
qed

section \<open>Heartbeats\<close>

text \<open>A scheduler with the defaults, started at once, and a refusal that asks to wait a minute.\<close>

definition options1 :: heartbeat_options where
  "options1 = \<lparr>ho_initialIntervalSeconds = None, ho_retryBaseSeconds = None, ho_retryMaxSeconds = None\<rparr>"

definition moment1 :: "rat \<Rightarrow> moment" where
  "moment1 t = \<lparr>mo_now = t, mo_random = 0\<rparr>"

definition busy1 :: heartbeat_failure where
  "busy1 = \<lparr>hf_playerApiFailure = True, hf_retryable = True, hf_retryAfterMs = Some 60000\<rparr>"

lemma moment1_now [simp]: "mo_now (moment1 t) = t"
  by (simp add: moment1_def)

lemma started1:
  "hb_request (heartbeat_run options1 (moment1 0) True True []) = Some (Sending, False)"
  "hb_started (heartbeat_run options1 (moment1 0) True True [])"
  "\<not> hb_suspended (heartbeat_run options1 (moment1 0) True True [])"
  "hb_timerDueAt (heartbeat_run options1 (moment1 0) True True []) = None"
  "\<not> hb_wakePending (heartbeat_run options1 (moment1 0) True True [])"
  by (simp_all add: heartbeat_run_def start_scheduler_def requestRun_def new_scheduler_def Let_def)

text \<open>
  C31: the heartbeat is never lost: after any sequence of lifecycle events, timers and answers, a
  scheduler that is started and not suspended has a timer armed or a request under way, unless its
  error handler has thrown.
\<close>

theorem heartbeat_is_never_lost:
  assumes "\<forall>(m, e) \<in> set events. 0 \<le> mo_now m \<and> e \<noteq> Report_rejects"
  shows "heartbeat_alive (heartbeat_run options m active immediate events)"
proof -
  have "heartbeat_alive (fold heartbeat_step events s)" if "heartbeat_inv s" "heartbeat_alive s" for s
    using that assms
  proof (induction events arbitrary: s)
    case (Cons e events)
    then have "0 \<le> mo_now (fst e)" "snd e \<noteq> Report_rejects" by auto
    with Cons show ?case by (simp add: heartbeat_step_inv heartbeat_step_alive)
  qed simp
  then show ?thesis unfolding heartbeat_run_def using start_inv start_alive .
qed

theorem heartbeat_is_never_lost_witness:
  "heartbeat_alive (heartbeat_run options1 (moment1 0) True True
    [(moment1 10, Suspend), (moment1 20, Send_resolves 60), (moment1 30, Resume)])"
proof -
  have "\<forall>(m, e) \<in> set [(moment1 10, Suspend), (moment1 20, Send_resolves 60), (moment1 30, Resume)].
      0 \<le> mo_now m \<and> e \<noteq> Report_rejects" by simp
  from heartbeat_is_never_lost [OF this] show ?thesis .
qed

text \<open>
  Retry-After is a floor: after a failed request whose answer asks to wait, no event before
  that time, be it a timer, a reconnection or a wakeup, starts another request.
\<close>

theorem retry_after_is_a_floor:
  assumes "\<forall>e \<in> set before. 0 \<le> mo_now (fst e)"
    and "hb_request (heartbeat_run options m0 active immediate before) = Some (Sending, False)"
    and "hf_playerApiFailure reason" "hf_retryable reason" "hf_retryAfterMs reason = Some r" "0 \<le> r"
    and "0 \<le> mo_now m" "\<forall>e \<in> set after. 0 \<le> mo_now (fst e) \<and> mo_now (fst e) < mo_now m + r"
  shows "hb_request (heartbeat_run options m0 active immediate (before @ (m, Send_rejects reason) # after))
    \<noteq> Some (Sending, aborted)"
proof -
  let ?s = "heartbeat_run options m0 active immediate before"
  let ?s' = "heartbeat_step (m, Send_rejects reason) ?s"
  have inv: "heartbeat_inv ?s" using assms(1) by (rule heartbeat_run_inv)
  then have "heartbeat_inv ?s'" using assms(7) by (intro heartbeat_step_inv) simp_all
  moreover have "cooling (mo_now m + r) ?s'"
    using assms(2-6) by (simp add: cooling_def send_rejects_def failureDelay_def Let_def)
  ultimately have "cooling (mo_now m + r) (fold heartbeat_step after ?s')"
    using assms(8) by (rule cooling_fold)
  then show ?thesis by (simp add: cooling_def heartbeat_run_def)
qed

theorem retry_after_is_a_floor_witness:
  "hb_request (heartbeat_run options1 (moment1 0) True True
    ([] @ (moment1 1000, Send_rejects busy1) # [(moment1 1500, Report_resolves), (moment1 2000, Resume)]))
    \<noteq> Some (Sending, False)"
  by (rule retry_after_is_a_floor [OF _ started1(1), where r = 60000]) (simp_all add: busy1_def)

text \<open>
  An accepted heartbeat schedules the next one between 4.5 seconds and a day later, whatever
  interval the server asks for and whatever the random number, unless a wakeup is pending.
\<close>

theorem heartbeat_interval_is_bounded:
  assumes "hb_request s = Some (Sending, False)" "hb_started s" "\<not> hb_suspended s" "\<not> hb_wakePending s"
    and "0 \<le> mo_now m" "hb_timerDueAt s = None"
  shows "\<exists>d. hb_timerDueAt (heartbeat_step (m, Send_resolves n) s) = Some d \<and>
    mo_now m + 4500 \<le> d \<and> d \<le> mo_now m + 86400000"
proof -
  note b = jitter_bounds [OF boundInterval_bounds(1), of m n]
  show ?thesis using assms b
    by (simp add: send_resolves_def finish_run_def schedule_timer_def Let_def)
qed

theorem heartbeat_interval_is_bounded_witness:
  "\<exists>d. hb_timerDueAt (heartbeat_step (moment1 10, Send_resolves 1)
      (heartbeat_run options1 (moment1 0) True True [])) = Some d \<and> 4510 \<le> d"
  using heartbeat_interval_is_bounded [OF started1(1-3,5) _ started1(4), of "moment1 10" 1] by auto

section \<open>Deadlines\<close>

text \<open>
  C35: a clock correction cannot extend a signed deadline: as long as the watcher has not finished,
  the fail-safe timers have waited less than the time that remained when it was created, and the
  armed one ends within it; a look at a wall clock past the deadline finishes it; and it reports
  at most once.
\<close>

theorem deadline_is_never_extended:
  assumes "s = fold watch_step events (watchSignedDeadline deadline t t')"
  shows "wd_elapsed s \<le> 1 \<and> (wd_finished (checkWallClock (deadline + late) s) \<or> late < 0) \<and>
    (wd_finished s \<or> (\<exists>delay. wd_failSafeTimer s = Some delay \<and> 0 < delay \<and>
      wd_waited s + delay \<le> deadline - t))"
proof -
  have inv: "watch_inv deadline (max 0 (deadline - t)) s"
    unfolding assms by (rule watch_run_inv [OF watch_start_inv])
  then have "wd_elapsed s \<le> 1" by (simp add: watch_inv_def split: if_splits)
  moreover have "wd_finished (checkWallClock (deadline + late) s) \<or> late < 0"
    using inv by (auto simp: watch_inv_def watch_defs Let_def)
  moreover have "wd_finished s \<or> (\<exists>delay. wd_failSafeTimer s = Some delay \<and> 0 < delay \<and>
      wd_waited s + delay \<le> deadline - t)"
    using inv by (auto simp: watch_inv_def MAX_FAIL_SAFE_DELAY_MS_def)
  ultimately show ?thesis by blast
qed

theorem deadline_is_never_extended_witness:
  "wd_elapsed (fold watch_step [Fail_safe, Wall_clock 500] (watchSignedDeadline 90000000 0 0)) \<le> 1"
  using deadline_is_never_extended [OF refl, of "[Fail_safe, Wall_clock 500]" 90000000 0 0 0] by blast

end
