(* ===== verification/Server_Config.thy ===== *)
theory Server_Config
  imports Identity Media_Policy Base64 "HOL-Library.Sublist"
begin

text \<open>
  The configuration of the API (\<open>apps/api/src/config.ts\<close>): the origins it trusts, its public URL and
  what it refuses to start with in production.  The URL parser, \<open>net.isIP\<close>, \<open>Number\<close> on decimal texts
  and zod's check of a URL are parameters.
\<close>

section \<open>Host names\<close>

definition loopbackHostname :: "string \<Rightarrow> bool" where
  "loopbackHostname hostname \<longleftrightarrow> hostname = ''localhost'' \<or> suffix ''.localhost'' hostname \<or>
     hostname = ''127.0.0.1'' \<or> hostname = ''[::1]''"

definition obviouslyPrivateDnsName :: "string \<Rightarrow> bool" where
  "obviouslyPrivateDnsName hostname \<longleftrightarrow>
     (let normalized = toLowerCase hostname in
      CHR ''.'' \<notin> set normalized \<or>
      list_ex (\<lambda>x. normalized = tl x \<or> suffix x normalized)
        [''.local'', ''.internal'', ''.lan'', ''.home.arpa''])"

text \<open>\<open>hostname.replace(/^\[|\]$/g, "")\<close>\<close>

definition without_brackets :: "string \<Rightarrow> string" where
  "without_brackets h =
     (let h' = (if h \<noteq> [] \<and> hd h = CHR ''['' then tl h else h) in
      if h' \<noteq> [] \<and> last h' = CHR '']'' then butlast h' else h')"

section \<open>Origins\<close>

datatype node_env = Development | Test | Production

record origin_url = url +
  ou_pathname :: string
  ou_search :: string
  ou_hash :: string

record config_platform =
  cp_url :: "string \<Rightarrow> origin_url option" \<comment> \<open>None where the constructor throws\<close>
  cp_is_ip :: "string \<Rightarrow> bool"
  cp_integer :: "string \<Rightarrow> int option" \<comment> \<open>\<open>Number\<close>, where it gives an integer\<close>
  cp_is_url :: "string \<Rightarrow> bool"

definition MAX_CORS_ORIGINS :: nat where "MAX_CORS_ORIGINS = 32"
definition MAX_CORS_ORIGIN_LENGTH :: nat where "MAX_CORS_ORIGIN_LENGTH = 2048"
definition CAPACITOR_ORIGIN :: string where "CAPACITOR_ORIGIN = ''capacitor://localhost''"

fun split_commas :: "string \<Rightarrow> string list" where
  "split_commas [] = [[]]"
| "split_commas (c # cs) =
     (if c = CHR '','' then [] # split_commas cs
      else (c # hd (split_commas cs)) # tl (split_commas cs))"

text \<open>The entries in their order: the first that is refused ends it.\<close>

fun map_entries :: "(string \<Rightarrow> string + string) \<Rightarrow> string list \<Rightarrow> string + string list" where
  "map_entries f [] = Inr []"
| "map_entries f (entry # entries) =
     (case f entry of
        Inl x \<Rightarrow> Inl x
      | Inr origin \<Rightarrow>
          (case map_entries f entries of Inl x \<Rightarrow> Inl x | Inr origins \<Rightarrow> Inr (origin # origins)))"

definition more_than_origin :: "origin_url \<Rightarrow> bool" where
  "more_than_origin u \<longleftrightarrow> url_username u \<noteq> [] \<or> url_password u \<noteq> [] \<or> ou_pathname u \<noteq> ''/'' \<or>
     ou_search u \<noteq> [] \<or> ou_hash u \<noteq> []"

definition local_http :: "node_env \<Rightarrow> origin_url \<Rightarrow> bool" where
  "local_http environment u \<longleftrightarrow>
     environment \<noteq> Production \<and> url_protocol u = ''http:'' \<and> loopbackHostname (url_hostname u)"

definition not_public :: "config_platform \<Rightarrow> origin_url \<Rightarrow> bool" where
  "not_public cp u \<longleftrightarrow> loopbackHostname (url_hostname u) \<or> obviouslyPrivateDnsName (url_hostname u) \<or>
     suffix ''.'' (url_hostname u) \<or> cp_is_ip cp (without_brackets (url_hostname u))"

text \<open>The errors are texts; the number of the entry they begin with is left out.\<close>

definition cors_origin :: "config_platform \<Rightarrow> node_env \<Rightarrow> string \<Rightarrow> string + string" where
  "cors_origin cp environment entry =
     (if length entry > MAX_CORS_ORIGIN_LENGTH then Inl ''is too long''
      else if entry = CAPACITOR_ORIGIN then Inr entry
      else case cp_url cp entry of
        None \<Rightarrow> Inl ''is not a valid origin''
      | Some u \<Rightarrow>
          if more_than_origin u
          then Inl ''must be an origin without credentials, path, query, or fragment''
          else if url_protocol u \<noteq> ''https:'' \<and> \<not> local_http environment u
          then Inl ''must use HTTPS (HTTP is limited to loopback development)''
          else if url_protocol u = ''https:'' \<and> url_origin u \<noteq> ''https://localhost'' \<and> not_public cp u
          then Inl ''must use a non-local DNS hostname or an exact native origin''
          else Inr (url_origin u))"

definition parseCorsOrigins :: "config_platform \<Rightarrow> string \<Rightarrow> node_env \<Rightarrow> string + string list" where
  "parseCorsOrigins cp raw environment =
     (let entries = map trim (split_commas raw) in
      if [] \<in> set entries then Inl ''must not contain an empty entry''
      else if length entries > MAX_CORS_ORIGINS then Inl ''must contain at most 32 entries''
      else map_sum id js_unique (map_entries (cors_origin cp environment) entries))"

definition parsePublicApiUrl :: "config_platform \<Rightarrow> string \<Rightarrow> node_env \<Rightarrow> string + string" where
  "parsePublicApiUrl cp raw environment =
     (case cp_url cp raw of
        None \<Rightarrow> Inl ''must be a valid URL''
      | Some u \<Rightarrow>
          if more_than_origin u
          then Inl ''must be an origin without credentials, path, query, or fragment''
          else if url_protocol u \<noteq> ''https:'' \<and> \<not> local_http environment u
          then Inl ''must use HTTPS (HTTP is limited to loopback development)''
          else Inr (url_origin u))"

definition media_origin :: "config_platform \<Rightarrow> node_env \<Rightarrow> string \<Rightarrow> string + string" where
  "media_origin cp environment entry =
     (case cp_url cp entry of
        None \<Rightarrow> Inl ''is not a valid origin''
      | Some u \<Rightarrow>
          if more_than_origin u
          then Inl ''must be an origin without credentials, path, query, or fragment''
          else if url_protocol u \<noteq> ''https:'' \<and> \<not> local_http environment u
          then Inl ''must use HTTPS (HTTP is limited to loopback development)''
          else if environment = Production \<and> not_public cp u
          then Inl ''must use a non-local DNS hostname in production''
          else Inr (url_origin u))"

definition parseMediaAllowedOrigins ::
  "config_platform \<Rightarrow> string \<Rightarrow> node_env \<Rightarrow> string + string list" where
  "parseMediaAllowedOrigins cp raw environment =
     (let entries = filter (\<lambda>x. x \<noteq> []) (map trim (split_commas raw)) in
      if environment = Production \<and> entries = []
      then Inl ''must contain at least one explicit HTTPS origin''
      else map_sum id js_unique (map_entries (media_origin cp environment) entries))"

section \<open>Secrets\<close>

definition unsafeProductionSecrets :: "string list" where
  "unsafeProductionSecrets =
     [''jwt-secret-that-is-at-least-thirty-two-characters'',
      ''pairing-pepper-that-is-at-least-thirty-two-characters'',
      ''ci-only-jwt-secret-at-least-32-characters'',
      ''ci-only-pairing-pepper-at-least-32-characters'',
      ''e2e-only-jwt-secret-at-least-32-characters'',
      ''e2e-only-pairing-pepper-at-least-32-characters'',
      ''rate-limit-test-secret-that-is-long-enough'',
      ''test-secret-that-is-longer-than-thirty-two-characters'']"

definition isUnsafeProductionSecret :: "string \<Rightarrow> bool" where
  "isUnsafeProductionSecret value \<longleftrightarrow>
     list_ex (\<lambda>x. sublist x (toLowerCase value)) [''replace-with'', ''changeme'', ''change-me''] \<or>
     value \<in> set unsafeProductionSecrets"

definition isAllZeroSeed :: "string \<Rightarrow> bool" where
  "isAllZeroSeed value \<longleftrightarrow> list_all (\<lambda>b. b = 0) (node_decode (js value))"

section \<open>The schema\<close>

text \<open>The values the checks look at; of the others only that they are texts is asked.\<close>

record server_config =
  sg_NODE_ENV :: node_env
  sg_PORT :: int
  sg_DATABASE_URL :: string
  sg_REDIS_URL :: string
  sg_JWT_SECRET :: string
  sg_PAIRING_CODE_PEPPER :: string
  sg_MANIFEST_SIGNING_PRIVATE_KEY :: string
  sg_MEDIA_DELIVERY_SECRET :: string
  sg_CORS_ORIGINS :: string
  sg_PUBLIC_API_URL :: string
  sg_MEDIA_ALLOWED_ORIGINS :: string
  sg_S3_ENDPOINT :: string
  sg_S3_REGION :: string
  sg_S3_BUCKET :: string
  sg_S3_ACCESS_KEY_ID :: string
  sg_S3_SIGNING_KEY :: string
  sg_proof_mode :: bool \<comment> \<open>\<open>DEVICE_AUTH_MODE\<close> is \<open>proof-v1\<close>\<close>
  sg_EMERGENCY_FEATURE_ENABLED :: bool

definition is_letter_or_digit :: "char \<Rightarrow> bool" where
  "is_letter_or_digit c \<longleftrightarrow> is_digit c \<or> is_lower c \<or> is_upper c"

definition bucket_name :: "string \<Rightarrow> bool" where
  "bucket_name s \<longleftrightarrow> 2 \<le> length s \<and> length s \<le> 63 \<and> is_letter_or_digit (hd s) \<and>
     list_all (\<lambda>c. is_letter_or_digit c \<or> c = CHR ''.'' \<or> c = CHR ''-'') (tl s)"

definition enum_value :: "(string \<times> 'a) list \<Rightarrow> string option \<Rightarrow> 'a option \<Rightarrow> 'a option" where
  "enum_value values raw absent =
     (case raw of None \<Rightarrow> absent | Some x \<Rightarrow> map_of values x)"

definition text_value :: "(string \<Rightarrow> bool) \<Rightarrow> string option \<Rightarrow> string option \<Rightarrow> string option" where
  "text_value valid raw absent =
     (case raw of None \<Rightarrow> absent | Some x \<Rightarrow> if valid x then Some x else None)"

text \<open>The fields of the schema; None if one of them is refused.\<close>

definition read_fields :: "config_platform \<Rightarrow> (string \<Rightarrow> string option) \<Rightarrow> server_config option" where
  "read_fields cp environ =
     (case (enum_value [(''development'', Development), (''test'', Test), (''production'', Production)]
              (environ ''NODE_ENV'') (Some Development),
            (case environ ''PORT'' of None \<Rightarrow> Some 3000 | Some x \<Rightarrow> cp_integer cp x),
            text_value (\<lambda>x. x \<noteq> []) (environ ''DATABASE_URL'') None,
            text_value (\<lambda>x. 32 \<le> length x) (environ ''JWT_SECRET'') None,
            text_value (\<lambda>x. 32 \<le> length x) (environ ''PAIRING_CODE_PEPPER'') None,
            text_value is_key_id (environ ''MANIFEST_SIGNING_PRIVATE_KEY'') None,
            text_value (cp_is_url cp) (environ ''PUBLIC_API_URL'') None,
            text_value (cp_is_url cp) (environ ''S3_ENDPOINT'') (Some ''http://localhost:9000''),
            text_value (\<lambda>x. x \<noteq> []) (environ ''S3_REGION'') (Some ''us-east-1''),
            text_value bucket_name (environ ''S3_BUCKET'') (Some ''screengoblin-media''),
            enum_value [(''proof-v1'', True), (''development-bearer'', False)]
              (environ ''DEVICE_AUTH_MODE'') None,
            enum_value [(''true'', True), (''false'', False)]
              (environ ''EMERGENCY_FEATURE_ENABLED'') (Some False)) of
        (Some node, Some port, Some database, Some jwt, Some pepper, Some seed, Some api, Some endpoint,
         Some region, Some bucket, Some proof_mode, Some emergency_enabled) \<Rightarrow>
          if \<not> (1 \<le> port \<and> port \<le> 65535) then None
          else Some \<lparr>sg_NODE_ENV = node, sg_PORT = port, sg_DATABASE_URL = database,
            sg_REDIS_URL = or_default (environ ''REDIS_URL'') [], sg_JWT_SECRET = jwt,
            sg_PAIRING_CODE_PEPPER = pepper, sg_MANIFEST_SIGNING_PRIVATE_KEY = seed,
            sg_MEDIA_DELIVERY_SECRET = or_default (environ ''MEDIA_DELIVERY_SECRET'') [],
            sg_CORS_ORIGINS = or_default (environ ''CORS_ORIGINS'') ''http://localhost:5173'',
            sg_PUBLIC_API_URL = api,
            sg_MEDIA_ALLOWED_ORIGINS = or_default (environ ''MEDIA_ALLOWED_ORIGINS'') [],
            sg_S3_ENDPOINT = endpoint, sg_S3_REGION = region, sg_S3_BUCKET = bucket,
            sg_S3_ACCESS_KEY_ID = or_default (environ ''S3_ACCESS_KEY_ID'') [],
            sg_S3_SIGNING_KEY = or_default (environ ''S3_SIGNING_KEY'') [],
            sg_proof_mode = proof_mode, sg_EMERGENCY_FEATURE_ENABLED = emergency_enabled\<rparr>
      | _ \<Rightarrow> None)"

text \<open>The issues of the refinement, by the path they name.\<close>

definition issue_if :: "bool \<Rightarrow> string \<Rightarrow> string list" where
  "issue_if b path = (if b then [path] else [])"

definition production_issues :: "server_config \<Rightarrow> string list" where
  "production_issues c =
     issue_if (sg_EMERGENCY_FEATURE_ENABLED c) ''EMERGENCY_FEATURE_ENABLED'' @
     issue_if (\<not> sg_proof_mode c) ''DEVICE_AUTH_MODE'' @
     issue_if (\<not> (prefix ''redis://'' (sg_REDIS_URL c) \<or> prefix ''rediss://'' (sg_REDIS_URL c))) ''REDIS_URL'' @
     issue_if (isUnsafeProductionSecret (sg_JWT_SECRET c)) ''JWT_SECRET'' @
     issue_if (isUnsafeProductionSecret (sg_PAIRING_CODE_PEPPER c)) ''PAIRING_CODE_PEPPER'' @
     issue_if (sg_JWT_SECRET c = sg_PAIRING_CODE_PEPPER c) ''PAIRING_CODE_PEPPER'' @
     issue_if (length (sg_MEDIA_DELIVERY_SECRET c) < 32 \<or>
         isUnsafeProductionSecret (sg_MEDIA_DELIVERY_SECRET c)) ''MEDIA_DELIVERY_SECRET'' @
     issue_if (sg_MEDIA_DELIVERY_SECRET c = sg_JWT_SECRET c \<or>
         sg_MEDIA_DELIVERY_SECRET c = sg_PAIRING_CODE_PEPPER c) ''MEDIA_DELIVERY_SECRET'' @
     issue_if (sg_S3_ACCESS_KEY_ID c = [] \<or> sg_S3_SIGNING_KEY c = []) ''S3_ACCESS_KEY_ID'' @
     issue_if (isAllZeroSeed (sg_MANIFEST_SIGNING_PRIVATE_KEY c)) ''MANIFEST_SIGNING_PRIVATE_KEY''"

definition config_issues :: "config_platform \<Rightarrow> server_config \<Rightarrow> string list" where
  "config_issues cp c =
     issue_if (isl (parseCorsOrigins cp (sg_CORS_ORIGINS c) (sg_NODE_ENV c))) ''CORS_ORIGINS'' @
     issue_if (isl (parsePublicApiUrl cp (sg_PUBLIC_API_URL c) (sg_NODE_ENV c))) ''PUBLIC_API_URL'' @
     issue_if (isl (parseMediaAllowedOrigins cp (sg_MEDIA_ALLOWED_ORIGINS c) (sg_NODE_ENV c)))
       ''MEDIA_ALLOWED_ORIGINS'' @
     (if sg_NODE_ENV c \<noteq> Production then [] else production_issues c)"

text \<open>What \<open>loadConfig\<close> returns: the values, the origins of CORS and the origin of the API.\<close>

definition loadConfig ::
  "config_platform \<Rightarrow> (string \<Rightarrow> string option) \<Rightarrow> (server_config \<times> string list) option" where
  "loadConfig cp environ =
     (case read_fields cp environ of
        None \<Rightarrow> None
      | Some c \<Rightarrow>
          if config_issues cp c \<noteq> [] then None
          else
            (case (parseCorsOrigins cp (sg_CORS_ORIGINS c) (sg_NODE_ENV c),
                   parsePublicApiUrl cp (sg_PUBLIC_API_URL c) (sg_NODE_ENV c)) of
               (Inr origins, Inr api) \<Rightarrow> Some (c\<lparr>sg_PUBLIC_API_URL := api\<rparr>, origins)
             | _ \<Rightarrow> None))"

section \<open>Accepted origins\<close>

lemma map_entries_Inr:
  assumes "map_entries f entries = Inr origins" "x \<in> set origins"
  shows "\<exists>entry \<in> set entries. f entry = Inr x"
  using assms by (induction entries arbitrary: origins) (auto split: sum.splits)

lemma map_entries_length: "map_entries f entries = Inr origins \<Longrightarrow> length origins = length entries"
  by (induction entries arbitrary: origins) (auto split: sum.splits)

text \<open>What a production origin must be.\<close>

definition public_https_origin :: "config_platform \<Rightarrow> string \<Rightarrow> bool" where
  "public_https_origin cp x \<longleftrightarrow> (\<exists>entry u. cp_url cp entry = Some u \<and> url_origin u = x \<and>
     url_protocol u = ''https:'' \<and> \<not> more_than_origin u \<and> \<not> not_public cp u)"

lemma cors_origin_production:
  "cors_origin cp Production entry = Inr x \<Longrightarrow>
    x \<in> {CAPACITOR_ORIGIN, ''https://localhost''} \<or> public_https_origin cp x"
  unfolding public_https_origin_def
  by (auto simp: cors_origin_def local_http_def split: if_splits option.splits)

lemma media_origin_production:
  "media_origin cp Production entry = Inr x \<Longrightarrow> public_https_origin cp x"
  unfolding public_https_origin_def
  by (auto simp: media_origin_def local_http_def split: if_splits option.splits)

lemma parsed_cors_origins:
  assumes "parseCorsOrigins cp raw Production = Inr origins"
  shows "distinct origins" "origins \<noteq> []" "length origins \<le> MAX_CORS_ORIGINS"
    "\<And>x. x \<in> set origins \<Longrightarrow> x \<in> {CAPACITOR_ORIGIN, ''https://localhost''} \<or> public_https_origin cp x"
proof -
  let ?entries = "map trim (split_commas raw)"
  have e: "length ?entries \<le> MAX_CORS_ORIGINS"
    using assms by (auto simp: parseCorsOrigins_def Let_def split: if_splits)
  obtain os where m: "map_entries (cors_origin cp Production) ?entries = Inr os" "origins = js_unique os"
    using assms by (cases "map_entries (cors_origin cp Production) ?entries")
      (auto simp: parseCorsOrigins_def Let_def split: if_splits)
  note l = map_entries_length [OF m(1)]
  have "split_commas raw \<noteq> []" by (cases raw) simp_all
  then show "origins \<noteq> []" using l m(2) by (metis length_0_conv map_is_Nil_conv set_empty set_js_unique)
  show "distinct origins" using m(2) by simp
  have "length origins = card (set os)"
    using m(2) distinct_card [of origins] by simp
  also have "\<dots> \<le> length os" by (rule card_length)
  finally show "length origins \<le> MAX_CORS_ORIGINS" using l e by simp
  show "x \<in> {CAPACITOR_ORIGIN, ''https://localhost''} \<or> public_https_origin cp x" if "x \<in> set origins" for x
    using map_entries_Inr [OF m(1)] that m(2) cors_origin_production by fastforce
qed

lemma parsed_media_origins:
  assumes "parseMediaAllowedOrigins cp raw Production = Inr origins"
  shows "distinct origins" "origins \<noteq> []" "\<And>x. x \<in> set origins \<Longrightarrow> public_https_origin cp x"
proof -
  let ?entries = "filter (\<lambda>x. x \<noteq> []) (map trim (split_commas raw))"
  have e: "?entries \<noteq> []" by (rule notI) (use assms in \<open>simp add: parseMediaAllowedOrigins_def Let_def\<close>)
  obtain os where m: "map_entries (media_origin cp Production) ?entries = Inr os" "origins = js_unique os"
    using assms by (cases "map_entries (media_origin cp Production) ?entries")
      (auto simp: parseMediaAllowedOrigins_def Let_def split: if_splits)
  show "distinct origins" using m(2) by simp
  show "origins \<noteq> []" using map_entries_length [OF m(1)] e m(2) by (metis length_0_conv set_empty set_js_unique)
  show "public_https_origin cp x" if "x \<in> set origins" for x
    using map_entries_Inr [OF m(1)] that m(2) media_origin_production by fastforce
qed

section \<open>Accepted configurations\<close>

lemma loadConfig_Some:
  assumes "loadConfig cp environ = Some (c, origins)"
  obtains c0 api where "read_fields cp environ = Some c0" "config_issues cp c0 = []"
    "parseCorsOrigins cp (sg_CORS_ORIGINS c0) (sg_NODE_ENV c0) = Inr origins" "c = c0\<lparr>sg_PUBLIC_API_URL := api\<rparr>"
proof -
  note d = loadConfig_def
  obtain c0 where r: "read_fields cp environ = Some c0"
    using assms by (cases "read_fields cp environ") (simp_all add: d)
  have n: "config_issues cp c0 = []" by (rule ccontr) (use assms in \<open>simp add: d r\<close>)
  obtain os where o: "parseCorsOrigins cp (sg_CORS_ORIGINS c0) (sg_NODE_ENV c0) = Inr os"
    using assms by (cases "parseCorsOrigins cp (sg_CORS_ORIGINS c0) (sg_NODE_ENV c0)") (simp_all add: d r n)
  obtain api where "parsePublicApiUrl cp (sg_PUBLIC_API_URL c0) (sg_NODE_ENV c0) = Inr api"
    using assms by (cases "parsePublicApiUrl cp (sg_PUBLIC_API_URL c0) (sg_NODE_ENV c0)") (simp_all add: d r n o)
  with assms o have "c = c0\<lparr>sg_PUBLIC_API_URL := api\<rparr>" "os = origins" by (simp_all add: d r n)
  with o show thesis by (intro that [OF r n]) simp_all
qed

lemma option_case_Some: "(case x of None \<Rightarrow> None | Some y \<Rightarrow> f y) = Some z \<Longrightarrow> (\<And>y. x = Some y \<Longrightarrow> f y = Some z \<Longrightarrow> P) \<Longrightarrow> P"
  by (cases x) simp_all

lemma read_fields_Some:
  assumes "read_fields cp environ = Some c"
  shows "enum_value [(''development'', Development), (''test'', Test), (''production'', Production)]
      (environ ''NODE_ENV'') (Some Development) = Some (sg_NODE_ENV c)"
    "text_value (\<lambda>x. 32 \<le> length x) (environ ''JWT_SECRET'') None = Some (sg_JWT_SECRET c)"
    "text_value (\<lambda>x. 32 \<le> length x) (environ ''PAIRING_CODE_PEPPER'') None = Some (sg_PAIRING_CODE_PEPPER c)"
proof -
  note r = assms [unfolded read_fields_def prod.case]
  show "enum_value [(''development'', Development), (''test'', Test), (''production'', Production)]
      (environ ''NODE_ENV'') (Some Development) = Some (sg_NODE_ENV c)"
    using r by (elim option_case_Some) (auto split: if_splits)
  show "text_value (\<lambda>x. 32 \<le> length x) (environ ''JWT_SECRET'') None = Some (sg_JWT_SECRET c)"
    using r by (elim option_case_Some) (auto split: if_splits)
  show "text_value (\<lambda>x. 32 \<le> length x) (environ ''PAIRING_CODE_PEPPER'') None = Some (sg_PAIRING_CODE_PEPPER c)"
    using r by (elim option_case_Some) (auto split: if_splits)
qed

end
