(* ===== verification/Device_Routes.thy ===== *)
theory Device_Routes
  imports Device_Signatures Device_Manifest Auth_Routes DeviceProof Server_Config
begin

text \<open>
  The device routes of the API (\<open>apps/api/src/routes/devices.ts\<close>): pairing codes, pairing challenges,
  device challenges, pairing, heartbeats and manifests, with the digests of
  \<open>device-proof/canonical.ts\<close>.  A handler that awaits sees the store again after a change by other
  requests, which is a parameter; so are the random values, the answers of the rate limit budgets and
  zod's check of a date.
\<close>

section \<open>Digests\<close>

definition hex_char :: "nat \<Rightarrow> char" where
  "hex_char n = char_of (if n < 10 then 48 + n else 87 + n)"

definition hex_text :: "nat list \<Rightarrow> string" where
  "hex_text bs = concat (map (\<lambda>b. [hex_char (b div 16), hex_char (b mod 16)]) bs)"

definition sha256Hex :: "device_crypto \<Rightarrow> nat list \<Rightarrow> string" where
  "sha256Hex dk bytes = hex_text (dk_sha256 dk bytes)"

definition pairingCodeHash :: "server_platform \<Rightarrow> string \<Rightarrow> utext \<Rightarrow> string" where
  "pairingCodeHash sv code pepper = hex_text (sv_hmac sv pepper (js code))"

section \<open>Requests\<close>

text \<open>The bodies are read already: a record stands for an object with exactly its fields.\<close>

record wire_identity =
  wi_publicKeySpki :: string
  wi_keyId :: string
  wi_securityLevel :: security_level

record pairing_request =
  pq_code :: string
  pq_device :: device_metadata
  pq_identity :: wire_identity

record pairing_proof =
  pp_challengeId :: string
  pp_challenge :: string
  pp_keyId :: string
  pp_signature :: string

record heartbeat_request = heartbeat_input +
  hq_installationId :: string
  hq_occurredAt :: string

definition chars_within :: "nat \<Rightarrow> nat \<Rightarrow> string \<Rightarrow> bool" where
  "chars_within lo hi s \<longleftrightarrow> lo \<le> length s \<and> length s \<le> hi"

definition base64url_within :: "nat \<Rightarrow> nat \<Rightarrow> string \<Rightarrow> bool" where
  "base64url_within lo hi s \<longleftrightarrow> chars_within lo hi s \<and> list_all (\<lambda>u. sextet u \<noteq> None) (js s)"

definition device_schema :: "device_metadata \<Rightarrow> bool" where
  "device_schema d \<longleftrightarrow> chars_within 8 200 (dm_installationId d) \<and> chars_within 1 120 (dm_model d) \<and>
     chars_within 1 80 (dm_osVersion d) \<and> chars_within 1 80 (dm_playerVersion d)"

definition claim_schema :: "string \<Rightarrow> device_metadata \<Rightarrow> bool" where
  "claim_schema code d \<longleftrightarrow> length code = 6 \<and> list_all is_digit code \<and> device_schema d"

definition pairing_schema :: "pairing_request \<Rightarrow> bool" where
  "pairing_schema q \<longleftrightarrow> claim_schema (pq_code q) (pq_device q) \<and>
     base64url_within 107 342 (wi_publicKeySpki (pq_identity q)) \<and> is_key_id (wi_keyId (pq_identity q))"

definition proof_schema :: "pairing_proof \<Rightarrow> bool" where
  "proof_schema p \<longleftrightarrow> chars_within 1 200 (pp_challengeId p) \<and> base64url_within 22 683 (pp_challenge p) \<and>
     is_key_id (pp_keyId p) \<and> base64url_within 11 107 (pp_signature p)"

definition opaqueId :: "string \<Rightarrow> bool" where
  "opaqueId s \<longleftrightarrow> base64url_within 1 64 s"

definition heartbeat_schema :: "(string \<Rightarrow> bool) \<Rightarrow> heartbeat_request \<Rightarrow> bool" where
  "heartbeat_schema is_datetime q \<longleftrightarrow>
     chars_within 8 200 (hq_installationId q) \<and> chars_within 1 80 (hb_playerVersion q) \<and>
     (case hb_manifestVersion q of None \<Rightarrow> True | Some v \<Rightarrow> length v \<le> 128) \<and>
     (case hb_nowPlayingAssetId q of None \<Rightarrow> True | Some i \<Rightarrow> opaqueId i) \<and>
     0 \<le> hb_uptimeSeconds q \<and> hb_uptimeSeconds q \<le> MAX_SAFE_INTEGER \<and>
     0 \<le> hb_freeStorageBytes q \<and> hb_freeStorageBytes q \<le> MAX_SAFE_INTEGER \<and>
     chars_within 1 40 (hb_networkType q) \<and> is_datetime (hq_occurredAt q)"

text \<open>The headers of a device proof; a header that is missing or not one string is None.\<close>

record proof_headers =
  ph_screenId :: "string option"
  ph_keyId :: "string option"
  ph_challengeId :: "string option"
  ph_challenge :: "string option"
  ph_signatureFormat :: "string option"
  ph_signature :: "string option"

section \<open>Canonical digests\<close>

definition security_level_text :: "security_level \<Rightarrow> string" where
  "security_level_text l = (case l of strongbox \<Rightarrow> ''strongbox''
     | trusted_environment \<Rightarrow> ''trusted-environment'' | software \<Rightarrow> ''software''
     | unknown_secure \<Rightarrow> ''unknown-secure'' | unknown \<Rightarrow> ''unknown'')"

definition device_json :: "device_metadata \<Rightarrow> json" where
  "device_json d = JObj
     [(js ''installationId'', jstr (dm_installationId d)), (js ''model'', jstr (dm_model d)),
      (js ''osVersion'', jstr (dm_osVersion d)), (js ''playerVersion'', jstr (dm_playerVersion d))]"

definition identity_json :: "wire_identity \<Rightarrow> json" where
  "identity_json i = JObj
     [(js ''algorithm'', jstr ''ES256''), (js ''publicKeySpki'', jstr (wi_publicKeySpki i)),
      (js ''keyId'', jstr (wi_keyId i)),
      (js ''securityLevel'', jstr (security_level_text (wi_securityLevel i)))]"

definition canonicalPairingTranscript :: "pairing_request \<Rightarrow> exn + utext" where
  "canonicalPairingTranscript q = canonicalJson (JObj
     [(js ''version'', jstr ''ScreenGoblin pairing transcript v1''), (js ''code'', jstr (pq_code q)),
      (js ''device'', device_json (pq_device q)), (js ''identity'', identity_json (pq_identity q))])"

definition canonicalPairingDigest ::
  "server_platform \<Rightarrow> pairing_request \<Rightarrow> utext \<Rightarrow> exn + string" where
  "canonicalPairingDigest sv q pepper =
     (case canonicalPairingTranscript q of
        Inl x \<Rightarrow> Inl x
      | Inr t \<Rightarrow> Inr (hex_text (sv_hmac sv pepper
          (js ''ScreenGoblin pairing transcript MAC v1'' @ [0] @ t))))"

definition heartbeat_json :: "heartbeat_request \<Rightarrow> json" where
  "heartbeat_json q = JObj
     ([(js ''installationId'', jstr (hq_installationId q)),
       (js ''playerVersion'', jstr (hb_playerVersion q))] @
      opt_entry ''manifestVersion'' (map_option jstr (hb_manifestVersion q)) @
      opt_entry ''nowPlayingAssetId'' (map_option jstr (hb_nowPlayingAssetId q)) @
      [(js ''uptimeSeconds'', JNum (hb_uptimeSeconds q)),
       (js ''freeStorageBytes'', JNum (hb_freeStorageBytes q)),
       (js ''networkType'', jstr (hb_networkType q)), (js ''occurredAt'', jstr (hq_occurredAt q))])"

definition canonicalHeartbeatDigest :: "env \<Rightarrow> heartbeat_request \<Rightarrow> exn + string" where
  "canonicalHeartbeatDigest e q =
     (case canonicalJson (heartbeat_json q) of Inl x \<Rightarrow> Inl x | Inr t \<Rightarrow> Inr (sha256 e t))"

text \<open>The request of a manifest has one form.\<close>

definition negotiation_json :: json where
  "negotiation_json = JObj
     [(js ''protocolVersion'', JNum 2), (js ''mediaDelivery'', jstr ''authorization-v1'')]"

definition canonicalManifestDigest :: "env \<Rightarrow> exn + string" where
  "canonicalManifestDigest e =
     (case canonicalJson negotiation_json of Inl x \<Rightarrow> Inl x | Inr t \<Rightarrow> Inr (sha256 e t))"

section \<open>Configuration\<close>

datatype device_auth_mode = Proof_v1 | Development_bearer

record device_api =
  da_config :: api_config
  da_mode :: device_auth_mode
  da_pepper :: utext
  da_crypto :: device_crypto
  da_server :: server_platform
  da_verification_key :: "nat list \<Rightarrow> utext" \<comment> \<open>the public key of a seed, as base64url\<close>
  da_is_datetime :: "string \<Rightarrow> bool"

definition manifestVerificationKey :: "device_api \<Rightarrow> exn + utext" where
  "manifestVerificationKey da =
     (let seed = node_decode (cf_manifestSigningPrivateKey (da_config da)) in
      if length seed \<noteq> 32
      then Inl (GenericError ''Manifest signing private key must be a 32-byte base64url seed'')
      else Inr (da_verification_key da seed))"

definition invalidDeviceProof :: http_failure where
  "invalidDeviceProof = device_unauthorized ''Device credentials are invalid or revoked''"

definition pairing_code_invalid :: http_failure where
  "pairing_code_invalid = Api_failure \<lparr>ae_status = 404, ae_code = ''PAIRING_CODE_INVALID'',
     ae_message = ''Pairing code is invalid or expired''\<rparr>"

definition installation_mismatch :: http_failure where
  "installation_mismatch = Api_failure \<lparr>ae_status = 409, ae_code = ''INSTALLATION_MISMATCH'',
     ae_message = ''Installation identity does not match paired device''\<rparr>"

definition invalid_identity :: "string \<Rightarrow> http_failure" where
  "invalid_identity message = Api_failure \<lparr>ae_status = 422, ae_code = ''INVALID_DEVICE_IDENTITY'',
     ae_message = message\<rparr>"

section \<open>Pairing codes\<close>

definition padded_code :: "int \<Rightarrow> string" where
  "padded_code n = pad 6 n"

definition space_exhausted :: http_failure where
  "space_exhausted = Api_failure \<lparr>ae_status = 503, ae_code = ''PAIRING_CODE_SPACE_EXHAUSTED'',
     ae_message = ''A pairing code could not be allocated; try again''\<rparr>"

text \<open>
  The attempts of the handler, one for each environment and random number; \<open>w\<close> is what others do
  while an attempt is awaited.
\<close>

fun pairing_code_attempts ::
  "device_api \<Rightarrow> session_user \<Rightarrow> request_source \<Rightarrow> instant \<Rightarrow> (store \<Rightarrow> store) \<Rightarrow> (env \<times> int) list \<Rightarrow> store \<Rightarrow>
    (http_failure + string \<times> instant) \<times> store" where
  "pairing_code_attempts da user rx expiresAt w [] s = (Inl space_exhausted, s)"
| "pairing_code_attempts da user rx expiresAt w ((e, n) # attempts) s =
     (case tryCreatePairingAndAudit e (u_organizationId user)
         (pairingCodeHash (da_server da) (padded_code n) (da_pepper da)) expiresAt
         \<lparr>ac_actorUserId = u_id user, ac_ipAddress = Some (rx_ip rx), ac_requestId = Some (rx_id rx)\<rparr> s of
        (Inl x, s') \<Rightarrow> (Inl (Store_failure x), s')
      | (Inr (Done p), s') \<Rightarrow> (Inr (padded_code n, expiresAt), s')
      | (Inr (Denied d), s') \<Rightarrow>
          if d = FORBIDDEN then (Inl (Api_failure forbidden), s')
          else pairing_code_attempts da user rx expiresAt w attempts (w s'))"

definition pairing_codes_route ::
  "device_api \<Rightarrow> env \<Rightarrow> env \<Rightarrow> (store \<Rightarrow> store) \<Rightarrow> (store \<Rightarrow> store) \<Rightarrow> (env \<times> int) list \<Rightarrow> request_source \<Rightarrow>
    budget_result option list \<Rightarrow> jwt_claims option \<Rightarrow> store \<Rightarrow>
    (http_failure + string \<times> instant) \<times> store" where
  "pairing_codes_route da e0 e1 w0 w attempts rx budgets claims s =
     (case authenticate e0 s claims of
        Inl x \<Rightarrow> (Inl x, s)
      | Inr user \<Rightarrow>
     (case requireRole (the claims) [OWNER, ADMIN] of
        Inl x \<Rightarrow> (Inl x, s)
      | Inr _ \<Rightarrow>
     (case first_refusal budgets of
        Some err \<Rightarrow> (Inl (Api_failure err), w0 s)
      | None \<Rightarrow>
          if da_mode da = Proof_v1
          then (Inl (Api_failure \<lparr>ae_status = 410, ae_code = ''UNTARGETED_ENROLLMENT_REMOVED'',
            ae_message = ''Create enrollment authority for a precreated screen''\<rparr>), w0 s)
          else pairing_code_attempts da user rx (now e1 + 10 * 60000) w (take 8 attempts) (w0 s))))"

section \<open>Challenges\<close>

definition identity_of :: "wire_identity \<Rightarrow> p256_identity" where
  "identity_of i = \<lparr>p2_publicKeySpki = js (wi_publicKeySpki i), p2_keyId = js (wi_keyId i)\<rparr>"

definition proofIdentity :: "device_api \<Rightarrow> pairing_request \<Rightarrow> credential_enrollment option" where
  "proofIdentity da q =
     (if dm_installationId (pq_device q) \<noteq> wi_keyId (pq_identity q) then None
      else case validateP256Identity (da_crypto da) (identity_of (pq_identity q)) of
        Inl _ \<Rightarrow> None
      | Inr key \<Rightarrow> Some \<lparr>dc_keyId = wi_keyId (pq_identity q),
          dc_publicKeySpki = wi_publicKeySpki (pq_identity q),
          dc_securityLevel = wi_securityLevel (pq_identity q), dc_expiresAt = None\<rparr>)"

text \<open>
  A challenge reply: its identifier, the challenge as base64url, the expiry.  Where the store refuses
  the request the identifier is a random token, so that the two cannot be told apart.
\<close>

record challenge_reply =
  cr_id :: string
  cr_challenge :: utext
  cr_expiresAt :: instant

definition pair_challenge_route ::
  "device_api \<Rightarrow> env \<Rightarrow> nat list \<Rightarrow> string \<Rightarrow> budget_result option list \<Rightarrow> pairing_request option \<Rightarrow> store \<Rightarrow>
    (http_failure + challenge_reply) \<times> store" where
  "pair_challenge_route da e random token budgets body s =
     (case first_refusal budgets of
        Some err \<Rightarrow> (Inl (Api_failure err), s)
      | None \<Rightarrow>
     (case body of
        None \<Rightarrow> (Inl Invalid_request, s)
      | Some q \<Rightarrow>
          if \<not> pairing_schema q then (Inl Invalid_request, s)
          else
     (case proofIdentity da q of
        None \<Rightarrow> (Inl (invalid_identity ''Device identity is invalid''), s)
      | Some enrollment \<Rightarrow>
     (case canonicalPairingDigest (da_server da) q (da_pepper da) of
        Inl x \<Rightarrow> (Inl (Store_failure x), s)
      | Inr transcript \<Rightarrow>
          let expiresAt = now e + 30000 in
          (case issuePairingChallenge e
              \<lparr>pc_codeHash = pairingCodeHash (da_server da) (pq_code q) (da_pepper da),
               pc_credential = enrollment,
               pc_challengeHashSha256 = sha256Hex (da_crypto da) random,
               pc_transcriptDigestSha256 = transcript, pc_expiresAt = expiresAt\<rparr> s of
             (found, s') \<Rightarrow>
               (Inr \<lparr>cr_id = (case found of None \<Rightarrow> token | Some a \<Rightarrow> pa_id a),
                     cr_challenge = base64url random, cr_expiresAt = expiresAt\<rparr>, s'))))))"

definition device_challenge_route ::
  "device_api \<Rightarrow> env \<Rightarrow> nat list \<Rightarrow> string \<Rightarrow> budget_result option list \<Rightarrow> proof_headers \<Rightarrow>
    (auth_operation \<times> string) option \<Rightarrow> store \<Rightarrow> (http_failure + challenge_reply) \<times> store" where
  "device_challenge_route da e random token budgets headers body s =
     (case first_refusal budgets of
        Some err \<Rightarrow> (Inl (Api_failure err), s)
      | None \<Rightarrow>
     (case (ph_screenId headers, ph_keyId headers, body) of
        (Some screenId, Some deviceKeyId, Some (operation, bodySha256)) \<Rightarrow>
          if \<not> (chars_within 1 200 screenId \<and> is_key_id deviceKeyId \<and> is_sha256_hex bodySha256)
          then (Inl Invalid_request, s)
          else
            let expiresAt = now e + 45000 in
            (case issueDeviceAuthChallenge e
                \<lparr>ic_screenId = screenId, ic_keyId = deviceKeyId,
                 ic_challengeHashSha256 = sha256Hex (da_crypto da) random, ic_operation = operation,
                 ic_requestDigestSha256 = bodySha256, ic_expiresAt = expiresAt\<rparr> s of
               (issued, s') \<Rightarrow>
                 (Inr \<lparr>cr_id = (case issued of None \<Rightarrow> token | Some c \<Rightarrow> ch_id c),
                       cr_challenge = base64url random, cr_expiresAt = expiresAt\<rparr>, s'))
      | _ \<Rightarrow> (Inl Invalid_request, s)))"

section \<open>Pairing\<close>

datatype pair_reply =
    Paired_device string string string utext utext
      \<comment> \<open>screen, credential, key, base URL and verification key\<close>
  | Waiting_for_approval string string string instant
  | Paired_with_token string string utext utext \<comment> \<open>screen, token, base URL and verification key\<close>

text \<open>A result that names a base URL and the verification key; the store has changed before.\<close>

definition with_verification_key ::
  "device_api \<Rightarrow> (utext \<Rightarrow> pair_reply) \<Rightarrow> store \<Rightarrow> (http_failure + pair_reply) \<times> store" where
  "with_verification_key da reply s =
     (case manifestVerificationKey da of
        Inl x \<Rightarrow> (Inl (Store_failure x), s)
      | Inr key \<Rightarrow> (Inr (reply key), s))"

definition credential_verifier ::
  "device_api \<Rightarrow> string \<Rightarrow> string \<Rightarrow> 'a credential_enrollment_scheme \<Rightarrow> bool" where
  "credential_verifier da challenge signature credential \<longleftrightarrow>
     verifyDeviceSignature (da_crypto da)
       \<lparr>p2_publicKeySpki = js (dc_publicKeySpki credential), p2_keyId = js (dc_keyId credential)\<rparr>
       (js challenge) (js signature)"

definition claim_of ::
  "device_api \<Rightarrow> pairing_request \<Rightarrow> pairing_proof \<Rightarrow> nat list \<Rightarrow> string \<Rightarrow> claim_input" where
  "claim_of da q p challenge transcript =
     \<lparr>cl_codeHash = pairingCodeHash (da_server da) (pq_code q) (da_pepper da),
      cl_pairingAttemptId = pp_challengeId p,
      cl_challengeHashSha256 = sha256Hex (da_crypto da) challenge,
      cl_transcriptDigestSha256 = transcript, cl_keyId = pp_keyId p, cl_device = pq_device q\<rparr>"

definition claim_source :: "request_source \<Rightarrow> claim_audit_context" where
  "claim_source rx =
     \<lparr>ca_ipAddress = Some (rx_ip rx), ca_requestId = Some (rx_id rx), ca_metadata = []\<rparr>"

definition proved_pairing ::
  "device_api \<Rightarrow> env \<Rightarrow> string \<Rightarrow> request_source \<Rightarrow> (pairing_request \<times> pairing_proof) option \<Rightarrow> store \<Rightarrow>
    (http_failure + pair_reply) \<times> store" where
  "proved_pairing da e origin rx body s =
     (case body of
        None \<Rightarrow> (Inl Invalid_request, s)
      | Some (q, p) \<Rightarrow>
          if \<not> (pairing_schema q \<and> proof_schema p) then (Inl Invalid_request, s)
          else
     (case (proofIdentity da q, decodeCanonicalBase64Url 16 512 (js (pp_challenge p))) of
        (Some enrollment, Some challenge) \<Rightarrow>
          if pp_keyId p \<noteq> dc_keyId enrollment then (Inl pairing_code_invalid, s)
          else
     (case canonicalPairingDigest (da_server da) q (da_pepper da) of
        Inl x \<Rightarrow> (Inl (Store_failure x), s)
      | Inr transcript \<Rightarrow>
     (case claimPairingWithCredentialAndAudit e (claim_of da q p challenge transcript)
         (credential_verifier da (pp_challenge p) (pp_signature p)) (claim_source rx) s of
        (Inl x, s') \<Rightarrow> (Inl (Store_failure x), s')
      | (Inr Invalid_claim, s') \<Rightarrow> (Inl pairing_code_invalid, s')
      | (Inr (Pending_approval g c k t), s') \<Rightarrow> (Inr (Waiting_for_approval g c k t), s')
      | (Inr (Paired c x), s') \<Rightarrow>
          with_verification_key da (Paired_device (sc_id x) (dc_id c) (dc_keyId c)
            (js (api_base_url (da_config da) origin))) s'))
      | _ \<Rightarrow> (Inl (invalid_identity ''Device identity or proof is invalid''), s)))"

definition token_pairing ::
  "device_api \<Rightarrow> env \<Rightarrow> string \<Rightarrow> string \<Rightarrow> request_source \<Rightarrow> (string \<times> device_metadata) option \<Rightarrow> store \<Rightarrow>
    (http_failure + pair_reply) \<times> store" where
  "token_pairing da e token origin rx body s =
     (case body of
        None \<Rightarrow> (Inl Invalid_request, s)
      | Some (code, device) \<Rightarrow>
          if \<not> claim_schema code device then (Inl Invalid_request, s)
          else
     (case claimPairingAndAudit e (pairingCodeHash (da_server da) code (da_pepper da)) device
         (sha256 e (js token)) (claim_source rx) s of
        (Inl x, s') \<Rightarrow> (Inl (Store_failure x), s')
      | (Inr None, s') \<Rightarrow> (Inl pairing_code_invalid, s')
      | (Inr (Some x), s') \<Rightarrow>
          with_verification_key da (Paired_with_token (sc_id x) token
            (js (api_base_url (da_config da) origin))) s'))"

text \<open>\<open>POST /pair\<close>: the body as either mode reads it.\<close>

definition pair_route ::
  "device_api \<Rightarrow> env \<Rightarrow> string \<Rightarrow> string \<Rightarrow> request_source \<Rightarrow> budget_result option list \<Rightarrow>
    (pairing_request \<times> pairing_proof) option \<Rightarrow> (string \<times> device_metadata) option \<Rightarrow> store \<Rightarrow>
    (http_failure + pair_reply) \<times> store" where
  "pair_route da e token origin rx budgets proof_body token_body s =
     (case first_refusal budgets of
        Some err \<Rightarrow> (Inl (Api_failure err), s)
      | None \<Rightarrow>
          if da_mode da = Proof_v1 then proved_pairing da e origin rx proof_body s
          else token_pairing da e token origin rx token_body s)"

section \<open>Proofs of requests\<close>

text \<open>The headers of a proof once they have passed, with the bytes of the challenge.\<close>

record proof_values =
  pv_screenId :: string
  pv_keyId :: string
  pv_challengeId :: string
  pv_challenge :: string
  pv_signature :: string
  pv_bytes :: "nat list"

definition proof_header_schema :: "proof_values \<Rightarrow> bool" where
  "proof_header_schema v \<longleftrightarrow> chars_within 1 200 (pv_screenId v) \<and> is_key_id (pv_keyId v) \<and>
     chars_within 1 200 (pv_challengeId v) \<and> base64url_within 22 683 (pv_challenge v) \<and>
     base64url_within 11 107 (pv_signature v)"

definition proof_values_of :: "proof_headers \<Rightarrow> proof_values option" where
  "proof_values_of h =
     (case (ph_screenId h, ph_keyId h, ph_challengeId h, ph_challenge h, ph_signature h) of
        (Some screenId, Some k, Some challengeId, Some challenge, Some signature) \<Rightarrow>
          (case (decodeCanonicalBase64Url 16 512 (js challenge),
                 decodeCanonicalBase64Url 8 80 (js signature)) of
             (Some bytes, Some _) \<Rightarrow>
               let v = \<lparr>pv_screenId = screenId, pv_keyId = k, pv_challengeId = challengeId,
                 pv_challenge = challenge, pv_signature = signature, pv_bytes = bytes\<rparr> in
               if proof_header_schema v \<and> ph_signatureFormat h = Some ''ES256-DER'' then Some v
               else None
           | _ \<Rightarrow> None)
      | _ \<Rightarrow> None)"

definition readDeviceProof ::
  "env \<Rightarrow> store \<Rightarrow> proof_headers \<Rightarrow> http_failure + proof_values \<times> device_credential \<times> screen" where
  "readDeviceProof e s headers =
     (case proof_values_of headers of
        None \<Rightarrow> Inl invalidDeviceProof
      | Some v \<Rightarrow>
          (case authenticateDeviceCredential e s (pv_screenId v) (pv_keyId v) of
             INVALID_PROOF \<Rightarrow> Inl invalidDeviceProof
           | Authenticated c x \<Rightarrow> Inr (v, c, x)))"

definition proof_input ::
  "device_api \<Rightarrow> proof_values \<Rightarrow> device_credential \<Rightarrow> auth_operation \<Rightarrow> string \<Rightarrow> device_proof_input" where
  "proof_input da v c operation digest =
     \<lparr>dp_credentialId = dc_id c, dp_challengeId = pv_challengeId v,
      dp_challengeHashSha256 = sha256Hex (da_crypto da) (pv_bytes v),
      dp_operation = operation, dp_requestDigestSha256 = digest\<rparr>"

text \<open>
  The hooks before a handler: the budget of the source; then in the development mode the device of
  the bearer token, and the budget of the device or of the key the headers name.
\<close>

definition device_hooks ::
  "device_api \<Rightarrow> env \<Rightarrow> budget_result option \<Rightarrow> budget_result option \<Rightarrow> proof_headers \<Rightarrow> string option \<Rightarrow>
    store \<Rightarrow> http_failure + screen option" where
  "device_hooks da e source_budget device_budget headers token s =
     (case enforceRateLimitBudget source_budget of
        Some err \<Rightarrow> Inl (Api_failure err)
      | None \<Rightarrow>
     (case (if da_mode da = Development_bearer
            then map_sum id Some (authenticateDeviceBearer e s True (ph_screenId headers) token)
            else Inr None) of
        Inl x \<Rightarrow> Inl x
      | Inr device \<Rightarrow>
          (case enforceRateLimitBudget device_budget of
             Some err \<Rightarrow> Inl (Api_failure err)
           | None \<Rightarrow> Inr device)))"

section \<open>Heartbeats\<close>

text \<open>What other requests do at the awaits of a handler, and the clock after each.\<close>

record awaits =
  aw_read :: env \<comment> \<open>the credential of the headers is looked up; a bearer token in the hooks\<close>
  aw_first :: env \<comment> \<open>the first look of the proof\<close>
  aw_second :: env \<comment> \<open>the second, after the signature check\<close>
  aw_reply :: env
  aw_after_read :: "store \<Rightarrow> store"
  aw_interfere :: "store \<Rightarrow> store" \<comment> \<open>during the signature check\<close>
  aw_after_proof :: "store \<Rightarrow> store"

definition proved_heartbeat ::
  "device_api \<Rightarrow> awaits \<Rightarrow> proof_headers \<Rightarrow> heartbeat_request \<Rightarrow> store \<Rightarrow>
    (http_failure + instant) \<times> store" where
  "proved_heartbeat da aw headers q s =
     (case readDeviceProof (aw_read aw) s headers of
        Inl x \<Rightarrow> (Inl x, s)
      | Inr (v, c, x) \<Rightarrow>
          let s1 = aw_after_read aw s in
          if Some (hq_installationId q) \<noteq> sc_installationId x then (Inl installation_mismatch, s1)
          else
     (case canonicalHeartbeatDigest (aw_first aw) q of
        Inl err \<Rightarrow> (Inl (Store_failure err), s1)
      | Inr digest \<Rightarrow>
     (case heartbeatWithDeviceProof (aw_first aw) (aw_second aw) (aw_interfere aw)
         (proof_input da v c Op_heartbeat digest) (heartbeat_input.truncate q)
         (credential_verifier da (pv_challenge v) (pv_signature v)) s1 of
        (INVALID_PROOF, s') \<Rightarrow> (Inl invalidDeviceProof, s')
      | (Authenticated c' y, s') \<Rightarrow> (Inr (now (aw_reply aw)), s'))))"

definition heartbeat_route ::
  "device_api \<Rightarrow> env \<Rightarrow> awaits \<Rightarrow> budget_result option \<Rightarrow> budget_result option \<Rightarrow> proof_headers \<Rightarrow>
    string option \<Rightarrow> heartbeat_request option \<Rightarrow> store \<Rightarrow> (http_failure + instant) \<times> store" where
  "heartbeat_route da e aw source_budget device_budget headers token body s =
     (case device_hooks da e source_budget device_budget headers token s of
        Inl x \<Rightarrow> (Inl x, s)
      | Inr device \<Rightarrow>
     (case body of
        None \<Rightarrow> (Inl Invalid_request, s)
      | Some q \<Rightarrow>
          if \<not> heartbeat_schema (da_is_datetime da) q then (Inl Invalid_request, s)
          else if da_mode da = Proof_v1 then proved_heartbeat da aw headers q s
          else
     (case device of
        None \<Rightarrow> (Inl installation_mismatch, s)
      | Some x \<Rightarrow>
          if Some (hq_installationId q) \<noteq> sc_installationId x
          then (Inl installation_mismatch, aw_after_read aw s)
          else
            (case heartbeat (aw_first aw) (sc_id x) (heartbeat_input.truncate q) (aw_after_read aw s) of
               (_, s') \<Rightarrow> (Inr (now (aw_reply aw)), s')))))"

section \<open>Manifests\<close>

definition manifest_for ::
  "device_api \<Rightarrow> env \<Rightarrow> string \<Rightarrow> screen \<Rightarrow> string option \<Rightarrow> string option \<Rightarrow> store \<Rightarrow> http_failure + json" where
  "manifest_for da e origin x requestChallengeId credentialKeyId s =
     (case device_manifest (da_server da) e (da_config da) origin x requestChallengeId credentialKeyId s of
        Inl err \<Rightarrow> Inl (Store_failure err)
      | Inr m \<Rightarrow> Inr m)"

definition proved_manifest ::
  "device_api \<Rightarrow> awaits \<Rightarrow> string \<Rightarrow> proof_headers \<Rightarrow> store \<Rightarrow> (http_failure + json) \<times> store" where
  "proved_manifest da aw origin headers s =
     (case readDeviceProof (aw_read aw) s headers of
        Inl x \<Rightarrow> (Inl x, s)
      | Inr (v, c, x) \<Rightarrow>
          let s1 = aw_after_read aw s in
     (case canonicalManifestDigest (aw_first aw) of
        Inl err \<Rightarrow> (Inl (Store_failure err), s1)
      | Inr digest \<Rightarrow>
     (case consumeDeviceAuthChallenge (aw_first aw) (aw_second aw) (aw_interfere aw)
         (proof_input da v c Op_manifest digest)
         (credential_verifier da (pv_challenge v) (pv_signature v)) s1 of
        (INVALID_PROOF, s') \<Rightarrow> (Inl invalidDeviceProof, s')
      | (Authenticated c' y, s') \<Rightarrow>
          let s'' = aw_after_proof aw s' in
          (manifest_for da (aw_reply aw) origin y (Some (pv_challengeId v)) (Some (dc_keyId c')) s'',
           s''))))"

text \<open>\<open>POST /manifest\<close>: whether the body is the one request there is, and whether the URL has a query.\<close>

definition manifest_route ::
  "device_api \<Rightarrow> env \<Rightarrow> awaits \<Rightarrow> budget_result option \<Rightarrow> budget_result option \<Rightarrow> string \<Rightarrow> proof_headers \<Rightarrow>
    string option \<Rightarrow> bool \<Rightarrow> bool \<Rightarrow> store \<Rightarrow> (http_failure + json) \<times> store" where
  "manifest_route da e aw source_budget device_budget origin headers token valid_body query s =
     (case device_hooks da e source_budget device_budget headers token s of
        Inl x \<Rightarrow> (Inl x, s)
      | Inr device \<Rightarrow>
          if \<not> valid_body then (Inl Invalid_request, s)
          else if da_mode da = Proof_v1 then
            (if query then (Inl invalidDeviceProof, s) else proved_manifest da aw origin headers s)
          else
            (case device of
               None \<Rightarrow> (Inl invalidDeviceProof, s)
             | Some x \<Rightarrow>
                 (manifest_for da (aw_reply aw) origin x None None (aw_after_read aw s),
                  aw_after_read aw s)))"

section \<open>The server\<close>

text \<open>
  What \<open>server.ts\<close> builds the API from: the values of the configuration.  None if the origins of the
  media are refused.
\<close>

definition start_api ::
  "config_platform \<Rightarrow> device_crypto \<Rightarrow> server_platform \<Rightarrow> (nat list \<Rightarrow> utext) \<Rightarrow> (string \<Rightarrow> bool) \<Rightarrow>
    server_config \<Rightarrow> device_api option" where
  "start_api cp dk sv verification_key is_datetime c =
     (case parseMediaAllowedOrigins cp (sg_MEDIA_ALLOWED_ORIGINS c) (sg_NODE_ENV c) of
        Inl _ \<Rightarrow> None
      | Inr origins \<Rightarrow> Some
          \<lparr>da_config = \<lparr>cf_emergencyPublishingEnabled = sg_EMERGENCY_FEATURE_ENABLED c,
             cf_mediaAllowedOrigins = origins, cf_mediaDeliverySecret = js (sg_MEDIA_DELIVERY_SECRET c),
             cf_publicApiUrl = Some (sg_PUBLIC_API_URL c),
             cf_manifestSigningPrivateKey = js (sg_MANIFEST_SIGNING_PRIVATE_KEY c)\<rparr>,
           da_mode = (if sg_proof_mode c then Proof_v1 else Development_bearer),
           da_pepper = js (sg_PAIRING_CODE_PEPPER c), da_crypto = dk, da_server = sv,
           da_verification_key = verification_key, da_is_datetime = is_datetime\<rparr>)"

end
