(* ===== verification/Bound_Attempts.thy ===== *)
theory Bound_Attempts
  imports Device_Laws
begin

text \<open>
  Which credential an attempt is bound to: whatever operations run, a credential an attempt names
  carries the key the attempt proved.
\<close>

section \<open>The keys of bound attempts\<close>

definition bound_keys :: "pairing_attempt list \<Rightarrow> (string \<times> string) set" where
  "bound_keys xs = {(i, pa_keyId a) | a i. a \<in> set xs \<and> pa_boundCredentialId a = Some i}"

definition keeps_binding :: "(pairing_attempt \<Rightarrow> pairing_attempt) \<Rightarrow> bool" where
  "keeps_binding f \<longleftrightarrow>
     (\<forall>a. pa_boundCredentialId (f a) = pa_boundCredentialId a \<and> pa_keyId (f a) = pa_keyId a)"

lemma bound_keys_append [simp]: "bound_keys (xs @ ys) = bound_keys xs \<union> bound_keys ys"
  by (auto simp: bound_keys_def)

lemma bound_keys_filter: "bound_keys (filter P xs) \<subseteq> bound_keys xs"
  by (auto simp: bound_keys_def)

lemma bound_keys_update_where: "keeps_binding f \<Longrightarrow> bound_keys (update_where P f xs) \<subseteq> bound_keys xs"
  by (fastforce simp: bound_keys_def keeps_binding_def elim!: in_update_whereE)

lemma bound_keys_update_first: "keeps_binding f \<Longrightarrow> bound_keys (update_first P f xs) \<subseteq> bound_keys xs"
  by (fastforce simp: bound_keys_def keeps_binding_def elim!: in_update_firstE dest!: find_SomeD)

lemma bound_keys_bind:
  assumes "\<And>a. pa_boundCredentialId (f a) = Some i \<and> pa_keyId (f a) = pa_keyId a"
    and "List.find P xs = None \<or> List.find P xs = Some a"
  shows "bound_keys (update_first P f xs) \<subseteq> insert (i, pa_keyId a) (bound_keys xs)"
  using assms by (auto simp: bound_keys_def elim!: in_update_firstE)

lemma find_filter:
  assumes "\<And>a b. P a \<Longrightarrow> P b \<Longrightarrow> Q a = Q b"
  shows "List.find P (filter Q xs) = None \<or> List.find P (filter Q xs) = List.find P xs"
proof (induction xs)
  case (Cons x xs)
  show ?case
  proof (cases "P x \<and> \<not> Q x")
    case True
    then have "List.find P (filter Q xs) = None" using assms by (auto simp: find_None_iff)
    with True show ?thesis by simp
  qed (use Cons in auto)
qed simp

lemma keeps_binding_cancel [simp]:
  "keeps_binding (cancel_at t)" "keeps_binding (cancel_if_open t)"
  "keeps_binding (\<lambda>a. a\<lparr>pa_cancelledAt := assign_if_absent (pa_cancelledAt a) t\<rparr>)"
  "keeps_binding (\<lambda>c. c\<lparr>pa_provedAt := x, pa_installationId := i, pa_model := m, pa_osVersion := v,
     pa_playerVersion := p\<rparr>)"
  by (simp_all add: keeps_binding_def cancel_at_def cancel_if_open_def)

section \<open>What a step does to them\<close>

definition attempts_step :: "env \<Rightarrow> store \<Rightarrow> store \<Rightarrow> bool" where
  "attempts_step e s s' \<longleftrightarrow> bound_keys (pairingAttempts s') \<subseteq> bound_keys (pairingAttempts s) \<union>
     {(dc_id c, dc_keyId c) | c. c \<in> set (deviceCredentials s') \<and> dc_id c \<in> range (new_id e)}"

lemma attempts_step_weaker:
  "bound_keys (pairingAttempts s') \<subseteq> bound_keys (pairingAttempts s) \<Longrightarrow> attempts_step e s s'"
  by (auto simp: attempts_step_def)

lemma attempts_step_same: "pairingAttempts s' = pairingAttempts s \<Longrightarrow> attempts_step e s s'"
  by (simp add: attempts_step_weaker)

lemma revoke_grants_bound: "keeps_binding f \<Longrightarrow>
    bound_keys (pairingAttempts (revoke_grants P Q f s)) \<subseteq> bound_keys (pairingAttempts s)"
  by (simp add: revoke_grants_def bound_keys_update_where)

lemma issuer_grants_bound:
  "bound_keys (pairingAttempts (revokePendingIssuerGrants i orgs t s)) \<subseteq> bound_keys (pairingAttempts s)"
  by (simp add: revokePendingIssuerGrants_def cancel_unbound_attempts_def bound_keys_update_where)

lemma prune_authority_bound:
  "bound_keys (pairingAttempts (pruneDeviceEnrollmentAuthority e org k s)) \<subseteq> bound_keys (pairingAttempts s)"
  by (simp add: pruneDeviceEnrollmentAuthority_def Let_def bound_keys_filter)

lemma identity_step_attempts:
  assumes "identity_step e s s'"
  shows "attempts_step e s s'"
  using assms
proof cases
  case (login_failed input res)
  then show ?thesis
    by (intro attempts_step_same) (auto simp: recordLoginFailure_def Let_def split: if_splits)
next
  case (session_created org sinput audit sres)
  then show ?thesis
    by (intro attempts_step_same)
      (auto simp: createUserSessionAndAudit_def Let_def split: option.splits if_splits with_audit_splits)
next
  case (session_revoked i org token audit ures)
  then show ?thesis
    by (intro attempts_step_same)
      (auto simp: revokeUserSessionAndAudit_def Let_def split: option.splits if_splits with_audit_splits)
next
  case (bootstrap_rotated i org binput audit ores)
  have "attempts_step e s (rotated_store e i orgs n h s)"
    and "attempts_step e s ((rotated_store e i orgs n h s)\<lparr>auditRecords := rs\<rparr>)" for orgs n h rs
    by (rule attempts_step_weaker; simp add: rotated_store_def issuer_grants_bound)+
  with rotateBootstrap_cases [OF bootstrap_rotated] show ?thesis by (auto simp: attempts_step_same)
next
  case (password_rotated i hash sys ores)
  from rotateUserPassword_unchanged [OF this] password_rotated show ?thesis
    by (auto dest!: rotateUserPassword_Done simp: memberships_mutated_def attempts_step_same
        intro!: attempts_step_weaker dest!: subsetD [OF issuer_grants_bound])
next
  case (user_disabled i sys ores)
  from disableUser_unchanged [OF this] user_disabled show ?thesis
    by (auto dest!: disableUser_Done(1) simp: memberships_mutated_def attempts_step_same
        intro!: attempts_step_weaker dest!: subsetD [OF issuer_grants_bound])
next
  case (role_changed org i r sys ures)
  from changeMembershipRole_cases [OF this] show ?thesis
    by (auto simp: membership_mutated_def attempts_step_same
        intro!: attempts_step_weaker dest!: subsetD [OF issuer_grants_bound])
next
  case (membership_removed org i sys ures)
  from removeMembership_cases [OF this] show ?thesis
    by (auto simp: membership_mutated_def attempts_step_same
        intro!: attempts_step_weaker dest!: subsetD [OF issuer_grants_bound])
qed

lemma enrolled_credential_fields:
  "dc_id (new_credential i org x a t) = i" "dc_keyId (new_credential i org x a t) = pa_keyId a"
  by (simp_all add: new_credential_def)

lemma attempts_step_binds:
  assumes "bound_keys (pairingAttempts s') \<subseteq> insert (i, k) (bound_keys (pairingAttempts s))"
    and "c \<in> set (deviceCredentials s')" "dc_id c = i" "dc_keyId c = k" "i \<in> range (new_id e)"
  shows "attempts_step e s s'"
  using assms by (auto simp: attempts_step_def)

lemma bind_candidate_bound:
  assumes "List.find is_it (pairingAttempts s) = None \<or> List.find is_it (pairingAttempts s) = Some a"
  shows "bound_keys (pairingAttempts (bind_candidate target is_it a g n c t s)) \<subseteq>
    insert (dc_id c, pa_keyId a) (bound_keys (pairingAttempts s))"
  using subset_trans [OF bound_keys_update_where bound_keys_bind [OF _ assms]]
  by (simp add: bind_candidate_def)

lemma reenroll_screen_bound:
  assumes "List.find (is_attempt org k) (pairingAttempts s) = Some a"
  shows "bound_keys (pairingAttempts (reenroll_screen e org i g k a n c s)) \<subseteq>
    insert (dc_id c, pa_keyId a) (bound_keys (pairingAttempts s))"
  using bind_candidate_bound [OF disjI2 [OF assms]] by (simp add: reenroll_screen_def Let_def)

lemma enroll_screen_bound:
  assumes "List.find (enrollment_attempt org g k) (pairingAttempts s) = Some a"
  shows "bound_keys (pairingAttempts (enroll_screen e org i g k h a c s)) \<subseteq>
    insert (dc_id c, pa_keyId a) (bound_keys (pairingAttempts s))"
proof -
  let ?s1 = "pruneDeviceEnrollmentAuthority e org (Some h) s"
  obtain removed where r: "pairingAttempts ?s1 = filter (\<lambda>a. pa_pairingCodeId a \<notin> removed) (pairingAttempts s)"
    by (auto simp: pruneDeviceEnrollmentAuthority_def Let_def)
  have "List.find (enrollment_attempt org g k) (pairingAttempts ?s1) = None \<or>
      List.find (enrollment_attempt org g k) (pairingAttempts ?s1) = Some a"
    unfolding r using assms find_filter [of "enrollment_attempt org g k" "\<lambda>a. pa_pairingCodeId a \<notin> removed"]
    by (metis (mono_tags, lifting) enrollment_attempt_def)
  note b = bind_candidate_bound [OF this, of "is_screen org i" g 1 c "now e"]
  have "bound_keys (pairingAttempts (bind_candidate (is_screen org i) (enrollment_attempt org g k) a g 1 c (now e) ?s1))
      \<subseteq> insert (dc_id c, pa_keyId a) (bound_keys (pairingAttempts s))"
    by (rule subset_trans [OF b insert_mono [OF prune_authority_bound]])
  then show ?thesis unfolding enroll_screen_def Let_def
    by (intro subset_trans [OF revoke_grants_bound]) simp_all
qed

lemma request_reenrollment_attempts:
  assumes "requestScreenReenrollmentAndAudit e org i h t reason audit s = (pres, s')"
  shows "bound_keys (pairingAttempts s') \<subseteq> bound_keys (pairingAttempts s)"
proof -
  have "bound_keys (pairingAttempts (grant_reenrollment e org i n g s)) \<subseteq> bound_keys (pairingAttempts s)" for n g
    using subset_trans [OF revoke_grants_bound prune_authority_bound]
    by (simp add: grant_reenrollment_def Let_def)
  note g = subsetD [OF this]
  from request_reenrollment_cases [OF assms] show ?thesis by (auto dest: g)
qed

lemma request_enrollment_attempts:
  assumes "requestScreenEnrollmentAndAudit e org i reason audit idem s = (eres, s')"
  shows "bound_keys (pairingAttempts s') \<subseteq> bound_keys (pairingAttempts s)"
proof -
  let ?s1 = "pruneDeviceEnrollmentAuthority e org (Some (ei_keyHash idem)) s"
  let ?s2 = "revoke_grants (pending_new_screen org i) unbound (cancel_if_open (now e)) ?s1"
  have "pairingAttempts s' \<in> {pairingAttempts s, pairingAttempts ?s1, pairingAttempts ?s2}"
    using assms
    by (auto simp: requestScreenEnrollmentAndAudit_def remember_enrollment_def Let_def
        dest!: replay_enrollment_request_cases split: split_cases)
  moreover have "bound_keys (pairingAttempts ?s2) \<subseteq> bound_keys (pairingAttempts s)"
    by (rule subset_trans [OF revoke_grants_bound prune_authority_bound]) simp
  ultimately show ?thesis using prune_authority_bound [of e org "Some (ei_keyHash idem)" s] by auto
qed

lemma activate_reenrollment_attempts:
  assumes "activateReenrollmentCandidateAndAudit e org i g c audit s = (ares, s')"
  shows "attempts_step e s s'"
  using activate_reenroll_cases [OF assms]
proof (elim disjE exE conjE)
  fix a p x credential r
  assume a: "List.find (is_attempt org c) (pairingAttempts s) = Some a"
    and credential: "credential = new_credential (new_id e 0) org i a (now e)"
    and s': "s' = (reenroll_screen e org i g c a (generation_of x + 1) credential s)
      \<lparr>auditRecords := auditRecords s @ [r]\<rparr>"
  show ?thesis
    by (rule attempts_step_binds [of _ "new_id e 0" "pa_keyId a" _ credential])
      (use reenroll_screen_bound [OF a, of e i g "generation_of x + 1" credential] in
        \<open>simp_all add: s' credential enrolled_credential_fields reenroll_screen_effect\<close>)
qed (simp add: attempts_step_same)

lemma activate_enrollment_attempts:
  assumes "activateScreenEnrollmentCandidateAndAudit e org i g c f audit h d s = (bres, s')"
  shows "attempts_step e s s'"
  using activate_enroll_cases [OF assms]
proof (elim disjE exE conjE)
  assume "s' = pruneDeviceEnrollmentAuthority e org (Some h) s"
  then show ?thesis by (simp add: attempts_step_weaker prune_authority_bound)
next
  fix a p x credential r
  assume a: "List.find (enrollment_attempt org g c) (pairingAttempts s) = Some a"
    and credential: "credential = new_credential (new_id e 0) org i a (now e)"
    and s': "s' = remember_enrollment e Enroll_activate org h (ac_actorUserId audit) d
      (Credential_response (dc_id credential))
      ((enroll_screen e org i g c h a credential s)\<lparr>auditRecords := auditRecords s @ [r]\<rparr>)"
  show ?thesis
    by (rule attempts_step_binds [of _ "new_id e 0" "pa_keyId a" _ credential])
      (use enroll_screen_bound [OF a, of e i h credential] in
        \<open>simp_all add: s' credential enrolled_credential_fields enroll_screen_effect remember_enrollment_def\<close>)
qed (simp add: attempts_step_same)

lemma cancel_attempts:
  assumes "cancelScreenReenrollmentAndAudit e org i g audit purpose s = (ures, s')"
  shows "bound_keys (pairingAttempts s') \<subseteq> bound_keys (pairingAttempts s)"
proof -
  have "pairingAttempts s' = pairingAttempts s \<or> (\<exists>P. pairingAttempts s' =
      update_where P (cancel_at (now e)) (pairingAttempts s))"
    using assms by (auto simp: cancelScreenReenrollmentAndAudit_def Let_def split: split_cases)
  then show ?thesis by (elim disjE exE) (simp_all add: bound_keys_update_where)
qed

lemma claim_attempts:
  assumes "claimPairingWithCredentialAndAudit e input verify audit s = (cres, s')"
  shows "attempts_step e s s'"
  using assms
proof (cases rule: claim_cases)
  case Same
  then show ?thesis by (simp add: attempts_step_same)
next
  case (Proved a p)
  have "pairingAttempts s' = pairingAttempts s \<or> pairingAttempts s' = update_first
      (\<lambda>c. pa_id c = cl_pairingAttemptId input)
      (\<lambda>c. c\<lparr>pa_provedAt := Some (now e), pa_installationId := Some (dm_installationId (cl_device input)),
             pa_model := Some (dm_model (cl_device input)), pa_osVersion := Some (dm_osVersion (cl_device input)),
             pa_playerVersion := Some (dm_playerVersion (cl_device input))\<rparr>) (pairingAttempts s)"
    using Proved by (auto simp: prove_candidate_def split: split_cases)
  then show ?thesis by (elim disjE) (simp_all add: attempts_step_weaker bound_keys_update_first)
next
  case (Pair a p)
  let ?c = "new_credential (new_id e 1) (pr_organizationId p) (new_id e 0) a (now e)"
  let ?as = "update_first (\<lambda>c. pa_id c = cl_pairingAttemptId input)
      (\<lambda>c. c\<lparr>pa_consumedAt := Some (now e), pa_boundCredentialId := Some (new_id e 1)\<rparr>) (pairingAttempts s)"
  have b: "bound_keys ?as \<subseteq> insert (new_id e 1, pa_keyId a) (bound_keys (pairingAttempts s))"
    by (rule bound_keys_bind) (use Pair(1) in simp_all)
  have "pairingAttempts s' = pairingAttempts s \<or>
      pairingAttempts s' = ?as \<and> deviceCredentials s' = deviceCredentials s @ [?c]"
    using Pair(10) by (auto simp: pair_new_screen_def device_screen_def Let_def split: split_cases)
  then show ?thesis
  proof (elim disjE conjE)
    assume p: "pairingAttempts s' = ?as" and cs: "deviceCredentials s' = deviceCredentials s @ [?c]"
    show ?thesis
      by (rule attempts_step_binds [of _ "new_id e 1" "pa_keyId a" _ ?c]) (use b in \<open>simp_all add: p cs enrolled_credential_fields\<close>)
  qed (simp add: attempts_step_same)
qed

lemma revoke_attempts:
  assumes "revokeDeviceCredentialAndAudit e org i audit s = (rres, s')"
  shows "bound_keys (pairingAttempts s') \<subseteq> bound_keys (pairingAttempts s)"
proof -
  have "pairingAttempts s' = pairingAttempts s \<or> (\<exists>P. pairingAttempts s' =
      pairingAttempts (revoke_grants P not_consumed (cancel_at (now e)) s))"
    using assms
    by (auto simp: revokeDeviceCredentialAndAudit_def reassert_revocation_def revoke_credential_def
        Let_def split: split_cases)
  then show ?thesis by (elim disjE exE) (simp_all add: revoke_grants_bound)
qed

lemma device_step_attempts:
  assumes "device_step e s s'"
  shows "attempts_step e s s'"
  using assms
proof cases
  case (code_created org h t audit pres)
  then show ?thesis
    by (intro attempts_step_same) (auto simp: tryCreatePairingAndAudit_def Let_def split: split_cases)
next
  case (code_claimed h dev tok caudit xres)
  obtain res1 s1 where c: "claimPairingRecord e (new_id e 0) h dev tok s = (res1, s1)" by fastforce
  then have "pairingAttempts s1 = pairingAttempts s"
    by (auto simp: claimPairingRecord_def Let_def split: option.splits)
  moreover have "s' = s \<or> s' = s1 \<or> (\<exists>rs. s' = s1\<lparr>auditRecords := rs\<rparr>)"
    using code_claimed c by (auto simp: claimPairingAndAudit_def split: split_cases)
  ultimately show ?thesis by (intro attempts_step_same) auto
next
  case (pairing_challenged pinput hres)
  have "bound_keys [a] = {}" if "pa_boundCredentialId a = None" for a using that by (simp add: bound_keys_def)
  with pairing_challenged show ?thesis
    by (intro attempts_step_weaker) (auto simp: issuePairingChallenge_def Let_def split: split_cases)
next
  case (device_challenged iinput ires)
  then show ?thesis
    by (intro attempts_step_same)
      (auto simp: issueDeviceAuthChallenge_def pruneOldDeviceAuthChallenges_def Let_def
        split: split_cases proof_result.splits)
next
  case (proof_finished dinput active fres)
  then show ?thesis
    by (intro attempts_step_same) (auto simp: finish_proof_def split: prod.splits split_cases)
next
  case (heartbeat_recorded data x)
  then show ?thesis by (intro attempts_step_same) (simp add: record_heartbeat_def)
next
  case reenrollment_requested
  then show ?thesis by (rule attempts_step_weaker [OF request_reenrollment_attempts])
next
  case enrollment_requested
  then show ?thesis by (rule attempts_step_weaker [OF request_enrollment_attempts])
next
  case reenrollment_activated
  then show ?thesis by (rule activate_reenrollment_attempts)
next
  case enrollment_activated
  then show ?thesis by (rule activate_enrollment_attempts)
next
  case grant_cancelled
  then show ?thesis by (rule attempts_step_weaker [OF cancel_attempts])
next
  case credential_claimed
  then show ?thesis by (rule claim_attempts)
next
  case credential_revoked
  then show ?thesis by (rule attempts_step_weaker [OF revoke_attempts])
qed

lemma store_step_attempts:
  assumes "store_step e s s'"
  shows "attempts_step e s s'"
  using assms
proof cases
  case screen
  then show ?thesis by (simp add: attempts_step_same screen_frame_fields [OF screen_step_frame])
next
  case content
  then show ?thesis by (simp add: attempts_step_same content_frame_fields [OF content_step_frame])
next
  case emergency
  then show ?thesis by (auto intro!: attempts_step_same dest: emergency_step_effect)
next
  case release
  then show ?thesis by (simp add: attempts_step_same release_frame_fields [OF release_step_frame])
qed (simp_all add: identity_step_attempts device_step_attempts)

section \<open>A bound attempt names a credential with its key\<close>

definition bindings_hold :: "string set \<Rightarrow> store \<Rightarrow> bool" where
  "bindings_hold D s \<longleftrightarrow> (\<forall>(i, k) \<in> bound_keys (pairingAttempts s). i \<in> D \<and>
     (\<forall>c \<in> set (deviceCredentials s). dc_id c = i \<longrightarrow> dc_keyId c = k))"

lemma bindings_step:
  assumes inv: "system_inv H t D s" "bindings_hold D s" and env: "step_env H t D e" and step: "store_step e s s'"
  shows "bindings_hold (D \<union> range (new_id e)) s'"
proof -
  have d: "distinct (map dc_id (deviceCredentials s'))"
    using system.kept [OF inv(1) env step] by (simp add: system_inv_def device_inv_def authority_def)
  have out: "new_id e n \<notin> D" for n using env by (simp add: step_env_def)
  have "i \<in> D \<union> range (new_id e) \<and> (\<forall>c \<in> set (deviceCredentials s'). dc_id c = i \<longrightarrow> dc_keyId c = k)"
    if b: "(i, k) \<in> bound_keys (pairingAttempts s')" for i k
  proof (cases "(i, k) \<in> bound_keys (pairingAttempts s)")
    case True
    then have "i \<in> D" "\<forall>c \<in> set (deviceCredentials s). dc_id c = i \<longrightarrow> dc_keyId c = k"
      using inv(2) by (auto simp: bindings_hold_def)
    with out store_step_retires [OF step] show ?thesis
      unfolding credentials_step_def by (metis UnCI imageE)
  next
    case False
    with b store_step_attempts [OF step] obtain c where c: "c \<in> set (deviceCredentials s')" "dc_id c = i"
      "dc_keyId c = k" "i \<in> range (new_id e)" by (auto simp: attempts_step_def)
    then show ?thesis using d by (metis UnCI distinct_map inj_onD)
  qed
  then show ?thesis by (auto simp: bindings_hold_def)
qed

interpretation bindings: store_invariant "\<lambda>H t D s. system_inv H t D s \<and> bindings_hold D s"
proof unfold_locales
  show "system_inv H (now e) (D \<union> range (new_id e)) s' \<and> bindings_hold (D \<union> range (new_id e)) s'"
    if "system_inv H t D s \<and> bindings_hold D s" "step_env H t D e" "store_step e s s'" for H t D s e s'
    using that system.kept bindings_step by blast
  show "system_inv H t {} (start_store us) \<and> bindings_hold {} (start_store us)" for H t us
    using system_inv_start [of H t us]
    by (simp add: bindings_hold_def bound_keys_def start_store_def empty_store_def)
qed

end
