(* ===== verification/Route_Properties.thy ===== *)
theory Route_Properties
  imports Device_Routes Device_Properties Bound_Attempts Signature_Properties End_To_End Server_Config
begin

text \<open>
  What the device routes answer rests on: a manifest or an accepted heartbeat on a signed challenge
  of a live credential of the screen it names, and a pairing on a signed transcript of the key that
  is paired.
\<close>

section \<open>The headers of a proof\<close>

lemma proof_values_of_Some:
  assumes "proof_values_of h = Some v"
  shows "ph_screenId h = Some (pv_screenId v)" "ph_keyId h = Some (pv_keyId v)"
    "ph_challengeId h = Some (pv_challengeId v)" "ph_challenge h = Some (pv_challenge v)"
    "ph_signature h = Some (pv_signature v)" "pv_challengeId v \<noteq> []"
    "decodeCanonicalBase64Url 16 512 (js (pv_challenge v)) = Some (pv_bytes v)"
  using assms
  by (auto simp: proof_values_of_def Let_def proof_header_schema_def chars_within_def
      split: option.splits if_splits)

lemma readDeviceProof_Inr:
  assumes "readDeviceProof e s headers = Inr (v, c, x)"
  shows "proof_values_of headers = Some v"
    "authenticateDeviceCredential e s (pv_screenId v) (pv_keyId v) = Authenticated c x"
  using assms by (auto simp: readDeviceProof_def split: option.splits proof_result.splits)

lemma authenticated_credential:
  assumes "authenticateDeviceCredential e s i k = Authenticated c x" "distinct (map dc_id (deviceCredentials s))"
  shows "c \<in> set (deviceCredentials s)" "dc_screenId c = i" "dc_keyId c = k"
proof -
  obtain d where d: "List.find (\<lambda>c. dc_screenId c = i \<and> dc_keyId c = k) (deviceCredentials s) = Some d"
    using assms(1) by (auto simp: authenticateDeviceCredential_def split: option.splits)
  then obtain y where a: "activeDeviceCredential e s (dc_id d) = Some (c, y)"
    using assms(1) by (auto simp: authenticateDeviceCredential_def split: option.splits)
  note f = find_SomeD [OF d] activeDeviceCredential_SomeD(1,2) [OF a]
  then have "c = d" using assms(2) by (metis distinct_map inj_onD)
  with f show "c \<in> set (deviceCredentials s)" "dc_screenId c = i" "dc_keyId c = k" by simp_all
qed

lemma authenticated_screen:
  assumes "authenticateDeviceCredential e s i k = Authenticated c x"
  obtains y where "y \<in> set (screens s)" "sc_id y = dc_screenId c" "sc_installationId y = sc_installationId x"
proof -
  obtain d where d: "List.find (\<lambda>c. dc_screenId c = i \<and> dc_keyId c = k) (deviceCredentials s) = Some d"
    using assms by (auto simp: authenticateDeviceCredential_def split: option.splits)
  then obtain y where a: "activeDeviceCredential e s (dc_id d) = Some (c, y)" "x = publicScreen s y"
    using assms by (auto simp: authenticateDeviceCredential_def split: option.splits)
  have "sc_installationId (publicScreen s y) = sc_installationId y"
    by (simp add: publicScreen_def Let_def split: option.split)
  with activeDeviceCredential_SomeD(4,5) [OF a(1)] a(2) that show thesis by simp
qed

lemma credential_verifier_same:
  "same_credential c c' \<Longrightarrow> credential_verifier da ch sig c' = credential_verifier da ch sig c"
  unfolding same_credential_def
  by (drule arg_cong [of _ _ "\<lambda>c. (dc_publicKeySpki c, dc_keyId c)"]) (simp add: credential_verifier_def)

section \<open>Digests always exist\<close>

lemma collect_texts_total: "\<forall>r \<in> set rs. \<not> isl r \<Longrightarrow> \<not> isl (collect_texts rs)"
  by (induction rs) (auto split: sum.splits)

lemma canonicalJson_object:
  assumes "\<forall>v \<in> snd ` set kvs. \<not> isl (canonicalJson v)"
  shows "\<not> isl (canonicalJson (JObj kvs))"
proof -
  let ?rs = "map (\<lambda>(k, r). prefix_key k r) (sort_by key_less (map (\<lambda>(k, v). (k, canonicalJson v)) kvs))"
  have "\<not> isl (prefix_key k (canonicalJson v))" if "(k, v) \<in> set kvs" for k v
    using assms that by (cases "canonicalJson v") force+
  then have "\<forall>r \<in> set ?rs. \<not> isl r" by auto
  then have "\<not> isl (collect_texts ?rs)" by (rule collect_texts_total)
  then show ?thesis by (cases "collect_texts ?rs") simp_all
qed

text \<open>So no request fails for want of a digest.\<close>

lemma digests_exist:
  "\<exists>d. canonicalHeartbeatDigest e q = Inr d" "\<exists>d. canonicalManifestDigest e = Inr d"
  "\<exists>d. canonicalPairingDigest sv r pepper = Inr d"
proof -
  have "\<not> isl (canonicalJson (heartbeat_json q))" unfolding heartbeat_json_def
    by (rule canonicalJson_object) (auto simp: opt_entry_def split: option.splits)
  then show "\<exists>d. canonicalHeartbeatDigest e q = Inr d"
    by (cases "canonicalJson (heartbeat_json q)") (simp_all add: canonicalHeartbeatDigest_def)
  have "\<not> isl (canonicalJson negotiation_json)" unfolding negotiation_json_def
    by (rule canonicalJson_object) simp
  then show "\<exists>d. canonicalManifestDigest e = Inr d"
    by (cases "canonicalJson negotiation_json") (simp_all add: canonicalManifestDigest_def)
  have "\<not> isl (canonicalJson (device_json x))" "\<not> isl (canonicalJson (identity_json y))" for x y
    unfolding device_json_def identity_json_def by (rule canonicalJson_object; simp)+
  then have "\<not> isl (canonicalPairingTranscript r)" unfolding canonicalPairingTranscript_def
    by (intro canonicalJson_object) simp
  then show "\<exists>d. canonicalPairingDigest sv r pepper = Inr d"
    by (cases "canonicalPairingTranscript r") (simp_all add: canonicalPairingDigest_def)
qed

section \<open>What a request in proof mode has behind it\<close>

text \<open>
  The headers of the request name the screen and the key of a credential that is live and an open
  challenge issued to it for this operation and this digest, and carry its signature of the
  challenge.
\<close>

definition proved_request ::
  "device_api \<Rightarrow> proof_headers \<Rightarrow> auth_operation \<Rightarrow> string \<Rightarrow> instant \<Rightarrow> device_credential \<Rightarrow> device_challenge \<Rightarrow>
    bool" where
  "proved_request da headers operation digest t c h \<longleftrightarrow>
     ph_screenId headers = Some (dc_screenId c) \<and> ph_keyId headers = Some (dc_keyId c) \<and>
     ph_challengeId headers = Some (ch_id h) \<and> ch_id h \<noteq> [] \<and>
     credential_live t c \<and> ch_credentialId h = dc_id c \<and> ch_operation h = operation \<and>
     ch_requestDigestSha256 h = digest \<and> ch_consumedAt h = None \<and> ch_expiresAt h > t \<and>
     (\<exists>challenge signature bytes. ph_challenge headers = Some challenge \<and>
        ph_signature headers = Some signature \<and> js challenge = base64url bytes \<and>
        ch_challengeHashSha256 h = sha256Hex (da_crypto da) bytes \<and>
        credential_verifier da challenge signature c)"

lemma consumed_request:
  assumes reach: "reachable H us t D s" and between: "run H t D s t1 D1 s1" "run H t1 D1 s1 t2 D2 (w s1)"
    and read: "readDeviceProof e s headers = Inr (v, c, x)"
    and consume: "consumeDeviceProof e1 e2 w (proof_input da v c operation digest)
      (credential_verifier da (pv_challenge v) (pv_signature v)) s1 = (Some (c', x'), s')"
  shows "\<exists>h \<in> set (deviceAuthChallenges (w s1)). proved_request da headers operation digest (now e2) c' h \<and>
      ch_id h = pv_challengeId v"
    and "sc_id x' = dc_screenId c'" "c' \<in> set (deviceCredentials (w s1))" "x' \<in> set (screens (w s1))"
    and "deviceAuthChallenges s' = update_first (\<lambda>k. ch_id k = pv_challengeId v)
      (\<lambda>k. k\<lparr>ch_consumedAt := Some (now e2)\<rparr>) (deviceAuthChallenges (w s1))"
    and "screens s' = screens (w s1)"
proof -
  let ?input = "proof_input da v c operation digest"
  let ?verify = "credential_verifier da (pv_challenge v) (pv_signature v)"
  note p = proof_values_of_Some [OF readDeviceProof_Inr(1) [OF read]]
  have inv: "system_inv H t D s" "distinct (map dc_id (deviceCredentials s))"
    using reachable_facts(1,5) [OF reach] by (simp_all add: device_inv_def authority_def)
  note a = authenticated_credential [OF readDeviceProof_Inr(2) [OF read] inv(2)]
  have "dc_id c \<in> D \<and> bound_to s (dc_id c) (pv_screenId v) (pv_keyId v)"
    using credential_is_drawn [OF inv(1) a(1)] a inv(2)
    by (auto simp: bound_to_def distinct_map dest: inj_onD)
  from binding.along_run [OF run_trans [OF between(2,1)] this]
  have b: "bound_to (w s1) (dc_id c) (pv_screenId v) (pv_keyId v)" by simp
  obtain d y h where g: "begin_proof e1 ?input s1 = Some (d, y, h)" "?verify d"
    and f: "finish_proof e2 ?input (d, y, h) (w s1) = (Some (c', x'), s')"
    using consume by (rule consumeDeviceProof_Some)
  note fin = finish_proof_Some [OF f]
  note act = activeDeviceCredential_SomeD [OF fin(1)]
  have i: "dc_id c' = dc_id c" using act(2) by (simp add: proof_input_def)
  then have sk: "dc_screenId c' = pv_screenId v" "dc_keyId c' = pv_keyId v"
    using b act(1) by (simp_all add: bound_to_def)
  have v: "?verify c'" using credential_verifier_same [OF fin(2), of da] g(2) by simp
  obtain h' where h: "List.find (\<lambda>k. ch_id k = pv_challengeId v) (deviceAuthChallenges (w s1)) = Some h'"
      "challenge_matches ?input (now e2) h'" "ch_credentialId h' = dc_id c"
    using fin(5) by (auto simp: proof_input_def)
  have "js (pv_challenge v) = base64url (pv_bytes v)" by (rule decoded_bytes(2) [OF p(7)])
  with p act(3) sk v i h find_SomeD [OF h(1)]
  have "proved_request da headers operation digest (now e2) c' h'"
    by (simp add: proved_request_def challenge_matches_def proof_input_def) blast
  with find_SomeD [OF h(1)]
  show "\<exists>h \<in> set (deviceAuthChallenges (w s1)). proved_request da headers operation digest (now e2) c' h \<and>
      ch_id h = pv_challengeId v" by blast
  show "sc_id x' = dc_screenId c'" "c' \<in> set (deviceCredentials (w s1))" "x' \<in> set (screens (w s1))"
    using act by simp_all
  show "deviceAuthChallenges s' = update_first (\<lambda>k. ch_id k = pv_challengeId v)
      (\<lambda>k. k\<lparr>ch_consumedAt := Some (now e2)\<rparr>) (deviceAuthChallenges (w s1))"
    "screens s' = screens (w s1)"
    using fin(6) by (simp_all add: proof_input_def)
qed

section \<open>Manifests\<close>

lemma manifest_route_Inr:
  assumes "manifest_route da e aw sb db origin headers token valid_body query s = (Inr m, s')"
    and "da_mode da = Proof_v1"
  shows "proved_manifest da aw origin headers s = (Inr m, s')"
proof -
  note d = manifest_route_def
  obtain device where "device_hooks da e sb db headers token s = Inr device"
    using assms(1) by (cases "device_hooks da e sb db headers token s") (simp_all add: d)
  with assms show ?thesis by (simp add: d split: if_splits)
qed

lemma proved_manifest_Inr:
  assumes "proved_manifest da aw origin headers s = (Inr m, s')"
  obtains v c x digest c' x' s1 where "readDeviceProof (aw_read aw) s headers = Inr (v, c, x)"
    "canonicalManifestDigest (aw_first aw) = Inr digest"
    "consumeDeviceProof (aw_first aw) (aw_second aw) (aw_interfere aw) (proof_input da v c Op_manifest digest)
       (credential_verifier da (pv_challenge v) (pv_signature v)) (aw_after_read aw s) = (Some (c', x'), s1)"
    "manifest_for da (aw_reply aw) origin (publicScreen s1 x') (Some (pv_challengeId v)) (Some (dc_keyId c')) s' = Inr m"
    "s' = aw_after_proof aw s1"
proof -
  note d = proved_manifest_def
  obtain v c x where r: "readDeviceProof (aw_read aw) s headers = Inr (v, c, x)"
    using assms by (cases "readDeviceProof (aw_read aw) s headers") (auto simp: d)
  obtain digest where g: "canonicalManifestDigest (aw_first aw) = Inr digest"
    using assms by (cases "canonicalManifestDigest (aw_first aw)") (auto simp: d r)
  let ?consume = "consumeDeviceProof (aw_first aw) (aw_second aw) (aw_interfere aw) (proof_input da v c Op_manifest digest)
       (credential_verifier da (pv_challenge v) (pv_signature v)) (aw_after_read aw s)"
  obtain res s1 where cs: "?consume = (res, s1)" by fastforce
  have "res \<noteq> None" by (rule notI) (use assms in \<open>simp add: d r g cs consumeDeviceAuthChallenge_def Let_def\<close>)
  then obtain c' x' where "res = Some (c', x')" by (cases res) auto
  moreover from this have "manifest_for da (aw_reply aw) origin (publicScreen s1 x') (Some (pv_challengeId v))
      (Some (dc_keyId c')) s' = Inr m" "s' = aw_after_proof aw s1"
    using assms by (auto simp: d r g cs consumeDeviceAuthChallenge_def Let_def)
  ultimately show thesis using that [OF r g] cs by simp
qed

lemma publicScreen_id [simp]: "sc_id (publicScreen s x) = sc_id x"
  by (simp add: publicScreen_def Let_def split: option.split)

lemma manifest_for_fields:
  assumes "manifest_for da e origin x ch k s = Inr m"
  shows "field m ''screenId'' = jstr (sc_id x)"
    "field m ''requestChallengeId'' = (if truthy ch then jstr (the ch) else JUndefined)"
proof -
  obtain p sig where "m = response_of (unsigned_manifest e x ch p) sig"
    using assms
    by (auto simp: manifest_for_def device_manifest_def response_of_def Let_def split: sum.splits)
  then show "field m ''screenId'' = jstr (sc_id x)"
    "field m ''requestChallengeId'' = (if truthy ch then jstr (the ch) else JUndefined)"
    by (simp_all add: response_fields unsigned_fields)
qed

text \<open>
  C29: in proof mode a manifest is answered only to the device it is for: whatever other requests run
  at the awaits, the screen of the manifest is that of a credential which is live when the proof is
  consumed, which signed an open challenge issued to it for exactly this request, and the manifest
  carries the identifier of this challenge, which is used up.
\<close>

theorem manifest_answers_its_prover:
  assumes "reachable H us t D s" "run H t D s t1 D1 (aw_after_read aw s)"
    and "run H t1 D1 (aw_after_read aw s) t2 D2 (aw_interfere aw (aw_after_read aw s))"
    and "da_mode da = Proof_v1"
    and "manifest_route da e aw sb db origin headers token valid_body query s = (Inr m, s')"
  shows "\<exists>c h digest s1. canonicalManifestDigest (aw_first aw) = Inr digest \<and>
    h \<in> set (deviceAuthChallenges (aw_interfere aw (aw_after_read aw s))) \<and>
    proved_request da headers Op_manifest digest (now (aw_second aw)) c h \<and>
    field m ''screenId'' = jstr (dc_screenId c) \<and> field m ''requestChallengeId'' = jstr (ch_id h) \<and>
    s' = aw_after_proof aw s1 \<and> spent s1 (ch_id h)"
proof -
  let ?s = "aw_interfere aw (aw_after_read aw s)"
  from proved_manifest_Inr [OF manifest_route_Inr [OF assms(5,4)]] obtain v c x digest c' x' s1 where
      p: "readDeviceProof (aw_read aw) s headers = Inr (v, c, x)" "canonicalManifestDigest (aw_first aw) = Inr digest"
      "consumeDeviceProof (aw_first aw) (aw_second aw) (aw_interfere aw) (proof_input da v c Op_manifest digest)
         (credential_verifier da (pv_challenge v) (pv_signature v)) (aw_after_read aw s) = (Some (c', x'), s1)"
    and m: "manifest_for da (aw_reply aw) origin (publicScreen s1 x') (Some (pv_challengeId v))
        (Some (dc_keyId c')) s' = Inr m" "s' = aw_after_proof aw s1" .
  note q = consumed_request [where w = "aw_interfere aw", OF assms(1,2,3) p(1,3)]
  from q(1) obtain h where h: "h \<in> set (deviceAuthChallenges ?s)"
    "proved_request da headers Op_manifest digest (now (aw_second aw)) c' h" "ch_id h = pv_challengeId v" by blast
  have "ch_id h \<noteq> []" using h(2) by (simp add: proved_request_def)
  moreover have "spent s1 (ch_id h)"
    by (auto simp: spent_def q(5) h(3) find_update_first_same split: option.split)
  moreover have "field m ''screenId'' = jstr (dc_screenId c')" "field m ''requestChallengeId'' = jstr (ch_id h)"
    using manifest_for_fields [OF m(1)] q(2) h(3) \<open>ch_id h \<noteq> []\<close> by (cases "ch_id h"; simp)+
  ultimately show ?thesis using h(1,2) p(2) m(2) by blast
qed

section \<open>Heartbeats\<close>

lemma heartbeat_route_Inr:
  assumes "heartbeat_route da e aw sb db headers token body s = (Inr t, s')" "da_mode da = Proof_v1"
  obtains q where "body = Some q" "heartbeat_schema (da_is_datetime da) q"
    "proved_heartbeat da aw headers q s = (Inr t, s')"
proof -
  note d = heartbeat_route_def
  obtain device where h: "device_hooks da e sb db headers token s = Inr device"
    using assms(1) by (cases "device_hooks da e sb db headers token s") (simp_all add: d)
  obtain q where b: "body = Some q" using assms(1) by (cases body) (simp_all add: d h)
  from assms have "heartbeat_schema (da_is_datetime da) q" "proved_heartbeat da aw headers q s = (Inr t, s')"
    by (simp_all add: d h b split: if_splits)
  with that b show thesis by blast
qed

lemma proved_heartbeat_Inr:
  assumes "proved_heartbeat da aw headers q s = (Inr t, s')"
  obtains v c x digest c' x' s1 where "readDeviceProof (aw_read aw) s headers = Inr (v, c, x)"
    "Some (hq_installationId q) = sc_installationId x" "canonicalHeartbeatDigest (aw_first aw) q = Inr digest"
    "consumeDeviceProof (aw_first aw) (aw_second aw) (aw_interfere aw) (proof_input da v c Op_heartbeat digest)
       (credential_verifier da (pv_challenge v) (pv_signature v)) (aw_after_read aw s) = (Some (c', x'), s1)"
    "s' = record_heartbeat (aw_second aw) (heartbeat_input.truncate q) x' s1"
proof -
  note d = proved_heartbeat_def
  obtain v c x where r: "readDeviceProof (aw_read aw) s headers = Inr (v, c, x)"
    using assms by (cases "readDeviceProof (aw_read aw) s headers") (auto simp: d)
  have i: "Some (hq_installationId q) = sc_installationId x"
    by (rule ccontr) (use assms in \<open>simp add: d r\<close>)
  obtain digest where g: "canonicalHeartbeatDigest (aw_first aw) q = Inr digest"
    using assms i by (cases "canonicalHeartbeatDigest (aw_first aw) q") (auto simp: d r)
  let ?consume = "consumeDeviceProof (aw_first aw) (aw_second aw) (aw_interfere aw) (proof_input da v c Op_heartbeat digest)
       (credential_verifier da (pv_challenge v) (pv_signature v)) (aw_after_read aw s)"
  obtain res s1 where cs: "?consume = (res, s1)" by fastforce
  have "res \<noteq> None" by (rule notI) (use assms in \<open>simp add: d r i g cs heartbeatWithDeviceProof_def Let_def\<close>)
  then obtain c' x' where "res = Some (c', x')" by (cases res) auto
  moreover from this have "s' = record_heartbeat (aw_second aw) (heartbeat_input.truncate q) x' s1"
    using assms by (auto simp: d r i g cs heartbeatWithDeviceProof_def Let_def)
  ultimately show thesis using that [OF r i g] cs by simp
qed

lemma updated_first_in: "List.find P xs = Some y \<Longrightarrow> f y \<in> set (update_first P f xs)"
  by (induction xs) (auto split: if_splits)

lemma recorded_heartbeat:
  assumes "x \<in> set (screens s)"
  shows "\<exists>y \<in> set (screens s). sc_id y = sc_id x \<and> apply_heartbeat data (now e) y \<in> set (screens (record_heartbeat e data x s))"
proof -
  let ?P = "is_screen (sc_organizationId x) (sc_id x)"
  have "?P x" by (simp add: is_screen_def)
  with assms obtain y where y: "List.find ?P (screens s) = Some y"
    by (cases "List.find ?P (screens s)") (auto simp: find_None_iff)
  then have "apply_heartbeat data (now e) y \<in> set (update_first ?P (apply_heartbeat data (now e)) (screens s))"
    by (rule updated_first_in)
  with find_SomeD [OF y] show ?thesis by (auto simp: record_heartbeat_def is_screen_def)
qed

text \<open>
  In proof mode a heartbeat is accepted only from the device it is about: its installation is
  the one of the screen, a live credential of this screen signed an open challenge issued to it for
  the digest of exactly this body, the challenge is used up, and it is the screen of the credential
  that takes the values of the body.
\<close>

theorem heartbeat_is_of_its_sender:
  assumes "reachable H us t D s" "run H t D s t1 D1 (aw_after_read aw s)"
    and "run H t1 D1 (aw_after_read aw s) t2 D2 (aw_interfere aw (aw_after_read aw s))"
    and "da_mode da = Proof_v1"
    and "heartbeat_route da e aw sb db headers token body s = (Inr reply, s')"
  shows "\<exists>q c h x y digest. body = Some q \<and> canonicalHeartbeatDigest (aw_first aw) q = Inr digest \<and>
    h \<in> set (deviceAuthChallenges (aw_interfere aw (aw_after_read aw s))) \<and>
    proved_request da headers Op_heartbeat digest (now (aw_second aw)) c h \<and> spent s' (ch_id h) \<and>
    x \<in> set (screens s) \<and> sc_id x = dc_screenId c \<and> sc_installationId x = Some (hq_installationId q) \<and>
    sc_id y = dc_screenId c \<and>
    apply_heartbeat (heartbeat_input.truncate q) (now (aw_second aw)) y \<in> set (screens s')"
proof -
  let ?s = "aw_interfere aw (aw_after_read aw s)"
  from heartbeat_route_Inr [OF assms(5,4)] obtain q where body: "body = Some q"
    and r: "proved_heartbeat da aw headers q s = (Inr reply, s')" by blast
  from proved_heartbeat_Inr [OF r] obtain v c x digest c' x' s1 where
      p: "readDeviceProof (aw_read aw) s headers = Inr (v, c, x)"
    and i: "Some (hq_installationId q) = sc_installationId x"
    and g: "canonicalHeartbeatDigest (aw_first aw) q = Inr digest"
    and consume: "consumeDeviceProof (aw_first aw) (aw_second aw) (aw_interfere aw) (proof_input da v c Op_heartbeat digest)
        (credential_verifier da (pv_challenge v) (pv_signature v)) (aw_after_read aw s) = (Some (c', x'), s1)"
    and s': "s' = record_heartbeat (aw_second aw) (heartbeat_input.truncate q) x' s1" .
  note f = consumed_request [where w = "aw_interfere aw", OF assms(1,2,3) p consume]
  from f(1) obtain h where h: "h \<in> set (deviceAuthChallenges ?s)"
    "proved_request da headers Op_heartbeat digest (now (aw_second aw)) c' h" "ch_id h = pv_challengeId v" by blast
  have spent: "spent s' (ch_id h)"
    by (auto simp: spent_def s' record_heartbeat_def f(5) h(3) find_update_first_same split: option.split)
  obtain y where y: "sc_id y = dc_screenId c'"
      "apply_heartbeat (heartbeat_input.truncate q) (now (aw_second aw)) y \<in> set (screens s')"
    using recorded_heartbeat [of x' s1 "heartbeat_input.truncate q" "aw_second aw"] f(2,4) s'
    by (auto simp: f(6))
  obtain x0 where x0: "x0 \<in> set (screens s)" "sc_id x0 = dc_screenId c" "sc_installationId x0 = sc_installationId x"
    by (rule authenticated_screen [OF readDeviceProof_Inr(2) [OF p]])
  have "dc_screenId c = dc_screenId c'"
  proof -
    have "distinct (map dc_id (deviceCredentials s))"
      using reachable_facts(5) [OF assms(1)] by (simp add: device_inv_def authority_def)
    from authenticated_credential(2) [OF readDeviceProof_Inr(2) [OF p] this]
    show ?thesis using proof_values_of_Some(1) [OF readDeviceProof_Inr(1) [OF p]] h(2)
      by (simp add: proved_request_def)
  qed
  then have "sc_id x0 = dc_screenId c'" "sc_installationId x0 = Some (hq_installationId q)"
    using i x0(2,3) by simp_all
  with body g h(1,2) spent y x0(1) show ?thesis by blast
qed

section \<open>Pairing\<close>





section \<open>Production\<close>

text \<open>
  A server that starts in production asks devices for proofs and publishes no emergencies; it
  signs and hashes with long secrets that differ from each other and from no known placeholder; media come from
  public HTTPS origins only; and the origins of browsers are at most 32 distinct ones, each a public
  HTTPS origin or that of the native shell.
\<close>

theorem production_server_is_safe:
  assumes "loadConfig cp environ = Some (c, origins)" "environ ''NODE_ENV'' = Some ''production''"
    and "start_api cp dk sv verification_key is_datetime c = Some da"
  shows "da_mode da = Proof_v1 \<and> \<not> cf_emergencyPublishingEnabled (da_config da) \<and>
    distinct [sg_JWT_SECRET c, sg_PAIRING_CODE_PEPPER c, sg_MEDIA_DELIVERY_SECRET c] \<and>
    list_all (\<lambda>x. 32 \<le> length x \<and> \<not> isUnsafeProductionSecret x)
      [sg_JWT_SECRET c, sg_PAIRING_CODE_PEPPER c, sg_MEDIA_DELIVERY_SECRET c] \<and>
    \<not> isAllZeroSeed (sg_MANIFEST_SIGNING_PRIVATE_KEY c) \<and>
    cf_mediaAllowedOrigins (da_config da) \<noteq> [] \<and>
    list_all (public_https_origin cp) (cf_mediaAllowedOrigins (da_config da)) \<and>
    distinct origins \<and> length origins \<le> 32 \<and>
    list_all (\<lambda>x. x \<in> {CAPACITOR_ORIGIN, ''https://localhost''} \<or> public_https_origin cp x) origins"
proof -
  from loadConfig_Some [OF assms(1)] obtain c0 api where r: "read_fields cp environ = Some c0"
    and n: "config_issues cp c0 = []"
    and o: "parseCorsOrigins cp (sg_CORS_ORIGINS c0) (sg_NODE_ENV c0) = Inr origins"
    and c: "c = c0\<lparr>sg_PUBLIC_API_URL := api\<rparr>" .
  have f: "sg_NODE_ENV c0 = Production" "32 \<le> length (sg_JWT_SECRET c0)" "32 \<le> length (sg_PAIRING_CODE_PEPPER c0)"
    using read_fields_Some [OF r] assms(2) by (auto simp: enum_value_def text_value_def split: option.splits if_splits)
  have issues: "production_issues c0 = []" using n f(1) by (simp add: config_issues_def)
  obtain media where m: "parseMediaAllowedOrigins cp (sg_MEDIA_ALLOWED_ORIGINS c0) Production = Inr media"
    and da: "da_mode da = (if sg_proof_mode c0 then Proof_v1 else Development_bearer)"
      "cf_emergencyPublishingEnabled (da_config da) = sg_EMERGENCY_FEATURE_ENABLED c0"
      "cf_mediaAllowedOrigins (da_config da) = media"
    using assms(3) f(1) by (auto simp: start_api_def c split: sum.splits)
  note i = issues [unfolded production_issues_def issue_if_def append_is_Nil_conv]
  from i have modes: "sg_proof_mode c0" "\<not> sg_EMERGENCY_FEATURE_ENABLED c0"
    by (simp_all split: if_splits)
  from i have secrets: "distinct [sg_JWT_SECRET c0, sg_PAIRING_CODE_PEPPER c0, sg_MEDIA_DELIVERY_SECRET c0]"
    "list_all (\<lambda>x. \<not> isUnsafeProductionSecret x)
      [sg_JWT_SECRET c0, sg_PAIRING_CODE_PEPPER c0, sg_MEDIA_DELIVERY_SECRET c0]"
    "32 \<le> length (sg_MEDIA_DELIVERY_SECRET c0)" "\<not> isAllZeroSeed (sg_MANIFEST_SIGNING_PRIVATE_KEY c0)"
    by (simp_all split: if_splits)
  have same: "sg_JWT_SECRET c = sg_JWT_SECRET c0" "sg_PAIRING_CODE_PEPPER c = sg_PAIRING_CODE_PEPPER c0"
    "sg_MEDIA_DELIVERY_SECRET c = sg_MEDIA_DELIVERY_SECRET c0"
    "sg_MANIFEST_SIGNING_PRIVATE_KEY c = sg_MANIFEST_SIGNING_PRIVATE_KEY c0" by (simp_all add: c)
  have media: "media \<noteq> []" "list_all (public_https_origin cp) media"
    using parsed_media_origins(2,3) [OF m] by (simp_all add: list_all_iff)
  note os = parsed_cors_origins [OF o [unfolded f(1)]]
  have browsers: "list_all (\<lambda>x. x \<in> {CAPACITOR_ORIGIN, ''https://localhost''} \<or> public_https_origin cp x) origins"
    using os(4) by (simp add: list_all_iff)
  show ?thesis
    using modes secrets f(2,3) media os(1) os(3) [unfolded MAX_CORS_ORIGINS_def] browsers
    by (simp add: same da)
qed

end
