(* ===== verification/Config_Samples.thy ===== *)
theory Config_Samples
  imports Server_Config
begin

text \<open>A production environment the API starts in, for the witness of what it refuses.\<close>

section \<open>A production server\<close>

definition public_url :: origin_url where
  "public_url = \<lparr>url_username = [], url_password = [], url_protocol = ''https:'', url_hostname = ''a.example'',
     url_origin = ''https://a.example'', ou_pathname = ''/'', ou_search = [], ou_hash = []\<rparr>"

definition sample_config_platform :: config_platform where
  "sample_config_platform = \<lparr>cp_url = (\<lambda>_. Some public_url), cp_is_ip = (\<lambda>_. False),
     cp_integer = (\<lambda>_. None), cp_is_url = (\<lambda>_. True)\<rparr>"

definition production_environ :: "string \<Rightarrow> string option" where
  "production_environ = map_of
     [(''NODE_ENV'', ''production''), (''DATABASE_URL'', ''db''), (''REDIS_URL'', ''redis://r''),
      (''JWT_SECRET'', replicate 32 CHR ''a''), (''PAIRING_CODE_PEPPER'', replicate 32 CHR ''b''),
      (''MEDIA_DELIVERY_SECRET'', replicate 32 CHR ''c''),
      (''MANIFEST_SIGNING_PRIVATE_KEY'', replicate 43 CHR ''B''), (''PUBLIC_API_URL'', ''https://a.example''),
      (''CORS_ORIGINS'', ''https://a.example''), (''MEDIA_ALLOWED_ORIGINS'', ''https://a.example''),
      (''S3_ACCESS_KEY_ID'', ''k''), (''S3_SIGNING_KEY'', ''s''), (''DEVICE_AUTH_MODE'', ''proof-v1'')]"

definition production_config :: server_config where
  "production_config = \<lparr>sg_NODE_ENV = Production, sg_PORT = 3000, sg_DATABASE_URL = ''db'',
     sg_REDIS_URL = ''redis://r'', sg_JWT_SECRET = replicate 32 CHR ''a'',
     sg_PAIRING_CODE_PEPPER = replicate 32 CHR ''b'',
     sg_MANIFEST_SIGNING_PRIVATE_KEY = replicate 43 CHR ''B'',
     sg_MEDIA_DELIVERY_SECRET = replicate 32 CHR ''c'', sg_CORS_ORIGINS = ''https://a.example'',
     sg_PUBLIC_API_URL = ''https://a.example'', sg_MEDIA_ALLOWED_ORIGINS = ''https://a.example'',
     sg_S3_ENDPOINT = ''http://localhost:9000'', sg_S3_REGION = ''us-east-1'',
     sg_S3_BUCKET = ''screengoblin-media'', sg_S3_ACCESS_KEY_ID = ''k'', sg_S3_SIGNING_KEY = ''s'',
     sg_proof_mode = True, sg_EMERGENCY_FEATURE_ENABLED = False\<rparr>"

lemma production_secrets:
  "\<not> isUnsafeProductionSecret (replicate 32 CHR ''a'')" "\<not> isUnsafeProductionSecret (replicate 32 CHR ''b'')"
  "\<not> isUnsafeProductionSecret (replicate 32 CHR ''c'')" "\<not> isAllZeroSeed (replicate 43 CHR ''B'')"
  by code_simp+

lemma production_texts: "is_key_id (replicate 43 CHR ''B'')" "bucket_name ''screengoblin-media''"
  by code_simp+

lemma production_fields: "read_fields sample_config_platform production_environ = Some production_config"
proof -
  have e: "production_environ ''NODE_ENV'' = Some ''production''" "production_environ ''PORT'' = None"
    "production_environ ''DATABASE_URL'' = Some ''db''" "production_environ ''REDIS_URL'' = Some ''redis://r''"
    "production_environ ''JWT_SECRET'' = Some (replicate 32 CHR ''a'')"
    "production_environ ''PAIRING_CODE_PEPPER'' = Some (replicate 32 CHR ''b'')"
    "production_environ ''MEDIA_DELIVERY_SECRET'' = Some (replicate 32 CHR ''c'')"
    "production_environ ''MANIFEST_SIGNING_PRIVATE_KEY'' = Some (replicate 43 CHR ''B'')"
    "production_environ ''PUBLIC_API_URL'' = Some ''https://a.example''"
    "production_environ ''CORS_ORIGINS'' = Some ''https://a.example''"
    "production_environ ''MEDIA_ALLOWED_ORIGINS'' = Some ''https://a.example''"
    "production_environ ''S3_ENDPOINT'' = None" "production_environ ''S3_REGION'' = None"
    "production_environ ''S3_BUCKET'' = None" "production_environ ''S3_ACCESS_KEY_ID'' = Some ''k''"
    "production_environ ''S3_SIGNING_KEY'' = Some ''s''" "production_environ ''DEVICE_AUTH_MODE'' = Some ''proof-v1''"
    "production_environ ''EMERGENCY_FEATURE_ENABLED'' = None"
    by (simp_all add: production_environ_def del: replicate_numeral)
  show ?thesis
    by (simp add: read_fields_def e enum_value_def text_value_def production_texts sample_config_platform_def
        production_config_def del: replicate_numeral)
qed

lemma production_origins:
  "parseCorsOrigins sample_config_platform ''https://a.example'' Production = Inr [''https://a.example'']"
  "parsePublicApiUrl sample_config_platform ''https://a.example'' Production = Inr ''https://a.example''"
  "parseMediaAllowedOrigins sample_config_platform ''https://a.example'' Production = Inr [''https://a.example'']"
  by code_simp+

lemma production_config_fields:
  "sg_NODE_ENV production_config = Production" "sg_CORS_ORIGINS production_config = ''https://a.example''"
  "sg_PUBLIC_API_URL production_config = ''https://a.example''"
  "sg_MEDIA_ALLOWED_ORIGINS production_config = ''https://a.example''"
  "sg_REDIS_URL production_config = ''redis://r''" "sg_JWT_SECRET production_config = replicate 32 CHR ''a''"
  "sg_PAIRING_CODE_PEPPER production_config = replicate 32 CHR ''b''"
  "sg_MEDIA_DELIVERY_SECRET production_config = replicate 32 CHR ''c''"
  "sg_MANIFEST_SIGNING_PRIVATE_KEY production_config = replicate 43 CHR ''B''"
  "sg_S3_ACCESS_KEY_ID production_config = ''k''" "sg_S3_SIGNING_KEY production_config = ''s''"
  "sg_proof_mode production_config" "\<not> sg_EMERGENCY_FEATURE_ENABLED production_config"
  "production_config\<lparr>sg_PUBLIC_API_URL := ''https://a.example''\<rparr> = production_config"
  unfolding production_config_def by (simp_all only: server_config.simps not_False_eq_True)

lemma production_has_no_issues: "production_issues production_config = []"
proof -
  have "prefix ''redis://'' ''redis://r''" by simp
  moreover have "replicate 32 CHR ''a'' \<noteq> replicate 32 CHR ''b''" "replicate 32 CHR ''c'' \<noteq> replicate 32 CHR ''a''"
    "replicate 32 CHR ''c'' \<noteq> replicate 32 CHR ''b''" "\<not> length (replicate 32 CHR ''c'') < 32"
    by (simp_all add: replicate_eq_replicate del: replicate_numeral)
  ultimately show ?thesis
    unfolding production_issues_def production_config_fields issue_if_def
    by (simp add: production_secrets production_config_fields del: replicate_numeral)
qed

lemma production_loads: "loadConfig sample_config_platform production_environ =
    Some (production_config, [''https://a.example''])"
proof -
  have "config_issues sample_config_platform production_config = []"
    by (simp add: config_issues_def production_has_no_issues production_config_fields production_origins issue_if_def)
  then show ?thesis
    by (simp add: loadConfig_def production_fields production_config_fields production_origins)
qed

end
