(* ===== verification/Route_Samples.thy ===== *)
theory Route_Samples
  imports Route_Properties Config_Samples
begin

text \<open>
  Witnesses of the route properties: the sample device pairs under its key, sends a heartbeat and asks
  for a manifest; a sample production environment starts the server.
\<close>

section \<open>A sample API and device\<close>

definition route_server :: server_platform where
  "route_server = \<lparr>sv_hmac = (\<lambda>_ _. replicate 32 0), sv_parse_json = (\<lambda>_. None),
     sv_parse_date = (\<lambda>_. None), sv_ed25519 = (\<lambda>_ _. replicate 64 0)\<rparr>"

definition route_api :: device_api where
  "route_api = \<lparr>da_config = \<lparr>cf_emergencyPublishingEnabled = False, cf_mediaAllowedOrigins = [],
       cf_mediaDeliverySecret = [], cf_publicApiUrl = None,
       cf_manifestSigningPrivateKey = base64url (replicate 32 0)\<rparr>,
     da_mode = Proof_v1, da_pepper = [], da_crypto = sample_crypto, da_server = route_server,
     da_verification_key = (\<lambda>_. []), da_is_datetime = (\<lambda>_. True)\<rparr>"

lemma route_api_fields: "da_mode route_api = Proof_v1" "da_crypto route_api = sample_crypto"
  "da_server route_api = route_server" "da_pepper route_api = []" "da_is_datetime route_api = (\<lambda>_. True)"
  by (simp_all add: route_api_def)

definition spoken :: "utext \<Rightarrow> string" where "spoken u = map char_of u"

definition device_challenge_text :: string where
  "device_challenge_text = spoken (base64url (replicate 32 7))"

definition device_signature_text :: string where
  "device_signature_text = spoken (base64url [48, 7, 2, 1, 1, 2, 2, 0, 128])"

lemma texts:
  "hex_text (replicate 32 0) = sample_digest" "js key1 = base64url (replicate 32 0)"
  "js spki1 = base64url (replicate 91 0)" "js device_challenge_text = base64url (replicate 32 7)"
  "js device_signature_text = base64url [48, 7, 2, 1, 1, 2, 2, 0, 128]"
  by code_simp+

lemma text_lengths:
  "base64url_within 22 683 device_challenge_text" "base64url_within 11 107 device_signature_text"
  "base64url_within 107 342 spki1"
  by code_simp+

lemma sample_hashes: "sha256Hex sample_crypto bytes = sample_digest" "pairingCodeHash route_server code pepper = sample_digest"
  by (simp_all add: sha256Hex_def sample_crypto_def pairingCodeHash_def route_server_def texts)

lemma sample_decodes:
  "decodeCanonicalBase64Url 16 512 (js device_challenge_text) = Some (replicate 32 7)"
  "decodeCanonicalBase64Url 8 80 (js device_signature_text) = Some [48, 7, 2, 1, 1, 2, 2, 0, 128]"
  unfolding texts by (rule decode_encoded; simp)+

lemma sample_verifier:
  "dc_publicKeySpki c = spki1 \<Longrightarrow> dc_keyId c = key1 \<Longrightarrow>
    credential_verifier route_api device_challenge_text device_signature_text c"
  using sample_signature_valid
  by (simp add: credential_verifier_def route_api_fields texts sample_identity_def)

definition device_headers :: proof_headers where
  "device_headers = \<lparr>ph_screenId = Some ''iii-'', ph_keyId = Some key1, ph_challengeId = Some ''iiii-'',
     ph_challenge = Some device_challenge_text, ph_signatureFormat = Some ''ES256-DER'',
     ph_signature = Some device_signature_text\<rparr>"

definition device_values :: proof_values where
  "device_values = \<lparr>pv_screenId = ''iii-'', pv_keyId = key1, pv_challengeId = ''iiii-'',
     pv_challenge = device_challenge_text, pv_signature = device_signature_text,
     pv_bytes = replicate 32 7\<rparr>"

lemma device_headers_pass: "proof_values_of device_headers = Some device_values"
  by (simp add: proof_values_of_def device_headers_def sample_decodes Let_def proof_header_schema_def
      key1_id text_lengths chars_within_def device_values_def)

definition device_awaits :: awaits where
  "device_awaits = \<lparr>aw_read = sample_env 5, aw_first = sample_env 5, aw_second = sample_env 5,
     aw_reply = sample_env 5, aw_after_read = id, aw_interfere = id, aw_after_proof = id\<rparr>"

abbreviation free_budget :: "budget_result option" where
  "free_budget \<equiv> Some \<lparr>br_allowed = True, br_retryAfterSeconds = 1\<rparr>"

lemma device_reads:
  assumes "deviceCredentials s = [dcredential]" "screens s = [dscreen]"
  shows "\<exists>x. readDeviceProof (sample_env 5) s device_headers = Inr (device_values, dcredential, x) \<and>
    sc_installationId x = Some key1"
proof -
  have "sc_installationId (publicScreen s dscreen) = Some key1"
    by (simp add: publicScreen_def Let_def dscreen_def device_screen_def claim1_def)
  then show ?thesis
    by (simp add: readDeviceProof_def device_headers_pass authenticateDeviceCredential_def assms
        dcredential_fields dactive device_values_def)
qed

section \<open>A heartbeat\<close>

definition beat_request :: heartbeat_request where
  "beat_request = \<lparr>hb_playerVersion = ''2'', hb_manifestVersion = None, hb_nowPlayingAssetId = None,
     hb_uptimeSeconds = 60, hb_freeStorageBytes = 1000, hb_networkType = ''wifi'',
     hq_installationId = key1, hq_occurredAt = ''2026''\<rparr>"

lemma sample_request_digests:
  "canonicalHeartbeatDigest (sample_env n) q = Inr sample_digest"
  "canonicalManifestDigest (sample_env n) = Inr sample_digest"
  "canonicalPairingDigest route_server r pepper = Inr sample_digest"
  using digests_exist(1) [of "sample_env n" q] digests_exist(2) [of "sample_env n"]
    digests_exist(3) [of route_server r pepper]
  by (auto simp: canonicalHeartbeatDigest_def canonicalManifestDigest_def canonicalPairingDigest_def
      sample_env_def route_server_def texts split: sum.splits)

lemma beat_schema: "heartbeat_schema (\<lambda>_. True) beat_request"
  by code_simp

lemma device_hooks_pass:
  "device_hooks route_api e free_budget free_budget device_headers None s = Inr None"
  by (simp add: device_hooks_def enforceRateLimitBudget_def route_api_fields)

lemma sample_proof_input:
  "proof_input route_api device_values dcredential Op_heartbeat sample_digest = proof5"
proof -
  have "da_crypto route_api = sample_crypto" "pv_challengeId device_values = ''iiii-''"
    by (simp_all add: route_api_fields device_values_def)
  then show ?thesis by (simp add: proof_input_def dcredential_fields proof5_def sample_hashes)
qed

lemma device_signature_passes:
  "credential_verifier route_api (pv_challenge device_values) (pv_signature device_values) dcredential"
proof -
  have "pv_challenge device_values = device_challenge_text" "pv_signature device_values = device_signature_text"
    by (simp_all add: device_values_def)
  moreover have "dc_publicKeySpki dcredential = spki1"
    by (simp add: dcredential_def new_credential_def attempt2_def)
  ultimately show ?thesis by (simp add: sample_verifier dcredential_fields)
qed

lemma device_awaits_fields: "aw_read device_awaits = sample_env 5" "aw_first device_awaits = sample_env 5"
  "aw_second device_awaits = sample_env 5" "aw_reply device_awaits = sample_env 5"
  "aw_after_read device_awaits = id" "aw_interfere device_awaits = id" "aw_after_proof device_awaits = id"
  by (simp_all add: device_awaits_def)

lemma sample_beat: "\<exists>s'. heartbeat_route route_api (sample_env 5) device_awaits free_budget free_budget device_headers
    None (Some beat_request) dstore4 = (Inr 5000, s')"
proof -
  obtain x where r: "readDeviceProof (sample_env 5) dstore4 device_headers = Inr (device_values, dcredential, x)"
    "sc_installationId x = Some key1" using device_reads [OF dstore4_fields(2,1)] by blast
  have c: "consumeDeviceProof (sample_env 5) (sample_env 5) id proof5
      (credential_verifier route_api (pv_challenge device_values) (pv_signature device_values)) dstore4 =
      (Some (dcredential, dscreen), dstore5)"
    by (simp add: consumeDeviceProof_def dbegin5 dstep5 device_signature_passes)
  have q: "hq_installationId beat_request = key1" by (simp add: beat_request_def)
  have "\<exists>s'. proved_heartbeat route_api device_awaits device_headers beat_request dstore4 = (Inr 5000, s')"
    unfolding proved_heartbeat_def device_awaits_fields r(1) sum.case prod.case Let_def q r(2) sample_request_digests
      sample_proof_input heartbeatWithDeviceProof_def id_apply c option.case by simp
  then show ?thesis
    by (simp add: heartbeat_route_def device_hooks_pass beat_schema route_api_fields)
qed

theorem heartbeat_is_of_its_sender_witness:
  "\<exists>c h x. proved_request route_api device_headers Op_heartbeat sample_digest 5000 c h \<and>
    x \<in> set (screens dstore4) \<and> sc_id x = dc_screenId c \<and> sc_installationId x = Some key1"
proof -
  obtain D where D: "reachable (\<lambda>_. sample_digest) sample_users (int 4 * 1000) D dstore4"
    using device_run(2) by (rule sample_reach)
  have w: "aw_after_read device_awaits dstore4 = dstore4" "aw_interfere device_awaits dstore4 = dstore4"
    "aw_first device_awaits = sample_env 5" "aw_second device_awaits = sample_env 5"
    by (simp_all add: device_awaits_def)
  note mode = route_api_fields(1)
  have q: "hq_installationId beat_request = key1" by (simp add: beat_request_def)
  obtain s' where "heartbeat_route route_api (sample_env 5) device_awaits free_budget free_budget device_headers
    None (Some beat_request) dstore4 = (Inr 5000, s')" using sample_beat by blast
  from heartbeat_is_of_its_sender [OF D _ _ mode this, unfolded w, OF run.stay run.stay]
  show ?thesis by (auto simp: sample_request_digests q)
qed

section \<open>A manifest\<close>

definition manifest_challenge :: device_challenge where
  "manifest_challenge = challenge4\<lparr>ch_operation := Op_manifest\<rparr>"

definition manifest_store :: store where
  "manifest_store = dstore3\<lparr>deviceAuthChallenges := [manifest_challenge]\<rparr>"

lemma manifest_challenge_issued:
  "issueDeviceAuthChallenge (sample_env 4) (challenge4_input\<lparr>ic_operation := Op_manifest\<rparr>) dstore3 =
    (Some manifest_challenge, manifest_store)"
  by (simp add: issueDeviceAuthChallenge_def authenticateDeviceCredential_def challenge4_input_def dactive
      dstore3_fields dcredential_fields auth_challenge_refused_def sample_digest_hex Let_def dids challenge4_def
      manifest_challenge_def manifest_store_def pruneOldDeviceAuthChallenges_def batch_def sort_by_def)

lemma manifest_store_reachable: "sample_reachable 4 manifest_store"
  using sample_reachable_step [OF device_run(5) _ store_step.device
      [OF device_step.device_challenged [OF manifest_challenge_issued]]] by simp

lemma manifest_store_fields: "screens manifest_store = [dscreen]" "deviceCredentials manifest_store = [dcredential]"
  "deviceAuthChallenges manifest_store = [manifest_challenge]"
  "schedules manifest_store = []"
  by (simp_all add: manifest_store_def dstore3_fields)
    (simp_all add: dstore3_def dstore2_def dstore1_def empty_store_def)

definition manifest_proof :: device_proof_input where
  "manifest_proof = proof5\<lparr>dp_operation := Op_manifest\<rparr>"

lemma manifest_proof_input:
  "proof_input route_api device_values dcredential Op_manifest sample_digest = manifest_proof"
  using arg_cong [OF sample_proof_input, of "dp_operation_update (\<lambda>_. Op_manifest)"]
  by (simp add: manifest_proof_def proof_input_def)

lemma manifest_challenge_fields: "ch_id manifest_challenge = ''iiii-''" "ch_credentialId manifest_challenge = ''iii-k''"
  "ch_organizationId manifest_challenge = ''org''" "dp_credentialId manifest_proof = ''iii-k''"
  "dp_challengeId manifest_proof = ''iiii-''" "t < 50000 \<Longrightarrow> challenge_matches manifest_proof t manifest_challenge"
  by (simp_all add: manifest_challenge_def challenge4_def challenge_matches_def manifest_proof_def proof5_def)

lemma manifest_proof_consumed: "\<exists>s1. consumeDeviceProof (sample_env 5) (sample_env 5) id manifest_proof
    (credential_verifier route_api (pv_challenge device_values) (pv_signature device_values)) manifest_store =
    (Some (dcredential, dscreen), s1) \<and> schedules s1 = []"
proof -
  have "begin_proof (sample_env 5) manifest_proof manifest_store = Some (dcredential, dscreen, manifest_challenge)"
    by (simp add: begin_proof_def manifest_challenge_fields dactive manifest_store_fields dcredential_fields)
  moreover have "\<exists>s1. finish_proof (sample_env 5) manifest_proof (dcredential, dscreen, manifest_challenge) manifest_store =
      (Some (dcredential, dscreen), s1) \<and> schedules s1 = []"
    by (simp add: finish_proof_def manifest_challenge_fields dactive manifest_store_fields dcredential_fields
        same_credential_def same_screen_def same_challenge_def)
  ultimately show ?thesis by (simp add: consumeDeviceProof_def device_signature_passes)
qed

lemma sample_manifest_built:
  assumes "schedules s = []"
  shows "\<exists>m. manifest_for route_api (sample_env 5) ''http://x'' y ch k s = Inr m"
proof -
  have seed: "length (node_decode (base64url (replicate 32 0))) = 32" by (subst node_decode_base64url) simp_all
  have "activeOrdinaryReleases (sample_env 5) s org i t = Inr []" for org i t
    using assms by (simp add: activeOrdinaryReleases_def)
  then have "\<exists>p. manifest_plan_for (da_server route_api) (sample_env 5) (da_config route_api) base y k s = Inr p" for base
    by (simp add: manifest_plan_for_def ordinary_plan_def route_api_def sort_by_def)
  then obtain p where p: "manifest_plan_for (da_server route_api) (sample_env 5) (da_config route_api)
      (api_base_url (da_config route_api) ''http://x'') y k s = Inr p" by blast
  have "cf_manifestSigningPrivateKey (da_config route_api) = base64url (replicate 32 0)"
    unfolding route_api_def by (simp only: device_api.simps api_config.simps)
  then show ?thesis by (simp add: manifest_for_def device_manifest_def p signManifest_def seed Let_def)
qed

lemma sample_manifest_answered: "\<exists>m s'. manifest_route route_api (sample_env 5) device_awaits free_budget free_budget
    ''http://x'' device_headers None True False manifest_store = (Inr m, s')"
proof -
  obtain x where r: "readDeviceProof (sample_env 5) manifest_store device_headers = Inr (device_values, dcredential, x)"
    using device_reads [OF manifest_store_fields(2,1)] by blast
  obtain s1 where c: "consumeDeviceProof (sample_env 5) (sample_env 5) id manifest_proof
    (credential_verifier route_api (pv_challenge device_values) (pv_signature device_values)) manifest_store =
    (Some (dcredential, dscreen), s1)" "schedules s1 = []" using manifest_proof_consumed by blast
  obtain m where m: "manifest_for route_api (sample_env 5) ''http://x'' (publicScreen s1 dscreen)
      (Some (pv_challengeId device_values)) (Some (dc_keyId dcredential)) s1 = Inr m"
    using sample_manifest_built [OF c(2)] by blast
  have "proved_manifest route_api device_awaits ''http://x'' device_headers manifest_store = (Inr m, s1)"
    unfolding proved_manifest_def device_awaits_fields r sum.case prod.case Let_def sample_request_digests
      manifest_proof_input consumeDeviceAuthChallenge_def id_apply c(1) option.case proof_result.case m by simp
  then show ?thesis by (simp add: manifest_route_def device_hooks_pass route_api_fields)
qed

theorem manifest_answers_its_prover_witness:
  "\<exists>m c h. proved_request route_api device_headers Op_manifest sample_digest 5000 c h \<and>
    field m ''screenId'' = jstr (dc_screenId c) \<and> field m ''requestChallengeId'' = jstr (ch_id h)"
proof -
  obtain D where D: "reachable (\<lambda>_. sample_digest) sample_users (int 4 * 1000) D manifest_store"
    using manifest_store_reachable by (rule sample_reach)
  obtain m s' where "manifest_route route_api (sample_env 5) device_awaits free_budget free_budget
    ''http://x'' device_headers None True False manifest_store = (Inr m, s')" using sample_manifest_answered by blast
  from manifest_answers_its_prover [OF D _ _ route_api_fields(1) this, unfolded device_awaits_fields id_apply,
      OF run.stay run.stay]
  show ?thesis by (auto simp: sample_request_digests)
qed

section \<open>A pairing\<close>












section \<open>A production server\<close>

lemma production_starts: "\<exists>da. start_api sample_config_platform sample_crypto route_server (\<lambda>_. []) (\<lambda>_. True)
    production_config = Some da \<and> cf_mediaAllowedOrigins (da_config da) = [''https://a.example'']"
proof -
  show ?thesis by (simp add: start_api_def production_config_fields production_origins)
qed

theorem production_server_is_safe_witness:
  "\<exists>da. start_api sample_config_platform sample_crypto route_server (\<lambda>_. []) (\<lambda>_. True) production_config = Some da \<and>
    da_mode da = Proof_v1 \<and> \<not> cf_emergencyPublishingEnabled (da_config da) \<and>
    list_all (public_https_origin sample_config_platform) [''https://a.example'']"
proof -
  obtain da where da: "start_api sample_config_platform sample_crypto route_server (\<lambda>_. []) (\<lambda>_. True)
    production_config = Some da" "cf_mediaAllowedOrigins (da_config da) = [''https://a.example'']"
    using production_starts by blast
  have "production_environ ''NODE_ENV'' = Some ''production''"
    by (simp add: production_environ_def del: replicate_numeral)
  from production_server_is_safe [OF production_loads this da(1)] da show ?thesis by simp
qed

end
