(* ===== verification/Spec2Isabelle.thy ===== *)
theory Spec2Isabelle
  imports Samples Retries Windows Snapshots Audit_Bounds Store_Properties Device_Properties
    Player_Properties Asset_Properties Delivery_Properties Request_Properties Scoped_Properties
    Signature_Properties Auth_Properties Timing_Properties Route_Samples
begin

text \<open>
  ScreenGoblin: the control plane of a digital-signage system and its players.

  The repository has an API (\<open>apps/api\<close>), a player that runs on the screens (\<open>apps/player\<close>) and
  an operator console (\<open>apps/console\<close>).  The state and the rules of the API live behind one
  interface, \<open>DataStore\<close> of \<open>apps/api/src/domain/types.ts\<close>; \<open>MemoryStore\<close>
  (\<open>apps/api/src/store/memory.ts\<close>) implements it in about 4000 lines, with helpers for policy,
  audit, schedules, media, canonical snapshots and enrollment codes.  This development models that
  store, operation by operation, and proves what holds of it after any sequence of operations.  It
  also models the scoped authorization and the rate limits of the API, the manifest it builds for a
  screen and the route that delivers media, and the core of the player: what it accepts, keeps,
  shows, and when it talks to the server; and that the two sides agree.

  The model.  One record \<open>store\<close> holds the arrays of \<open>MemoryStore\<close>; a record per interface of
  \<open>types.ts\<close> holds its fields, under a two-letter prefix, an optional field as an option.  An
  operation takes the environment of its call (\<open>env\<close>: the clock, the identifiers \<open>randomUUID\<close>
  will draw, SHA-256, collation, time zones, the URL parser), its arguments and the store, and
  returns an outcome: a thrown error or a result, and the store it leaves, so that an operation
  that throws half way shows what it has changed.  Denials and failures are values, as in the
  code.  Instants are milliseconds; the code compares their ISO strings, which theory Instants
  shows to be the same for the years 0 to 9999.  Digests are taken of the JSON text the code
  stringifies.  All definitions compute.

  The theories and what they model (paths under \<open>apps/api/src\<close> unless they say otherwise):
    \<^item> Prelude: outcomes, truthiness, the array idioms of the store, comparators.  Instants: the
      ECMA-262 calendar and \<open>toISOString\<close>.  Json: \<open>JSON.stringify\<close>, UTF-8 lengths, and
      \<open>canonicalJson\<close> of \<open>packages/contracts\<close>.
    \<^item> Domain: the records and unions of \<open>domain/types.ts\<close> and the store.
    \<^item> Policy: capabilities and roles (\<open>authorization/policy.ts\<close>, \<open>compatibility.ts\<close>).  Scoped:
      \<open>authorization/scoped.ts\<close> and \<open>shadow.ts\<close>; Scoped_Properties states the policy it implements
      and that the order of grants and targets does not matter.  Rate_Limit: \<open>utils/rate-limit.ts\<close>.
    \<^item> Audit_Log: \<open>audit/integrity.ts\<close>, and the contracts of audited operations as the locales
      \<open>logged_operation\<close>, \<open>atomic_operation\<close>, \<open>audited_operation\<close>; every operation is an
      interpretation of the strongest one it satisfies.  Audit_Bounds: what an accepted record
      guarantees.
    \<^item> Media_Policy: \<open>utils/media-policy.ts\<close>, \<open>utils/media-url.ts\<close>, storage keys of
      \<open>media/delivery.ts\<close>.  Schedule and Windows: \<open>utils/schedule.ts\<close>, with the locale
      \<open>constant_offset_zone\<close> for zones without transitions.  Canonical and Snapshots:
      \<open>releases/canonical.ts\<close> and \<open>device-enrollment/canonical.ts\<close>.
    \<^item> Identity, Screens, Content, Emergencies: the operations of \<open>store/memory.ts\<close> on users,
      sessions and failed logins; on locations and screens; on media and playlists; on emergencies
      and the log.
    \<^item> Pairing, Enrollment, DeviceProof: pairing codes and enrollment grants, their activation and
      the claims of devices, device challenges, the consumption of proofs and revocation.
      \<open>consumeDeviceProof\<close> looks at the store twice, with an arbitrary change in between.
    \<^item> Releases: candidates, their approval and publication, withdrawal, what a screen is served
      and which media it may fetch.
    \<^item> Auth_Routes: the checks of sessions and capabilities (\<open>plugins/auth.ts\<close>, \<open>utils/http.ts\<close>) and
      the routes of \<open>routes/auth.ts\<close>, which see the store again after each await; Auth_Properties: what
      a login issues, what a request that is let through has behind it, what a rotation ends.
      Device_Signatures: \<open>device-proof/crypto.ts\<close>, and the checks of \<open>apps/player/src/core/device.ts\<close>;
      Signature_Properties: that strict signatures are DER and unambiguous.
    \<^item> Server_Config: \<open>config.ts\<close>, the origins and secrets a server starts with.  Device_Routes: the
      routes of \<open>routes/devices.ts\<close> with their hooks, schemas and proofs, the digests of
      \<open>device-proof/canonical.ts\<close>, and what \<open>server.ts\<close> passes on from the configuration.
      Bound_Attempts: that a pairing attempt bound to a credential keeps its key.  Route_Properties: a
      manifest and an accepted heartbeat answer a device that has proved its key for exactly this
      request, a device is paired only under a key it has proved, and a server that starts in
      production asks for proofs.  Config_Samples, Route_Samples: their witnesses.
    \<^item> Device_Authority, Device_Challenges, Release_Governance, Release_Replay, Release_Content: the
      invariants of these groups and that every operation keeps them.
    \<^item> System: the step relation over all operations, runs with a clock that does not go back and
      identifiers that are not drawn twice, the locales \<open>step_invariant\<close> and \<open>store_invariant\<close>, and
      the invariant of every reachable store.  Store_Laws, Device_Laws, Retries: what lasts along
      runs (the log, spent challenges, withdrawals, candidates, publications until their withdrawal,
      credentials and their keys, owners).
    \<^item> Samples, Device_Samples: a concrete organization and device whose steps are evaluated, for
      the witnesses.
    \<^item> Player_Manifest: validation, normalisation and verification of manifests
      (\<open>apps/player/src/core/manifest.ts\<close>, \<open>crypto.ts\<close>), over untyped JSON values as in the code.
      Player_State: the transactions of \<open>storage.ts\<close>.  Player_Manager: \<open>ManifestManager\<close>, each
      operation cut at its awaits, where clock, cancellation and storage failures are observed.
      Player_Prefetch: the concurrent downloads as interleaved workers, and staging, download and
      activation together.  Player_Samples: a concrete player for the witnesses.
    \<^item> Player_Assets: the repositories of \<open>assets.ts\<close>, with the network, the browser's cache storage
      and the native plugin as parameters; Asset_Properties: what they promise the player.
    \<^item> Base64: UTF-8, base64 and percent encoding as Node and the browser have them.
      Media_Capability: the signed capabilities of \<open>media/delivery.ts\<close>, issued and verified.
      Media_Delivery: the exact-length stream and the reading of object store responses of the same
      file, and the handler of \<open>routes/media-delivery.ts\<close>, which awaits twice and so sees two stores.
      Device_Manifest: the manifest of \<open>routes/devices.ts\<close>, from the selection of an emergency or a
      release to the signature (\<open>utils/crypto.ts\<close>).
    \<^item> Player_Api: \<open>apps/player/src/core/api.ts\<close>: what the player accepts as challenge, pairing
      response, recovery record, manifest and heartbeat response, its retries and its polling for
      approval.  Request_Properties: how often and how long it asks.
    \<^item> End_To_End, Delivery_Laws, Delivery_Properties: a manifest that is built is accepted by the
      paired player, one with a repeated asset is not, its capabilities are honoured, and what is
      delivered is active and whole.
    \<^item> Heartbeat: \<open>heartbeat-scheduler.ts\<close> as a state and its events.  Deadlines: \<open>signed-deadline.ts\<close>,
      \<open>single-flight.ts\<close>, \<open>uptime.ts\<close>.
    \<^item> Windows, Snapshots, Audit_Bounds, Device_Properties, Store_Properties, Player_Properties,
      Asset_Properties, Delivery_Properties, Request_Properties, Scoped_Properties, Signature_Properties,
      Auth_Properties, Timing_Properties, Route_Properties and this theory state the numbered properties.

  Bounds.  No fuel is used: the one loop that is not structural, the bisection of \<open>schedule.ts\<close>,
  is a terminating function, and the download workers are a step relation with a bound on its runs.
  The limits are those of the code (four open challenges, 10000 login failures, 16384 metadata bytes,
  and so on).

  What is assumed of the platforms where the two sides meet is named: \<open>reads_claims\<close> (\<open>JSON.parse\<close>
  reads the text of the claims), \<open>reads_instants\<close> (\<open>Date.parse\<close> reads what \<open>toISOString\<close> writes),
  \<open>hmac_sized\<close>, \<open>trusts_signer\<close> (an Ed25519 signature verifies under the key of its seed),
  \<open>links_below\<close> and \<open>reads_data_urls\<close> (the URL parser).

  Not modelled.  The Prisma store repeats the contract over PostgreSQL and rests on its isolation
  levels and triggers.  The routes other than those of authentication, devices and media, JWT and
  bcrypt, and the request signatures of the object store are I/O or third-party code; HMAC, Ed25519,
  ECDSA, the verifier of a claim and of a proof (in the store; Device_Routes passes the one of
  Device_Signatures), JSON and date parsing, the URL parser and zod's reading of a body into a record
  are parameters.  Of \<open>server.ts\<close> the connections, signals and the options that do not
  concern devices are left out.  Time does not go back in the runs of the system and in the polling
  of the player; the player's other checks see whatever the wall clock shows.  Of the player's API client the building of requests and headers, the race of
  \<open>fetch\<close> with its timeout and abort signal (its outcome is a parameter) and a callback that throws
  while it stores a pending approval are left out, and of \<open>device.ts\<close> the calls of the native plugin.
  The player's state operations run one after another, as its queue has them, and other writers of its
  database are steps between them.
  The rounding of floating-point durations is not modelled.  The console and the Android shell are
  other programs.
  Store methods without an audit record
  (\<open>createMedia\<close>, \<open>createScreen\<close>, \<open>createPairing\<close>, \<open>claimPairing\<close> and the like) are modelled,
  but no route calls them, so they are not steps of the system; the users of the system are those
  it starts with, since no operation creates one.  Error texts of the audit validation are
  shortened, their classes kept; checks of object identity, prototypes and accessors have no
  counterpart for values that are trees.
\<close>

section \<open>Releases\<close>

text \<open>
  C1: whatever screen is served at whatever instant, the assignment that serves it is the
  publication of a stored candidate for this screen, and an approver who is not the candidate's
  author approved this candidate with this digest.
\<close>

theorem served_release_was_approved:
  assumes "reachable H us t D s"
    and "activeOrdinaryReleases e s org screenId u = Inr ras" "(r, a) \<in> set ras"
  shows "\<exists>c \<in> set (releaseCandidates s). publishes c a \<and> four_eyes c \<and> screenId \<in> set (cd_screenIds c)"
proof -
  obtain e0 :: env where "release_inv e0 s" by (rule reachable_releases [OF assms(1)])
  then show ?thesis using assms(2,3) by (rule served_was_approved)
qed

theorem served_release_was_approved_witness:
  "\<exists>c \<in> set (releaseCandidates store7). publishes c assignment1 \<and> four_eyes c \<and> ''iii-'' \<in> set (cd_screenIds c)"
proof -
  obtain D where "reachable (\<lambda>_. sample_digest) sample_users (int 7 * 1000) D store7"
    using sample_run(3) by (rule sample_reach)
  from served_release_was_approved [OF this served7] show ?thesis by simp
qed

text \<open>
  A media object is delivered only while it is part of what the screen is being served: if
  the delivery is authorized at an instant, the active releases of the screen at that instant
  contain an item with this asset, key, checksum and size.
\<close>

theorem delivered_media_is_active:
  assumes "reachable H us t D s"
    and "authorizeMediaDelivery e s input = Inr True" "mv_at input = Some u"
    and "activeOrdinaryReleases e s (mv_organizationId input) (mv_screenId input) u = Inr ras"
  shows "\<exists>(r, a) \<in> set ras. \<exists>i \<in> set (rl_items r). delivers input u i"
proof -
  obtain e0 :: env where "release_inv e0 s" by (rule reachable_releases [OF assms(1)])
  moreover have "\<forall>x \<in> set (schedules s). sd_id x \<noteq> []" "\<forall>a \<in> set (releaseAssignments s). ra_releaseId a \<noteq> []"
    using reachable_facts(4) [OF assms(1)] by (simp_all add: named_def)
  ultimately show ?thesis using assms(2-4) by (rule delivered_is_active)
qed

definition sample_delivery :: media_delivery_input where
  "sample_delivery = \<lparr>mv_organizationId = ''org'', mv_screenId = ''iii-'', mv_assignmentId = ''iiiiiii-k'',
     mv_assignmentDigestSha256 = sample_digest, mv_assetId = ''i-'',
     mv_storageKey = ''organizations/org/assets/i-/'' @ sample_digest,
     mv_checksumSha256 = sample_digest, mv_sizeBytes = 9, mv_at = Some 8000\<rparr>"

lemma sample_delivers: "delivers sample_delivery 8000 item1"
  by (simp add: delivers_def sample_delivery_def item1_def freeze_asset_def media1_def media0_def
      media_data.defs media.defs when_truthy_def toLowerCase_def lower_char_def sample_digest_def
      replicate_numeral Let_def)

lemma sample_authorized: "authorizeMediaDelivery (sample_env 8) store7 sample_delivery = Inr True"
  using sample_delivers
  by (simp add: authorizeMediaDelivery_def sample_delivery_def MAX_SAFE_INTEGER_def store7_fields
      assignment1_fields assignment_serves_def latestAssignment_def schedule0_term schedule0_open
      is_release_def release1_def digest_eval)

theorem delivered_media_is_active_witness:
  "\<exists>(r, a) \<in> set [(release1, assignment1)]. \<exists>i \<in> set (rl_items r). delivers sample_delivery 8000 i"
proof -
  obtain D where "reachable (\<lambda>_. sample_digest) sample_users (int 7 * 1000) D store7"
    using sample_run(3) by (rule sample_reach)
  then show ?thesis
    using sample_authorized by (rule delivered_media_is_active)
      (use served7 [of 8] in \<open>simp_all add: sample_delivery_def\<close>)
qed

text \<open>
  C12: a withdrawal is final: after it, whatever operations follow and at whatever instant, no
  screen is served an assignment of that schedule.
\<close>

theorem withdrawal_is_final:
  assumes "reachable H us t D s" "step_env H t D e"
    and "withdrawScheduleAndAudit e org i audit s = (Inr (Done w), s1)"
    and "run H (now e) (D \<union> range (new_id e)) s1 t' D' s'"
    and "activeOrdinaryReleases e' s' org' screenId u = Inr ras" "(r, a) \<in> set ras"
  shows "ra_scheduleId a \<noteq> i"
proof
  assume "ra_scheduleId a = i"
  have "store_step e s s1" using assms(3) by (intro store_step.release release_step.schedule_withdrawn)
  from reachable_next(3) [OF assms(1,2) this] withdraw_withdraws [OF assms(3)]
  have "system_inv H (now e) (D \<union> range (new_id e)) s1 \<and> withdrawn s1 i" by simp
  from withdrawal.along_run [OF assms(4) this] have w: "withdrawn s' i" by simp
  obtain x where x: "active_release e' s' org' screenId u x = Inr (Some (r, a))"
    using activeOrdinaryReleases_in [OF assms(5,6)] by blast
  from latestAssignment_SomeD [OF active_release_Some(1) [OF x]] \<open>ra_scheduleId a = i\<close>
  have "sd_id x = i" by simp
  with w x active_release_withdrawn show False by blast
qed

theorem withdrawal_is_final_witness:
  "\<exists>ras. activeOrdinaryReleases (sample_env 8) store9 ''org'' ''iii-'' 8000 = Inr ras \<and>
    (\<forall>(r, a) \<in> set ras. ra_scheduleId a \<noteq> ''iiiiiii-'')"
proof -
  obtain D where D: "reachable (\<lambda>_. sample_digest) sample_users (int 7 * 1000) D store7" "D \<subseteq> drawn 7"
    using sample_run(3) by (rule sample_reach)
  have env: "step_env (\<lambda>_. sample_digest) (int 7 * 1000) D (sample_env 9)"
    by (rule sample_step_env [OF D(2)]) simp_all
  have "activeOrdinaryReleases (sample_env 8) store9 ''org'' ''iii-'' 8000 = Inr []"
    by (simp add: activeOrdinaryReleases_def store9_def store7_fields active_release_def schedule1_fields
        latestAssignment_def assignment1_fields withdrawal1_def withdrawal_def)
  with withdrawal_is_final [OF D(1) env step9 run.stay this] show ?thesis by blast
qed

text \<open>
  C3: what a candidate says never changes: later it is still stored with the same content, in
  the same or a later state of the workflow; from its approval on the approval is fixed, and a
  published candidate does not change at all.  Only an unpublished candidate whose expiry is the
  retention period back may be gone.
\<close>

theorem candidate_content_is_fixed:
  assumes "reachable H us t D s" "c \<in> set (releaseCandidates s)" "run H t D s t' D' s'"
  shows "(\<exists>c' \<in> set (releaseCandidates s'). content_of c' = content_of c \<and> cd_state c \<le> cd_state c' \<and>
      (APPROVED \<le> cd_state c \<longrightarrow> cd_approval c' = cd_approval c) \<and>
      (cd_state c = PUBLISHED \<longrightarrow> c' = c)) \<or>
    cd_state c \<noteq> PUBLISHED \<and> cd_expiresAt c + CANDIDATE_RESPONSE_RETENTION_MS \<le> t'"
proof -
  have "system_inv H t D s \<and> survives t s c"
    using reachable_facts(1) [OF assms(1)] survives_same [OF assms(2)] by simp
  from candidate_history.along_run [OF assms(3) this] have "survives t' s' c" by simp
  then show ?thesis by (auto simp: survives_def evolves_def less_eq_candidate_state_def)
qed

theorem candidate_content_is_fixed_witness:
  "(\<exists>c' \<in> set (releaseCandidates store7). content_of c' = content_of approved1 \<and> APPROVED \<le> cd_state c' \<and>
      cd_approval c' = cd_approval approved1) \<or>
    100000 + CANDIDATE_RESPONSE_RETENTION_MS \<le> (7000 :: int)"
proof -
  obtain D where D: "reachable (\<lambda>_. sample_digest) sample_users (int 6 * 1000) D store6" "D \<subseteq> drawn 6"
    using sample_run(2) by (rule sample_reach)
  have "step_env (\<lambda>_. sample_digest) (int 6 * 1000) D (sample_env 7)"
    by (rule sample_step_env [OF D(2)]) simp_all
  from run.step [OF run.stay this store_step.release [OF release_step.candidate_published [OF step7]]]
  have r: "run (\<lambda>_. sample_digest) (int 6 * 1000) D store6 (now (sample_env 7))
    (D \<union> range (new_id (sample_env 7))) store7" .
  have "approved1 \<in> set (releaseCandidates store6)" by (simp add: store6_fields)
  from candidate_content_is_fixed [OF D(1) this r] show ?thesis
    by (simp add: approved1_def review1_def draft1_def)
qed

text \<open>
  Looking up the remembered response of a command never throws: while the response is
  kept, the live candidate is consistent with it, so the internal error of the replay cannot
  occur in any reachable store.
\<close>

theorem remembered_response_is_consistent:
  assumes "reachable H us t D s" "step_env H t D e"
  shows "releaseCandidateReplay e org op audit idem s \<noteq> Inl x"
proof -
  have "sha256 e = H" "t \<le> now e" using assms(2) by (simp_all add: step_env_def)
  with reachable_facts(2,3) [OF assms(1)] show ?thesis by (intro replay_never_fails)
qed

theorem remembered_response_is_consistent_witness:
  "\<forall>x. releaseCandidateReplay (sample_env 9) ''org'' Op_publish (by_user ''ann'')
    (command CHR ''4'') store7 \<noteq> Inl x"
proof
  fix x
  obtain D where D: "reachable (\<lambda>_. sample_digest) sample_users (int 7 * 1000) D store7" "D \<subseteq> drawn 7"
    using sample_run(3) by (rule sample_reach)
  have "step_env (\<lambda>_. sample_digest) (int 7 * 1000) D (sample_env 9)"
    by (rule sample_step_env [OF D(2)]) simp_all
  with D(1) show "releaseCandidateReplay (sample_env 9) ''org'' Op_publish (by_user ''ann'')
      (command CHR ''4'') store7 \<noteq> Inl x"
    by (rule remembered_response_is_consistent)
qed

text \<open>
  C22: publishing again with the same idempotency key, before the response is forgotten, returns
  the published candidate once more, marked as a replay, and changes nothing.
\<close>

theorem retried_publication_is_a_replay:
  assumes "reachable H us t D s" "step_env H t D e"
    and "publishReleaseCandidateAndAudit e org i d audit origins idem s = (Inr (Completed c False), s')"
    and "step_env H (now e) (D \<union> range (new_id e)) e'" "now e' < now e + CANDIDATE_RESPONSE_RETENTION_MS"
  shows "publishReleaseCandidateAndAudit e' org i d audit origins idem s' = (Inr (Completed c True), s')"
proof -
  have "store_step e s s'" using assms(3) by (intro store_step.release release_step.candidate_published)
  from reachable_next(2,4) [OF assms(1,2) this] assms(4)
  have "release_inv e' s'" "replay_inv (now e) s'" "now e \<le> now e'" by (simp_all add: step_env_def)
  with retried_guard [OF assms(3) [unfolded publishReleaseCandidateAndAudit_def] publish_settled [OF assms(3)]]
    assms(5) show ?thesis unfolding publishReleaseCandidateAndAudit_def by blast
qed

theorem retried_publication_is_a_replay_witness:
  "publishReleaseCandidateAndAudit (sample_env 9) ''org'' ''iiii-k'' sample_digest (by_user ''ann'') [''https://m'']
     (command CHR ''4'') store7 = (Inr (Completed published1 True), store7)"
proof -
  obtain D where D: "reachable (\<lambda>_. sample_digest) sample_users (int 6 * 1000) D store6" "D \<subseteq> drawn 6"
    using sample_run(2) by (rule sample_reach)
  have e: "step_env (\<lambda>_. sample_digest) (int 6 * 1000) D (sample_env 7)"
    by (rule sample_step_env [OF D(2)]) simp_all
  have "D \<union> range (new_id (sample_env 7)) \<subseteq> drawn 7" using D(2) by (force simp: drawn_def ids)
  then have "step_env (\<lambda>_. sample_digest) (now (sample_env 7)) (D \<union> range (new_id (sample_env 7))) (sample_env 9)"
    by (rule sample_step_env) simp_all
  with retried_publication_is_a_replay [OF D(1) e step7] show ?thesis
    by (simp add: CANDIDATE_RESPONSE_RETENTION_MS_def)
qed

text \<open>
  C18: a publication reaches its screens: from the publication on, after whatever operations, until
  its schedule is withdrawn, a listed screen is served the candidate's release under the
  candidate's assignment at every instant at which the schedule is in force and the lookup of the
  active releases returns a list instead of throwing.
\<close>

theorem publication_is_served:
  assumes "reachable H us t D s" "step_env H t D e"
    and "publishReleaseCandidateAndAudit e org i d audit origins idem s = (Inr (Completed c False), s1)"
    and "run H (now e) (D \<union> range (new_id e)) s1 t' D' s'"
    and "cd_scheduleId c = Some k" "\<not> withdrawn s' k"
    and "sha256 e' = H" "screenId \<in> set (cd_screenIds c)" "in_term (cd_schedule c) u"
    and "matchesScheduleWindow e' (cd_schedule c) u = Inr True"
    and "activeOrdinaryReleases e' s' org screenId u = Inr ras"
  shows "\<exists>(r, a) \<in> set ras. publishes c a \<and> rl_id r = cd_releaseId c \<and>
    rl_digestSha256 r = cd_releaseDigestSha256 c"
proof -
  have "store_step e s s1" using assms(3) by (intro store_step.release release_step.candidate_published)
  note next_store = reachable_next(1,3) [OF assms(1,2) this]
  obtain x a r where force: "in_force x a r s1" and x: "schedules_assignment x a" "ra_releaseId a \<noteq> []"
      "ra_state a = ASSIGNED" and p: "publishes c a" "cd_scheduleId c = Some (sd_id x)"
      "ra_organizationId a = org" "hasValidStoredAssignmentDigest e a r"
      and r: "rl_id r = cd_releaseId c" "rl_digestSha256 r = cd_releaseDigestSha256 c"
    using published_in_force [OF assms(3) reachable_facts(4) [OF next_store(1)]] .
  have "in_force x a r s' \<or> withdrawn s' (sd_id x)"
    using publication.along_run [OF assms(4)] next_store(2) force by blast
  with assms(5,6) p(2) have "in_force x a r s'" by simp
  moreover have "hasValidStoredAssignmentDigest e' a r"
    using valid_assignment_env [of e' e] p(4) assms(2,7) by (simp add: step_env_def)
  ultimately have "active_release e' s' org screenId u x = Inr (Some (r, a))"
    using in_force_is_active [OF _ x p(3)] p(1) assms(8-10) by (simp add: publishes_def)
  moreover have "x \<in> set (schedules s')" using \<open>in_force x a r s'\<close> by (simp add: in_force_def)
  ultimately have "(r, a) \<in> set ras"
    by (intro collect_Inr_keeps [OF assms(11) [unfolded activeOrdinaryReleases_def]])
  with p(1) r show ?thesis by blast
qed

theorem publication_is_served_witness:
  "\<exists>(r, a) \<in> set [(release1, assignment1)]. publishes published1 a \<and> rl_id r = cd_releaseId published1 \<and>
    rl_digestSha256 r = cd_releaseDigestSha256 published1"
proof -
  obtain D where D: "reachable (\<lambda>_. sample_digest) sample_users (int 6 * 1000) D store6" "D \<subseteq> drawn 6"
    using sample_run(2) by (rule sample_reach)
  have e: "step_env (\<lambda>_. sample_digest) (int 6 * 1000) D (sample_env 7)"
    by (rule sample_step_env [OF D(2)]) simp_all
  have p: "cd_screenIds published1 = [''iii-'']" "cd_schedule published1 = frozen_of schedule0"
    "cd_scheduleId published1 = Some ''iiiiiii-''"
    by (simp_all add: published1_def approved1_def review1_def draft1_def sample_env_def)
  have w: "\<not> withdrawn store7 ''iiiiiii-''"
    by (simp add: withdrawn_def latestAssignment_def store7_fields assignment1_fields)
  show ?thesis
    by (rule publication_is_served [OF D(1) e step7 run.stay p(3) w, of "sample_env 8" "''iii-''" 8000])
      (use served7 [of 8] schedule0_term schedule0_open in \<open>simp_all add: p env_simps [abs_def] fun_eq_iff\<close>)
qed

end
